(* ===== verification/Prelude.thy ===== *)
theory Prelude
  imports Complex_Main "HOL-Library.List_Lexorder" "HOL-Library.Char_ord"
    "HOL-Library.Product_Lexorder" "HOL-Library.Multiset" "HOL-Library.AList"
begin

text \<open>
  The shared vocabulary of the development: the exceptions the Python code raises and the
  result type every fallible function returns, the sequencing of raising checks, strings with
  the bounded patterns of the domain, timezone-aware timestamps, and the generic facts on
  lists that the component theories use.
\<close>

named_theorems result_simps \<open>equations and inversions of the result type\<close>

section \<open>Exceptions\<close>

text \<open>
  One constructor per exception class that the modelled code raises or catches. The class
  hierarchy, which decides what an \<open>except\<close> clause catches, is the predicates below.
  Messages are kept where the source fixes them.
\<close>

datatype exn =
    ValueError string
  | ValidationError string
  | JobTransitionError string
  | ComparisonConfigurationError string
  | RunnerConfigurationError string
  | CanonicalJsonError string
  | LookupError string
  | OverflowError string
  | TransientExecutionError
  | OtherException string
  | ControlPlaneRepositoryError string
  | RecordNotFoundError string
  | ImmutableRecordConflictError string
  | StoreIdempotencyConflictError string
  | ResourceAlreadySubmittedError string
  | StoreInvalidCursorError string
  | ConcurrentTransitionError string
  | IllegalJobTransitionError string
  | LeaseLostError string
  | CorruptRecordError string
  | PayloadTooLargeError string
  | ControlPlaneStoreError string
  | ResourceNotFoundError string
  | ResourceConflictError string
  | IdempotencyConflictError string
  | InvalidCursorError string
  | InvalidSubmissionError string
  | WorkerConfigurationError
  | WorkerUnavailableError
  | WorkerInvariantError
  | IntegrityError
  | SQLAlchemyError

fun is_value_error :: "exn \<Rightarrow> bool" where
  "is_value_error (ValueError _) = True"
| "is_value_error (ValidationError _) = True"
| "is_value_error (JobTransitionError _) = True"
| "is_value_error (ComparisonConfigurationError _) = True"
| "is_value_error (RunnerConfigurationError _) = True"
| "is_value_error (CanonicalJsonError _) = True"
| "is_value_error _ = False"

fun is_lease_lost_error :: "exn \<Rightarrow> bool" where
  "is_lease_lost_error (LeaseLostError _) = True"
| "is_lease_lost_error _ = False"

fun is_store_transition_error :: "exn \<Rightarrow> bool" where
  "is_store_transition_error (ConcurrentTransitionError _) = True"
| "is_store_transition_error (IllegalJobTransitionError _) = True"
| "is_store_transition_error (LeaseLostError _) = True"
| "is_store_transition_error _ = False"

fun is_store_conflict_error :: "exn \<Rightarrow> bool" where
  "is_store_conflict_error (ImmutableRecordConflictError _) = True"
| "is_store_conflict_error (StoreIdempotencyConflictError _) = True"
| "is_store_conflict_error (ResourceAlreadySubmittedError _) = True"
| "is_store_conflict_error _ = False"

fun is_store_not_found_error :: "exn \<Rightarrow> bool" where
  "is_store_not_found_error (RecordNotFoundError _) = True"
| "is_store_not_found_error _ = False"

fun is_repository_error :: "exn \<Rightarrow> bool" where
  "is_repository_error (ControlPlaneRepositoryError _) = True"
| "is_repository_error (RecordNotFoundError _) = True"
| "is_repository_error (ImmutableRecordConflictError _) = True"
| "is_repository_error (StoreIdempotencyConflictError _) = True"
| "is_repository_error (ResourceAlreadySubmittedError _) = True"
| "is_repository_error (StoreInvalidCursorError _) = True"
| "is_repository_error (ConcurrentTransitionError _) = True"
| "is_repository_error (IllegalJobTransitionError _) = True"
| "is_repository_error (LeaseLostError _) = True"
| "is_repository_error (CorruptRecordError _) = True"
| "is_repository_error (PayloadTooLargeError _) = True"
| "is_repository_error _ = False"

fun is_store_error :: "exn \<Rightarrow> bool" where
  "is_store_error (ControlPlaneStoreError _) = True"
| "is_store_error e = is_repository_error e"

fun is_integrity_error :: "exn \<Rightarrow> bool" where
  "is_integrity_error IntegrityError = True"
| "is_integrity_error _ = False"

fun is_sqlalchemy_error :: "exn \<Rightarrow> bool" where
  "is_sqlalchemy_error SQLAlchemyError = True"
| "is_sqlalchemy_error e = is_integrity_error e"

section \<open>Results\<close>

type_synonym 'a res = "exn + 'a"

text \<open>Sequencing: \<open>rbind m f\<close> runs \<open>f\<close> on the value of \<open>m\<close>, or stops at its exception.\<close>

definition rbind :: "'a res \<Rightarrow> ('a \<Rightarrow> 'b res) \<Rightarrow> 'b res" where
  "rbind m f = (case m of Inl e \<Rightarrow> Inl e | Inr x \<Rightarrow> f x)"

text \<open>A run of \<open>if condition: raise exception\<close> statements, in the source's order.\<close>

fun checks :: "(bool \<times> exn) list \<Rightarrow> unit res" where
  "checks [] = Inr ()"
| "checks ((c, e) # cs) = (if c then Inl e else checks cs)"

text \<open>\<open>try m except caught as e: h e\<close>.\<close>

definition rcatch :: "(exn \<Rightarrow> bool) \<Rightarrow> (exn \<Rightarrow> 'a res) \<Rightarrow> 'a res \<Rightarrow> 'a res" where
  "rcatch caught h m = (case m of Inl e \<Rightarrow> (if caught e then h e else Inl e) | Inr x \<Rightarrow> Inr x)"

fun rmap :: "('a \<Rightarrow> 'b res) \<Rightarrow> 'a list \<Rightarrow> 'b list res" where
  "rmap f [] = Inr []"
| "rmap f (x # xs) = rbind (f x) (\<lambda>y. rbind (rmap f xs) (\<lambda>ys. Inr (y # ys)))"

text \<open>Evaluating an optional value that is an error when absent.\<close>

definition of_option :: "exn \<Rightarrow> 'a option \<Rightarrow> 'a res" where
  "of_option e x = (case x of None \<Rightarrow> Inl e | Some v \<Rightarrow> Inr v)"

fun is_ok :: "'a res \<Rightarrow> bool" where
  "is_ok (Inl _) = False"
| "is_ok (Inr _) = True"

lemma rbind_simps [simp]: "rbind (Inl e) f = Inl e" "rbind (Inr x) f = f x"
  by (simp_all add: rbind_def)

lemma rbind_Inr_iff [result_simps]:
  "rbind m f = Inr y \<longleftrightarrow> (\<exists>x. m = Inr x \<and> f x = Inr y)"
  by (cases m) simp_all

lemma rbind_Inl_iff [result_simps]:
  "rbind m f = Inl e \<longleftrightarrow> m = Inl e \<or> (\<exists>x. m = Inr x \<and> f x = Inl e)"
  by (cases m) simp_all

lemma rbind_assoc: "rbind (rbind m f) g = rbind m (\<lambda>x. rbind (f x) g)"
  by (cases m) simp_all

text \<open>The simplifier leaves a continuation alone until the value it is applied to is known.\<close>

lemma rbind_weak_cong [cong]: "m = n \<Longrightarrow> rbind m f = rbind n f"
  by simp

lemma checks_Cons_Inr [result_simps]:
  "checks ((c, e) # cs) = Inr u \<longleftrightarrow> \<not> c \<and> checks cs = Inr u"
  by simp

lemma checks_Cons_Inl [result_simps]:
  "checks ((c, e) # cs) = Inl x \<longleftrightarrow> c \<and> x = e \<or> \<not> c \<and> checks cs = Inl x"
  by auto

lemma checks_Cons_cases [simp]:
  "c \<Longrightarrow> checks ((c, e) # cs) = Inl e"
  "\<not> c \<Longrightarrow> checks ((c, e) # cs) = checks cs"
  by simp_all

lemma checks_Inl_mem: "checks cs = Inl e \<Longrightarrow> \<exists>c. (c, e) \<in> set cs \<and> c"
  by (induction cs rule: checks.induct) (auto split: if_splits)

lemma checks_ok_iff: "checks cs = Inr () \<longleftrightarrow> (\<forall>c e. (c, e) \<in> set cs \<longrightarrow> \<not> c)"
  by (induction cs rule: checks.induct) auto

declare checks.simps(2) [simp del]

lemma rcatch_simps [simp]:
  "rcatch p h (Inr x) = Inr x"
  "rcatch p h (Inl e) = (if p e then h e else Inl e)"
  by (simp_all add: rcatch_def)

lemma rcatch_Inr_iff [result_simps]:
  "rcatch p h m = Inr x \<longleftrightarrow> m = Inr x \<or> (\<exists>e. m = Inl e \<and> p e \<and> h e = Inr x)"
  by (cases m) auto

lemma of_option_simps [simp]:
  "of_option e None = Inl e" "of_option e (Some x) = Inr x"
  by (simp_all add: of_option_def)

lemma of_option_Inr_iff [result_simps]: "of_option e m = Inr x \<longleftrightarrow> m = Some x"
  by (cases m) simp_all

lemma rmap_Inr_length: "rmap f xs = Inr ys \<Longrightarrow> length ys = length xs"
  by (induction xs arbitrary: ys) (auto simp: result_simps)

lemma rmap_Inr_list_all2: "rmap f xs = Inr ys \<longleftrightarrow> list_all2 (\<lambda>x y. f x = Inr y) xs ys"
  by (induction xs arbitrary: ys) (auto simp: result_simps list_all2_Cons1)

lemma rmap_total: "(\<And>x. x \<in> set xs \<Longrightarrow> f x = Inr (g x)) \<Longrightarrow> rmap f xs = Inr (map g xs)"
  by (induction xs) simp_all

lemma rmap_total_ex: "(\<And>x. x \<in> set xs \<Longrightarrow> \<exists>y. f x = Inr y) \<Longrightarrow> \<exists>ys. rmap f xs = Inr ys"
  by (induction xs) force+

lemma rmap_Inr_mem:
  "rmap f xs = Inr ys \<Longrightarrow> y \<in> set ys \<Longrightarrow> \<exists>x \<in> set xs. f x = Inr y"
  by (induction xs arbitrary: ys) (auto simp: result_simps)

lemma is_ok_iff: "is_ok m \<longleftrightarrow> (\<exists>x. m = Inr x)"
  by (cases m) auto

lemma find_Some_mem: "List.find p xs = Some x \<Longrightarrow> x \<in> set xs \<and> p x"
  by (induction xs) (auto split: if_splits)

lemma find_None_all: "List.find p xs = None \<longleftrightarrow> (\<forall>x \<in> set xs. \<not> p x)"
  by (induction xs) auto

lemma find_unique:
  assumes "x \<in> set xs" "p x" "\<And>y. y \<in> set xs \<Longrightarrow> p y \<Longrightarrow> y = x"
  shows "List.find p xs = Some x"
proof (cases "List.find p xs")
  case None
  with assms(1,2) show ?thesis by (simp add: find_None_all)
next
  case (Some y)
  from find_Some_mem[OF Some] assms(3) have "y = x" by blast
  with Some show ?thesis by simp
qed

text \<open>
  A computation raises only exceptions of a class. The rules follow the structure of the code,
  so a bound on the exceptions of a function is proved from the bounds of its calls.
\<close>

named_theorems raises_intros \<open>exception classes of the result combinators\<close>

definition raises :: "(exn \<Rightarrow> bool) \<Rightarrow> 'a res \<Rightarrow> bool" where
  "raises P m \<longleftrightarrow> (\<forall>e. m = Inl e \<longrightarrow> P e)"

lemma raises_Inr [raises_intros, simp]: "raises P (Inr x)"
  by (simp add: raises_def)

lemma raises_Inl [simp]: "raises P (Inl e) \<longleftrightarrow> P e"
  by (simp add: raises_def)

lemma raises_InlI [raises_intros]: "P e \<Longrightarrow> raises P (Inl e)"
  by simp

lemma raises_rbind [raises_intros]:
  "raises P m \<Longrightarrow> (\<And>x. m = Inr x \<Longrightarrow> raises P (f x)) \<Longrightarrow> raises P (rbind m f)"
  by (cases m) simp_all

lemma raises_checks: "(\<And>c e. (c, e) \<in> set cs \<Longrightarrow> P e) \<Longrightarrow> raises P (checks cs)"
  by (auto simp: raises_def dest: checks_Inl_mem)

lemma raises_checks_Nil [raises_intros]: "raises P (checks [])"
  by simp

lemma raises_checks_Cons [raises_intros]: "P e \<Longrightarrow> raises P (checks cs) \<Longrightarrow> raises P (checks ((c, e) # cs))"
  by (cases c) simp_all

lemma raises_of_option [raises_intros]: "P e \<Longrightarrow> raises P (of_option e m)"
  by (cases m) simp_all

lemma raises_of_Some: "m = Some x \<Longrightarrow> raises P (of_option e m)"
  by simp

lemma raises_rmap [raises_intros]:
  "(\<And>x. x \<in> set xs \<Longrightarrow> raises P (f x)) \<Longrightarrow> raises P (rmap f xs)"
  by (induction xs) (auto intro!: raises_rbind)

lemma raises_if [raises_intros]:
  "(c \<Longrightarrow> raises P a) \<Longrightarrow> (\<not> c \<Longrightarrow> raises P b) \<Longrightarrow> raises P (if c then a else b)"
  by simp

lemma raises_case_option [raises_intros]:
  "(x = None \<Longrightarrow> raises P a) \<Longrightarrow> (\<And>y. x = Some y \<Longrightarrow> raises P (f y)) \<Longrightarrow>
   raises P (case x of None \<Rightarrow> a | Some y \<Rightarrow> f y)"
  by (cases x) simp_all

lemma raises_mono: "raises P m \<Longrightarrow> (\<And>e. P e \<Longrightarrow> Q e) \<Longrightarrow> raises Q m"
  by (simp add: raises_def)

lemma raisesD: "raises P m \<Longrightarrow> m = Inl e \<Longrightarrow> P e"
  by (simp add: raises_def)

section \<open>Duplicates and order\<close>

text \<open>The Python idiom \<open>len(xs) != len(set(xs))\<close>.\<close>

definition has_duplicates :: "'a list \<Rightarrow> bool" where
  "has_duplicates xs \<longleftrightarrow> length xs \<noteq> card (set xs)"

lemma has_duplicates_iff [simp]: "has_duplicates xs \<longleftrightarrow> \<not> distinct xs"
  by (metis card_distinct distinct_card has_duplicates_def)

text \<open>The Python idiom \<open>keys != sorted(keys)\<close>.\<close>

definition out_of_order :: "'a::linorder list \<Rightarrow> bool" where
  "out_of_order xs \<longleftrightarrow> xs \<noteq> sort xs"

lemma out_of_order_iff [simp]: "out_of_order xs \<longleftrightarrow> \<not> sorted xs"
  by (metis out_of_order_def sorted_sort sorted_sort_id)

lemma map_sort_key: "map f (sort_key f xs) = sort (map f xs)"
proof (rule properties_for_sort [symmetric])
  show "mset (map f (sort_key f xs)) = mset (map f xs)"
    by (metis mset_map mset_sort)
qed simp

lemma sort_key_perm:
  assumes "mset xs = mset ys" "distinct (map f xs)"
  shows "sort_key f xs = sort_key f ys"
  by (rule sort_key_inj_key_eq) (use assms in \<open>auto simp: distinct_map\<close>)

lemma distinct_map_perm: "mset xs = mset ys \<Longrightarrow> distinct (map f xs) \<longleftrightarrow> distinct (map f ys)"
  by (metis mset_eq_imp_distinct_iff mset_map)

lemma sort_key_sorted_id: "sorted (map f xs) \<Longrightarrow> sort_key f xs = xs"
  by (rule sort_key_id_if_sorted) simp

section \<open>Dictionaries\<close>

text \<open>
  A dictionary built from pairs in order, a later pair replacing an earlier one: an association
  list with distinct keys in insertion order, read with \<open>map_of\<close>. Equality of dictionaries is
  equality of their sets of entries.
\<close>

definition dict_of :: "('k \<times> 'v) list \<Rightarrow> ('k \<times> 'v) list" where
  "dict_of ps = fold (\<lambda>(k, v). AList.update k v) ps []"

definition dict_eq :: "('k \<times> 'v) list \<Rightarrow> ('k \<times> 'v) list \<Rightarrow> bool" where
  "dict_eq d e \<longleftrightarrow> set d = set e"

lemma dict_of_from_distinct:
  "distinct (map fst (d @ ps)) \<Longrightarrow> fold (\<lambda>(k, v). AList.update k v) ps d = d @ ps"
proof (induction ps arbitrary: d)
  case (Cons p ps)
  have upd: "k \<notin> fst ` set d \<Longrightarrow> AList.update k v d = d @ [(k, v)]" for k v
    by (induction d) auto
  show ?case using Cons.prems Cons.IH[of "d @ [p]"] by (auto simp: upd split: prod.split)
qed simp

lemma dict_of_distinct: "distinct (map fst ps) \<Longrightarrow> dict_of ps = ps"
  using dict_of_from_distinct[of "[]" ps] by (simp add: dict_of_def)

lemma distinct_dict_of: "distinct (map fst (dict_of ps))"
proof -
  have "distinct (map fst d) \<Longrightarrow> distinct (map fst (fold (\<lambda>(k, v). AList.update k v) ps d))" for d
    by (induction ps arbitrary: d) (auto simp: distinct_update)
  then show ?thesis by (simp add: dict_of_def)
qed

lemma dict_of_subset: "set (dict_of ps) \<subseteq> set ps"
proof -
  have "set (fold (\<lambda>(k, v). AList.update k v) ps d) \<subseteq> set ps \<union> set d" for d
  proof (induction ps arbitrary: d)
    case (Cons p ps)
    have "set (AList.update k v d) \<subseteq> insert (k, v) (set d)" for k and v
      by (induction d) auto
    with Cons.IH[of "AList.update (fst p) (snd p) d"] show ?case
      by (cases p) fastforce
  qed simp
  from this[of "[]"] show ?thesis by (simp add: dict_of_def)
qed

lemma keys_dict_of: "fst ` set (dict_of ps) = fst ` set ps"
proof -
  have "fst ` set (fold (\<lambda>(k, v). AList.update k v) ps d) = fst ` set d \<union> fst ` set ps" for d
  proof (induction ps arbitrary: d)
    case (Cons p ps)
    have "fst ` set (AList.update k v d) = insert k (fst ` set d)" for k and v
      by (induction d) auto
    with Cons.IH[of "AList.update (fst p) (snd p) d"] show ?case by (cases p) auto
  qed simp
  from this[of "[]"] show ?thesis by (simp add: dict_of_def)
qed

lemma map_of_dict_of_mem: "map_of (dict_of ps) k = Some v \<Longrightarrow> (k, v) \<in> set ps"
  using dict_of_subset map_of_SomeD by fastforce

lemma map_of_dict_of_ex: "k \<in> fst ` set ps \<Longrightarrow> \<exists>v. map_of (dict_of ps) k = Some v"
  by (metis keys_dict_of map_of_eq_None_iff not_None_eq)

section \<open>Bounded identifier patterns\<close>

text \<open>
  The domain's string types are pydantic fields with a length bound and a pattern
  \<open>^[first][rest]*$\<close>; \<open>$\<close> matches at the end of the text only, both in pydantic's
  regex engine and under \<open>fullmatch\<close>.
\<close>

definition is_lower :: "char \<Rightarrow> bool" where
  "is_lower c \<longleftrightarrow> CHR ''a'' \<le> c \<and> c \<le> CHR ''z''"

definition is_digit :: "char \<Rightarrow> bool" where
  "is_digit c \<longleftrightarrow> CHR ''0'' \<le> c \<and> c \<le> CHR ''9''"

definition is_alpha :: "char \<Rightarrow> bool" where
  "is_alpha c \<longleftrightarrow> is_lower c \<or> (CHR ''A'' \<le> c \<and> c \<le> CHR ''Z'')"

definition is_alnum :: "char \<Rightarrow> bool" where
  "is_alnum c \<longleftrightarrow> is_alpha c \<or> is_digit c"

definition is_hex :: "char \<Rightarrow> bool" where
  "is_hex c \<longleftrightarrow> is_digit c \<or> (CHR ''a'' \<le> c \<and> c \<le> CHR ''f'')"

definition matches :: "(char \<Rightarrow> bool) \<Rightarrow> (char \<Rightarrow> bool) \<Rightarrow> nat \<Rightarrow> string \<Rightarrow> bool" where
  "matches first rest bound s \<longleftrightarrow>
     (case s of [] \<Rightarrow> False
      | c # cs \<Rightarrow> first c \<and> list_all rest cs \<and> length s \<le> bound)"

lemma matches_length: "matches f r n s \<Longrightarrow> 1 \<le> length s \<and> length s \<le> n"
  by (auto simp: matches_def split: list.splits)

section \<open>Timestamps\<close>

text \<open>
  A Python \<open>datetime\<close> is naive, or aware with an offset from UTC; both are counted in
  microseconds. After \<open>_utc\<close> a timestamp is the number of microseconds since the epoch.
  (Python bounds years to 1..9999; that bound is not modelled.)
\<close>

datatype datetime = Naive int | Aware int int

type_synonym instant = int

definition utc :: "string \<Rightarrow> datetime \<Rightarrow> instant res" where
  "utc message value =
     (case value of Naive _ \<Rightarrow> Inl (ValueError message)
      | Aware local_time offset \<Rightarrow> Inr (local_time - offset))"

lemma utc_simps [simp]:
  "utc m (Naive t) = Inl (ValueError m)"
  "utc m (Aware t z) = Inr (t - z)"
  by (simp_all add: utc_def)

definition seconds :: "int \<Rightarrow> int" where
  "seconds n = n * 1000000"

end
