(* ===== verification/Floats.thy ===== *)
theory Floats
  imports Prelude "HOL-Library.Log_Nat"
begin

text \<open>
  The floating-point arithmetic of the code: Python \<open>float\<close> is IEEE 754 binary64, and a finite
  float is a rational number of the form m * 2 ^ e. A model value of type \<open>rat\<close> is such a
  number; every operation that rounds does so explicitly through \<open>round64\<close>, round to nearest,
  ties to even, with \<open>None\<close> where the result overflows to an infinity. Comparisons are exact.
  The two zeros are one number here; the code never tells them apart. \<open>math.fsum\<close> returns the
  exact sum rounded once, \<open>str\<close> of a float is the shortest decimal that reads back as it, and
  \<open>Decimal\<close> subtraction rounds to 28 significant digits (the default context).
\<close>

section \<open>Rounding to a scale\<close>

definition round_half_even :: "rat \<Rightarrow> int" where
  "round_half_even x =
     (let f = \<lfloor>x\<rfloor>; d = x - of_int f
      in if d < 1/2 then f else if 1/2 < d then f + 1 else if even f then f else f + 1)"

text \<open>The exponent e with b ^ e <= |x| < b ^ (e + 1), for x not zero.\<close>

definition scale_exp :: "nat \<Rightarrow> rat \<Rightarrow> int" where
  "scale_exp b x =
     (let (p, q) = quotient_of \<bar>x\<bar>;
          d = int (floorlog b (nat p)) - int (floorlog b (nat q))
      in if of_nat b powi d \<le> \<bar>x\<bar> then d else d - 1)"

definition round_at :: "rat \<Rightarrow> rat \<Rightarrow> rat" where
  "round_at u x = of_int (round_half_even (x / u)) * u"

definition ulp_exp :: "rat \<Rightarrow> int" where
  "ulp_exp x = max (scale_exp 2 x - 52) (- 1074)"

definition rnd64 :: "rat \<Rightarrow> rat" where
  "rnd64 x = (if x = 0 then 0 else round_at (2 powi ulp_exp x) x)"

definition round64 :: "rat \<Rightarrow> rat option" where
  "round64 x = (let r = rnd64 x in if 2 ^ 1024 \<le> \<bar>r\<bar> then None else Some r)"

definition is_float64 :: "rat \<Rightarrow> bool" where
  "is_float64 x \<longleftrightarrow> round64 x = Some x"

section \<open>Arithmetic the code uses\<close>

text \<open>
  \<open>math.fsum\<close>: the exact sum, rounded once; an intermediate sum outside the finite range
  raises \<open>OverflowError\<close>.
\<close>

fun fsum_from :: "rat \<Rightarrow> rat list \<Rightarrow> rat res" where
  "fsum_from acc [] = of_option (OverflowError ''intermediate overflow in fsum'') (round64 acc)"
| "fsum_from acc (x # xs) =
     (if round64 (acc + x) = None then Inl (OverflowError ''intermediate overflow in fsum'')
      else fsum_from (acc + x) xs)"

definition fsum :: "rat list \<Rightarrow> rat res" where
  "fsum xs = fsum_from 0 xs"

text \<open>\<open>math.fsum(values) / len(values) if values else None\<close>.\<close>

definition fmean :: "rat list \<Rightarrow> rat option res" where
  "fmean xs =
     (if xs = [] then Inr None
      else rbind (fsum xs) (\<lambda>s. rbind
        (of_option (OverflowError ''division'') (round64 (s / of_nat (length xs))))
        (\<lambda>m. Inr (Some m))))"

text \<open>\<open>math.isclose(a, b, rel_tol=0.0, abs_tol=1e-12)\<close>; the difference is a float difference.\<close>

definition abs_tol :: rat where
  "abs_tol = rnd64 (1 / 10 ^ 12)"

definition isclose :: "rat \<Rightarrow> rat \<Rightarrow> bool" where
  "isclose a b \<longleftrightarrow>
     a = b \<or> (case round64 (b - a) of None \<Rightarrow> False | Some d \<Rightarrow> \<bar>d\<bar> \<le> abs_tol)"

text \<open>\<open>Decimal(str(x))\<close>: the shortest decimal that rounds to x, the nearest one of that length.\<close>

definition decimal_candidates :: "nat \<Rightarrow> rat \<Rightarrow> rat list" where
  "decimal_candidates n x =
     (let s = 10 powi (scale_exp 10 x - int n + 1); f = of_int \<lfloor>x / s\<rfloor>
      in filter (\<lambda>c. round64 c = Some x) [f * s, (f + 1) * s])"

fun repr_search :: "nat \<Rightarrow> nat \<Rightarrow> rat \<Rightarrow> rat" where
  "repr_search 0 n x = x"
| "repr_search (Suc fuel) n x =
     (case decimal_candidates n x of
        [] \<Rightarrow> repr_search fuel (Suc n) x
      | [c] \<Rightarrow> c
      | c # d # _ \<Rightarrow>
          (if \<bar>x - c\<bar> < \<bar>d - x\<bar> then c
           else if \<bar>d - x\<bar> < \<bar>x - c\<bar> then d
           else if even \<lfloor>c / 10 powi (scale_exp 10 x - int n + 1)\<rfloor> then c else d))"

text \<open>17 significant digits always suffice for binary64, so the search never runs dry on a float.\<close>

definition repr_decimal :: "rat \<Rightarrow> rat" where
  "repr_decimal x = (if x = 0 then 0 else repr_search 17 1 x)"

definition decimal_subtract :: "rat \<Rightarrow> rat \<Rightarrow> rat" where
  "decimal_subtract a b =
     (let d = a - b in if d = 0 then 0 else round_at (10 powi (scale_exp 10 d - 27)) d)"

section \<open>Rounding lemmas\<close>

lemma round_half_even_mono: "x \<le> y \<Longrightarrow> round_half_even x \<le> round_half_even y"
proof -
  assume le: "x \<le> y"
  then have fl: "\<lfloor>x\<rfloor> \<le> \<lfloor>y\<rfloor>" by (rule floor_mono)
  show ?thesis
  proof (cases "\<lfloor>x\<rfloor> = \<lfloor>y\<rfloor>")
    case True
    with le show ?thesis by (auto simp: round_half_even_def Let_def)
  next
    case False
    with fl have "\<lfloor>x\<rfloor> + 1 \<le> \<lfloor>y\<rfloor>" by simp
    then show ?thesis by (auto simp: round_half_even_def Let_def)
  qed
qed

lemma round_half_even_of_int [simp]: "round_half_even (of_int n) = n"
  by (simp add: round_half_even_def)

lemma round_half_even_minus: "round_half_even (- x) = - round_half_even x"
proof (cases "x \<in> \<int>")
  case True
  then obtain n where "x = of_int n" by (rule Ints_cases)
  then show ?thesis by (metis of_int_minus round_half_even_of_int)
next
  case False
  define f where "f = \<lfloor>x\<rfloor>"
  have "\<lceil>x\<rceil> = f + 1"
    using False unfolding f_def by (metis Ints_of_int ceiling_altdef)
  then have neg: "\<lfloor>- x\<rfloor> = - f - 1" by (simp add: floor_minus)
  have "x - of_int f < 1" "0 < x - of_int f"
    using False floor_correct[of x] unfolding f_def
    by (auto simp: less_le) (metis Ints_of_int)
  then show ?thesis
    unfolding round_half_even_def Let_def neg f_def[symmetric] by auto
qed

lemma floorlog_bounds_rat:
  assumes "1 < b" "0 < n"
  shows "(of_nat b :: rat) powi (int (floorlog b n) - 1) \<le> of_nat n"
    "(of_nat n :: rat) < of_nat b powi int (floorlog b n)"
proof -
  have "floorlog b n \<noteq> 0" using assms by (simp add: floorlog_eq_zero_iff)
  then have pos: "0 < floorlog b n" by simp
  have "b ^ (floorlog b n - 1) \<le> n \<and> n < b ^ floorlog b n"
    by (rule floorlog_bounds) (use assms in simp_all)
  moreover have "int (floorlog b n) - 1 = int (floorlog b n - 1)" using pos by simp
  ultimately show "(of_nat b :: rat) powi (int (floorlog b n) - 1) \<le> of_nat n"
    "(of_nat n :: rat) < of_nat b powi int (floorlog b n)"
    by (simp_all only: power_int_of_nat) (simp_all flip: of_nat_power)
qed

lemma scale_exp_bounds:
  assumes b: "1 < b" and x: "x \<noteq> 0"
  shows "of_nat b powi scale_exp b x \<le> \<bar>x\<bar>" "\<bar>x\<bar> < of_nat b powi (scale_exp b x + 1)"
proof -
  obtain p q where pq: "quotient_of \<bar>x\<bar> = (p, q)" by fastforce
  have q: "0 < q" using pq by (rule quotient_of_denom_pos)
  have xpq: "\<bar>x\<bar> = of_int p / of_int q" using pq by (rule quotient_of_div)
  have p: "0 < p"
  proof -
    have "0 < (of_int p / of_int q :: rat)" using x by (simp flip: xpq)
    then show ?thesis using q by (simp add: zero_less_divide_iff)
  qed
  define P Q where "P = nat p" and "Q = nat q"
  have PQ: "0 < P" "0 < Q" "\<bar>x\<bar> = of_nat P / of_nat Q"
    using p q xpq by (simp_all add: P_def Q_def)
  define d where "d = int (floorlog b P) - int (floorlog b Q)"
  let ?B = "of_nat b :: rat"
  have B: "0 < ?B" "?B \<noteq> 0" using b by simp_all
  have quot: "?B powi i / ?B powi j = ?B powi (i - j)" for i j
    using B by (simp add: power_int_diff)
  have pb: "?B powi (int (floorlog b P) - 1) \<le> of_nat P" "of_nat P < ?B powi int (floorlog b P)"
    using floorlog_bounds_rat[OF b PQ(1)] by auto
  have qb: "?B powi (int (floorlog b Q) - 1) \<le> of_nat Q" "of_nat Q < ?B powi int (floorlog b Q)"
    using floorlog_bounds_rat[OF b PQ(2)] by auto
  have "\<bar>x\<bar> < ?B powi int (floorlog b P) / ?B powi (int (floorlog b Q) - 1)"
    unfolding PQ(3) using pb qb B PQ
    by (intro frac_less) (simp_all add: zero_less_power_int)
  also have "\<dots> = ?B powi (d + 1)"
    unfolding quot d_def by (rule arg_cong[where f = "power_int ?B"]) simp
  finally have hi: "\<bar>x\<bar> < ?B powi (d + 1)" .
  have "?B powi (int (floorlog b P) - 1) / ?B powi int (floorlog b Q) \<le> \<bar>x\<bar>"
    unfolding PQ(3) using pb qb B PQ by (intro frac_le) (simp_all add: less_imp_le)
  moreover have "?B powi (int (floorlog b P) - 1) / ?B powi int (floorlog b Q) = ?B powi (d - 1)"
    unfolding quot d_def by (rule arg_cong[where f = "power_int ?B"]) simp
  ultimately have lo: "?B powi (d - 1) \<le> \<bar>x\<bar>" by simp
  have e: "scale_exp b x = (if ?B powi d \<le> \<bar>x\<bar> then d else d - 1)"
    using pq by (simp add: scale_exp_def d_def P_def Q_def)
  show "?B powi scale_exp b x \<le> \<bar>x\<bar>" "\<bar>x\<bar> < ?B powi (scale_exp b x + 1)"
    using e lo hi by auto
qed

lemma scale_exp_mono:
  assumes b: "1 < b" and x: "x \<noteq> 0" and le: "\<bar>x\<bar> \<le> \<bar>y\<bar>"
  shows "scale_exp b x \<le> scale_exp b y"
proof (rule ccontr)
  assume "\<not> ?thesis"
  then have "scale_exp b y + 1 \<le> scale_exp b x" by simp
  then have "of_nat b powi (scale_exp b y + 1) \<le> (of_nat b powi scale_exp b x :: rat)"
    using b by (intro power_int_increasing) simp_all
  moreover have "y \<noteq> 0" using x le by auto
  ultimately show False
    using scale_exp_bounds[OF b x] scale_exp_bounds[OF b \<open>y \<noteq> 0\<close>] le by linarith
qed

lemma scale_exp_minus [simp]: "scale_exp b (- x) = scale_exp b x"
  by (simp add: scale_exp_def)

lemma round_at_mono: "0 < u \<Longrightarrow> x \<le> y \<Longrightarrow> round_at u x \<le> round_at u y"
  unfolding round_at_def
  by (intro mult_right_mono) (simp_all add: round_half_even_mono divide_right_mono)

lemma round_at_minus: "round_at u (- x) = - round_at u x"
  by (simp add: round_at_def round_half_even_minus)

lemma round_at_multiple: "u \<noteq> 0 \<Longrightarrow> round_at u (of_int n * u) = of_int n * u"
  by (simp add: round_at_def)

lemma rnd64_minus: "rnd64 (- x) = - rnd64 x"
  by (simp add: rnd64_def ulp_exp_def round_at_minus)

lemma rnd64_zero [simp]: "rnd64 0 = 0"
  by (simp add: rnd64_def)

text \<open>A power of two at or above the unit in the last place is a multiple of it.\<close>

lemma power_multiple_of_ulp:
  assumes "u \<le> k"
  shows "\<exists>n. (2 :: rat) powi k = of_int n * 2 powi u"
proof -
  have "(2 :: rat) powi k = 2 powi (k - u) * 2 powi u"
    by (simp flip: power_int_add)
  also have "(2 :: rat) powi (k - u) = of_int (2 ^ nat (k - u))"
    using assms by (simp add: power_int_def)
  finally show ?thesis by blast
qed

lemma rnd64_nonneg: "0 \<le> x \<Longrightarrow> 0 \<le> rnd64 x"
  unfolding rnd64_def using round_at_mono[of "2 powi ulp_exp x" 0 x] round_at_multiple[of _ 0]
  by (auto simp: zero_less_power_int)

lemma rnd64_mono_pos:
  assumes x: "0 < x" and xy: "x \<le> y"
  shows "rnd64 x \<le> rnd64 y"
proof (cases "ulp_exp x = ulp_exp y")
  case True
  with x xy show ?thesis by (simp add: rnd64_def round_at_mono zero_less_power_int)
next
  case False
  define ex ey ux uy where "ex = scale_exp 2 x" and "ey = scale_exp 2 y"
    and "ux = ulp_exp x" and "uy = ulp_exp y"
  have nz: "x \<noteq> 0" "y \<noteq> 0" using x xy by auto
  have "ex \<le> ey" unfolding ex_def ey_def by (rule scale_exp_mono) (use x xy in auto)
  then have lt: "ux < uy" "ex < ey"
    using False unfolding ux_def uy_def ex_def ey_def ulp_exp_def by (auto simp: max_def split: if_splits)
  have yexp: "uy \<le> ey" "ux \<le> ey"
    using lt unfolding ux_def uy_def ex_def ey_def ulp_exp_def by (auto simp: max_def split: if_splits)
  have "x < 2 powi (ex + 1)" and by_: "2 powi ey \<le> y"
    using scale_exp_bounds[of 2 x] scale_exp_bounds[of 2 y] nz x xy unfolding ex_def ey_def by auto
  moreover have "(2 :: rat) powi (ex + 1) \<le> 2 powi ey"
    using lt by (intro power_int_increasing) simp_all
  ultimately have bx: "x \<le> 2 powi ey" by simp
  have exact: "round_at (2 powi u) (2 powi ey) = 2 powi ey" if "u \<le> ey" for u
    using power_multiple_of_ulp[OF that] by (metis power_int_eq_0_iff round_at_multiple zero_neq_numeral)
  have "rnd64 x \<le> round_at (2 powi ux) (2 powi ey)"
    using bx nz by (simp add: rnd64_def ux_def[symmetric] round_at_mono zero_less_power_int)
  also have "\<dots> = round_at (2 powi uy) (2 powi ey)"
    using exact yexp by simp
  also have "\<dots> \<le> rnd64 y"
    using by_ nz by (simp add: rnd64_def uy_def[symmetric] round_at_mono zero_less_power_int)
  finally show ?thesis .
qed

lemma rnd64_mono: "x \<le> y \<Longrightarrow> rnd64 x \<le> rnd64 y"
proof -
  assume le: "x \<le> y"
  consider "0 < x" | "x \<le> 0" "0 \<le> y" | "y < 0" by linarith
  then show ?thesis
  proof cases
    case 1 then show ?thesis using le by (rule rnd64_mono_pos)
  next
    case 2
    then have "rnd64 x \<le> 0" using rnd64_nonneg[of "- x"] by (simp add: rnd64_minus)
    also have "0 \<le> rnd64 y" using 2 by (simp add: rnd64_nonneg)
    finally show ?thesis .
  next
    case 3
    then have "rnd64 (- y) \<le> rnd64 (- x)" using le by (intro rnd64_mono_pos) auto
    then show ?thesis by (simp add: rnd64_minus)
  qed
qed

section \<open>Concrete values\<close>

lemma scale_exp_less: "1 < b \<Longrightarrow> x \<noteq> 0 \<Longrightarrow> \<bar>x\<bar> < of_nat b powi k \<Longrightarrow> scale_exp b x < k"
proof (rule ccontr)
  assume b: "1 < b" and x: "x \<noteq> 0" "\<bar>x\<bar> < of_nat b powi k" and "\<not> scale_exp b x < k"
  then have "of_nat b powi k \<le> (of_nat b powi scale_exp b x :: rat)"
    by (intro power_int_increasing) simp_all
  with scale_exp_bounds(1)[OF b x(1)] x(2) show False by linarith
qed

lemma scale_exp_eqI:
  assumes "1 < b" "of_nat b powi e \<le> \<bar>x\<bar>" "\<bar>x\<bar> < of_nat b powi (e + 1)"
  shows "scale_exp b x = e"
proof -
  have "0 < (of_nat b powi e :: rat)" using assms(1) by (simp add: zero_less_power_int)
  then have x: "x \<noteq> 0" using assms(2) by auto
  have "\<not> scale_exp b x + 1 \<le> e"
  proof
    assume "scale_exp b x + 1 \<le> e"
    then have "of_nat b powi (scale_exp b x + 1) \<le> (of_nat b powi e :: rat)"
      using assms(1) by (intro power_int_increasing) simp_all
    with scale_exp_bounds(2)[OF assms(1) x] assms(2) show False by linarith
  qed
  with scale_exp_less[OF assms(1) x assms(3)] show ?thesis by simp
qed

lemma round_half_even_eqI:
  assumes "\<bar>x - of_int n\<bar> < 1/2"
  shows "round_half_even x = n"
proof (cases "of_int n \<le> x")
  case True
  then have "\<lfloor>x\<rfloor> = n" using assms by (intro floor_unique) linarith+
  then show ?thesis using assms True by (simp add: round_half_even_def Let_def)
next
  case False
  then have "\<lfloor>x\<rfloor> = n - 1" using assms by (intro floor_unique) (simp; linarith)+
  then show ?thesis using assms False by (simp add: round_half_even_def Let_def)
qed

text \<open>
  A concrete rounding below \<open>2 ^ 53\<close>: scaled by a power of two into the 53-bit binade, the value
  rounds to its significand.
\<close>

lemma rnd64_eqI:
  assumes "2 ^ 52 \<le> \<bar>x\<bar> * 2 ^ k" "\<bar>x\<bar> * 2 ^ k < 2 ^ 53" "k \<le> 1074"
    "\<bar>x * 2 ^ k - of_int n\<bar> < 1/2"
  shows "rnd64 x = of_int n / 2 ^ k"
proof -
  have split: "(2 :: rat) powi (52 - int k) = 2 ^ 52 / 2 ^ k" "(2 :: rat) powi (53 - int k) = 2 ^ 53 / 2 ^ k"
    by (simp_all add: power_int_diff)
  have "scale_exp 2 x = 52 - int k"
  proof (rule scale_exp_eqI)
    show "of_nat 2 powi (52 - int k) \<le> \<bar>x\<bar>" using assms(1) by (simp add: split pos_divide_le_eq)
    have "52 - int k + 1 = 53 - int k" by simp
    then show "\<bar>x\<bar> < of_nat 2 powi (52 - int k + 1)"
      using assms(2) by (simp only: of_nat_numeral split) (simp add: pos_less_divide_eq)
  qed simp
  then have u: "ulp_exp x = - int k" using assms(3) by (simp add: ulp_exp_def)
  have "x \<noteq> 0" using assms(1) by auto
  then show ?thesis
    using round_half_even_eqI[OF assms(4)] by (simp add: rnd64_def u round_at_def power_int_minus divide_simps)
qed

text \<open>Integers of at most 53 bits are floats.\<close>

lemma rnd64_dyadic:
  assumes "\<bar>n\<bar> < 2 ^ 53" "- 1074 \<le> k"
  shows "rnd64 (of_int n * 2 powi k) = of_int n * 2 powi k"
proof (cases "n = 0")
  case False
  let ?x = "of_int n * 2 powi k :: rat"
  have x: "?x \<noteq> 0" using False by simp
  have "\<bar>of_int n :: rat\<bar> < 2 powi 53" using assms(1) by (simp flip: of_int_abs)
  then have "\<bar>?x\<bar> < 2 powi 53 * 2 powi k" by (simp add: abs_mult zero_less_power_int)
  then have "\<bar>?x\<bar> < 2 powi (53 + k)" by (simp add: power_int_add)
  then have "scale_exp 2 ?x < 53 + k" using x by (intro scale_exp_less) simp_all
  then have u: "ulp_exp ?x \<le> k" using assms(2) by (simp add: ulp_exp_def)
  obtain m where "(2::rat) powi k = of_int m * 2 powi ulp_exp ?x" using power_multiple_of_ulp[OF u] by blast
  then have eq: "?x = of_int (n * m) * 2 powi ulp_exp ?x" by simp
  have "rnd64 ?x = round_at (2 powi ulp_exp ?x) ?x" using x by (simp only: rnd64_def if_False)
  also have "\<dots> = round_at (2 powi ulp_exp ?x) (of_int (n * m) * 2 powi ulp_exp ?x)"
    using eq by (rule arg_cong)
  also have "\<dots> = of_int (n * m) * 2 powi ulp_exp ?x" by (rule round_at_multiple) simp
  also have "\<dots> = ?x" using eq by (rule sym)
  finally show ?thesis .
qed simp

lemma rnd64_of_int: "\<bar>n\<bar> < 2 ^ 53 \<Longrightarrow> rnd64 (of_int n) = of_int n"
  using rnd64_dyadic[of n 0] by simp

lemma round64_of_int: "\<bar>n\<bar> < 2 ^ 53 \<Longrightarrow> round64 (of_int n) = Some (of_int n)"
proof -
  assume n: "\<bar>n\<bar> < 2 ^ 53"
  then have "\<bar>of_int n :: rat\<bar> < 2 ^ 53" by (metis of_int_abs of_int_less_iff of_int_numeral of_int_power)
  also have "(2 :: rat) ^ 53 \<le> 2 ^ 1024" by (rule power_increasing) simp_all
  finally show ?thesis using n by (simp add: round64_def rnd64_of_int Let_def)
qed

lemma round64_one [simp]: "round64 1 = Some 1" and round64_zero [simp]: "round64 0 = Some 0"
  using round64_of_int[of 1] round64_of_int[of 0] by simp_all

lemma repr_decimal_one: "repr_decimal 1 = 1"
proof -
  have "scale_exp 10 1 = 0" by (rule scale_exp_eqI) simp_all
  then have "decimal_candidates 1 1 = [1]"
    using round64_of_int[of 2] by (simp add: decimal_candidates_def Let_def)
  moreover have "repr_search 17 1 1 = repr_search (Suc 16) 1 1" by simp
  ultimately show ?thesis by (simp only: repr_decimal_def repr_search.simps list.case) simp
qed

end
