(* ===== verification/Sha256.thy ===== *)
theory Sha256
  imports Prelude "HOL-Library.Word"
begin

text \<open>
  The function \<open>hashlib.sha256(data).hexdigest()\<close> of the standard library, as FIPS 180-4
  defines it: bytes (a \<open>char list\<close>) to 64 lower-case hexadecimal digits. The development
  only needs the shape of the digest and that it is a function of the bytes.
\<close>

unbundle bit_operations_syntax

type_synonym u32 = "32 word"

definition round_constants :: "u32 list" where
  "round_constants =
    [0x428A2F98, 0x71374491, 0xB5C0FBCF, 0xE9B5DBA5, 0x3956C25B, 0x59F111F1,
     0x923F82A4, 0xAB1C5ED5, 0xD807AA98, 0x12835B01, 0x243185BE, 0x550C7DC3,
     0x72BE5D74, 0x80DEB1FE, 0x9BDC06A7, 0xC19BF174, 0xE49B69C1, 0xEFBE4786,
     0x0FC19DC6, 0x240CA1CC, 0x2DE92C6F, 0x4A7484AA, 0x5CB0A9DC, 0x76F988DA,
     0x983E5152, 0xA831C66D, 0xB00327C8, 0xBF597FC7, 0xC6E00BF3, 0xD5A79147,
     0x06CA6351, 0x14292967, 0x27B70A85, 0x2E1B2138, 0x4D2C6DFC, 0x53380D13,
     0x650A7354, 0x766A0ABB, 0x81C2C92E, 0x92722C85, 0xA2BFE8A1, 0xA81A664B,
     0xC24B8B70, 0xC76C51A3, 0xD192E819, 0xD6990624, 0xF40E3585, 0x106AA070,
     0x19A4C116, 0x1E376C08, 0x2748774C, 0x34B0BCB5, 0x391C0CB3, 0x4ED8AA4A,
     0x5B9CCA4F, 0x682E6FF3, 0x748F82EE, 0x78A5636F, 0x84C87814, 0x8CC70208,
     0x90BEFFFA, 0xA4506CEB, 0xBEF9A3F7, 0xC67178F2]"

definition initial_hash :: "u32 list" where
  "initial_hash =
    [0x6A09E667, 0xBB67AE85, 0x3C6EF372, 0xA54FF53A, 0x510E527F, 0x9B05688C,
     0x1F83D9AB, 0x5BE0CD19]"

definition big_sigma0 :: "u32 \<Rightarrow> u32" where
  "big_sigma0 x = word_rotr 2 x XOR word_rotr 13 x XOR word_rotr 22 x"

definition big_sigma1 :: "u32 \<Rightarrow> u32" where
  "big_sigma1 x = word_rotr 6 x XOR word_rotr 11 x XOR word_rotr 25 x"

definition small_sigma0 :: "u32 \<Rightarrow> u32" where
  "small_sigma0 x = word_rotr 7 x XOR word_rotr 18 x XOR drop_bit 3 x"

definition small_sigma1 :: "u32 \<Rightarrow> u32" where
  "small_sigma1 x = word_rotr 17 x XOR word_rotr 19 x XOR drop_bit 10 x"

definition ch :: "u32 \<Rightarrow> u32 \<Rightarrow> u32 \<Rightarrow> u32" where
  "ch x y z = (x AND y) XOR (NOT x AND z)"

definition majority :: "u32 \<Rightarrow> u32 \<Rightarrow> u32 \<Rightarrow> u32" where
  "majority x y z = (x AND y) XOR (x AND z) XOR (y AND z)"

text \<open>The 64-bit big-endian bit length, and padding to a multiple of 64 bytes.\<close>

fun be_bytes :: "nat \<Rightarrow> nat \<Rightarrow> nat list" where
  "be_bytes 0 n = []"
| "be_bytes (Suc k) n = be_bytes k (n div 256) @ [n mod 256]"

definition pad_message :: "nat list \<Rightarrow> nat list" where
  "pad_message bs =
     (let n = length bs
      in bs @ [128] @ replicate ((119 - n mod 64) mod 64) 0 @ be_bytes 8 (8 * n))"

fun to_words :: "nat list \<Rightarrow> u32 list" where
  "to_words (a # b # c # d # rest) =
     of_nat (((a * 256 + b) * 256 + c) * 256 + d) # to_words rest"
| "to_words _ = []"

text \<open>The message schedule, newest word first: 48 words are added to the 16 of the block.\<close>

fun schedule :: "nat \<Rightarrow> u32 list \<Rightarrow> u32 list" where
  "schedule 0 ws = ws"
| "schedule (Suc k) ws =
     schedule k ((small_sigma1 (ws ! 1) + ws ! 6 + small_sigma0 (ws ! 14) + ws ! 15) # ws)"

fun compress_round :: "u32 \<times> u32 \<Rightarrow> u32 list \<Rightarrow> u32 list" where
  "compress_round (k, w) [a, b, c, d, e, f, g, h] =
     (let t1 = h + big_sigma1 e + ch e f g + k + w; t2 = big_sigma0 a + majority a b c
      in [t1 + t2, a, b, c, d + t1, e, f, g])"
| "compress_round _ st = st"

definition compress_block :: "u32 list \<Rightarrow> u32 list \<Rightarrow> u32 list" where
  "compress_block st block =
     map2 (+) st (fold compress_round (zip round_constants (rev (schedule 48 (rev block)))) st)"

fun compress_all :: "nat \<Rightarrow> u32 list \<Rightarrow> u32 list \<Rightarrow> u32 list" where
  "compress_all 0 st ws = st"
| "compress_all (Suc k) st ws = compress_all k (compress_block st (take 16 ws)) (drop 16 ws)"

definition hex_digit :: "nat \<Rightarrow> char" where
  "hex_digit n = ''0123456789abcdef'' ! (n mod 16)"

fun hex_digits :: "nat \<Rightarrow> nat \<Rightarrow> string" where
  "hex_digits 0 n = []"
| "hex_digits (Suc k) n = hex_digits k (n div 16) @ [hex_digit n]"

definition sha256_hex :: "string \<Rightarrow> string" where
  "sha256_hex data =
     (let ws = to_words (pad_message (map of_char data))
      in concat (map (hex_digits 8 \<circ> unat) (compress_all (length ws div 16) initial_hash ws)))"

lemma hex_digit_is_hex: "is_hex (hex_digit n)"
proof -
  have "hex_digit n \<in> set ''0123456789abcdef''"
    unfolding hex_digit_def by (rule nth_mem) simp
  then show ?thesis by (auto simp: is_hex_def is_digit_def)
qed

lemma length_hex_digits [simp]: "length (hex_digits k n) = k"
  by (induction k arbitrary: n) simp_all

lemma hex_digits_is_hex: "list_all is_hex (hex_digits k n)"
  by (induction k arbitrary: n) (simp_all add: hex_digit_is_hex)

lemma length_compress_round: "length (compress_round kw st) = length st"
  by (cases "(kw, st)" rule: compress_round.cases) (simp_all add: Let_def)

lemma length_fold_compress_round: "length (fold compress_round kws st) = length st"
  by (induction kws arbitrary: st) (simp_all add: length_compress_round)

lemma length_compress_all: "length (compress_all k st ws) = length st"
  by (induction k arbitrary: st ws)
    (simp_all add: compress_block_def length_fold_compress_round)

lemma concat_hex_digits:
  "length (concat (map (hex_digits k \<circ> g) xs)) = k * length xs"
  "list_all is_hex (concat (map (hex_digits k \<circ> g) xs))"
  by (induction xs) (simp_all add: hex_digits_is_hex)

lemma sha256_hex_shape: "length (sha256_hex data) = 64" "list_all is_hex (sha256_hex data)"
  by (simp_all add: sha256_hex_def Let_def concat_hex_digits length_compress_all initial_hash_def)

end
