(* ===== verification/Canonical.thy ===== *)
theory Canonical
  imports Floats Sha256
begin

text \<open>
  Canonical JSON (\<open>domain/canonical.py\<close>): Python values checked to be JSON, JSON objects with
  unique keys, RFC 8785 bytes and content digests. The serialiser \<open>rfc8785.dumps\<close> is a
  third-party function and is the parameter \<open>jcs\<close>: \<open>None\<close> is its \<open>CanonicalizationError\<close>.
\<close>

datatype json =
    JNull | JBool bool | JInt int | JFloat rat | JNonFinite | JStr string
  | JList "json list" | JObj "(string \<times> json) list"

type_synonym jcs = "json \<Rightarrow> string option"

text \<open>A Python object offered as JSON; \<open>PyOther\<close> is any type JSON has no form for.\<close>

datatype pyobj =
    PyNone | PyBool bool | PyInt int | PyFloat rat | PyNonFinite | PyStr string
  | PyList "pyobj list" | PyDict "(pyobj \<times> pyobj) list" | PyOther

fun validated_json_value :: "pyobj \<Rightarrow> json res"
and validated_items :: "pyobj list \<Rightarrow> json list res"
and validated_entries :: "(pyobj \<times> pyobj) list \<Rightarrow> (string \<times> json) list res" where
  "validated_json_value PyNone = Inr JNull"
| "validated_json_value (PyBool b) = Inr (JBool b)"
| "validated_json_value (PyStr s) = Inr (JStr s)"
| "validated_json_value (PyInt i) = Inr (JInt i)"
| "validated_json_value (PyFloat x) = Inr (JFloat x)"
| "validated_json_value PyNonFinite = Inr JNonFinite"
| "validated_json_value (PyList xs) = rbind (validated_items xs) (\<lambda>ys. Inr (JList ys))"
| "validated_json_value (PyDict kvs) = rbind (validated_entries kvs) (\<lambda>es. Inr (JObj es))"
| "validated_json_value PyOther = Inl (CanonicalJsonError ''unsupported_type'')"
| "validated_items [] = Inr []"
| "validated_items (x # xs) =
     rbind (validated_json_value x) (\<lambda>y. rbind (validated_items xs) (\<lambda>ys. Inr (y # ys)))"
| "validated_entries [] = Inr []"
| "validated_entries ((k, v) # rest) =
     (case k of
        PyStr s \<Rightarrow> rbind (validated_json_value v)
          (\<lambda>y. rbind (validated_entries rest) (\<lambda>es. Inr ((s, y) # es)))
      | _ \<Rightarrow> Inl (CanonicalJsonError ''non_string_key''))"

text \<open>The hook that builds an object from its parsed pairs, in order.\<close>

fun add_unique_pairs :: "(string \<times> json) list \<Rightarrow> (string \<times> json) list \<Rightarrow> (string \<times> json) list res" where
  "add_unique_pairs result [] = Inr result"
| "add_unique_pairs result ((key, v) # rest) =
     (if key \<in> fst ` set result then Inl (CanonicalJsonError ''duplicate_key'')
      else add_unique_pairs (result @ [(key, v)]) rest)"

definition reject_duplicate_keys :: "(string \<times> json) list \<Rightarrow> (string \<times> json) list res" where
  "reject_duplicate_keys pairs = add_unique_pairs [] pairs"

definition canonical_json_bytes :: "jcs \<Rightarrow> json \<Rightarrow> string res" where
  "canonical_json_bytes jcs v = of_option (CanonicalJsonError ''outside_jcs_domain'') (jcs v)"

definition sha256_digest :: "jcs \<Rightarrow> json \<Rightarrow> string res" where
  "sha256_digest jcs v =
     rbind (canonical_json_bytes jcs v) (\<lambda>b. Inr (''sha256:'' @ sha256_hex b))"

text \<open>The pattern of \<open>Sha256Digest\<close>: \<open>^sha256:[0-9a-f]{64}$\<close>.\<close>

definition is_sha256_digest :: "string \<Rightarrow> bool" where
  "is_sha256_digest s \<longleftrightarrow>
     take 7 s = ''sha256:'' \<and> length s = 71 \<and> list_all is_hex (drop 7 s)"

lemma sha256_digest_shape: "sha256_digest jcs v = Inr d \<Longrightarrow> is_sha256_digest d"
  by (auto simp: sha256_digest_def is_sha256_digest_def result_simps sha256_hex_shape)

lemma add_unique_pairs_iff:
  "distinct (map fst acc) \<Longrightarrow>
   add_unique_pairs acc pairs = Inr r \<longleftrightarrow> r = acc @ pairs \<and> distinct (map fst (acc @ pairs))"
  by (induction acc pairs rule: add_unique_pairs.induct) (auto simp: image_iff)

lemma reject_duplicate_keys_iff:
  "reject_duplicate_keys pairs = Inr r \<longleftrightarrow> r = pairs \<and> distinct (map fst pairs)"
  by (simp add: reject_duplicate_keys_def add_unique_pairs_iff)

lemma add_unique_pairs_error:
  "add_unique_pairs acc pairs = Inl e \<Longrightarrow> e = CanonicalJsonError ''duplicate_key''"
  by (induction acc pairs rule: add_unique_pairs.induct) (auto split: if_splits)

text \<open>JSON values read back as Python objects are accepted unchanged.\<close>

fun to_pyobj :: "json \<Rightarrow> pyobj" where
  "to_pyobj JNull = PyNone"
| "to_pyobj (JBool b) = PyBool b"
| "to_pyobj (JInt i) = PyInt i"
| "to_pyobj (JFloat x) = PyFloat x"
| "to_pyobj JNonFinite = PyNonFinite"
| "to_pyobj (JStr s) = PyStr s"
| "to_pyobj (JList xs) = PyList (map to_pyobj xs)"
| "to_pyobj (JObj kvs) = PyDict (map (\<lambda>(k, v). (PyStr k, to_pyobj v)) kvs)"

lemma validated_json_value_to_pyobj: "validated_json_value (to_pyobj v) = Inr v"
proof (induction v)
  case (JList xs)
  then have "validated_items (map to_pyobj xs) = Inr xs" by (induction xs) auto
  then show ?case by simp
next
  case (JObj kvs)
  then have "validated_entries (map (\<lambda>(k, v). (PyStr k, to_pyobj v)) kvs) = Inr kvs"
    by (induction kvs) fastforce+
  then show ?case by simp
qed auto

section \<open>Content-addressed models\<close>

text \<open>
  The contract shared by the digest-verified models of the domain (datasets, suites, run
  results and release decisions): a value is normalised and checked field by field, its digest
  is computed from its semantic content, and a stored digest that differs is rejected.
  \<open>arrange\<close> is what \<open>create\<close> does to the content before it hashes it.
\<close>

locale content_addressed =
  fixes normalize :: "'a \<Rightarrow> 'a res"
    and expected_digest :: "'a \<Rightarrow> string res"
    and stored_digest :: "'a \<Rightarrow> string"
    and with_digest :: "string \<Rightarrow> 'a \<Rightarrow> 'a"
    and arrange :: "'a \<Rightarrow> 'a"
    and validate :: "'a \<Rightarrow> 'a res"
    and create :: "'a \<Rightarrow> 'a res"
    and mismatch :: exn
  assumes validate_eq: "validate x = rbind (normalize x) (\<lambda>y. rbind (expected_digest y)
      (\<lambda>d. if stored_digest y \<noteq> d then Inl mismatch else Inr y))"
    and create_eq: "create x =
      rbind (expected_digest (arrange x)) (\<lambda>d. validate (with_digest d (arrange x)))"
    and normalize_idem: "normalize x = Inr y \<Longrightarrow> normalize y = Inr y"
    and normalize_digest: "normalize x = Inr y \<Longrightarrow> expected_digest y = expected_digest x"
    and normalize_stored: "normalize x = Inr y \<Longrightarrow> stored_digest y = stored_digest x"
    and with_digest_expected: "expected_digest (with_digest d x) = expected_digest x"
    and with_digest_stored: "stored_digest (with_digest d x) = d"
begin

lemma validate_Inr_iff:
  "validate x = Inr y \<longleftrightarrow> normalize x = Inr y \<and> expected_digest y = Inr (stored_digest y)"
  by (auto simp: validate_eq result_simps split: if_splits)

lemma validate_sound: "validate x = Inr y \<Longrightarrow> expected_digest y = Inr (stored_digest y)"
  by (simp add: validate_Inr_iff)

lemma validate_stable: "validate x = Inr y \<Longrightarrow> validate y = Inr y"
  by (auto simp: validate_Inr_iff normalize_idem)

lemma validate_rejects_forgery:
  "expected_digest x = Inr d \<Longrightarrow> stored_digest x \<noteq> d \<Longrightarrow> \<not> is_ok (validate x)"
  using normalize_digest normalize_stored by (fastforce simp: is_ok_iff validate_Inr_iff)

lemma create_Inr_iff:
  "create x = Inr y \<longleftrightarrow>
     (\<exists>d. expected_digest (arrange x) = Inr d \<and> normalize (with_digest d (arrange x)) = Inr y)"
  using normalize_digest normalize_stored
  by (fastforce simp: create_eq result_simps validate_Inr_iff with_digest_expected with_digest_stored)

lemma create_stable: "create x = Inr y \<Longrightarrow> validate y = Inr y"
  by (auto simp: create_eq result_simps intro: validate_stable)

lemma create_digest: "create x = Inr y \<Longrightarrow> expected_digest (arrange x) = Inr (stored_digest y)"
  using normalize_digest normalize_stored
  by (fastforce simp: create_Inr_iff with_digest_stored)

lemma create_never_mismatches: "create x = Inl mismatch \<Longrightarrow>
    expected_digest (arrange x) = Inl mismatch \<or>
    (\<exists>d. expected_digest (arrange x) = Inr d \<and> normalize (with_digest d (arrange x)) = Inl mismatch)"
  using normalize_digest normalize_stored
  by (fastforce simp: create_eq validate_eq result_simps with_digest_expected with_digest_stored
      split: if_splits)

end

end
