(* ===== verification/Artifacts.thy ===== *)
theory Artifacts
  imports Canonical
begin

text \<open>
  References to versioned artifacts (\<open>domain/artifacts.py\<close>): the artifact kinds, the reference
  record, its logical key and its JSON record.
\<close>

datatype artifact_kind = DATASET | TARGET | PROMPT | EVALUATOR | SUITE | GATE_POLICY

fun artifact_kind_value :: "artifact_kind \<Rightarrow> string" where
  "artifact_kind_value DATASET = ''dataset''"
| "artifact_kind_value TARGET = ''target''"
| "artifact_kind_value PROMPT = ''prompt''"
| "artifact_kind_value EVALUATOR = ''evaluator''"
| "artifact_kind_value SUITE = ''suite''"
| "artifact_kind_value GATE_POLICY = ''gate_policy''"

record artifact_ref =
  ref_kind :: artifact_kind
  ref_name :: string
  ref_revision :: int
  ref_digest :: "string option"

definition is_artifact_name :: "string \<Rightarrow> bool" where
  "is_artifact_name s \<longleftrightarrow> matches is_alnum (\<lambda>c. is_alnum c \<or> c \<in> set ''._:/-'') 128 s"

type_synonym logical_key = "string \<times> string \<times> int"

text \<open>\<open>ArtifactKind\<close> is a string enumeration: keys compare by its value.\<close>

definition logical_key :: "artifact_ref \<Rightarrow> logical_key" where
  "logical_key r = (artifact_kind_value (ref_kind r), ref_name r, ref_revision r)"

definition validate_artifact_ref :: "artifact_ref \<Rightarrow> artifact_ref res" where
  "validate_artifact_ref r = rbind (checks
     [(\<not> is_artifact_name (ref_name r), ValidationError ''name''),
      (\<not> 0 < ref_revision r, ValidationError ''revision''),
      (case ref_digest r of None \<Rightarrow> False | Some d \<Rightarrow> \<not> is_sha256_digest d,
       ValidationError ''digest'')]) (\<lambda>_. Inr r)"

text \<open>The test \<open>ref.kind is not kind or ref.digest is None\<close> of every model that needs a resolved reference.\<close>

definition unresolved :: "artifact_kind \<Rightarrow> artifact_ref \<Rightarrow> bool" where
  "unresolved k r \<longleftrightarrow> ref_kind r \<noteq> k \<or> ref_digest r = None"

definition optional_string :: "string option \<Rightarrow> json" where
  "optional_string s = (case s of None \<Rightarrow> JNull | Some x \<Rightarrow> JStr x)"

definition artifact_record :: "artifact_ref \<Rightarrow> json" where
  "artifact_record r = JObj
     [(''digest'', optional_string (ref_digest r)),
      (''kind'', JStr (artifact_kind_value (ref_kind r))),
      (''name'', JStr (ref_name r)),
      (''revision'', JInt (ref_revision r))]"

lemma artifact_kind_value_inject [simp]:
  "artifact_kind_value k = artifact_kind_value k' \<longleftrightarrow> k = k'"
  by (cases k; cases k') simp_all

lemma optional_string_inject [simp]: "optional_string a = optional_string b \<longleftrightarrow> a = b"
  by (auto simp: optional_string_def split: option.splits)

text \<open>The JSON record of a reference determines it.\<close>

lemma artifact_record_inject [simp]: "artifact_record r = artifact_record r' \<longleftrightarrow> r = r'"
  by (auto simp: artifact_record_def intro: artifact_ref.equality)

lemma same_key_and_digest:
  "logical_key r = logical_key r' \<Longrightarrow> ref_digest r = ref_digest r' \<Longrightarrow> r = r'"
  by (auto simp: logical_key_def intro: artifact_ref.equality)

end
