(* ===== verification/Datasets.thy ===== *)
theory Datasets
  imports Artifacts
begin

text \<open>
  Evaluation cases and content-addressed dataset versions (\<open>domain/datasets.py\<close>). A
  \<open>CanonicalJson\<close> field is represented by the JSON value it stands for, the one \<open>to_value\<close>
  returns.
\<close>

definition is_case_id :: "string \<Rightarrow> bool" where
  "is_case_id s \<longleftrightarrow> matches is_alnum (\<lambda>c. is_alnum c \<or> c \<in> set ''._:/-'') 128 s"

definition is_slice_label :: "string \<Rightarrow> bool" where
  "is_slice_label s \<longleftrightarrow> matches is_alnum (\<lambda>c. is_alnum c \<or> c \<in> set ''._:/=-'') 128 s"

record evaluation_case =
  case_id :: string
  case_input :: json
  expected :: "json option"
  expected_refusal :: bool
  expected_schema :: "json option"
  numeric_tolerance :: "rat option"
  case_slices :: "string list"

definition is_json_number :: "json \<Rightarrow> bool" where
  "is_json_number v = (case v of JInt _ \<Rightarrow> True | JFloat _ \<Rightarrow> True | JNonFinite \<Rightarrow> True | _ \<Rightarrow> False)"

definition is_json_object :: "json \<Rightarrow> bool" where
  "is_json_object v = (case v of JObj _ \<Rightarrow> True | _ \<Rightarrow> False)"

definition normalize_slices :: "string list \<Rightarrow> string list res" where
  "normalize_slices value = rbind (checks
     [(\<exists>s \<in> set value. \<not> is_slice_label s, ValidationError ''slices''),
      (has_duplicates value, ValidationError ''slice labels must be unique'')])
     (\<lambda>_. Inr (sort value))"

definition validate_expectations :: "evaluation_case \<Rightarrow> unit res" where
  "validate_expectations c = checks
     [(numeric_tolerance c \<noteq> None \<and> expected c = None,
       ValidationError ''numeric tolerance requires an expected value''),
      (numeric_tolerance c \<noteq> None \<and> (case expected c of None \<Rightarrow> False | Some v \<Rightarrow> \<not> is_json_number v),
       ValidationError ''numeric tolerance requires a numeric expectation''),
      (case expected_schema c of None \<Rightarrow> False | Some v \<Rightarrow> \<not> is_json_object v,
       ValidationError ''expected schema must be a JSON object'')]"

definition validate_evaluation_case :: "evaluation_case \<Rightarrow> evaluation_case res" where
  "validate_evaluation_case c = rbind (checks
     [(\<not> is_case_id (case_id c), ValidationError ''case_id''),
      (case numeric_tolerance c of None \<Rightarrow> False | Some t \<Rightarrow> \<not> 0 \<le> t,
       ValidationError ''numeric_tolerance'')]) (\<lambda>_.
     rbind (normalize_slices (case_slices c)) (\<lambda>ss.
     let c' = c\<lparr>case_slices := ss\<rparr>
     in rbind (validate_expectations c') (\<lambda>_. Inr c')))"

definition optional_json :: "json option \<Rightarrow> json" where
  "optional_json v = (case v of None \<Rightarrow> JNull | Some x \<Rightarrow> x)"

definition optional_float :: "rat option \<Rightarrow> json" where
  "optional_float v = (case v of None \<Rightarrow> JNull | Some x \<Rightarrow> JFloat x)"

definition semantic_record :: "evaluation_case \<Rightarrow> json" where
  "semantic_record c = JObj
     [(''case_id'', JStr (case_id c)),
      (''expected'', optional_json (expected c)),
      (''expected_refusal'', JBool (expected_refusal c)),
      (''expected_schema'', optional_json (expected_schema c)),
      (''input'', case_input c),
      (''numeric_tolerance'', optional_float (numeric_tolerance c)),
      (''schema_version'', JStr ''1''),
      (''slices'', JList (map JStr (case_slices c)))]"

definition dataset_content :: "evaluation_case list \<Rightarrow> json" where
  "dataset_content cases =
     (let ordered = sort_key case_id cases
      in JObj [(''cases'', JList (map semantic_record ordered)),
               (''digest_schema'', JStr ''dataset/v1'')])"

definition calculate_dataset_digest :: "jcs \<Rightarrow> evaluation_case list \<Rightarrow> string res" where
  "calculate_dataset_digest jcs cases = sha256_digest jcs (dataset_content cases)"

record dataset_version =
  dataset_name :: string
  dataset_revision :: int
  dataset_digest :: string
  dataset_cases :: "evaluation_case list"

definition normalize_cases :: "evaluation_case list \<Rightarrow> evaluation_case list res" where
  "normalize_cases value = rbind (checks
     [(value = [], ValidationError ''cases''),
      (has_duplicates (map case_id value), ValidationError ''dataset case IDs must be unique'')])
     (\<lambda>_. Inr (sort_key case_id value))"

definition normalize_dataset :: "dataset_version \<Rightarrow> dataset_version res" where
  "normalize_dataset d = rbind (checks
     [(\<not> is_artifact_name (dataset_name d), ValidationError ''name''),
      (\<not> 0 < dataset_revision d, ValidationError ''revision''),
      (\<not> is_sha256_digest (dataset_digest d), ValidationError ''digest'')]) (\<lambda>_.
     rbind (normalize_cases (dataset_cases d)) (\<lambda>cs. Inr (d\<lparr>dataset_cases := cs\<rparr>)))"

abbreviation dataset_mismatch :: exn where
  "dataset_mismatch \<equiv> ValidationError ''dataset digest does not match canonical case content''"

definition validate_dataset :: "jcs \<Rightarrow> dataset_version \<Rightarrow> dataset_version res" where
  "validate_dataset jcs d = rbind (normalize_dataset d) (\<lambda>d'.
     rbind (calculate_dataset_digest jcs (dataset_cases d')) (\<lambda>e.
     if dataset_digest d' \<noteq> e then Inl dataset_mismatch else Inr d'))"

definition create_dataset ::
    "jcs \<Rightarrow> string \<Rightarrow> int \<Rightarrow> evaluation_case list \<Rightarrow> dataset_version res" where
  "create_dataset jcs name revision cases =
     rbind (calculate_dataset_digest jcs cases) (\<lambda>d.
     validate_dataset jcs \<lparr>dataset_name = name, dataset_revision = revision,
       dataset_digest = d, dataset_cases = cases\<rparr>)"

definition dataset_ref :: "dataset_version \<Rightarrow> artifact_ref" where
  "dataset_ref d = \<lparr>ref_kind = DATASET, ref_name = dataset_name d,
     ref_revision = dataset_revision d, ref_digest = Some (dataset_digest d)\<rparr>"

text \<open>The labels of all cases, the set several validators compute.\<close>

definition dataset_slices :: "dataset_version \<Rightarrow> string set" where
  "dataset_slices d = (\<Union>c \<in> set (dataset_cases d). set (case_slices c))"

section \<open>Normalisation\<close>

lemma normalize_cases_Inr_iff:
  "normalize_cases cs = Inr cs' \<longleftrightarrow>
     cs \<noteq> [] \<and> distinct (map case_id cs) \<and> cs' = sort_key case_id cs"
  by (auto simp: normalize_cases_def result_simps)

lemma sort_key_idem [simp]: "sort_key f (sort_key f xs) = sort_key f xs"
  by (rule sort_key_sorted_id) simp

lemma distinct_map_sort_key [simp]: "distinct (map f (sort_key f xs)) \<longleftrightarrow> distinct (map f xs)"
  by (rule distinct_map_perm) simp

lemma sort_key_eq_Nil [simp]: "sort_key f xs = [] \<longleftrightarrow> xs = []"
  by (metis mset_sort mset_zero_iff)

lemma dataset_content_sorted [simp]: "dataset_content (sort_key case_id cs) = dataset_content cs"
  by (simp add: dataset_content_def)

lemma dataset_content_perm:
  "mset cs = mset cs' \<Longrightarrow> distinct (map case_id cs) \<Longrightarrow> dataset_content cs = dataset_content cs'"
  unfolding dataset_content_def by (simp add: sort_key_perm)

interpretation dataset_model: content_addressed
  normalize_dataset "\<lambda>d. calculate_dataset_digest jcs (dataset_cases d)" dataset_digest
  "\<lambda>e d. d\<lparr>dataset_digest := e\<rparr>" id "validate_dataset jcs"
  "\<lambda>d. create_dataset jcs (dataset_name d) (dataset_revision d) (dataset_cases d)"
  dataset_mismatch for jcs
proof (unfold_locales, goal_cases)
  case (1 x)
  show ?case by (simp add: validate_dataset_def)
next
  case (2 x)
  have "x\<lparr>dataset_digest := d\<rparr> = \<lparr>dataset_name = dataset_name x,
      dataset_revision = dataset_revision x, dataset_digest = d,
      dataset_cases = dataset_cases x\<rparr>" for d
    by (cases x) simp
  then show ?case by (simp only: create_dataset_def id_apply)
qed (auto simp: normalize_dataset_def normalize_cases_Inr_iff result_simps
      calculate_dataset_digest_def)

end
