(* ===== verification/Evaluation.thy ===== *)
theory Evaluation
  imports Datasets
begin

text \<open>
  Release gates and evaluation specifications (\<open>domain/evaluation.py\<close>). The allowed
  regression of a gate is a \<open>NonNegativeFloat\<close>, which unlike the other floats of the domain
  admits positive infinity.
\<close>

definition is_metric_name :: "string \<Rightarrow> bool" where
  "is_metric_name s \<longleftrightarrow> matches is_alpha (\<lambda>c. is_alnum c \<or> c \<in> set ''._:/-'') 128 s"

datatype metric_direction = HIGHER_IS_BETTER | LOWER_IS_BETTER

fun metric_direction_value :: "metric_direction \<Rightarrow> string" where
  "metric_direction_value HIGHER_IS_BETTER = ''higher_is_better''"
| "metric_direction_value LOWER_IS_BETTER = ''lower_is_better''"

datatype ext_float = Finite rat | PosInf

record metric_gate =
  gate_metric :: string
  gate_slice :: "string option"
  gate_direction :: metric_direction
  gate_threshold :: rat
  gate_allowed_regression :: ext_float

definition validate_metric_gate :: "metric_gate \<Rightarrow> metric_gate res" where
  "validate_metric_gate g = rbind (checks
     [(\<not> is_metric_name (gate_metric g), ValidationError ''metric''),
      (case gate_slice g of None \<Rightarrow> False | Some s \<Rightarrow> \<not> is_slice_label s, ValidationError ''slice''),
      (case gate_allowed_regression g of PosInf \<Rightarrow> False | Finite x \<Rightarrow> \<not> 0 \<le> x,
       ValidationError ''allowed_regression'')]) (\<lambda>_. Inr g)"

record evaluation_spec =
  spec_name :: string
  spec_dataset :: artifact_ref
  spec_candidate :: artifact_ref
  spec_baseline :: "artifact_ref option"
  spec_gates :: "metric_gate list"

definition validate_evaluation_spec :: "evaluation_spec \<Rightarrow> evaluation_spec res" where
  "validate_evaluation_spec s = rbind (checks
     [(\<not> is_artifact_name (spec_name s), ValidationError ''name''),
      (spec_gates s = [], ValidationError ''gates''),
      (ref_kind (spec_dataset s) \<noteq> DATASET,
       ValidationError ''dataset must reference a dataset artifact''),
      (ref_kind (spec_candidate s) \<noteq> TARGET,
       ValidationError ''candidate must reference a target artifact''),
      (case spec_baseline s of None \<Rightarrow> False | Some b \<Rightarrow> ref_kind b \<noteq> TARGET,
       ValidationError ''baseline must reference a target artifact''),
      (case spec_baseline s of None \<Rightarrow> False
        | Some b \<Rightarrow> logical_key b = logical_key (spec_candidate s),
       ValidationError ''baseline and candidate must be different revisions''),
      (has_duplicates (map (\<lambda>g. (gate_metric g, gate_slice g)) (spec_gates s)),
       ValidationError ''gate metric and slice combinations must be unique'')]) (\<lambda>_. Inr s)"

lemma validate_evaluation_spec_Inr:
  "validate_evaluation_spec s = Inr s' \<Longrightarrow> s' = s"
  by (auto simp: validate_evaluation_spec_def result_simps)

end
