(* ===== verification/Suites.thy ===== *)
theory Suites
  imports Evaluation
begin

text \<open>
  Content-addressed evaluation suites (\<open>domain/suites.py\<close>): execution settings, evaluator
  bindings, the canonical suite content and its digest, and the compilation of a suite into
  an evaluation specification. The execution modes of \<open>domain/results.py\<close> are here too.
\<close>

datatype execution_mode = OFFLINE_DETERMINISTIC_FIXTURE | OFFLINE_MOCK | LIVE

fun execution_mode_value :: "execution_mode \<Rightarrow> string" where
  "execution_mode_value OFFLINE_DETERMINISTIC_FIXTURE = ''offline_deterministic_fixture''"
| "execution_mode_value OFFLINE_MOCK = ''offline_mock''"
| "execution_mode_value LIVE = ''live''"

definition is_executor_name :: "string \<Rightarrow> bool" where
  "is_executor_name s \<longleftrightarrow> matches is_alnum (\<lambda>c. is_alnum c \<or> c \<in> set ''._:-'') 128 s"

text \<open>Case order, invocations and concurrency are literals with one value each.\<close>

record suite_execution_settings =
  exec_adapter :: string
  exec_mode :: execution_mode

record suite_evaluator =
  executor_name :: string
  evaluator_artifact :: artifact_ref
  evaluator_metrics :: "string list"

definition normalize_metrics :: "string list \<Rightarrow> string list res" where
  "normalize_metrics value = rbind (checks
     [(value = [] \<or> 32 < length value \<or> (\<exists>m \<in> set value. \<not> is_metric_name m), ValidationError ''metrics''),
      (has_duplicates value, ValidationError ''suite evaluator metrics must be unique'')])
     (\<lambda>_. Inr (sort value))"

definition validate_suite_evaluator :: "suite_evaluator \<Rightarrow> suite_evaluator res" where
  "validate_suite_evaluator e = rbind (checks
     [(\<not> is_executor_name (executor_name e), ValidationError ''executor_name'')]) (\<lambda>_.
     rbind (normalize_metrics (evaluator_metrics e)) (\<lambda>ms. rbind (checks
     [(ref_kind (evaluator_artifact e) \<noteq> EVALUATOR,
       ValidationError ''suite evaluator must reference an evaluator artifact''),
      (ref_digest (evaluator_artifact e) = None,
       ValidationError ''suite evaluator artifact must have a resolved digest'')])
     (\<lambda>_. Inr (e\<lparr>evaluator_metrics := ms\<rparr>))))"

definition evaluator_record :: "suite_evaluator \<Rightarrow> json" where
  "evaluator_record e = JObj
     [(''artifact'', artifact_record (evaluator_artifact e)),
      (''executor_name'', JStr (executor_name e)),
      (''metrics'', JList (map JStr (evaluator_metrics e)))]"

definition execution_record :: "suite_execution_settings \<Rightarrow> json" where
  "execution_record s = JObj
     [(''adapter'', JStr (exec_adapter s)),
      (''case_order'', JStr ''case_id_ascending''),
      (''execution_mode'', JStr (execution_mode_value (exec_mode s))),
      (''invocations_per_case'', JInt 1),
      (''max_concurrency'', JInt 1)]"

fun ext_float_json :: "ext_float \<Rightarrow> json" where
  "ext_float_json (Finite x) = JFloat x"
| "ext_float_json PosInf = JNonFinite"

definition gate_record :: "metric_gate \<Rightarrow> json" where
  "gate_record g = JObj
     [(''allowed_regression'', ext_float_json (gate_allowed_regression g)),
      (''direction'', JStr (metric_direction_value (gate_direction g))),
      (''metric'', JStr (gate_metric g)),
      (''slice'', optional_string (gate_slice g)),
      (''threshold'', JFloat (gate_threshold g))]"

definition evaluator_key :: "suite_evaluator \<Rightarrow> logical_key" where
  "evaluator_key e = logical_key (evaluator_artifact e)"

text \<open>\<open>gate.slice or ""\<close>: labels are never empty.\<close>

definition slice_or_empty :: "string option \<Rightarrow> string" where
  "slice_or_empty s = (case s of None \<Rightarrow> '''' | Some x \<Rightarrow> x)"

definition gate_key :: "metric_gate \<Rightarrow> string \<times> string" where
  "gate_key g = (gate_metric g, slice_or_empty (gate_slice g))"

record evaluation_suite =
  suite_name :: string
  suite_revision :: int
  suite_digest :: string
  suite_dataset :: artifact_ref
  suite_evaluators :: "suite_evaluator list"
  suite_slices :: "string list"
  suite_execution :: suite_execution_settings
  suite_gates :: "metric_gate list"

definition suite_content ::
    "artifact_ref \<Rightarrow> suite_evaluator list \<Rightarrow> string list \<Rightarrow> suite_execution_settings
     \<Rightarrow> metric_gate list \<Rightarrow> json" where
  "suite_content dataset evaluators slices execution gates =
     (let ordered_evaluators = sort_key evaluator_key evaluators;
          ordered_slices = sort slices;
          ordered_gates = sort_key gate_key gates
      in JObj [(''dataset'', artifact_record dataset),
               (''digest_schema'', JStr ''evaluation-suite/v1''),
               (''evaluators'', JList (map evaluator_record ordered_evaluators)),
               (''execution'', execution_record execution),
               (''gates'', JList (map gate_record ordered_gates)),
               (''slices'', JList (map JStr ordered_slices))])"

definition calculate_suite_digest ::
    "jcs \<Rightarrow> artifact_ref \<Rightarrow> suite_evaluator list \<Rightarrow> string list \<Rightarrow> suite_execution_settings
     \<Rightarrow> metric_gate list \<Rightarrow> string res" where
  "calculate_suite_digest jcs dataset evaluators slices execution gates =
     sha256_digest jcs (suite_content dataset evaluators slices execution gates)"

definition suite_metrics :: "evaluation_suite \<Rightarrow> string list" where
  "suite_metrics s = concat (map evaluator_metrics (suite_evaluators s))"

text \<open>The field validators: bounds, uniqueness and canonical order.\<close>

definition normalize_suite_fields :: "evaluation_suite \<Rightarrow> evaluation_suite res" where
  "normalize_suite_fields s = rbind (checks
     [(\<not> is_artifact_name (suite_name s), ValidationError ''name''),
      (\<not> 0 < suite_revision s, ValidationError ''revision''),
      (\<not> is_sha256_digest (suite_digest s), ValidationError ''digest''),
      (suite_evaluators s = [] \<or> 32 < length (suite_evaluators s), ValidationError ''evaluators''),
      (128 < length (suite_slices s) \<or> (\<exists>x \<in> set (suite_slices s). \<not> is_slice_label x),
       ValidationError ''slices''),
      (has_duplicates (suite_slices s), ValidationError ''suite slices must be unique''),
      (suite_gates s = [] \<or> 64 < length (suite_gates s), ValidationError ''gates''),
      (has_duplicates (map gate_key (suite_gates s)),
       ValidationError ''suite gate metric and slice combinations must be unique'')])
     (\<lambda>_. Inr (s\<lparr>suite_evaluators := sort_key evaluator_key (suite_evaluators s),
                suite_slices := sort (suite_slices s),
                suite_gates := sort_key gate_key (suite_gates s)\<rparr>))"

text \<open>The model validator, without its last step, the digest comparison.\<close>

definition check_suite :: "evaluation_suite \<Rightarrow> unit res" where
  "check_suite s = (let metrics = suite_metrics s in checks
     [(ref_kind (suite_dataset s) \<noteq> DATASET,
       ValidationError ''suite dataset must reference a dataset artifact''),
      (ref_digest (suite_dataset s) = None,
       ValidationError ''suite dataset must have a resolved digest''),
      (has_duplicates (map executor_name (suite_evaluators s)),
       ValidationError ''suite evaluator executor names must be unique''),
      (has_duplicates (map (logical_key \<circ> evaluator_artifact) (suite_evaluators s)),
       ValidationError ''suite evaluator artifacts must be unique''),
      (has_duplicates metrics,
       ValidationError ''suite evaluator metrics must be globally unique''),
      (32 < length metrics, ValidationError ''suite cannot declare more than 32 metrics''),
      (\<exists>g \<in> set (suite_gates s). gate_metric g \<notin> set metrics,
       ValidationError ''suite gate metric must be emitted by an evaluator''),
      (\<exists>g \<in> set (suite_gates s). case gate_slice g of None \<Rightarrow> False
          | Some x \<Rightarrow> x \<notin> set (suite_slices s),
       ValidationError ''suite gate slice must be declared by the suite'')])"

definition normalize_suite :: "evaluation_suite \<Rightarrow> evaluation_suite res" where
  "normalize_suite s =
     rbind (normalize_suite_fields s) (\<lambda>s'. rbind (check_suite s') (\<lambda>_. Inr s'))"

definition suite_expected_digest :: "jcs \<Rightarrow> evaluation_suite \<Rightarrow> string res" where
  "suite_expected_digest jcs s = calculate_suite_digest jcs (suite_dataset s)
     (suite_evaluators s) (suite_slices s) (suite_execution s) (suite_gates s)"

abbreviation suite_mismatch :: exn where
  "suite_mismatch \<equiv> ValidationError ''suite digest does not match canonical content''"

definition validate_evaluation_suite :: "jcs \<Rightarrow> evaluation_suite \<Rightarrow> evaluation_suite res" where
  "validate_evaluation_suite jcs s = rbind (normalize_suite s) (\<lambda>s'.
     rbind (suite_expected_digest jcs s') (\<lambda>e.
     if suite_digest s' \<noteq> e then Inl suite_mismatch else Inr s'))"

text \<open>The digest field of the argument is ignored: \<open>create\<close> computes it.\<close>

definition create_suite :: "jcs \<Rightarrow> evaluation_suite \<Rightarrow> evaluation_suite res" where
  "create_suite jcs s = rbind (suite_expected_digest jcs s)
     (\<lambda>e. validate_evaluation_suite jcs (s\<lparr>suite_digest := e\<rparr>))"

definition suite_ref :: "evaluation_suite \<Rightarrow> artifact_ref" where
  "suite_ref s = \<lparr>ref_kind = SUITE, ref_name = suite_name s,
     ref_revision = suite_revision s, ref_digest = Some (suite_digest s)\<rparr>"

definition suite_evaluator_refs :: "evaluation_suite \<Rightarrow> artifact_ref list" where
  "suite_evaluator_refs s = map evaluator_artifact (suite_evaluators s)"

definition suite_evaluator_names :: "evaluation_suite \<Rightarrow> string list" where
  "suite_evaluator_names s = map executor_name (suite_evaluators s)"

definition to_evaluation_spec ::
    "evaluation_suite \<Rightarrow> artifact_ref \<Rightarrow> artifact_ref \<Rightarrow> evaluation_spec res" where
  "to_evaluation_spec s baseline candidate = validate_evaluation_spec
     \<lparr>spec_name = suite_name s, spec_dataset = suite_dataset s, spec_candidate = candidate,
      spec_baseline = Some baseline, spec_gates = suite_gates s\<rparr>"

section \<open>Normalisation\<close>

lemma suite_content_sorted [simp]:
  "suite_content d (sort_key evaluator_key es) (sort ss) x (sort_key gate_key gs) =
   suite_content d es ss x gs"
  by (simp add: suite_content_def)

lemma suite_content_perm:
  assumes "mset es = mset es'" "distinct (map evaluator_key es)"
    "mset ss = mset ss'" "mset gs = mset gs'" "distinct (map gate_key gs)"
  shows "suite_content d es ss x gs = suite_content d es' ss' x gs'"
  using assms properties_for_sort[of "sort ss'" ss]
  by (simp add: suite_content_def sort_key_perm[of es es'] sort_key_perm[of gs gs'])

lemma normalize_suite_fields_idem:
  "normalize_suite_fields s = Inr s' \<Longrightarrow> normalize_suite_fields s' = Inr s'"
  by (auto simp: normalize_suite_fields_def result_simps)

interpretation suite_model: content_addressed
  normalize_suite "suite_expected_digest jcs" suite_digest
  "\<lambda>e s. s\<lparr>suite_digest := e\<rparr>" id "validate_evaluation_suite jcs" "create_suite jcs"
  suite_mismatch for jcs
proof (unfold_locales, goal_cases)
  case (1 x) show ?case by (simp add: validate_evaluation_suite_def)
next
  case (2 x) show ?case by (simp only: create_suite_def id_apply)
next
  case (3 x y)
  then show ?case
    by (auto simp: normalize_suite_def result_simps dest: normalize_suite_fields_idem)
qed (auto simp: normalize_suite_def normalize_suite_fields_def result_simps
      suite_expected_digest_def calculate_suite_digest_def)

end
