(* ===== verification/Execution.thy ===== *)
theory Execution
  imports Suites
begin

text \<open>
  Target and evaluator envelopes (\<open>domain/execution.py\<close>): validated target responses, token
  usage, sanitized failures and metric observations.
\<close>

definition is_safe_code :: "string \<Rightarrow> bool" where
  "is_safe_code s \<longleftrightarrow> matches is_lower (\<lambda>c. is_lower c \<or> is_digit c \<or> c = CHR ''_'') 64 s"

definition is_safe_message :: "string \<Rightarrow> bool" where
  "is_safe_message s \<longleftrightarrow> 1 \<le> length s \<and> length s \<le> 256"

definition is_run_id :: "string \<Rightarrow> bool" where
  "is_run_id s \<longleftrightarrow> matches is_alnum (\<lambda>c. is_alnum c \<or> c \<in> set ''._-'') 128 s"

datatype target_outcome = OUTCOME_COMPLETED | OUTCOME_REFUSED

fun target_outcome_value :: "target_outcome \<Rightarrow> string" where
  "target_outcome_value OUTCOME_COMPLETED = ''completed''"
| "target_outcome_value OUTCOME_REFUSED = ''refused''"

record token_usage =
  input_units :: int
  output_units :: int

definition total_units :: "token_usage \<Rightarrow> int" where
  "total_units u = input_units u + output_units u"

record target_response =
  response_output :: json
  response_outcome :: target_outcome
  refusal_code :: "string option"
  usage :: token_usage

definition validate_target_response :: "target_response \<Rightarrow> target_response res" where
  "validate_target_response r = rbind (checks
     [(case refusal_code r of None \<Rightarrow> False | Some c \<Rightarrow> \<not> is_safe_code c, ValidationError ''refusal_code''),
      (\<not> 0 \<le> input_units (usage r) \<or> \<not> 0 \<le> output_units (usage r), ValidationError ''usage''),
      (response_outcome r = OUTCOME_REFUSED \<and> refusal_code r = None,
       ValidationError ''refused responses require a refusal code''),
      (response_outcome r = OUTCOME_COMPLETED \<and> refusal_code r \<noteq> None,
       ValidationError ''completed responses cannot include a refusal code'')]) (\<lambda>_. Inr r)"

record target_observation =
  response :: target_response
  latency_ms :: rat

definition validate_target_observation :: "target_observation \<Rightarrow> target_observation res" where
  "validate_target_observation t =
     rbind (checks [(\<not> 0 \<le> latency_ms t, ValidationError ''latency_ms'')]) (\<lambda>_. Inr t)"

datatype failure_stage = TARGET_STAGE | EVALUATOR_STAGE

fun failure_stage_value :: "failure_stage \<Rightarrow> string" where
  "failure_stage_value TARGET_STAGE = ''target''"
| "failure_stage_value EVALUATOR_STAGE = ''evaluator''"

datatype failure_code =
    TARGET_EXCEPTION | TARGET_AUTHENTICATION | TARGET_PROTOCOL_ERROR | TARGET_RATE_LIMITED
  | TARGET_REJECTED | TARGET_TIMEOUT | TARGET_UNAVAILABLE | INVALID_TARGET_OUTPUT
  | EVALUATOR_EXCEPTION | INVALID_EVALUATOR_OUTPUT

fun failure_code_value :: "failure_code \<Rightarrow> string" where
  "failure_code_value TARGET_EXCEPTION = ''target_exception''"
| "failure_code_value TARGET_AUTHENTICATION = ''target_authentication''"
| "failure_code_value TARGET_PROTOCOL_ERROR = ''target_protocol_error''"
| "failure_code_value TARGET_RATE_LIMITED = ''target_rate_limited''"
| "failure_code_value TARGET_REJECTED = ''target_rejected''"
| "failure_code_value TARGET_TIMEOUT = ''target_timeout''"
| "failure_code_value TARGET_UNAVAILABLE = ''target_unavailable''"
| "failure_code_value INVALID_TARGET_OUTPUT = ''invalid_target_output''"
| "failure_code_value EVALUATOR_EXCEPTION = ''evaluator_exception''"
| "failure_code_value INVALID_EVALUATOR_OUTPUT = ''invalid_evaluator_output''"

record execution_failure =
  failure_stage :: failure_stage
  failure_code :: failure_code
  failure_message :: string
  retryable :: bool
  failure_evaluator :: "artifact_ref option"
  failure_latency_ms :: "rat option"

definition validate_execution_failure :: "execution_failure \<Rightarrow> execution_failure res" where
  "validate_execution_failure f = rbind (checks
     [(\<not> is_safe_message (failure_message f), ValidationError ''message''),
      (case failure_latency_ms f of None \<Rightarrow> False | Some l \<Rightarrow> \<not> 0 \<le> l, ValidationError ''latency_ms''),
      (failure_stage f = EVALUATOR_STAGE \<and> failure_evaluator f = None,
       ValidationError ''evaluator failures require an evaluator reference''),
      (failure_stage f = EVALUATOR_STAGE \<and>
         (case failure_evaluator f of None \<Rightarrow> False | Some r \<Rightarrow> ref_kind r \<noteq> EVALUATOR),
       ValidationError ''failure evaluator must reference an evaluator artifact''),
      (failure_stage f = EVALUATOR_STAGE \<and> failure_latency_ms f \<noteq> None,
       ValidationError ''evaluator failures cannot include target latency''),
      (failure_stage f \<noteq> EVALUATOR_STAGE \<and> failure_evaluator f \<noteq> None,
       ValidationError ''target failures cannot include an evaluator reference'')]) (\<lambda>_. Inr f)"

datatype metric_observation =
    ScoredObservation (obs_metric: string) (obs_evaluator: artifact_ref) (obs_value: rat)
      (obs_reason_code: string)
  | SkippedObservation (obs_metric: string) (obs_evaluator: artifact_ref) (obs_reason_code: string)
  | ErrorObservation (obs_metric: string) (obs_evaluator: artifact_ref) (obs_error_code: string)
      (obs_message: string)

fun is_error_observation :: "metric_observation \<Rightarrow> bool" where
  "is_error_observation (ErrorObservation _ _ _ _) = True"
| "is_error_observation _ = False"

fun observation_codes_ok :: "metric_observation \<Rightarrow> bool" where
  "observation_codes_ok (ScoredObservation _ _ _ r) = is_safe_code r"
| "observation_codes_ok (SkippedObservation _ _ r) = is_safe_code r"
| "observation_codes_ok (ErrorObservation _ _ c m) = (is_safe_code c \<and> is_safe_message m)"

definition validate_observation :: "metric_observation \<Rightarrow> metric_observation res" where
  "validate_observation ob = rbind (checks
     [(\<not> is_metric_name (obs_metric ob), ValidationError ''metric''),
      (\<not> observation_codes_ok ob, ValidationError ''code''),
      (ref_kind (obs_evaluator ob) \<noteq> EVALUATOR,
       ValidationError ''observation evaluator must reference an evaluator artifact''),
      (ref_digest (obs_evaluator ob) = None,
       ValidationError ''observation evaluator must have a resolved digest'')]) (\<lambda>_. Inr ob)"

lemma validate_observation_Inr: "validate_observation ob = Inr ob' \<Longrightarrow> ob' = ob"
  by (auto simp: validate_observation_def result_simps)

lemma validate_target_response_Inr: "validate_target_response r = Inr r' \<Longrightarrow> r' = r"
  by (auto simp: validate_target_response_def result_simps)

end
