(* ===== verification/Results.thy ===== *)
theory Results
  imports Execution
begin

text \<open>
  Case evidence, metric summaries and complete run results (\<open>domain/results.py\<close>), with the
  digest of a run's stable content.
\<close>

datatype case_result_status = CASE_COMPLETED | TARGET_FAILED | COMPLETED_WITH_ERRORS

fun case_result_status_value :: "case_result_status \<Rightarrow> string" where
  "case_result_status_value CASE_COMPLETED = ''completed''"
| "case_result_status_value TARGET_FAILED = ''target_failed''"
| "case_result_status_value COMPLETED_WITH_ERRORS = ''completed_with_errors''"

record case_result =
  result_case_id :: string
  result_case_status :: case_result_status
  result_target :: "target_observation option"
  target_failure :: "execution_failure option"
  observations :: "metric_observation list"
  evaluator_failures :: "execution_failure list"

definition observation_key :: "metric_observation \<Rightarrow> logical_key \<times> string" where
  "observation_key ob = (logical_key (obs_evaluator ob), obs_metric ob)"

definition failure_keys :: "execution_failure list \<Rightarrow> logical_key list" where
  "failure_keys fs = map logical_key (List.map_filter failure_evaluator fs)"

definition check_case_status :: "case_result \<Rightarrow> unit res" where
  "check_case_status c =
     (if result_case_status c = TARGET_FAILED then checks
        [(result_target c \<noteq> None \<or> target_failure c = None,
          ValidationError ''target-failed cases require only a target failure''),
         (case target_failure c of None \<Rightarrow> False | Some f \<Rightarrow> failure_stage f \<noteq> TARGET_STAGE,
          ValidationError ''target failure must use the target stage''),
         (observations c \<noteq> [] \<or> evaluator_failures c \<noteq> [],
          ValidationError ''target-failed cases cannot contain evaluator results'')]
      else checks
        [(result_target c = None \<or> target_failure c \<noteq> None,
          ValidationError ''completed cases require a target observation''),
         (result_case_status c = CASE_COMPLETED \<and> evaluator_failures c \<noteq> [],
          ValidationError ''completed cases cannot contain evaluator failures''),
         (result_case_status c = COMPLETED_WITH_ERRORS \<and> evaluator_failures c = [] \<and>
            \<not> (\<exists>ob \<in> set (observations c). is_error_observation ob),
          ValidationError ''completed-with-errors cases require evaluator errors'')])"

definition validate_case_result :: "case_result \<Rightarrow> case_result res" where
  "validate_case_result c = rbind (checks
     [(\<not> is_case_id (result_case_id c), ValidationError ''case_id'')]) (\<lambda>_.
     rbind (check_case_status c) (\<lambda>_. rbind (checks
     [(\<exists>f \<in> set (evaluator_failures c). failure_stage f \<noteq> EVALUATOR_STAGE,
       ValidationError ''case evaluator failures must use the evaluator stage''),
      (has_duplicates (map failure_evaluator (evaluator_failures c)),
       ValidationError ''case evaluator failures must be unique''),
      (out_of_order (failure_keys (evaluator_failures c)),
       ValidationError ''case evaluator failures must be canonically ordered''),
      (has_duplicates (map observation_key (observations c)),
       ValidationError ''case observations must have unique evaluator metrics''),
      (out_of_order (map observation_key (observations c)),
       ValidationError ''case observations must be canonically ordered'')]) (\<lambda>_. Inr c)))"

record metric_summary =
  summary_metric :: string
  summary_evaluator :: artifact_ref
  attempted :: int
  scored :: int
  skipped :: int
  errors :: int
  summary_mean :: "rat option"

definition validate_metric_summary :: "metric_summary \<Rightarrow> metric_summary res" where
  "validate_metric_summary m = rbind (checks
     [(\<not> is_metric_name (summary_metric m), ValidationError ''metric''),
      (\<not> 0 < attempted m, ValidationError ''attempted''),
      (\<not> 0 \<le> scored m \<or> \<not> 0 \<le> skipped m \<or> \<not> 0 \<le> errors m, ValidationError ''counts''),
      (ref_kind (summary_evaluator m) \<noteq> EVALUATOR,
       ValidationError ''summary evaluator must reference an evaluator artifact''),
      (ref_digest (summary_evaluator m) = None,
       ValidationError ''summary evaluator must have a resolved digest''),
      (attempted m \<noteq> scored m + skipped m + errors m,
       ValidationError ''summary outcome counts must equal attempted cases''),
      ((scored m = 0) \<noteq> (summary_mean m = None),
       ValidationError ''summary mean exists exactly when observations were scored'')])
     (\<lambda>_. Inr m)"

datatype run_status = RUN_COMPLETED | COMPLETED_WITH_FAILURES

record run_result =
  run_id :: string
  run_status :: run_status
  run_mode :: execution_mode
  run_suite :: "artifact_ref option"
  run_dataset :: artifact_ref
  run_target :: artifact_ref
  run_evaluators :: "artifact_ref list"
  run_cases :: "case_result list"
  run_metrics :: "metric_summary list"
  result_digest :: string

section \<open>Canonical records and the run digest\<close>

fun observation_record :: "metric_observation \<Rightarrow> json" where
  "observation_record (ScoredObservation m e v r) = JObj
     [(''evaluator'', artifact_record e), (''metric'', JStr m), (''status'', JStr ''scored''),
      (''value'', JFloat v), (''reason_code'', JStr r)]"
| "observation_record (SkippedObservation m e r) = JObj
     [(''evaluator'', artifact_record e), (''metric'', JStr m), (''status'', JStr ''skipped''),
      (''reason_code'', JStr r)]"
| "observation_record (ErrorObservation m e c msg) = JObj
     [(''evaluator'', artifact_record e), (''metric'', JStr m), (''status'', JStr ''error''),
      (''error_code'', JStr c), (''message'', JStr msg)]"

definition failure_record :: "execution_failure \<Rightarrow> json" where
  "failure_record f = JObj
     [(''code'', JStr (failure_code_value (failure_code f))),
      (''evaluator'', case failure_evaluator f of None \<Rightarrow> JNull | Some r \<Rightarrow> artifact_record r),
      (''latency_ms'', optional_float (failure_latency_ms f)),
      (''message'', JStr (failure_message f)),
      (''retryable'', JBool (retryable f)),
      (''stage'', JStr (failure_stage_value (failure_stage f)))]"

definition target_record :: "target_observation \<Rightarrow> json" where
  "target_record t = JObj
     [(''latency_ms'', JFloat (latency_ms t)),
      (''outcome'', JStr (target_outcome_value (response_outcome (response t)))),
      (''output'', response_output (response t)),
      (''refusal_code'', optional_string (refusal_code (response t))),
      (''usage'', JObj [(''input_units'', JInt (input_units (usage (response t)))),
                      (''output_units'', JInt (output_units (usage (response t))))])]"

definition case_record :: "case_result \<Rightarrow> json" where
  "case_record c = JObj
     [(''case_id'', JStr (result_case_id c)),
      (''evaluator_failures'', JList (map failure_record (evaluator_failures c))),
      (''observations'', JList (map observation_record (observations c))),
      (''status'', JStr (case_result_status_value (result_case_status c))),
      (''target'', case result_target c of None \<Rightarrow> JNull | Some t \<Rightarrow> target_record t),
      (''target_failure'', case target_failure c of None \<Rightarrow> JNull | Some f \<Rightarrow> failure_record f)]"

definition summary_record :: "metric_summary \<Rightarrow> json" where
  "summary_record m = JObj
     [(''attempted'', JInt (attempted m)),
      (''errors'', JInt (errors m)),
      (''evaluator'', artifact_record (summary_evaluator m)),
      (''mean'', optional_float (summary_mean m)),
      (''metric'', JStr (summary_metric m)),
      (''scored'', JInt (scored m)),
      (''skipped'', JInt (skipped m))]"

text \<open>
  The digest schema is versioned: v1 for the default mode without a suite (no mode recorded),
  v2 for another mode, v3 with a suite.
\<close>

definition run_content :: "run_result \<Rightarrow> json" where
  "run_content r =
     (let core = \<lambda>schema. [(''cases'', JList (map case_record (run_cases r))),
            (''dataset'', artifact_record (run_dataset r)),
            (''digest_schema'', JStr schema),
            (''evaluators'', JList (map artifact_record (run_evaluators r))),
            (''metrics'', JList (map summary_record (run_metrics r))),
            (''target'', artifact_record (run_target r))];
          mode = (''execution_mode'', JStr (execution_mode_value (run_mode r)))
      in JObj (case run_suite r of
           Some s \<Rightarrow> core ''run-result/v3'' @ [mode, (''suite'', artifact_record s)]
         | None \<Rightarrow> (if run_mode r \<noteq> OFFLINE_DETERMINISTIC_FIXTURE
                    then core ''run-result/v2'' @ [mode] else core ''run-result/v1'')))"

definition calculate_run_digest :: "jcs \<Rightarrow> run_result \<Rightarrow> string res" where
  "calculate_run_digest jcs r = sha256_digest jcs (run_content r)"

section \<open>Run results\<close>

definition run_has_failures :: "case_result list \<Rightarrow> metric_summary list \<Rightarrow> bool" where
  "run_has_failures cases metrics \<longleftrightarrow>
     (\<exists>c \<in> set cases. result_case_status c \<noteq> CASE_COMPLETED) \<or> (\<exists>m \<in> set metrics. errors m > 0)"

definition expected_run_status :: "case_result list \<Rightarrow> metric_summary list \<Rightarrow> run_status" where
  "expected_run_status cases metrics =
     (if run_has_failures cases metrics then COMPLETED_WITH_FAILURES else RUN_COMPLETED)"

definition metric_key :: "metric_summary \<Rightarrow> string \<times> logical_key" where
  "metric_key m = (summary_metric m, logical_key (summary_evaluator m))"

text \<open>The field constraints and the model validator, without the digest comparison.\<close>

definition check_run_result :: "run_result \<Rightarrow> run_result res" where
  "check_run_result r = rbind (checks
     [(\<not> is_run_id (run_id r), ValidationError ''run_id''),
      (run_evaluators r = [], ValidationError ''evaluators''),
      (run_cases r = [], ValidationError ''cases''),
      (run_metrics r = [], ValidationError ''metrics''),
      (\<not> is_sha256_digest (result_digest r), ValidationError ''result_digest''),
      (unresolved DATASET (run_dataset r),
       ValidationError ''run dataset must be a resolved dataset artifact''),
      (unresolved TARGET (run_target r),
       ValidationError ''run target must be a resolved target artifact''),
      (case run_suite r of None \<Rightarrow> False | Some s \<Rightarrow> unresolved SUITE s,
       ValidationError ''run suite must be a resolved suite artifact''),
      (\<exists>e \<in> set (run_evaluators r). unresolved EVALUATOR e,
       ValidationError ''run evaluators must be resolved evaluator artifacts''),
      (has_duplicates (map logical_key (run_evaluators r)),
       ValidationError ''run evaluator references must be unique''),
      (out_of_order (map logical_key (run_evaluators r)),
       ValidationError ''run evaluator references must be canonically ordered''),
      (has_duplicates (map result_case_id (run_cases r)),
       ValidationError ''run case results must be unique''),
      (out_of_order (map result_case_id (run_cases r)),
       ValidationError ''run case results must be canonically ordered''),
      (out_of_order (map metric_key (run_metrics r)),
       ValidationError ''run metric summaries must be canonically ordered''),
      (run_status r \<noteq> expected_run_status (run_cases r) (run_metrics r),
       ValidationError ''run status does not match case and metric outcomes'')]) (\<lambda>_. Inr r)"

abbreviation run_mismatch :: exn where
  "run_mismatch \<equiv> ValidationError ''run result digest does not match canonical content''"

definition validate_run :: "jcs \<Rightarrow> run_result \<Rightarrow> run_result res" where
  "validate_run jcs r = rbind (check_run_result r) (\<lambda>r'.
     rbind (calculate_run_digest jcs r') (\<lambda>e.
     if result_digest r' \<noteq> e then Inl run_mismatch else Inr r'))"

definition arrange_run :: "run_result \<Rightarrow> run_result" where
  "arrange_run r =
     (let ordered_evaluators = sort_key logical_key (run_evaluators r);
          ordered_cases = sort_key result_case_id (run_cases r);
          ordered_metrics = sort_key metric_key (run_metrics r)
      in r\<lparr>run_evaluators := ordered_evaluators, run_cases := ordered_cases,
           run_metrics := ordered_metrics,
           run_status := expected_run_status ordered_cases ordered_metrics\<rparr>)"

text \<open>\<open>RunResult.create\<close>; the status and digest fields of the argument are ignored.\<close>

definition create_run :: "jcs \<Rightarrow> run_result \<Rightarrow> run_result res" where
  "create_run jcs r = rbind (calculate_run_digest jcs (arrange_run r))
     (\<lambda>e. validate_run jcs ((arrange_run r)\<lparr>result_digest := e\<rparr>))"

lemma check_run_result_Inr: "check_run_result r = Inr r' \<Longrightarrow> r' = r"
  by (auto simp: check_run_result_def result_simps)

text \<open>The content that is hashed does not depend on the run identifier, the status or the digest.\<close>

lemma run_content_frame [simp]:
  "run_content (r\<lparr>result_digest := d\<rparr>) = run_content r"
  "run_content (r\<lparr>run_id := i\<rparr>) = run_content r"
  "run_content (r\<lparr>run_status := s\<rparr>) = run_content r"
  by (simp_all add: run_content_def Let_def split: option.split)

interpretation run_model: content_addressed
  check_run_result "calculate_run_digest jcs" result_digest
  "\<lambda>e r. r\<lparr>result_digest := e\<rparr>" arrange_run "validate_run jcs" "create_run jcs"
  run_mismatch for jcs
  by unfold_locales
    (auto simp: validate_run_def create_run_def calculate_run_digest_def
      dest: check_run_result_Inr)

lemma expected_run_status_perm:
  "set cs = set cs' \<Longrightarrow> set ms = set ms' \<Longrightarrow> expected_run_status cs ms = expected_run_status cs' ms'"
  by (simp add: expected_run_status_def run_has_failures_def)

end
