(* ===== verification/Decisions.thy ===== *)
theory Decisions
  imports Results
begin

text \<open>
  Release decisions (\<open>domain/comparison.py\<close>): case and aggregate comparisons, gate results,
  their validators, and the content-addressed decision.
\<close>

datatype comparison_value_status = CV_SCORED | CV_SKIPPED | CV_ERROR

fun comparison_value_status_value :: "comparison_value_status \<Rightarrow> string" where
  "comparison_value_status_value CV_SCORED = ''scored''"
| "comparison_value_status_value CV_SKIPPED = ''skipped''"
| "comparison_value_status_value CV_ERROR = ''error''"

record comparison_value =
  cv_status :: comparison_value_status
  cv_value :: "rat option"

definition validate_comparison_value :: "comparison_value \<Rightarrow> comparison_value res" where
  "validate_comparison_value v = rbind (checks
     [((cv_status v = CV_SCORED) \<noteq> (cv_value v \<noteq> None),
       ValidationError ''only scored comparison values contain a number'')]) (\<lambda>_. Inr v)"

datatype case_change =
  NEWLY_PASSING | NEWLY_FAILING | UNCHANGED_PASSING | UNCHANGED_FAILING | INCOMPARABLE

fun case_change_value :: "case_change \<Rightarrow> string" where
  "case_change_value NEWLY_PASSING = ''newly_passing''"
| "case_change_value NEWLY_FAILING = ''newly_failing''"
| "case_change_value UNCHANGED_PASSING = ''unchanged_passing''"
| "case_change_value UNCHANGED_FAILING = ''unchanged_failing''"
| "case_change_value INCOMPARABLE = ''incomparable''"

text \<open>The dictionary indexed by the two pass states.\<close>

fun change_of :: "bool \<times> bool \<Rightarrow> case_change" where
  "change_of (False, False) = UNCHANGED_FAILING"
| "change_of (False, True) = NEWLY_PASSING"
| "change_of (True, False) = NEWLY_FAILING"
| "change_of (True, True) = UNCHANGED_PASSING"

record gate_case_comparison =
  gcc_metric :: string
  gcc_slice :: "string option"
  gcc_case_id :: string
  gcc_slices :: "string list"
  gcc_baseline :: comparison_value
  gcc_candidate :: comparison_value
  gcc_delta :: "rat option"
  baseline_passed :: "bool option"
  candidate_passed :: "bool option"
  change :: case_change

definition is_comparable :: "comparison_value \<Rightarrow> comparison_value \<Rightarrow> bool" where
  "is_comparable b c \<longleftrightarrow> cv_status b = CV_SCORED \<and> cv_status c = CV_SCORED"

definition expected_change :: "gate_case_comparison \<Rightarrow> case_change" where
  "expected_change g =
     (if is_comparable (gcc_baseline g) (gcc_candidate g)
      then change_of (the (baseline_passed g), the (candidate_passed g)) else INCOMPARABLE)"

definition validate_gate_case_comparison ::
    "gate_case_comparison \<Rightarrow> gate_case_comparison res" where
  "validate_gate_case_comparison g =
     (let comparable = is_comparable (gcc_baseline g) (gcc_candidate g);
          pass_states_exist = (baseline_passed g \<noteq> None \<and> candidate_passed g \<noteq> None)
      in rbind (checks
     [(\<not> is_metric_name (gcc_metric g), ValidationError ''metric''),
      (case gcc_slice g of None \<Rightarrow> False | Some s \<Rightarrow> \<not> is_slice_label s, ValidationError ''slice''),
      (\<not> is_case_id (gcc_case_id g), ValidationError ''case_id''),
      (\<exists>s \<in> set (gcc_slices g). \<not> is_slice_label s, ValidationError ''slices''),
      (comparable \<noteq> (gcc_delta g \<noteq> None),
       ValidationError ''case delta exists exactly when both values are scored''),
      (comparable \<noteq> pass_states_exist,
       ValidationError ''case pass states exist exactly for comparable values''),
      (change g \<noteq> expected_change g,
       ValidationError ''case change does not match its pass states''),
      (out_of_order (gcc_slices g),
       ValidationError ''case comparison slices must be canonically ordered'')])
     (\<lambda>_. Inr g))"

record metric_aggregate =
  agg_attempted :: int
  agg_scored :: int
  agg_skipped :: int
  agg_errors :: int
  agg_mean :: "rat option"

definition validate_metric_aggregate :: "metric_aggregate \<Rightarrow> metric_aggregate res" where
  "validate_metric_aggregate a = rbind (checks
     [(\<not> 0 < agg_attempted a, ValidationError ''attempted''),
      (\<not> 0 \<le> agg_scored a \<or> \<not> 0 \<le> agg_skipped a \<or> \<not> 0 \<le> agg_errors a,
       ValidationError ''counts''),
      (agg_attempted a \<noteq> agg_scored a + agg_skipped a + agg_errors a,
       ValidationError ''aggregate outcome counts must equal attempted cases''),
      ((agg_scored a = 0) \<noteq> (agg_mean a = None),
       ValidationError ''aggregate mean exists exactly when values were scored'')]) (\<lambda>_. Inr a)"

record aggregate_comparison =
  ac_metric :: string
  ac_slice :: "string option"
  ac_evaluator :: artifact_ref
  ac_baseline :: metric_aggregate
  ac_candidate :: metric_aggregate
  ac_delta :: "rat option"

definition validate_aggregate_comparison ::
    "aggregate_comparison \<Rightarrow> aggregate_comparison res" where
  "validate_aggregate_comparison a =
     (let means_exist = (agg_mean (ac_baseline a) \<noteq> None \<and> agg_mean (ac_candidate a) \<noteq> None)
      in rbind (checks
     [(\<not> is_metric_name (ac_metric a), ValidationError ''metric''),
      (case ac_slice a of None \<Rightarrow> False | Some s \<Rightarrow> \<not> is_slice_label s, ValidationError ''slice''),
      (ref_kind (ac_evaluator a) \<noteq> EVALUATOR,
       ValidationError ''aggregate evaluator must reference an evaluator''),
      (ref_digest (ac_evaluator a) = None,
       ValidationError ''aggregate evaluator must have a resolved digest''),
      (means_exist \<noteq> (ac_delta a \<noteq> None),
       ValidationError ''aggregate delta exists exactly when both means exist''),
      (agg_attempted (ac_baseline a) \<noteq> agg_attempted (ac_candidate a),
       ValidationError ''aggregate sides must attempt the same number of cases'')])
     (\<lambda>_. Inr a))"

datatype gate_failure_code = COVERAGE | THRESHOLD | REGRESSION

fun gate_failure_code_value :: "gate_failure_code \<Rightarrow> string" where
  "gate_failure_code_value COVERAGE = ''coverage''"
| "gate_failure_code_value THRESHOLD = ''threshold''"
| "gate_failure_code_value REGRESSION = ''regression''"

datatype gate_status = GATE_PASSED | GATE_FAILED

record gate_result =
  gr_metric :: string
  gr_slice :: "string option"
  gr_direction :: metric_direction
  gr_threshold :: rat
  gr_allowed_regression :: ext_float
  gr_aggregate :: aggregate_comparison
  coverage_passed :: bool
  threshold_passed :: bool
  regression_passed :: bool
  gr_status :: gate_status
  gr_failure_codes :: "gate_failure_code list"

definition expected_failures :: "bool \<Rightarrow> bool \<Rightarrow> bool \<Rightarrow> gate_failure_code list" where
  "expected_failures coverage threshold regression =
     (if \<not> coverage then [COVERAGE] else []) @ (if \<not> threshold then [THRESHOLD] else []) @
     (if \<not> regression then [REGRESSION] else [])"

definition gate_status_of :: "gate_failure_code list \<Rightarrow> gate_status" where
  "gate_status_of failures = (if failures = [] then GATE_PASSED else GATE_FAILED)"

text \<open>Here the allowed regression is a \<open>FiniteFloat\<close>: an infinite one is rejected.\<close>

definition validate_gate_result :: "gate_result \<Rightarrow> gate_result res" where
  "validate_gate_result g =
     (let failures = expected_failures (coverage_passed g) (threshold_passed g) (regression_passed g)
      in rbind (checks
     [(\<not> is_metric_name (gr_metric g), ValidationError ''metric''),
      (case gr_slice g of None \<Rightarrow> False | Some s \<Rightarrow> \<not> is_slice_label s, ValidationError ''slice''),
      (case gr_allowed_regression g of PosInf \<Rightarrow> True | Finite x \<Rightarrow> \<not> 0 \<le> x,
       ValidationError ''allowed_regression''),
      ((gr_metric g, gr_slice g) \<noteq> (ac_metric (gr_aggregate g), ac_slice (gr_aggregate g)),
       ValidationError ''gate result must reference its aggregate''),
      (gr_failure_codes g \<noteq> failures,
       ValidationError ''gate failure codes do not match gate checks''),
      (gr_status g \<noteq> gate_status_of failures,
       ValidationError ''gate status does not match gate checks'')]) (\<lambda>_. Inr g))"

datatype release_status = RELEASE_PASSED | RELEASE_FAILED

fun release_status_value :: "release_status \<Rightarrow> string" where
  "release_status_value RELEASE_PASSED = ''passed''"
| "release_status_value RELEASE_FAILED = ''failed''"

section \<open>JSON forms (\<open>model_dump(mode="json")\<close>)\<close>

definition artifact_dump :: "artifact_ref \<Rightarrow> json" where
  "artifact_dump r = JObj
     [(''kind'', JStr (artifact_kind_value (ref_kind r))), (''name'', JStr (ref_name r)),
      (''revision'', JInt (ref_revision r)), (''digest'', optional_string (ref_digest r))]"

definition comparison_value_dump :: "comparison_value \<Rightarrow> json" where
  "comparison_value_dump v = JObj
     [(''status'', JStr (comparison_value_status_value (cv_status v))),
      (''value'', optional_float (cv_value v))]"

definition optional_bool :: "bool option \<Rightarrow> json" where
  "optional_bool b = (case b of None \<Rightarrow> JNull | Some x \<Rightarrow> JBool x)"

definition gate_case_comparison_dump :: "gate_case_comparison \<Rightarrow> json" where
  "gate_case_comparison_dump g = JObj
     [(''metric'', JStr (gcc_metric g)), (''slice'', optional_string (gcc_slice g)),
      (''case_id'', JStr (gcc_case_id g)), (''slices'', JList (map JStr (gcc_slices g))),
      (''baseline'', comparison_value_dump (gcc_baseline g)),
      (''candidate'', comparison_value_dump (gcc_candidate g)),
      (''delta'', optional_float (gcc_delta g)),
      (''baseline_passed'', optional_bool (baseline_passed g)),
      (''candidate_passed'', optional_bool (candidate_passed g)),
      (''change'', JStr (case_change_value (change g)))]"

definition metric_aggregate_dump :: "metric_aggregate \<Rightarrow> json" where
  "metric_aggregate_dump a = JObj
     [(''attempted'', JInt (agg_attempted a)), (''scored'', JInt (agg_scored a)),
      (''skipped'', JInt (agg_skipped a)), (''errors'', JInt (agg_errors a)),
      (''mean'', optional_float (agg_mean a))]"

definition aggregate_comparison_dump :: "aggregate_comparison \<Rightarrow> json" where
  "aggregate_comparison_dump a = JObj
     [(''metric'', JStr (ac_metric a)), (''slice'', optional_string (ac_slice a)),
      (''evaluator'', artifact_dump (ac_evaluator a)),
      (''baseline'', metric_aggregate_dump (ac_baseline a)),
      (''candidate'', metric_aggregate_dump (ac_candidate a)),
      (''delta'', optional_float (ac_delta a))]"

definition gate_result_dump :: "gate_result \<Rightarrow> json" where
  "gate_result_dump g = JObj
     [(''metric'', JStr (gr_metric g)), (''slice'', optional_string (gr_slice g)),
      (''direction'', JStr (metric_direction_value (gr_direction g))),
      (''threshold'', JFloat (gr_threshold g)),
      (''allowed_regression'', ext_float_json (gr_allowed_regression g)),
      (''aggregate'', aggregate_comparison_dump (gr_aggregate g)),
      (''coverage_passed'', JBool (coverage_passed g)),
      (''threshold_passed'', JBool (threshold_passed g)),
      (''regression_passed'', JBool (regression_passed g)),
      (''status'', JStr (case gr_status g of GATE_PASSED \<Rightarrow> ''passed'' | GATE_FAILED \<Rightarrow> ''failed'')),
      (''failure_codes'', JList (map (JStr \<circ> gate_failure_code_value) (gr_failure_codes g)))]"

section \<open>Decisions\<close>

record release_decision =
  decision_spec_name :: string
  decision_mode :: execution_mode
  decision_suite :: "artifact_ref option"
  decision_dataset :: artifact_ref
  decision_baseline :: artifact_ref
  decision_candidate :: artifact_ref
  baseline_run_id :: string
  candidate_run_id :: string
  baseline_result_digest :: string
  candidate_result_digest :: string
  decision_aggregates :: "aggregate_comparison list"
  decision_gates :: "gate_result list"
  decision_cases :: "gate_case_comparison list"
  decision_status :: release_status
  decision_digest :: string

text \<open>The hashed evidence excludes the run identifiers; its schema is versioned as for runs.\<close>

definition decision_content :: "release_decision \<Rightarrow> json" where
  "decision_content d =
     (let core = \<lambda>schema.
           [(''aggregates'', JList (map aggregate_comparison_dump (decision_aggregates d))),
            (''baseline'', artifact_dump (decision_baseline d)),
            (''baseline_result_digest'', JStr (baseline_result_digest d)),
            (''candidate'', artifact_dump (decision_candidate d)),
            (''candidate_result_digest'', JStr (candidate_result_digest d)),
            (''cases'', JList (map gate_case_comparison_dump (decision_cases d))),
            (''dataset'', artifact_dump (decision_dataset d)),
            (''decision_schema'', JStr schema),
            (''gates'', JList (map gate_result_dump (decision_gates d))),
            (''spec_name'', JStr (decision_spec_name d))];
          mode = (''execution_mode'', JStr (execution_mode_value (decision_mode d)))
      in JObj (case decision_suite d of
           Some s \<Rightarrow> core ''release-decision/v3'' @ [mode, (''suite'', artifact_dump s)]
         | None \<Rightarrow> (if decision_mode d \<noteq> OFFLINE_DETERMINISTIC_FIXTURE
                    then core ''release-decision/v2'' @ [mode]
                    else core ''release-decision/v1'')))"

definition calculate_decision_digest :: "jcs \<Rightarrow> release_decision \<Rightarrow> string res" where
  "calculate_decision_digest jcs d = sha256_digest jcs (decision_content d)"

definition aggregate_key :: "aggregate_comparison \<Rightarrow> string \<times> string" where
  "aggregate_key a = (ac_metric a, slice_or_empty (ac_slice a))"

definition gate_result_key :: "gate_result \<Rightarrow> string \<times> string" where
  "gate_result_key g = (gr_metric g, slice_or_empty (gr_slice g))"

definition case_key :: "gate_case_comparison \<Rightarrow> string \<times> string \<times> string" where
  "case_key c = (gcc_metric c, slice_or_empty (gcc_slice c), gcc_case_id c)"

definition expected_release_status :: "gate_result list \<Rightarrow> release_status" where
  "expected_release_status gates =
     (if \<forall>g \<in> set gates. gr_status g = GATE_PASSED then RELEASE_PASSED else RELEASE_FAILED)"

definition check_decision :: "release_decision \<Rightarrow> release_decision res" where
  "check_decision d = rbind (checks
     [(\<not> is_artifact_name (decision_spec_name d), ValidationError ''spec_name''),
      (\<not> is_run_id (baseline_run_id d) \<or> \<not> is_run_id (candidate_run_id d), ValidationError ''run_id''),
      (\<not> is_sha256_digest (baseline_result_digest d) \<or> \<not> is_sha256_digest (candidate_result_digest d)
         \<or> \<not> is_sha256_digest (decision_digest d), ValidationError ''digest''),
      (decision_aggregates d = [], ValidationError ''aggregates''),
      (decision_gates d = [], ValidationError ''gates''),
      (decision_cases d = [], ValidationError ''cases''),
      (unresolved DATASET (decision_dataset d),
       ValidationError ''decision dataset must be a resolved dataset''),
      (case decision_suite d of None \<Rightarrow> False | Some s \<Rightarrow> unresolved SUITE s,
       ValidationError ''decision suite must be a resolved suite artifact''),
      (unresolved TARGET (decision_baseline d) \<or> unresolved TARGET (decision_candidate d),
       ValidationError ''decision targets must be resolved target artifacts''),
      (out_of_order (map aggregate_key (decision_aggregates d)),
       ValidationError ''decision aggregates must be canonically ordered''),
      (out_of_order (map gate_result_key (decision_gates d)),
       ValidationError ''decision gates must be canonically ordered''),
      (out_of_order (map case_key (decision_cases d)),
       ValidationError ''decision cases must be canonically ordered''),
      (has_duplicates (map gate_result_key (decision_gates d)),
       ValidationError ''decision gates must be unique''),
      (decision_status d \<noteq> expected_release_status (decision_gates d),
       ValidationError ''release status does not match gate results'')]) (\<lambda>_. Inr d)"

abbreviation decision_mismatch :: exn where
  "decision_mismatch \<equiv> ValidationError ''decision digest does not match canonical evidence''"

definition validate_decision :: "jcs \<Rightarrow> release_decision \<Rightarrow> release_decision res" where
  "validate_decision jcs d = rbind (check_decision d) (\<lambda>d'.
     rbind (calculate_decision_digest jcs d') (\<lambda>e.
     if decision_digest d' \<noteq> e then Inl decision_mismatch else Inr d'))"

definition arrange_decision :: "release_decision \<Rightarrow> release_decision" where
  "arrange_decision d =
     (let ordered_aggregates = sort_key aggregate_key (decision_aggregates d);
          ordered_gates = sort_key gate_result_key (decision_gates d);
          ordered_cases = sort_key case_key (decision_cases d)
      in d\<lparr>decision_aggregates := ordered_aggregates, decision_gates := ordered_gates,
           decision_cases := ordered_cases,
           decision_status := expected_release_status ordered_gates\<rparr>)"

text \<open>\<open>ReleaseDecision.create\<close>; the status and digest fields of the argument are ignored.\<close>

definition create_decision :: "jcs \<Rightarrow> release_decision \<Rightarrow> release_decision res" where
  "create_decision jcs d = rbind (calculate_decision_digest jcs (arrange_decision d))
     (\<lambda>e. validate_decision jcs ((arrange_decision d)\<lparr>decision_digest := e\<rparr>))"

lemma check_decision_Inr: "check_decision d = Inr d' \<Longrightarrow> d' = d"
  by (auto simp: check_decision_def result_simps)

lemma decision_content_frame [simp]:
  "decision_content (d\<lparr>decision_digest := e\<rparr>) = decision_content d"
  "decision_content (d\<lparr>baseline_run_id := b\<rparr>) = decision_content d"
  "decision_content (d\<lparr>candidate_run_id := c\<rparr>) = decision_content d"
  by (simp_all add: decision_content_def Let_def split: option.split)

interpretation decision_model: content_addressed
  check_decision "calculate_decision_digest jcs" decision_digest
  "\<lambda>e d. d\<lparr>decision_digest := e\<rparr>" arrange_decision "validate_decision jcs" "create_decision jcs"
  decision_mismatch for jcs
  by unfold_locales
    (auto simp: validate_decision_def create_decision_def calculate_decision_digest_def
      dest: check_decision_Inr)

lemma expected_release_status_sorted [simp]:
  "expected_release_status (sort_key f gs) = expected_release_status gs"
  by (simp add: expected_release_status_def)

lemma expected_release_status_passed:
  "expected_release_status gs = RELEASE_PASSED \<longleftrightarrow> (\<forall>g \<in> set gs. gr_status g = GATE_PASSED)"
  by (simp add: expected_release_status_def)

lemma validate_gate_result_Inr:
  "validate_gate_result g = Inr g' \<Longrightarrow>
     g' = g \<and> (gr_status g = GATE_PASSED \<longleftrightarrow> coverage_passed g \<and> threshold_passed g \<and> regression_passed g)"
  by (auto simp: validate_gate_result_def Let_def result_simps gate_status_of_def expected_failures_def
      split: if_splits)

end
