(* ===== verification/Compare.thy ===== *)
theory Compare
  imports Decisions
begin

text \<open>
  Deterministic candidate/baseline comparison and release gates (\<open>application/comparison.py\<close>).
  The metric references of a run and the case and aggregate indexes are dictionaries; float
  arithmetic is that of \<open>Floats\<close>.
\<close>

section \<open>Gate arithmetic\<close>

definition at_least :: "rat \<Rightarrow> rat \<Rightarrow> bool" where
  "at_least value boundary \<longleftrightarrow> boundary \<le> value \<or> isclose value boundary"

definition at_most :: "rat \<Rightarrow> rat \<Rightarrow> bool" where
  "at_most value boundary \<longleftrightarrow> value \<le> boundary \<or> isclose value boundary"

definition passes :: "rat \<Rightarrow> metric_direction \<Rightarrow> rat \<Rightarrow> bool" where
  "passes value direction threshold =
     (if direction = HIGHER_IS_BETTER then at_least value threshold else at_most value threshold)"

text \<open>Every finite delta passes against an infinite allowance.\<close>

definition regression_passes :: "rat \<Rightarrow> metric_direction \<Rightarrow> ext_float \<Rightarrow> bool" where
  "regression_passes delta direction allowed_regression =
     (case allowed_regression of
        PosInf \<Rightarrow> True
      | Finite a \<Rightarrow> (if direction = HIGHER_IS_BETTER then at_least delta (- a) else at_most delta a))"

text \<open>\<open>float(Decimal(str(left)) - Decimal(str(right)))\<close>; \<open>None\<close> is an infinite result.\<close>

definition difference :: "rat \<Rightarrow> rat \<Rightarrow> rat option" where
  "difference left right = round64 (decimal_subtract (repr_decimal left) (repr_decimal right))"

text \<open>A \<open>FiniteFloat\<close> field rejects an infinite difference.\<close>

definition finite_difference :: "rat \<Rightarrow> rat \<Rightarrow> rat res" where
  "finite_difference left right = of_option (ValidationError ''delta'') (difference left right)"

section \<open>Input validation\<close>

definition require_artifact_match :: "artifact_ref \<Rightarrow> artifact_ref \<Rightarrow> string \<Rightarrow> unit res" where
  "require_artifact_match expected_ref actual role =
     (let digest_matches = (ref_digest expected_ref = None \<or> ref_digest expected_ref = ref_digest actual)
      in checks [(logical_key expected_ref \<noteq> logical_key actual \<or> \<not> digest_matches,
        ComparisonConfigurationError (role @ '' does not match evaluation policy''))])"

definition metric_references :: "run_result \<Rightarrow> (string \<times> artifact_ref) list res" where
  "metric_references run =
     (let references = dict_of (map (\<lambda>m. (summary_metric m, summary_evaluator m)) (run_metrics run))
      in rbind (checks [(length references \<noteq> length (run_metrics run),
           ComparisonConfigurationError ''run metric names must be unique'')]) (\<lambda>_. Inr references))"

definition expected_suite_metrics :: "evaluation_suite \<Rightarrow> (string \<times> artifact_ref) list" where
  "expected_suite_metrics suite =
     dict_of (concat (map (\<lambda>e. map (\<lambda>m. (m, evaluator_artifact e)) (evaluator_metrics e))
       (suite_evaluators suite)))"

definition validate_suite_run :: "evaluation_suite \<Rightarrow> run_result \<Rightarrow> unit res" where
  "validate_suite_run suite run =
     (let expected_metrics = expected_suite_metrics suite in
      rbind (checks [(run_evaluators run \<noteq> suite_evaluator_refs suite,
        ComparisonConfigurationError ''run evaluators do not match evaluation suite'')]) (\<lambda>_.
      rbind (metric_references run) (\<lambda>references. checks
     [(\<not> dict_eq references expected_metrics,
       ComparisonConfigurationError ''run evaluator metrics do not match evaluation suite''),
      (\<exists>c \<in> set (run_cases run). \<exists>ob \<in> set (observations c).
         map_of expected_metrics (obs_metric ob) \<noteq> Some (obs_evaluator ob),
       ComparisonConfigurationError ''run observations do not match evaluation suite''),
      (\<exists>c \<in> set (run_cases run). \<exists>f \<in> set (evaluator_failures c).
         failure_evaluator f \<notin> Some ` set (suite_evaluator_refs suite),
       ComparisonConfigurationError ''run evaluator failures do not match evaluation suite''),
      (run_mode run \<noteq> exec_mode (suite_execution suite),
       ComparisonConfigurationError ''run execution mode does not match evaluation suite'')])))"

definition validate_suite_inputs ::
    "evaluation_suite option \<Rightarrow> evaluation_spec \<Rightarrow> dataset_version \<Rightarrow> run_result \<Rightarrow> run_result
     \<Rightarrow> unit res" where
  "validate_suite_inputs suite spec dataset baseline candidate =
     (case suite of
        None \<Rightarrow> checks [(run_suite baseline \<noteq> None \<or> run_suite candidate \<noteq> None,
          ComparisonConfigurationError ''suite-pinned runs require the evaluation suite snapshot'')]
      | Some s \<Rightarrow>
          rbind (checks
            [(run_suite baseline \<noteq> Some (suite_ref s) \<or> run_suite candidate \<noteq> Some (suite_ref s),
              ComparisonConfigurationError
                ''candidate and baseline must pin the supplied evaluation suite''),
             (suite_dataset s \<noteq> dataset_ref dataset,
              ComparisonConfigurationError ''dataset does not match evaluation suite'')]) (\<lambda>_.
          rbind (validate_suite_run s baseline) (\<lambda>_.
          rbind (validate_suite_run s candidate) (\<lambda>_.
          rbind (checks
            [(\<not> set (suite_slices s) \<subseteq> dataset_slices dataset,
              ComparisonConfigurationError ''suite slices are absent from the supplied dataset'')])
            (\<lambda>_.
          rbind (to_evaluation_spec s (run_target baseline) (run_target candidate)) (\<lambda>policy.
          checks [(spec \<noteq> policy, ComparisonConfigurationError
            ''comparison policy must exactly match evaluation suite'')]))))))"

definition validate_inputs ::
    "evaluation_spec \<Rightarrow> dataset_version \<Rightarrow> run_result \<Rightarrow> run_result \<Rightarrow> evaluation_suite option
     \<Rightarrow> unit res" where
  "validate_inputs spec dataset baseline candidate suite =
     rbind (validate_suite_inputs suite spec dataset baseline candidate) (\<lambda>_.
     case spec_baseline spec of
       None \<Rightarrow> Inl (ComparisonConfigurationError
         ''baseline comparison requires a baseline target reference'')
     | Some policy_baseline \<Rightarrow>
     rbind (checks
       [(run_mode baseline \<noteq> run_mode candidate,
         ComparisonConfigurationError ''candidate and baseline execution modes must match''),
        (run_dataset baseline \<noteq> dataset_ref dataset \<or> run_dataset candidate \<noteq> dataset_ref dataset,
         ComparisonConfigurationError
           ''candidate and baseline must use the supplied dataset revision'')]) (\<lambda>_.
     rbind (require_artifact_match (spec_dataset spec) (dataset_ref dataset) ''dataset'') (\<lambda>_.
     rbind (require_artifact_match policy_baseline (run_target baseline) ''baseline target'') (\<lambda>_.
     rbind (require_artifact_match (spec_candidate spec) (run_target candidate) ''candidate target'')
       (\<lambda>_.
     let expected_case_ids = map case_id (dataset_cases dataset) in
     rbind (checks
       [(map result_case_id (run_cases baseline) \<noteq> expected_case_ids,
         ComparisonConfigurationError ''baseline cases must exactly match the supplied dataset''),
        (map result_case_id (run_cases candidate) \<noteq> expected_case_ids,
         ComparisonConfigurationError ''candidate cases must exactly match the supplied dataset'')])
       (\<lambda>_.
     rbind (metric_references baseline) (\<lambda>baseline_metrics.
     rbind (metric_references candidate) (\<lambda>candidate_metrics.
     checks [(fst ` set baseline_metrics \<noteq> fst ` set candidate_metrics,
       ComparisonConfigurationError ''candidate and baseline metric sets must match'')]))))))))"

section \<open>Evidence\<close>

definition cases_in_scope :: "evaluation_case list \<Rightarrow> string option \<Rightarrow> evaluation_case list res" where
  "cases_in_scope cases slice_name =
     (let selected = (case slice_name of None \<Rightarrow> cases
          | Some s \<Rightarrow> filter (\<lambda>c. s \<in> set (case_slices c)) cases)
      in if selected = [] then
           Inl (ComparisonConfigurationError ''comparison slice contains no cases'')
         else Inr selected)"

definition error_value :: comparison_value where
  "error_value = \<lparr>cv_status = CV_ERROR, cv_value = None\<rparr>"

definition case_value :: "case_result \<Rightarrow> string \<Rightarrow> comparison_value" where
  "case_value c metric =
     (if result_case_status c = TARGET_FAILED then error_value
      else case List.find (\<lambda>ob. obs_metric ob = metric) (observations c) of
        Some (ScoredObservation _ _ v _) \<Rightarrow> \<lparr>cv_status = CV_SCORED, cv_value = Some v\<rparr>
      | Some (SkippedObservation _ _ _) \<Rightarrow> \<lparr>cv_status = CV_SKIPPED, cv_value = None\<rparr>
      | Some (ErrorObservation _ _ _ _) \<Rightarrow> error_value
      | None \<Rightarrow> error_value)"

type_synonym case_index = "(string \<times> case_result) list"

definition case_index_of :: "run_result \<Rightarrow> case_index" where
  "case_index_of run = dict_of (map (\<lambda>c. (result_case_id c, c)) (run_cases run))"

definition lookup_case :: "case_index \<Rightarrow> evaluation_case \<Rightarrow> case_result res" where
  "lookup_case results c = of_option (LookupError ''KeyError'') (map_of results (case_id c))"

text \<open>The counters of the loop over the selected cases, then the mean of the scored values.\<close>

definition aggregate_values :: "comparison_value list \<Rightarrow> metric_aggregate res" where
  "aggregate_values vs =
     (let values = List.map_filter cv_value (filter (\<lambda>v. cv_status v = CV_SCORED) vs);
          skips = length (filter (\<lambda>v. cv_status v = CV_SKIPPED) vs);
          errs = length (filter (\<lambda>v. cv_status v = CV_ERROR) vs)
      in rbind (fmean values) (\<lambda>m. validate_metric_aggregate
           \<lparr>agg_attempted = int (length vs), agg_scored = int (length values),
            agg_skipped = int skips, agg_errors = int errs, agg_mean = m\<rparr>))"

definition aggregate ::
    "evaluation_case list \<Rightarrow> case_index \<Rightarrow> string \<Rightarrow> metric_aggregate res" where
  "aggregate selected results metric =
     rbind (rmap (\<lambda>c. rbind (lookup_case results c) (\<lambda>r. Inr (case_value r metric))) selected)
       aggregate_values"

definition aggregate_from_summary :: "metric_summary \<Rightarrow> metric_aggregate res" where
  "aggregate_from_summary m = validate_metric_aggregate
     \<lparr>agg_attempted = attempted m, agg_scored = scored m, agg_skipped = skipped m,
      agg_errors = errors m, agg_mean = summary_mean m\<rparr>"

definition aggregate_delta :: "metric_aggregate \<Rightarrow> metric_aggregate \<Rightarrow> rat option res" where
  "aggregate_delta b c =
     (case (agg_mean b, agg_mean c) of
        (Some bm, Some cm) \<Rightarrow> rbind (finite_difference cm bm) (\<lambda>d. Inr (Some d))
      | _ \<Rightarrow> Inr None)"

definition compare_aggregate ::
    "evaluation_case list \<Rightarrow> case_index \<Rightarrow> case_index \<Rightarrow> string \<Rightarrow> artifact_ref \<Rightarrow> string option
     \<Rightarrow> aggregate_comparison res" where
  "compare_aggregate cases baseline_cases candidate_cases metric evaluator slice_name =
     rbind (cases_in_scope cases slice_name) (\<lambda>selected.
     rbind (aggregate selected baseline_cases metric) (\<lambda>b.
     rbind (aggregate selected candidate_cases metric) (\<lambda>c.
     rbind (aggregate_delta b c) (\<lambda>delta.
     validate_aggregate_comparison
       \<lparr>ac_metric = metric, ac_slice = slice_name, ac_evaluator = evaluator,
        ac_baseline = b, ac_candidate = c, ac_delta = delta\<rparr>))))"

text \<open>\<open>(None, *sorted({label for case in cases for label in case.slices}))\<close>.\<close>

definition all_slices :: "evaluation_case list \<Rightarrow> string option list" where
  "all_slices cases = None # map Some (sort (remdups (concat (map case_slices cases))))"

definition compare_metric ::
    "evaluation_case list \<Rightarrow> case_index \<Rightarrow> case_index \<Rightarrow> (string \<times> artifact_ref) list
     \<Rightarrow> (string \<times> artifact_ref) list \<Rightarrow> string \<Rightarrow> aggregate_comparison list res" where
  "compare_metric cases baseline_cases candidate_cases baseline_metrics candidate_metrics metric =
     rbind (of_option (LookupError ''KeyError'') (map_of baseline_metrics metric)) (\<lambda>evaluator.
     rbind (of_option (LookupError ''KeyError'') (map_of candidate_metrics metric)) (\<lambda>other.
     if other \<noteq> evaluator then Inl (ComparisonConfigurationError
       ''candidate and baseline evaluator revisions must match'')
     else rmap (compare_aggregate cases baseline_cases candidate_cases metric evaluator)
       (all_slices cases)))"

definition coverage_passes :: "aggregate_comparison \<Rightarrow> bool" where
  "coverage_passes a \<longleftrightarrow>
     agg_errors (ac_baseline a) = 0 \<and> agg_errors (ac_candidate a) = 0 \<and>
     agg_scored (ac_baseline a) > 0 \<and>
     agg_scored (ac_baseline a) = agg_scored (ac_candidate a) \<and>
     agg_skipped (ac_baseline a) = agg_skipped (ac_candidate a)"

definition evaluate_gate :: "metric_gate \<Rightarrow> aggregate_comparison \<Rightarrow> gate_result res" where
  "evaluate_gate gate a =
     (let coverage = coverage_passes a;
          threshold = (case agg_mean (ac_candidate a) of None \<Rightarrow> False
             | Some m \<Rightarrow> passes m (gate_direction gate) (gate_threshold gate));
          regression = (case ac_delta a of None \<Rightarrow> False
             | Some d \<Rightarrow> regression_passes d (gate_direction gate) (gate_allowed_regression gate));
          failure_codes = expected_failures coverage threshold regression
      in validate_gate_result
           \<lparr>gr_metric = gate_metric gate, gr_slice = gate_slice gate,
            gr_direction = gate_direction gate, gr_threshold = gate_threshold gate,
            gr_allowed_regression = gate_allowed_regression gate, gr_aggregate = a,
            coverage_passed = coverage, threshold_passed = threshold,
            regression_passed = regression, gr_status = gate_status_of failure_codes,
            gr_failure_codes = failure_codes\<rparr>)"

definition compare_case ::
    "evaluation_case \<Rightarrow> metric_gate \<Rightarrow> comparison_value \<Rightarrow> comparison_value
     \<Rightarrow> gate_case_comparison res" where
  "compare_case c gate b v =
     (let base = \<lparr>gcc_metric = gate_metric gate, gcc_slice = gate_slice gate,
            gcc_case_id = case_id c, gcc_slices = case_slices c, gcc_baseline = b,
            gcc_candidate = v, gcc_delta = None, baseline_passed = None,
            candidate_passed = None, change = INCOMPARABLE\<rparr>
      in case (if is_comparable b v then (cv_value b, cv_value v) else (None, None)) of
        (Some bx, Some vx) \<Rightarrow>
          (let bp = passes bx (gate_direction gate) (gate_threshold gate);
               vp = passes vx (gate_direction gate) (gate_threshold gate)
           in rbind (finite_difference vx bx) (\<lambda>d. validate_gate_case_comparison
                (base\<lparr>gcc_delta := Some d, baseline_passed := Some bp,
                     candidate_passed := Some vp, change := change_of (bp, vp)\<rparr>)))
      | _ \<Rightarrow> validate_gate_case_comparison base)"

definition compare_gate ::
    "evaluation_case list \<Rightarrow> case_index \<Rightarrow> case_index
     \<Rightarrow> ((string \<times> string option) \<times> aggregate_comparison) list \<Rightarrow> metric_gate
     \<Rightarrow> (gate_result \<times> gate_case_comparison list) res" where
  "compare_gate cases baseline_cases candidate_cases index gate =
     rbind (of_option (ComparisonConfigurationError
         ''gate metric or slice is absent from compared evidence'')
       (map_of index (gate_metric gate, gate_slice gate))) (\<lambda>a.
     rbind (evaluate_gate gate a) (\<lambda>result.
     rbind (cases_in_scope cases (gate_slice gate)) (\<lambda>selected.
     rbind (rmap (\<lambda>c. rbind (lookup_case baseline_cases c) (\<lambda>b.
                 rbind (lookup_case candidate_cases c) (\<lambda>v.
                 compare_case c gate (case_value b (gate_metric gate))
                   (case_value v (gate_metric gate))))) selected) (\<lambda>comparisons.
     Inr (result, comparisons)))))"

datatype side = BASELINE | CANDIDATE

definition validate_stored_summaries ::
    "run_result \<Rightarrow> ((string \<times> string option) \<times> aggregate_comparison) list \<Rightarrow> side
     \<Rightarrow> unit list res" where
  "validate_stored_summaries run recomputed side = rmap (\<lambda>m.
     rbind (of_option (LookupError ''KeyError'') (map_of recomputed (summary_metric m, None))) (\<lambda>a.
     rbind (aggregate_from_summary m) (\<lambda>expected_aggregate.
     checks [((case side of BASELINE \<Rightarrow> ac_baseline a | CANDIDATE \<Rightarrow> ac_candidate a)
         \<noteq> expected_aggregate,
       ComparisonConfigurationError ''stored run aggregates do not match case evidence'')])))
     (run_metrics run)"

definition compare_runs ::
    "jcs \<Rightarrow> evaluation_spec \<Rightarrow> dataset_version \<Rightarrow> run_result \<Rightarrow> run_result
     \<Rightarrow> evaluation_suite option \<Rightarrow> release_decision res" where
  "compare_runs jcs spec dataset baseline candidate suite =
     rbind (validate_inputs spec dataset baseline candidate suite) (\<lambda>_.
     let baseline_cases = case_index_of baseline; candidate_cases = case_index_of candidate in
     rbind (metric_references baseline) (\<lambda>baseline_metrics.
     rbind (metric_references candidate) (\<lambda>candidate_metrics.
     rbind (rmap (compare_metric (dataset_cases dataset) baseline_cases candidate_cases
         baseline_metrics candidate_metrics) (sort (map fst baseline_metrics))) (\<lambda>nested.
     let aggregates = concat nested;
         aggregate_index = dict_of (map (\<lambda>a. ((ac_metric a, ac_slice a), a)) aggregates) in
     rbind (validate_stored_summaries baseline aggregate_index BASELINE) (\<lambda>_.
     rbind (validate_stored_summaries candidate aggregate_index CANDIDATE) (\<lambda>_.
     rbind (rmap (compare_gate (dataset_cases dataset) baseline_cases candidate_cases
         aggregate_index) (spec_gates spec)) (\<lambda>gated.
     create_decision jcs
       \<lparr>decision_spec_name = spec_name spec, decision_mode = run_mode baseline,
        decision_suite = map_option suite_ref suite, decision_dataset = dataset_ref dataset,
        decision_baseline = run_target baseline, decision_candidate = run_target candidate,
        baseline_run_id = run_id baseline, candidate_run_id = run_id candidate,
        baseline_result_digest = result_digest baseline,
        candidate_result_digest = result_digest candidate,
        decision_aggregates = aggregates, decision_gates = map fst gated,
        decision_cases = concat (map snd gated), decision_status = RELEASE_FAILED,
        decision_digest = []\<rparr>)))))))"

end
