(* ===== verification/Release.thy ===== *)
theory Release
  imports Compare
begin

text \<open>
  What a comparison decides, stated independently of how \<open>compare_runs\<close> computes it: the
  evidence of a metric in a slice is read off the two runs case by case, a gate holds when the
  coverage, the threshold and the regression conditions hold of that evidence, and a release
  passes when every gate of the policy holds. The lemmas relate the indexes, the nested
  aggregates and the gate loop of the code to this description.
\<close>

section \<open>The reference verdict\<close>

definition in_slice :: "string option \<Rightarrow> evaluation_case \<Rightarrow> bool" where
  "in_slice scope c \<longleftrightarrow> (case scope of None \<Rightarrow> True | Some s \<Rightarrow> s \<in> set (case_slices c))"

text \<open>The outcomes of a metric on the cases of a slice, in dataset order.\<close>

definition evidence :: "dataset_version \<Rightarrow> run_result \<Rightarrow> string \<Rightarrow> string option \<Rightarrow> comparison_value list" where
  "evidence dataset run metric scope = map (\<lambda>(c, r). case_value r metric)
     (filter (\<lambda>(c, r). in_slice scope c) (zip (dataset_cases dataset) (run_cases run)))"

definition outcome_count :: "comparison_value_status \<Rightarrow> comparison_value list \<Rightarrow> nat" where
  "outcome_count s vs = length (filter (\<lambda>v. cv_status v = s) vs)"

definition scores :: "comparison_value list \<Rightarrow> rat list" where
  "scores vs = List.map_filter cv_value (filter (\<lambda>v. cv_status v = CV_SCORED) vs)"

text \<open>
  A gate holds: no case failed on either side, both sides scored and skipped equally many cases
  and at least one, the candidate's mean meets the threshold, and its difference to the
  baseline's mean is within the allowed regression.
\<close>

definition gate_holds :: "dataset_version \<Rightarrow> run_result \<Rightarrow> run_result \<Rightarrow> metric_gate \<Rightarrow> bool" where
  "gate_holds dataset baseline candidate g \<longleftrightarrow>
     (let b = evidence dataset baseline (gate_metric g) (gate_slice g);
          c = evidence dataset candidate (gate_metric g) (gate_slice g)
      in outcome_count CV_ERROR b = 0 \<and> outcome_count CV_ERROR c = 0 \<and>
         0 < outcome_count CV_SCORED b \<and>
         outcome_count CV_SCORED b = outcome_count CV_SCORED c \<and>
         outcome_count CV_SKIPPED b = outcome_count CV_SKIPPED c \<and>
         (\<exists>bm cm delta. fmean (scores b) = Inr (Some bm) \<and> fmean (scores c) = Inr (Some cm) \<and>
            passes cm (gate_direction g) (gate_threshold g) \<and>
            difference cm bm = Some delta \<and>
            regression_passes delta (gate_direction g) (gate_allowed_regression g)))"

section \<open>Metric references\<close>

lemma metric_references_Inr:
  assumes "metric_references run = Inr refs"
  shows "refs = map (\<lambda>m. (summary_metric m, summary_evaluator m)) (run_metrics run)"
    "distinct (map summary_metric (run_metrics run))"
proof -
  let ?ps = "map (\<lambda>m. (summary_metric m, summary_evaluator m)) (run_metrics run)"
  from assms have refs: "refs = dict_of ?ps" and len: "length (dict_of ?ps) = length ?ps"
    by (auto simp: metric_references_def Let_def result_simps)
  have "card (set (map fst ?ps)) = card (set (map fst (dict_of ?ps)))"
    using keys_dict_of[of ?ps] by (simp only: set_map)
  also have "\<dots> = length (map fst ?ps)"
    using distinct_card[OF distinct_dict_of[of ?ps]] len by simp
  finally have "distinct (map fst ?ps)" by (rule card_distinct)
  then show "distinct (map summary_metric (run_metrics run))" "refs = ?ps"
    using refs by (simp_all add: comp_def dict_of_distinct)
qed

section \<open>The case index\<close>

definition same_cases :: "dataset_version \<Rightarrow> run_result \<Rightarrow> bool" where
  "same_cases dataset run \<longleftrightarrow>
     distinct (map case_id (dataset_cases dataset)) \<and>
     map result_case_id (run_cases run) = map case_id (dataset_cases dataset)"

lemma same_cases_length: "same_cases dataset run \<Longrightarrow> length (run_cases run) = length (dataset_cases dataset)"
  by (metis length_map same_cases_def)

lemma lookup_case_zip:
  assumes "same_cases dataset run" "(c, r) \<in> set (zip (dataset_cases dataset) (run_cases run))"
  shows "lookup_case (case_index_of run) c = Inr r"
proof -
  have d: "distinct (map result_case_id (run_cases run))" using assms(1) by (simp add: same_cases_def)
  obtain i where "i < length (run_cases run)" "c = dataset_cases dataset ! i" "r = run_cases run ! i"
    "i < length (dataset_cases dataset)"
    using assms(2) by (auto simp: in_set_zip)
  then have "case_id c = result_case_id r" "r \<in> set (run_cases run)"
    using assms(1) by (auto simp: same_cases_def dest: arg_cong[where f = "\<lambda>xs. xs ! i"])
  moreover have "dict_of (map (\<lambda>c. (result_case_id c, c)) (run_cases run)) =
      map (\<lambda>c. (result_case_id c, c)) (run_cases run)"
    using d by (intro dict_of_distinct) (simp add: comp_def)
  ultimately have "map_of (case_index_of run) (case_id c) = Some r"
    using d by (force simp: case_index_of_def comp_def intro!: map_of_is_SomeI)
  then show ?thesis by (simp add: lookup_case_def)
qed

lemma cases_in_scope_Inr:
  "cases_in_scope cases scope = Inr sel \<longleftrightarrow> sel = filter (in_slice scope) cases \<and> sel \<noteq> []"
proof (cases scope)
  case None
  have "in_slice None = (\<lambda>c. True)" by (simp add: fun_eq_iff in_slice_def)
  with None show ?thesis by (auto simp: cases_in_scope_def)
next
  case (Some s)
  have "in_slice (Some s) = (\<lambda>c. s \<in> set (case_slices c))" by (simp add: fun_eq_iff in_slice_def)
  with Some show ?thesis by (auto simp: cases_in_scope_def Let_def split: if_splits)
qed

text \<open>Looking every selected case up in the index is pairing the cases with the run's results.\<close>

lemma rmap_lookup_cases:
  assumes "same_cases dataset run"
  shows "rmap (\<lambda>c. rbind (lookup_case (case_index_of run) c) (\<lambda>r. Inr (case_value r metric)))
      (filter (in_slice scope) (dataset_cases dataset)) = Inr (evidence dataset run metric scope)"
proof -
  let ?f = "\<lambda>c. rbind (lookup_case (case_index_of run) c) (\<lambda>r. Inr (case_value r metric))"
  have step: "(c, r) \<in> set (zip (dataset_cases dataset) (run_cases run)) \<Longrightarrow> ?f c = Inr (case_value r metric)"
    for c r using lookup_case_zip[OF assms] by simp
  have "rmap ?f (filter (in_slice scope) cs) = Inr (map (\<lambda>(c, r). case_value r metric)
      (filter (\<lambda>(c, r). in_slice scope c) (zip cs rs)))"
    if "length cs = length rs" "set (zip cs rs) \<subseteq> set (zip (dataset_cases dataset) (run_cases run))" for cs rs
    using that by (induction cs rs rule: list_induct2) (auto simp: step)
  from this[of "dataset_cases dataset" "run_cases run"] show ?thesis
    using same_cases_length[OF assms] by (simp add: evidence_def)
qed

lemma aggregate_evidence:
  assumes "same_cases dataset run"
  shows "aggregate (filter (in_slice scope) (dataset_cases dataset)) (case_index_of run) metric =
    aggregate_values (evidence dataset run metric scope)"
  by (simp add: aggregate_def rmap_lookup_cases[OF assms])

section \<open>Aggregates\<close>

lemma scores_length: "(\<And>v. v \<in> set vs \<Longrightarrow> cv_status v = CV_SCORED \<Longrightarrow> cv_value v \<noteq> None) \<Longrightarrow>
   length (scores vs) = outcome_count CV_SCORED vs"
  by (induction vs) (force simp: scores_def outcome_count_def map_filter_simps split: option.split)+

lemma case_value_scored: "cv_status (case_value r m) = CV_SCORED \<Longrightarrow> cv_value (case_value r m) \<noteq> None"
  by (auto simp: case_value_def error_value_def split: if_splits option.splits metric_observation.splits)

lemma evidence_scores_length [simp]:
  "length (scores (evidence dataset run m scope)) = outcome_count CV_SCORED (evidence dataset run m scope)"
  by (rule scores_length) (auto simp: evidence_def dest: case_value_scored)

lemma aggregate_values_Inr:
  assumes "aggregate_values vs = Inr a"
  shows "fmean (scores vs) = Inr (agg_mean a)" "agg_attempted a = int (length vs)"
    "agg_scored a = int (length (scores vs))" "agg_skipped a = int (outcome_count CV_SKIPPED vs)"
    "agg_errors a = int (outcome_count CV_ERROR vs)"
  using assms by (auto simp: aggregate_values_def validate_metric_aggregate_def Let_def result_simps
      scores_def outcome_count_def)

lemma validate_aggregate_comparison_Inr: "validate_aggregate_comparison a = Inr a' \<Longrightarrow> a' = a"
  by (auto simp: validate_aggregate_comparison_def Let_def result_simps)

text \<open>The two sides of a recomputed aggregate, and their difference.\<close>

lemma compare_aggregate_Inr:
  assumes "same_cases dataset b" "same_cases dataset c"
    "compare_aggregate (dataset_cases dataset) (case_index_of b) (case_index_of c) m ev scope = Inr a"
  shows "ac_metric a = m" "ac_slice a = scope" "ac_evaluator a = ev"
    "aggregate_values (evidence dataset b m scope) = Inr (ac_baseline a)"
    "aggregate_values (evidence dataset c m scope) = Inr (ac_candidate a)"
    "aggregate_delta (ac_baseline a) (ac_candidate a) = Inr (ac_delta a)"
    "filter (in_slice scope) (dataset_cases dataset) \<noteq> []"
  using assms(3) unfolding compare_aggregate_def
  by (auto simp: result_simps cases_in_scope_Inr aggregate_evidence[OF assms(1)]
      aggregate_evidence[OF assms(2)] dest!: validate_aggregate_comparison_Inr)

lemma aggregate_delta_Inr:
  "aggregate_delta b c = Inr delta \<longleftrightarrow>
     (case (agg_mean b, agg_mean c) of
        (Some bm, Some cm) \<Rightarrow> \<exists>d. difference cm bm = Some d \<and> delta = Some d
      | _ \<Rightarrow> delta = None)"
  by (auto simp: aggregate_delta_def finite_difference_def result_simps split: option.splits)

section \<open>What a successful comparison went through\<close>

text \<open>The decision before \<open>create\<close> arranges, judges and seals it.\<close>

definition draft_decision ::
    "evaluation_spec \<Rightarrow> dataset_version \<Rightarrow> run_result \<Rightarrow> run_result \<Rightarrow> evaluation_suite option
     \<Rightarrow> aggregate_comparison list \<Rightarrow> (gate_result \<times> gate_case_comparison list) list \<Rightarrow> release_decision" where
  "draft_decision spec dataset baseline candidate suite aggregates gated =
       \<lparr>decision_spec_name = spec_name spec, decision_mode = run_mode baseline,
        decision_suite = map_option suite_ref suite, decision_dataset = dataset_ref dataset,
        decision_baseline = run_target baseline, decision_candidate = run_target candidate,
        baseline_run_id = run_id baseline, candidate_run_id = run_id candidate,
        baseline_result_digest = result_digest baseline,
        candidate_result_digest = result_digest candidate,
        decision_aggregates = aggregates, decision_gates = map fst gated,
        decision_cases = concat (map snd gated), decision_status = RELEASE_FAILED,
        decision_digest = []\<rparr>"

definition aggregate_index :: "aggregate_comparison list \<Rightarrow> ((string \<times> string option) \<times> aggregate_comparison) list" where
  "aggregate_index aggregates = dict_of (map (\<lambda>a. ((ac_metric a, ac_slice a), a)) aggregates)"

lemma compare_runs_Inr:
  assumes "compare_runs jcs spec dataset b c suite = Inr d"
  obtains bms cms nested gated ub uc where
    "validate_inputs spec dataset b c suite = Inr ()"
    "metric_references b = Inr bms" "metric_references c = Inr cms"
    "rmap (compare_metric (dataset_cases dataset) (case_index_of b) (case_index_of c) bms cms)
       (sort (map fst bms)) = Inr nested"
    "validate_stored_summaries b (aggregate_index (concat nested)) BASELINE = Inr ub"
    "validate_stored_summaries c (aggregate_index (concat nested)) CANDIDATE = Inr uc"
    "rmap (compare_gate (dataset_cases dataset) (case_index_of b) (case_index_of c)
       (aggregate_index (concat nested))) (spec_gates spec) = Inr gated"
    "create_decision jcs (draft_decision spec dataset b c suite (concat nested) gated) = Inr d"
  using assms unfolding compare_runs_def draft_decision_def aggregate_index_def
  by (auto simp: result_simps Let_def intro: that)

lemma validate_inputs_Inr:
  assumes "validate_inputs spec dataset b c suite = Inr ()"
  shows "map result_case_id (run_cases b) = map case_id (dataset_cases dataset)"
    "map result_case_id (run_cases c) = map case_id (dataset_cases dataset)"
    "metric_references b = Inr bms \<Longrightarrow> metric_references c = Inr cms \<Longrightarrow> fst ` set bms = fst ` set cms"
    "run_mode b = run_mode c" "run_dataset b = dataset_ref dataset" "run_dataset c = dataset_ref dataset"
  using assms by (auto simp: validate_inputs_def result_simps Let_def split: option.splits)

lemma created_decision:
  assumes "create_decision jcs x = Inr d"
  shows "d = (arrange_decision x)\<lparr>decision_digest := decision_digest d\<rparr>"
    "check_decision d = Inr d" "validate_decision jcs d = Inr d"
proof -
  from assms obtain e where "check_decision ((arrange_decision x)\<lparr>decision_digest := e\<rparr>) = Inr d"
    by (auto simp: decision_model.create_Inr_iff)
  from check_decision_Inr[OF this] this
  show "d = (arrange_decision x)\<lparr>decision_digest := decision_digest d\<rparr>" "check_decision d = Inr d"
    by auto
  show "validate_decision jcs d = Inr d" using decision_model.create_stable[OF assms] .
qed

lemma created_decision_fields:
  assumes "create_decision jcs x = Inr d"
  shows "decision_aggregates d = sort_key aggregate_key (decision_aggregates x)"
    "decision_gates d = sort_key gate_result_key (decision_gates x)"
    "decision_cases d = sort_key case_key (decision_cases x)"
    "decision_status d = expected_release_status (decision_gates x)"
  by (subst created_decision(1)[OF assms], simp add: arrange_decision_def Let_def)+

section \<open>The aggregates\<close>

lemma compare_metric_Inr:
  assumes "compare_metric cases bi ci bms cms m = Inr aggregates"
  obtains ev where "map_of bms m = Some ev" "map_of cms m = Some ev"
    "rmap (compare_aggregate cases bi ci m ev) (all_slices cases) = Inr aggregates"
  using assms by (auto simp: compare_metric_def result_simps split: if_splits intro: that)

lemma rmap_nested_mem:
  assumes "rmap f xs = Inr nested" "a \<in> set (concat nested)"
  obtains x ys where "x \<in> set xs" "f x = Inr ys" "a \<in> set ys"
  using assms by (auto dest: rmap_Inr_mem intro: that)

text \<open>Every aggregate of a decision is the recomputation for its metric and slice.\<close>

lemma compared_aggregate:
  assumes "rmap (compare_metric (dataset_cases dataset) bi ci bms cms) ms = Inr nested"
    "a \<in> set (concat nested)" "bi = case_index_of b" "ci = case_index_of c"
    "same_cases dataset b" "same_cases dataset c"
  obtains ev where "map_of bms (ac_metric a) = Some ev" "ac_metric a \<in> set ms"
    "compare_aggregate (dataset_cases dataset) bi ci (ac_metric a) ev (ac_slice a) = Inr a"
proof -
  from rmap_nested_mem[OF assms(1,2)] obtain m ys where m: "m \<in> set ms" "a \<in> set ys"
    "compare_metric (dataset_cases dataset) bi ci bms cms m = Inr ys" by metis
  from compare_metric_Inr[OF m(3)] obtain ev where ev: "map_of bms m = Some ev"
    "rmap (compare_aggregate (dataset_cases dataset) bi ci m ev) (all_slices (dataset_cases dataset)) = Inr ys"
    by metis
  from rmap_Inr_mem[OF ev(2) m(2)] obtain sc where
    sc: "compare_aggregate (dataset_cases dataset) bi ci m ev sc = Inr a" by blast
  from compare_aggregate_Inr(1,2)[OF assms(5,6) sc[unfolded assms(3,4)]] ev(1) sc m(1) show ?thesis
    by (intro that[of ev]) simp_all
qed

lemma aggregate_index_Some:
  "map_of (aggregate_index aggregates) (m, scope) = Some a \<Longrightarrow>
     a \<in> set aggregates \<and> ac_metric a = m \<and> ac_slice a = scope"
  unfolding aggregate_index_def by (drule map_of_dict_of_mem) auto

section \<open>The gates\<close>

lemma compare_gate_Inr:
  assumes "compare_gate cases bi ci index g = Inr (result, comparisons)"
  obtains a where "map_of index (gate_metric g, gate_slice g) = Some a" "evaluate_gate g a = Inr result"
  using assms by (auto simp: compare_gate_def result_simps intro: that)

lemma evaluate_gate_Inr:
  assumes "evaluate_gate g a = Inr result"
  shows "gr_metric result = gate_metric g" "gr_slice result = gate_slice g"
    "gr_direction result = gate_direction g" "gr_threshold result = gate_threshold g"
    "gr_allowed_regression result = gate_allowed_regression g" "gr_aggregate result = a"
    "coverage_passed result = coverage_passes a"
    "threshold_passed result = (case agg_mean (ac_candidate a) of None \<Rightarrow> False
       | Some m \<Rightarrow> passes m (gate_direction g) (gate_threshold g))"
    "regression_passed result = (case ac_delta a of None \<Rightarrow> False
       | Some d \<Rightarrow> regression_passes d (gate_direction g) (gate_allowed_regression g))"
    "gr_status result = GATE_PASSED \<longleftrightarrow>
       coverage_passed result \<and> threshold_passed result \<and> regression_passed result"
  using assms unfolding evaluate_gate_def Let_def by (auto dest!: validate_gate_result_Inr)

text \<open>On recomputed evidence a gate result passes exactly when the gate holds.\<close>

lemma gate_result_holds:
  assumes "same_cases dataset b" "same_cases dataset c"
    "compare_aggregate (dataset_cases dataset) (case_index_of b) (case_index_of c)
       (gate_metric g) ev (gate_slice g) = Inr a"
    "evaluate_gate g a = Inr result"
  shows "gr_status result = GATE_PASSED \<longleftrightarrow> gate_holds dataset b c g"
proof -
  note A = compare_aggregate_Inr[OF assms(1-3)]
  note B = aggregate_values_Inr[OF A(4)] and C = aggregate_values_Inr[OF A(5)]
  note G = evaluate_gate_Inr(7-10)[OF assms(4)]
  note D = A(6)[unfolded aggregate_delta_Inr]
  show ?thesis
    unfolding gate_holds_def Let_def G coverage_passes_def
    using B C D by (auto split: option.splits)
qed

lemma valid_dataset_ids: "validate_dataset jcs dataset = Inr dataset \<Longrightarrow> distinct (map case_id (dataset_cases dataset))"
  by (auto simp: dataset_model.validate_Inr_iff normalize_dataset_def normalize_cases_Inr_iff result_simps)

text \<open>A successful comparison in terms of the evidence: where its gate results and aggregates come from.\<close>

lemma compared:
  assumes "validate_dataset jcs dataset = Inr dataset" "compare_runs jcs spec dataset b c suite = Inr d"
  shows "same_cases dataset b" "same_cases dataset c"
    and "\<And>a. a \<in> set (decision_aggregates d) \<Longrightarrow> \<exists>ev. compare_aggregate (dataset_cases dataset)
      (case_index_of b) (case_index_of c) (ac_metric a) ev (ac_slice a) = Inr a"
    and "\<exists>rs. list_all2 (\<lambda>g r. \<exists>a ev. evaluate_gate g a = Inr r \<and> a \<in> set (decision_aggregates d) \<and>
        compare_aggregate (dataset_cases dataset) (case_index_of b) (case_index_of c)
          (gate_metric g) ev (gate_slice g) = Inr a) (spec_gates spec) rs \<and>
      decision_gates d = sort_key gate_result_key rs \<and> decision_status d = expected_release_status rs"
proof -
  from compare_runs_Inr[OF assms(2)] obtain bms cms nested gated where
    inputs: "validate_inputs spec dataset b c suite = Inr ()" and
    nested: "rmap (compare_metric (dataset_cases dataset) (case_index_of b) (case_index_of c) bms cms)
       (sort (map fst bms)) = Inr nested" and
    gated: "rmap (compare_gate (dataset_cases dataset) (case_index_of b) (case_index_of c)
       (aggregate_index (concat nested))) (spec_gates spec) = Inr gated" and
    created: "create_decision jcs (draft_decision spec dataset b c suite (concat nested) gated) = Inr d"
    by metis
  show sb: "same_cases dataset b" and sc: "same_cases dataset c"
    using validate_inputs_Inr[OF inputs] valid_dataset_ids[OF assms(1)] by (simp_all add: same_cases_def)
  have agg: "\<exists>ev. compare_aggregate (dataset_cases dataset) (case_index_of b) (case_index_of c)
      (ac_metric a) ev (ac_slice a) = Inr a" if "a \<in> set (concat nested)" for a
    using compared_aggregate[OF nested that refl refl sb sc] by metis
  note F = created_decision_fields[OF created, unfolded draft_decision_def, simplified]
  show "\<And>a. a \<in> set (decision_aggregates d) \<Longrightarrow> \<exists>ev. compare_aggregate (dataset_cases dataset)
      (case_index_of b) (case_index_of c) (ac_metric a) ev (ac_slice a) = Inr a"
    using agg F(1) by simp
  have "\<exists>a ev. evaluate_gate g a = Inr (fst p) \<and> a \<in> set (decision_aggregates d) \<and>
      compare_aggregate (dataset_cases dataset) (case_index_of b) (case_index_of c)
        (gate_metric g) ev (gate_slice g) = Inr a"
    if "compare_gate (dataset_cases dataset) (case_index_of b) (case_index_of c)
       (aggregate_index (concat nested)) g = Inr p" for g p
  proof -
    from that have "compare_gate (dataset_cases dataset) (case_index_of b) (case_index_of c)
       (aggregate_index (concat nested)) g = Inr (fst p, snd p)" by simp
    from compare_gate_Inr[OF this] obtain a where
      a: "map_of (aggregate_index (concat nested)) (gate_metric g, gate_slice g) = Some a"
      "evaluate_gate g a = Inr (fst p)" by metis
    from aggregate_index_Some[OF a(1)] agg a(2) show ?thesis
      unfolding F(1) set_sort by (metis (no_types, lifting))
  qed
  then have "list_all2 (\<lambda>g r. \<exists>a ev. evaluate_gate g a = Inr r \<and> a \<in> set (decision_aggregates d) \<and>
        compare_aggregate (dataset_cases dataset) (case_index_of b) (case_index_of c)
          (gate_metric g) ev (gate_slice g) = Inr a) (spec_gates spec) (map fst gated)"
    using gated unfolding rmap_Inr_list_all2 list_all2_map2 by (auto elim: list_all2_mono)
  then show "\<exists>rs. list_all2 (\<lambda>g r. \<exists>a ev. evaluate_gate g a = Inr r \<and> a \<in> set (decision_aggregates d) \<and>
        compare_aggregate (dataset_cases dataset) (case_index_of b) (case_index_of c)
          (gate_metric g) ev (gate_slice g) = Inr a) (spec_gates spec) rs \<and>
      decision_gates d = sort_key gate_result_key rs \<and> decision_status d = expected_release_status rs"
    using F(2,4) by (intro exI[of _ "map fst gated"]) simp
qed

lemma list_all2_ball:
  assumes "list_all2 P xs ys" "\<And>x y. P x y \<Longrightarrow> Q x \<longleftrightarrow> R y"
  shows "(\<forall>x \<in> set xs. Q x) \<longleftrightarrow> (\<forall>y \<in> set ys. R y)"
  using assms(1) by induction (use assms(2) in auto)

lemma list_all2_right: "list_all2 P xs ys \<Longrightarrow> y \<in> set ys \<Longrightarrow> \<exists>x \<in> set xs. P x y"
  by (induction rule: list_all2_induct) auto

lemma all_slices_None: "None \<in> set (all_slices cases)"
  by (simp add: all_slices_def)

lemma list_all2_left: "list_all2 P xs ys \<Longrightarrow> x \<in> set xs \<Longrightarrow> \<exists>y \<in> set ys. P x y"
  by (induction rule: list_all2_induct) auto

text \<open>Every metric has its aggregate over all cases, so the stored summaries find theirs.\<close>

lemma overall_aggregate:
  assumes "same_cases dataset b" "same_cases dataset c"
    "rmap (compare_metric (dataset_cases dataset) (case_index_of b) (case_index_of c) bms cms)
       (sort (map fst bms)) = Inr nested"
    "m \<in> fst ` set bms"
  shows "\<exists>a. map_of (aggregate_index (concat nested)) (m, None) = Some a"
proof -
  have "m \<in> set (sort (map fst bms))" using assms(4) by simp
  with assms(3) obtain ys where ys: "ys \<in> set nested"
    "compare_metric (dataset_cases dataset) (case_index_of b) (case_index_of c) bms cms m = Inr ys"
    unfolding rmap_Inr_list_all2 by (blast dest: list_all2_left)
  from compare_metric_Inr[OF ys(2)] obtain ev where
    "rmap (compare_aggregate (dataset_cases dataset) (case_index_of b) (case_index_of c) m ev)
       (all_slices (dataset_cases dataset)) = Inr ys" by metis
  then obtain a where a: "a \<in> set ys"
    "compare_aggregate (dataset_cases dataset) (case_index_of b) (case_index_of c) m ev None = Inr a"
    unfolding rmap_Inr_list_all2 using all_slices_None by (auto dest: list_all2_left)
  from compare_aggregate_Inr(1,2)[OF assms(1,2) a(2)] a(1) ys(1) show ?thesis
    unfolding aggregate_index_def by (intro map_of_dict_of_ex) force
qed

end
