(* ===== verification/ReleaseExample.thy ===== *)
theory ReleaseExample
  imports Release
begin

text \<open>
  A concrete comparison: one case, one metric, one gate. Two runs on it score the same, so the
  release passes. The serialiser is a constant function, which makes every digest the hash of
  the empty text. The witnesses of the release properties rest on this comparison.
\<close>

definition demo_jcs :: jcs where "demo_jcs = (\<lambda>_. Some [])"

definition demo_digest :: string where "demo_digest = ''sha256:'' @ sha256_hex []"

lemma demo_sha256: "sha256_digest demo_jcs v = Inr demo_digest"
  by (simp add: sha256_digest_def canonical_json_bytes_def demo_jcs_def demo_digest_def)

lemma demo_digest_shape [simp]: "is_sha256_digest demo_digest"
  by (rule sha256_digest_shape[OF demo_sha256])

definition demo_ref :: "artifact_kind \<Rightarrow> string \<Rightarrow> artifact_ref" where
  "demo_ref k n = \<lparr>ref_kind = k, ref_name = n, ref_revision = 1, ref_digest = Some demo_digest\<rparr>"

definition demo_case :: evaluation_case where
  "demo_case = \<lparr>case_id = ''c1'', case_input = JNull, expected = None, expected_refusal = False,
     expected_schema = None, numeric_tolerance = None, case_slices = []\<rparr>"

definition demo_dataset :: dataset_version where
  "demo_dataset = \<lparr>dataset_name = ''ds'', dataset_revision = 1, dataset_digest = demo_digest,
     dataset_cases = [demo_case]\<rparr>"

definition demo_target :: target_observation where
  "demo_target = \<lparr>response = \<lparr>response_output = JNull, response_outcome = OUTCOME_COMPLETED,
     refusal_code = None, usage = \<lparr>input_units = 0, output_units = 0\<rparr>\<rparr>, latency_ms = 0\<rparr>"

definition demo_evaluator :: artifact_ref where
  "demo_evaluator = demo_ref EVALUATOR ''exact''"

definition demo_run :: "string \<Rightarrow> string \<Rightarrow> run_result" where
  "demo_run i target = \<lparr>run_id = i, run_status = RUN_COMPLETED,
     run_mode = OFFLINE_DETERMINISTIC_FIXTURE, run_suite = None,
     run_dataset = dataset_ref demo_dataset, run_target = demo_ref TARGET target,
     run_evaluators = [demo_evaluator],
     run_cases = [\<lparr>result_case_id = ''c1'', result_case_status = CASE_COMPLETED,
       result_target = Some demo_target, target_failure = None,
       observations = [ScoredObservation ''accuracy'' demo_evaluator 1 ''match''],
       evaluator_failures = []\<rparr>],
     run_metrics = [\<lparr>summary_metric = ''accuracy'', summary_evaluator = demo_evaluator,
       attempted = 1, scored = 1, skipped = 0, errors = 0, summary_mean = Some 1\<rparr>],
     result_digest = demo_digest\<rparr>"

definition demo_gate :: metric_gate where
  "demo_gate = \<lparr>gate_metric = ''accuracy'', gate_slice = None, gate_direction = HIGHER_IS_BETTER,
     gate_threshold = 1, gate_allowed_regression = Finite 0\<rparr>"

definition demo_spec :: evaluation_spec where
  "demo_spec = \<lparr>spec_name = ''policy'', spec_dataset = dataset_ref demo_dataset,
     spec_candidate = demo_ref TARGET ''new'', spec_baseline = Some (demo_ref TARGET ''old''),
     spec_gates = [demo_gate]\<rparr>"

definition demo_comparison :: "release_decision res" where
  "demo_comparison = compare_runs demo_jcs demo_spec demo_dataset (demo_run ''b1'' ''old'')
     (demo_run ''c1'' ''new'') None"

lemmas demo_defs = demo_run_def demo_spec_def demo_gate_def demo_dataset_def demo_case_def
  demo_evaluator_def demo_ref_def dataset_ref_def

lemma demo_dataset_valid: "validate_dataset demo_jcs demo_dataset = Inr demo_dataset"
  by (simp add: validate_dataset_def normalize_dataset_def normalize_cases_def calculate_dataset_digest_def
      demo_sha256 demo_dataset_def demo_case_def is_artifact_name_def matches_def is_alnum_def
      is_alpha_def is_lower_def less_eq_char_def)

lemma demo_names:
  "is_metric_name ''accuracy''" "is_case_id ''c1''" "is_artifact_name ''policy''"
  "is_run_id ''b1''" "is_run_id ''c1''"
  by (simp_all add: is_metric_name_def is_case_id_def is_artifact_name_def is_run_id_def matches_def
      is_alnum_def is_alpha_def is_lower_def is_digit_def less_eq_char_def)

lemma demo_mean: "fmean [1] = Inr (Some 1)"
  by (simp add: fmean_def fsum_def)

lemma demo_difference: "difference x x = Some 0"
  by (simp add: difference_def decimal_subtract_def)

definition demo_aggregate :: aggregate_comparison where
  "demo_aggregate =
     (let a = \<lparr>agg_attempted = 1, agg_scored = 1, agg_skipped = 0, agg_errors = 0, agg_mean = Some 1\<rparr>
      in \<lparr>ac_metric = ''accuracy'', ac_slice = None, ac_evaluator = demo_evaluator, ac_baseline = a,
        ac_candidate = a, ac_delta = Some 0\<rparr>)"

definition demo_result :: case_result where
  "demo_result = \<lparr>result_case_id = ''c1'', result_case_status = CASE_COMPLETED,
       result_target = Some demo_target, target_failure = None,
       observations = [ScoredObservation ''accuracy'' demo_evaluator 1 ''match''],
       evaluator_failures = []\<rparr>"

lemma demo_run_fields [simp]:
  "run_cases (demo_run i t) = [demo_result]" "run_mode (demo_run i t) = OFFLINE_DETERMINISTIC_FIXTURE"
  "run_suite (demo_run i t) = None" "run_dataset (demo_run i t) = dataset_ref demo_dataset"
  "run_target (demo_run i t) = demo_ref TARGET t" "run_id (demo_run i t) = i"
  "result_digest (demo_run i t) = demo_digest" "dataset_cases demo_dataset = [demo_case]"
  "run_metrics (demo_run i t) = [\<lparr>summary_metric = ''accuracy'', summary_evaluator = demo_evaluator,
       attempted = 1, scored = 1, skipped = 0, errors = 0, summary_mean = Some 1\<rparr>]"
  by (simp_all add: demo_run_def demo_dataset_def demo_result_def)

lemma demo_case_fields [simp]:
  "case_id demo_case = ''c1''" "case_slices demo_case = []"
  "result_case_id demo_result = ''c1''"
  "case_value demo_result ''accuracy'' = \<lparr>cv_status = CV_SCORED, cv_value = Some 1\<rparr>"
  by (simp_all add: demo_case_def demo_result_def case_value_def)

lemma demo_index: "case_index_of (demo_run i t) = [(''c1'', demo_result)]"
  by (simp add: case_index_of_def dict_of_def)

lemma demo_aggregated:
  "compare_metric [demo_case] [(''c1'', demo_result)] [(''c1'', demo_result)]
     [(''accuracy'', demo_evaluator)] [(''accuracy'', demo_evaluator)] ''accuracy'' = Inr [demo_aggregate]"
  by (simp add: compare_metric_def all_slices_def compare_aggregate_def cases_in_scope_def
      aggregate_def lookup_case_def aggregate_values_def
      map_filter_simps demo_mean validate_metric_aggregate_def aggregate_delta_def finite_difference_def
      demo_difference validate_aggregate_comparison_def demo_names demo_aggregate_def Let_def
      demo_evaluator_def demo_ref_def)

lemma demo_references: "metric_references (demo_run i t) = Inr [(''accuracy'', demo_evaluator)]"
  by (simp add: metric_references_def dict_of_def)

lemma demo_inputs:
  "validate_inputs demo_spec demo_dataset (demo_run i ''old'') (demo_run j ''new'') None = Inr ()"
  by (simp add: validate_inputs_def validate_suite_inputs_def demo_spec_def require_artifact_match_def
      demo_references)

definition demo_gate_result :: gate_result where
  "demo_gate_result = \<lparr>gr_metric = ''accuracy'', gr_slice = None, gr_direction = HIGHER_IS_BETTER,
     gr_threshold = 1, gr_allowed_regression = Finite 0, gr_aggregate = demo_aggregate,
     coverage_passed = True, threshold_passed = True, regression_passed = True,
     gr_status = GATE_PASSED, gr_failure_codes = []\<rparr>"

lemma demo_gated: "evaluate_gate demo_gate demo_aggregate = Inr demo_gate_result"
  by (simp add: evaluate_gate_def demo_gate_def demo_aggregate_def Let_def coverage_passes_def passes_def
      at_least_def regression_passes_def expected_failures_def gate_status_of_def
      validate_gate_result_def demo_names demo_gate_result_def)

definition demo_case_comparison :: gate_case_comparison where
  "demo_case_comparison = (let v = \<lparr>cv_status = CV_SCORED, cv_value = Some 1\<rparr> in
     \<lparr>gcc_metric = ''accuracy'', gcc_slice = None, gcc_case_id = ''c1'', gcc_slices = [],
      gcc_baseline = v, gcc_candidate = v, gcc_delta = Some 0, baseline_passed = Some True,
      candidate_passed = Some True, change = UNCHANGED_PASSING\<rparr>)"

lemma demo_compared_case:
  "compare_case demo_case demo_gate \<lparr>cv_status = CV_SCORED, cv_value = Some 1\<rparr>
     \<lparr>cv_status = CV_SCORED, cv_value = Some 1\<rparr> = Inr demo_case_comparison"
  by (simp add: compare_case_def demo_gate_def is_comparable_def passes_def at_least_def
      finite_difference_def demo_difference validate_gate_case_comparison_def demo_names
      expected_change_def demo_case_comparison_def Let_def)

lemma demo_compare_gate:
  "compare_gate [demo_case] [(''c1'', demo_result)] [(''c1'', demo_result)]
     [((''accuracy'', None), demo_aggregate)] demo_gate = Inr (demo_gate_result, [demo_case_comparison])"
proof -
  have "gate_metric demo_gate = ''accuracy''" "gate_slice demo_gate = None" by (simp_all add: demo_gate_def)
  then show ?thesis
    by (simp add: compare_gate_def demo_gated cases_in_scope_def lookup_case_def demo_compared_case)
qed

definition demo_decision :: release_decision where
  "demo_decision = (draft_decision demo_spec demo_dataset (demo_run ''b1'' ''old'') (demo_run ''c1'' ''new'')
     None [demo_aggregate] [(demo_gate_result, [demo_case_comparison])])
     \<lparr>decision_status := RELEASE_PASSED, decision_digest := demo_digest\<rparr>"

lemma demo_created:
  "create_decision demo_jcs (draft_decision demo_spec demo_dataset (demo_run ''b1'' ''old'')
     (demo_run ''c1'' ''new'') None [demo_aggregate] [(demo_gate_result, [demo_case_comparison])])
   = Inr demo_decision"
  by (simp add: create_decision_def calculate_decision_digest_def demo_sha256 arrange_decision_def
      validate_decision_def check_decision_def draft_decision_def demo_decision_def demo_names
      unresolved_def dataset_ref_def demo_ref_def expected_release_status_def demo_gate_result_def
      demo_spec_def)

lemma demo_compares: "demo_comparison = Inr demo_decision"
proof -
  have idx: "dict_of (map (\<lambda>a. ((ac_metric a, ac_slice a), a)) [demo_aggregate]) =
      [((''accuracy'', None), demo_aggregate)]"
    by (simp add: dict_of_def demo_aggregate_def Let_def)
  have stored: "validate_stored_summaries (demo_run i t) [((''accuracy'', None), demo_aggregate)] side = Inr [()]"
    for i t side
    by (cases side) (simp_all add: validate_stored_summaries_def aggregate_from_summary_def
        validate_metric_aggregate_def demo_aggregate_def Let_def)
  have gates: "spec_gates demo_spec = [demo_gate]" by (simp add: demo_spec_def)
  show ?thesis
    unfolding demo_comparison_def compare_runs_def
    by (simp add: demo_inputs demo_references demo_index demo_aggregated idx[simplified] stored gates
        demo_compare_gate demo_created[unfolded draft_decision_def, simplified] Let_def)
qed

end
