(* ===== verification/GateArithmetic.thy ===== *)
theory GateArithmetic
  imports Compare
begin

text \<open>
  The arithmetic of the gates: monotonicity of the tolerant comparisons, how much the tolerance
  can grant, and differences of equal values. Everything rests on the monotonicity of rounding.
\<close>

lemma round64_shrink:
  assumes "0 \<le> x" "x \<le> y" "round64 y \<noteq> None"
  shows "\<exists>r. round64 x = Some r \<and> 0 \<le> r \<and> r \<le> rnd64 y"
  using rnd64_mono[OF assms(2)] rnd64_nonneg[OF assms(1)] assms(3)
  by (auto simp: round64_def Let_def split: if_splits)

text \<open>A value closer to a boundary from below is close when a farther one is.\<close>

lemma isclose_closer_below: "isclose a b \<Longrightarrow> a \<le> a' \<Longrightarrow> a' \<le> b \<Longrightarrow> isclose a' b"
  using round64_shrink[of "b - a'" "b - a"]
  by (fastforce simp: isclose_def round64_def Let_def split: option.splits if_splits)

lemma isclose_minus: "isclose (- a) (- b) = isclose a b"
proof -
  have "- b - (- a) = - (b - a)" for a b :: rat by simp
  then show ?thesis
    by (simp only: isclose_def round64_def Let_def rnd64_minus)
      (auto split: option.splits if_splits)
qed

lemma at_least_mono: "at_least v b \<Longrightarrow> v \<le> v' \<Longrightarrow> at_least v' b"
  unfolding at_least_def using isclose_closer_below[of v b v'] by (cases "b \<le> v'") auto

lemma at_most_minus: "at_most v b = at_least (- v) (- b)"
  by (simp add: at_most_def at_least_def isclose_minus)

lemma at_most_mono: "at_most v b \<Longrightarrow> v' \<le> v \<Longrightarrow> at_most v' b"
  unfolding at_most_minus by (rule at_least_mono) auto

text \<open>The tolerance in binary: the nearest float to \<open>1e-12\<close>.\<close>

lemma abs_tol_eq: "abs_tol = 4951760157141521 / 2 ^ 92"
  unfolding abs_tol_def by (subst rnd64_eqI[where k = 92 and n = 4951760157141521]) simp_all

lemma double_tol: "rnd64 (2 / 10 ^ 12) = 4951760157141521 / 2 ^ 91"
  by (subst rnd64_eqI[where k = 91 and n = 4951760157141521]) simp_all

lemma isclose_bound:
  assumes "isclose a b"
  shows "\<bar>b - a\<bar> < 2 / 10 ^ 12"
proof (rule ccontr)
  assume far: "\<not> ?thesis"
  then have "a \<noteq> b" by auto
  then have close: "\<bar>rnd64 (b - a)\<bar> \<le> abs_tol"
    using assms by (auto simp: isclose_def round64_def Let_def split: option.splits if_splits)
  have "rnd64 (2 / 10 ^ 12) \<le> rnd64 \<bar>b - a\<bar>" by (rule rnd64_mono) (use far in simp)
  moreover have "rnd64 \<bar>b - a\<bar> = \<bar>rnd64 (b - a)\<bar>"
    using rnd64_nonneg[of "b - a"] rnd64_nonneg[of "a - b"] rnd64_minus[of "b - a"]
    by (cases "0 \<le> b - a") (simp_all add: abs_if)
  ultimately have "4951760157141521 / 2 ^ 91 \<le> (4951760157141521 / 2 ^ 92 :: rat)"
    using close unfolding double_tol abs_tol_eq by linarith
  then show False by simp
qed

lemma at_least_bound: "at_least v b \<Longrightarrow> b - 2 / 10 ^ 12 < v"
proof -
  assume v: "at_least v b"
  have "0 < (2 / 10 ^ 12 :: rat)" by simp
  with v isclose_bound[of v b] abs_ge_self[of "b - v"] show ?thesis
    unfolding at_least_def by linarith
qed

lemma at_most_bound: "at_most v b \<Longrightarrow> v < b + 2 / 10 ^ 12"
  unfolding at_most_minus using at_least_bound by fastforce

lemma difference_self: "difference x x = Some 0"
  by (simp add: difference_def decimal_subtract_def)

text \<open>No change is never a regression.\<close>

lemma regression_passes_zero:
  "(case allowed of PosInf \<Rightarrow> True | Finite a \<Rightarrow> 0 \<le> a) \<Longrightarrow> regression_passes 0 direction allowed"
  by (auto simp: regression_passes_def at_least_def at_most_def split: ext_float.splits)

end
