(* ===== verification/ReleaseProperties.thy ===== *)
theory ReleaseProperties
  imports ReleaseExample GateArithmetic
begin

text \<open>
  The properties of release decisions: what the verdict means in terms of the case evidence,
  what a successful comparison certifies about the stored runs, which exceptions a comparison
  can raise, and that a decision is a sealed function of the evidence.
\<close>

lemma demo_compared:
  "compare_runs demo_jcs demo_spec demo_dataset (demo_run ''b1'' ''old'') (demo_run ''c1'' ''new'') None
     = Inr demo_decision"
  using demo_compares by (simp add: demo_comparison_def)

section \<open>The verdict\<close>

text \<open>
  C10. A comparison passes the release exactly when every gate of the policy holds of the case
  evidence of the two runs: full coverage, threshold met by the candidate's mean, difference of
  the means within the allowed regression.
\<close>

theorem release_verdict:
  assumes "validate_dataset jcs dataset = Inr dataset"
    "compare_runs jcs spec dataset baseline candidate suite = Inr d"
  shows "decision_status d = RELEASE_PASSED \<longleftrightarrow>
    (\<forall>g \<in> set (spec_gates spec). gate_holds dataset baseline candidate g)"
proof -
  note S = compared(1,2)[OF assms]
  from compared(4)[OF assms] obtain rs where
    rs: "list_all2 (\<lambda>g r. \<exists>a ev. evaluate_gate g a = Inr r \<and> a \<in> set (decision_aggregates d) \<and>
        compare_aggregate (dataset_cases dataset) (case_index_of baseline) (case_index_of candidate)
          (gate_metric g) ev (gate_slice g) = Inr a) (spec_gates spec) rs"
    and status: "decision_status d = expected_release_status rs" by blast
  have "(\<forall>g \<in> set (spec_gates spec). gate_holds dataset baseline candidate g) \<longleftrightarrow>
      (\<forall>r \<in> set rs. gr_status r = GATE_PASSED)"
    by (rule list_all2_ball[OF rs]) (use gate_result_holds[OF S] in blast)
  then show ?thesis by (simp add: status expected_release_status_passed)
qed

theorem release_verdict_witness:
  "gate_holds demo_dataset (demo_run ''b1'' ''old'') (demo_run ''c1'' ''new'') demo_gate"
  using release_verdict[OF demo_dataset_valid demo_compared]
  by (simp add: demo_decision_def demo_spec_def)

text \<open>
  A candidate that produced the same case results as the baseline is never held back for a
  regression: where the regression check of a gate fails, there was nothing to compare and the
  coverage check failed as well.
\<close>

theorem no_self_regression:
  assumes "validate_dataset jcs dataset = Inr dataset"
    "compare_runs jcs spec dataset baseline candidate suite = Inr d"
    "run_cases candidate = run_cases baseline"
  shows "\<forall>g \<in> set (decision_gates d). regression_passed g \<or> \<not> coverage_passed g"
proof
  fix r assume r: "r \<in> set (decision_gates d)"
  note S = compared(1,2)[OF assms(1,2)]
  from compared(4)[OF assms(1,2)] r obtain g a ev where
    a: "evaluate_gate g a = Inr r"
    "compare_aggregate (dataset_cases dataset) (case_index_of baseline) (case_index_of candidate)
          (gate_metric g) ev (gate_slice g) = Inr a"
    by (auto dest: list_all2_right)
  note A = compare_aggregate_Inr[OF S a(2)]
  have same: "ac_candidate a = ac_baseline a"
    using A(4,5) assms(3) by (simp add: evidence_def)
  have mean: "fmean (scores (evidence dataset baseline (gate_metric g) (gate_slice g))) =
      Inr (agg_mean (ac_baseline a))"
    "agg_scored (ac_baseline a) =
      int (length (scores (evidence dataset baseline (gate_metric g) (gate_slice g))))"
    using aggregate_values_Inr(1,3)[OF A(4)] by (simp_all del: evidence_scores_length)
  have allowed: "case gate_allowed_regression g of PosInf \<Rightarrow> True | Finite x \<Rightarrow> 0 \<le> x"
    using a(1) by (auto simp: evaluate_gate_def validate_gate_result_def Let_def result_simps
        split: ext_float.splits)
  show "regression_passed r \<or> \<not> coverage_passed r"
  proof (cases "agg_mean (ac_baseline a)")
    case None
    then have "agg_scored (ac_baseline a) = 0"
      using mean by (auto simp: fmean_def result_simps simp del: evidence_scores_length split: if_splits)
    then show ?thesis by (simp add: evaluate_gate_Inr(7)[OF a(1)] coverage_passes_def)
  next
    case (Some m)
    then have "ac_delta a = Some 0" using A(6) by (simp add: aggregate_delta_Inr same difference_self)
    then show ?thesis by (simp add: evaluate_gate_Inr(9)[OF a(1)] regression_passes_zero[OF allowed])
  qed
qed

theorem no_self_regression_witness: "filter regression_passed (decision_gates demo_decision) = decision_gates demo_decision"
  using no_self_regression[OF demo_dataset_valid demo_compared]
  by (simp add: demo_decision_def draft_decision_def demo_gate_result_def)

text \<open>
  The tolerance of the gates is negligible and never inverts an order: a value that passes a
  threshold misses it by less than two millionths of a millionth, and a value at least as good
  as a passing value passes.
\<close>

theorem gate_tolerance:
  assumes "passes v direction threshold"
  shows "case direction of
      HIGHER_IS_BETTER \<Rightarrow> threshold - 2 / 10 ^ 12 < v \<and> (\<forall>w. v \<le> w \<longrightarrow> passes w direction threshold)
    | LOWER_IS_BETTER \<Rightarrow> v < threshold + 2 / 10 ^ 12 \<and> (\<forall>w. w \<le> v \<longrightarrow> passes w direction threshold)"
  using assms
  by (cases direction) (auto simp: passes_def intro: at_least_mono at_most_mono
      dest: at_least_bound[simplified] at_most_bound[simplified])

theorem gate_tolerance_witness: "passes 2 HIGHER_IS_BETTER 1"
  using gate_tolerance[of 1 HIGHER_IS_BETTER 1] by (simp add: passes_def at_least_def)

section \<open>What a comparison certifies\<close>

text \<open>
  C11. A successful comparison certifies the metric summaries stored in both runs: each states
  exactly the counts and the mean of the run's own case evidence.
\<close>

theorem summaries_certified:
  assumes "validate_dataset jcs dataset = Inr dataset"
    "compare_runs jcs spec dataset baseline candidate suite = Inr d"
    "run = baseline \<or> run = candidate" "m \<in> set (run_metrics run)"
  shows "let vs = evidence dataset run (summary_metric m) None in
    attempted m = int (length vs) \<and> scored m = int (outcome_count CV_SCORED vs) \<and>
    skipped m = int (outcome_count CV_SKIPPED vs) \<and> errors m = int (outcome_count CV_ERROR vs) \<and>
    fmean (scores vs) = Inr (summary_mean m)"
proof -
  from compare_runs_Inr[OF assms(2)] obtain bms cms nested ub uc where
    nested: "rmap (compare_metric (dataset_cases dataset) (case_index_of baseline)
       (case_index_of candidate) bms cms) (sort (map fst bms)) = Inr nested" and
    stored: "validate_stored_summaries baseline (aggregate_index (concat nested)) BASELINE = Inr ub"
      "validate_stored_summaries candidate (aggregate_index (concat nested)) CANDIDATE = Inr uc" by metis
  note S = compared(1,2)[OF assms(1,2)]
  have certified: "\<exists>a. a \<in> set (concat nested) \<and> ac_metric a = summary_metric m \<and> ac_slice a = None \<and>
      aggregate_from_summary m = Inr (case side of BASELINE \<Rightarrow> ac_baseline a | CANDIDATE \<Rightarrow> ac_candidate a)"
    if "validate_stored_summaries r (aggregate_index (concat nested)) side = Inr us"
      "m \<in> set (run_metrics r)" for r side us
    using that unfolding validate_stored_summaries_def rmap_Inr_list_all2
    by (fastforce simp: list_all2_conv_all_nth in_set_conv_nth result_simps dest: aggregate_index_Some
        split: side.splits)
  have from_summary: "aggregate_from_summary m = Inr g \<Longrightarrow> agg_attempted g = attempted m \<and>
      agg_scored g = scored m \<and> agg_skipped g = skipped m \<and> agg_errors g = errors m \<and>
      agg_mean g = summary_mean m" for g
    by (auto simp: aggregate_from_summary_def validate_metric_aggregate_def result_simps)
  have "\<exists>g. aggregate_values (evidence dataset run (summary_metric m) None) = Inr g \<and>
      aggregate_from_summary m = Inr g"
  proof -
    from assms(3,4) stored certified obtain side a where
      a: "a \<in> set (concat nested)" "ac_metric a = summary_metric m" "ac_slice a = None"
      "aggregate_from_summary m = Inr (case side of BASELINE \<Rightarrow> ac_baseline a | CANDIDATE \<Rightarrow> ac_candidate a)"
      "run = (case side of BASELINE \<Rightarrow> baseline | CANDIDATE \<Rightarrow> candidate)"
      by (metis side.simps(3,4))
    from compared_aggregate[OF nested a(1) refl refl S] obtain ev where
      "compare_aggregate (dataset_cases dataset) (case_index_of baseline) (case_index_of candidate)
        (ac_metric a) ev (ac_slice a) = Inr a" by metis
    from compare_aggregate_Inr(4,5)[OF S this] a show ?thesis by (cases side) auto
  qed
  then obtain g where "aggregate_values (evidence dataset run (summary_metric m) None) = Inr g"
    "aggregate_from_summary m = Inr g" by blast
  with from_summary aggregate_values_Inr[OF this(1)] show ?thesis by (simp add: Let_def)
qed

theorem summaries_certified_witness:
  "fmean (scores (evidence demo_dataset (demo_run ''c1'' ''new'') ''accuracy'' None)) = Inr (Some 1)"
  using summaries_certified[OF demo_dataset_valid demo_compared, of "demo_run ''c1'' ''new''"]
  by (simp add: Let_def)

text \<open>
  A decision is sealed: it passes its own validation again, its digest has the form of a
  content digest and is the digest of the evidence it carries.
\<close>

theorem decision_sealed:
  assumes "compare_runs jcs spec dataset baseline candidate suite = Inr d"
  shows "validate_decision jcs d = Inr d \<and> is_sha256_digest (decision_digest d) \<and>
    sha256_digest jcs (decision_content d) = Inr (decision_digest d)"
proof -
  from compare_runs_Inr[OF assms] obtain x where "create_decision jcs x = Inr d" by metis
  note v = created_decision(3)[OF this]
  from decision_model.validate_sound[OF v] have
    "sha256_digest jcs (decision_content d) = Inr (decision_digest d)"
    by (simp add: calculate_decision_digest_def)
  with v sha256_digest_shape show ?thesis by blast
qed

theorem decision_sealed_witness: "validate_decision demo_jcs demo_decision = Inr demo_decision"
  using decision_sealed[OF demo_compared] by simp

section \<open>Reproducibility\<close>

lemma run_id_frame:
  "metric_references (r\<lparr>run_id := i\<rparr>) = metric_references r"
  "case_index_of (r\<lparr>run_id := i\<rparr>) = case_index_of r"
  "validate_suite_run s (r\<lparr>run_id := i\<rparr>) = validate_suite_run s r"
  "validate_stored_summaries (r\<lparr>run_id := i\<rparr>) = validate_stored_summaries r"
  by (simp_all add: metric_references_def case_index_of_def validate_suite_run_def
      validate_stored_summaries_def fun_eq_iff cong del: rbind_weak_cong)

lemma create_decision_run_ids:
  assumes "create_decision jcs x = Inr d" "is_run_id i" "is_run_id j"
  shows "create_decision jcs (x\<lparr>baseline_run_id := i, candidate_run_id := j\<rparr>) =
    Inr (d\<lparr>baseline_run_id := i, candidate_run_id := j\<rparr>)"
proof -
  have arr: "arrange_decision (x\<lparr>baseline_run_id := i, candidate_run_id := j\<rparr>) =
      (arrange_decision x)\<lparr>baseline_run_id := i, candidate_run_id := j\<rparr>"
    by (simp add: arrange_decision_def Let_def)
  from assms(1) obtain e where e: "calculate_decision_digest jcs (arrange_decision x) = Inr e"
    "check_decision ((arrange_decision x)\<lparr>decision_digest := e\<rparr>) = Inr d"
    by (auto simp: decision_model.create_Inr_iff)
  have d: "d = (arrange_decision x)\<lparr>decision_digest := e\<rparr>" using check_decision_Inr[OF e(2)] .
  have "check_decision (d\<lparr>baseline_run_id := i, candidate_run_id := j\<rparr>) =
      Inr (d\<lparr>baseline_run_id := i, candidate_run_id := j\<rparr>)"
    using e(2)[folded d] assms(2,3) unfolding check_decision_def
    by (simp only: result_simps) simp
  moreover have "(arrange_decision x)\<lparr>baseline_run_id := i, candidate_run_id := j, decision_digest := e\<rparr> =
      d\<lparr>baseline_run_id := i, candidate_run_id := j\<rparr>" by (simp add: d)
  ultimately show ?thesis
    using e(1) by (simp add: decision_model.create_Inr_iff arr calculate_decision_digest_def)
qed

text \<open>
  Reproducibility: the run identifiers are not evidence. Comparing the same runs under other
  identifiers gives the same decision, digest included, but for the two recorded identifiers.
\<close>

theorem decision_reproducible:
  assumes "compare_runs jcs spec dataset baseline candidate suite = Inr d" "is_run_id i" "is_run_id j"
  shows "compare_runs jcs spec dataset (baseline\<lparr>run_id := i\<rparr>) (candidate\<lparr>run_id := j\<rparr>) suite =
    Inr (d\<lparr>baseline_run_id := i, candidate_run_id := j\<rparr>)"
proof -
  have inputs: "validate_inputs spec dataset (baseline\<lparr>run_id := i\<rparr>) (candidate\<lparr>run_id := j\<rparr>) suite =
      validate_inputs spec dataset baseline candidate suite"
    by (cases suite; cases "spec_baseline spec")
      (simp_all add: validate_inputs_def validate_suite_inputs_def run_id_frame cong del: rbind_weak_cong)
  from compare_runs_Inr[OF assms(1)] obtain bms cms nested gated ub uc where
    "validate_inputs spec dataset baseline candidate suite = Inr ()"
    "metric_references baseline = Inr bms" "metric_references candidate = Inr cms"
    "rmap (compare_metric (dataset_cases dataset) (case_index_of baseline) (case_index_of candidate)
       bms cms) (sort (map fst bms)) = Inr nested"
    "validate_stored_summaries baseline (aggregate_index (concat nested)) BASELINE = Inr ub"
    "validate_stored_summaries candidate (aggregate_index (concat nested)) CANDIDATE = Inr uc"
    "rmap (compare_gate (dataset_cases dataset) (case_index_of baseline) (case_index_of candidate)
       (aggregate_index (concat nested))) (spec_gates spec) = Inr gated" and
    created: "create_decision jcs (draft_decision spec dataset baseline candidate suite (concat nested) gated) = Inr d"
    by metis
  with create_decision_run_ids[OF created assms(2,3)] show ?thesis
    unfolding compare_runs_def inputs run_id_frame aggregate_index_def[symmetric]
    by (simp add: draft_decision_def Let_def)
qed

theorem decision_reproducible_witness:
  "compare_runs demo_jcs demo_spec demo_dataset ((demo_run ''b1'' ''old'')\<lparr>run_id := ''c1''\<rparr>)
     ((demo_run ''c1'' ''new'')\<lparr>run_id := ''b1''\<rparr>) None =
   Inr (demo_decision\<lparr>baseline_run_id := ''c1'', candidate_run_id := ''b1''\<rparr>)"
  by (rule decision_reproducible[OF demo_compared demo_names(5,4)])

section \<open>Exceptions\<close>

definition comparison_error :: "exn \<Rightarrow> bool" where
  "comparison_error e \<longleftrightarrow> is_value_error e \<or> (\<exists>m. e = OverflowError m)"

lemma comparison_error_simps [simp]:
  "comparison_error (ValidationError m)" "comparison_error (ComparisonConfigurationError m)"
  "comparison_error (OverflowError m)" "comparison_error (CanonicalJsonError m)"
  by (simp_all add: comparison_error_def)

lemma raises_fsum_from: "raises comparison_error (fsum_from acc xs)"
  by (induction acc xs rule: fsum_from.induct) (auto intro!: raises_intros)

lemma raises_validators [raises_intros]:
  "raises comparison_error (fmean xs)"
  "raises comparison_error (validate_metric_aggregate g)"
  "raises comparison_error (validate_aggregate_comparison a)"
  "raises comparison_error (validate_gate_case_comparison x)"
  "raises comparison_error (validate_gate_result r)"
  "raises comparison_error (finite_difference u v)"
  "raises comparison_error (require_artifact_match e f role)"
  "raises comparison_error (metric_references run)"
  "raises comparison_error (cases_in_scope cases scope)"
  "raises comparison_error (validate_evaluation_spec s)"
  "raises comparison_error (sha256_digest jcs j)"
  "raises comparison_error (check_decision d)"
  unfolding fmean_def fsum_def validate_metric_aggregate_def validate_aggregate_comparison_def
    validate_gate_case_comparison_def validate_gate_result_def finite_difference_def
    require_artifact_match_def metric_references_def cases_in_scope_def validate_evaluation_spec_def
    sha256_digest_def canonical_json_bytes_def check_decision_def Let_def
  by (intro raises_intros raises_fsum_from comparison_error_simps)+

lemma raises_calls [raises_intros]:
  "raises comparison_error (validate_suite_run suite run)"
  "raises comparison_error (to_evaluation_spec suite b c)"
  "raises comparison_error (aggregate_values vs)"
  "raises comparison_error (aggregate_delta x y)"
  "raises comparison_error (evaluate_gate g a)"
  "raises comparison_error (aggregate_from_summary m)"
  "raises comparison_error (create_decision jcs d)"
  unfolding validate_suite_run_def to_evaluation_spec_def aggregate_values_def aggregate_delta_def
    evaluate_gate_def aggregate_from_summary_def create_decision_def validate_decision_def
    calculate_decision_digest_def Let_def prod.case
  by (intro raises_intros comparison_error_simps)+

lemma raises_compare_case [raises_intros]: "raises comparison_error (compare_case c g b v)"
proof (cases "cv_value b"; cases "cv_value v"; cases "is_comparable b v")
qed (auto simp: compare_case_def Let_def intro!: raises_intros)

lemma raises_validate_inputs [raises_intros]:
  "raises comparison_error (validate_inputs spec dataset b c suite)"
  unfolding validate_inputs_def validate_suite_inputs_def Let_def
  by (intro raises_intros comparison_error_simps)

lemma lookup_case_ok:
  assumes "same_cases dataset run" "c \<in> set (dataset_cases dataset)"
  shows "\<exists>r. lookup_case (case_index_of run) c = Inr r"
proof -
  from assms(2) obtain i where i: "i < length (dataset_cases dataset)" "c = dataset_cases dataset ! i"
    by (auto simp: in_set_conv_nth)
  then have "(c, run_cases run ! i) \<in> set (zip (dataset_cases dataset) (run_cases run))"
    using same_cases_length[OF assms(1)] by (auto simp: in_set_zip)
  from lookup_case_zip[OF assms(1) this] show ?thesis by blast
qed

lemma raises_compare_aggregate:
  assumes "same_cases dataset b" "same_cases dataset c"
  shows "raises comparison_error
    (compare_aggregate (dataset_cases dataset) (case_index_of b) (case_index_of c) m ev scope)"
  unfolding compare_aggregate_def
  by (intro raises_intros) (auto simp: cases_in_scope_Inr aggregate_evidence[OF assms(1)]
      aggregate_evidence[OF assms(2)] intro: raises_intros)

lemma raises_compare_gate:
  assumes "same_cases dataset b" "same_cases dataset c"
  shows "raises comparison_error
    (compare_gate (dataset_cases dataset) (case_index_of b) (case_index_of c) index g)"
proof -
  have found: "raises comparison_error (lookup_case (case_index_of run) x)"
    if "same_cases dataset run" "x \<in> set (dataset_cases dataset)" for run x
    using lookup_case_ok[OF that] by auto
  show ?thesis
    unfolding compare_gate_def
    by (intro raises_intros comparison_error_simps)
      (auto simp: cases_in_scope_Inr intro!: found assms raises_intros)
qed

lemma raises_stored_summaries:
  assumes "metric_references run = Inr refs"
    "\<And>m. m \<in> fst ` set refs \<Longrightarrow> \<exists>a. map_of index (m, None) = Some a"
  shows "raises comparison_error (validate_stored_summaries run index side)"
  unfolding validate_stored_summaries_def
proof (intro raises_rmap)
  fix m assume "m \<in> set (run_metrics run)"
  then have "summary_metric m \<in> fst ` set refs" using metric_references_Inr(1)[OF assms(1)] by force
  with assms(2) obtain a where "map_of index (summary_metric m, None) = Some a" by blast
  then show "raises comparison_error (rbind (of_option (LookupError ''KeyError'')
      (map_of index (summary_metric m, None))) (\<lambda>a. rbind (aggregate_from_summary m)
      (\<lambda>expected_aggregate. checks [((case side of BASELINE \<Rightarrow> ac_baseline a | CANDIDATE \<Rightarrow> ac_candidate a)
         \<noteq> expected_aggregate,
       ComparisonConfigurationError ''stored run aggregates do not match case evidence'')])))"
    by (simp, intro raises_intros comparison_error_simps)
qed

text \<open>
  C12. A comparison of runs against a valid dataset fails only in the ways its callers handle: with
  a \<open>ValueError\<close> (an incompatible input, an invalid value, unhashable evidence) or with the
  \<open>OverflowError\<close> of a mean beyond the float range. No lookup in its indexes ever misses.
\<close>

theorem comparison_exceptions:
  assumes "validate_dataset jcs dataset = Inr dataset"
    "compare_runs jcs spec dataset baseline candidate suite = Inl e"
  shows "is_value_error e \<or> (\<exists>m. e = OverflowError m)"
proof -
  have same: "same_cases dataset baseline" "same_cases dataset candidate"
    if "validate_inputs spec dataset baseline candidate suite = Inr u" for u
    using validate_inputs_Inr valid_dataset_ids[OF assms(1)] that by (auto simp: same_cases_def)
  have "raises comparison_error (compare_runs jcs spec dataset baseline candidate suite)"
    unfolding compare_runs_def Let_def aggregate_index_def[symmetric]
  proof (intro raises_intros, goal_cases)
    case (1 u bms cms m)
    then have "fst ` set bms = fst ` set cms" using validate_inputs_Inr(3) by auto
    with 1(4) obtain ev ev' where "map_of bms m = Some ev" "map_of cms m = Some ev'"
      by (metis (no_types, lifting) image_set map_of_eq_None_iff not_None_eq set_sort)
    then show ?case
      unfolding compare_metric_def
      by (auto intro!: raises_intros raises_compare_aggregate same[OF 1(1)])
  next
    case (2 u bms cms nested)
    then show ?case
      by (intro raises_stored_summaries overall_aggregate[OF same[OF 2(1)]])
  next
    case (3 u bms cms nested us)
    then have "fst ` set bms = fst ` set cms" using validate_inputs_Inr(3) by auto
    then have "\<exists>a. map_of (aggregate_index (concat nested)) (k, None) = Some a" if "k \<in> fst ` set cms" for k
      using that overall_aggregate[OF same[OF 3(1)] 3(4)] by blast
    with 3(3) show ?case by (rule raises_stored_summaries)
  next
    case (4 u bms cms nested us us' g)
    then show ?case by (intro raises_compare_gate same)
  qed
  from raisesD[OF this assms(2)] show ?thesis by (simp add: comparison_error_def)
qed

theorem comparison_exceptions_witness:
  "compare_runs demo_jcs demo_spec demo_dataset (demo_run ''b1'' ''old'') (demo_run ''c1'' ''old'') None =
     Inl (ComparisonConfigurationError ''candidate target does not match evaluation policy'') \<and>
   is_value_error (ComparisonConfigurationError ''candidate target does not match evaluation policy'')"
proof -
  have "compare_runs demo_jcs demo_spec demo_dataset (demo_run ''b1'' ''old'') (demo_run ''c1'' ''old'') None =
     Inl (ComparisonConfigurationError ''candidate target does not match evaluation policy'')"
    by (simp add: compare_runs_def validate_inputs_def validate_suite_inputs_def demo_spec_def
        require_artifact_match_def demo_ref_def logical_key_def)
  with comparison_exceptions[OF demo_dataset_valid this] show ?thesis by simp
qed

end
