(* ===== verification/Runner.thy ===== *)
theory Runner
  imports Release
begin

text \<open>
  The in-process runner (\<open>application/runner.py\<close>): one serial pass over the cases of a dataset,
  calling an untrusted target and untrusted evaluators (\<open>application/ports.py\<close>) and recording
  sanitized failures. What a port returns is a value of \<open>invocation\<close> or \<open>evaluation\<close>: pydantic
  either reads the returned object as the fields of the model, or rejects it
  (\<open>MalformedResponse\<close>, \<open>MalformedObservations\<close>). The clock is the sequence of its readings,
  \<open>None\<close> for a reading that is not finite; case \<open>k\<close> reads it as number \<open>2 * k\<close> and \<open>2 * k + 1\<close>.
\<close>

section \<open>Ports\<close>

record target_request =
  request_case_id :: string
  request_input :: json

definition transport_codes :: "failure_code list" where
  "transport_codes = [TARGET_AUTHENTICATION, TARGET_PROTOCOL_ERROR, TARGET_RATE_LIMITED,
     TARGET_REJECTED, TARGET_TIMEOUT, TARGET_UNAVAILABLE]"

text \<open>The constructor of \<open>TargetInvocationError\<close> accepts the transport codes only.\<close>

definition target_invocation_error :: "failure_code \<Rightarrow> bool \<Rightarrow> (failure_code \<times> bool) res" where
  "target_invocation_error code retry = rbind (checks
     [(code \<notin> set transport_codes,
       ValueError ''invocation failure requires a target transport code'')]) (\<lambda>_. Inr (code, retry))"

datatype invocation =
    Response target_response
  | MalformedResponse
  | InvocationError failure_code bool
  | InvocationRaised

record target_port =
  target_port_ref :: artifact_ref
  invoke :: "target_request \<Rightarrow> invocation"

datatype evaluation =
    Observed "metric_observation list"
  | MalformedObservations
  | EvaluationRaised

record evaluator_port =
  port_ref :: artifact_ref
  port_metric_names :: "string list"
  evaluate :: "evaluation_case \<Rightarrow> target_observation \<Rightarrow> evaluation"

section \<open>Preflight\<close>

definition port_key :: "evaluator_port \<Rightarrow> logical_key" where
  "port_key e = logical_key (port_ref e)"

definition validate_evaluator_port :: "evaluator_port \<Rightarrow> unit res" where
  "validate_evaluator_port e = checks
     [(unresolved EVALUATOR (port_ref e),
       RunnerConfigurationError ''evaluators must have resolved evaluator references''),
      (port_metric_names e = [], RunnerConfigurationError ''evaluators must declare metrics''),
      (has_duplicates (port_metric_names e),
       RunnerConfigurationError ''evaluator metrics must be unique'')]"

definition validate_plan :: "target_port \<Rightarrow> evaluator_port list \<Rightarrow> evaluator_port list res" where
  "validate_plan target evaluators =
     rbind (checks
       [(unresolved TARGET (target_port_ref target),
         RunnerConfigurationError ''target must have a resolved target reference''),
        (evaluators = [], RunnerConfigurationError ''at least one evaluator is required'')]) (\<lambda>_.
     let ordered = sort_key port_key evaluators in
     rbind (checks [(has_duplicates (map port_key ordered),
       RunnerConfigurationError ''evaluator references must be unique'')]) (\<lambda>_.
     rbind (rmap validate_evaluator_port ordered) (\<lambda>_.
     rbind (checks [(has_duplicates (concat (map port_metric_names ordered)),
       RunnerConfigurationError ''run metric names must be unique'')]) (\<lambda>_. Inr ordered))))"

definition validate_runner_suite ::
    "evaluation_suite \<Rightarrow> dataset_version \<Rightarrow> evaluator_port list \<Rightarrow> execution_mode \<Rightarrow> unit res" where
  "validate_runner_suite suite dataset evaluators mode = checks
     [(suite_dataset suite \<noteq> dataset_ref dataset,
       RunnerConfigurationError ''dataset does not match evaluation suite''),
      (exec_mode (suite_execution suite) \<noteq> mode,
       RunnerConfigurationError ''execution mode does not match evaluation suite''),
      (map port_ref evaluators \<noteq> suite_evaluator_refs suite,
       RunnerConfigurationError ''evaluators do not match evaluation suite''),
      (\<exists>(e, binding) \<in> set (zip evaluators (suite_evaluators suite)).
         sort (port_metric_names e) \<noteq> evaluator_metrics binding,
       RunnerConfigurationError ''evaluator metrics do not match evaluation suite''),
      (\<not> set (suite_slices suite) \<subseteq> dataset_slices dataset,
       RunnerConfigurationError ''suite slices are absent from the supplied dataset'')]"

section \<open>Latency\<close>

text \<open>\<open>round(elapsed, 6)\<close>: six decimals, half to even, then the nearest float.\<close>

definition round6 :: "rat \<Rightarrow> rat" where
  "round6 x = rnd64 (of_int (round_half_even (x * 10 ^ 6)) / 10 ^ 6)"

abbreviation invalid_time :: exn where
  "invalid_time \<equiv> RunnerConfigurationError ''monotonic clock returned invalid time''"

definition elapsed_ms :: "rat option \<Rightarrow> rat option \<Rightarrow> rat res" where
  "elapsed_ms started finished =
     rbind (of_option invalid_time started) (\<lambda>s.
     rbind (of_option invalid_time finished) (\<lambda>f.
     rbind (of_option invalid_time (round64 (f - s))) (\<lambda>d.
     rbind (of_option invalid_time (round64 (d * 1000))) (\<lambda>elapsed.
     if elapsed < 0 then Inl invalid_time else Inr (round6 elapsed)))))"

section \<open>One case\<close>

fun target_failure_message :: "failure_code \<Rightarrow> string" where
  "target_failure_message TARGET_AUTHENTICATION = ''Target authentication failed''"
| "target_failure_message TARGET_PROTOCOL_ERROR = ''Target protocol validation failed''"
| "target_failure_message TARGET_RATE_LIMITED = ''Target rate limit was reached''"
| "target_failure_message TARGET_REJECTED = ''Target rejected the request''"
| "target_failure_message TARGET_TIMEOUT = ''Target request timed out''"
| "target_failure_message TARGET_UNAVAILABLE = ''Target was unavailable''"
| "target_failure_message _ = ''Target invocation failed''"

definition target_failed_case ::
    "evaluation_case \<Rightarrow> failure_code \<Rightarrow> string \<Rightarrow> bool \<Rightarrow> rat \<Rightarrow> case_result res" where
  "target_failed_case c code message retry latency =
     rbind (validate_execution_failure
       \<lparr>failure_stage = TARGET_STAGE, failure_code = code, failure_message = message,
        retryable = retry, failure_evaluator = None, failure_latency_ms = Some latency\<rparr>) (\<lambda>failure.
     validate_case_result
       \<lparr>result_case_id = case_id c, result_case_status = TARGET_FAILED, result_target = None,
        target_failure = Some failure, observations = [], evaluator_failures = []\<rparr>)"

definition evaluator_failure :: "evaluator_port \<Rightarrow> failure_code \<Rightarrow> string \<Rightarrow> execution_failure res" where
  "evaluator_failure e code message = validate_execution_failure
     \<lparr>failure_stage = EVALUATOR_STAGE, failure_code = code, failure_message = message,
      retryable = False, failure_evaluator = Some (port_ref e), failure_latency_ms = None\<rparr>"

definition validate_observations :: "evaluator_port \<Rightarrow> metric_observation list \<Rightarrow> unit res" where
  "validate_observations e obs = checks
     [(set (map obs_metric obs) \<noteq> set (port_metric_names e),
       RunnerConfigurationError ''evaluator observations must cover every declared metric''),
      (\<exists>ob \<in> set obs. logical_key (obs_evaluator ob) \<noteq> logical_key (port_ref e) \<or>
         ref_digest (obs_evaluator ob) \<noteq> ref_digest (port_ref e),
       RunnerConfigurationError ''evaluator observations must use the configured evaluator reference'')]"

fun is_contract_error :: "exn \<Rightarrow> bool" where
  "is_contract_error (ValidationError _) = True"
| "is_contract_error (RunnerConfigurationError _) = True"
| "is_contract_error _ = False"

text \<open>One evaluator on one case: its observations in canonical order, or its failure.\<close>

definition accept_observations ::
    "evaluator_port \<Rightarrow> metric_observation list option \<Rightarrow> metric_observation list res" where
  "accept_observations e raw =
     rbind (of_option (ValidationError ''observations'') raw) (\<lambda>obs.
     rbind (rmap validate_observation obs) (\<lambda>validated.
     rbind (validate_observations e validated) (\<lambda>_. Inr (sort_key observation_key validated))))"

definition run_evaluator ::
    "evaluation_case \<Rightarrow> target_observation \<Rightarrow> metric_observation list \<times> execution_failure list
     \<Rightarrow> evaluator_port \<Rightarrow> (metric_observation list \<times> execution_failure list) res" where
  "run_evaluator c t acc e =
     (let (obs, failures) = acc;
          accept = \<lambda>raw. (case accept_observations e raw of
             Inr validated \<Rightarrow> Inr (obs @ validated, failures)
           | Inl err \<Rightarrow> (if is_contract_error err
               then rbind (evaluator_failure e INVALID_EVALUATOR_OUTPUT
                      ''Evaluator result failed contract validation'')
                    (\<lambda>f. Inr (obs, failures @ [f]))
               else Inl err))
      in case evaluate e c t of
           EvaluationRaised \<Rightarrow> rbind (evaluator_failure e EVALUATOR_EXCEPTION ''Evaluator raised an exception'')
             (\<lambda>f. Inr (obs, failures @ [f]))
         | MalformedObservations \<Rightarrow> accept None
         | Observed obs' \<Rightarrow> accept (Some obs'))"

fun run_evaluators_on ::
    "evaluation_case \<Rightarrow> target_observation \<Rightarrow> metric_observation list \<times> execution_failure list
     \<Rightarrow> evaluator_port list \<Rightarrow> (metric_observation list \<times> execution_failure list) res" where
  "run_evaluators_on c t acc [] = Inr acc"
| "run_evaluators_on c t acc (e # es) =
     rbind (run_evaluator c t acc e) (\<lambda>acc'. run_evaluators_on c t acc' es)"

definition evaluated_case ::
    "evaluator_port list \<Rightarrow> evaluation_case \<Rightarrow> target_response \<Rightarrow> rat \<Rightarrow> case_result res" where
  "evaluated_case ordered c resp latency =
     rbind (validate_target_observation \<lparr>response = resp, latency_ms = latency\<rparr>) (\<lambda>t.
     rbind (run_evaluators_on c t ([], []) ordered) (\<lambda>(obs, failures).
     let has_errors = (failures \<noteq> [] \<or> (\<exists>ob \<in> set obs. is_error_observation ob)) in
     validate_case_result
       \<lparr>result_case_id = case_id c,
        result_case_status = (if has_errors then COMPLETED_WITH_ERRORS else CASE_COMPLETED),
        result_target = Some t, target_failure = None, observations = obs,
        evaluator_failures = failures\<rparr>))"

definition run_case ::
    "target_port \<Rightarrow> evaluator_port list \<Rightarrow> rat option \<Rightarrow> rat option \<Rightarrow> evaluation_case \<Rightarrow> case_result res" where
  "run_case target ordered started finished c =
     (let raw = invoke target \<lparr>request_case_id = case_id c, request_input = case_input c\<rparr> in
      rbind (elapsed_ms started finished) (\<lambda>latency.
      case raw of
        InvocationError code retry \<Rightarrow>
          target_failed_case c code (target_failure_message code) retry latency
      | InvocationRaised \<Rightarrow>
          target_failed_case c TARGET_EXCEPTION ''Target raised an exception'' False latency
      | MalformedResponse \<Rightarrow> target_failed_case c INVALID_TARGET_OUTPUT
          ''Target result failed contract validation'' False latency
      | Response r \<Rightarrow> (case validate_target_response r of
            Inl _ \<Rightarrow> target_failed_case c INVALID_TARGET_OUTPUT
              ''Target result failed contract validation'' False latency
          | Inr resp \<Rightarrow> evaluated_case ordered c resp latency)))"

fun run_all_cases ::
    "(nat \<Rightarrow> rat option) \<Rightarrow> target_port \<Rightarrow> evaluator_port list \<Rightarrow> nat \<Rightarrow> evaluation_case list
     \<Rightarrow> case_result list res" where
  "run_all_cases clock target ordered k [] = Inr []"
| "run_all_cases clock target ordered k (c # cs) =
     rbind (run_case target ordered (clock (2 * k)) (clock (2 * k + 1)) c) (\<lambda>r.
     rbind (run_all_cases clock target ordered (Suc k) cs) (\<lambda>rs. Inr (r # rs)))"

section \<open>Summaries\<close>

text \<open>One case in the loop of \<open>_summarize\<close>: the scored values so far, the skips and the errors.\<close>

definition summary_step ::
    "evaluator_port \<Rightarrow> string \<Rightarrow> rat list \<times> int \<times> int \<Rightarrow> case_result \<Rightarrow> rat list \<times> int \<times> int" where
  "summary_step e metric acc c =
     (let (values, skips, errs) = acc in
      if result_case_status c = TARGET_FAILED then (values, skips, errs + 1)
      else if \<exists>f \<in> set (evaluator_failures c). case failure_evaluator f of None \<Rightarrow> False
             | Some r \<Rightarrow> logical_key r = logical_key (port_ref e)
        then (values, skips, errs + 1)
      else case List.find (\<lambda>ob. obs_metric ob = metric \<and>
             logical_key (obs_evaluator ob) = logical_key (port_ref e)) (observations c) of
          Some (ScoredObservation _ _ v _) \<Rightarrow> (values @ [v], skips, errs)
        | Some (SkippedObservation _ _ _) \<Rightarrow> (values, skips + 1, errs)
        | _ \<Rightarrow> (values, skips, errs + 1))"

definition summarize_metric :: "case_result list \<Rightarrow> evaluator_port \<Rightarrow> string \<Rightarrow> metric_summary res" where
  "summarize_metric cases e metric =
     (case foldl (summary_step e metric) ([], 0, 0) cases of (values, skips, errs) \<Rightarrow>
      rbind (fmean values) (\<lambda>m. validate_metric_summary
        \<lparr>summary_metric = metric, summary_evaluator = port_ref e, attempted = int (length cases),
         scored = int (length values), skipped = skips, errors = errs, summary_mean = m\<rparr>))"

definition summarize :: "case_result list \<Rightarrow> evaluator_port list \<Rightarrow> metric_summary list res" where
  "summarize cases evaluators = rmap (\<lambda>(e, m). summarize_metric cases e m)
     (concat (map (\<lambda>e. map (Pair e) (port_metric_names e)) evaluators))"

section \<open>The run\<close>

definition runner_run ::
    "jcs \<Rightarrow> (nat \<Rightarrow> rat option) \<Rightarrow> string \<Rightarrow> dataset_version \<Rightarrow> target_port \<Rightarrow> evaluator_port list
     \<Rightarrow> execution_mode \<Rightarrow> evaluation_suite option \<Rightarrow> run_result res" where
  "runner_run jcs clock rid dataset target evaluators mode suite =
     rbind (validate_plan target evaluators) (\<lambda>ordered.
     rbind (case suite of None \<Rightarrow> Inr () | Some s \<Rightarrow> validate_runner_suite s dataset ordered mode) (\<lambda>_.
     rbind (run_all_cases clock target ordered 0 (dataset_cases dataset)) (\<lambda>cases.
     rbind (summarize cases ordered) (\<lambda>summaries.
     create_run jcs
       \<lparr>run_id = rid, run_status = RUN_COMPLETED, run_mode = mode, run_suite = map_option suite_ref suite,
        run_dataset = dataset_ref dataset, run_target = target_port_ref target,
        run_evaluators = map port_ref ordered, run_cases = cases, run_metrics = summaries,
        result_digest = []\<rparr>))))"

end
