(* ===== verification/RunnerFacts.thy ===== *)
theory RunnerFacts
  imports Runner
begin

text \<open>
  Lemmas on the runner: what a valid plan guarantees, the closed form of the evaluator loop, that
  every case is recorded whatever the ports do, and that the summaries tally the case values
  the comparison later reads.
\<close>

section \<open>Plans\<close>

definition plan :: "evaluator_port list \<Rightarrow> bool" where
  "plan ordered \<longleftrightarrow> ordered \<noteq> [] \<and> sorted (map port_key ordered) \<and> distinct (map port_key ordered) \<and>
     (\<forall>e \<in> set ordered. \<not> unresolved EVALUATOR (port_ref e) \<and> port_metric_names e \<noteq> []) \<and>
     distinct (concat (map port_metric_names ordered))"

lemma rmap_unit: "rmap f xs = Inr us \<Longrightarrow> x \<in> set xs \<Longrightarrow> f x = Inr (u :: unit)"
  by (induction xs arbitrary: us) (auto simp: result_simps)

lemma validate_plan_Inr:
  assumes "validate_plan target evaluators = Inr ordered"
  shows "plan ordered" "ordered = sort_key port_key evaluators"
    "\<not> unresolved TARGET (target_port_ref target)"
proof -
  let ?o = "sort_key port_key evaluators"
  from assms obtain us where us: "rmap validate_evaluator_port ?o = Inr us" and eq: "ordered = ?o"
    and o: "evaluators \<noteq> []" "distinct (map port_key ?o)" "distinct (concat (map port_metric_names ?o))"
      "\<not> unresolved TARGET (target_port_ref target)"
    unfolding validate_plan_def Let_def rbind_Inr_iff checks_Cons_Inr
    by (elim exE conjE) (simp only: sum.inject has_duplicates_iff not_not simp_thms)
  have "\<not> unresolved EVALUATOR (port_ref e) \<and> port_metric_names e \<noteq> []" if "e \<in> set ?o" for e
    using rmap_unit[OF us that] by (simp add: validate_evaluator_port_def result_simps)
  with o show "plan ordered" by (simp add: plan_def eq)
  show "ordered = sort_key port_key evaluators" "\<not> unresolved TARGET (target_port_ref target)"
    using o eq by simp_all
qed

lemma distinct_concat_unique:
  "distinct (concat (map f xs)) \<Longrightarrow> x \<in> set xs \<Longrightarrow> y \<in> set xs \<Longrightarrow> m \<in> set (f x) \<Longrightarrow> m \<in> set (f y) \<Longrightarrow> x = y"
  by (induction xs) auto

section \<open>The evaluator loop\<close>

lemma accept_raises: "raises is_contract_error (accept_observations e raw)"
  unfolding accept_observations_def validate_observation_def validate_observations_def
  by (intro raises_intros) simp_all

lemma accept_observations_Inr:
  assumes "accept_observations e raw = Inr v"
  obtains obs where "raw = Some obs" "v = sort_key observation_key obs"
    "set (map obs_metric obs) = set (port_metric_names e)"
    "\<And>ob. ob \<in> set obs \<Longrightarrow> obs_evaluator ob = port_ref e"
proof -
  from assms obtain obs vs where raw: "raw = Some obs" "rmap validate_observation obs = Inr vs"
    "validate_observations e vs = Inr ()" "v = sort_key observation_key vs"
    by (auto simp: accept_observations_def result_simps)
  have "vs = obs" using raw(2) unfolding rmap_Inr_list_all2
    by (auto simp: list_eq_iff_nth_eq list_all2_conv_all_nth dest!: validate_observation_Inr)
  then show ?thesis
    using raw by (intro that) (auto simp: validate_observations_def result_simps intro: same_key_and_digest)
qed

text \<open>What an evaluator contributes to a case: its observations, or none when it failed.\<close>

definition accepted :: "evaluation_case \<Rightarrow> target_observation \<Rightarrow> evaluator_port \<Rightarrow> metric_observation list option" where
  "accepted c t e = (case evaluate e c t of
     Observed obs \<Rightarrow> (case accept_observations e (Some obs) of Inl _ \<Rightarrow> None | Inr v \<Rightarrow> Some v)
   | _ \<Rightarrow> None)"

definition failure_of :: "evaluation_case \<Rightarrow> target_observation \<Rightarrow> evaluator_port \<Rightarrow> execution_failure" where
  "failure_of c t e = \<lparr>failure_stage = EVALUATOR_STAGE,
     failure_code = (if evaluate e c t = EvaluationRaised then EVALUATOR_EXCEPTION else INVALID_EVALUATOR_OUTPUT),
     failure_message = (if evaluate e c t = EvaluationRaised then ''Evaluator raised an exception''
       else ''Evaluator result failed contract validation''),
     retryable = False, failure_evaluator = Some (port_ref e), failure_latency_ms = None\<rparr>"

lemma run_evaluator_eq:
  assumes "ref_kind (port_ref e) = EVALUATOR"
  shows "run_evaluator c t (obs, fs) e = (case accepted c t e of
     Some v \<Rightarrow> Inr (obs @ v, fs) | None \<Rightarrow> Inr (obs, fs @ [failure_of c t e]))"
proof -
  have fail: "evaluator_failure e code message = Inr \<lparr>failure_stage = EVALUATOR_STAGE, failure_code = code,
      failure_message = message, retryable = False, failure_evaluator = Some (port_ref e),
      failure_latency_ms = None\<rparr>" if "is_safe_message message" for code message
    using that assms by (simp add: evaluator_failure_def validate_execution_failure_def)
  have msgs: "is_safe_message ''Evaluator raised an exception''"
    "is_safe_message ''Evaluator result failed contract validation''"
    by (simp_all add: is_safe_message_def)
  have none: "\<exists>err. accept_observations e None = Inl err \<and> is_contract_error err"
    by (simp add: accept_observations_def)
  show ?thesis
    using raisesD[OF accept_raises] none
    by (cases "evaluate e c t")
      (auto simp: run_evaluator_def Let_def accepted_def failure_of_def fail msgs split: sum.splits)
qed

lemma run_evaluators_eq:
  assumes "\<forall>e \<in> set es. ref_kind (port_ref e) = EVALUATOR"
  shows "run_evaluators_on c t (obs, fs) es = Inr
    (obs @ concat (map (\<lambda>e. case accepted c t e of None \<Rightarrow> [] | Some v \<Rightarrow> v) es),
     fs @ map (failure_of c t) (filter (\<lambda>e. accepted c t e = None) es))"
  using assms
  by (induction es arbitrary: obs fs) (auto simp: run_evaluator_eq split: option.splits)

text \<open>Evaluators that report a metric at most once per case.\<close>

definition no_repeats :: "evaluator_port \<Rightarrow> bool" where
  "no_repeats e \<longleftrightarrow> (\<forall>c t obs. evaluate e c t = Observed obs \<longrightarrow> distinct (map obs_metric obs))"

definition contribution :: "evaluation_case \<Rightarrow> target_observation \<Rightarrow> evaluator_port \<Rightarrow> metric_observation list" where
  "contribution c t e = (case accepted c t e of None \<Rightarrow> [] | Some v \<Rightarrow> v)"

lemma contribution_props:
  shows "ob \<in> set (contribution c t e) \<Longrightarrow> obs_evaluator ob = port_ref e \<and>
      obs_metric ob \<in> set (port_metric_names e) \<and> accepted c t e \<noteq> None"
    and "sorted (map observation_key (contribution c t e))"
    and "no_repeats e \<Longrightarrow> distinct (map observation_key (contribution c t e))"
    and "accepted c t e \<noteq> None \<Longrightarrow> obs_metric ` set (contribution c t e) = set (port_metric_names e)"
proof -
  have cases: "contribution c t e = [] \<and> accepted c t e = None \<or>
      (\<exists>obs. accepted c t e = Some (sort_key observation_key obs) \<and> evaluate e c t = Observed obs \<and>
         contribution c t e = sort_key observation_key obs \<and>
         set (map obs_metric obs) = set (port_metric_names e) \<and>
         (\<forall>ob \<in> set obs. obs_evaluator ob = port_ref e))"
    by (auto simp: contribution_def accepted_def elim!: accept_observations_Inr
        split: evaluation.splits sum.splits)
  show "ob \<in> set (contribution c t e) \<Longrightarrow> obs_evaluator ob = port_ref e \<and>
      obs_metric ob \<in> set (port_metric_names e) \<and> accepted c t e \<noteq> None"
    using cases by (metis empty_iff empty_set image_eqI option.discI set_map set_sort)
  show "sorted (map observation_key (contribution c t e))" using cases by auto
  show "accepted c t e \<noteq> None \<Longrightarrow> obs_metric ` set (contribution c t e) = set (port_metric_names e)"
    using cases by (elim disjE exE conjE) simp_all
  show "distinct (map observation_key (contribution c t e))" if "no_repeats e"
  proof -
    have "distinct (map observation_key obs)" if "evaluate e c t = Observed obs" for obs
      using that \<open>no_repeats e\<close>
      by (auto simp: no_repeats_def distinct_map inj_on_def observation_key_def)
    with cases show ?thesis by auto
  qed
qed

lemma contributions_keys:
  assumes "sorted (map port_key es)" "distinct (map port_key es)"
  shows "sorted (map observation_key (concat (map (contribution c t) es)))"
    and "(\<forall>e \<in> set es. no_repeats e) \<Longrightarrow> distinct (map observation_key (concat (map (contribution c t) es)))"
proof -
  have key: "observation_key ob = (port_key e, obs_metric ob)" if "ob \<in> set (contribution c t e)" for ob e
    using contribution_props(1)[OF that] by (simp add: observation_key_def port_key_def)
  have less: "observation_key x < observation_key y"
    if "x \<in> set (contribution c t e)" "y \<in> set (contribution c t e')" "port_key e < port_key e'" for x y e e'
    using key[OF that(1)] key[OF that(2)] that(3) by (simp add: less_prod_def)
  have "sorted (map observation_key (concat (map (contribution c t) es))) \<and>
      ((\<forall>e \<in> set es. no_repeats e) \<longrightarrow> distinct (map observation_key (concat (map (contribution c t) es))))"
    using assms
  proof (induction es)
    case (Cons e es)
    have later: "port_key e < port_key e'" if "e' \<in> set es" for e'
      using Cons.prems that by (fastforce simp: less_le)
    have before: "observation_key x < observation_key y"
      if "x \<in> set (contribution c t e)" "y \<in> set (concat (map (contribution c t) es))" for x y
      using that less later by fastforce
    from Cons.IH Cons.prems contribution_props(2)[of c t e] contribution_props(3)[of e c t] before show ?case
      by (fastforce simp: sorted_append less_le)
  qed simp
  then show "sorted (map observation_key (concat (map (contribution c t) es)))"
    "(\<forall>e \<in> set es. no_repeats e) \<Longrightarrow> distinct (map observation_key (concat (map (contribution c t) es)))"
    by auto
qed

section \<open>One case\<close>

lemma elapsed_ms_nonneg: "elapsed_ms s f = Inr l \<Longrightarrow> 0 \<le> l"
  using round_half_even_mono[of 0] round_half_even_of_int[of 0]
  by (auto simp: elapsed_ms_def result_simps round6_def not_less split: if_splits intro!: rnd64_nonneg)

text \<open>
  A recorded case: a target failure without observations, or observations of the plan's
  evaluators, each evaluator either covering its metrics or recorded as failed.
\<close>

definition recorded :: "evaluator_port list \<Rightarrow> case_result \<Rightarrow> bool" where
  "recorded ordered r \<longleftrightarrow> result_case_status r = TARGET_FAILED \<or>
     (\<exists>c t. observations r = concat (map (contribution c t) ordered) \<and>
        evaluator_failures r = map (failure_of c t) (filter (\<lambda>e. accepted c t e = None) ordered))"

lemma target_failed_case_eq:
  assumes "is_case_id (case_id c)" "0 \<le> latency" "is_safe_message message"
  shows "\<exists>r. target_failed_case c code message retry latency = Inr r \<and> result_case_id r = case_id c \<and>
    result_case_status r = TARGET_FAILED"
  using assms by (simp add: target_failed_case_def validate_execution_failure_def validate_case_result_def
      check_case_status_def failure_keys_def map_filter_simps)

lemma target_failure_message_safe: "is_safe_message (target_failure_message code)"
  by (cases code) (simp_all add: is_safe_message_def)

lemma evaluated_case_eq:
  fixes c :: evaluation_case and resp :: target_response and latency :: rat
    and ordered :: "evaluator_port list"
  assumes "plan ordered" "is_case_id (case_id c)" "0 \<le> latency"
  defines "t \<equiv> \<lparr>response = resp, latency_ms = latency\<rparr>"
  defines "obs \<equiv> concat (map (contribution c t) ordered)"
  defines "fs \<equiv> map (failure_of c t) (filter (\<lambda>e. accepted c t e = None) ordered)"
  shows "distinct (map observation_key obs) \<Longrightarrow> evaluated_case ordered c resp latency = Inr
    \<lparr>result_case_id = case_id c,
     result_case_status = (if fs \<noteq> [] \<or> (\<exists>ob \<in> set obs. is_error_observation ob)
       then COMPLETED_WITH_ERRORS else CASE_COMPLETED),
     result_target = Some t, target_failure = None, observations = obs, evaluator_failures = fs\<rparr>"
    and "\<not> distinct (map observation_key obs) \<Longrightarrow> evaluated_case ordered c resp latency =
      Inl (ValidationError ''case observations must have unique evaluator metrics'')"
proof -
  have kinds: "\<forall>e \<in> set ordered. ref_kind (port_ref e) = EVALUATOR"
    using assms(1) by (simp add: plan_def unresolved_def)
  have pk: "sorted (map port_key ordered)" "distinct (map port_key ordered)"
    using assms(1) by (simp_all add: plan_def)
  have loop: "run_evaluators_on c t ([], []) ordered = Inr (obs, fs)"
    using run_evaluators_eq[OF kinds] by (simp add: obs_def fs_def contribution_def[abs_def])
  have t: "validate_target_observation t = Inr t"
    using assms(3) by (simp add: validate_target_observation_def t_def)
  let ?bad = "filter (\<lambda>e. accepted c t e = None) ordered"
  have "map failure_evaluator fs = map (Some \<circ> port_ref) ?bad" by (simp add: fs_def failure_of_def comp_def)
  moreover have "distinct (map port_key ?bad)" using pk(2) by (rule distinct_map_filter)
  then have "distinct (map port_ref ?bad)"
    by (auto simp: distinct_map inj_on_def port_key_def)
  ultimately have d: "distinct (map failure_evaluator fs)"
    by (simp add: distinct_map inj_on_def)
  have "failure_keys fs = map port_key ?bad"
    unfolding failure_keys_def fs_def
    by (induction ordered) (simp_all add: map_filter_simps failure_of_def port_key_def)
  then have s: "sorted (failure_keys fs)" using sorted_filter[OF pk(1)] by simp
  have stage: "\<forall>f \<in> set fs. failure_stage f = EVALUATOR_STAGE" by (simp add: fs_def failure_of_def)
  have so: "sorted (map observation_key obs)" unfolding obs_def by (rule contributions_keys(1)[OF pk])
  show "distinct (map observation_key obs) \<Longrightarrow> evaluated_case ordered c resp latency = Inr
    \<lparr>result_case_id = case_id c,
     result_case_status = (if fs \<noteq> [] \<or> (\<exists>ob \<in> set obs. is_error_observation ob)
       then COMPLETED_WITH_ERRORS else CASE_COMPLETED),
     result_target = Some t, target_failure = None, observations = obs, evaluator_failures = fs\<rparr>"
    using d s stage so assms(2)
    by (simp add: evaluated_case_def t[unfolded t_def] loop[unfolded t_def] Let_def
        validate_case_result_def check_case_status_def) (simp add: t_def)
  show "\<not> distinct (map observation_key obs) \<Longrightarrow> evaluated_case ordered c resp latency =
      Inl (ValidationError ''case observations must have unique evaluator metrics'')"
    using d s stage so assms(2)
    by (simp add: evaluated_case_def t[unfolded t_def] loop[unfolded t_def] Let_def
        validate_case_result_def check_case_status_def)
qed

text \<open>The response of the target on a case, when it is a valid one.\<close>

definition valid_response :: "target_port \<Rightarrow> evaluation_case \<Rightarrow> target_response option" where
  "valid_response target c =
     (case invoke target \<lparr>request_case_id = case_id c, request_input = case_input c\<rparr> of
        Response r \<Rightarrow> (if is_ok (validate_target_response r) then Some r else None)
      | _ \<Rightarrow> None)"

lemma run_case_total:
  assumes "plan ordered" "\<forall>e \<in> set ordered. no_repeats e" "is_case_id (case_id c)"
    "elapsed_ms started finished = Inr latency"
  shows "\<exists>r. run_case target ordered started finished c = Inr r \<and> result_case_id r = case_id c \<and>
    (result_case_status r = TARGET_FAILED \<longleftrightarrow> valid_response target c = None)"
proof (cases "valid_response target c")
  case None
  note F = target_failed_case_eq[OF assms(3) elapsed_ms_nonneg[OF assms(4)]]
  have msgs: "is_safe_message ''Target raised an exception''"
    "is_safe_message ''Target result failed contract validation''" by (simp_all add: is_safe_message_def)
  from None show ?thesis
    using F[OF msgs(1)] F[OF msgs(2)] F[OF target_failure_message_safe] assms(4)
    by (auto simp: run_case_def valid_response_def is_ok_iff Let_def
        split: invocation.splits if_splits sum.splits)
next
  case (Some resp)
  then have inv: "invoke target \<lparr>request_case_id = case_id c, request_input = case_input c\<rparr> = Response resp"
    "validate_target_response resp = Inr resp"
    by (auto simp: valid_response_def is_ok_iff split: invocation.splits if_splits
        dest: validate_target_response_Inr)
  have "sorted (map port_key ordered)" "distinct (map port_key ordered)"
    using assms(1) by (simp_all add: plan_def)
  from evaluated_case_eq(1)[OF assms(1,3) elapsed_ms_nonneg[OF assms(4)]
      contributions_keys(2)[OF this assms(2)], of resp]
  show ?thesis using inv assms(4) Some by (simp add: run_case_def Let_def)
qed

lemma run_case_recorded:
  assumes "plan ordered" "is_case_id (case_id c)" "run_case target ordered started finished c = Inr r"
  shows "recorded ordered r" "result_case_id r = case_id c"
proof -
  from assms(3) obtain latency where l: "elapsed_ms started finished = Inr latency"
    by (auto simp: run_case_def Let_def result_simps)
  note nn = elapsed_ms_nonneg[OF l]
  have failed: "recorded ordered r \<and> result_case_id r = case_id c"
    if "target_failed_case c code message retry latency = Inr r" "is_safe_message message" for code message retry
    using target_failed_case_eq[OF assms(2) nn that(2), of code retry] that(1) by (auto simp: recorded_def)
  have completed: "recorded ordered r \<and> result_case_id r = case_id c"
    if e: "evaluated_case ordered c resp latency = Inr r" for resp
  proof (cases "distinct (map observation_key (concat (map (contribution c
      \<lparr>response = resp, latency_ms = latency\<rparr>) ordered)))")
    case True
    from evaluated_case_eq(1)[OF assms(1,2) nn True] e obtain s where
      "r = \<lparr>result_case_id = case_id c, result_case_status = s, result_target =
        Some \<lparr>response = resp, latency_ms = latency\<rparr>, target_failure = None,
        observations = concat (map (contribution c \<lparr>response = resp, latency_ms = latency\<rparr>) ordered),
        evaluator_failures = map (failure_of c \<lparr>response = resp, latency_ms = latency\<rparr>)
          (filter (\<lambda>e. accepted c \<lparr>response = resp, latency_ms = latency\<rparr> e = None) ordered)\<rparr>"
      by (simp only: sum.inject)
    let ?t = "\<lparr>response = resp, latency_ms = latency\<rparr>"
    from \<open>r = _\<close> have "observations r = concat (map (contribution c ?t) ordered)"
      "evaluator_failures r = map (failure_of c ?t) (filter (\<lambda>e. accepted c ?t e = None) ordered)"
      "result_case_id r = case_id c" by (simp_all del: map_eq_conv)
    then show ?thesis unfolding recorded_def by blast
  next
    case False
    from evaluated_case_eq(2)[OF assms(1,2) nn False] e show ?thesis by simp
  qed
  have msgs: "is_safe_message ''Target raised an exception''"
    "is_safe_message ''Target result failed contract validation''" by (simp_all add: is_safe_message_def)
  have "recorded ordered r \<and> result_case_id r = case_id c"
    using assms(3) l failed[OF _ msgs(1)] failed[OF _ msgs(2)] failed[OF _ target_failure_message_safe] completed
    by (auto simp: run_case_def Let_def split: invocation.splits sum.splits)
  then show "recorded ordered r" "result_case_id r = case_id c" by auto
qed

lemma run_all_cases_total:
  assumes "plan ordered" "\<forall>e \<in> set ordered. no_repeats e" "\<forall>c \<in> set cs. is_case_id (case_id c)"
    "\<forall>i. k \<le> i \<and> i < k + length cs \<longrightarrow> is_ok (elapsed_ms (clock (2 * i)) (clock (2 * i + 1)))"
  shows "\<exists>rs. run_all_cases clock target ordered k cs = Inr rs \<and>
    list_all2 (\<lambda>c r. result_case_id r = case_id c \<and>
      (result_case_status r = TARGET_FAILED \<longleftrightarrow> valid_response target c = None)) cs rs"
  using assms(3,4)
proof (induction cs arbitrary: k)
  case (Cons c cs)
  from Cons.prems(2) obtain l where l: "elapsed_ms (clock (2 * k)) (clock (2 * k + 1)) = Inr l"
    by (auto simp: is_ok_iff)
  from Cons.prems(1) have "is_case_id (case_id c)" by simp
  from run_case_total[OF assms(1,2) this l, of target] obtain r where
    r: "run_case target ordered (clock (2 * k)) (clock (2 * k + 1)) c = Inr r"
    "result_case_id r = case_id c" "result_case_status r = TARGET_FAILED \<longleftrightarrow> valid_response target c = None"
    by (elim exE conjE) (rule that)
  have "\<exists>rs. run_all_cases clock target ordered (Suc k) cs = Inr rs \<and>
    list_all2 (\<lambda>c r. result_case_id r = case_id c \<and>
      (result_case_status r = TARGET_FAILED \<longleftrightarrow> valid_response target c = None)) cs rs"
    by (rule Cons.IH) (use Cons.prems in simp_all)
  then obtain rs where "run_all_cases clock target ordered (Suc k) cs = Inr rs"
    "list_all2 (\<lambda>c r. result_case_id r = case_id c \<and>
      (result_case_status r = TARGET_FAILED \<longleftrightarrow> valid_response target c = None)) cs rs"
    by (elim exE conjE) (rule that)
  with r show ?case by simp
qed simp

lemma run_all_cases_recorded:
  assumes "plan ordered" "run_all_cases clock target ordered k cs = Inr rs"
    "\<forall>c \<in> set cs. is_case_id (case_id c)"
  shows "map result_case_id rs = map case_id cs" "\<forall>r \<in> set rs. recorded ordered r"
  using assms(2,3)
  by (induction cs arbitrary: k rs) (auto simp: result_simps dest: run_case_recorded[OF assms(1)])

section \<open>Summaries\<close>

definition tally :: "rat list \<times> int \<times> int \<Rightarrow> comparison_value \<Rightarrow> rat list \<times> int \<times> int" where
  "tally acc v = (let (values, skips, errs) = acc in case cv_status v of
     CV_SCORED \<Rightarrow> (values @ [the (cv_value v)], skips, errs)
   | CV_SKIPPED \<Rightarrow> (values, skips + 1, errs)
   | CV_ERROR \<Rightarrow> (values, skips, errs + 1))"

text \<open>
  The runner looks an observation up by metric and evaluator, the comparison by metric alone. In
  a recorded case both find the same, because metric names are unique over the plan.
\<close>

lemma summary_step_tally:
  assumes "plan ordered" "recorded ordered r" "e \<in> set ordered" "m \<in> set (port_metric_names e)"
  shows "summary_step e m acc r = tally acc (case_value r m)"
proof (cases "result_case_status r = TARGET_FAILED")
  case True
  then show ?thesis
    by (simp add: summary_step_def tally_def case_value_def error_value_def split: prod.splits)
next
  case False
  with assms(2) obtain c t where
    obs: "observations r = concat (map (contribution c t) ordered)" and
    fs: "evaluator_failures r = map (failure_of c t) (filter (\<lambda>e. accepted c t e = None) ordered)"
    by (auto simp: recorded_def)
  have own: "obs_evaluator ob = port_ref e \<and> accepted c t e \<noteq> None"
    if "ob \<in> set (observations r)" "obs_metric ob = m" for ob
  proof -
    from that(1) obtain e' where e': "e' \<in> set ordered" "ob \<in> set (contribution c t e')"
      by (auto simp: obs)
    note P = contribution_props(1)[OF e'(2)]
    have "e' = e"
      using distinct_concat_unique[of port_metric_names ordered e' e m] assms e'(1) P that(2)
      by (simp add: plan_def)
    with P show ?thesis by simp
  qed
  have failed: "(\<exists>f \<in> set (evaluator_failures r). case failure_evaluator f of None \<Rightarrow> False
      | Some x \<Rightarrow> logical_key x = logical_key (port_ref e)) \<longleftrightarrow> accepted c t e = None"
  proof -
    have inj: "e' = e" if "e' \<in> set ordered" "logical_key (port_ref e') = logical_key (port_ref e)" for e'
      using assms(1,3) that by (auto simp: plan_def port_key_def distinct_map inj_on_def)
    show ?thesis
      unfolding fs using assms(3) inj by (auto simp: failure_of_def)
  qed
  have same: "List.find (\<lambda>ob. obs_metric ob = m \<and> logical_key (obs_evaluator ob) = logical_key (port_ref e))
      (observations r) = List.find (\<lambda>ob. obs_metric ob = m) (observations r)"
    by (rule find_cong[OF refl]) (use own in auto)
  show ?thesis
  proof (cases "accepted c t e = None")
    case True
    then have "List.find (\<lambda>ob. obs_metric ob = m) (observations r) = None"
      using own by (auto simp: find_None_all)
    with False True failed show ?thesis
      by (simp add: summary_step_def tally_def case_value_def error_value_def split: prod.splits)
  next
    case acc: False
    with False failed same show ?thesis
      by (auto simp: summary_step_def tally_def case_value_def error_value_def
          split: prod.splits option.splits metric_observation.splits)
  qed
qed

lemma fold_tally:
  "(\<And>v. v \<in> set vs \<Longrightarrow> cv_status v = CV_SCORED \<Longrightarrow> cv_value v \<noteq> None) \<Longrightarrow>
   foldl tally (xs, skips, errs) vs = (xs @ scores vs,
     skips + int (outcome_count CV_SKIPPED vs), errs + int (outcome_count CV_ERROR vs))"
proof (induction vs arbitrary: xs skips errs)
  case (Cons v vs)
  have "cv_status v = CV_SCORED \<Longrightarrow> \<exists>x. cv_value v = Some x" using Cons.prems by auto
  with Cons.IH Cons.prems show ?case
    by (cases "cv_value v"; cases "cv_status v")
      (auto simp: tally_def scores_def outcome_count_def map_filter_simps)
qed (simp add: scores_def outcome_count_def map_filter_simps)

lemma outcome_counts_total:
  "length vs = outcome_count CV_SCORED vs + outcome_count CV_SKIPPED vs + outcome_count CV_ERROR vs"
  by (induction vs) (auto simp: outcome_count_def intro: comparison_value_status.exhaust)

lemma validate_metric_summary_Inr: "validate_metric_summary m = Inr m' \<Longrightarrow> m' = m"
  by (auto simp: validate_metric_summary_def result_simps)

text \<open>A summary of recorded cases states what the comparison recomputes from them.\<close>

lemma summarize_metric_aggregate:
  assumes "plan ordered" "\<forall>r \<in> set rs. recorded ordered r" "e \<in> set ordered"
    "m \<in> set (port_metric_names e)" "summarize_metric rs e m = Inr summary"
  shows "summary_metric summary = m" "summary_evaluator summary = port_ref e"
    "\<exists>g. aggregate_values (map (\<lambda>r. case_value r m) rs) = Inr g \<and> aggregate_from_summary summary = Inr g"
proof -
  let ?vs = "map (\<lambda>r. case_value r m) rs"
  have sc: "v \<in> set ?vs \<Longrightarrow> cv_status v = CV_SCORED \<Longrightarrow> cv_value v \<noteq> None" for v
    by (auto dest: case_value_scored)
  have "foldl (summary_step e m) acc rs = foldl tally acc ?vs" for acc
    using assms(2) by (induction rs arbitrary: acc) (simp_all add: summary_step_tally[OF assms(1) _ assms(3,4)])
  then have "foldl (summary_step e m) ([], 0, 0) rs =
      (scores ?vs, int (outcome_count CV_SKIPPED ?vs), int (outcome_count CV_ERROR ?vs))"
    using fold_tally[of ?vs "[]" 0 0] sc by simp
  with assms(5) obtain mean where mean: "fmean (scores ?vs) = Inr mean" and
    s: "validate_metric_summary \<lparr>summary_metric = m, summary_evaluator = port_ref e,
      attempted = int (length rs), scored = int (length (scores ?vs)),
      skipped = int (outcome_count CV_SKIPPED ?vs), errors = int (outcome_count CV_ERROR ?vs),
      summary_mean = mean\<rparr> = Inr summary"
    by (auto simp: summarize_metric_def result_simps)
  then have summary: "summary = \<lparr>summary_metric = m, summary_evaluator = port_ref e,
      attempted = int (length rs), scored = int (length (scores ?vs)),
      skipped = int (outcome_count CV_SKIPPED ?vs), errors = int (outcome_count CV_ERROR ?vs),
      summary_mean = mean\<rparr>"
    by (blast dest: validate_metric_summary_Inr)
  then show "summary_metric summary = m" "summary_evaluator summary = port_ref e" by simp_all
  let ?g = "\<lparr>agg_attempted = int (length rs), agg_scored = int (length (scores ?vs)),
      agg_skipped = int (outcome_count CV_SKIPPED ?vs), agg_errors = int (outcome_count CV_ERROR ?vs),
      agg_mean = mean\<rparr>"
  have "rs \<noteq> []" "int (length rs) = int (length (scores ?vs)) + int (outcome_count CV_SKIPPED ?vs) +
      int (outcome_count CV_ERROR ?vs)"
    using s by (simp_all add: validate_metric_summary_def result_simps)
  then have pos: "0 < int (length (scores ?vs)) + int (outcome_count CV_SKIPPED ?vs) +
      int (outcome_count CV_ERROR ?vs)"
    by (metis length_greater_0_conv of_nat_0_less_iff)
  have valid: "validate_metric_aggregate ?g = Inr ?g"
    using s pos by (simp add: validate_metric_summary_def validate_metric_aggregate_def result_simps)
  have "aggregate_values ?vs = Inr ?g"
    using mean valid by (simp add: aggregate_values_def scores_def[symmetric] outcome_count_def[symmetric] Let_def)
  moreover have "aggregate_from_summary summary = Inr ?g"
    using valid by (simp add: aggregate_from_summary_def summary)
  ultimately show "\<exists>g. aggregate_values ?vs = Inr g \<and> aggregate_from_summary summary = Inr g" by blast
qed

lemma evidence_all:
  assumes "length (run_cases run) = length (dataset_cases dataset)"
  shows "evidence dataset run m None = map (\<lambda>r. case_value r m) (run_cases run)"
proof -
  have "map (\<lambda>(c, r). case_value r m) (filter (\<lambda>(c, r). in_slice None c) (zip cs rs)) =
      map (\<lambda>r. case_value r m) rs" if "length cs = length rs" for cs rs
    using that by (induction cs rs rule: list_induct2) (simp_all add: in_slice_def)
  from this[of "dataset_cases dataset" "run_cases run"] assms show ?thesis by (simp add: evidence_def)
qed

text \<open>What \<open>create\<close> keeps of the runner's results.\<close>

lemma created_run:
  assumes "create_run jcs x = Inr r"
  shows "run_cases r = sort_key result_case_id (run_cases x)"
    "run_metrics r = sort_key metric_key (run_metrics x)"
    "run_evaluators r = sort_key logical_key (run_evaluators x)"
    "run_id r = run_id x" "run_dataset r = run_dataset x" "run_target r = run_target x"
    "run_mode r = run_mode x" "run_suite r = run_suite x" "validate_run jcs r = Inr r"
proof -
  from assms obtain e where "check_run_result ((arrange_run x)\<lparr>result_digest := e\<rparr>) = Inr r"
    by (auto simp: run_model.create_Inr_iff)
  from check_run_result_Inr[OF this] have r: "r = (arrange_run x)\<lparr>result_digest := e\<rparr>" .
  then show "run_cases r = sort_key result_case_id (run_cases x)"
    "run_metrics r = sort_key metric_key (run_metrics x)"
    "run_evaluators r = sort_key logical_key (run_evaluators x)"
    "run_id r = run_id x" "run_dataset r = run_dataset x" "run_target r = run_target x"
    "run_mode r = run_mode x" "run_suite r = run_suite x"
    by (simp_all add: arrange_run_def Let_def)
  show "validate_run jcs r = Inr r" using run_model.create_stable[OF assms] .
qed

lemma valid_dataset_sorted:
  assumes "validate_dataset jcs dataset = Inr dataset"
  shows "sorted (map case_id (dataset_cases dataset))"
proof -
  from assms have "dataset\<lparr>dataset_cases := sort_key case_id (dataset_cases dataset)\<rparr> = dataset"
    by (auto simp: dataset_model.validate_Inr_iff normalize_dataset_def normalize_cases_Inr_iff result_simps)
  from arg_cong[OF this, of dataset_cases] have "sort_key case_id (dataset_cases dataset) = dataset_cases dataset"
    by simp
  then show ?thesis by (metis sorted_sort_key)
qed

lemma runner_run_Inr:
  assumes "runner_run jcs clock rid dataset target evaluators mode suite = Inr r"
    "validate_dataset jcs dataset = Inr dataset" "\<forall>c \<in> set (dataset_cases dataset). is_case_id (case_id c)"
  obtains ordered where "validate_plan target evaluators = Inr ordered" "plan ordered"
    "run_all_cases clock target ordered 0 (dataset_cases dataset) = Inr (run_cases r)"
    "map result_case_id (run_cases r) = map case_id (dataset_cases dataset)"
    "\<forall>c \<in> set (run_cases r). recorded ordered c"
    "run_dataset r = dataset_ref dataset" "run_target r = target_port_ref target"
    "run_mode r = mode" "run_suite r = map_option suite_ref suite" "run_id r = rid"
    "run_evaluators r = map port_ref ordered" "validate_run jcs r = Inr r"
    "\<And>m. m \<in> set (run_metrics r) \<Longrightarrow> \<exists>e \<in> set ordered. summary_metric m \<in> set (port_metric_names e) \<and>
       summarize_metric (run_cases r) e (summary_metric m) = Inr m"
proof -
  from assms(1) obtain ordered cases summaries where
    plan: "validate_plan target evaluators = Inr ordered" and
    cases: "run_all_cases clock target ordered 0 (dataset_cases dataset) = Inr cases" and
    summaries: "summarize cases ordered = Inr summaries" and
    created: "create_run jcs \<lparr>run_id = rid, run_status = RUN_COMPLETED, run_mode = mode,
      run_suite = map_option suite_ref suite, run_dataset = dataset_ref dataset,
      run_target = target_port_ref target, run_evaluators = map port_ref ordered, run_cases = cases,
      run_metrics = summaries, result_digest = []\<rparr> = Inr r"
    unfolding runner_run_def rbind_Inr_iff by blast
  note C = created_run[OF created, simplified]
  note P = validate_plan_Inr(1)[OF plan]
  note rec = run_all_cases_recorded[OF P cases assms(3)]
  have same: "run_cases r = cases"
    unfolding C(1) by (intro sort_key_sorted_id) (simp add: rec(1) valid_dataset_sorted[OF assms(2)])
  have evs: "run_evaluators r = map port_ref ordered"
    unfolding C(3) using P by (intro sort_key_sorted_id) (simp add: plan_def port_key_def[abs_def] comp_def)
  have sums: "\<exists>e \<in> set ordered. summary_metric m \<in> set (port_metric_names e) \<and>
       summarize_metric (run_cases r) e (summary_metric m) = Inr m" if "m \<in> set (run_metrics r)" for m
  proof -
    from that have "m \<in> set summaries" by (simp add: C(2))
    from rmap_Inr_mem[OF summaries[unfolded summarize_def] this] obtain e k where
      ek: "e \<in> set ordered" "k \<in> set (port_metric_names e)" "summarize_metric cases e k = Inr m" by auto
    from summarize_metric_aggregate(1)[OF P rec(2) ek] ek same show ?thesis by auto
  qed
  show ?thesis
    by (rule that[OF plan P]) (use cases rec same evs sums C in simp_all)
qed

end
