(* ===== verification/RunnerProperties.thy ===== *)
theory RunnerProperties
  imports RunnerFacts ReleaseExample
begin

text \<open>
  The properties of the runner: it records every case whatever its ports do, it contains the
  failure of an evaluator, its summaries pass the recomputation of the comparison, and the one
  contract violation it does not contain.
\<close>

section \<open>A concrete run\<close>

definition demo_port :: "string \<Rightarrow> target_port" where
  "demo_port name = \<lparr>target_port_ref = demo_ref TARGET name, invoke = (\<lambda>_. Response (response demo_target))\<rparr>"

definition demo_evaluator_port :: "nat \<Rightarrow> evaluator_port" where
  "demo_evaluator_port n = \<lparr>port_ref = demo_evaluator, port_metric_names = [''accuracy''],
     evaluate = (\<lambda>_ _. Observed (replicate n (ScoredObservation ''accuracy'' demo_evaluator 1 ''match'')))\<rparr>"

definition demo_clock :: "nat \<Rightarrow> rat option" where "demo_clock = (\<lambda>_. Some 0)"

lemma demo_latency: "elapsed_ms (demo_clock i) (demo_clock j) = Inr 0"
  by (simp add: elapsed_ms_def demo_clock_def round6_def round_half_even_of_int[of 0, simplified])

lemma demo_plan: "validate_plan (demo_port t) [demo_evaluator_port n] = Inr [demo_evaluator_port n]"
  by (simp add: validate_plan_def demo_port_def demo_evaluator_port_def validate_evaluator_port_def
      unresolved_def demo_ref_def demo_evaluator_def)

lemma demo_observation: "validate_observation (ScoredObservation ''accuracy'' demo_evaluator 1 ''match'') =
    Inr (ScoredObservation ''accuracy'' demo_evaluator 1 ''match'')"
  by (simp add: validate_observation_def demo_names demo_evaluator_def demo_ref_def is_safe_code_def
      matches_def is_lower_def less_eq_char_def)

lemma demo_response: "validate_target_response (response demo_target) = Inr (response demo_target)"
  by (simp add: validate_target_response_def demo_target_def)

lemma demo_run_case:
  "run_case (demo_port t) [demo_evaluator_port n] (demo_clock i) (demo_clock j) demo_case =
    (if n = 1 then Inr demo_result
     else if n = 0 then Inr (demo_result\<lparr>result_case_status := COMPLETED_WITH_ERRORS, observations := [],
       evaluator_failures := [failure_of demo_case demo_target (demo_evaluator_port 0)]\<rparr>)
     else Inl (ValidationError ''case observations must have unique evaluator metrics''))"
proof -
  let ?o = "ScoredObservation ''accuracy'' demo_evaluator 1 ''match''"
  have t: "\<lparr>response = response demo_target, latency_ms = 0\<rparr> = demo_target" by (simp add: demo_target_def)
  have pl: "plan [demo_evaluator_port n]" using validate_plan_Inr(1)[OF demo_plan] .
  have "rmap validate_observation (replicate n ?o) = Inr (replicate n ?o)"
    by (induction n) (simp_all add: demo_observation)
  then have acc: "accepted demo_case demo_target (demo_evaluator_port n) =
      (if n = 0 then None else Some (replicate n ?o))"
    by (simp add: accepted_def demo_evaluator_port_def accept_observations_def validate_observations_def
        sort_key_id_if_sorted sorted_replicate)
  have case_ok: "is_case_id (case_id demo_case)" by (simp add: demo_names)
  have "run_case (demo_port t) [demo_evaluator_port n] (demo_clock i) (demo_clock j) demo_case =
      evaluated_case [demo_evaluator_port n] demo_case (response demo_target) 0"
    by (simp add: run_case_def demo_latency demo_port_def demo_response)
  also have "\<dots> = (if n = 1 then Inr demo_result
     else if n = 0 then Inr (demo_result\<lparr>result_case_status := COMPLETED_WITH_ERRORS, observations := [],
       evaluator_failures := [failure_of demo_case demo_target (demo_evaluator_port 0)]\<rparr>)
     else Inl (ValidationError ''case observations must have unique evaluator metrics''))"
  proof -
    consider "n = 0" | "n = 1" | "2 \<le> n" by linarith
    then show ?thesis
    proof cases
      case 3
      then have "\<not> distinct (map observation_key (replicate n ?o))"
        by (cases n) (auto simp: Suc_le_eq gr0_conv_Suc)
      with evaluated_case_eq(2)[OF pl case_ok, of 0 "response demo_target"] acc 3 show ?thesis
        by (simp add: t contribution_def)
    next
      case 2
      then show ?thesis using evaluated_case_eq(1)[OF pl case_ok, of 0 "response demo_target"] acc
        by (simp add: t contribution_def demo_result_def)
    next
      case 1
      then show ?thesis using evaluated_case_eq(1)[OF pl case_ok, of 0 "response demo_target"] acc
        by (simp add: t contribution_def demo_result_def)
    qed
  qed
  finally show ?thesis .
qed

lemma demo_summary: "summarize [demo_result] [demo_evaluator_port 1] =
    Inr [\<lparr>summary_metric = ''accuracy'', summary_evaluator = demo_evaluator,
       attempted = 1, scored = 1, skipped = 0, errors = 0, summary_mean = Some 1\<rparr>]"
  by (simp add: summarize_def summarize_metric_def summary_step_def demo_result_def
      demo_evaluator_port_def demo_mean validate_metric_summary_def demo_names demo_evaluator_def demo_ref_def)

lemma demo_port_fields [simp]:
  "target_port_ref (demo_port t) = demo_ref TARGET t" "port_ref (demo_evaluator_port n) = demo_evaluator"
  "run_evaluators (demo_run i t) = [demo_evaluator]" "run_status (demo_run i t) = RUN_COMPLETED"
  by (simp_all add: demo_port_def demo_evaluator_port_def demo_run_def)

lemma demo_run_created:
  assumes "is_run_id i"
  shows "create_run demo_jcs ((demo_run i t)\<lparr>result_digest := []\<rparr>) = Inr (demo_run i t)"
proof -
  have arranged: "arrange_run ((demo_run i t)\<lparr>result_digest := []\<rparr>) = (demo_run i t)\<lparr>result_digest := []\<rparr>"
    by (simp add: arrange_run_def expected_run_status_def run_has_failures_def demo_result_def demo_run_def)
  have checked: "check_run_result (demo_run i t) = Inr (demo_run i t)"
    using assms
    by (simp add: check_run_result_def expected_run_status_def run_has_failures_def demo_result_def
        unresolved_def dataset_ref_def demo_dataset_def)
      (simp add: demo_ref_def demo_evaluator_def)
  have sealed: "(demo_run i t)\<lparr>result_digest := demo_digest\<rparr> = demo_run i t" by (simp add: demo_run_def)
  show ?thesis
    unfolding create_run_def arranged
    by (simp add: calculate_run_digest_def demo_sha256 validate_run_def sealed checked)
qed

lemma demo_runs:
  assumes "is_run_id i"
  shows "runner_run demo_jcs demo_clock i demo_dataset (demo_port t) [demo_evaluator_port 1]
      OFFLINE_DETERMINISTIC_FIXTURE None = Inr (demo_run i t)"
proof -
  have "\<lparr>run_id = i, run_status = RUN_COMPLETED, run_mode = OFFLINE_DETERMINISTIC_FIXTURE, run_suite = None,
      run_dataset = dataset_ref demo_dataset, run_target = demo_ref TARGET t,
      run_evaluators = [demo_evaluator], run_cases = [demo_result],
      run_metrics = [\<lparr>summary_metric = ''accuracy'', summary_evaluator = demo_evaluator,
       attempted = 1, scored = 1, skipped = 0, errors = 0, summary_mean = Some 1\<rparr>],
      result_digest = []\<rparr> = (demo_run i t)\<lparr>result_digest := []\<rparr>"
    by (simp add: demo_run_def demo_result_def)
  from demo_run_created[OF assms, of t, folded this] show ?thesis
    by (simp add: runner_run_def demo_plan demo_run_case demo_summary[unfolded One_nat_def])
qed

lemma demo_ids: "\<forall>c \<in> set (dataset_cases demo_dataset). is_case_id (case_id c)"
  by (simp add: demo_names)

section \<open>Robustness\<close>


lemma demo_no_repeats: "n \<le> 1 \<Longrightarrow> no_repeats (demo_evaluator_port n)"
  by (cases n) (simp_all add: no_repeats_def demo_evaluator_port_def)


section \<open>Containment\<close>

text \<open>
  C14. Evaluators are isolated from each other: in every result of a run whose target answered,
  each evaluator either covers exactly its declared metrics, or is recorded as failed and
  contributes nothing.
\<close>

theorem evaluators_isolated:
  assumes "validate_dataset jcs dataset = Inr dataset"
    "\<forall>c \<in> set (dataset_cases dataset). is_case_id (case_id c)"
    "runner_run jcs clock rid dataset target evaluators mode suite = Inr run"
    "r \<in> set (run_cases run)" "result_case_status r \<noteq> TARGET_FAILED" "e \<in> set evaluators"
  shows "let own = {obs_metric ob | ob. ob \<in> set (observations r) \<and> obs_evaluator ob = port_ref e} in
    if \<exists>f \<in> set (evaluator_failures r). failure_evaluator f = Some (port_ref e)
    then own = {} else own = set (port_metric_names e)"
proof -
  from runner_run_Inr[OF assms(3,1,2)] obtain ordered where
    plan: "validate_plan target evaluators = Inr ordered" "plan ordered" and
    rec: "\<forall>c \<in> set (run_cases run). recorded ordered c" by metis
  have e: "e \<in> set ordered" using validate_plan_Inr(2)[OF plan(1)] assms(6) by simp
  from rec assms(4,5) obtain c t where
    obs: "observations r = concat (map (contribution c t) ordered)" and
    fs: "evaluator_failures r = map (failure_of c t) (filter (\<lambda>e. accepted c t e = None) ordered)"
    by (auto simp: recorded_def)
  have inj: "e' = e" if "e' \<in> set ordered" "port_ref e' = port_ref e" for e'
    using plan(2) e that by (auto simp: plan_def port_key_def distinct_map inj_on_def)
  have own: "ob \<in> set (observations r) \<and> obs_evaluator ob = port_ref e \<longleftrightarrow> ob \<in> set (contribution c t e)" for ob
    using contribution_props(1) inj e unfolding obs by fastforce
  have failed: "(\<exists>f \<in> set (evaluator_failures r). failure_evaluator f = Some (port_ref e)) \<longleftrightarrow>
      accepted c t e = None"
    unfolding fs using e inj by (auto simp: failure_of_def)
  have sets: "{obs_metric ob | ob. ob \<in> set (contribution c t e)} = obs_metric ` set (contribution c t e)" by auto
  show ?thesis
    unfolding Let_def own failed sets using contribution_props(4)[of c t e]
    by (auto simp: contribution_def)
qed

theorem evaluators_isolated_witness:
  "{obs_metric ob | ob. ob \<in> set (observations demo_result) \<and> obs_evaluator ob = demo_evaluator} = {''accuracy''}"
  using evaluators_isolated[OF demo_dataset_valid demo_ids demo_runs[OF demo_names(4), of t],
      of demo_result "demo_evaluator_port 1"]
  by (simp add: demo_result_def demo_evaluator_port_def)

text \<open>
  C15. Composition of runner and comparison: the summaries of runs produced by the runner always
  match what the comparison recomputes from the case evidence, so a comparison never rejects
  them as tampered.
\<close>

theorem runner_evidence_accepted:
  assumes "validate_dataset jcs dataset = Inr dataset"
    "\<forall>c \<in> set (dataset_cases dataset). is_case_id (case_id c)"
    "runner_run jcs clock rid dataset target evaluators mode suite = Inr b"
    "runner_run jcs clock' rid' dataset target' evaluators' mode' suite' = Inr c"
    "metric_references b = Inr bms" "metric_references c = Inr cms" "fst ` set bms = fst ` set cms"
    "rmap (compare_metric (dataset_cases dataset) (case_index_of b) (case_index_of c) bms cms)
       (sort (map fst bms)) = Inr nested"
  shows "is_ok (validate_stored_summaries b (aggregate_index (concat nested)) BASELINE) \<and>
    is_ok (validate_stored_summaries c (aggregate_index (concat nested)) CANDIDATE)"
proof -
  have same: "same_cases dataset b" "same_cases dataset c"
    using runner_run_Inr[OF assms(3,1,2)] runner_run_Inr[OF assms(4,1,2)] valid_dataset_ids[OF assms(1)]
    unfolding same_cases_def by metis+
  have agree: "\<exists>g. aggregate_values (evidence dataset run (summary_metric m) None) = Inr g \<and>
      aggregate_from_summary m = Inr g"
    if r: "runner_run jcs clk i dataset tg evs md su = Inr run" and m: "m \<in> set (run_metrics run)"
      and s: "same_cases dataset run" for clk i tg evs md su run m
  proof -
    from runner_run_Inr[OF r assms(1,2)] m obtain ordered e where
      "plan ordered" "\<forall>c \<in> set (run_cases run). recorded ordered c" "e \<in> set ordered"
      "summary_metric m \<in> set (port_metric_names e)"
      "summarize_metric (run_cases run) e (summary_metric m) = Inr m" by metis
    from summarize_metric_aggregate(3)[OF this] evidence_all[OF same_cases_length[OF s]]
    show ?thesis by simp
  qed
  have found: "\<exists>a. map_of (aggregate_index (concat nested)) (k, None) = Some a \<and>
      aggregate_values (evidence dataset b k None) = Inr (ac_baseline a) \<and>
      aggregate_values (evidence dataset c k None) = Inr (ac_candidate a)"
    if "k \<in> fst ` set bms" for k
  proof -
    from overall_aggregate[OF same assms(8) that] obtain a where
      a: "map_of (aggregate_index (concat nested)) (k, None) = Some a" by blast
    from aggregate_index_Some[OF a] have mem: "a \<in> set (concat nested)" "ac_metric a = k" "ac_slice a = None"
      by auto
    from compared_aggregate[OF assms(8) mem(1) refl refl same] obtain ev where
      "compare_aggregate (dataset_cases dataset) (case_index_of b) (case_index_of c) (ac_metric a) ev (ac_slice a)
        = Inr a" by metis
    from compare_aggregate_Inr(4,5)[OF same this] a mem show ?thesis by auto
  qed
  have keys: "summary_metric m \<in> fst ` set bms" if "m \<in> set (run_metrics b)" for m
    using metric_references_Inr(1)[OF assms(5)] that by force
  have keys': "summary_metric m \<in> fst ` set bms" if "m \<in> set (run_metrics c)" for m
    using metric_references_Inr(1)[OF assms(6)] that assms(7) by force
  have "\<exists>us. validate_stored_summaries b (aggregate_index (concat nested)) BASELINE = Inr us"
    unfolding validate_stored_summaries_def
    by (rule rmap_total_ex) (use agree[OF assms(3) _ same(1)] found[OF keys] in fastforce)
  moreover have "\<exists>us. validate_stored_summaries c (aggregate_index (concat nested)) CANDIDATE = Inr us"
    unfolding validate_stored_summaries_def
    by (rule rmap_total_ex) (use agree[OF assms(4) _ same(2)] found[OF keys'] in fastforce)
  ultimately show ?thesis by (auto simp: is_ok_iff)
qed

theorem runner_evidence_accepted_witness:
  "is_ok (validate_stored_summaries (demo_run ''b1'' ''old'') (aggregate_index [demo_aggregate]) BASELINE)"
proof -
  have "rmap (compare_metric (dataset_cases demo_dataset) (case_index_of (demo_run ''b1'' ''old''))
      (case_index_of (demo_run ''c1'' ''new'')) [(''accuracy'', demo_evaluator)] [(''accuracy'', demo_evaluator)])
      (sort (map fst [(''accuracy'', demo_evaluator)])) = Inr [[demo_aggregate]]"
    by (simp add: demo_index demo_aggregated)
  from runner_evidence_accepted[OF demo_dataset_valid demo_ids demo_runs[OF demo_names(4)]
      demo_runs[OF demo_names(5)] demo_references demo_references refl this]
  show ?thesis by simp
qed

section \<open>The gap in the containment\<close>



end
