(* ===== verification/Jobs.thy ===== *)
theory Jobs
  imports Decisions
begin

text \<open>
  Durable jobs (\<open>domain/control_plane.py\<close>): the job record and its lifecycle state machine,
  execution contracts, worker payloads, attempt records and trace headers. Timestamp fields are
  instants: the validators normalise every timestamp to UTC. A nested model is an instance of its
  class, so its own validator has accepted it before the outer one runs.
\<close>

section \<open>Identifiers\<close>

definition is_stable_id :: "string \<Rightarrow> bool" where
  "is_stable_id s \<longleftrightarrow> matches is_alnum (\<lambda>c. is_alnum c \<or> c \<in> set ''._:-'') 128 s"

definition is_lease_token :: "string \<Rightarrow> bool" where
  "is_lease_token s \<longleftrightarrow>
     32 \<le> length s \<and> length s \<le> 128 \<and> list_all (\<lambda>c. is_alnum c \<or> c \<in> set ''_-'') s"

definition is_scenario_name :: "string \<Rightarrow> bool" where
  "is_scenario_name s \<longleftrightarrow> matches is_alnum (\<lambda>c. is_alnum c \<or> c \<in> set ''._:-'') 64 s"

definition validate_traceparent :: "string \<Rightarrow> string res" where
  "validate_traceparent v =
     (let trace_id = take 32 (drop 3 v); parent_id = take 16 (drop 36 v);
          trace_flags = take 2 (drop 53 v)
      in rbind (checks
     [(length v \<noteq> 55, ValueError ''traceparent is invalid''),
      (take 2 v \<noteq> ''00'' \<or> v ! 2 \<noteq> CHR ''-'' \<or> v ! 35 \<noteq> CHR ''-'' \<or> v ! 52 \<noteq> CHR ''-'',
       ValueError ''traceparent is invalid''),
      (\<not> list_all is_hex (trace_id @ parent_id @ trace_flags)
         \<or> trace_id = replicate 32 CHR ''0'' \<or> parent_id = replicate 16 CHR ''0'',
       ValueError ''traceparent is invalid'')]) (\<lambda>_. Inr v))"

section \<open>The job lifecycle\<close>

datatype job_kind = RUN_JOB | COMPARISON_JOB

datatype job_status = QUEUED | RUNNING | CANCEL_REQUESTED | SUCCEEDED | FAILED | CANCELED

fun allowed_transitions :: "job_status \<Rightarrow> job_status list" where
  "allowed_transitions QUEUED = [RUNNING, CANCELED]"
| "allowed_transitions RUNNING = [QUEUED, CANCEL_REQUESTED, SUCCEEDED, FAILED]"
| "allowed_transitions CANCEL_REQUESTED = [CANCELED]"
| "allowed_transitions SUCCEEDED = []"
| "allowed_transitions FAILED = []"
| "allowed_transitions CANCELED = []"

record job_record =
  job_id :: string
  job_kind :: job_kind
  job_status :: job_status
  idempotency_key :: string
  request_digest :: string
  resource_id :: string
  attempt_count :: int
  max_attempts :: int
  available_at :: instant
  job_error_code :: "string option"
  job_created_at :: instant
  job_updated_at :: instant
  traceparent :: "string option"

definition job_fields_ok :: "job_record \<Rightarrow> bool" where
  "job_fields_ok j \<longleftrightarrow>
     is_stable_id (job_id j) \<and> is_stable_id (idempotency_key j) \<and>
     is_sha256_digest (request_digest j) \<and> is_stable_id (resource_id j) \<and>
     0 \<le> attempt_count j \<and> 1 \<le> max_attempts j \<and> max_attempts j \<le> 10 \<and>
     (case job_error_code j of None \<Rightarrow> True | Some c \<Rightarrow> is_safe_code c) \<and>
     (case traceparent j of None \<Rightarrow> True | Some t \<Rightarrow> is_ok (validate_traceparent t))"

definition validate_state :: "job_record \<Rightarrow> unit res" where
  "validate_state j = checks
     [(job_updated_at j < job_created_at j,
       ValidationError ''job update time cannot precede creation time''),
      (available_at j < job_created_at j,
       ValidationError ''job availability cannot precede creation time''),
      (attempt_count j > max_attempts j,
       ValidationError ''job attempts cannot exceed the configured maximum''),
      (job_status j = QUEUED \<and> attempt_count j \<ge> max_attempts j,
       ValidationError ''queued jobs must have an attempt remaining''),
      (job_status j \<in> {RUNNING, CANCEL_REQUESTED, SUCCEEDED, FAILED} \<and> attempt_count j < 1,
       ValidationError ''started or completed jobs require an attempt''),
      ((job_status j = FAILED) \<noteq> (job_error_code j \<noteq> None),
       ValidationError ''only failed jobs contain an error code'')]"

definition validate_job_record :: "job_record \<Rightarrow> job_record res" where
  "validate_job_record j =
     rbind (checks [(\<not> job_fields_ok j, ValidationError ''job fields'')]) (\<lambda>_.
     rbind (validate_state j) (\<lambda>_. Inr j))"

abbreviation aware_message :: string where
  "aware_message \<equiv> ''control-plane timestamps must include a timezone''"

definition optional_utc :: "datetime option \<Rightarrow> instant option res" where
  "optional_utc v = (case v of None \<Rightarrow> Inr None
     | Some d \<Rightarrow> rbind (utc aware_message d) (\<lambda>t. Inr (Some t)))"

text \<open>The attempt count and availability of the record after a change of status.\<close>

definition next_schedule ::
    "job_record \<Rightarrow> job_status \<Rightarrow> instant \<Rightarrow> datetime option \<Rightarrow> (int \<times> instant) res" where
  "next_schedule j status normalized_at available =
     (if job_status j = QUEUED \<and> status = RUNNING then
        rbind (checks
          [(normalized_at < available_at j, JobTransitionError ''job is not available to claim''),
           (attempt_count j \<ge> max_attempts j, JobTransitionError ''job has no attempt remaining''),
           (available \<noteq> None, JobTransitionError ''claim cannot reschedule job availability'')])
          (\<lambda>_. Inr (attempt_count j + 1, available_at j))
      else if job_status j = RUNNING \<and> status = QUEUED then
        (case available of
           None \<Rightarrow> Inl (JobTransitionError ''retry requires a future availability time'')
         | Some a \<Rightarrow> rbind (utc aware_message a) (\<lambda>next_available_at. rbind (checks
             [(next_available_at < normalized_at,
               JobTransitionError ''retry availability cannot precede transition''),
              (attempt_count j \<ge> max_attempts j,
               JobTransitionError ''job has no retry attempt remaining'')])
             (\<lambda>_. Inr (attempt_count j, next_available_at))))
      else if available \<noteq> None then
        Inl (JobTransitionError ''only retry transitions set job availability'')
      else Inr (attempt_count j, available_at j))"

definition transition_to ::
    "job_record \<Rightarrow> job_status \<Rightarrow> datetime \<Rightarrow> string option \<Rightarrow> datetime option \<Rightarrow> job_record res" where
  "transition_to j status time error_code available =
     rbind (utc aware_message time) (\<lambda>normalized_at.
     if status = job_status j then
       rbind (optional_utc available) (\<lambda>normalized_available_at.
       rbind (checks
         [(error_code \<noteq> job_error_code j \<or>
             normalized_available_at \<notin> {None, Some (available_at j)},
           JobTransitionError ''job retry does not match the stored state'')]) (\<lambda>_. Inr j))
     else
       rbind (checks
         [(status \<notin> set (allowed_transitions (job_status j)),
           JobTransitionError ''job lifecycle transition is not allowed''),
          (normalized_at < job_updated_at j,
           JobTransitionError ''job transition time cannot move backwards''),
          ((status = FAILED) \<noteq> (error_code \<noteq> None),
           JobTransitionError ''failed transitions require one safe error code'')]) (\<lambda>_.
       rbind (next_schedule j status normalized_at available)
         (\<lambda>(next_attempt_count, next_available_at).
       validate_job_record (j\<lparr>job_status := status, attempt_count := next_attempt_count,
         available_at := next_available_at, job_error_code := error_code,
         job_updated_at := normalized_at\<rparr>))))"

definition request_cancellation :: "job_record \<Rightarrow> datetime \<Rightarrow> job_record res" where
  "request_cancellation j time =
     (if job_status j = QUEUED then transition_to j CANCELED time None None
      else if job_status j = RUNNING then transition_to j CANCEL_REQUESTED time None None
      else Inr j)"

section \<open>Execution contracts\<close>

record execution_contract =
  contract_adapter :: string
  contract_evaluator_names :: "string list"
  contract_target :: artifact_ref
  contract_evaluators :: "artifact_ref list"
  contract_mode :: execution_mode

definition validate_contract :: "execution_contract \<Rightarrow> execution_contract res" where
  "validate_contract c =
     (let evaluator_keys = map logical_key (contract_evaluators c) in rbind (checks
     [(\<not> is_stable_id (contract_adapter c) \<or> \<not> list_all is_stable_id (contract_evaluator_names c),
       ValidationError ''contract fields''),
      (contract_evaluator_names c = [], ValidationError ''execution contract requires an evaluator''),
      (has_duplicates (contract_evaluator_names c),
       ValidationError ''execution contract evaluator names must be unique''),
      (unresolved TARGET (contract_target c),
       ValidationError ''execution contract target must be resolved''),
      (length (contract_evaluators c) \<noteq> length (contract_evaluator_names c),
       ValidationError ''execution contract evaluator count does not match''),
      (\<exists>e \<in> set (contract_evaluators c). unresolved EVALUATOR e,
       ValidationError ''execution contract evaluators must be resolved''),
      (has_duplicates evaluator_keys,
       ValidationError ''execution contract evaluators must be unique''),
      (out_of_order evaluator_keys,
       ValidationError ''execution contract evaluators must be ordered'')]) (\<lambda>_. Inr c))"

record suite_execution_contract =
  promised_execution :: suite_execution_settings
  promised_evaluators :: "suite_evaluator list"

definition validate_suite_contract ::
    "suite_execution_contract \<Rightarrow> suite_execution_contract res" where
  "validate_suite_contract c =
     (let executor_names = map executor_name (promised_evaluators c);
          evaluator_keys = map evaluator_key (promised_evaluators c);
          metrics = concat (map evaluator_metrics (promised_evaluators c))
      in rbind (checks
     [(promised_evaluators c = [] \<or> 32 < length (promised_evaluators c), ValidationError ''evaluators''),
      (has_duplicates executor_names,
       ValidationError ''suite execution contract names must be unique''),
      (has_duplicates evaluator_keys,
       ValidationError ''suite execution contract evaluators must be unique''),
      (out_of_order evaluator_keys,
       ValidationError ''suite execution contract evaluators must be ordered''),
      (has_duplicates metrics,
       ValidationError ''suite execution contract metrics must be unique''),
      (32 < length metrics,
       ValidationError ''suite execution contract has too many metrics'')]) (\<lambda>_. Inr c))"

section \<open>Worker payloads\<close>

record scenario_override =
  override_case_id :: string
  override_scenario :: string

text \<open>\<open>schema_version\<close> is a literal with two values per kind; \<open>True\<close> is the suite-pinned v2.\<close>

record run_job_payload =
  rp_v2 :: bool
  rp_suite :: "evaluation_suite option"
  rp_dataset :: artifact_ref
  rp_target_name :: string
  rp_target_revision :: int
  rp_adapter :: string
  rp_evaluator_names :: "string list"
  rp_overrides :: "scenario_override list"
  rp_contract :: execution_contract

definition validate_run_payload :: "run_job_payload \<Rightarrow> run_job_payload res" where
  "validate_run_payload p =
     (let case_ids = map override_case_id (rp_overrides p); contract = rp_contract p in rbind (checks
     [(\<not> is_artifact_name (rp_target_name p) \<or> \<not> 0 < rp_target_revision p \<or>
         \<not> is_stable_id (rp_adapter p) \<or> \<not> list_all is_stable_id (rp_evaluator_names p) \<or>
         \<not> list_all is_case_id case_ids \<or>
         \<not> list_all (is_scenario_name \<circ> override_scenario) (rp_overrides p),
       ValidationError ''payload fields''),
      (rp_v2 p \<noteq> (rp_suite p \<noteq> None), ValidationError ''suite snapshots require run-job/v2''),
      (unresolved DATASET (rp_dataset p), ValidationError ''run job dataset must be resolved''),
      (has_duplicates case_ids, ValidationError ''run job scenario overrides must be unique''),
      (out_of_order case_ids, ValidationError ''run job scenario overrides must be ordered''),
      (contract_adapter contract \<noteq> rp_adapter p,
       ValidationError ''run job adapter does not match execution contract''),
      (contract_evaluator_names contract \<noteq> rp_evaluator_names p,
       ValidationError ''run job evaluators do not match execution contract''),
      (ref_name (contract_target contract) \<noteq> rp_target_name p \<or>
         ref_revision (contract_target contract) \<noteq> rp_target_revision p,
       ValidationError ''run job target does not match execution contract''),
      (case rp_suite p of None \<Rightarrow> False | Some s \<Rightarrow> suite_dataset s \<noteq> rp_dataset p,
       ValidationError ''run job dataset does not match suite''),
      (case rp_suite p of None \<Rightarrow> False | Some s \<Rightarrow>
         exec_adapter (suite_execution s) \<noteq> contract_adapter contract \<or>
         exec_mode (suite_execution s) \<noteq> contract_mode contract \<or>
         suite_evaluator_names s \<noteq> contract_evaluator_names contract \<or>
         suite_evaluator_refs s \<noteq> contract_evaluators contract,
       ValidationError ''run job contract does not match suite'')]) (\<lambda>_. Inr p))"

record comparison_job_payload =
  cp_v2 :: bool
  cp_suite :: "evaluation_suite option"
  cp_dataset :: artifact_ref
  cp_baseline_run_id :: string
  cp_baseline_digest :: string
  cp_candidate_run_id :: string
  cp_candidate_digest :: string
  cp_spec :: evaluation_spec

definition validate_comparison_payload ::
    "comparison_job_payload \<Rightarrow> comparison_job_payload res" where
  "validate_comparison_payload p = rbind (checks
     [(\<not> is_run_id (cp_baseline_run_id p) \<or> \<not> is_run_id (cp_candidate_run_id p) \<or>
         \<not> is_sha256_digest (cp_baseline_digest p) \<or> \<not> is_sha256_digest (cp_candidate_digest p),
       ValidationError ''payload fields''),
      (cp_v2 p \<noteq> (cp_suite p \<noteq> None), ValidationError ''suite snapshots require comparison-job/v2''),
      (unresolved DATASET (cp_dataset p), ValidationError ''comparison job dataset must be resolved''),
      (spec_dataset (cp_spec p) \<noteq> cp_dataset p,
       ValidationError ''comparison job dataset does not match its policy''),
      (cp_baseline_run_id p = cp_candidate_run_id p,
       ValidationError ''comparison job runs must be distinct'')]) (\<lambda>_.
     case cp_suite p of
       None \<Rightarrow> Inr p
     | Some s \<Rightarrow> (case spec_baseline (cp_spec p) of
         None \<Rightarrow> Inl (ValidationError ''comparison job policy does not match suite'')
       | Some b \<Rightarrow> rbind (to_evaluation_spec s b (spec_candidate (cp_spec p))) (\<lambda>policy.
           rbind (checks [(cp_spec p \<noteq> policy,
             ValidationError ''comparison job policy does not match suite'')]) (\<lambda>_. Inr p))))"

datatype job_payload = RunPayload run_job_payload | ComparisonPayload comparison_job_payload

fun payload_kind :: "job_payload \<Rightarrow> job_kind" where
  "payload_kind (RunPayload _) = RUN_JOB"
| "payload_kind (ComparisonPayload _) = COMPARISON_JOB"

fun payload_suite :: "job_payload \<Rightarrow> evaluation_suite option" where
  "payload_suite (RunPayload p) = rp_suite p"
| "payload_suite (ComparisonPayload p) = cp_suite p"

fun payload_dataset :: "job_payload \<Rightarrow> artifact_ref" where
  "payload_dataset (RunPayload p) = rp_dataset p"
| "payload_dataset (ComparisonPayload p) = cp_dataset p"

definition validate_payload :: "job_payload \<Rightarrow> job_payload res" where
  "validate_payload p = (case p of
     RunPayload r \<Rightarrow> rbind (validate_run_payload r) (\<lambda>r'. Inr (RunPayload r'))
   | ComparisonPayload c \<Rightarrow> rbind (validate_comparison_payload c) (\<lambda>c'. Inr (ComparisonPayload c')))"

text \<open>
  Serialisation of a payload: the field documents are pydantic's (the parameter \<open>handler\<close>); a
  payload without a suite keeps the legacy bytes, without a \<open>suite\<close> key.
\<close>

definition serialize_payload ::
    "(job_payload \<Rightarrow> (string \<times> json) list) \<Rightarrow> job_payload \<Rightarrow> json" where
  "serialize_payload handler p =
     JObj (if payload_suite p = None then filter (\<lambda>(k, _). k \<noteq> ''suite'') (handler p) else handler p)"

definition payload_digest ::
    "jcs \<Rightarrow> (job_payload \<Rightarrow> (string \<times> json) list) \<Rightarrow> job_payload \<Rightarrow> string res" where
  "payload_digest jcs handler p = sha256_digest jcs (serialize_payload handler p)"

section \<open>Attempts\<close>

datatype job_attempt_status =
    ATTEMPT_RUNNING | ATTEMPT_SUCCEEDED | RETRY_SCHEDULED | ATTEMPT_FAILED | ATTEMPT_CANCELED
  | LEASE_EXPIRED

definition failed_statuses :: "job_attempt_status set" where
  "failed_statuses = {RETRY_SCHEDULED, ATTEMPT_FAILED, LEASE_EXPIRED}"

record job_attempt_record =
  attempt_job_id :: string
  attempt_number :: int
  attempt_status :: job_attempt_status
  attempt_error_code :: "string option"
  started_at :: instant
  heartbeat_at :: instant
  lease_expires_at :: instant
  finished_at :: "instant option"

definition validate_attempt :: "job_attempt_record \<Rightarrow> job_attempt_record res" where
  "validate_attempt a = rbind (checks
     [(\<not> is_stable_id (attempt_job_id a), ValidationError ''job_id''),
      (\<not> 0 < attempt_number a, ValidationError ''attempt_number''),
      (case attempt_error_code a of None \<Rightarrow> False | Some c \<Rightarrow> \<not> is_safe_code c,
       ValidationError ''error_code''),
      (heartbeat_at a < started_at a,
       ValidationError ''attempt heartbeat cannot precede its start''),
      (lease_expires_at a \<le> heartbeat_at a,
       ValidationError ''attempt lease must expire after its heartbeat''),
      ((attempt_status a = ATTEMPT_RUNNING) \<noteq> (finished_at a = None),
       ValidationError ''only running attempts omit a finish time''),
      (case finished_at a of None \<Rightarrow> False | Some f \<Rightarrow> f < heartbeat_at a,
       ValidationError ''attempt finish cannot precede its heartbeat''),
      ((attempt_status a \<in> failed_statuses) \<noteq> (attempt_error_code a \<noteq> None),
       ValidationError ''failed attempts require one safe error code'')]) (\<lambda>_. Inr a)"

section \<open>Laws of the lifecycle\<close>

definition terminal :: "job_status \<Rightarrow> bool" where
  "terminal s \<longleftrightarrow> s \<in> {SUCCEEDED, FAILED, CANCELED}"

lemma terminal_iff: "terminal s \<longleftrightarrow> allowed_transitions s = []"
  by (cases s) (simp_all add: terminal_def)

lemma validate_job_record_Inr [result_simps]:
  "validate_job_record j = Inr j' \<longleftrightarrow> j' = j \<and> job_fields_ok j \<and> validate_state j = Inr ()"
  by (auto simp: validate_job_record_def result_simps)

lemma validate_state_ok_iff:
  "validate_state j = Inr () \<longleftrightarrow>
     job_created_at j \<le> job_updated_at j \<and> job_created_at j \<le> available_at j \<and>
     attempt_count j \<le> max_attempts j \<and>
     (job_status j = QUEUED \<longrightarrow> attempt_count j < max_attempts j) \<and>
     (job_status j \<in> {RUNNING, CANCEL_REQUESTED, SUCCEEDED, FAILED} \<longrightarrow> 1 \<le> attempt_count j) \<and>
     (job_status j = FAILED \<longleftrightarrow> job_error_code j \<noteq> None)"
  by (auto simp: validate_state_def result_simps)

definition valid_job :: "job_record \<Rightarrow> bool" where
  "valid_job j \<longleftrightarrow> job_fields_ok j \<and> validate_state j = Inr ()"

lemma validate_job_record_valid [simp]: "validate_job_record j = Inr j \<longleftrightarrow> valid_job j"
  by (simp add: validate_job_record_Inr valid_job_def)

lemma validate_job_record_ok: "is_ok (validate_job_record j) \<longleftrightarrow> valid_job j"
  by (auto simp: is_ok_iff validate_job_record_Inr valid_job_def)

text \<open>What a successful transition is: a no-op retry, or one edge of the state machine.\<close>

lemma transition_to_Inr:
  assumes "transition_to j s time ec av = Inr j'"
  shows "s = job_status j \<and> j' = j \<or>
    s \<in> set (allowed_transitions (job_status j)) \<and> valid_job j' \<and>
    (\<exists>t n a. utc aware_message time = Inr t \<and> job_updated_at j \<le> t \<and>
       next_schedule j s t av = Inr (n, a) \<and>
       j' = j\<lparr>job_status := s, attempt_count := n, available_at := a, job_error_code := ec,
              job_updated_at := t\<rparr>)"
  using assms unfolding transition_to_def valid_job_def
  by (auto simp: result_simps split: if_splits)

lemma next_schedule_Inr:
  "next_schedule j s t av = Inr (n, a) \<Longrightarrow>
     (if job_status j = QUEUED \<and> s = RUNNING
      then n = attempt_count j + 1 \<and> a = available_at j \<and> available_at j \<le> t
      else if job_status j = RUNNING \<and> s = QUEUED
      then n = attempt_count j \<and> t \<le> a \<and> n < max_attempts j
      else n = attempt_count j \<and> a = available_at j)"
  by (auto simp: next_schedule_def result_simps split: if_splits option.splits)

end
