(* ===== verification/Store.thy ===== *)
theory Store
  imports Jobs
begin

text \<open>
  The relational schema and the immutable evidence of \<open>adapters/control_plane_db.py\<close>. A table
  is the list of its rows in insertion order; an insert or update that violates a primary key,
  a unique index, a CHECK constraint or a foreign key raises \<open>IntegrityError\<close> and changes
  nothing. A transaction is a function from the database to its value and the new database, or
  to the exception that rolled it back. The JSON text of a document is its canonical bytes.
  Three third-party functions are parameters, in \<open>store_config\<close>: the RFC 8785 serialiser, the
  JSON parser and, per model, pydantic's conversion of a model to and from a JSON value.
  Here every statement reaches the database; lost calls are added by the clients (\<open>Sessions\<close>).
\<close>

section \<open>Rows\<close>

record dataset_row =
  dr_name :: string
  dr_revision :: int
  dr_digest :: string
  dr_case_count :: int
  dr_document :: string
  dr_created_at :: instant

record suite_row =
  sr_name :: string
  sr_revision :: int
  sr_digest :: string
  sr_dataset_name :: string
  sr_dataset_revision :: int
  sr_evaluator_count :: int
  sr_metric_count :: int
  sr_slice_count :: int
  sr_gate_count :: int
  sr_mode :: execution_mode
  sr_document :: string
  sr_created_at :: instant

text \<open>The nullable name, revision and digest columns of a pinned artifact.\<close>

type_synonym history_columns = "string option \<times> int option \<times> string option"

record run_row =
  rr_run_id :: string
  rr_digest :: string
  rr_dataset_name :: string
  rr_dataset_revision :: int
  rr_status :: run_status
  rr_mode :: execution_mode
  rr_input_units :: int
  rr_output_units :: int
  rr_suite :: history_columns
  rr_target :: history_columns
  rr_document :: string
  rr_created_at :: instant

record decision_row =
  dcr_decision_id :: string
  dcr_digest :: string
  dcr_baseline :: string
  dcr_candidate :: string
  dcr_status :: release_status
  dcr_suite :: history_columns
  dcr_document :: string
  dcr_created_at :: instant

record job_row =
  row_job :: job_record
  row_version :: int

record payload_row =
  pr_job_id :: string
  pr_digest :: string
  pr_document :: string
  pr_created_at :: instant

record attempt_row =
  row_attempt :: job_attempt_record
  worker_id :: string
  lease_token :: string

record db =
  datasets_table :: "dataset_row list"
  suites_table :: "suite_row list"
  jobs_table :: "job_row list"
  job_payloads_table :: "payload_row list"
  job_attempts_table :: "attempt_row list"
  runs_table :: "run_row list"
  release_decisions_table :: "decision_row list"

section \<open>Constraints\<close>

definition dataset_row_ok :: "dataset_row \<Rightarrow> bool" where
  "dataset_row_ok r \<longleftrightarrow> 0 < dr_revision r \<and> 0 < dr_case_count r \<and> length (dr_digest r) = 71"

definition suite_row_ok :: "suite_row \<Rightarrow> bool" where
  "suite_row_ok r \<longleftrightarrow> 0 < sr_revision r \<and> 0 < sr_dataset_revision r \<and> length (sr_digest r) = 71 \<and>
     1 \<le> sr_evaluator_count r \<and> sr_evaluator_count r \<le> 32 \<and>
     1 \<le> sr_metric_count r \<and> sr_metric_count r \<le> 32 \<and>
     0 \<le> sr_slice_count r \<and> sr_slice_count r \<le> 128 \<and>
     1 \<le> sr_gate_count r \<and> sr_gate_count r \<le> 64"

definition history_absent :: "history_columns \<Rightarrow> bool" where
  "history_absent h \<longleftrightarrow> h = (None, None, None)"

definition history_present :: "history_columns \<Rightarrow> bool" where
  "history_present h \<longleftrightarrow> (case h of
     (Some name, Some revision, Some digest) \<Rightarrow>
       1 \<le> length name \<and> length name \<le> 128 \<and> 0 < revision \<and> length digest = 71
   | _ \<Rightarrow> False)"

definition history_constraint :: "history_columns list \<Rightarrow> bool" where
  "history_constraint hs \<longleftrightarrow> list_all history_absent hs \<or> list_all history_present hs"

definition run_row_ok :: "run_row \<Rightarrow> bool" where
  "run_row_ok r \<longleftrightarrow> history_constraint [rr_suite r, rr_target r] \<and> 0 < rr_dataset_revision r \<and>
     0 \<le> rr_input_units r \<and> 0 \<le> rr_output_units r \<and> length (rr_digest r) = 71"

definition decision_row_ok :: "decision_row \<Rightarrow> bool" where
  "decision_row_ok r \<longleftrightarrow> history_constraint [dcr_suite r] \<and> length (dcr_digest r) = 71"

definition job_row_ok :: "job_row \<Rightarrow> bool" where
  "job_row_ok r \<longleftrightarrow> (let j = row_job r in
     0 \<le> attempt_count j \<and> attempt_count j \<le> max_attempts j \<and>
     1 \<le> max_attempts j \<and> max_attempts j \<le> 10 \<and>
     (job_status j \<noteq> QUEUED \<or> attempt_count j < max_attempts j) \<and>
     (job_status j \<notin> {RUNNING, CANCEL_REQUESTED, SUCCEEDED, FAILED} \<or> 0 < attempt_count j) \<and>
     job_created_at j \<le> available_at j \<and> job_created_at j \<le> job_updated_at j \<and>
     0 \<le> row_version r \<and>
     (case traceparent j of None \<Rightarrow> True | Some t \<Rightarrow> length t = 55) \<and>
     (job_status j = FAILED \<longleftrightarrow> job_error_code j \<noteq> None))"

definition attempt_row_ok :: "attempt_row \<Rightarrow> bool" where
  "attempt_row_ok r \<longleftrightarrow> (let a = row_attempt r in
     0 < attempt_number a \<and> 1 \<le> length (worker_id r) \<and> length (worker_id r) \<le> 128 \<and>
     32 \<le> length (lease_token r) \<and> length (lease_token r) \<le> 128 \<and>
     started_at a \<le> heartbeat_at a \<and> heartbeat_at a < lease_expires_at a \<and>
     (case finished_at a of None \<Rightarrow> True | Some f \<Rightarrow> heartbeat_at a \<le> f) \<and>
     (attempt_status a = ATTEMPT_RUNNING \<longleftrightarrow> finished_at a = None) \<and>
     (attempt_status a \<in> failed_statuses \<longleftrightarrow> attempt_error_code a \<noteq> None))"

abbreviation row_job_id :: "job_row \<Rightarrow> string" where
  "row_job_id r \<equiv> job_id (row_job r)"

abbreviation row_attempt_job :: "attempt_row \<Rightarrow> string" where
  "row_attempt_job r \<equiv> attempt_job_id (row_attempt r)"

abbreviation row_attempt_number :: "attempt_row \<Rightarrow> int" where
  "row_attempt_number r \<equiv> attempt_number (row_attempt r)"

definition idempotency_index :: "job_row \<Rightarrow> job_kind \<times> string" where
  "idempotency_index r = (job_kind (row_job r), idempotency_key (row_job r))"

definition resource_index :: "job_row \<Rightarrow> job_kind \<times> string" where
  "resource_index r = (job_kind (row_job r), resource_id (row_job r))"

definition jobs_constraints :: "job_row list \<Rightarrow> bool" where
  "jobs_constraints rows \<longleftrightarrow> list_all job_row_ok rows \<and> distinct (map row_job_id rows) \<and>
     distinct (map idempotency_index rows) \<and> distinct (map resource_index rows)"

definition attempt_key :: "attempt_row \<Rightarrow> string \<times> int" where
  "attempt_key r = (row_attempt_job r, row_attempt_number r)"

definition running_attempts :: "attempt_row list \<Rightarrow> attempt_row list" where
  "running_attempts rows = filter (\<lambda>r. attempt_status (row_attempt r) = ATTEMPT_RUNNING) rows"

text \<open>The last conjunct is the partial unique index on the active attempt of a job.\<close>

definition attempts_constraints :: "attempt_row list \<Rightarrow> bool" where
  "attempts_constraints rows \<longleftrightarrow> list_all attempt_row_ok rows \<and> distinct (map attempt_key rows) \<and>
     distinct (map (\<lambda>r. (row_attempt_job r, lease_token r)) rows) \<and>
     distinct (map row_attempt_job (running_attempts rows))"

section \<open>Transactions\<close>

type_synonym 'a tx = "db \<Rightarrow> ('a \<times> db) res"

definition tbind :: "'a tx \<Rightarrow> ('a \<Rightarrow> 'b tx) \<Rightarrow> 'b tx" where
  "tbind m f db = rbind (m db) (\<lambda>(x, db'). f x db')"

definition treturn :: "'a \<Rightarrow> 'a tx" where
  "treturn x db = Inr (x, db)"

definition lift_res :: "'a res \<Rightarrow> 'a tx" where
  "lift_res m db = rbind m (\<lambda>x. Inr (x, db))"

lemma tbind_Inr_iff [result_simps]:
  "tbind m f db = Inr p \<longleftrightarrow> (\<exists>x db'. m db = Inr (x, db') \<and> f x db' = Inr p)"
  by (auto simp: tbind_def result_simps)

lemma tbind_Inl_iff [result_simps]:
  "tbind m f db = Inl e \<longleftrightarrow> m db = Inl e \<or> (\<exists>x db'. m db = Inr (x, db') \<and> f x db' = Inl e)"
  by (auto simp: tbind_def result_simps)

lemma treturn_simps [simp]: "treturn x db = Inr (x, db)"
  by (simp add: treturn_def)

lemma lift_res_simps [simp]:
  "lift_res (Inr x) db = Inr (x, db)" "lift_res (Inl e) db = Inl e"
  by (simp_all add: lift_res_def)

lemma lift_res_Inr_iff [result_simps]: "lift_res m db = Inr (x, db') \<longleftrightarrow> m = Inr x \<and> db' = db"
  by (cases m) auto

lemma lift_res_Inl_iff [result_simps]: "lift_res m db = Inl e \<longleftrightarrow> m = Inl e"
  by (cases m) auto

text \<open>What a caller sees of a transaction: its outcome, and the database after commit or rollback.\<close>

definition after :: "'a tx \<Rightarrow> db \<Rightarrow> db" where
  "after m db = (case m db of Inl _ \<Rightarrow> db | Inr (_, db') \<Rightarrow> db')"

section \<open>Inserts and updates\<close>

definition insert_dataset :: "dataset_row \<Rightarrow> unit tx" where
  "insert_dataset row db =
     (if \<not> dataset_row_ok row \<or>
         (\<exists>r \<in> set (datasets_table db). dr_name r = dr_name row \<and> dr_revision r = dr_revision row)
      then Inl IntegrityError
      else Inr ((), db\<lparr>datasets_table := datasets_table db @ [row]\<rparr>))"

definition has_dataset :: "db \<Rightarrow> string \<Rightarrow> int \<Rightarrow> bool" where
  "has_dataset db name revision \<longleftrightarrow>
     (\<exists>r \<in> set (datasets_table db). dr_name r = name \<and> dr_revision r = revision)"

definition insert_suite :: "suite_row \<Rightarrow> unit tx" where
  "insert_suite row db =
     (if \<not> suite_row_ok row \<or> \<not> has_dataset db (sr_dataset_name row) (sr_dataset_revision row) \<or>
         (\<exists>r \<in> set (suites_table db). sr_name r = sr_name row \<and> sr_revision r = sr_revision row)
      then Inl IntegrityError
      else Inr ((), db\<lparr>suites_table := suites_table db @ [row]\<rparr>))"

definition insert_run :: "run_row \<Rightarrow> unit tx" where
  "insert_run row db =
     (if \<not> run_row_ok row \<or> \<not> has_dataset db (rr_dataset_name row) (rr_dataset_revision row) \<or>
         rr_run_id row \<in> rr_run_id ` set (runs_table db)
      then Inl IntegrityError
      else Inr ((), db\<lparr>runs_table := runs_table db @ [row]\<rparr>))"

definition insert_decision :: "decision_row \<Rightarrow> unit tx" where
  "insert_decision row db =
     (if \<not> decision_row_ok row \<or> dcr_baseline row \<notin> rr_run_id ` set (runs_table db) \<or>
         dcr_candidate row \<notin> rr_run_id ` set (runs_table db) \<or>
         dcr_decision_id row \<in> dcr_decision_id ` set (release_decisions_table db)
      then Inl IntegrityError
      else Inr ((), db\<lparr>release_decisions_table := release_decisions_table db @ [row]\<rparr>))"

definition insert_job :: "job_row \<Rightarrow> unit tx" where
  "insert_job row db =
     (let rows = jobs_table db @ [row] in
      if jobs_constraints rows then Inr ((), db\<lparr>jobs_table := rows\<rparr>) else Inl IntegrityError)"

definition insert_payload :: "payload_row \<Rightarrow> unit tx" where
  "insert_payload row db =
     (if length (pr_digest row) \<noteq> 71 \<or> pr_job_id row \<notin> row_job_id ` set (jobs_table db) \<or>
         pr_job_id row \<in> pr_job_id ` set (job_payloads_table db)
      then Inl IntegrityError
      else Inr ((), db\<lparr>job_payloads_table := job_payloads_table db @ [row]\<rparr>))"

definition insert_attempt :: "attempt_row \<Rightarrow> unit tx" where
  "insert_attempt row db =
     (let rows = job_attempts_table db @ [row] in
      if attempts_constraints rows \<and> row_attempt_job row \<in> row_job_id ` set (jobs_table db)
      then Inr ((), db\<lparr>job_attempts_table := rows\<rparr>) else Inl IntegrityError)"

text \<open>\<open>UPDATE ... WHERE\<close>: the new rows and the row count.\<close>

definition update_where :: "('r \<Rightarrow> bool) \<Rightarrow> ('r \<Rightarrow> 'r) \<Rightarrow> 'r list \<Rightarrow> 'r list" where
  "update_where p f rows = map (\<lambda>r. if p r then f r else r) rows"

definition row_count :: "('r \<Rightarrow> bool) \<Rightarrow> 'r list \<Rightarrow> nat" where
  "row_count p rows = length (filter p rows)"

definition update_jobs :: "(job_row \<Rightarrow> bool) \<Rightarrow> (job_row \<Rightarrow> job_row) \<Rightarrow> nat tx" where
  "update_jobs p f db =
     (let rows = update_where p f (jobs_table db) in
      if jobs_constraints rows then Inr (row_count p (jobs_table db), db\<lparr>jobs_table := rows\<rparr>)
      else Inl IntegrityError)"

definition update_attempts :: "(attempt_row \<Rightarrow> bool) \<Rightarrow> (attempt_row \<Rightarrow> attempt_row) \<Rightarrow> nat tx" where
  "update_attempts p f db =
     (let rows = update_where p f (job_attempts_table db) in
      if attempts_constraints rows
      then Inr (row_count p (job_attempts_table db), db\<lparr>job_attempts_table := rows\<rparr>)
      else Inl IntegrityError)"

section \<open>Documents\<close>

record 'm codec =
  dump_model :: "'m \<Rightarrow> json"
  read_model :: "json \<Rightarrow> 'm option"

record store_config =
  env_jcs :: jcs
  env_parse :: "string \<Rightarrow> json option"
  dataset_codec :: "dataset_version codec"
  suite_codec :: "evaluation_suite codec"
  run_codec :: "run_result codec"
  decision_codec :: "release_decision codec"
  payload_handler :: "job_payload \<Rightarrow> (string \<times> json) list"
  payload_reader :: "json \<Rightarrow> job_payload option"
  max_document_bytes :: int
  postgresql :: bool

definition model_text :: "store_config \<Rightarrow> 'm codec \<Rightarrow> 'm \<Rightarrow> string res" where
  "model_text env c m = canonical_json_bytes (env_jcs env) (dump_model c m)"

definition require_document_size :: "store_config \<Rightarrow> string \<Rightarrow> unit res" where
  "require_document_size env document = checks
     [(int (length document) > max_document_bytes env,
       PayloadTooLargeError ''Canonical evidence exceeds the configured size limit'')]"

abbreviation max_job_payload_bytes :: int where
  "max_job_payload_bytes \<equiv> 4194304"

definition require_payload_size :: "string \<Rightarrow> unit res" where
  "require_payload_size document = checks
     [(int (length document) > max_job_payload_bytes,
       PayloadTooLargeError ''Canonical worker payload exceeds its size limit'')]"

abbreviation corrupt_evidence :: exn where
  "corrupt_evidence \<equiv> CorruptRecordError ''Stored control-plane evidence is invalid''"

definition validated_model ::
    "store_config \<Rightarrow> 'm codec \<Rightarrow> ('m \<Rightarrow> 'm res) \<Rightarrow> string \<Rightarrow> 'm res" where
  "validated_model env c validate document =
     rcatch is_value_error (\<lambda>_. Inl corrupt_evidence)
       (rbind (checks [(int (length document) > max_document_bytes env,
            ValueError ''record document exceeds its size bound'')]) (\<lambda>_.
        rbind (of_option (ValueError ''json'') (env_parse env document)) (\<lambda>v.
        rbind (canonical_json_bytes (env_jcs env) v) (\<lambda>b.
        rbind (checks [(b \<noteq> document, ValueError ''record document is not canonical'')]) (\<lambda>_.
        rbind (of_option (ValidationError ''model'') (read_model c v)) validate)))))"

section \<open>Datasets and suites\<close>

record dataset_record =
  dataset :: dataset_version
  dataset_created_at :: instant

record suite_record =
  suite :: evaluation_suite
  suite_created_at :: instant

definition dataset_row_of :: "dataset_record \<Rightarrow> string \<Rightarrow> dataset_row" where
  "dataset_row_of r document =
     \<lparr>dr_name = dataset_name (dataset r), dr_revision = dataset_revision (dataset r),
      dr_digest = dataset_digest (dataset r), dr_case_count = int (length (dataset_cases (dataset r))),
      dr_document = document, dr_created_at = dataset_created_at r\<rparr>"

definition dataset_record_of :: "store_config \<Rightarrow> dataset_row \<Rightarrow> dataset_record res" where
  "dataset_record_of env row =
     rbind (validated_model env (dataset_codec env) (validate_dataset (env_jcs env)) (dr_document row))
       (\<lambda>d. rbind (checks
         [((dr_name row, dr_revision row, dr_digest row, dr_case_count row) \<noteq>
             (dataset_name d, dataset_revision d, dataset_digest d, int (length (dataset_cases d))),
           CorruptRecordError ''Stored dataset indexes do not match canonical evidence'')])
         (\<lambda>_. Inr \<lparr>dataset = d, dataset_created_at = dr_created_at row\<rparr>))"

definition get_dataset :: "store_config \<Rightarrow> db \<Rightarrow> string \<Rightarrow> int \<Rightarrow> dataset_record res" where
  "get_dataset env db name revision =
     rbind (of_option (RecordNotFoundError ''Dataset revision was not found'')
         (List.find (\<lambda>r. dr_name r = name \<and> dr_revision r = revision) (datasets_table db)))
       (dataset_record_of env)"

text \<open>
  After an \<open>IntegrityError\<close> the existing record decides: the same bytes are an idempotent
  success, other bytes a conflict.
\<close>

definition put_dataset :: "store_config \<Rightarrow> dataset_record \<Rightarrow> dataset_record tx" where
  "put_dataset env r db =
     rbind (model_text env (dataset_codec env) (dataset r)) (\<lambda>document.
     rbind (require_document_size env document) (\<lambda>_.
     case insert_dataset (dataset_row_of r document) db of
       Inr (_, db') \<Rightarrow> Inr (r, db')
     | Inl _ \<Rightarrow>
         rbind (rcatch is_store_not_found_error
             (\<lambda>_. Inl (ImmutableRecordConflictError ''Dataset revision conflicts with existing metadata''))
             (get_dataset env db (dataset_name (dataset r)) (dataset_revision (dataset r)))) (\<lambda>stored.
         rbind (model_text env (dataset_codec env) (dataset stored)) (\<lambda>text.
         rbind (checks [(text \<noteq> document, ImmutableRecordConflictError
             ''Dataset revision already contains different evidence'')])
           (\<lambda>_. Inr (stored, db))))))"

definition metric_count :: "evaluation_suite \<Rightarrow> int" where
  "metric_count s = sum_list (map (\<lambda>e. int (length (evaluator_metrics e))) (suite_evaluators s))"

definition suite_row_of :: "suite_record \<Rightarrow> string \<Rightarrow> suite_row" where
  "suite_row_of r document =
     (let s = suite r in
      \<lparr>sr_name = suite_name s, sr_revision = suite_revision s, sr_digest = suite_digest s,
       sr_dataset_name = ref_name (suite_dataset s),
       sr_dataset_revision = ref_revision (suite_dataset s),
       sr_evaluator_count = int (length (suite_evaluators s)), sr_metric_count = metric_count s,
       sr_slice_count = int (length (suite_slices s)), sr_gate_count = int (length (suite_gates s)),
       sr_mode = exec_mode (suite_execution s), sr_document = document,
       sr_created_at = suite_created_at r\<rparr>)"

definition suite_record_of :: "store_config \<Rightarrow> suite_row \<Rightarrow> suite_record res" where
  "suite_record_of env row =
     rbind (validated_model env (suite_codec env) (validate_evaluation_suite (env_jcs env))
         (sr_document row))
       (\<lambda>s. rbind (checks
         [(row \<noteq> suite_row_of \<lparr>suite = s, suite_created_at = sr_created_at row\<rparr> (sr_document row),
           CorruptRecordError ''Stored evaluation suite indexes do not match canonical evidence'')])
         (\<lambda>_. Inr \<lparr>suite = s, suite_created_at = sr_created_at row\<rparr>))"

definition get_suite :: "store_config \<Rightarrow> db \<Rightarrow> string \<Rightarrow> int \<Rightarrow> suite_record res" where
  "get_suite env db name revision =
     rbind (of_option (RecordNotFoundError ''Evaluation suite revision was not found'')
         (List.find (\<lambda>r. sr_name r = name \<and> sr_revision r = revision) (suites_table db)))
       (suite_record_of env)"

definition put_suite :: "store_config \<Rightarrow> suite_record \<Rightarrow> suite_record tx" where
  "put_suite env r db =
     rbind (model_text env (suite_codec env) (suite r)) (\<lambda>document.
     rbind (require_document_size env document) (\<lambda>_.
     case insert_suite (suite_row_of r document) db of
       Inr (_, db') \<Rightarrow> Inr (r, db')
     | Inl _ \<Rightarrow>
         rbind (rcatch is_store_not_found_error
             (\<lambda>_. Inl (ImmutableRecordConflictError
                ''Evaluation suite revision conflicts with existing metadata''))
             (get_suite env db (suite_name (suite r)) (suite_revision (suite r)))) (\<lambda>stored.
         rbind (model_text env (suite_codec env) (suite stored)) (\<lambda>text.
         rbind (checks [(text \<noteq> document, ImmutableRecordConflictError
             ''Evaluation suite revision already contains different evidence'')])
           (\<lambda>_. Inr (stored, db))))))"

section \<open>Run evidence\<close>

abbreviation max_operational_value :: int where
  "max_operational_value \<equiv> 9223372036854775807"

definition run_usage :: "run_result \<Rightarrow> (int \<times> int) res" where
  "run_usage r =
     (let usages = map (\<lambda>t. usage (response t)) (List.map_filter result_target (run_cases r));
          input = sum_list (map input_units usages); output = sum_list (map output_units usages)
      in rbind (checks [(input > max_operational_value \<or> output > max_operational_value,
           ValueError ''run usage exceeds its supported range'')]) (\<lambda>_. Inr (input, output)))"

definition history_values :: "artifact_ref option \<Rightarrow> history_columns" where
  "history_values r = (case r of None \<Rightarrow> (None, None, None)
     | Some a \<Rightarrow> (Some (ref_name a), Some (ref_revision a), ref_digest a))"

definition run_history_values :: "run_result \<Rightarrow> history_columns \<times> history_columns" where
  "run_history_values r = (history_values (run_suite r),
     history_values (if run_suite r = None then None else Some (run_target r)))"

record run_record =
  run_evidence :: run_result
  run_created_at :: instant

definition run_row_of :: "run_record \<Rightarrow> string \<Rightarrow> int \<times> int \<Rightarrow> run_row" where
  "run_row_of r document units =
     (let x = run_evidence r in
      \<lparr>rr_run_id = run_id x, rr_digest = result_digest x, rr_dataset_name = ref_name (run_dataset x),
       rr_dataset_revision = ref_revision (run_dataset x), rr_status = run_status x,
       rr_mode = run_mode x, rr_input_units = fst units, rr_output_units = snd units,
       rr_suite = fst (run_history_values x), rr_target = snd (run_history_values x),
       rr_document = document, rr_created_at = run_created_at r\<rparr>)"

definition run_record_of :: "store_config \<Rightarrow> run_row \<Rightarrow> run_record res" where
  "run_record_of env row =
     rbind (validated_model env (run_codec env) (validate_run (env_jcs env)) (rr_document row))
       (\<lambda>x. rbind (checks [((rr_suite row, rr_target row) \<noteq> run_history_values x,
           CorruptRecordError ''Stored run history does not match canonical evidence'')]) (\<lambda>_.
        rbind (rcatch is_value_error
           (\<lambda>_. Inl (CorruptRecordError ''Stored control-plane run is invalid'')) (run_usage x)) (\<lambda>units.
        rbind (checks
         [((rr_run_id row, rr_digest row, rr_dataset_name row, rr_dataset_revision row,
            rr_status row, rr_mode row, rr_input_units row, rr_output_units row) \<noteq>
             (run_id x, result_digest x, ref_name (run_dataset x), ref_revision (run_dataset x),
              run_status x, run_mode x, fst units, snd units),
           CorruptRecordError ''Stored run indexes do not match canonical evidence'')])
         (\<lambda>_. Inr \<lparr>run_evidence = x, run_created_at = rr_created_at row\<rparr>))))"

definition get_run :: "store_config \<Rightarrow> db \<Rightarrow> string \<Rightarrow> run_record res" where
  "get_run env db rid =
     rbind (of_option (RecordNotFoundError ''Run was not found'')
         (List.find (\<lambda>r. rr_run_id r = rid) (runs_table db)))
       (run_record_of env)"

text \<open>The document and usage counters both publishing paths compute before their transaction.\<close>

definition prepare_run :: "store_config \<Rightarrow> run_record \<Rightarrow> (string \<times> int \<times> int) res" where
  "prepare_run env r =
     rbind (model_text env (run_codec env) (run_evidence r)) (\<lambda>document.
     rbind (require_document_size env document) (\<lambda>_.
     rbind (rcatch is_value_error
         (\<lambda>_. Inl (PayloadTooLargeError ''Run usage exceeds its supported limit''))
         (run_usage (run_evidence r))) (\<lambda>units. Inr (document, units))))"

definition put_run :: "store_config \<Rightarrow> run_record \<Rightarrow> run_record tx" where
  "put_run env r db =
     rbind (prepare_run env r) (\<lambda>(document, units).
     case insert_run (run_row_of r document units) db of
       Inr (_, db') \<Rightarrow> Inr (r, db')
     | Inl _ \<Rightarrow>
         rbind (rcatch is_store_not_found_error
             (\<lambda>_. Inl (ImmutableRecordConflictError ''Run conflicts with existing metadata''))
             (get_run env db (run_id (run_evidence r)))) (\<lambda>stored.
         rbind (model_text env (run_codec env) (run_evidence stored)) (\<lambda>text.
         rbind (checks [(text \<noteq> document,
             ImmutableRecordConflictError ''Run ID already contains different evidence'')])
           (\<lambda>_. Inr (stored, db)))))"

section \<open>Release decisions\<close>

record release_decision_record =
  decision_id :: string
  decision :: release_decision
  decision_created_at :: instant

definition decision_row_of :: "release_decision_record \<Rightarrow> string \<Rightarrow> decision_row" where
  "decision_row_of r document =
     (let d = decision r in
      \<lparr>dcr_decision_id = decision_id r, dcr_digest = decision_digest d,
       dcr_baseline = baseline_run_id d, dcr_candidate = candidate_run_id d,
       dcr_status = decision_status d, dcr_suite = history_values (decision_suite d),
       dcr_document = document, dcr_created_at = decision_created_at r\<rparr>)"

definition release_decision_record_of ::
    "store_config \<Rightarrow> decision_row \<Rightarrow> release_decision_record res" where
  "release_decision_record_of env row =
     rbind (validated_model env (decision_codec env) (validate_decision (env_jcs env))
         (dcr_document row))
       (\<lambda>d. rbind (checks
         [(dcr_suite row \<noteq> history_values (decision_suite d),
           CorruptRecordError ''Stored decision history does not match canonical evidence''),
          ((dcr_digest row, dcr_baseline row, dcr_candidate row, dcr_status row) \<noteq>
             (decision_digest d, baseline_run_id d, candidate_run_id d, decision_status d),
           CorruptRecordError ''Stored decision indexes do not match canonical evidence''),
          (\<not> is_stable_id (dcr_decision_id row),
           CorruptRecordError ''Stored control-plane decision is invalid'')])
         (\<lambda>_. Inr \<lparr>decision_id = dcr_decision_id row, decision = d,
                  decision_created_at = dcr_created_at row\<rparr>))"

definition get_release_decision :: "store_config \<Rightarrow> db \<Rightarrow> string \<Rightarrow> release_decision_record res" where
  "get_release_decision env db did =
     rbind (of_option (RecordNotFoundError ''Release decision was not found'')
         (List.find (\<lambda>r. dcr_decision_id r = did) (release_decisions_table db)))
       (release_decision_record_of env)"

definition put_release_decision ::
    "store_config \<Rightarrow> release_decision_record \<Rightarrow> release_decision_record tx" where
  "put_release_decision env r db =
     rbind (model_text env (decision_codec env) (decision r)) (\<lambda>document.
     rbind (require_document_size env document) (\<lambda>_.
     case insert_decision (decision_row_of r document) db of
       Inr (_, db') \<Rightarrow> Inr (r, db')
     | Inl _ \<Rightarrow>
         rbind (rcatch is_store_not_found_error
             (\<lambda>_. Inl (ImmutableRecordConflictError ''Release decision conflicts with existing metadata''))
             (get_release_decision env db (decision_id r))) (\<lambda>stored.
         rbind (model_text env (decision_codec env) (decision stored)) (\<lambda>text.
         rbind (checks [(text \<noteq> document,
             ImmutableRecordConflictError ''Decision ID already contains different evidence'')])
           (\<lambda>_. Inr (stored, db))))))"

section \<open>Operational counters\<close>

record operational_snapshot =
  queued_jobs :: int
  failed_jobs :: int
  snapshot_input_units :: int
  snapshot_output_units :: int

text \<open>A sum beyond the 64-bit cast fails in the database; a counter outside its range is corrupt.\<close>

definition operational_snapshot :: "db \<Rightarrow> operational_snapshot res" where
  "operational_snapshot db =
     (let count = \<lambda>s. int (row_count (\<lambda>r. job_status (row_job r) = s) (jobs_table db));
          input = sum_list (map rr_input_units (runs_table db));
          output = sum_list (map rr_output_units (runs_table db))
      in rbind (checks
     [(input > max_operational_value \<or> output > max_operational_value,
       ControlPlaneRepositoryError ''Could not load operational counters''),
      (input < 0 \<or> output < 0, CorruptRecordError ''Stored operational counters are invalid'')])
     (\<lambda>_. Inr \<lparr>queued_jobs = count QUEUED, failed_jobs = count FAILED,
              snapshot_input_units = input, snapshot_output_units = output\<rparr>))"

end
