(* ===== verification/JobStore.thy ===== *)
theory JobStore
  imports Store
begin

text \<open>
  The leased job queue of \<open>adapters/control_plane_db.py\<close>. Every operation is one transaction
  on the tables of \<open>Store\<close>; a raised exception leaves them as they were. What the database
  contributes is an argument: \<open>clock n\<close> is the n-th reading of \<open>statement_timestamp()\<close> in the
  transaction, in any order whatever, and \<open>locked\<close> says which job rows another transaction has
  locked, so that \<open>SKIP LOCKED\<close> passes them over. The rows an operation locks are its own until
  it commits, so an operation is one step of the interleaving.
\<close>

type_synonym clock = "nat \<Rightarrow> instant"

abbreviation at_utc :: "instant \<Rightarrow> datetime" where
  "at_utc t \<equiv> Aware t 0"

section \<open>Arguments and rows\<close>

definition bounded_int :: "int \<Rightarrow> int \<Rightarrow> int \<Rightarrow> string \<Rightarrow> int res" where
  "bounded_int v lower upper name =
     (if v < lower \<or> upper < v then Inl (ValueError (name @ '' is outside its supported range''))
      else Inr v)"

definition safe_code :: "string \<Rightarrow> string res" where
  "safe_code v = (if is_safe_code v then Inr v else Inl (ValueError ''error code is invalid''))"

definition lease_token_value :: "string \<Rightarrow> string res" where
  "lease_token_value v =
     (if is_lease_token v then Inr v else Inl (ValueError ''lease token is invalid''))"

definition worker_id_value :: "string \<Rightarrow> string res" where
  "worker_id_value v =
     (if is_stable_id v then Inr v else Inl (ValueError ''worker identity is invalid''))"

definition job_record_of :: "job_row \<Rightarrow> job_record res" where
  "job_record_of row = rcatch is_value_error
     (\<lambda>_. Inl (CorruptRecordError ''Stored control-plane job is invalid''))
     (validate_job_record (row_job row))"

definition attempt_record_of :: "attempt_row \<Rightarrow> job_attempt_record res" where
  "attempt_record_of row = rcatch is_value_error
     (\<lambda>_. Inl (CorruptRecordError ''Stored control-plane attempt is invalid''))
     (rbind (checks [(\<not> is_stable_id (worker_id row) \<or> \<not> is_lease_token (lease_token row),
         ValueError ''stored private lease identity is invalid'')])
       (\<lambda>_. validate_attempt (row_attempt row)))"

abbreviation lease_lost :: exn where
  "lease_lost \<equiv> LeaseLostError ''Worker lease is no longer active''"

abbreviation job_not_found :: exn where
  "job_not_found \<equiv> RecordNotFoundError ''Job was not found''"

definition find_job_row :: "db \<Rightarrow> string \<Rightarrow> job_row option" where
  "find_job_row db jid = List.find (\<lambda>r. row_job_id r = jid) (jobs_table db)"

definition find_attempt_row :: "db \<Rightarrow> string \<Rightarrow> int \<Rightarrow> attempt_row option" where
  "find_attempt_row db jid number =
     List.find (\<lambda>r. row_attempt_job r = jid \<and> row_attempt_number r = number) (job_attempts_table db)"

definition require_postgresql_coordination :: "store_config \<Rightarrow> unit res" where
  "require_postgresql_coordination env = checks
     [(\<not> postgresql env, ControlPlaneRepositoryError ''Leased worker coordination requires PostgreSQL'')]"

text \<open>\<open>except IntegrityError\<close> and \<open>except SQLAlchemyError\<close> around a transaction.\<close>

definition sql_errors :: "exn \<Rightarrow> exn \<Rightarrow> 'a tx \<Rightarrow> 'a tx" where
  "sql_errors integrity other m db =
     rcatch is_sqlalchemy_error (\<lambda>e. Inl (if is_integrity_error e then integrity else other)) (m db)"

section \<open>Steps shared by the operations\<close>

definition lock_active_lease ::
    "clock \<Rightarrow> db \<Rightarrow> job_row option \<Rightarrow> string \<Rightarrow> int \<Rightarrow> string
     \<Rightarrow> (job_row \<times> job_record \<times> attempt_row \<times> instant) res" where
  "lock_active_lease clock db locked_job jid number token =
     rbind (of_option lease_lost locked_job) (\<lambda>row.
     rbind (job_record_of row) (\<lambda>current.
     rbind (of_option lease_lost (find_attempt_row db jid number)) (\<lambda>arow.
     rbind (attempt_record_of arow) (\<lambda>_.
     let locked_at = clock 0 in
     rbind (checks
       [(job_status current \<notin> {RUNNING, CANCEL_REQUESTED} \<or> attempt_count current \<noteq> number \<or>
           attempt_status (row_attempt arow) \<noteq> ATTEMPT_RUNNING \<or> lease_token arow \<noteq> token \<or>
           lease_expires_at (row_attempt arow) \<le> locked_at, lease_lost)])
       (\<lambda>_. Inr (row, current, arow, locked_at))))))"

text \<open>The compare-and-set on the row version.\<close>

definition update_job :: "job_row \<Rightarrow> job_record \<Rightarrow> unit tx" where
  "update_job row record db =
     rbind (checks [(row_version row < 0, CorruptRecordError ''Stored job version is invalid'')]) (\<lambda>_.
     tbind (update_jobs (\<lambda>r. row_job_id r = job_id record \<and> row_version r = row_version row)
         (\<lambda>r. r\<lparr>row_job := (row_job r)\<lparr>job_status := job_status record,
                 attempt_count := attempt_count record, max_attempts := max_attempts record,
                 available_at := available_at record, job_error_code := job_error_code record,
                 job_updated_at := job_updated_at record\<rparr>,
               row_version := row_version row + 1\<rparr>))
       (\<lambda>changed. lift_res (checks
         [(changed \<noteq> 1, ConcurrentTransitionError ''Job changed during worker transition'')])) db)"

text \<open>\<open>lease_time\<close> is the clock reading of the update, or \<open>None\<close> when an expired lease is allowed.\<close>

definition finish_attempt ::
    "string \<Rightarrow> int \<Rightarrow> string \<Rightarrow> job_attempt_status \<Rightarrow> string option \<Rightarrow> instant \<Rightarrow> instant option
     \<Rightarrow> unit tx" where
  "finish_attempt jid number token status error_code finished lease_time =
     tbind (update_attempts
         (\<lambda>r. row_attempt_job r = jid \<and> row_attempt_number r = number \<and>
              attempt_status (row_attempt r) = ATTEMPT_RUNNING \<and> lease_token r = token \<and>
              (case lease_time of None \<Rightarrow> True | Some t \<Rightarrow> lease_expires_at (row_attempt r) > t))
         (\<lambda>r. r\<lparr>row_attempt := (row_attempt r)\<lparr>attempt_status := status,
                 attempt_error_code := error_code, finished_at := Some finished\<rparr>\<rparr>))
       (\<lambda>changed. lift_res (checks [(changed \<noteq> 1, lease_lost)]))"

definition cancel_active_attempt ::
    "job_row \<Rightarrow> job_record \<Rightarrow> int \<Rightarrow> string \<Rightarrow> instant \<Rightarrow> instant option \<Rightarrow> job_record tx" where
  "cancel_active_attempt row current number token now lease_time =
     (let transition_at = max now (job_updated_at current) in
      tbind (lift_res (rcatch is_value_error
          (\<lambda>_. Inl (IllegalJobTransitionError ''Job cannot be canceled''))
          (transition_to current CANCELED (at_utc transition_at) None None))) (\<lambda>canceled.
      tbind (finish_attempt (job_id current) number token ATTEMPT_CANCELED None transition_at lease_time)
        (\<lambda>_.
      tbind (update_job row canceled) (\<lambda>_. treturn canceled))))"

definition require_terminal_attempt ::
    "db \<Rightarrow> string \<Rightarrow> int \<Rightarrow> string \<Rightarrow> job_attempt_status \<Rightarrow> job_attempt_record res" where
  "require_terminal_attempt db jid number token status =
     (case find_attempt_row db jid number of
        None \<Rightarrow> Inl lease_lost
      | Some r \<Rightarrow> (if lease_token r \<noteq> token \<or> attempt_status (row_attempt r) \<noteq> status
                  then Inl lease_lost else attempt_record_of r))"

definition is_migrated_terminal_job :: "db \<Rightarrow> job_record \<Rightarrow> bool res" where
  "is_migrated_terminal_job db j =
     (if job_status j \<notin> {SUCCEEDED, FAILED} \<or> attempt_count j \<noteq> 1 \<or> max_attempts j \<noteq> 3 \<or>
         available_at j \<noteq> job_created_at j
      then Inr False
      else case find_attempt_row db (job_id j) 1 of
        None \<Rightarrow> Inr False
      | Some row \<Rightarrow> rbind (attempt_record_of row) (\<lambda>a.
          let lease_delta = lease_expires_at a - job_updated_at j in
          Inr (worker_id row = ''phase5-migration'' \<and>
            lease_token row = ''phase5-migration-token-000000000000'' \<and>
            (attempt_status a = ATTEMPT_SUCCEEDED \<and> job_status j = SUCCEEDED \<or>
             attempt_status a = ATTEMPT_FAILED \<and> job_status j = FAILED) \<and>
            attempt_error_code a = job_error_code j \<and> started_at a = job_created_at j \<and>
            heartbeat_at a = job_updated_at j \<and> finished_at a = Some (job_updated_at j) \<and>
            0 < lease_delta \<and> lease_delta \<le> seconds 1)))"

definition load_job_payload ::
    "store_config \<Rightarrow> db \<Rightarrow> job_record \<Rightarrow> bool \<Rightarrow> job_payload option res" where
  "load_job_payload env db j required =
     (case List.find (\<lambda>r. pr_job_id r = job_id j) (job_payloads_table db) of
        None \<Rightarrow> rbind (if required then Inr False else is_migrated_terminal_job db j) (\<lambda>migrated.
          if migrated then Inr None
          else Inl (CorruptRecordError ''Stored job has no worker payload''))
      | Some row \<Rightarrow> rcatch (\<lambda>e. is_value_error e \<or> (\<exists>m. e = PayloadTooLargeError m))
          (\<lambda>_. Inl (CorruptRecordError ''Stored worker payload is invalid''))
          (rbind (require_payload_size (pr_document row)) (\<lambda>_.
           rbind (of_option (ValueError ''json'') (env_parse env (pr_document row))) (\<lambda>v.
           rbind (canonical_json_bytes (env_jcs env) v) (\<lambda>b.
           rbind (checks [(b \<noteq> pr_document row, ValueError ''worker payload is not canonical'')]) (\<lambda>_.
           rbind (of_option (ValidationError ''payload'') (payload_reader env v)) (\<lambda>p.
           rbind (validate_payload p) (\<lambda>payload.
           rbind (payload_digest (env_jcs env) (payload_handler env) payload) (\<lambda>digest.
           rbind (checks
             [(pr_digest row \<noteq> digest, ValueError ''worker payload digest does not match''),
              (payload_kind payload \<noteq> job_kind j, ValueError ''worker payload kind does not match''),
              (pr_created_at row \<noteq> job_created_at j,
               ValueError ''worker payload timestamp does not match'')])
             (\<lambda>_. Inr (Some payload)))))))))))"

section \<open>Submission and reads\<close>

definition get_job_where :: "db \<Rightarrow> (job_row \<Rightarrow> bool) \<Rightarrow> job_record res" where
  "get_job_where db p =
     rbind (of_option job_not_found (List.find p (jobs_table db))) job_record_of"

definition get_job :: "db \<Rightarrow> string \<Rightarrow> job_record res" where
  "get_job db jid = get_job_where db (\<lambda>r. row_job_id r = jid)"

definition get_job_by_idempotency ::
    "store_config \<Rightarrow> db \<Rightarrow> job_kind \<Rightarrow> string \<Rightarrow> job_record res" where
  "get_job_by_idempotency env db kind key =
     rbind (get_job_where db (\<lambda>r. job_kind (row_job r) = kind \<and> idempotency_key (row_job r) = key))
       (\<lambda>j. rbind (load_job_payload env db j (\<not> terminal (job_status j))) (\<lambda>_. Inr j))"

definition get_job_by_resource :: "db \<Rightarrow> job_kind \<Rightarrow> string \<Rightarrow> job_record res" where
  "get_job_by_resource db kind rid =
     get_job_where db (\<lambda>r. job_kind (row_job r) = kind \<and> resource_id (row_job r) = rid)"

definition begin_job :: "store_config \<Rightarrow> job_record \<Rightarrow> job_payload \<Rightarrow> (job_record \<times> bool) tx" where
  "begin_job env record payload db =
     rbind (checks
       [(job_status record \<noteq> QUEUED \<or> attempt_count record \<noteq> 0,
         ValueError ''new jobs must start as an unattempted queued job''),
        (payload_kind payload \<noteq> job_kind record,
         ValueError ''job payload kind does not match the job'')]) (\<lambda>_.
     rbind (canonical_json_bytes (env_jcs env) (serialize_payload (payload_handler env) payload))
       (\<lambda>document.
     rbind (require_payload_size document) (\<lambda>_.
     rbind (payload_digest (env_jcs env) (payload_handler env) payload) (\<lambda>digest.
     case tbind (insert_job \<lparr>row_job = record, row_version = 0\<rparr>) (\<lambda>_.
            insert_payload \<lparr>pr_job_id = job_id record, pr_digest = digest, pr_document = document,
              pr_created_at = job_created_at record\<rparr>) db of
       Inr (_, db') \<Rightarrow> Inr ((record, True), db')
     | Inl _ \<Rightarrow>
         rbind (rcatch is_store_not_found_error
             (\<lambda>_. case get_job_by_resource db (job_kind record) (resource_id record) of
                Inl e \<Rightarrow> (if is_store_not_found_error e then Inl (ImmutableRecordConflictError
                    ''Job identity conflicts with existing metadata'') else Inl e)
              | Inr _ \<Rightarrow> Inl (ResourceAlreadySubmittedError ''Resource ID was already submitted''))
             (get_job_by_idempotency env db (job_kind record) (idempotency_key record))) (\<lambda>existing.
         rbind (checks [(request_digest existing \<noteq> request_digest record,
             StoreIdempotencyConflictError ''Idempotency key was already used for a different request'')])
           (\<lambda>_. Inr ((existing, False), db)))))))"

section \<open>Claiming\<close>

record claimed_job =
  claimed :: job_record
  claimed_payload :: job_payload
  claimed_attempt :: job_attempt_record
  claimed_token :: string

definition claim_order :: "job_row \<Rightarrow> instant \<times> instant \<times> string" where
  "claim_order r = (available_at (row_job r), job_created_at (row_job r), job_id (row_job r))"

definition claimable :: "instant \<Rightarrow> (string \<Rightarrow> bool) \<Rightarrow> job_row \<Rightarrow> bool" where
  "claimable selection_time locked r \<longleftrightarrow> job_status (row_job r) = QUEUED \<and>
     available_at (row_job r) \<le> selection_time \<and> \<not> locked (row_job_id r)"

definition claim_next_job ::
    "store_config \<Rightarrow> clock \<Rightarrow> (string \<Rightarrow> bool) \<Rightarrow> string \<Rightarrow> string \<Rightarrow> int \<Rightarrow> claimed_job option tx" where
  "claim_next_job env clock locked worker token lease_seconds db =
     rbind (worker_id_value worker) (\<lambda>_.
     rbind (lease_token_value token) (\<lambda>_.
     rbind (bounded_int lease_seconds 5 3600 ''lease duration'') (\<lambda>duration.
     rbind (require_postgresql_coordination env) (\<lambda>_.
     sql_errors (ConcurrentTransitionError ''Job claim conflicted with another writer'')
       (ControlPlaneRepositoryError ''Could not claim queued job'')
       (\<lambda>db. case sort_key claim_order (filter (claimable (clock 0) locked) (jobs_table db)) of
          [] \<Rightarrow> Inr (None, db)
        | row # _ \<Rightarrow>
            rbind (job_record_of row) (\<lambda>current.
            rbind (load_job_payload env db current True) (\<lambda>loaded.
            rbind (of_option (CorruptRecordError ''Queued job has no worker payload'') loaded) (\<lambda>payload.
            let lease_started_at = clock 1;
                transition_at = max lease_started_at (job_updated_at current) in
            rbind (rcatch is_value_error
                (\<lambda>_. Inl (IllegalJobTransitionError ''Job cannot be claimed''))
                (transition_to current RUNNING (at_utc transition_at) None None)) (\<lambda>running.
            let attempt = \<lparr>attempt_job_id = job_id running, attempt_number = attempt_count running,
                  attempt_status = ATTEMPT_RUNNING, attempt_error_code = None,
                  started_at = lease_started_at, heartbeat_at = lease_started_at,
                  lease_expires_at = lease_started_at + seconds duration, finished_at = None\<rparr> in
            tbind (update_job row running) (\<lambda>_.
            tbind (insert_attempt \<lparr>row_attempt = attempt, worker_id = worker, lease_token = token\<rparr>)
              (\<lambda>_.
            tbind (lift_res (validate_attempt attempt)) (\<lambda>a.
            treturn (Some \<lparr>claimed = running, claimed_payload = payload, claimed_attempt = a,
              claimed_token = token\<rparr>)))) db)))))
       db))))"

section \<open>Fenced worker operations\<close>

definition heartbeat_job ::
    "clock \<Rightarrow> string \<Rightarrow> int \<Rightarrow> string \<Rightarrow> int \<Rightarrow> job_record tx" where
  "heartbeat_job clock jid attempt token lease_seconds db =
     rbind (bounded_int attempt 1 10 ''attempt number'') (\<lambda>number.
     rbind (lease_token_value token) (\<lambda>_.
     rbind (bounded_int lease_seconds 5 3600 ''lease duration'') (\<lambda>duration.
     sql_errors (ControlPlaneRepositoryError ''Could not heartbeat worker lease'')
       (ControlPlaneRepositoryError ''Could not heartbeat worker lease'')
       (\<lambda>db. rbind (lock_active_lease clock db (find_job_row db jid) jid number token)
          (\<lambda>(_, current, _, locked_at).
          tbind (update_attempts
              (\<lambda>r. row_attempt_job r = jid \<and> row_attempt_number r = number \<and>
                 attempt_status (row_attempt r) = ATTEMPT_RUNNING \<and> lease_token r = token \<and>
                 lease_expires_at (row_attempt r) > clock 1)
              (\<lambda>r. r\<lparr>row_attempt := (row_attempt r)\<lparr>heartbeat_at := locked_at,
                 lease_expires_at := locked_at + seconds duration\<rparr>\<rparr>)) (\<lambda>changed.
          tbind (lift_res (checks [(changed \<noteq> 1, lease_lost)])) (\<lambda>_. treturn current)) db))
       db)))"

definition retry_job ::
    "clock \<Rightarrow> string \<Rightarrow> int \<Rightarrow> string \<Rightarrow> int \<Rightarrow> string \<Rightarrow> job_record tx" where
  "retry_job clock jid attempt token delay_seconds error_code db =
     rbind (bounded_int attempt 1 10 ''attempt number'') (\<lambda>number.
     rbind (lease_token_value token) (\<lambda>_.
     rbind (bounded_int delay_seconds 1 3600 ''retry delay'') (\<lambda>delay.
     rbind (safe_code error_code) (\<lambda>safe_error.
     sql_errors (ControlPlaneRepositoryError ''Could not schedule job retry'')
       (ControlPlaneRepositoryError ''Could not schedule job retry'')
       (\<lambda>db. rbind (lock_active_lease clock db (find_job_row db jid) jid number token)
          (\<lambda>(row, current, _, locked_at).
          if job_status current = CANCEL_REQUESTED then
            cancel_active_attempt row current number token locked_at (Some (clock 1)) db
          else let transition_at = max locked_at (job_updated_at current) in
            rbind (rcatch is_value_error
                (\<lambda>_. Inl (IllegalJobTransitionError ''Job cannot be scheduled for another attempt''))
                (transition_to current QUEUED (at_utc transition_at) None
                  (Some (at_utc (transition_at + seconds delay))))) (\<lambda>queued.
            tbind (finish_attempt jid number token RETRY_SCHEDULED (Some safe_error) transition_at
                (Some (clock 1))) (\<lambda>_.
            tbind (update_job row queued) (\<lambda>_. treturn queued)) db)))
       db))))"

definition fail_job ::
    "clock \<Rightarrow> string \<Rightarrow> int \<Rightarrow> string \<Rightarrow> string \<Rightarrow> job_record tx" where
  "fail_job clock jid attempt token error_code db =
     rbind (bounded_int attempt 1 10 ''attempt number'') (\<lambda>number.
     rbind (lease_token_value token) (\<lambda>_.
     rbind (safe_code error_code) (\<lambda>safe_error.
     sql_errors (ControlPlaneRepositoryError ''Could not fail job'')
       (ControlPlaneRepositoryError ''Could not fail job'')
       (\<lambda>db. rbind (lock_active_lease clock db (find_job_row db jid) jid number token)
          (\<lambda>(row, current, _, locked_at).
          if job_status current = CANCEL_REQUESTED then
            cancel_active_attempt row current number token locked_at (Some (clock 1)) db
          else let transition_at = max locked_at (job_updated_at current) in
            rbind (rcatch is_value_error (\<lambda>_. Inl (IllegalJobTransitionError ''Job cannot fail''))
                (transition_to current FAILED (at_utc transition_at) (Some safe_error) None)) (\<lambda>failed.
            tbind (finish_attempt jid number token ATTEMPT_FAILED (Some safe_error) transition_at
                (Some (clock 1))) (\<lambda>_.
            tbind (update_job row failed) (\<lambda>_. treturn failed)) db)))
       db)))"

definition acknowledge_cancellation ::
    "clock \<Rightarrow> string \<Rightarrow> int \<Rightarrow> string \<Rightarrow> job_record tx" where
  "acknowledge_cancellation clock jid attempt token db =
     rbind (bounded_int attempt 1 10 ''attempt number'') (\<lambda>number.
     rbind (lease_token_value token) (\<lambda>_.
     sql_errors (ControlPlaneRepositoryError ''Could not acknowledge job cancellation'')
       (ControlPlaneRepositoryError ''Could not acknowledge job cancellation'')
       (\<lambda>db. rbind (of_option lease_lost (find_job_row db jid)) (\<lambda>row.
          rbind (job_record_of row) (\<lambda>first.
          if job_status first = CANCELED then
            rbind (require_terminal_attempt db jid number token ATTEMPT_CANCELED)
              (\<lambda>_. Inr (first, db))
          else rbind (lock_active_lease clock db (Some row) jid number token)
            (\<lambda>(row, current, _, locked_at).
            if job_status current \<noteq> CANCEL_REQUESTED then
              Inl (IllegalJobTransitionError ''Job has no cancellation request'')
            else cancel_active_attempt row current number token locked_at (Some (clock 1)) db))))
       db))"

definition cancel_job :: "clock \<Rightarrow> string \<Rightarrow> job_record tx" where
  "cancel_job clock jid =
     sql_errors (ControlPlaneRepositoryError ''Could not cancel job'')
       (ControlPlaneRepositoryError ''Could not cancel job'')
       (\<lambda>db. rbind (of_option job_not_found (find_job_row db jid)) (\<lambda>row.
          rbind (job_record_of row) (\<lambda>current.
          if job_status current \<in> {CANCELED, CANCEL_REQUESTED} then Inr (current, db)
          else if job_status current \<in> {SUCCEEDED, FAILED} then
            Inl (IllegalJobTransitionError ''Terminal job cannot be canceled'')
          else rbind (checks
            [(job_status current = RUNNING \<and>
                (case find_attempt_row db jid (attempt_count current) of None \<Rightarrow> True
                 | Some a \<Rightarrow> attempt_status (row_attempt a) \<noteq> ATTEMPT_RUNNING),
              CorruptRecordError ''Running job has no active attempt'')]) (\<lambda>_.
          let transition_at = max (clock 0) (job_updated_at current) in
          rbind (request_cancellation current (at_utc transition_at)) (\<lambda>canceled.
          tbind (update_job row canceled) (\<lambda>_. treturn canceled) db)))))"

section \<open>The reaper\<close>

definition expired :: "instant \<Rightarrow> (string \<Rightarrow> bool) \<Rightarrow> db \<Rightarrow> attempt_row \<Rightarrow> bool" where
  "expired selection_time locked db a \<longleftrightarrow>
     attempt_status (row_attempt a) = ATTEMPT_RUNNING \<and>
     lease_expires_at (row_attempt a) \<le> selection_time \<and> \<not> locked (row_attempt_job a) \<and>
     (\<exists>r \<in> set (jobs_table db). row_job_id r = row_attempt_job a \<and>
        row_attempt_number a = attempt_count (row_job r) \<and>
        job_status (row_job r) \<in> {RUNNING, CANCEL_REQUESTED})"

definition expiry_order :: "attempt_row \<Rightarrow> instant \<times> string" where
  "expiry_order a = (lease_expires_at (row_attempt a), row_attempt_job a)"

definition expired_candidates ::
    "instant \<Rightarrow> (string \<Rightarrow> bool) \<Rightarrow> nat \<Rightarrow> db \<Rightarrow> (string \<times> int) list" where
  "expired_candidates selection_time locked limit db = map attempt_key (take limit
     (sort_key expiry_order (filter (expired selection_time locked db) (job_attempts_table db))))"

definition retry_delay :: "int \<Rightarrow> int \<Rightarrow> int \<Rightarrow> int" where
  "retry_delay base maximum attempts = min (base * 2 ^ nat (attempts - 1)) maximum"

definition reap_one :: "int \<Rightarrow> int \<Rightarrow> instant \<Rightarrow> string \<times> int \<Rightarrow> job_record tx" where
  "reap_one retry_base retry_max now candidate db =
     (case (find_job_row db (fst candidate), find_attempt_row db (fst candidate) (snd candidate)) of
        (Some row, Some arow) \<Rightarrow>
          rbind (job_record_of row) (\<lambda>current.
          let transition_at = max now (job_updated_at current); token = lease_token arow in
          if job_status current = CANCEL_REQUESTED then
            cancel_active_attempt row current (snd candidate) token transition_at None db
          else
            tbind (finish_attempt (fst candidate) (snd candidate) token LEASE_EXPIRED
                (Some ''lease_expired'') transition_at None) (\<lambda>_.
            tbind (lift_res
               (if attempt_count current \<ge> max_attempts current then
                  transition_to current FAILED (at_utc transition_at) (Some ''lease_expired'') None
                else transition_to current QUEUED (at_utc transition_at) None
                  (Some (at_utc (transition_at
                     + seconds (retry_delay retry_base retry_max (attempt_count current)))))))
              (\<lambda>next_record.
            tbind (update_job row next_record) (\<lambda>_. treturn next_record))) db)
      | _ \<Rightarrow> Inl (CorruptRecordError ''Expired worker state is incomplete''))"

fun reap_all :: "int \<Rightarrow> int \<Rightarrow> clock \<Rightarrow> nat \<Rightarrow> (string \<times> int) list \<Rightarrow> job_record list tx" where
  "reap_all retry_base retry_max clock n [] = treturn []"
| "reap_all retry_base retry_max clock n (c # cs) =
     tbind (reap_one retry_base retry_max (clock n) c) (\<lambda>j.
     tbind (reap_all retry_base retry_max clock (Suc n) cs) (\<lambda>js. treturn (j # js)))"

definition reap_expired_jobs ::
    "store_config \<Rightarrow> clock \<Rightarrow> (string \<Rightarrow> bool) \<Rightarrow> int \<Rightarrow> int \<Rightarrow> int \<Rightarrow> job_record list tx" where
  "reap_expired_jobs env clock locked limit retry_base_seconds retry_max_seconds db =
     rbind (bounded_int limit 1 100 ''reaper limit'') (\<lambda>batch_limit.
     rbind (bounded_int retry_base_seconds 1 300 ''retry base'') (\<lambda>retry_base.
     rbind (bounded_int retry_max_seconds 1 3600 ''retry maximum'') (\<lambda>retry_max.
     rbind (checks [(retry_max < retry_base,
       ValueError ''retry maximum cannot be below retry base'')]) (\<lambda>_.
     rbind (require_postgresql_coordination env) (\<lambda>_.
     sql_errors (ControlPlaneRepositoryError ''Could not recover expired jobs'')
       (ControlPlaneRepositoryError ''Could not recover expired jobs'')
       (\<lambda>db. reap_all retry_base retry_max clock 1
          (expired_candidates (clock 0) locked (nat batch_limit) db) db)
       db)))))"

section \<open>Publishing evidence\<close>

definition require_completion_identity :: "job_record \<Rightarrow> job_kind \<Rightarrow> string \<Rightarrow> unit res" where
  "require_completion_identity current kind rid = checks
     [(job_kind current \<noteq> kind \<or> resource_id current \<noteq> rid,
       IllegalJobTransitionError ''Job does not own the completed resource''),
      (job_status current \<notin> {RUNNING, CANCEL_REQUESTED, SUCCEEDED},
       IllegalJobTransitionError ''Only running jobs can publish completed evidence'')]"

definition require_identical_run :: "store_config \<Rightarrow> run_row option \<Rightarrow> string \<Rightarrow> unit res" where
  "require_identical_run env stored document =
     rbind (of_option (CorruptRecordError ''Succeeded run job has no stored evidence'') stored) (\<lambda>row.
     rbind (run_record_of env row) (\<lambda>r.
     rbind (model_text env (run_codec env) (run_evidence r)) (\<lambda>text.
     checks [(text \<noteq> document,
       ImmutableRecordConflictError ''Run ID already contains different evidence'')])))"

definition require_identical_decision ::
    "store_config \<Rightarrow> decision_row option \<Rightarrow> string \<Rightarrow> unit res" where
  "require_identical_decision env stored document =
     rbind (of_option (CorruptRecordError ''Succeeded comparison job has no stored evidence'') stored)
       (\<lambda>row.
     rbind (release_decision_record_of env row) (\<lambda>r.
     rbind (model_text env (decision_codec env) (decision r)) (\<lambda>text.
     checks [(text \<noteq> document,
       ImmutableRecordConflictError ''Decision ID already contains different evidence'')])))"

text \<open>
  The transaction both completions share: \<open>identical\<close> compares the stored evidence with the
  document offered, \<open>publish\<close> inserts it.
\<close>

definition complete_transaction ::
    "clock \<Rightarrow> string \<Rightarrow> int \<Rightarrow> string \<Rightarrow> job_kind \<Rightarrow> string \<Rightarrow> ('row option \<Rightarrow> unit res)
     \<Rightarrow> (db \<Rightarrow> 'row option) \<Rightarrow> unit tx \<Rightarrow> job_record tx" where
  "complete_transaction clock jid number token kind rid identical find_stored publish db =
     rbind (of_option lease_lost (find_job_row db jid)) (\<lambda>row.
     rbind (job_record_of row) (\<lambda>first.
     rbind (checks [(job_status first \<notin> {RUNNING, CANCEL_REQUESTED, SUCCEEDED}, lease_lost)]) (\<lambda>_.
     rbind (require_completion_identity first kind rid) (\<lambda>_.
     let stored = find_stored db in
     if job_status first = SUCCEEDED then
       rbind (require_terminal_attempt db jid number token ATTEMPT_SUCCEEDED) (\<lambda>_.
       rbind (identical stored) (\<lambda>_. Inr (first, db)))
     else rbind (lock_active_lease clock db (Some row) jid number token)
       (\<lambda>(row, current, _, locked_at).
       if job_status current = CANCEL_REQUESTED then
         cancel_active_attempt row current number token locked_at (Some (clock 1)) db
       else tbind (if stored = None then publish else lift_res (identical stored)) (\<lambda>_.
         let transition_at = max locked_at (job_updated_at current) in
         tbind (lift_res (transition_to current SUCCEEDED (at_utc transition_at) None None))
           (\<lambda>succeeded.
         tbind (finish_attempt jid number token ATTEMPT_SUCCEEDED None transition_at (Some (clock 1)))
           (\<lambda>_.
         tbind (update_job row succeeded) (\<lambda>_. treturn succeeded)))) db)))))"

definition complete_run ::
    "store_config \<Rightarrow> clock \<Rightarrow> string \<Rightarrow> run_record \<Rightarrow> int \<Rightarrow> string \<Rightarrow> job_record tx" where
  "complete_run env clock jid r attempt token db =
     rbind (bounded_int attempt 1 10 ''attempt number'') (\<lambda>number.
     rbind (lease_token_value token) (\<lambda>_.
     rbind (prepare_run env r) (\<lambda>(document, units).
     sql_errors (ImmutableRecordConflictError ''Run evidence conflicts with stored metadata'')
       (ControlPlaneRepositoryError ''Could not complete run job'')
       (complete_transaction clock jid number token RUN_JOB (run_id (run_evidence r))
          (\<lambda>stored. require_identical_run env stored document)
          (\<lambda>db. List.find (\<lambda>row. rr_run_id row = run_id (run_evidence r)) (runs_table db))
          (insert_run (run_row_of r document units)))
       db)))"

definition complete_release_decision ::
    "store_config \<Rightarrow> clock \<Rightarrow> string \<Rightarrow> release_decision_record \<Rightarrow> int \<Rightarrow> string \<Rightarrow> job_record tx" where
  "complete_release_decision env clock jid r attempt token db =
     rbind (bounded_int attempt 1 10 ''attempt number'') (\<lambda>number.
     rbind (lease_token_value token) (\<lambda>_.
     rbind (model_text env (decision_codec env) (decision r)) (\<lambda>document.
     rbind (require_document_size env document) (\<lambda>_.
     sql_errors (ConcurrentTransitionError ''Decision completion conflicted with another writer'')
       (ControlPlaneRepositoryError ''Could not complete comparison job'')
       (complete_transaction clock jid number token COMPARISON_JOB (decision_id r)
          (\<lambda>stored. require_identical_decision env stored document)
          (\<lambda>db. List.find (\<lambda>row. dcr_decision_id row = decision_id r) (release_decisions_table db))
          (insert_decision (decision_row_of r document)))
       db))))"

section \<open>Attempt history\<close>

definition attempts_of :: "db \<Rightarrow> string \<Rightarrow> attempt_row list" where
  "attempts_of db jid =
     sort_key row_attempt_number (filter (\<lambda>r. row_attempt_job r = jid) (job_attempts_table db))"

definition list_job_attempts :: "db \<Rightarrow> string \<Rightarrow> job_attempt_record list res" where
  "list_job_attempts db jid =
     rbind (of_option job_not_found (find_job_row db jid)) (\<lambda>row.
     rbind (job_record_of row) (\<lambda>j.
     rbind (rmap attempt_record_of (attempts_of db jid)) (\<lambda>records.
     rbind (checks [(map attempt_number records \<noteq> [1 .. attempt_count j],
       CorruptRecordError ''Stored job attempt history is incomplete'')]) (\<lambda>_. Inr records))))"

end
