(* ===== verification/JobInvariant.thy ===== *)
theory JobInvariant
  imports JobStore
begin

text \<open>
  The invariant of the job tables, what each operation of \<open>JobStore\<close> does to them, and the
  proof that every operation keeps the invariant, whatever the clock and the other transactions.
\<close>

section \<open>Steps of the tables\<close>

definition frozen :: "job_record \<Rightarrow> job_record \<Rightarrow> bool" where
  "frozen j j' \<longleftrightarrow>
     j' = j\<lparr>job_status := job_status j', attempt_count := attempt_count j',
            available_at := available_at j', job_error_code := job_error_code j',
            job_updated_at := job_updated_at j'\<rparr>"

lemma frozen_fields:
  "frozen j j' \<Longrightarrow> job_id j' = job_id j \<and> job_kind j' = job_kind j \<and>
     idempotency_key j' = idempotency_key j \<and> request_digest j' = request_digest j \<and>
     resource_id j' = resource_id j \<and> max_attempts j' = max_attempts j \<and>
     job_created_at j' = job_created_at j \<and> traceparent j' = traceparent j"
  unfolding frozen_def by (drule arg_cong[where f = "\<lambda>x. (job_id x, job_kind x, idempotency_key x,
    request_digest x, resource_id x, max_attempts x, job_created_at x, traceparent x)"]) simp

lemma transition_to_frozen: "transition_to j s t ec av = Inr j' \<Longrightarrow> frozen j j'"
  by (drule transition_to_Inr) (auto simp: frozen_def)

definition replace_job :: "job_row \<Rightarrow> job_record \<Rightarrow> job_row list \<Rightarrow> job_row list" where
  "replace_job row j' = map (\<lambda>r. if row_job_id r = row_job_id row
     then \<lparr>row_job = j', row_version = row_version row + 1\<rparr> else r)"

definition finished_attempt ::
    "job_attempt_status \<Rightarrow> string option \<Rightarrow> instant \<Rightarrow> attempt_row \<Rightarrow> attempt_row" where
  "finished_attempt s ec f a = a\<lparr>row_attempt := (row_attempt a)\<lparr>attempt_status := s,
     attempt_error_code := ec, finished_at := Some f\<rparr>\<rparr>"

definition replace_attempt ::
    "(attempt_row \<Rightarrow> attempt_row) \<Rightarrow> attempt_row \<Rightarrow> attempt_row list \<Rightarrow> attempt_row list" where
  "replace_attempt g arow = map (\<lambda>a. if attempt_key a = attempt_key arow then g a else a)"

lemma distinct_map_eq:
  "distinct (map f xs) \<Longrightarrow> x \<in> set xs \<Longrightarrow> y \<in> set xs \<Longrightarrow> f x = f y \<Longrightarrow> x = y"
  by (auto simp: distinct_map dest: inj_onD)

lemma row_count_1_ex: "row_count p rows = 1 \<Longrightarrow> \<exists>r \<in> set rows. p r"
  unfolding row_count_def by (metis filter_False list.size(3) zero_neq_one)

lemma update_job_Inr:
  assumes up: "update_job row j' db = Inr (u, db')"
    and con: "jobs_constraints (jobs_table db)" and mem: "row \<in> set (jobs_table db)"
    and fr: "frozen (row_job row) j'"
  shows "db' = db\<lparr>jobs_table := replace_job row j' (jobs_table db)\<rparr> \<and>
    jobs_constraints (replace_job row j' (jobs_table db))"
proof -
  let ?p = "\<lambda>r. row_job_id r = job_id j' \<and> row_version r = row_version row"
  let ?f = "\<lambda>r. r\<lparr>row_job := (row_job r)\<lparr>job_status := job_status j',
     attempt_count := attempt_count j', max_attempts := max_attempts j',
     available_at := available_at j', job_error_code := job_error_code j',
     job_updated_at := job_updated_at j'\<rparr>, row_version := row_version row + 1\<rparr>"
  from up have eq: "db' = db\<lparr>jobs_table := update_where ?p ?f (jobs_table db)\<rparr>"
    and ok: "jobs_constraints (update_where ?p ?f (jobs_table db))"
    unfolding update_job_def update_jobs_def Let_def
    by (auto simp: result_simps split: if_splits)
  have id: "job_id j' = row_job_id row" using frozen_fields[OF fr] by simp
  have only: "r = row" if "r \<in> set (jobs_table db)" "row_job_id r = row_job_id row" for r
    using con mem that unfolding jobs_constraints_def by (blast dest: distinct_map_eq)
  have new: "?f row = \<lparr>row_job = j', row_version = row_version row + 1\<rparr>"
    using frozen_fields[OF fr] by (cases row; cases j') (auto intro!: job_record.equality job_row.equality)
  have "update_where ?p ?f (jobs_table db) = replace_job row j' (jobs_table db)"
    unfolding update_where_def replace_job_def
  proof (rule map_cong, simp)
    fix r assume r: "r \<in> set (jobs_table db)"
    show "(if ?p r then ?f r else r) =
        (if row_job_id r = row_job_id row then \<lparr>row_job = j', row_version = row_version row + 1\<rparr> else r)"
    proof (cases "row_job_id r = row_job_id row")
      case True
      then have "r = row" using only[OF r] by simp
      with new id show ?thesis by simp
    next
      case False
      then show ?thesis unfolding id by simp
    qed
  qed
  with eq ok show ?thesis by simp
qed

lemma finish_attempt_Inr:
  assumes fin: "finish_attempt jid n token s ec f lt db = Inr (u, db')"
    and con: "attempts_constraints (job_attempts_table db)"
  obtains arow where "arow \<in> set (job_attempts_table db)" "attempt_key arow = (jid, n)"
    "attempt_status (row_attempt arow) = ATTEMPT_RUNNING" "lease_token arow = token"
    "\<And>t. lt = Some t \<Longrightarrow> t < lease_expires_at (row_attempt arow)"
    "db' = db\<lparr>job_attempts_table := replace_attempt (finished_attempt s ec f) arow (job_attempts_table db)\<rparr>"
    "attempts_constraints (job_attempts_table db')"
proof -
  let ?p = "\<lambda>r. row_attempt_job r = jid \<and> row_attempt_number r = n \<and>
              attempt_status (row_attempt r) = ATTEMPT_RUNNING \<and> lease_token r = token \<and>
              (case lt of None \<Rightarrow> True | Some t \<Rightarrow> lease_expires_at (row_attempt r) > t)"
  let ?g = "finished_attempt s ec f"
  let ?rows = "job_attempts_table db"
  from fin have cnt: "row_count ?p ?rows = 1"
    and eq: "db' = db\<lparr>job_attempts_table := update_where ?p ?g ?rows\<rparr>"
    and ok: "attempts_constraints (update_where ?p ?g ?rows)"
    unfolding finish_attempt_def update_attempts_def finished_attempt_def Let_def
    by (auto simp: result_simps split: if_splits)
  from row_count_1_ex[OF cnt] obtain arow where a: "arow \<in> set ?rows" "?p arow" by blast
  have only: "r = arow" if "r \<in> set ?rows" "attempt_key r = attempt_key arow" for r
    using con a that unfolding attempts_constraints_def by (blast dest: distinct_map_eq)
  have "update_where ?p ?g ?rows = replace_attempt ?g arow ?rows"
    unfolding update_where_def replace_attempt_def
  proof (rule map_cong, simp)
    fix r assume "r \<in> set ?rows"
    then show "(if ?p r then ?g r else r) = (if attempt_key r = attempt_key arow then ?g r else r)"
      using only[of r] a by (auto simp: attempt_key_def)
  qed
  with a eq ok show thesis by (intro that[of arow]) (auto simp: attempt_key_def)
qed

section \<open>The invariant\<close>

text \<open>Which outcome an attempt may have, given its job: earlier attempts were to be retried.\<close>

fun last_attempt_ok :: "job_record \<Rightarrow> job_attempt_record \<Rightarrow> bool" where
  "last_attempt_ok j a =
     (case job_status j of
        QUEUED \<Rightarrow> attempt_status a \<in> {RETRY_SCHEDULED, LEASE_EXPIRED}
      | RUNNING \<Rightarrow> attempt_status a = ATTEMPT_RUNNING
      | CANCEL_REQUESTED \<Rightarrow> attempt_status a = ATTEMPT_RUNNING
      | SUCCEEDED \<Rightarrow> attempt_status a = ATTEMPT_SUCCEEDED
      | FAILED \<Rightarrow> attempt_status a \<in> {ATTEMPT_FAILED, LEASE_EXPIRED} \<and>
          attempt_error_code a = job_error_code j
      | CANCELED \<Rightarrow> attempt_status a \<in> {ATTEMPT_CANCELED, RETRY_SCHEDULED, LEASE_EXPIRED})"

declare last_attempt_ok.simps [simp del]

definition attempt_fits :: "job_record \<Rightarrow> attempt_row \<Rightarrow> bool" where
  "attempt_fits j r \<longleftrightarrow> (let a = row_attempt r in
     attempt_number a \<le> attempt_count j \<and>
     (if attempt_number a < attempt_count j
      then attempt_status a \<in> {RETRY_SCHEDULED, LEASE_EXPIRED} else last_attempt_ok j a))"

definition numbers_of :: "attempt_row list \<Rightarrow> string \<Rightarrow> int set" where
  "numbers_of rows jid = {row_attempt_number a |a. a \<in> set rows \<and> row_attempt_job a = jid}"

definition has_evidence :: "db \<Rightarrow> job_record \<Rightarrow> bool" where
  "has_evidence db j \<longleftrightarrow>
     (case job_kind j of
        RUN_JOB \<Rightarrow> resource_id j \<in> rr_run_id ` set (runs_table db)
      | COMPARISON_JOB \<Rightarrow> resource_id j \<in> dcr_decision_id ` set (release_decisions_table db))"

definition job_row_inv :: "db \<Rightarrow> job_row \<Rightarrow> bool" where
  "job_row_inv db r \<longleftrightarrow> valid_job (row_job r) \<and>
     numbers_of (job_attempts_table db) (row_job_id r) = {1 .. attempt_count (row_job r)} \<and>
     (job_status (row_job r) = SUCCEEDED \<longrightarrow> has_evidence db (row_job r))"

definition attempt_row_inv :: "db \<Rightarrow> attempt_row \<Rightarrow> bool" where
  "attempt_row_inv db a \<longleftrightarrow> is_ok (attempt_record_of a) \<and>
     (\<exists>r \<in> set (jobs_table db). row_job_id r = row_attempt_job a \<and> attempt_fits (row_job r) a)"

definition db_inv :: "db \<Rightarrow> bool" where
  "db_inv db \<longleftrightarrow>
     jobs_constraints (jobs_table db) \<and> attempts_constraints (job_attempts_table db) \<and>
     (\<forall>r \<in> set (jobs_table db). job_row_inv db r) \<and>
     (\<forall>a \<in> set (job_attempts_table db). attempt_row_inv db a) \<and>
     distinct (map pr_job_id (job_payloads_table db)) \<and>
     pr_job_id ` set (job_payloads_table db) = row_job_id ` set (jobs_table db)"

definition empty_db :: db where
  "empty_db = \<lparr>datasets_table = [], suites_table = [], jobs_table = [], job_payloads_table = [],
     job_attempts_table = [], runs_table = [], release_decisions_table = []\<rparr>"

lemma db_inv_empty: "db_inv empty_db"
  by (simp add: db_inv_def empty_db_def jobs_constraints_def attempts_constraints_def
      running_attempts_def)

lemma db_inv_job: "db_inv db \<Longrightarrow> r \<in> set (jobs_table db) \<Longrightarrow> job_row_inv db r"
  by (simp add: db_inv_def)

lemma db_inv_attempt: "db_inv db \<Longrightarrow> a \<in> set (job_attempts_table db) \<Longrightarrow> attempt_row_inv db a"
  by (simp add: db_inv_def)

lemma same_job_row:
  "db_inv db \<Longrightarrow> r \<in> set (jobs_table db) \<Longrightarrow> r' \<in> set (jobs_table db) \<Longrightarrow>
   row_job_id r = row_job_id r' \<Longrightarrow> r = r'"
  by (rule distinct_map_eq[of row_job_id "jobs_table db"]) (simp_all add: db_inv_def jobs_constraints_def)

lemma same_attempt_row:
  "db_inv db \<Longrightarrow> a \<in> set (job_attempts_table db) \<Longrightarrow> a' \<in> set (job_attempts_table db) \<Longrightarrow>
   attempt_key a = attempt_key a' \<Longrightarrow> a = a'"
  by (rule distinct_map_eq[of attempt_key "job_attempts_table db"])
    (simp_all add: db_inv_def attempts_constraints_def)

lemma attempt_fits_row:
  assumes "db_inv db" "a \<in> set (job_attempts_table db)" "r \<in> set (jobs_table db)"
    "row_job_id r = row_attempt_job a"
  shows "attempt_fits (row_job r) a"
proof -
  from db_inv_attempt[OF assms(1,2)] obtain r' where r': "r' \<in> set (jobs_table db)"
    "row_job_id r' = row_attempt_job a" "attempt_fits (row_job r') a"
    unfolding attempt_row_inv_def by blast
  have "r' = r" using same_job_row[OF assms(1) r'(1) assms(3)] r'(2) assms(4) by simp
  with r'(3) show ?thesis by simp
qed

lemma job_record_of_Inr [result_simps]:
  "job_record_of row = Inr j \<longleftrightarrow> j = row_job row \<and> valid_job (row_job row)"
proof (cases "validate_job_record (row_job row)")
  case (Inl e)
  then have "\<not> valid_job (row_job row)" using validate_job_record_valid[of "row_job row"] by simp
  then show ?thesis using Inl by (simp add: job_record_of_def)
next
  case (Inr x)
  with validate_job_record_Inr[of "row_job row" x] have x: "x = row_job row" "valid_job (row_job row)"
    by (simp_all add: valid_job_def)
  then show ?thesis unfolding job_record_of_def Inr by auto
qed

lemma replace_job_ids:
  "frozen (row_job row) j' \<Longrightarrow> map row_job_id (replace_job row j' rows) = map row_job_id rows"
  by (simp add: replace_job_def frozen_fields)

text \<open>The general step: one job row changes, and only its own attempts.\<close>

lemma db_inv_change:
  assumes inv: "db_inv db" and row: "row \<in> set (jobs_table db)"
    and fr: "frozen (row_job row) j'" and valid: "valid_job j'"
    and jobs': "jobs_table db' = replace_job row j' (jobs_table db)"
    and cj: "jobs_constraints (jobs_table db')"
    and ca: "attempts_constraints (job_attempts_table db')"
    and others: "\<And>a. row_attempt_job a \<noteq> row_job_id row \<Longrightarrow>
      a \<in> set (job_attempts_table db') \<longleftrightarrow> a \<in> set (job_attempts_table db)"
    and own: "\<And>a. a \<in> set (job_attempts_table db') \<Longrightarrow> row_attempt_job a = row_job_id row \<Longrightarrow>
      is_ok (attempt_record_of a) \<and> attempt_fits j' a"
    and nums: "numbers_of (job_attempts_table db') (row_job_id row) = {1 .. attempt_count j'}"
    and pay: "job_payloads_table db' = job_payloads_table db"
    and runs: "set (runs_table db) \<subseteq> set (runs_table db')"
    and decs: "set (release_decisions_table db) \<subseteq> set (release_decisions_table db')"
    and ev: "job_status j' = SUCCEEDED \<Longrightarrow> has_evidence db' j'"
  shows "db_inv db'"
proof -
  let ?new = "\<lparr>row_job = j', row_version = row_version row + 1\<rparr>"
  have id': "job_id j' = row_job_id row" using frozen_fields[OF fr] by simp
  have jobs_mem: "r \<in> set (jobs_table db') \<longleftrightarrow>
      r = ?new \<or> r \<in> set (jobs_table db) \<and> row_job_id r \<noteq> row_job_id row" for r
    using row unfolding jobs' replace_job_def by (auto split: if_splits)
  have mono: "has_evidence db j \<Longrightarrow> has_evidence db' j" for j
    using runs decs by (auto simp: has_evidence_def split: job_kind.splits)
  have nums_other: "jid \<noteq> row_job_id row \<Longrightarrow>
      numbers_of (job_attempts_table db') jid = numbers_of (job_attempts_table db) jid" for jid
    unfolding numbers_of_def using others by (metis (no_types, opaque_lifting))
  have jr: "job_row_inv db' r" if r: "r \<in> set (jobs_table db')" for r
  proof (cases "row_job_id r = row_job_id row")
    case True
    then have "r = ?new" using r jobs_mem by blast
    then show ?thesis using valid nums ev id' by (simp add: job_row_inv_def)
  next
    case False
    then have "r \<in> set (jobs_table db)" using r jobs_mem id' by auto
    from db_inv_job[OF inv this] show ?thesis
      using False by (simp add: job_row_inv_def nums_other mono)
  qed
  have ar: "attempt_row_inv db' a" if a: "a \<in> set (job_attempts_table db')" for a
  proof (cases "row_attempt_job a = row_job_id row")
    case True
    have "?new \<in> set (jobs_table db')" using jobs_mem by blast
    moreover have "row_job_id ?new = row_attempt_job a" using True id' by simp
    ultimately show ?thesis unfolding attempt_row_inv_def
      using own[OF a True] by (intro conjI bexI[of _ ?new]) simp_all
  next
    case False
    then have "a \<in> set (job_attempts_table db)" using a others by blast
    from db_inv_attempt[OF inv this] obtain r where "is_ok (attempt_record_of a)"
      "r \<in> set (jobs_table db)" "row_job_id r = row_attempt_job a" "attempt_fits (row_job r) a"
      unfolding attempt_row_inv_def by blast
    then show ?thesis unfolding attempt_row_inv_def using False jobs_mem by metis
  qed
  have ids: "row_job_id ` set (jobs_table db') = row_job_id ` set (jobs_table db)"
    unfolding jobs' using replace_job_ids[OF fr] by (metis set_map)
  show ?thesis
    using inv cj ca jr ar ids pay unfolding db_inv_def by simp
qed

section \<open>Settling an attempt\<close>

definition attempt_valid :: "job_attempt_record \<Rightarrow> bool" where
  "attempt_valid a \<longleftrightarrow> is_stable_id (attempt_job_id a) \<and> 0 < attempt_number a \<and>
     (case attempt_error_code a of None \<Rightarrow> True | Some c \<Rightarrow> is_safe_code c) \<and>
     started_at a \<le> heartbeat_at a \<and> heartbeat_at a < lease_expires_at a \<and>
     (attempt_status a = ATTEMPT_RUNNING \<longleftrightarrow> finished_at a = None) \<and>
     (case finished_at a of None \<Rightarrow> True | Some f \<Rightarrow> heartbeat_at a \<le> f) \<and>
     (attempt_status a \<in> failed_statuses \<longleftrightarrow> attempt_error_code a \<noteq> None)"

lemma validate_attempt_Inr [result_simps]:
  "validate_attempt a = Inr a' \<longleftrightarrow> a' = a \<and> attempt_valid a"
  unfolding validate_attempt_def attempt_valid_def
  by (cases "finished_at a"; cases "attempt_error_code a") (auto simp: result_simps not_le not_less)

lemma attempt_record_of_Inr [result_simps]:
  "attempt_record_of r = Inr a \<longleftrightarrow> a = row_attempt r \<and> attempt_valid (row_attempt r) \<and>
     is_stable_id (worker_id r) \<and> is_lease_token (lease_token r)"
proof -
  have "attempt_valid (row_attempt r) \<longleftrightarrow> validate_attempt (row_attempt r) = Inr (row_attempt r)"
    by (simp add: validate_attempt_Inr)
  then show ?thesis
    unfolding attempt_record_of_def
    by (cases "validate_attempt (row_attempt r)")
      (auto simp: rcatch_Inr_iff validate_attempt_Inr rbind_Inr_iff checks_Cons_Inr)
qed

lemma attempt_record_of_ok:
  "is_ok (attempt_record_of r) \<longleftrightarrow> attempt_valid (row_attempt r) \<and>
     is_stable_id (worker_id r) \<and> is_lease_token (lease_token r)"
  by (auto simp: is_ok_iff attempt_record_of_Inr)

lemma numbers_of_keys: "numbers_of rows jid = {n. (jid, n) \<in> set (map attempt_key rows)}"
  by (auto simp: numbers_of_def attempt_key_def)

lemma replace_attempt_keys:
  "(\<And>a. attempt_key (g a) = attempt_key a) \<Longrightarrow>
   map attempt_key (replace_attempt g arow rows) = map attempt_key rows"
  by (simp add: replace_attempt_def)

lemma replace_attempt_numbers:
  "(\<And>a. attempt_key (g a) = attempt_key a) \<Longrightarrow>
   numbers_of (replace_attempt g arow rows) jid = numbers_of rows jid"
  by (simp only: numbers_of_keys replace_attempt_keys)

lemma finished_attempt_simps [simp]:
  "attempt_key (finished_attempt s ec f a) = attempt_key a"
  "worker_id (finished_attempt s ec f a) = worker_id a"
  "lease_token (finished_attempt s ec f a) = lease_token a"
  "row_attempt (finished_attempt s ec f a) = (row_attempt a)\<lparr>attempt_status := s,
     attempt_error_code := ec, finished_at := Some f\<rparr>"
  by (simp_all add: finished_attempt_def attempt_key_def)

lemma running_attempt_current:
  assumes "db_inv db" "a \<in> set (job_attempts_table db)" "r \<in> set (jobs_table db)"
    "row_job_id r = row_attempt_job a" "attempt_status (row_attempt a) = ATTEMPT_RUNNING"
  shows "row_attempt_number a = attempt_count (row_job r) \<and>
    job_status (row_job r) \<in> {RUNNING, CANCEL_REQUESTED}"
  using attempt_fits_row[OF assms(1-4)] assms(5)
  by (auto simp: attempt_fits_def last_attempt_ok.simps Let_def split: if_splits job_status.splits)

lemma finished_attempt_valid:
  assumes "attempt_valid (row_attempt a)" "attempt_row_ok (finished_attempt s ec f a)"
    "case ec of None \<Rightarrow> True | Some c \<Rightarrow> is_safe_code c"
  shows "attempt_valid (row_attempt (finished_attempt s ec f a))"
  using assms by (simp add: attempt_valid_def attempt_row_ok_def Let_def)

section \<open>The abstract steps of the queue\<close>

text \<open>
  How an active attempt may end: its outcome and error code, the time, and the job it leaves.
\<close>

inductive settles ::
    "job_record \<Rightarrow> job_attempt_status \<Rightarrow> string option \<Rightarrow> instant \<Rightarrow> job_record \<Rightarrow> bool" where
  settles_succeeded: "job_status j = RUNNING \<Longrightarrow> settles j ATTEMPT_SUCCEEDED None t
    (j\<lparr>job_status := SUCCEEDED, job_error_code := None, job_updated_at := t\<rparr>)"
| settles_retry: "job_status j = RUNNING \<Longrightarrow> attempt_count j < max_attempts j \<Longrightarrow> t \<le> a \<Longrightarrow>
    s \<in> {RETRY_SCHEDULED, LEASE_EXPIRED} \<Longrightarrow> is_safe_code c \<Longrightarrow> settles j s (Some c) t
    (j\<lparr>job_status := QUEUED, available_at := a, job_error_code := None, job_updated_at := t\<rparr>)"
| settles_failed: "job_status j = RUNNING \<Longrightarrow> s \<in> {ATTEMPT_FAILED, LEASE_EXPIRED} \<Longrightarrow>
    is_safe_code c \<Longrightarrow> settles j s (Some c) t
    (j\<lparr>job_status := FAILED, job_error_code := Some c, job_updated_at := t\<rparr>)"
| settles_canceled: "job_status j = CANCEL_REQUESTED \<Longrightarrow> settles j ATTEMPT_CANCELED None t
    (j\<lparr>job_status := CANCELED, job_error_code := None, job_updated_at := t\<rparr>)"

definition settled ::
    "db \<Rightarrow> job_row \<Rightarrow> job_record \<Rightarrow> attempt_row \<Rightarrow> (attempt_row \<Rightarrow> attempt_row) \<Rightarrow> db" where
  "settled db row j' arow g = db\<lparr>jobs_table := replace_job row j' (jobs_table db),
     job_attempts_table := replace_attempt g arow (job_attempts_table db)\<rparr>"

definition renewed_attempt :: "instant \<Rightarrow> instant \<Rightarrow> attempt_row \<Rightarrow> attempt_row" where
  "renewed_attempt h e a = a\<lparr>row_attempt := (row_attempt a)\<lparr>heartbeat_at := h, lease_expires_at := e\<rparr>\<rparr>"

definition evidence_appended :: "db \<Rightarrow> db \<Rightarrow> bool" where
  "evidence_appended db db' \<longleftrightarrow> (\<exists>ds ss rs cs. db' = db\<lparr>datasets_table := datasets_table db @ ds,
     suites_table := suites_table db @ ss, runs_table := runs_table db @ rs,
     release_decisions_table := release_decisions_table db @ cs\<rparr>)"

inductive store_step :: "db \<Rightarrow> db \<Rightarrow> bool" where
  step_submit: "job_status j = QUEUED \<Longrightarrow> attempt_count j = 0 \<Longrightarrow> valid_job j \<Longrightarrow>
    pr_job_id p = job_id j \<Longrightarrow> jobs_constraints (jobs_table db @ [\<lparr>row_job = j, row_version = 0\<rparr>]) \<Longrightarrow>
    store_step db (db\<lparr>jobs_table := jobs_table db @ [\<lparr>row_job = j, row_version = 0\<rparr>],
      job_payloads_table := job_payloads_table db @ [p]\<rparr>)"
| step_claim: "row \<in> set (jobs_table db) \<Longrightarrow> job_status (row_job row) = QUEUED \<Longrightarrow>
    j' = (row_job row)\<lparr>job_status := RUNNING, attempt_count := attempt_count (row_job row) + 1,
      job_error_code := None, job_updated_at := t\<rparr> \<Longrightarrow> valid_job j' \<Longrightarrow>
    attempt_key arow = (row_job_id row, attempt_count j') \<Longrightarrow>
    attempt_status (row_attempt arow) = ATTEMPT_RUNNING \<Longrightarrow> is_ok (attempt_record_of arow) \<Longrightarrow>
    jobs_constraints (replace_job row j' (jobs_table db)) \<Longrightarrow>
    attempts_constraints (job_attempts_table db @ [arow]) \<Longrightarrow>
    store_step db (db\<lparr>jobs_table := replace_job row j' (jobs_table db),
      job_attempts_table := job_attempts_table db @ [arow]\<rparr>)"
| step_renew: "arow \<in> set (job_attempts_table db) \<Longrightarrow>
    attempt_status (row_attempt arow) = ATTEMPT_RUNNING \<Longrightarrow>
    attempts_constraints (replace_attempt (renewed_attempt h e) arow (job_attempts_table db)) \<Longrightarrow>
    store_step db
      (db\<lparr>job_attempts_table := replace_attempt (renewed_attempt h e) arow (job_attempts_table db)\<rparr>)"
| step_settle: "row \<in> set (jobs_table db) \<Longrightarrow> arow \<in> set (job_attempts_table db) \<Longrightarrow>
    attempt_key arow = (row_job_id row, attempt_count (row_job row)) \<Longrightarrow>
    attempt_status (row_attempt arow) = ATTEMPT_RUNNING \<Longrightarrow>
    settles (row_job row) s ec t j' \<Longrightarrow> valid_job j' \<Longrightarrow>
    (job_status j' = SUCCEEDED \<Longrightarrow> has_evidence db j') \<Longrightarrow>
    jobs_constraints (replace_job row j' (jobs_table db)) \<Longrightarrow>
    attempts_constraints (replace_attempt (finished_attempt s ec t) arow (job_attempts_table db)) \<Longrightarrow>
    store_step db (settled db row j' arow (finished_attempt s ec t))"
| step_cancel: "row \<in> set (jobs_table db) \<Longrightarrow>
    (job_status (row_job row), s) \<in> {(QUEUED, CANCELED), (RUNNING, CANCEL_REQUESTED)} \<Longrightarrow>
    j' = (row_job row)\<lparr>job_status := s, job_error_code := None, job_updated_at := t\<rparr> \<Longrightarrow>
    valid_job j' \<Longrightarrow> jobs_constraints (replace_job row j' (jobs_table db)) \<Longrightarrow>
    store_step db (db\<lparr>jobs_table := replace_job row j' (jobs_table db)\<rparr>)"
| step_evidence: "evidence_appended db db' \<Longrightarrow> store_step db db'"

lemma settles_fields:
  assumes "settles j s ec t j'"
  shows "frozen j j'" "attempt_count j' = attempt_count j" "job_status j \<in> {RUNNING, CANCEL_REQUESTED}"
    "case ec of None \<Rightarrow> True | Some c \<Rightarrow> is_safe_code c"
    "last_attempt_ok j' (a\<lparr>attempt_status := s, attempt_error_code := ec, finished_at := Some f\<rparr>)"
    "job_status j' \<in> set (allowed_transitions (job_status j))"
  using assms by (auto elim!: settles.cases simp: frozen_def last_attempt_ok.simps)

text \<open>The end of an attempt keeps the invariant.\<close>

lemma settled_inv:
  assumes inv: "db_inv db" and row: "row \<in> set (jobs_table db)"
    and arow: "arow \<in> set (job_attempts_table db)"
      "attempt_key arow = (row_job_id row, attempt_count (row_job row))"
    and settles: "settles (row_job row) s ec f j'" and valid: "valid_job j'"
    and ev: "job_status j' = SUCCEEDED \<Longrightarrow> has_evidence db j'"
    and con: "jobs_constraints (replace_job row j' (jobs_table db))"
      "attempts_constraints (replace_attempt (finished_attempt s ec f) arow (job_attempts_table db))"
  shows "db_inv (settled db row j' arow (finished_attempt s ec f))"
proof -
  let ?g = "finished_attempt s ec f"
  let ?db2 = "settled db row j' arow ?g"
  note st = settles_fields[OF settles]
  have mem: "a \<in> set (job_attempts_table ?db2) \<longleftrightarrow> a = ?g arow \<or>
      a \<in> set (job_attempts_table db) \<and> attempt_key a \<noteq> attempt_key arow" for a
    unfolding settled_def replace_attempt_def using same_attempt_row[OF inv _ arow(1)] arow(1)
    by (auto split: if_splits)
  show ?thesis
  proof (rule db_inv_change[OF inv row st(1) valid])
    show "jobs_table ?db2 = replace_job row j' (jobs_table db)"
      "jobs_constraints (jobs_table ?db2)" "attempts_constraints (job_attempts_table ?db2)"
      using con by (simp_all add: settled_def)
    show "a \<in> set (job_attempts_table ?db2) \<longleftrightarrow> a \<in> set (job_attempts_table db)"
      if "row_attempt_job a \<noteq> row_job_id row" for a
      using that arow(2) unfolding mem by (auto simp: attempt_key_def)
    show "is_ok (attempt_record_of a) \<and> attempt_fits j' a"
      if a: "a \<in> set (job_attempts_table ?db2)" "row_attempt_job a = row_job_id row" for a
    proof (cases "a = ?g arow")
      case True
      have "attempt_row_ok (?g arow)"
        using con(2) a True unfolding attempts_constraints_def settled_def by (auto simp: list_all_iff)
      moreover have "is_ok (attempt_record_of arow)"
        using db_inv_attempt[OF inv arow(1)] by (simp add: attempt_row_inv_def)
      ultimately have "is_ok (attempt_record_of a)"
        unfolding True attempt_record_of_ok using finished_attempt_valid[OF _ _ st(4), of arow s f] by simp
      moreover have "attempt_fits j' a"
        using arow(2) st(2,5) unfolding True attempt_fits_def attempt_key_def Let_def by simp
      ultimately show ?thesis ..
    next
      case False
      then have old: "a \<in> set (job_attempts_table db)" "attempt_key a \<noteq> attempt_key arow"
        using a mem by auto
      have f: "attempt_fits (row_job row) a"
        using attempt_fits_row[OF inv old(1) row] a(2) by simp
      have "row_attempt_number a \<noteq> attempt_count (row_job row)"
        using old(2) arow(2) a(2) by (auto simp: attempt_key_def)
      with f have "attempt_fits j' a" using st(2) by (auto simp: attempt_fits_def Let_def)
      then show ?thesis using db_inv_attempt[OF inv old(1)] by (simp add: attempt_row_inv_def)
    qed
    show "numbers_of (job_attempts_table ?db2) (row_job_id row) = {1 .. attempt_count j'}"
      using db_inv_job[OF inv row] st(2)
      by (simp add: settled_def replace_attempt_numbers job_row_inv_def)
    show "has_evidence ?db2 j'" if "job_status j' = SUCCEEDED"
      using ev[OF that] by (simp add: settled_def has_evidence_def split: job_kind.splits)
  qed (simp_all add: settled_def)
qed

text \<open>The other steps.\<close>

lemma evidence_inv: "db_inv db \<Longrightarrow> evidence_appended db db' \<Longrightarrow> db_inv db'"
  by (auto simp: db_inv_def evidence_appended_def job_row_inv_def attempt_row_inv_def has_evidence_def
      split: job_kind.splits)

lemma submit_inv:
  assumes inv: "db_inv db" and j: "job_status j = QUEUED" "attempt_count j = 0" "valid_job j"
    and p: "pr_job_id p = job_id j"
    and con: "jobs_constraints (jobs_table db @ [\<lparr>row_job = j, row_version = 0\<rparr>])"
  shows "db_inv (db\<lparr>jobs_table := jobs_table db @ [\<lparr>row_job = j, row_version = 0\<rparr>],
      job_payloads_table := job_payloads_table db @ [p]\<rparr>)" (is "db_inv ?db")
proof -
  have new: "job_id j \<notin> row_job_id ` set (jobs_table db)"
    using con by (auto simp: jobs_constraints_def)
  then have none: "numbers_of (job_attempts_table db) (job_id j) = {}"
    using db_inv_attempt[OF inv] by (force simp: numbers_of_def attempt_row_inv_def)
  have "job_row_inv ?db r" if "r \<in> set (jobs_table ?db)" for r
    using that db_inv_job[OF inv, of r] j none
    by (auto simp: job_row_inv_def has_evidence_def split: job_kind.splits)
  moreover have "attempt_row_inv ?db a" if "a \<in> set (job_attempts_table ?db)" for a
    using that db_inv_attempt[OF inv, of a] by (auto simp: attempt_row_inv_def)
  moreover have "job_id j \<notin> pr_job_id ` set (job_payloads_table db)"
    using new inv by (simp add: db_inv_def)
  ultimately show ?thesis using inv con p unfolding db_inv_def by simp
qed

lemma cancel_inv:
  assumes inv: "db_inv db" and row: "row \<in> set (jobs_table db)"
    and s: "(job_status (row_job row), s) \<in> {(QUEUED, CANCELED), (RUNNING, CANCEL_REQUESTED)}"
    and j': "j' = (row_job row)\<lparr>job_status := s, job_error_code := None, job_updated_at := t\<rparr>"
    and valid: "valid_job j'" and con: "jobs_constraints (replace_job row j' (jobs_table db))"
  shows "db_inv (db\<lparr>jobs_table := replace_job row j' (jobs_table db)\<rparr>)" (is "db_inv ?db")
proof (rule db_inv_change[OF inv row _ valid])
  show "frozen (row_job row) j'" by (simp add: frozen_def j')
  show "jobs_constraints (jobs_table ?db)" "attempts_constraints (job_attempts_table ?db)"
    using con inv by (simp_all add: db_inv_def)
  show "is_ok (attempt_record_of a) \<and> attempt_fits j' a"
    if a: "a \<in> set (job_attempts_table ?db)" "row_attempt_job a = row_job_id row" for a
  proof -
    have "attempt_fits (row_job row) a" by (rule attempt_fits_row[OF inv _ row]) (use a in simp_all)
    then have "attempt_fits j' a"
      using s by (auto simp: attempt_fits_def last_attempt_ok.simps j' Let_def split: if_splits)
    then show ?thesis using db_inv_attempt[OF inv] a by (simp add: attempt_row_inv_def)
  qed
  show "numbers_of (job_attempts_table ?db) (row_job_id row) = {1 .. attempt_count j'}"
    using db_inv_job[OF inv row] by (simp add: job_row_inv_def j')
  show "has_evidence ?db j'" if "job_status j' = SUCCEEDED" using that s j' by auto
qed simp_all

lemma claim_inv:
  assumes inv: "db_inv db" and row: "row \<in> set (jobs_table db)"
    and q: "job_status (row_job row) = QUEUED"
    and j': "j' = (row_job row)\<lparr>job_status := RUNNING, attempt_count := attempt_count (row_job row) + 1,
      job_error_code := None, job_updated_at := t\<rparr>" and valid: "valid_job j'"
    and arow: "attempt_key arow = (row_job_id row, attempt_count j')"
      "attempt_status (row_attempt arow) = ATTEMPT_RUNNING" "is_ok (attempt_record_of arow)"
    and con: "jobs_constraints (replace_job row j' (jobs_table db))"
      "attempts_constraints (job_attempts_table db @ [arow])"
  shows "db_inv (db\<lparr>jobs_table := replace_job row j' (jobs_table db),
      job_attempts_table := job_attempts_table db @ [arow]\<rparr>)" (is "db_inv ?db")
proof (rule db_inv_change[OF inv row _ valid])
  show "frozen (row_job row) j'" by (simp add: frozen_def j')
  show "jobs_constraints (jobs_table ?db)" "attempts_constraints (job_attempts_table ?db)"
    using con by simp_all
  have old: "attempt_fits j' a"
    if a: "a \<in> set (job_attempts_table db)" "row_attempt_job a = row_job_id row" for a
  proof -
    have "attempt_fits (row_job row) a" by (rule attempt_fits_row[OF inv _ row]) (use a in simp_all)
    then show ?thesis
      using q by (auto simp: attempt_fits_def last_attempt_ok.simps j' Let_def split: if_splits)
  qed
  show "is_ok (attempt_record_of a) \<and> attempt_fits j' a"
    if a: "a \<in> set (job_attempts_table ?db)" "row_attempt_job a = row_job_id row" for a
  proof (cases "a = arow")
    case True
    then show ?thesis using arow
      by (simp add: attempt_fits_def attempt_key_def last_attempt_ok.simps j' Let_def)
  next
    case False
    then show ?thesis using old a db_inv_attempt[OF inv] by (auto simp: attempt_row_inv_def)
  qed
  have n0: "numbers_of (job_attempts_table db) (row_job_id row) = {1 .. attempt_count (row_job row)}"
    "0 \<le> attempt_count (row_job row)"
    using db_inv_job[OF inv row] by (simp_all add: job_row_inv_def valid_job_def job_fields_ok_def)
  have "numbers_of (job_attempts_table ?db) (row_job_id row) =
      insert (attempt_count j') (numbers_of (job_attempts_table db) (row_job_id row))"
    using arow(1) by (auto simp: numbers_of_keys)
  then show "numbers_of (job_attempts_table ?db) (row_job_id row) = {1 .. attempt_count j'}"
    using n0 by (auto simp: j')
  show "a \<in> set (job_attempts_table ?db) \<longleftrightarrow> a \<in> set (job_attempts_table db)"
    if "row_attempt_job a \<noteq> row_job_id row" for a
    using that arow(1) by (auto simp: attempt_key_def)
  show "has_evidence ?db j'" if "job_status j' = SUCCEEDED" using that j' by auto
qed simp_all

lemma renewed_attempt_simps [simp]:
  "attempt_key (renewed_attempt h e a) = attempt_key a"
  "worker_id (renewed_attempt h e a) = worker_id a"
  "lease_token (renewed_attempt h e a) = lease_token a"
  "row_attempt (renewed_attempt h e a) = (row_attempt a)\<lparr>heartbeat_at := h, lease_expires_at := e\<rparr>"
  by (simp_all add: renewed_attempt_def attempt_key_def)

lemma renewed_attempt_fits [simp]:
  "attempt_fits j (renewed_attempt h e a) = attempt_fits j a"
  by (cases "job_status j") (simp_all add: attempt_fits_def last_attempt_ok.simps Let_def)

lemma renew_inv:
  assumes inv: "db_inv db" and arow: "arow \<in> set (job_attempts_table db)"
    and con: "attempts_constraints (replace_attempt (renewed_attempt h e) arow (job_attempts_table db))"
  shows "db_inv (db\<lparr>job_attempts_table := replace_attempt (renewed_attempt h e) arow (job_attempts_table db)\<rparr>)"
    (is "db_inv ?db")
proof -
  let ?g = "renewed_attempt h e"
  have a: "attempt_row_inv ?db a" if mem: "a \<in> set (job_attempts_table ?db)" for a
  proof -
    obtain a0 where a0: "a0 \<in> set (job_attempts_table db)" "a = a0 \<or> a = ?g a0"
      using mem by (auto simp: replace_attempt_def split: if_splits)
    have i: "attempt_row_inv db a0" using db_inv_attempt[OF inv a0(1)] .
    have "attempt_row_ok a"
      using con mem unfolding attempts_constraints_def by (auto simp: list_all_iff)
    then have "is_ok (attempt_record_of a)"
      using i a0(2) unfolding attempt_row_inv_def attempt_record_of_ok
      by (auto simp: attempt_valid_def attempt_row_ok_def Let_def)
    moreover have "row_attempt_job a = row_attempt_job a0" "attempt_fits j a = attempt_fits j a0" for j
      using a0(2) by auto
    ultimately show ?thesis using i by (simp add: attempt_row_inv_def)
  qed
  have "job_row_inv ?db r" if "r \<in> set (jobs_table ?db)" for r
    using that db_inv_job[OF inv, of r]
    by (auto simp: job_row_inv_def replace_attempt_numbers has_evidence_def split: job_kind.splits)
  with a inv con show ?thesis unfolding db_inv_def by simp
qed

theorem store_step_inv: "store_step db db' \<Longrightarrow> db_inv db \<Longrightarrow> db_inv db'"
  by (induction rule: store_step.induct)
    (auto intro: submit_inv claim_inv renew_inv settled_inv cancel_inv evidence_inv)

lemma store_steps_inv: "store_step\<^sup>*\<^sup>* db db' \<Longrightarrow> db_inv db \<Longrightarrow> db_inv db'"
  by (induction rule: rtranclp_induct) (auto intro: store_step_inv)

end
