(* ===== verification/JobRefinement.thy ===== *)
theory JobRefinement
  imports JobInvariant
begin

text \<open>
  Every operation of the job store, and every append of evidence, is a sequence of the abstract
  steps of \<open>JobInvariant\<close>; in particular each keeps the invariant.
\<close>

section \<open>Locked rows\<close>

lemma find_job_row_Some:
  "find_job_row db jid = Some row \<Longrightarrow> row \<in> set (jobs_table db) \<and> row_job_id row = jid"
  unfolding find_job_row_def by (rule find_Some_mem)

lemma find_attempt_row_Some:
  "find_attempt_row db jid n = Some a \<Longrightarrow>
     a \<in> set (job_attempts_table db) \<and> attempt_key a = (jid, n)"
  unfolding find_attempt_row_def attempt_key_def by (drule find_Some_mem) simp

lemma find_job_row_mem:
  "db_inv db \<Longrightarrow> row \<in> set (jobs_table db) \<Longrightarrow> find_job_row db (row_job_id row) = Some row"
  unfolding find_job_row_def by (rule find_unique) (auto intro: same_job_row)

lemma find_attempt_row_mem:
  "db_inv db \<Longrightarrow> a \<in> set (job_attempts_table db) \<Longrightarrow> attempt_key a = (jid, n) \<Longrightarrow>
   find_attempt_row db jid n = Some a"
  unfolding find_attempt_row_def
  by (rule find_unique) (auto intro!: same_attempt_row simp: attempt_key_def)

text \<open>The lease is held by \<open>token\<close> for attempt \<open>n\<close> of the job, and is unexpired at \<open>t\<close>.\<close>

definition holds_lease :: "db \<Rightarrow> string \<Rightarrow> int \<Rightarrow> string \<Rightarrow> instant \<Rightarrow> bool" where
  "holds_lease db jid n token t \<longleftrightarrow>
     (\<exists>r \<in> set (jobs_table db). \<exists>a \<in> set (job_attempts_table db).
        row_job_id r = jid \<and> job_status (row_job r) \<in> {RUNNING, CANCEL_REQUESTED} \<and>
        attempt_count (row_job r) = n \<and> attempt_key a = (jid, n) \<and>
        attempt_status (row_attempt a) = ATTEMPT_RUNNING \<and> lease_token a = token \<and>
        t < lease_expires_at (row_attempt a))"

lemma lock_active_lease_Inr:
  assumes "lock_active_lease clock db (Some row) jid n token = Inr (row', current, arow, t)"
    "find_job_row db jid = Some row"
  shows "row' = row" "current = row_job row" "t = clock 0" "row \<in> set (jobs_table db)"
    "row_job_id row = jid" "job_status current \<in> {RUNNING, CANCEL_REQUESTED}"
    "attempt_count current = n" "valid_job current"
    "find_attempt_row db jid n = Some arow" "lease_token arow = token"
    "attempt_status (row_attempt arow) = ATTEMPT_RUNNING"
    "clock 0 < lease_expires_at (row_attempt arow)"
  using assms find_job_row_Some[OF assms(2)]
  unfolding lock_active_lease_def Let_def by (auto simp: result_simps)

lemma lock_active_lease_holds:
  assumes "lock_active_lease clock db (Some row) jid n token = Inr (row', current, arow, t)"
    "find_job_row db jid = Some row"
  shows "holds_lease db jid n token (clock 0)"
  unfolding holds_lease_def
  using lock_active_lease_Inr[OF assms] find_attempt_row_Some[of db jid n arow]
  by (intro bexI[of _ row] bexI[of _ arow]) simp_all

lemma find_replace_job:
  "frozen (row_job row) j' \<Longrightarrow> List.find (\<lambda>r. row_job_id r = jid) (replace_job row j' rows) =
     (if jid = row_job_id row
      then map_option (\<lambda>_. \<lparr>row_job = j', row_version = row_version row + 1\<rparr>)
        (List.find (\<lambda>r. row_job_id r = jid) rows)
      else List.find (\<lambda>r. row_job_id r = jid) rows)"
  unfolding replace_job_def using frozen_fields[of "row_job row" j'] by (induction rows) auto

lemma find_job_row_settled:
  "frozen (row_job row) j' \<Longrightarrow> jid \<noteq> row_job_id row \<Longrightarrow>
   find_job_row (settled db row j' arow g) jid = find_job_row db jid"
  by (simp add: find_job_row_def settled_def find_replace_job)

section \<open>Exact transitions\<close>

lemma transition_plain:
  assumes "transition_to j s (at_utc t) ec None = Inr j'" "s \<noteq> job_status j"
    "(job_status j, s) \<noteq> (QUEUED, RUNNING)"
  shows "j' = j\<lparr>job_status := s, job_error_code := ec, job_updated_at := t\<rparr> \<and> valid_job j' \<and>
    s \<in> set (allowed_transitions (job_status j)) \<and> (s = FAILED \<longleftrightarrow> ec \<noteq> None) \<and> job_updated_at j \<le> t"
proof -
  have s: "s \<in> set (allowed_transitions (job_status j))" "valid_job j'" "s = FAILED \<longleftrightarrow> ec \<noteq> None"
    "job_updated_at j \<le> t"
    and n: "\<exists>n a. next_schedule j s t None = Inr (n, a) \<and>
       j' = j\<lparr>job_status := s, attempt_count := n, available_at := a, job_error_code := ec,
              job_updated_at := t\<rparr>"
    using assms unfolding transition_to_def valid_job_def
    by (auto simp: result_simps split: if_splits)
  then obtain n a where na: "next_schedule j s t None = Inr (n, a)"
    "j' = j\<lparr>job_status := s, attempt_count := n, available_at := a, job_error_code := ec,
              job_updated_at := t\<rparr>" by blast
  have "n = attempt_count j \<and> a = available_at j"
    using na(1) assms(3) unfolding next_schedule_def by (auto split: if_splits)
  then have "j' = j\<lparr>job_status := s, job_error_code := ec, job_updated_at := t\<rparr>"
    unfolding na(2) by (auto intro: job_record.equality)
  with s show ?thesis by blast
qed

lemma transition_claim:
  assumes "transition_to j RUNNING (at_utc t) None None = Inr j'" "job_status j = QUEUED"
  shows "j' = j\<lparr>job_status := RUNNING, attempt_count := attempt_count j + 1, job_error_code := None,
      job_updated_at := t\<rparr> \<and> valid_job j' \<and> available_at j \<le> t \<and> attempt_count j < max_attempts j"
  using assms unfolding transition_to_def next_schedule_def valid_job_def
  by (auto simp: result_simps intro!: job_record.equality)

lemma transition_retry:
  assumes "transition_to j QUEUED (at_utc t) None (Some (at_utc a)) = Inr j'" "job_status j = RUNNING"
  shows "j' = j\<lparr>job_status := QUEUED, available_at := a, job_error_code := None, job_updated_at := t\<rparr> \<and>
    valid_job j' \<and> t \<le> a \<and> attempt_count j < max_attempts j"
  using assms unfolding transition_to_def next_schedule_def valid_job_def
  by (auto simp: result_simps intro!: job_record.equality)

text \<open>Both statements of the end of an attempt, as one abstract step.\<close>

lemma settle_exec:
  assumes inv: "db_inv db" and row: "row \<in> set (jobs_table db)"
    and fin: "finish_attempt (row_job_id row) n token s ec f lt db = Inr (u, db1)"
    and up: "update_job row j' db1 = Inr (u', db2)"
    and settles: "settles (row_job row) s ec f j'" and valid: "valid_job j'"
    and ev: "job_status j' = SUCCEEDED \<Longrightarrow> has_evidence db j'"
  obtains arow where "find_attempt_row db (row_job_id row) n = Some arow"
    "db2 = settled db row j' arow (finished_attempt s ec f)" "store_step db db2"
    "\<And>t. lt = Some t \<Longrightarrow> t < lease_expires_at (row_attempt arow)"
proof -
  have con: "jobs_constraints (jobs_table db)" "attempts_constraints (job_attempts_table db)"
    using inv by (simp_all add: db_inv_def)
  note st = settles_fields[OF settles]
  from finish_attempt_Inr[OF fin con(2)] obtain arow where
    arow: "arow \<in> set (job_attempts_table db)" "attempt_key arow = (row_job_id row, n)"
      "attempt_status (row_attempt arow) = ATTEMPT_RUNNING"
      "\<And>t. lt = Some t \<Longrightarrow> t < lease_expires_at (row_attempt arow)"
    and db1: "db1 = db\<lparr>job_attempts_table :=
      replace_attempt (finished_attempt s ec f) arow (job_attempts_table db)\<rparr>"
    and con1: "attempts_constraints (job_attempts_table db1)" by metis
  have job: "row_job_id row = row_attempt_job arow" using arow(2) by (simp add: attempt_key_def)
  have n: "n = attempt_count (row_job row)"
    using running_attempt_current[OF inv arow(1) row job arow(3)] arow(2) by (simp add: attempt_key_def)
  have "jobs_table db1 = jobs_table db" by (simp add: db1)
  with update_job_Inr[OF up _ _ st(1)] con(1) row
  have db2: "db2 = db1\<lparr>jobs_table := replace_job row j' (jobs_table db)\<rparr>"
    and con2: "jobs_constraints (replace_job row j' (jobs_table db))" by simp_all
  have shape: "db2 = settled db row j' arow (finished_attempt s ec f)"
    by (simp add: db2 db1 settled_def)
  have "store_step db db2"
    unfolding shape using arow n con1 con2 db1
    by (intro step_settle[OF row arow(1) _ arow(3) settles valid ev]) simp_all
  with arow shape find_attempt_row_mem[OF inv arow(1) arow(2)] show thesis by (intro that) simp_all
qed

lemma sql_errors_Inr [result_simps]: "sql_errors e1 e2 m db = Inr p \<longleftrightarrow> m db = Inr p"
  by (auto simp: sql_errors_def result_simps)

text \<open>Cancellation of an active attempt.\<close>

lemma cancel_active_attempt_Inr:
  assumes inv: "db_inv db" and row: "row \<in> set (jobs_table db)"
    and run: "cancel_active_attempt row (row_job row) n token now lt db = Inr (j, db')"
    and status: "job_status (row_job row) \<noteq> QUEUED" "job_status (row_job row) \<noteq> CANCELED"
  shows "store_step db db'" "job_status (row_job row) = CANCEL_REQUESTED" "job_status j = CANCELED"
    "runs_table db' = runs_table db" "release_decisions_table db' = release_decisions_table db"
    "\<exists>t arow. j = (row_job row)\<lparr>job_status := CANCELED, job_error_code := None, job_updated_at := t\<rparr> \<and>
      find_attempt_row db (row_job_id row) n = Some arow \<and>
      db' = settled db row j arow (finished_attempt ATTEMPT_CANCELED None t)"
    "jid \<noteq> row_job_id row \<Longrightarrow> find_job_row db' jid = find_job_row db jid"
proof -
  let ?t = "max now (job_updated_at (row_job row))"
  from run obtain db1 u u' where
    tr: "transition_to (row_job row) CANCELED (at_utc ?t) None None = Inr j"
    and fin: "finish_attempt (row_job_id row) n token ATTEMPT_CANCELED None ?t lt db = Inr (u, db1)"
    and up: "update_job row j db1 = Inr (u', db')"
    unfolding cancel_active_attempt_def Let_def by (auto simp: result_simps)
  from transition_plain[OF tr] status
  have j: "j = (row_job row)\<lparr>job_status := CANCELED, job_error_code := None, job_updated_at := ?t\<rparr>"
    "valid_job j" "CANCELED \<in> set (allowed_transitions (job_status (row_job row)))" by auto
  then have cr: "job_status (row_job row) = CANCEL_REQUESTED"
    using status by (cases "job_status (row_job row)") auto
  have "settles (row_job row) ATTEMPT_CANCELED None ?t j"
    unfolding j(1) by (rule settles_canceled[OF cr])
  from settle_exec[OF inv row fin up this j(2)] j(1)
  obtain arow where "find_attempt_row db (row_job_id row) n = Some arow"
    "db' = settled db row j arow (finished_attempt ATTEMPT_CANCELED None ?t)" "store_step db db'"
    by auto
  moreover have "frozen (row_job row) j" by (rule transition_to_frozen[OF tr])
  ultimately show "store_step db db'" "job_status (row_job row) = CANCEL_REQUESTED"
    "job_status j = CANCELED" "runs_table db' = runs_table db"
    "release_decisions_table db' = release_decisions_table db"
    "\<exists>t arow. j = (row_job row)\<lparr>job_status := CANCELED, job_error_code := None, job_updated_at := t\<rparr> \<and>
      find_attempt_row db (row_job_id row) n = Some arow \<and>
      db' = settled db row j arow (finished_attempt ATTEMPT_CANCELED None t)"
    "jid \<noteq> row_job_id row \<Longrightarrow> find_job_row db' jid = find_job_row db jid"
    using cr j(1) by (auto simp: find_job_row_settled) (auto simp: settled_def)
qed

section \<open>The fenced operations\<close>

lemma lock_no_job [simp]: "lock_active_lease clock db None jid n token = Inl lease_lost"
  by (simp add: lock_active_lease_def)

lemma bounded_int_Inr [result_simps]: "bounded_int v l u name = Inr x \<longleftrightarrow> x = v \<and> l \<le> v \<and> v \<le> u"
  by (auto simp: bounded_int_def)

lemma safe_code_Inr [result_simps]: "safe_code v = Inr x \<longleftrightarrow> x = v \<and> is_safe_code v"
  by (auto simp: safe_code_def)

lemma lease_token_value_Inr [result_simps]: "lease_token_value v = Inr x \<longleftrightarrow> x = v \<and> is_lease_token v"
  by (auto simp: lease_token_value_def)

lemma worker_id_value_Inr [result_simps]: "worker_id_value v = Inr x \<longleftrightarrow> x = v \<and> is_stable_id v"
  by (auto simp: worker_id_value_def)

lemma lock_found:
  assumes "lock_active_lease clock db (find_job_row db jid) jid n token = Inr q"
  obtains row where "find_job_row db jid = Some row"
  using assms by (cases "find_job_row db jid") auto

text \<open>What a successful heartbeat shows and does.\<close>

lemma heartbeat_job_Inr:
  assumes inv: "db_inv db" and hb: "heartbeat_job clock jid n token secs db = Inr (j, db')"
  shows "holds_lease db jid n token (clock 0)" "store_step db db'"
    "\<exists>row arow. find_job_row db jid = Some row \<and> j = row_job row \<and>
       find_attempt_row db jid n = Some arow \<and>
       db' = db\<lparr>job_attempts_table := replace_attempt (renewed_attempt (clock 0) (clock 0 + seconds secs))
         arow (job_attempts_table db)\<rparr>"
proof -
  let ?p = "\<lambda>r. row_attempt_job r = jid \<and> row_attempt_number r = n \<and>
      attempt_status (row_attempt r) = ATTEMPT_RUNNING \<and> lease_token r = token \<and>
      lease_expires_at (row_attempt r) > clock 1"
  let ?g = "renewed_attempt (clock 0) (clock 0 + seconds secs)"
  let ?rows = "job_attempts_table db"
  from hb obtain row' current arow t where
    lock: "lock_active_lease clock db (find_job_row db jid) jid n token = Inr (row', current, arow, t)"
    and jcur: "j = current" and cnt: "row_count ?p ?rows = 1"
    and up: "attempts_constraints (update_where ?p (\<lambda>r. r\<lparr>row_attempt := (row_attempt r)
          \<lparr>heartbeat_at := t, lease_expires_at := t + seconds secs\<rparr>\<rparr>) ?rows)"
      "db' = db\<lparr>job_attempts_table := update_where ?p (\<lambda>r. r\<lparr>row_attempt := (row_attempt r)
          \<lparr>heartbeat_at := t, lease_expires_at := t + seconds secs\<rparr>\<rparr>) ?rows\<rparr>"
    unfolding heartbeat_job_def update_attempts_def Let_def
    by (auto simp: result_simps split: if_splits)
  from lock obtain row where f: "find_job_row db jid = Some row" by (rule lock_found)
  note L = lock_active_lease_Inr[OF lock[unfolded f] f]
  have a: "arow \<in> set ?rows" "attempt_key arow = (jid, n)"
    using find_attempt_row_Some[OF L(9)] by auto
  from row_count_1_ex[OF cnt] obtain a' where "a' \<in> set ?rows" "?p a'" by blast
  with same_attempt_row[OF inv a(1)] a(2) have pa: "?p arow" by (metis attempt_key_def)
  have "update_where ?p (\<lambda>r. r\<lparr>row_attempt := (row_attempt r)
          \<lparr>heartbeat_at := t, lease_expires_at := t + seconds secs\<rparr>\<rparr>) ?rows = replace_attempt ?g arow ?rows"
    unfolding update_where_def replace_attempt_def renewed_attempt_def L(3)
  proof (rule map_cong, simp)
    fix r assume r: "r \<in> set ?rows"
    show "(if ?p r then r\<lparr>row_attempt := (row_attempt r)\<lparr>heartbeat_at := clock 0,
            lease_expires_at := clock 0 + seconds secs\<rparr>\<rparr> else r) =
        (if attempt_key r = attempt_key arow then r\<lparr>row_attempt := (row_attempt r)\<lparr>heartbeat_at := clock 0,
            lease_expires_at := clock 0 + seconds secs\<rparr>\<rparr> else r)"
      using same_attempt_row[OF inv r a(1)] pa by (auto simp: attempt_key_def)
  qed
  with up have db': "db' = db\<lparr>job_attempts_table := replace_attempt ?g arow ?rows\<rparr>"
    and con: "attempts_constraints (replace_attempt ?g arow ?rows)" by simp_all
  show "store_step db db'" unfolding db' using a(1) L(11) con by (rule step_renew)
  show "holds_lease db jid n token (clock 0)" using lock_active_lease_holds[OF lock[unfolded f] f] .
  show "\<exists>row arow. find_job_row db jid = Some row \<and> j = row_job row \<and>
       find_attempt_row db jid n = Some arow \<and>
       db' = db\<lparr>job_attempts_table := replace_attempt (renewed_attempt (clock 0) (clock 0 + seconds secs))
         arow (job_attempts_table db)\<rparr>"
    using f L(2,9) jcur db' by blast
qed

text \<open>Retrying and failing: either the outcome asked for, or the cancellation that was requested.\<close>

lemma retry_job_Inr:
  assumes inv: "db_inv db" and op: "retry_job clock jid n token delay code db = Inr (j, db')"
  shows "holds_lease db jid n token (clock 0)" "store_step db db'"
    "job_status j = QUEUED \<and> attempt_count j < max_attempts j \<or> job_status j = CANCELED"
    "\<exists>row. find_job_row db jid = Some row \<and>
      (job_status (row_job row) = CANCEL_REQUESTED \<and> job_status j = CANCELED \<or>
       job_status (row_job row) = RUNNING \<and> job_status j = QUEUED \<and>
       available_at j = max (clock 0) (job_updated_at (row_job row)) + seconds delay)"
proof -
  from op obtain row' current arow t where
    lock: "lock_active_lease clock db (find_job_row db jid) jid n token = Inr (row', current, arow, t)"
    and safe: "is_safe_code code" and delay: "1 \<le> delay"
    and rest: "(if job_status current = CANCEL_REQUESTED
      then cancel_active_attempt row' current n token t (Some (clock 1)) db
      else let transition_at = max t (job_updated_at current) in
        rbind (rcatch is_value_error
           (\<lambda>_. Inl (IllegalJobTransitionError ''Job cannot be scheduled for another attempt''))
           (transition_to current QUEUED (at_utc transition_at) None
             (Some (at_utc (transition_at + seconds delay))))) (\<lambda>queued.
        tbind (finish_attempt jid n token RETRY_SCHEDULED (Some code) transition_at (Some (clock 1)))
          (\<lambda>_. tbind (update_job row' queued) (\<lambda>_. treturn queued)) db)) = Inr (j, db')"
    unfolding retry_job_def by (auto simp: result_simps)
  from lock obtain row where f: "find_job_row db jid = Some row" by (rule lock_found)
  note L = lock_active_lease_Inr[OF lock[unfolded f] f]
  show "holds_lease db jid n token (clock 0)" by (rule lock_active_lease_holds[OF lock[unfolded f] f])
  have "store_step db db' \<and> (job_status j = QUEUED \<and> attempt_count j < max_attempts j \<or> job_status j = CANCELED)
      \<and> (job_status current = CANCEL_REQUESTED \<and> job_status j = CANCELED \<or>
       job_status current = RUNNING \<and> job_status j = QUEUED \<and>
       available_at j = max (clock 0) (job_updated_at current) + seconds delay)"
  proof (cases "job_status current = CANCEL_REQUESTED")
    case True
    then have run: "cancel_active_attempt row (row_job row) n token t (Some (clock 1)) db = Inr (j, db')"
      using rest L(1,2) by simp
    from cancel_active_attempt_Inr[OF inv L(4) run] True L(2) show ?thesis by simp
  next
    case False
    then have running: "job_status (row_job row) = RUNNING" using L(2,6) by simp
    let ?t = "max (clock 0) (job_updated_at (row_job row))"
    from rest False obtain db1 u u' where
      tr: "transition_to (row_job row) QUEUED (at_utc ?t) None (Some (at_utc (?t + seconds delay))) = Inr j"
      and fin: "finish_attempt (row_job_id row) n token RETRY_SCHEDULED (Some code) ?t (Some (clock 1)) db
        = Inr (u, db1)"
      and up: "update_job row j db1 = Inr (u', db')"
      by (auto simp: Let_def L result_simps)
    note T = transition_retry[OF tr running]
    have "settles (row_job row) RETRY_SCHEDULED (Some code) ?t j"
      using T safe running by (simp add: settles_retry)
    from settle_exec[OF inv L(4) fin up this] T have "store_step db db'" by auto
    with T running L(2) show ?thesis by simp
  qed
  with f L(2) show "store_step db db'"
    "job_status j = QUEUED \<and> attempt_count j < max_attempts j \<or> job_status j = CANCELED"
    "\<exists>row. find_job_row db jid = Some row \<and>
      (job_status (row_job row) = CANCEL_REQUESTED \<and> job_status j = CANCELED \<or>
       job_status (row_job row) = RUNNING \<and> job_status j = QUEUED \<and>
       available_at j = max (clock 0) (job_updated_at (row_job row)) + seconds delay)"
    by auto
qed

lemma fail_job_Inr:
  assumes inv: "db_inv db" and op: "fail_job clock jid n token code db = Inr (j, db')"
  shows "holds_lease db jid n token (clock 0)" "store_step db db'"
    "\<exists>row. find_job_row db jid = Some row \<and>
      (job_status (row_job row) = CANCEL_REQUESTED \<and> job_status j = CANCELED \<or>
       job_status (row_job row) = RUNNING \<and> job_status j = FAILED \<and> job_error_code j = Some code)"
proof -
  from op obtain row' current arow t where
    lock: "lock_active_lease clock db (find_job_row db jid) jid n token = Inr (row', current, arow, t)"
    and safe: "is_safe_code code"
    and rest: "(if job_status current = CANCEL_REQUESTED
      then cancel_active_attempt row' current n token t (Some (clock 1)) db
      else let transition_at = max t (job_updated_at current) in
        rbind (rcatch is_value_error (\<lambda>_. Inl (IllegalJobTransitionError ''Job cannot fail''))
           (transition_to current FAILED (at_utc transition_at) (Some code) None)) (\<lambda>failed.
        tbind (finish_attempt jid n token ATTEMPT_FAILED (Some code) transition_at (Some (clock 1)))
          (\<lambda>_. tbind (update_job row' failed) (\<lambda>_. treturn failed)) db)) = Inr (j, db')"
    unfolding fail_job_def by (auto simp: result_simps)
  from lock obtain row where f: "find_job_row db jid = Some row" by (rule lock_found)
  note L = lock_active_lease_Inr[OF lock[unfolded f] f]
  show "holds_lease db jid n token (clock 0)" by (rule lock_active_lease_holds[OF lock[unfolded f] f])
  have "store_step db db' \<and>
      (job_status current = CANCEL_REQUESTED \<and> job_status j = CANCELED \<or>
       job_status current = RUNNING \<and> job_status j = FAILED \<and> job_error_code j = Some code)"
  proof (cases "job_status current = CANCEL_REQUESTED")
    case True
    then have run: "cancel_active_attempt row (row_job row) n token t (Some (clock 1)) db = Inr (j, db')"
      using rest L(1,2) by simp
    from cancel_active_attempt_Inr[OF inv L(4) run] True L(2) show ?thesis by simp
  next
    case False
    then have running: "job_status (row_job row) = RUNNING" using L(2,6) by simp
    let ?t = "max (clock 0) (job_updated_at (row_job row))"
    from rest False obtain db1 u u' where
      tr: "transition_to (row_job row) FAILED (at_utc ?t) (Some code) None = Inr j"
      and fin: "finish_attempt (row_job_id row) n token ATTEMPT_FAILED (Some code) ?t (Some (clock 1)) db
        = Inr (u, db1)"
      and up: "update_job row j db1 = Inr (u', db')"
      by (auto simp: Let_def L result_simps)
    note T = transition_plain[OF tr, unfolded running, simplified]
    have "settles (row_job row) ATTEMPT_FAILED (Some code) ?t j"
      using T safe running by (simp add: settles_failed)
    from settle_exec[OF inv L(4) fin up this] T have "store_step db db'" by auto
    with T running L(2) show ?thesis by simp
  qed
  with f L(2) show "store_step db db'"
    "\<exists>row. find_job_row db jid = Some row \<and>
      (job_status (row_job row) = CANCEL_REQUESTED \<and> job_status j = CANCELED \<or>
       job_status (row_job row) = RUNNING \<and> job_status j = FAILED \<and> job_error_code j = Some code)"
    by auto
qed

text \<open>Requesting and acknowledging cancellation.\<close>

lemma request_cancellation_Inr:
  assumes "request_cancellation j (at_utc t) = Inr j'" "job_status j \<in> {QUEUED, RUNNING}"
  shows "j' = j\<lparr>job_status := (if job_status j = QUEUED then CANCELED else CANCEL_REQUESTED),
      job_error_code := None, job_updated_at := t\<rparr>" "valid_job j'"
  using assms transition_plain[of j CANCELED t None j'] transition_plain[of j CANCEL_REQUESTED t None j']
  by (auto simp: request_cancellation_def)

lemma cancel_job_Inr:
  assumes inv: "db_inv db" and op: "cancel_job clock jid db = Inr (j, db')"
  shows "store_step\<^sup>*\<^sup>* db db'" "job_status j \<in> {CANCELED, CANCEL_REQUESTED}"
    "\<exists>row. find_job_row db jid = Some row \<and>
      (job_status (row_job row) \<in> {CANCELED, CANCEL_REQUESTED} \<and> j = row_job row \<and> db' = db \<or>
       job_status (row_job row) = QUEUED \<and> job_status j = CANCELED \<or>
       job_status (row_job row) = RUNNING \<and> job_status j = CANCEL_REQUESTED)"
proof -
  from op obtain row where f: "find_job_row db jid = Some row"
    unfolding cancel_job_def by (auto simp: result_simps)
  note R = find_job_row_Some[OF f]
  let ?j = "row_job row"
  let ?concl = "store_step\<^sup>*\<^sup>* db db' \<and> job_status j \<in> {CANCELED, CANCEL_REQUESTED} \<and>
      (job_status ?j \<in> {CANCELED, CANCEL_REQUESTED} \<and> j = ?j \<and> db' = db \<or>
       job_status ?j = QUEUED \<and> job_status j = CANCELED \<or>
       job_status ?j = RUNNING \<and> job_status j = CANCEL_REQUESTED)"
  have ?concl
  proof (cases "job_status ?j \<in> {CANCELED, CANCEL_REQUESTED}")
    case True
    then show ?thesis using op f unfolding cancel_job_def by (auto simp: result_simps)
  next
    case False
    let ?t = "max (clock 0) (job_updated_at ?j)"
    have active: "job_status ?j \<in> {QUEUED, RUNNING}"
      using op f False unfolding cancel_job_def
      by (cases "job_status ?j") (auto simp: result_simps)
    with op f False obtain u where
      req: "request_cancellation ?j (at_utc ?t) = Inr j"
      and up: "update_job row j db = Inr (u, db')"
      unfolding cancel_job_def Let_def by (auto simp: result_simps)
    note Q = request_cancellation_Inr[OF req active]
    let ?s = "if job_status ?j = QUEUED then CANCELED else CANCEL_REQUESTED"
    have "frozen ?j j" unfolding Q(1) by (simp add: frozen_def)
    with update_job_Inr[OF up _ R[THEN conjunct1]] inv
    have U: "db' = db\<lparr>jobs_table := replace_job row j (jobs_table db)\<rparr>"
      "jobs_constraints (replace_job row j (jobs_table db))" by (simp_all add: db_inv_def)
    have "store_step db db'" unfolding U(1)
      by (rule step_cancel[OF R[THEN conjunct1] _ Q(1) Q(2) U(2)]) (use active in auto)
    then show ?thesis using Q(1) active by auto
  qed
  with f show "store_step\<^sup>*\<^sup>* db db'" "job_status j \<in> {CANCELED, CANCEL_REQUESTED}"
    "\<exists>row. find_job_row db jid = Some row \<and>
      (job_status (row_job row) \<in> {CANCELED, CANCEL_REQUESTED} \<and> j = row_job row \<and> db' = db \<or>
       job_status (row_job row) = QUEUED \<and> job_status j = CANCELED \<or>
       job_status (row_job row) = RUNNING \<and> job_status j = CANCEL_REQUESTED)"
    by auto
qed

lemma acknowledge_cancellation_Inr:
  assumes inv: "db_inv db" and op: "acknowledge_cancellation clock jid n token db = Inr (j, db')"
  shows "store_step\<^sup>*\<^sup>* db db'" "job_status j = CANCELED"
    "\<exists>row. find_job_row db jid = Some row \<and>
      (job_status (row_job row) = CANCELED \<and> j = row_job row \<and> db' = db \<or>
       job_status (row_job row) = CANCEL_REQUESTED \<and> holds_lease db jid n token (clock 0))"
proof -
  from op obtain row where f: "find_job_row db jid = Some row"
    unfolding acknowledge_cancellation_def by (auto simp: result_simps)
  let ?j = "row_job row"
  let ?concl = "store_step\<^sup>*\<^sup>* db db' \<and> job_status j = CANCELED \<and>
      (job_status ?j = CANCELED \<and> j = ?j \<and> db' = db \<or>
       job_status ?j = CANCEL_REQUESTED \<and> holds_lease db jid n token (clock 0))"
  have ?concl
  proof (cases "job_status ?j = CANCELED")
    case True
    then show ?thesis using op f unfolding acknowledge_cancellation_def by (auto simp: result_simps)
  next
    case False
    with op f obtain row' current arow t where
      lock: "lock_active_lease clock db (Some row) jid n token = Inr (row', current, arow, t)"
      and cr: "job_status current = CANCEL_REQUESTED"
      and run: "cancel_active_attempt row' current n token t (Some (clock 1)) db = Inr (j, db')"
      unfolding acknowledge_cancellation_def by (auto simp: result_simps split: if_splits)
    note L = lock_active_lease_Inr[OF lock f]
    from run L(1,2) have "cancel_active_attempt row ?j n token t (Some (clock 1)) db = Inr (j, db')"
      by simp
    from cancel_active_attempt_Inr[OF inv L(4) this] cr L(2) lock_active_lease_holds[OF lock f]
    show ?thesis by auto
  qed
  with f show "store_step\<^sup>*\<^sup>* db db'" "job_status j = CANCELED"
    "\<exists>row. find_job_row db jid = Some row \<and>
      (job_status (row_job row) = CANCELED \<and> j = row_job row \<and> db' = db \<or>
       job_status (row_job row) = CANCEL_REQUESTED \<and> holds_lease db jid n token (clock 0))"
    by auto
qed

section \<open>Publishing\<close>

text \<open>
  The completion transaction: a replay of a published job, a requested cancellation (and then
  no evidence is written), or the evidence together with the transition to succeeded.
\<close>

lemma complete_transaction_Inr:
  assumes inv: "db_inv db"
    and op: "complete_transaction clock jid n token kind rid identical find_stored publish db = Inr (j, db')"
    and pub: "\<And>d u d'. publish d = Inr (u, d') \<Longrightarrow> evidence_appended d d'"
    and owns: "\<And>d u d' job. job_kind job = kind \<Longrightarrow> resource_id job = rid \<Longrightarrow>
      publish d = Inr (u, d') \<Longrightarrow> has_evidence d' job"
    and stored: "\<And>d job. job_kind job = kind \<Longrightarrow> resource_id job = rid \<Longrightarrow>
      find_stored d \<noteq> None \<Longrightarrow> has_evidence d job"
  obtains row where "find_job_row db jid = Some row" "store_step\<^sup>*\<^sup>* db db'"
    "job_kind (row_job row) = kind" "resource_id (row_job row) = rid"
    "job_status (row_job row) = SUCCEEDED \<and> j = row_job row \<and> db' = db \<and>
       identical (find_stored db) = Inr () \<or>
     job_status (row_job row) = CANCEL_REQUESTED \<and> job_status j = CANCELED \<and>
       holds_lease db jid n token (clock 0) \<and>
       runs_table db' = runs_table db \<and> release_decisions_table db' = release_decisions_table db \<or>
     job_status (row_job row) = RUNNING \<and> job_status j = SUCCEEDED \<and>
       holds_lease db jid n token (clock 0) \<and>
       (\<exists>db1. (if find_stored db = None then publish db = Inr ((), db1)
               else db1 = db \<and> identical (find_stored db) = Inr ()) \<and>
          runs_table db' = runs_table db1 \<and>
          release_decisions_table db' = release_decisions_table db1)"
proof -
  from op obtain row where f: "find_job_row db jid = Some row" and own: "job_kind (row_job row) = kind"
    "resource_id (row_job row) = rid"
    unfolding complete_transaction_def require_completion_identity_def
    by (auto simp: result_simps)
  note R = find_job_row_Some[OF f]
  let ?j = "row_job row"
  show thesis
  proof (cases "job_status ?j = SUCCEEDED")
    case True
    from op f True have "identical (find_stored db) = Inr ()" "j = ?j" "db' = db"
      unfolding complete_transaction_def by (auto simp: result_simps)
    then show thesis using f own True by (intro that[of row]) auto
  next
    case False
    let ?pub = "if find_stored db = None then publish else lift_res (identical (find_stored db))"
    from op f False obtain row' current arow t where
      lock: "lock_active_lease clock db (Some row) jid n token = Inr (row', current, arow, t)"
      and rest: "(if job_status current = CANCEL_REQUESTED
         then cancel_active_attempt row' current n token t (Some (clock 1)) db
         else tbind ?pub (\<lambda>_. let transition_at = max t (job_updated_at current) in
           tbind (lift_res (transition_to current SUCCEEDED (at_utc transition_at) None None)) (\<lambda>succeeded.
           tbind (finish_attempt jid n token ATTEMPT_SUCCEEDED None transition_at (Some (clock 1))) (\<lambda>_.
           tbind (update_job row' succeeded) (\<lambda>_. treturn succeeded)))) db) = Inr (j, db')"
      unfolding complete_transaction_def Let_def by (auto simp: result_simps split: if_splits)
    note L = lock_active_lease_Inr[OF lock f]
    note H = lock_active_lease_holds[OF lock f]
    show thesis
    proof (cases "job_status ?j = CANCEL_REQUESTED")
      case True
      then have "cancel_active_attempt row ?j n token t (Some (clock 1)) db = Inr (j, db')"
        using rest L(1,2) by simp
      from cancel_active_attempt_Inr[OF inv L(4) this] True
      show thesis using f own H by (intro that[of row]) auto
    next
      case False
      let ?t = "max (clock 0) (job_updated_at ?j)"
      have running: "job_status ?j = RUNNING" using False L(2,6) by simp
      from rest False obtain u db1 db2 u1 u2 where
        p: "?pub db = Inr (u, db1)"
        and tr: "transition_to ?j SUCCEEDED (at_utc ?t) None None = Inr j"
        and fin: "finish_attempt (row_job_id row) n token ATTEMPT_SUCCEEDED None ?t (Some (clock 1)) db1
          = Inr (u1, db2)"
        and up: "update_job row j db2 = Inr (u2, db')"
        by (auto simp: Let_def L result_simps)
      note T = transition_plain[OF tr, unfolded running, simplified]
      have app: "evidence_appended db db1"
      proof (cases "find_stored db = None")
        case True then show ?thesis using p pub by simp
      next
        case False
        then have "db1 = db" using p by (auto simp: result_simps)
        then show ?thesis unfolding evidence_appended_def by (intro exI[of _ "[]"]) simp
      qed
      have j: "job_kind j = kind" "resource_id j = rid" "job_status j = SUCCEEDED" using T own by simp_all
      have ev: "has_evidence db1 j"
        using p owns[OF j(1,2)] stored[OF j(1,2), of db] by (cases "find_stored db") (auto simp: result_simps)
      have inv1: "db_inv db1" by (rule evidence_inv[OF inv app])
      have row1: "row \<in> set (jobs_table db1)" using app L(4) by (auto simp: evidence_appended_def)
      have "settles ?j ATTEMPT_SUCCEEDED None ?t j"
        using T running by (simp add: settles_succeeded)
      from settle_exec[OF inv1 row1 fin up this] T ev
      obtain a where st: "store_step db1 db'"
        and shape: "db' = settled db1 row j a (finished_attempt ATTEMPT_SUCCEEDED None ?t)" by auto
      have "store_step\<^sup>*\<^sup>* db db'"
        using step_evidence[OF app] st by (rule converse_rtranclp_into_rtranclp[OF _ r_into_rtranclp])
      then show thesis
        using f own running H j(3) shape p
        by (intro that[of row])
          (auto simp: settled_def result_simps split: if_splits intro!: exI[of _ db1])
    qed
  qed
qed

lemma insert_run_Inr:
  "insert_run row db = Inr (u, db') \<Longrightarrow>
     db' = db\<lparr>runs_table := runs_table db @ [row]\<rparr> \<and> rr_run_id row \<notin> rr_run_id ` set (runs_table db)"
  by (simp add: insert_run_def split: if_splits)

lemma insert_decision_Inr:
  "insert_decision row db = Inr (u, db') \<Longrightarrow>
     db' = db\<lparr>release_decisions_table := release_decisions_table db @ [row]\<rparr> \<and>
     dcr_decision_id row \<notin> dcr_decision_id ` set (release_decisions_table db)"
  by (simp add: insert_decision_def split: if_splits)

lemma evidence_appended_refl: "evidence_appended db db"
  unfolding evidence_appended_def by (intro exI[of _ "[]"]) simp

lemma evidence_appended_run: "evidence_appended db (db\<lparr>runs_table := runs_table db @ rs\<rparr>)"
  unfolding evidence_appended_def
  by (rule exI[of _ "[]"], rule exI[of _ "[]"], rule exI[of _ rs], rule exI[of _ "[]"]) simp

lemma evidence_appended_decision:
  "evidence_appended db (db\<lparr>release_decisions_table := release_decisions_table db @ cs\<rparr>)"
  unfolding evidence_appended_def
  by (rule exI[of _ "[]"], rule exI[of _ "[]"], rule exI[of _ "[]"], rule exI[of _ cs]) simp

lemma evidence_appended_dataset: "evidence_appended db (db\<lparr>datasets_table := datasets_table db @ ds\<rparr>)"
  unfolding evidence_appended_def
  by (rule exI[of _ ds], rule exI[of _ "[]"], rule exI[of _ "[]"], rule exI[of _ "[]"]) simp

lemma evidence_appended_suite: "evidence_appended db (db\<lparr>suites_table := suites_table db @ ss\<rparr>)"
  unfolding evidence_appended_def
  by (rule exI[of _ "[]"], rule exI[of _ ss], rule exI[of _ "[]"], rule exI[of _ "[]"]) simp

lemma complete_run_Inr:
  assumes inv: "db_inv db" and op: "complete_run env clock jid r n token db = Inr (j, db')"
  obtains row document units where "find_job_row db jid = Some row" "store_step\<^sup>*\<^sup>* db db'"
    "prepare_run env r = Inr (document, units)"
    "job_kind (row_job row) = RUN_JOB" "resource_id (row_job row) = run_id (run_evidence r)"
    "job_status (row_job row) = SUCCEEDED \<and> j = row_job row \<and> db' = db \<or>
     job_status (row_job row) = CANCEL_REQUESTED \<and> job_status j = CANCELED \<and>
       holds_lease db jid n token (clock 0) \<and>
       runs_table db' = runs_table db \<and> release_decisions_table db' = release_decisions_table db \<or>
     job_status (row_job row) = RUNNING \<and> job_status j = SUCCEEDED \<and>
       holds_lease db jid n token (clock 0) \<and>
       (runs_table db' = runs_table db @ [run_row_of r document units] \<or> runs_table db' = runs_table db)"
proof -
  let ?rid = "run_id (run_evidence r)"
  from op obtain document units where
    prep: "prepare_run env r = Inr (document, units)"
    and tx: "complete_transaction clock jid n token RUN_JOB ?rid
      (\<lambda>stored. require_identical_run env stored document)
      (\<lambda>db. List.find (\<lambda>row. rr_run_id row = ?rid) (runs_table db))
      (insert_run (run_row_of r document units)) db = Inr (j, db')"
    unfolding complete_run_def by (auto simp: result_simps)
  have id: "rr_run_id (run_row_of r document units) = ?rid" by (simp add: run_row_of_def Let_def)
  show thesis
  proof (rule complete_transaction_Inr[OF inv tx])
    fix d :: db and u d' and job :: job_record
    assume "insert_run (run_row_of r document units) d = Inr (u, d')"
    note I = insert_run_Inr[OF this]
    then show "evidence_appended d d'" using evidence_appended_run by simp
    show "has_evidence d' job" if "job_kind job = RUN_JOB" "resource_id job = ?rid"
      using that I id by (simp add: has_evidence_def)
  next
    fix d :: db and job :: job_record
    assume "job_kind job = RUN_JOB" "resource_id job = ?rid"
      "List.find (\<lambda>row. rr_run_id row = ?rid) (runs_table d) \<noteq> None"
    then show "has_evidence d job" unfolding find_None_all
      by (auto simp: has_evidence_def image_iff intro: sym)
  next
    fix row
    assume f: "find_job_row db jid = Some row" "store_step\<^sup>*\<^sup>* db db'"
      "job_kind (row_job row) = RUN_JOB" "resource_id (row_job row) = ?rid"
    assume c: "job_status (row_job row) = SUCCEEDED \<and> j = row_job row \<and> db' = db \<and>
       require_identical_run env (List.find (\<lambda>row. rr_run_id row = ?rid) (runs_table db)) document = Inr () \<or>
     job_status (row_job row) = CANCEL_REQUESTED \<and> job_status j = CANCELED \<and>
       holds_lease db jid n token (clock 0) \<and>
       runs_table db' = runs_table db \<and> release_decisions_table db' = release_decisions_table db \<or>
     job_status (row_job row) = RUNNING \<and> job_status j = SUCCEEDED \<and>
       holds_lease db jid n token (clock 0) \<and>
       (\<exists>db1. (if List.find (\<lambda>row. rr_run_id row = ?rid) (runs_table db) = None
               then insert_run (run_row_of r document units) db = Inr ((), db1)
               else db1 = db \<and> require_identical_run env
                 (List.find (\<lambda>row. rr_run_id row = ?rid) (runs_table db)) document = Inr ()) \<and>
          runs_table db' = runs_table db1 \<and>
          release_decisions_table db' = release_decisions_table db1)"
    show thesis using c by (intro that[OF f(1,2) prep f(3,4)]) (auto split: if_splits dest: insert_run_Inr)
  qed
qed

lemma complete_release_decision_Inr:
  assumes inv: "db_inv db" and op: "complete_release_decision env clock jid r n token db = Inr (j, db')"
  obtains row document where "find_job_row db jid = Some row" "store_step\<^sup>*\<^sup>* db db'"
    "model_text env (decision_codec env) (decision r) = Inr document"
    "job_kind (row_job row) = COMPARISON_JOB" "resource_id (row_job row) = decision_id r"
    "job_status (row_job row) = SUCCEEDED \<and> j = row_job row \<and> db' = db \<or>
     job_status (row_job row) = CANCEL_REQUESTED \<and> job_status j = CANCELED \<and>
       holds_lease db jid n token (clock 0) \<and>
       runs_table db' = runs_table db \<and> release_decisions_table db' = release_decisions_table db \<or>
     job_status (row_job row) = RUNNING \<and> job_status j = SUCCEEDED \<and>
       holds_lease db jid n token (clock 0) \<and>
       (release_decisions_table db' = release_decisions_table db @ [decision_row_of r document] \<or>
        release_decisions_table db' = release_decisions_table db)"
proof -
  from op obtain document where
    doc: "model_text env (decision_codec env) (decision r) = Inr document"
    and tx: "complete_transaction clock jid n token COMPARISON_JOB (decision_id r)
      (\<lambda>stored. require_identical_decision env stored document)
      (\<lambda>db. List.find (\<lambda>row. dcr_decision_id row = decision_id r) (release_decisions_table db))
      (insert_decision (decision_row_of r document)) db = Inr (j, db')"
    unfolding complete_release_decision_def by (auto simp: result_simps)
  have id: "dcr_decision_id (decision_row_of r document) = decision_id r"
    by (simp add: decision_row_of_def Let_def)
  show thesis
  proof (rule complete_transaction_Inr[OF inv tx])
    fix d :: db and u d' and job :: job_record
    assume "insert_decision (decision_row_of r document) d = Inr (u, d')"
    note I = insert_decision_Inr[OF this]
    then show "evidence_appended d d'" using evidence_appended_decision by simp
    show "has_evidence d' job" if "job_kind job = COMPARISON_JOB" "resource_id job = decision_id r"
      using that I id by (simp add: has_evidence_def)
  next
    fix d :: db and job :: job_record
    assume "job_kind job = COMPARISON_JOB" "resource_id job = decision_id r"
      "List.find (\<lambda>row. dcr_decision_id row = decision_id r) (release_decisions_table d) \<noteq> None"
    then show "has_evidence d job" unfolding find_None_all
      by (auto simp: has_evidence_def image_iff intro: sym)
  next
    fix row
    assume f: "find_job_row db jid = Some row" "store_step\<^sup>*\<^sup>* db db'"
      "job_kind (row_job row) = COMPARISON_JOB" "resource_id (row_job row) = decision_id r"
    let ?find = "List.find (\<lambda>row. dcr_decision_id row = decision_id r) (release_decisions_table db)"
    assume c: "job_status (row_job row) = SUCCEEDED \<and> j = row_job row \<and> db' = db \<and>
       require_identical_decision env ?find document = Inr () \<or>
     job_status (row_job row) = CANCEL_REQUESTED \<and> job_status j = CANCELED \<and>
       holds_lease db jid n token (clock 0) \<and>
       runs_table db' = runs_table db \<and> release_decisions_table db' = release_decisions_table db \<or>
     job_status (row_job row) = RUNNING \<and> job_status j = SUCCEEDED \<and>
       holds_lease db jid n token (clock 0) \<and>
       (\<exists>db1. (if ?find = None then insert_decision (decision_row_of r document) db = Inr ((), db1)
               else db1 = db \<and> require_identical_decision env ?find document = Inr ()) \<and>
          runs_table db' = runs_table db1 \<and>
          release_decisions_table db' = release_decisions_table db1)"
    show thesis using c by (intro that[OF f(1,2) doc f(3,4)]) (auto split: if_splits dest: insert_decision_Inr)
  qed
qed

section \<open>Submission and evidence\<close>

text \<open>An insert, or on its failure the comparison with what is stored.\<close>

lemma insert_or_Inr [result_simps]:
  "(case m of Inl e \<Rightarrow> k e | Inr (u, d) \<Rightarrow> Inr (r, d)) = Inr q \<longleftrightarrow>
     (\<exists>u d. m = Inr (u, d) \<and> q = (r, d)) \<or> (\<exists>e. m = Inl e \<and> k e = Inr q)"
  by (auto split: sum.splits prod.splits)

lemma begin_job_Inr:
  assumes "begin_job env record payload db = Inr ((j, fresh), db')" "valid_job record"
  shows "fresh \<Longrightarrow> store_step db db' \<and> j = record" "\<not> fresh \<Longrightarrow> db' = db \<and>
      get_job_by_idempotency env db (job_kind record) (idempotency_key record) = Inr j \<and>
      request_digest j = request_digest record"
proof -
  let ?ins = "\<lambda>document digest. tbind (insert_job \<lparr>row_job = record, row_version = 0\<rparr>) (\<lambda>_.
      insert_payload \<lparr>pr_job_id = job_id record, pr_digest = digest, pr_document = document,
        pr_created_at = job_created_at record\<rparr>) db"
  from assms(1) have q: "job_status record = QUEUED" "attempt_count record = 0"
    unfolding begin_job_def by (auto simp: result_simps)
  have not_found: "rcatch is_store_not_found_error
      (\<lambda>_. case get_job_by_resource db (job_kind record) (resource_id record) of
         Inl e \<Rightarrow> if is_store_not_found_error e then Inl (ImmutableRecordConflictError
             ''Job identity conflicts with existing metadata'') else Inl e
       | Inr _ \<Rightarrow> Inl (ResourceAlreadySubmittedError ''Resource ID was already submitted'')) m = Inr x
      \<longleftrightarrow> m = Inr x" for m :: "job_record res" and x
    by (cases m) (auto split: sum.splits)
  from assms(1) obtain document digest where rest:
    "(\<exists>u. ?ins document digest = Inr (u, db')) \<and> j = record \<and> fresh \<or> \<not> fresh \<and> db' = db \<and>
      get_job_by_idempotency env db (job_kind record) (idempotency_key record) = Inr j \<and>
      request_digest j = request_digest record"
    unfolding begin_job_def by (auto simp only: rbind_Inr_iff insert_or_Inr not_found checks_Cons_Inr prod.inject)
  show "store_step db db' \<and> j = record" if fresh
  proof -
    from rest that obtain u where ins: "?ins document digest = Inr (u, db')" and j: "j = record" by auto
    let ?p = "\<lparr>pr_job_id = job_id record, pr_digest = digest, pr_document = document,
        pr_created_at = job_created_at record\<rparr>"
    from ins have "jobs_constraints (jobs_table db @ [\<lparr>row_job = record, row_version = 0\<rparr>])"
      "db' = db\<lparr>jobs_table := jobs_table db @ [\<lparr>row_job = record, row_version = 0\<rparr>],
        job_payloads_table := job_payloads_table db @ [?p]\<rparr>"
      by (auto simp: result_simps insert_job_def insert_payload_def Let_def split: if_splits)
    then show ?thesis using step_submit[OF q assms(2), of ?p db] j by simp
  qed
  show "\<not> fresh \<Longrightarrow> db' = db \<and>
      get_job_by_idempotency env db (job_kind record) (idempotency_key record) = Inr j \<and>
      request_digest j = request_digest record" using rest by auto
qed

lemma put_run_Inr:
  assumes "put_run env r db = Inr (r', db')"
  shows "evidence_appended db db'"
proof -
  from assms obtain document units where
    "(\<exists>u. insert_run (run_row_of r document units) db = Inr (u, db')) \<or> db' = db"
    unfolding put_run_def by (auto simp: result_simps)
  then show ?thesis using evidence_appended_run evidence_appended_refl
    by (auto dest!: insert_run_Inr)
qed

lemma put_release_decision_Inr:
  assumes "put_release_decision env r db = Inr (r', db')"
  shows "evidence_appended db db'"
proof -
  from assms obtain document where
    "(\<exists>u. insert_decision (decision_row_of r document) db = Inr (u, db')) \<or> db' = db"
    unfolding put_release_decision_def by (auto simp: result_simps)
  then show ?thesis using evidence_appended_decision evidence_appended_refl
    by (auto dest!: insert_decision_Inr)
qed

lemma put_dataset_Inr:
  assumes "put_dataset env r db = Inr (r', db')"
  shows "evidence_appended db db'"
proof -
  from assms obtain row where "(\<exists>u. insert_dataset row db = Inr (u, db')) \<or> db' = db"
    unfolding put_dataset_def by (auto simp: result_simps)
  then show ?thesis using evidence_appended_dataset evidence_appended_refl
    by (auto simp: insert_dataset_def split: if_splits)
qed

lemma put_suite_Inr:
  assumes "put_suite env r db = Inr (r', db')"
  shows "evidence_appended db db'"
proof -
  from assms obtain row where "(\<exists>u. insert_suite row db = Inr (u, db')) \<or> db' = db"
    unfolding put_suite_def by (auto simp: result_simps)
  then show ?thesis using evidence_appended_suite evidence_appended_refl
    by (auto simp: insert_suite_def split: if_splits)
qed

section \<open>Claiming and reaping\<close>

text \<open>The first row of the order: no claimable row precedes it.\<close>

lemma sort_key_head:
  assumes "sort_key f xs = x # ys"
  shows "x \<in> set xs" "y \<in> set xs \<Longrightarrow> f x \<le> f y"
proof -
  have s: "set xs = insert x (set ys)" using assms by (metis list.simps(15) set_sort)
  then show "x \<in> set xs" by simp
  have "sorted (map f (x # ys))" using assms by (metis sorted_sort_key)
  then show "y \<in> set xs \<Longrightarrow> f x \<le> f y" using s by auto
qed

lemma claim_next_job_None:
  assumes "claim_next_job env clock locked worker token secs db = Inr (None, db')"
  shows "db' = db \<and> (\<forall>r \<in> set (jobs_table db). \<not> claimable (clock 0) locked r)"
proof (cases "sort_key claim_order (filter (claimable (clock 0) locked) (jobs_table db))")
  case Nil
  then have "db' = db" using assms unfolding claim_next_job_def by (auto simp: result_simps)
  with Nil show ?thesis by (simp add: filter_empty_conv)
next
  case (Cons row rest)
  then show ?thesis using assms unfolding claim_next_job_def Let_def by (auto simp: result_simps)
qed

lemma claim_next_job_Some:
  assumes inv: "db_inv db"
    and op: "claim_next_job env clock locked worker token secs db = Inr (Some c, db')"
  obtains row where "row \<in> set (jobs_table db)" "claimable (clock 0) locked row"
    "\<And>r. r \<in> set (jobs_table db) \<Longrightarrow> claimable (clock 0) locked r \<Longrightarrow> claim_order row \<le> claim_order r"
    "claimed c = (row_job row)\<lparr>job_status := RUNNING, attempt_count := attempt_count (row_job row) + 1,
       job_error_code := None, job_updated_at := max (clock 1) (job_updated_at (row_job row))\<rparr>"
    "valid_job (claimed c)" "attempt_count (row_job row) < max_attempts (row_job row)"
    "load_job_payload env db (row_job row) True = Inr (Some (claimed_payload c))"
    "claimed_token c = token" "is_lease_token token" "5 \<le> secs" "secs \<le> 3600"
    "claimed_attempt c = \<lparr>attempt_job_id = row_job_id row,
       attempt_number = attempt_count (row_job row) + 1, attempt_status = ATTEMPT_RUNNING,
       attempt_error_code = None, started_at = clock 1, heartbeat_at = clock 1,
       lease_expires_at = clock 1 + seconds secs, finished_at = None\<rparr>"
    "store_step db db'"
    "db' = db\<lparr>jobs_table := replace_job row (claimed c) (jobs_table db), job_attempts_table :=
       job_attempts_table db @ [\<lparr>row_attempt = claimed_attempt c, worker_id = worker, lease_token = token\<rparr>]\<rparr>"
proof -
  let ?att = "\<lambda>running. \<lparr>attempt_job_id = job_id running, attempt_number = attempt_count running,
      attempt_status = ATTEMPT_RUNNING, attempt_error_code = None, started_at = clock 1,
      heartbeat_at = clock 1, lease_expires_at = clock 1 + seconds secs, finished_at = None\<rparr>"
  have "sort_key claim_order (filter (claimable (clock 0) locked) (jobs_table db)) \<noteq> []"
    using op unfolding claim_next_job_def by (auto simp: result_simps)
  then obtain row rest where head:
    "sort_key claim_order (filter (claimable (clock 0) locked) (jobs_table db)) = row # rest"
    by (meson list.exhaust)
  from op obtain payload running db1 u where args: "is_stable_id worker" "is_lease_token token"
      "5 \<le> secs" "secs \<le> 3600"
    and pay: "load_job_payload env db (row_job row) True = Inr (Some payload)"
    and tr: "transition_to (row_job row) RUNNING (at_utc (max (clock 1) (job_updated_at (row_job row))))
       None None = Inr running"
    and up: "update_job row running db = Inr (u, db1)"
    and ins: "attempts_constraints (job_attempts_table db1 @
        [\<lparr>row_attempt = ?att running, worker_id = worker, lease_token = token\<rparr>])"
      "db' = db1\<lparr>job_attempts_table := job_attempts_table db1 @
        [\<lparr>row_attempt = ?att running, worker_id = worker, lease_token = token\<rparr>]\<rparr>"
    and att: "attempt_valid (?att running)"
    and c: "c = \<lparr>claimed = running, claimed_payload = payload, claimed_attempt = ?att running,
        claimed_token = token\<rparr>"
    unfolding claim_next_job_def Let_def insert_attempt_def
    by (auto simp: result_simps head split: if_splits)
  have row: "row \<in> set (jobs_table db)" and cl: "claimable (clock 0) locked row"
    using sort_key_head(1)[OF head] by simp_all
  have q: "job_status (row_job row) = QUEUED" using cl by (simp add: claimable_def)
  note T = transition_claim[OF tr q]
  have fr: "frozen (row_job row) running" using T by (simp add: frozen_def)
  from update_job_Inr[OF up _ row fr] inv
  have U: "db1 = db\<lparr>jobs_table := replace_job row running (jobs_table db)\<rparr>"
    "jobs_constraints (replace_job row running (jobs_table db))" by (simp_all add: db_inv_def)
  let ?arow = "\<lparr>row_attempt = ?att running, worker_id = worker, lease_token = token\<rparr>"
  have "store_step db (db\<lparr>jobs_table := replace_job row running (jobs_table db),
      job_attempts_table := job_attempts_table db @ [?arow]\<rparr>)"
  proof (rule step_claim[OF row q])
    show "running = (row_job row)\<lparr>job_status := RUNNING,
        attempt_count := attempt_count (row_job row) + 1, job_error_code := None,
        job_updated_at := max (clock 1) (job_updated_at (row_job row))\<rparr>" using T by simp
    show "attempt_key ?arow = (row_job_id row, attempt_count running)"
      using frozen_fields[OF fr] by (simp add: attempt_key_def)
    show "is_ok (attempt_record_of ?arow)" using att args by (simp add: attempt_record_of_ok)
    show "valid_job running" using T by blast
  qed (use T U ins(1) in simp_all)
  moreover have "valid_job running" using T by blast
  ultimately show thesis
    using row cl sort_key_head(2)[OF head] T pay args c U ins(2)
    by (intro that[of row]) simp_all
qed

lemma expired_candidates_mem:
  assumes "(jid, n) \<in> set (expired_candidates t locked limit db)"
  shows "\<exists>a \<in> set (job_attempts_table db). attempt_key a = (jid, n) \<and> expired t locked db a"
proof -
  from assms obtain a where a: "a \<in> set (take limit (sort_key expiry_order
      (filter (expired t locked db) (job_attempts_table db))))" "attempt_key a = (jid, n)"
    by (auto simp: expired_candidates_def)
  from in_set_takeD[OF a(1)] a(2) show ?thesis by auto
qed

text \<open>What becomes of a job whose lease expired, at the time \<open>now\<close>.\<close>

definition reap_outcome :: "int \<Rightarrow> int \<Rightarrow> instant \<Rightarrow> job_record \<Rightarrow> job_record \<Rightarrow> bool" where
  "reap_outcome base maximum now j j' \<longleftrightarrow>
     job_status j = CANCEL_REQUESTED \<and> job_status j' = CANCELED \<or>
     job_status j = RUNNING \<and> max_attempts j \<le> attempt_count j \<and>
       job_status j' = FAILED \<and> job_error_code j' = Some ''lease_expired'' \<or>
     job_status j = RUNNING \<and> attempt_count j < max_attempts j \<and> job_status j' = QUEUED \<and>
       available_at j' =
         max now (job_updated_at j) + seconds (retry_delay base maximum (attempt_count j))"

lemma reap_one_Inr:
  assumes inv: "db_inv db" and op: "reap_one base maximum now c db = Inr (j, db')"
    and active: "\<And>row. find_job_row db (fst c) = Some row \<Longrightarrow>
      job_status (row_job row) \<in> {RUNNING, CANCEL_REQUESTED}"
  shows "store_step db db'" "job_id j = fst c"
    "\<And>jid. jid \<noteq> fst c \<Longrightarrow> find_job_row db' jid = find_job_row db jid"
    "\<exists>row. find_job_row db (fst c) = Some row \<and>
      reap_outcome base maximum now (row_job row) j"
proof -
  from op obtain row arow where f: "find_job_row db (fst c) = Some row"
    and fa: "find_attempt_row db (fst c) (snd c) = Some arow"
    unfolding reap_one_def by (auto split: option.splits)
  note R = find_job_row_Some[OF f]
  let ?j = "row_job row"
  let ?t = "max now (job_updated_at ?j)"
  let ?concl = "store_step db db' \<and> job_id j = fst c \<and>
      (\<forall>jid. jid \<noteq> fst c \<longrightarrow> find_job_row db' jid = find_job_row db jid) \<and>
      reap_outcome base maximum now ?j j"
  have ?concl
  proof (cases "job_status ?j = CANCEL_REQUESTED")
    case True
    then have "cancel_active_attempt row ?j (snd c) (lease_token arow) ?t None db = Inr (j, db')"
      using op f fa unfolding reap_one_def Let_def by (auto simp: result_simps)
    from cancel_active_attempt_Inr[OF inv R[THEN conjunct1] this] True R
    show ?thesis by (auto simp: reap_outcome_def)
  next
    case False
    then have running: "job_status ?j = RUNNING" using active[OF f] by simp
    let ?next = "if attempt_count ?j \<ge> max_attempts ?j
       then transition_to ?j FAILED (at_utc ?t) (Some ''lease_expired'') None
       else transition_to ?j QUEUED (at_utc ?t) None
         (Some (at_utc (?t + seconds (retry_delay base maximum (attempt_count ?j)))))"
    have safe: "is_safe_code ''lease_expired''"
      by (simp add: is_safe_code_def matches_def is_lower_def is_digit_def less_eq_char_def)
    from op f fa False obtain db1 u u' where
      fin: "finish_attempt (row_job_id row) (snd c) (lease_token arow) LEASE_EXPIRED
        (Some ''lease_expired'') ?t None db = Inr (u, db1)"
      and nxt: "?next = Inr j" and up: "update_job row j db1 = Inr (u', db')"
      unfolding reap_one_def Let_def using R by (auto simp: result_simps)
    show ?thesis
    proof (cases "attempt_count ?j \<ge> max_attempts ?j")
      case True
      with nxt have "transition_to ?j FAILED (at_utc ?t) (Some ''lease_expired'') None = Inr j" by simp
      note T = transition_plain[OF this, unfolded running, simplified]
      have "settles ?j LEASE_EXPIRED (Some ''lease_expired'') ?t j"
        using T running safe by (simp add: settles_failed)
      from settle_exec[OF inv R[THEN conjunct1] fin up this] T
      obtain a where "store_step db db'" "db' = settled db row j a (finished_attempt LEASE_EXPIRED
        (Some ''lease_expired'') ?t)" by auto
      with T True running R settles_fields(1)[OF \<open>settles ?j LEASE_EXPIRED (Some ''lease_expired'') ?t j\<close>]
      show ?thesis by (simp add: find_job_row_settled reap_outcome_def)
    next
      case False
      with nxt have "transition_to ?j QUEUED (at_utc ?t) None
         (Some (at_utc (?t + seconds (retry_delay base maximum (attempt_count ?j))))) = Inr j" by simp
      note T = transition_retry[OF this running]
      have "settles ?j LEASE_EXPIRED (Some ''lease_expired'') ?t j"
        using T running safe by (simp add: settles_retry)
      from settle_exec[OF inv R[THEN conjunct1] fin up this] T
      obtain a where "store_step db db'" "db' = settled db row j a (finished_attempt LEASE_EXPIRED
        (Some ''lease_expired'') ?t)" by auto
      with T False running R settles_fields(1)[OF \<open>settles ?j LEASE_EXPIRED (Some ''lease_expired'') ?t j\<close>]
      show ?thesis by (simp add: find_job_row_settled reap_outcome_def)
    qed
  qed
  with f show "store_step db db'" "job_id j = fst c"
    "\<And>jid. jid \<noteq> fst c \<Longrightarrow> find_job_row db' jid = find_job_row db jid"
    "\<exists>row. find_job_row db (fst c) = Some row \<and>
      reap_outcome base maximum now (row_job row) j"
    by auto
qed

text \<open>The candidates are the current attempts of distinct active jobs.\<close>

lemma expired_job:
  assumes "db_inv db" "expired t locked db a"
  obtains row where "find_job_row db (row_attempt_job a) = Some row"
    "row_attempt_number a = attempt_count (row_job row)"
    "job_status (row_job row) \<in> {RUNNING, CANCEL_REQUESTED}"
  using assms find_job_row_mem[OF assms(1)] unfolding expired_def by metis

lemma expired_candidates_distinct:
  assumes inv: "db_inv db"
  shows "distinct (map fst (expired_candidates t locked limit db))"
proof -
  let ?xs = "filter (expired t locked db) (job_attempts_table db)"
  have "inj_on row_attempt_job (set ?xs)"
  proof (rule inj_onI)
    fix a b assume ab: "a \<in> set ?xs" "b \<in> set ?xs" "row_attempt_job a = row_attempt_job b"
    then have "expired t locked db a" "expired t locked db b" by simp_all
    with ab(3) have "row_attempt_number a = row_attempt_number b"
      by (metis expired_job[OF inv] option.inject)
    with ab show "a = b" by (intro same_attempt_row[OF inv]) (auto simp: attempt_key_def)
  qed
  moreover have "distinct ?xs"
    using inv by (auto simp: db_inv_def attempts_constraints_def distinct_map)
  ultimately have "distinct (map row_attempt_job (sort_key expiry_order ?xs))"
    by (simp add: distinct_map)
  then have "distinct (map row_attempt_job (take limit (sort_key expiry_order ?xs)))"
    by (simp add: take_map[symmetric])
  moreover have "map fst (expired_candidates t locked limit db) =
      map row_attempt_job (take limit (sort_key expiry_order ?xs))"
    by (simp add: expired_candidates_def attempt_key_def)
  ultimately show ?thesis by simp
qed

definition active_job :: "db \<Rightarrow> string \<Rightarrow> bool" where
  "active_job db jid \<longleftrightarrow> (\<exists>row. find_job_row db jid = Some row \<and>
     job_status (row_job row) \<in> {RUNNING, CANCEL_REQUESTED})"

lemma reap_all_Inr:
  assumes "reap_all base maximum clock n cs db = Inr (js, db')" "db_inv db"
    "distinct (map fst cs)" "\<And>c. c \<in> set cs \<Longrightarrow> active_job db (fst c)"
  shows "store_step\<^sup>*\<^sup>* db db' \<and> map job_id js = map fst cs \<and>
    (\<forall>j \<in> set js. \<exists>row k. find_job_row db (job_id j) = Some row \<and>
      reap_outcome base maximum (clock k) (row_job row) j)"
  using assms
proof (induction base maximum clock n cs arbitrary: db js rule: reap_all.induct)
  case (1 base maximum clock n)
  then show ?case by simp
next
  case (2 base maximum clock n c cs)
  from "2.prems"(1) obtain j js1 db1 where one: "reap_one base maximum (clock n) c db = Inr (j, db1)"
    and rest: "reap_all base maximum clock (Suc n) cs db1 = Inr (js1, db')" and js: "js = j # js1"
    by (auto simp: result_simps)
  have act: "active_job db (fst c)" using "2.prems"(4) by simp
  note O = reap_one_Inr[OF "2.prems"(2) one]
  have st: "store_step db db1" and idj: "job_id j = fst c"
    and keep: "\<And>jid. jid \<noteq> fst c \<Longrightarrow> find_job_row db1 jid = find_job_row db jid"
    using O act by (auto simp: active_job_def)
  have others: "fst c' \<noteq> fst c" if "c' \<in> set cs" for c'
    using "2.prems"(3) that by (auto simp: image_iff)
  have inv1: "db_inv db1" using store_step_inv[OF st "2.prems"(2)] .
  have act1: "active_job db1 (fst c')" if "c' \<in> set cs" for c'
    using "2.prems"(4)[of c'] that keep[OF others[OF that]] by (simp add: active_job_def)
  have dist1: "distinct (map fst cs)" using "2.prems"(3) by simp
  note IH = "2.IH"[OF rest inv1 dist1 act1]
  have ids: "job_id j' \<noteq> fst c" if "j' \<in> set js1" for j'
    using IH that others by (metis (no_types, lifting) image_eqI image_iff list.set_map)
  have keep': "find_job_row db1 (job_id j') = find_job_row db (job_id j')" if "j' \<in> set js1" for j'
    using keep ids[OF that] by blast
  have "store_step\<^sup>*\<^sup>* db db'" using st IH by (meson converse_rtranclp_into_rtranclp)
  moreover have "map job_id js = map fst (c # cs)" using IH idj js by simp
  moreover have "\<exists>row k. find_job_row db (job_id j) = Some row \<and>
      reap_outcome base maximum (clock k) (row_job row) j"
    using O(4) act idj by (auto simp: active_job_def)
  ultimately show ?case using IH keep' js by auto
qed

lemma reap_expired_jobs_Inr:
  assumes inv: "db_inv db" and op: "reap_expired_jobs env clock locked limit base maximum db = Inr (js, db')"
  shows "store_step\<^sup>*\<^sup>* db db'"
    "map job_id js = map fst (expired_candidates (clock 0) locked (nat limit) db)"
    "1 \<le> base" "base \<le> maximum" "maximum \<le> 3600"
    "\<forall>j \<in> set js. \<exists>row k. find_job_row db (job_id j) = Some row \<and>
      reap_outcome base maximum (clock k) (row_job row) j"
proof -
  let ?cs = "expired_candidates (clock 0) locked (nat limit) db"
  from op have all: "reap_all base maximum clock 1 ?cs db = Inr (js, db')"
    and b: "1 \<le> base" "base \<le> maximum" "maximum \<le> 3600"
    unfolding reap_expired_jobs_def by (auto simp: result_simps)
  have "active_job db (fst c)" if "c \<in> set ?cs" for c
    using expired_candidates_mem[of "fst c" "snd c" "clock 0" locked "nat limit" db] that
    by (auto simp: active_job_def attempt_key_def elim!: expired_job[OF inv])
  note R = reap_all_Inr[OF all inv expired_candidates_distinct[OF inv] this]
  show "store_step\<^sup>*\<^sup>* db db'" "map job_id js = map fst ?cs" "1 \<le> base" "base \<le> maximum"
    "maximum \<le> 3600"
    "\<forall>j \<in> set js. \<exists>row k. find_job_row db (job_id j) = Some row \<and>
      reap_outcome base maximum (clock k) (row_job row) j"
    using R b by blast+
qed

end
