(* ===== verification/JobContract.thy ===== *)
theory JobContract
  imports JobRefinement "HOL-Library.Sublist"
begin

text \<open>
  The contracts of the store as interfaces: what every transaction guarantees
  (\<open>store_operation\<close>), what a fenced worker operation adds (\<open>fenced_operation\<close>), and their
  interpretations on the operations of \<open>JobStore\<close>. A client of the store (the worker, the
  service) relies on these laws only. Histories of committed transactions follow.
\<close>

section \<open>Jobs seen from outside\<close>

definition job_of :: "db \<Rightarrow> string \<Rightarrow> job_record option" where
  "job_of db jid = map_option row_job (find_job_row db jid)"

text \<open>One edge of the lifecycle, with everything else frozen.\<close>

definition lifecycle :: "job_record \<Rightarrow> job_record \<Rightarrow> bool" where
  "lifecycle j j' \<longleftrightarrow> frozen j j' \<and> valid_job j' \<and>
     job_status j' \<in> set (allowed_transitions (job_status j)) \<and>
     attempt_count j' = attempt_count j + (if job_status j' = RUNNING then 1 else 0) \<and>
     (available_at j' = available_at j \<or> job_status j = RUNNING \<and> job_status j' = QUEUED)"

definition submitted :: "job_record \<Rightarrow> bool" where
  "submitted j \<longleftrightarrow> valid_job j \<and> job_status j = QUEUED \<and> attempt_count j = 0"

definition job_moves :: "job_record option \<Rightarrow> job_record option \<Rightarrow> bool" where
  "job_moves o1 o2 \<longleftrightarrow> o1 = o2 \<or> (o1 = None \<and> (\<exists>j. o2 = Some j \<and> submitted j)) \<or>
     (\<exists>j j'. o1 = Some j \<and> o2 = Some j' \<and> lifecycle j j')"

lemma settles_lifecycle: "settles j s ec t j' \<Longrightarrow> valid_job j' \<Longrightarrow> lifecycle j j'"
  by (erule settles.cases) (auto simp: lifecycle_def frozen_def)

lemma job_of_row:
  "db_inv db \<Longrightarrow> row \<in> set (jobs_table db) \<Longrightarrow> job_of db (row_job_id row) = Some (row_job row)"
  using find_job_row_mem by (simp add: job_of_def)

lemma job_of_replaced:
  assumes "db_inv db" "row \<in> set (jobs_table db)" "frozen (row_job row) j'"
    "jobs_table db' = replace_job row j' (jobs_table db)"
  shows "job_of db' jid = (if jid = row_job_id row then Some j' else job_of db jid)"
  using find_job_row_mem[OF assms(1,2)] assms(3,4)
  by (auto simp: job_of_def find_job_row_def find_replace_job)

lemma job_moves_replaced:
  assumes "db_inv db" "row \<in> set (jobs_table db)" "lifecycle (row_job row) j'"
    "jobs_table db' = replace_job row j' (jobs_table db)"
  shows "job_moves (job_of db jid) (job_of db' jid)"
  using job_of_replaced[OF assms(1,2) _ assms(4)] job_of_row[OF assms(1,2)] assms(3)
  by (auto simp: job_moves_def lifecycle_def)

lemma find_app: "List.find p (xs @ ys) = (case List.find p xs of None \<Rightarrow> List.find p ys | Some x \<Rightarrow> Some x)"
  by (induction xs) auto

text \<open>Each abstract step moves every job along at most one edge.\<close>

theorem store_step_job:
  assumes "store_step db db'" "db_inv db"
  shows "job_moves (job_of db jid) (job_of db' jid)"
  using assms
proof (induction rule: store_step.induct)
  case (step_submit j p db)
  show ?case
    using step_submit.hyps unfolding job_moves_def job_of_def find_job_row_def submitted_def
    by (cases "List.find (\<lambda>r. row_job_id r = jid) (jobs_table db)") (auto simp: find_app split: option.splits)
next
  case (step_claim row db j' t arow)
  have "lifecycle (row_job row) j'" using step_claim.hyps by (simp add: lifecycle_def frozen_def)
  then show ?case by (rule job_moves_replaced[OF step_claim.prems step_claim.hyps(1)]) simp
next
  case (step_renew arow db h e)
  then show ?case by (simp add: job_moves_def job_of_def find_job_row_def)
next
  case (step_settle row db arow s ec t j')
  have "lifecycle (row_job row) j'" using settles_lifecycle step_settle.hyps by blast
  then show ?case
    by (rule job_moves_replaced[OF step_settle.prems step_settle.hyps(1)]) (simp add: settled_def)
next
  case (step_cancel row db s j' t)
  have "lifecycle (row_job row) j'" using step_cancel.hyps by (auto simp: lifecycle_def frozen_def)
  then show ?case by (rule job_moves_replaced[OF step_cancel.prems step_cancel.hyps(1)]) simp
next
  case (step_evidence db db')
  then show ?case
    by (auto simp: job_moves_def job_of_def find_job_row_def evidence_appended_def)
qed

lemma store_steps_job:
  "store_step\<^sup>*\<^sup>* db db' \<Longrightarrow> db_inv db \<Longrightarrow> job_moves\<^sup>*\<^sup>* (job_of db jid) (job_of db' jid)"
proof (induction rule: rtranclp_induct)
  case (step d1 d2)
  then show ?case
    using store_step_job[OF step.hyps(2) store_steps_inv[OF step.hyps(1) step.prems]]
    by (meson rtranclp.rtrancl_into_rtrancl)
qed simp

lemma terminal_absorbing:
  "job_moves\<^sup>*\<^sup>* o1 o2 \<Longrightarrow> o1 = Some j \<Longrightarrow> terminal (job_status j) \<Longrightarrow> o2 = Some j"
  by (induction rule: rtranclp_induct) (auto simp: job_moves_def lifecycle_def terminal_iff)

section \<open>Append-only evidence\<close>

definition evidence_extends :: "db \<Rightarrow> db \<Rightarrow> bool" where
  "evidence_extends db db' \<longleftrightarrow>
     prefix (datasets_table db) (datasets_table db') \<and> prefix (suites_table db) (suites_table db') \<and>
     prefix (runs_table db) (runs_table db') \<and>
     prefix (release_decisions_table db) (release_decisions_table db') \<and>
     prefix (job_payloads_table db) (job_payloads_table db')"

lemma evidence_extends_refl [simp]: "evidence_extends db db"
  by (simp add: evidence_extends_def)

lemma evidence_extends_trans:
  "evidence_extends db db' \<Longrightarrow> evidence_extends db' db'' \<Longrightarrow> evidence_extends db db''"
  by (auto simp: evidence_extends_def dest: prefix_order.trans)

lemma store_step_evidence: "store_step db db' \<Longrightarrow> evidence_extends db db'"
  by (induction rule: store_step.induct)
    (auto simp: evidence_extends_def evidence_appended_def settled_def)

lemma store_steps_evidence: "store_step\<^sup>*\<^sup>* db db' \<Longrightarrow> evidence_extends db db'"
  by (induction rule: rtranclp_induct) (auto intro: evidence_extends_trans store_step_evidence)

section \<open>The interface of a store operation\<close>

locale store_operation =
  fixes operation :: "'a tx"
  assumes refines: "db_inv db \<Longrightarrow> operation db = Inr (x, db') \<Longrightarrow> store_step\<^sup>*\<^sup>* db db'"
begin

lemma after_steps: "db_inv db \<Longrightarrow> store_step\<^sup>*\<^sup>* db (after operation db)"
  by (auto simp: after_def split: sum.splits prod.splits dest: refines)

lemma keeps_invariant: "db_inv db \<Longrightarrow> db_inv (after operation db)"
  using after_steps store_steps_inv by blast

lemma moves_jobs: "db_inv db \<Longrightarrow> job_moves\<^sup>*\<^sup>* (job_of db jid) (job_of (after operation db) jid)"
  using after_steps store_steps_job by blast

lemma extends_evidence: "db_inv db \<Longrightarrow> evidence_extends db (after operation db)"
  using after_steps store_steps_evidence by blast

lemma keeps_terminal:
  "db_inv db \<Longrightarrow> job_of db jid = Some j \<Longrightarrow> terminal (job_status j) \<Longrightarrow>
   job_of (after operation db) jid = Some j"
  using moves_jobs terminal_absorbing by metis

end

text \<open>
  A fenced operation acts for one attempt of one job under a lease token, at the first clock
  reading of its transaction.
\<close>

locale fenced_operation = store_operation operation for operation :: "'a tx" +
  fixes job :: string and attempt :: int and token :: string and now :: instant
  assumes holds: "db_inv db \<Longrightarrow> operation db = Inr (x, db') \<Longrightarrow> holds_lease db job attempt token now"
begin

lemma stale_rejected:
  "db_inv db \<Longrightarrow> \<not> holds_lease db job attempt token now \<Longrightarrow> \<exists>e. operation db = Inl e"
  using holds by (cases "operation db") fastforce+

lemma stale_unchanged:
  "db_inv db \<Longrightarrow> \<not> holds_lease db job attempt token now \<Longrightarrow> after operation db = db"
  using stale_rejected by (fastforce simp: after_def)

end

interpretation heartbeat_op: fenced_operation "heartbeat_job clock jid n token secs" jid n token "clock 0"
  for clock jid n token secs
proof unfold_locales
  show "store_step\<^sup>*\<^sup>* db db'" if "db_inv db" "heartbeat_job clock jid n token secs db = Inr (x, db')"
    for db x db'
    using heartbeat_job_Inr(2)[OF that] by (rule r_into_rtranclp)
  show "holds_lease db jid n token (clock 0)"
    if "db_inv db" "heartbeat_job clock jid n token secs db = Inr (x, db')" for db x db'
    using heartbeat_job_Inr(1)[OF that] .
qed

interpretation retry_op: fenced_operation "retry_job clock jid n token delay code" jid n token "clock 0"
  for clock jid n token delay code
proof unfold_locales
  show "store_step\<^sup>*\<^sup>* db db'" if "db_inv db" "retry_job clock jid n token delay code db = Inr (x, db')"
    for db x db'
    using retry_job_Inr(2)[OF that] by (rule r_into_rtranclp)
  show "holds_lease db jid n token (clock 0)"
    if "db_inv db" "retry_job clock jid n token delay code db = Inr (x, db')" for db x db'
    using retry_job_Inr(1)[OF that] .
qed

interpretation fail_op: fenced_operation "fail_job clock jid n token code" jid n token "clock 0"
  for clock jid n token code
proof unfold_locales
  show "store_step\<^sup>*\<^sup>* db db'" if "db_inv db" "fail_job clock jid n token code db = Inr (x, db')"
    for db x db'
    using fail_job_Inr(2)[OF that] by (rule r_into_rtranclp)
  show "holds_lease db jid n token (clock 0)"
    if "db_inv db" "fail_job clock jid n token code db = Inr (x, db')" for db x db'
    using fail_job_Inr(1)[OF that] .
qed

interpretation cancel_op: store_operation "cancel_job clock jid" for clock jid
  by unfold_locales (rule cancel_job_Inr(1))

interpretation acknowledge_op: store_operation "acknowledge_cancellation clock jid n token"
  for clock jid n token
  by unfold_locales (rule acknowledge_cancellation_Inr(1))

interpretation complete_run_op: store_operation "complete_run env clock jid r n token"
  for env clock jid r n token
  by unfold_locales (erule complete_run_Inr, assumption)

interpretation complete_decision_op: store_operation "complete_release_decision env clock jid r n token"
  for env clock jid r n token
  by unfold_locales (erule complete_release_decision_Inr, assumption)

interpretation reap_op: store_operation "reap_expired_jobs env clock locked limit base maximum"
  for env clock locked limit base maximum
  by unfold_locales (rule reap_expired_jobs_Inr(1))

interpretation claim_op: store_operation "claim_next_job env clock locked worker token secs"
  for env clock locked worker token secs
proof unfold_locales
  fix db x db'
  assume inv: "db_inv db" and op: "claim_next_job env clock locked worker token secs db = Inr (x, db')"
  show "store_step\<^sup>*\<^sup>* db db'"
  proof (cases x)
    case None
    with op claim_next_job_None[of env clock locked worker token secs db db'] show ?thesis by simp
  next
    case (Some c)
    with op have "claim_next_job env clock locked worker token secs db = Inr (Some c, db')" by simp
    then show ?thesis by (rule claim_next_job_Some[OF inv]) blast
  qed
qed

text \<open>A job record exists only once its validator has accepted it.\<close>

definition submit_record ::
    "store_config \<Rightarrow> job_record \<Rightarrow> job_payload \<Rightarrow> (job_record \<times> bool) tx" where
  "submit_record env j payload db =
     rbind (validate_job_record j) (\<lambda>j'. begin_job env j' payload db)"

interpretation submit_op: store_operation "submit_record env j payload" for env j payload
proof unfold_locales
  fix db :: db and x db'
  assume "submit_record env j payload db = Inr (x, db')"
  then have "begin_job env j payload db = Inr ((fst x, snd x), db')" "valid_job j"
    by (auto simp: submit_record_def result_simps validate_job_record_Inr valid_job_def)
  from begin_job_Inr[OF this] show "store_step\<^sup>*\<^sup>* db db'" by (cases "snd x") auto
qed

interpretation put_run_op: store_operation "put_run env r" for env r
  by unfold_locales (auto intro: step_evidence dest: put_run_Inr)

interpretation put_decision_op: store_operation "put_release_decision env r" for env r
  by unfold_locales (auto intro: step_evidence dest: put_release_decision_Inr)

interpretation put_dataset_op: store_operation "put_dataset env r" for env r
  by unfold_locales (auto intro: step_evidence dest: put_dataset_Inr)

interpretation put_suite_op: store_operation "put_suite env r" for env r
  by unfold_locales (auto intro: step_evidence dest: put_suite_Inr)

section \<open>Histories\<close>

datatype command =
    Submit job_record job_payload
  | Claim clock "string \<Rightarrow> bool" string string int
  | Heartbeat clock string int string int
  | Retry clock string int string int string
  | Fail clock string int string string
  | Cancel clock string
  | Acknowledge clock string int string
  | CompleteRun clock string run_record int string
  | CompleteDecision clock string release_decision_record int string
  | Reap clock "string \<Rightarrow> bool" int int int
  | PutDataset dataset_record
  | PutSuite suite_record
  | PutRun run_record
  | PutDecision release_decision_record

fun execute :: "store_config \<Rightarrow> command \<Rightarrow> db \<Rightarrow> db" where
  "execute env (Submit j p) = after (submit_record env j p)"
| "execute env (Claim clock locked w t s) = after (claim_next_job env clock locked w t s)"
| "execute env (Heartbeat clock j n t s) = after (heartbeat_job clock j n t s)"
| "execute env (Retry clock j n t d c) = after (retry_job clock j n t d c)"
| "execute env (Fail clock j n t c) = after (fail_job clock j n t c)"
| "execute env (Cancel clock j) = after (cancel_job clock j)"
| "execute env (Acknowledge clock j n t) = after (acknowledge_cancellation clock j n t)"
| "execute env (CompleteRun clock j r n t) = after (complete_run env clock j r n t)"
| "execute env (CompleteDecision clock j r n t) = after (complete_release_decision env clock j r n t)"
| "execute env (Reap clock locked l b m) = after (reap_expired_jobs env clock locked l b m)"
| "execute env (PutDataset r) = after (put_dataset env r)"
| "execute env (PutSuite r) = after (put_suite env r)"
| "execute env (PutRun r) = after (put_run env r)"
| "execute env (PutDecision r) = after (put_release_decision env r)"

text \<open>Any interleaving of transactions by any number of clients, in commit order.\<close>

definition history :: "store_config \<Rightarrow> command list \<Rightarrow> db \<Rightarrow> db" where
  "history env commands db = fold (execute env) commands db"

lemma execute_steps: "db_inv db \<Longrightarrow> store_step\<^sup>*\<^sup>* db (execute env c db)"
  by (cases c) (simp_all add: submit_op.after_steps claim_op.after_steps heartbeat_op.after_steps
    retry_op.after_steps fail_op.after_steps cancel_op.after_steps acknowledge_op.after_steps
    complete_run_op.after_steps complete_decision_op.after_steps reap_op.after_steps
    put_dataset_op.after_steps put_suite_op.after_steps put_run_op.after_steps put_decision_op.after_steps)

lemma history_steps: "db_inv db \<Longrightarrow> store_step\<^sup>*\<^sup>* db (history env cs db)"
proof (induction cs arbitrary: db)
  case (Cons c cs)
  from execute_steps[OF Cons.prems, of env c] have s: "store_step\<^sup>*\<^sup>* db (execute env c db)" .
  moreover have "store_step\<^sup>*\<^sup>* (execute env c db) (history env cs (execute env c db))"
    using Cons.IH store_steps_inv[OF s Cons.prems] by blast
  ultimately show ?case by (simp add: history_def)
qed (simp add: history_def)

lemma history_inv: "db_inv db \<Longrightarrow> db_inv (history env cs db)"
  using history_steps store_steps_inv by blast

lemma history_empty_inv: "db_inv (history env cs empty_db)"
  by (rule history_inv[OF db_inv_empty])

end
