(* ===== verification/QueueExample.thy ===== *)
theory QueueExample
  imports JobContract
begin

text \<open>
  A small concrete store, with one job in each interesting state, at which the properties of
  the queue are exercised.
\<close>

definition sample_digest :: string where
  "sample_digest = ''sha256:'' @ replicate 64 CHR ''a''"

definition sample_token :: string where
  "sample_token = replicate 32 CHR ''t''"

definition sample_job :: "string \<Rightarrow> job_status \<Rightarrow> int \<Rightarrow> job_record" where
  "sample_job jid s n = \<lparr>job_id = jid, job_kind = RUN_JOB, job_status = s, idempotency_key = jid,
     request_digest = sample_digest, resource_id = jid, attempt_count = n, max_attempts = 3,
     available_at = 0, job_error_code = None, job_created_at = 0, job_updated_at = 0,
     traceparent = None\<rparr>"

definition sample_attempt :: "string \<Rightarrow> job_attempt_status \<Rightarrow> instant option \<Rightarrow> attempt_row" where
  "sample_attempt jid s f = \<lparr>row_attempt = \<lparr>attempt_job_id = jid, attempt_number = 1,
       attempt_status = s, attempt_error_code = None, started_at = 0, heartbeat_at = 0,
       lease_expires_at = 10, finished_at = f\<rparr>,
     worker_id = ''worker-1'', lease_token = sample_token\<rparr>"

text \<open>
  An environment whose serialiser knows one document: enough to run every operation.
\<close>

definition sample_ref :: "artifact_kind \<Rightarrow> artifact_ref" where
  "sample_ref k = \<lparr>ref_kind = k, ref_name = ''r'', ref_revision = 1, ref_digest = Some sample_digest\<rparr>"

definition sample_payload :: job_payload where
  "sample_payload = RunPayload \<lparr>rp_v2 = False, rp_suite = None, rp_dataset = sample_ref DATASET,
     rp_target_name = ''r'', rp_target_revision = 1, rp_adapter = ''a'', rp_evaluator_names = [''e''],
     rp_overrides = [], rp_contract = \<lparr>contract_adapter = ''a'', contract_evaluator_names = [''e''],
       contract_target = sample_ref TARGET, contract_evaluators = [sample_ref EVALUATOR],
       contract_mode = LIVE\<rparr>\<rparr>"

definition blank_codec :: "'m codec" where
  "blank_codec = \<lparr>dump_model = \<lambda>_. JNull, read_model = \<lambda>_. None\<rparr>"

definition sample_env :: store_config where
  "sample_env = \<lparr>env_jcs = \<lambda>_. Some ''{}'', env_parse = \<lambda>_. Some (JObj []),
     dataset_codec = blank_codec, suite_codec = blank_codec, run_codec = blank_codec,
     decision_codec = blank_codec, payload_handler = \<lambda>_. [],
     payload_reader = \<lambda>_. Some sample_payload, max_document_bytes = 1000, postgresql = True\<rparr>"

definition sample_payload_digest :: string where
  "sample_payload_digest = ''sha256:'' @ sha256_hex ''{}''"

definition sample_payload_row :: "string \<Rightarrow> payload_row" where
  "sample_payload_row jid = \<lparr>pr_job_id = jid, pr_digest = sample_payload_digest, pr_document = ''{}'',
     pr_created_at = 0\<rparr>"

definition sample_run_row :: run_row where
  "sample_run_row = \<lparr>rr_run_id = ''e'', rr_digest = sample_digest, rr_dataset_name = ''d'',
     rr_dataset_revision = 1, rr_status = RUN_COMPLETED, rr_mode = LIVE, rr_input_units = 0,
     rr_output_units = 0, rr_suite = (None, None, None), rr_target = (None, None, None),
     rr_document = ''{}'', rr_created_at = 0\<rparr>"

text \<open>
  Jobs: \<open>a\<close> queued, \<open>b\<close> running, \<open>c\<close> with a requested cancellation, \<open>d\<close> canceled, \<open>e\<close>
  succeeded with its evidence.
\<close>

definition sample_db :: db where
  "sample_db = \<lparr>datasets_table = [], suites_table = [],
     jobs_table = [\<lparr>row_job = sample_job ''a'' QUEUED 0, row_version = 0\<rparr>,
       \<lparr>row_job = sample_job ''b'' RUNNING 1, row_version = 1\<rparr>,
       \<lparr>row_job = sample_job ''c'' CANCEL_REQUESTED 1, row_version = 2\<rparr>,
       \<lparr>row_job = sample_job ''d'' CANCELED 0, row_version = 1\<rparr>,
       \<lparr>row_job = sample_job ''e'' SUCCEEDED 1, row_version = 2\<rparr>],
     job_payloads_table = map sample_payload_row [''a'', ''b'', ''c'', ''d'', ''e''],
     job_attempts_table = [sample_attempt ''b'' ATTEMPT_RUNNING None,
       sample_attempt ''c'' ATTEMPT_RUNNING None, sample_attempt ''e'' ATTEMPT_SUCCEEDED (Some 1)],
     runs_table = [sample_run_row], release_decisions_table = []\<rparr>"

lemma sample_digest_ok: "is_sha256_digest sample_digest"
  by (simp add: sample_digest_def is_sha256_digest_def list_all_length is_hex_def is_digit_def
      less_eq_char_def)

lemma sample_token_ok: "is_lease_token sample_token"
  by (simp add: sample_token_def is_lease_token_def list_all_length is_alnum_def is_alpha_def
      is_lower_def less_eq_char_def)

lemma stable_letters [simp]:
  "is_stable_id ''a''" "is_stable_id ''b''" "is_stable_id ''c''" "is_stable_id ''d''" "is_stable_id ''e''"
  "is_stable_id ''worker-1''"
  by (simp_all add: is_stable_id_def matches_def is_alnum_def is_alpha_def is_lower_def is_digit_def
      less_eq_char_def)

lemma sample_names [simp]: "is_artifact_name ''r''"
  by (simp add: is_artifact_name_def matches_def is_alnum_def is_alpha_def is_lower_def is_digit_def
      less_eq_char_def)

lemma sample_payload_valid: "validate_payload sample_payload = Inr sample_payload"
  by (simp add: validate_payload_def sample_payload_def validate_run_payload_def Let_def
      unresolved_def sample_ref_def result_simps)

lemma sample_env_simps [simp]:
  "env_jcs sample_env = (\<lambda>_. Some ''{}'')" "env_parse sample_env = (\<lambda>_. Some (JObj []))"
  "payload_handler sample_env = (\<lambda>_. [])" "payload_reader sample_env = (\<lambda>_. Some sample_payload)"
  "postgresql sample_env"
  by (simp_all add: sample_env_def)

lemma sample_payload_digest: "payload_digest (\<lambda>_. Some ''{}'') h p = Inr sample_payload_digest"
  by (simp add: payload_digest_def sha256_digest_def canonical_json_bytes_def sample_payload_digest_def)

lemma sample_payload_kind: "payload_kind sample_payload = RUN_JOB"
  by (simp add: sample_payload_def)

lemma sample_payload_row_simps [simp]:
  "pr_job_id (sample_payload_row jid) = jid" "pr_digest (sample_payload_row jid) = sample_payload_digest"
  "pr_document (sample_payload_row jid) = ''{}''" "pr_created_at (sample_payload_row jid) = 0"
  by (simp_all add: sample_payload_row_def)

lemma sample_payload_loads:
  assumes "List.find (\<lambda>r. pr_job_id r = job_id j) (job_payloads_table db) = Some (sample_payload_row jid)"
    "job_kind j = RUN_JOB" "job_created_at j = 0"
  shows "load_job_payload sample_env db j required = Inr (Some sample_payload)"
  unfolding load_job_payload_def assms(1)
  by (simp add: assms(2,3) require_payload_size_def canonical_json_bytes_def sample_payload_valid
      sample_payload_digest sample_payload_kind)

lemma sample_job_valid:
  "is_stable_id jid \<Longrightarrow> 0 \<le> n \<Longrightarrow> n \<le> 3 \<Longrightarrow> s \<noteq> FAILED \<Longrightarrow> (s = QUEUED \<Longrightarrow> n < 3) \<Longrightarrow>
   (s \<in> {RUNNING, CANCEL_REQUESTED, SUCCEEDED} \<Longrightarrow> 1 \<le> n) \<Longrightarrow> valid_job (sample_job jid s n)"
  by (auto simp: valid_job_def job_fields_ok_def validate_state_ok_iff sample_job_def sample_digest_ok)

lemma sample_attempt_ok:
  "is_stable_id jid \<Longrightarrow> s = ATTEMPT_RUNNING \<and> f = None \<or> s = ATTEMPT_SUCCEEDED \<and> f = Some 1 \<Longrightarrow>
   is_ok (attempt_record_of (sample_attempt jid s f))"
  by (auto simp: attempt_record_of_ok attempt_valid_def sample_attempt_def sample_token_ok failed_statuses_def)

lemma sample_constraints:
  "jobs_constraints (jobs_table sample_db)" "attempts_constraints (job_attempts_table sample_db)"
  by (simp_all add: jobs_constraints_def attempts_constraints_def sample_db_def job_row_ok_def
      sample_job_def idempotency_index_def resource_index_def attempt_row_ok_def sample_attempt_def
      sample_token_def attempt_key_def running_attempts_def failed_statuses_def Let_def)

lemma sample_numbers:
  "numbers_of (job_attempts_table sample_db) jid = (if jid \<in> {''b'', ''c'', ''e''} then {1} else {})"
  by (auto simp: numbers_of_keys sample_db_def sample_attempt_def attempt_key_def)

lemma sample_job_simps [simp]:
  "job_id (sample_job jid s n) = jid" "job_status (sample_job jid s n) = s"
  "attempt_count (sample_job jid s n) = n" "job_kind (sample_job jid s n) = RUN_JOB"
  "resource_id (sample_job jid s n) = jid" "max_attempts (sample_job jid s n) = 3"
  "job_error_code (sample_job jid s n) = None" "job_updated_at (sample_job jid s n) = 0"
  "available_at (sample_job jid s n) = 0" "job_created_at (sample_job jid s n) = 0"
  by (simp_all add: sample_job_def)

lemma sample_attempt_simps [simp]:
  "attempt_key (sample_attempt jid s f) = (jid, 1)" "row_attempt_job (sample_attempt jid s f) = jid"
  "row_attempt_number (sample_attempt jid s f) = 1" "lease_token (sample_attempt jid s f) = sample_token"
  "attempt_status (row_attempt (sample_attempt jid s f)) = s"
  "lease_expires_at (row_attempt (sample_attempt jid s f)) = 10"
  by (simp_all add: sample_attempt_def attempt_key_def)

lemma sample_db_inv: "db_inv sample_db"
proof -
  have one: "{1 .. 1 :: int} = {1}" "{1 .. 0 :: int} = {}" by auto
  have v: "valid_job (sample_job ''a'' QUEUED 0)" "valid_job (sample_job ''b'' RUNNING 1)"
    "valid_job (sample_job ''c'' CANCEL_REQUESTED 1)" "valid_job (sample_job ''d'' CANCELED 0)"
    "valid_job (sample_job ''e'' SUCCEEDED 1)"
    by (rule sample_job_valid; simp)+
  have ev: "has_evidence sample_db (sample_job ''e'' SUCCEEDED 1)"
    by (simp add: has_evidence_def sample_db_def sample_run_row_def)
  have jobs: "job_row_inv sample_db r" if "r \<in> set (jobs_table sample_db)" for r
    using that v ev unfolding job_row_inv_def sample_numbers by (auto simp: sample_db_def one)
  have attempts: "attempt_row_inv sample_db a" if "a \<in> set (job_attempts_table sample_db)" for a
    using that sample_attempt_ok
    by (auto simp: attempt_row_inv_def sample_db_def attempt_fits_def last_attempt_ok.simps Let_def)
  show ?thesis
    unfolding db_inv_def
    using sample_constraints jobs attempts by (auto simp: sample_db_def sample_payload_row_def)
qed

text \<open>A claim on the sample store takes job \<open>a\<close>.\<close>

definition sample_claim :: "claimed_job option tx" where
  "sample_claim = claim_next_job sample_env (\<lambda>_. 5) (\<lambda>_. False) ''worker-1'' sample_token 30"

lemma sample_claim_takes_a: "\<exists>c db'. sample_claim sample_db = Inr (Some c, db')"
proof -
  let ?j = "sample_job ''a'' QUEUED 0"
  let ?run = "?j\<lparr>job_status := RUNNING, attempt_count := 1, job_updated_at := 5\<rparr>"
  have valid: "valid_job ?j" "valid_job ?run"
    using sample_job_valid[of "''a''" 0 QUEUED]
    by (simp_all add: valid_job_def job_fields_ok_def validate_state_ok_iff)
  have rows: "sort_key claim_order (filter (claimable 5 (\<lambda>_. False)) (jobs_table sample_db)) =
      [\<lparr>row_job = ?j, row_version = 0\<rparr>]"
    by (simp add: claimable_def sample_db_def)
  have load: "load_job_payload sample_env sample_db ?j True = Inr (Some sample_payload)"
    by (rule sample_payload_loads[where jid = "''a''"]) (simp_all add: sample_db_def)
  have move: "transition_to ?j RUNNING (at_utc 5) None None = Inr ?run"
    using valid(2) by (simp add: transition_to_def next_schedule_def) (simp add: sample_job_def)
  let ?row = "\<lparr>row_job = ?j, row_version = 0\<rparr>"
  let ?arow = "\<lparr>row_attempt = \<lparr>attempt_job_id = ''a'', attempt_number = 1,
       attempt_status = ATTEMPT_RUNNING, attempt_error_code = None, started_at = 5, heartbeat_at = 5,
       lease_expires_at = 5 + seconds 30, finished_at = None\<rparr>,
     worker_id = ''worker-1'', lease_token = sample_token\<rparr>"
  have upd: "\<exists>db1. update_job ?row ?run sample_db = Inr ((), db1) \<and>
      jobs_table db1 = replace_job ?row ?run (jobs_table sample_db) \<and>
      job_attempts_table db1 = job_attempts_table sample_db"
    by (simp add: update_job_def update_jobs_def update_where_def row_count_def replace_job_def
        jobs_constraints_def sample_db_def job_row_ok_def idempotency_index_def resource_index_def
        Let_def tbind_def) (simp add: sample_job_def)
  then obtain db1 where db1: "update_job ?row ?run sample_db = Inr ((), db1)"
    "jobs_table db1 = replace_job ?row ?run (jobs_table sample_db)"
    "job_attempts_table db1 = job_attempts_table sample_db" by blast
  have ins: "\<exists>db2. insert_attempt ?arow db1 = Inr ((), db2)"
    by (simp add: insert_attempt_def db1 attempts_constraints_def sample_db_def attempt_row_ok_def
        sample_attempt_def sample_token_def attempt_key_def running_attempts_def failed_statuses_def
        replace_job_def seconds_def Let_def)
  have att: "validate_attempt (row_attempt ?arow) = Inr (row_attempt ?arow)"
    by (simp add: validate_attempt_Inr attempt_valid_def failed_statuses_def seconds_def)
  have rec: "job_record_of ?row = Inr ?j" using valid(1) by (simp add: job_record_of_Inr)
  show ?thesis
    unfolding sample_claim_def claim_next_job_def Let_def
    using rows load move db1(1) ins att rec sample_token_ok
    by (auto simp: worker_id_value_def lease_token_value_def bounded_int_def
        require_postgresql_coordination_def sql_errors_def tbind_def)
qed

text \<open>A reaping of the sample store after every lease expired, one job at a time: job \<open>b\<close> first.\<close>

definition sample_reap :: "job_record list tx" where
  "sample_reap = reap_expired_jobs sample_env (\<lambda>_. 50) (\<lambda>_. False) 1 2 60"

lemma sample_reap_recovers_b: "\<exists>j db'. sample_reap sample_db = Inr ([j], db')"
proof -
  let ?j = "sample_job ''b'' RUNNING 1"
  let ?q = "?j\<lparr>job_status := QUEUED, available_at := 50 + seconds 2, job_updated_at := 50\<rparr>"
  let ?row = "\<lparr>row_job = ?j, row_version = 1\<rparr>"
  let ?arow = "sample_attempt ''b'' ATTEMPT_RUNNING None"
  have valid: "valid_job ?j" "valid_job ?q"
    using sample_job_valid[of "''b''" 1 RUNNING]
    by (simp_all add: valid_job_def job_fields_ok_def validate_state_ok_iff seconds_def)
  have cands: "expired_candidates 50 (\<lambda>_. False) 1 sample_db = [(''b'', 1)]"
    by (simp add: expired_candidates_def expired_def expiry_order_def sample_db_def
        less_list_code less_char_def)
  have rows: "find_job_row sample_db ''b'' = Some ?row" "find_attempt_row sample_db ''b'' 1 = Some ?arow"
    by (simp_all add: find_job_row_def find_attempt_row_def sample_db_def)
  have move: "transition_to ?j QUEUED (at_utc 50) None (Some (at_utc (50 + seconds 2))) = Inr ?q"
    using valid(2)
    by (simp add: transition_to_def next_schedule_def seconds_def) (simp add: sample_job_def)
  have "\<exists>db1. finish_attempt ''b'' 1 sample_token LEASE_EXPIRED (Some ''lease_expired'') 50 None sample_db
      = Inr ((), db1) \<and> jobs_table db1 = jobs_table sample_db"
    by (simp add: finish_attempt_def update_attempts_def update_where_def row_count_def tbind_def
        attempts_constraints_def sample_db_def attempt_row_ok_def sample_attempt_def sample_token_def
        attempt_key_def running_attempts_def failed_statuses_def Let_def)
  then obtain db1 where fin: "finish_attempt ''b'' 1 sample_token LEASE_EXPIRED (Some ''lease_expired'')
      50 None sample_db = Inr ((), db1)" and jobs: "jobs_table db1 = jobs_table sample_db" by blast
  have upd: "\<exists>db2. update_job ?row ?q db1 = Inr ((), db2)"
    by (simp add: update_job_def update_jobs_def update_where_def row_count_def jobs
        jobs_constraints_def sample_db_def job_row_ok_def idempotency_index_def resource_index_def
        Let_def tbind_def seconds_def) (simp add: sample_job_def)
  have rec: "job_record_of ?row = Inr ?j" using valid(1) by (simp add: job_record_of_Inr)
  have "\<exists>db2. reap_one 2 60 50 (''b'', 1) sample_db = Inr (?q, db2)"
    unfolding reap_one_def Let_def using rows rec fin move upd by (auto simp: tbind_def retry_delay_def)
  then show ?thesis
    unfolding sample_reap_def reap_expired_jobs_def
    by (auto simp: bounded_int_def require_postgresql_coordination_def sql_errors_def cands[unfolded One_nat_def] tbind_def)
qed

text \<open>The submission of job \<open>a\<close> to an empty store.\<close>

lemma sample_submission:
  "\<exists>db. begin_job sample_env (sample_job ''a'' QUEUED 0) sample_payload empty_db =
     Inr ((sample_job ''a'' QUEUED 0, True), db)"
proof -
  have len: "length sample_payload_digest = 71"
    using sha256_hex_shape[of "''{}''"] by (simp add: sample_payload_digest_def)
  have con: "jobs_constraints [\<lparr>row_job = sample_job ''a'' QUEUED 0, row_version = 0\<rparr>]"
    by (simp add: jobs_constraints_def job_row_ok_def sample_job_def)
  show ?thesis
    by (simp add: begin_job_def canonical_json_bytes_def require_payload_size_def sample_payload_digest
        sample_payload_kind insert_job_def insert_payload_def empty_db_def con len tbind_def Let_def)
qed

end
