(* ===== verification/QueueProperties.thy ===== *)
theory QueueProperties
  imports QueueExample
begin

text \<open>
  The properties of the leased job queue, over arbitrary histories of committed transactions
  and arbitrary clock readings.
\<close>

lemma sample_jobs_of:
  "job_of sample_db ''a'' = Some (sample_job ''a'' QUEUED 0)"
  "job_of sample_db ''b'' = Some (sample_job ''b'' RUNNING 1)"
  "job_of sample_db ''c'' = Some (sample_job ''c'' CANCEL_REQUESTED 1)"
  "job_of sample_db ''d'' = Some (sample_job ''d'' CANCELED 0)"
  "job_of sample_db ''e'' = Some (sample_job ''e'' SUCCEEDED 1)"
  by (simp_all add: job_of_def find_job_row_def sample_db_def)

lemma sample_holds: "holds_lease sample_db ''b'' 1 sample_token 5"
  by (simp add: holds_lease_def sample_db_def)

lemma sample_stale: "\<not> holds_lease sample_db ''b'' 2 sample_token 5"
  by (simp add: holds_lease_def sample_db_def)

section \<open>Invariants of every history\<close>

text \<open>
  C1. Whatever transactions clients commit, in whatever order and with whatever clock readings,
  the tables satisfy the store invariant: the constraints hold, every job is valid, its attempts
  are numbered from one to its attempt count, only the last can be running and only while the
  job is active, the outcomes agree with the job's status, a succeeded job has its evidence, and
  every job has its payload.
\<close>

theorem history_invariant: "db_inv (history env commands empty_db)"
  by (rule history_empty_inv)

text \<open>
  C2. Refinement to the lifecycle of the domain: seen from outside, any further transactions
  move each job only along edges of \<open>_ALLOWED_TRANSITIONS\<close> from its submission as queued, one
  attempt per claim, with its identity, request digest, resource and attempt bound frozen.
\<close>

theorem history_refines_lifecycle:
  "job_moves\<^sup>*\<^sup>* (job_of (history env past empty_db) jid)
     (job_of (history env (past @ future) empty_db) jid)"
proof -
  have "history env (past @ future) empty_db = history env future (history env past empty_db)"
    by (simp add: history_def)
  then show ?thesis using history_steps[OF history_empty_inv] store_steps_job[OF _ history_empty_inv] by metis
qed

text \<open>
  C3. A succeeded, failed or canceled job never changes again, field by field.
\<close>

theorem terminal_jobs_never_change:
  assumes "db_inv db" "job_of db jid = Some j" "job_status j \<in> {SUCCEEDED, FAILED, CANCELED}"
  shows "job_of (history env commands db) jid = Some j"
  using store_steps_job[OF history_steps[OF assms(1)] assms(1)] assms(2,3) terminal_absorbing
  by (metis terminal_def)

theorem terminal_jobs_never_change_witness:
  "\<forall>env commands. job_of (history env commands sample_db) ''e'' = Some (sample_job ''e'' SUCCEEDED 1)"
  by (intro allI terminal_jobs_never_change[OF sample_db_inv sample_jobs_of(5)]) simp

text \<open>
  C4. Evidence is append-only: no later transaction changes or removes a dataset, suite, run,
  release decision or payload row.
\<close>

theorem evidence_append_only:
  "evidence_extends (history env past empty_db) (history env (past @ future) empty_db)"
proof -
  have "history env (past @ future) empty_db = history env future (history env past empty_db)"
    by (simp add: history_def)
  then show ?thesis using history_steps[OF history_empty_inv] store_steps_evidence by metis
qed

text \<open>
  In every history a job that succeeded has its run or release decision stored under its
  resource identifier.
\<close>

theorem success_has_evidence:
  assumes "db_inv db" "job_of (history env commands db) jid = Some j" "job_status j = SUCCEEDED"
  shows "has_evidence (history env commands db) j"
proof -
  from assms(2) obtain row where row: "find_job_row (history env commands db) jid = Some row"
    "j = row_job row" by (auto simp: job_of_def)
  from db_inv_job[OF history_inv[OF assms(1)] find_job_row_Some[OF row(1), THEN conjunct1]] row assms(3)
  show ?thesis by (simp add: job_row_inv_def)
qed

theorem success_has_evidence_witness:
  "\<forall>env. has_evidence (history env [] sample_db) (sample_job ''e'' SUCCEEDED 1)"
  by (intro allI success_has_evidence[OF sample_db_inv, where jid = "''e''"])
    (simp_all add: history_def sample_jobs_of)

lemma sorted_distinct_numbers:
  fixes xs :: "int list"
  assumes "sorted xs" "distinct xs" "set xs = {1 .. n}"
  shows "xs = [1 .. n]"
  using assms by (intro sorted_distinct_set_unique) simp_all

text \<open>
  The attempt history of every job is complete and bounded: listing it succeeds, the
  attempts are numbered one to the attempt count without a gap, and there are at most
  \<open>max_attempts\<close> of them, ten at the most.
\<close>

theorem attempt_history_complete:
  assumes "db_inv db" "job_of (history env commands db) jid = Some j"
  shows "\<exists>records. list_job_attempts (history env commands db) jid = Inr records \<and>
    map attempt_number records = [1 .. attempt_count j] \<and>
    int (length records) \<le> max_attempts j \<and> max_attempts j \<le> 10"
proof -
  let ?db = "history env commands db"
  have inv: "db_inv ?db" using history_inv[OF assms(1)] .
  from assms(2) obtain row where row: "find_job_row ?db jid = Some row" "j = row_job row"
    by (auto simp: job_of_def)
  note R = find_job_row_Some[OF row(1)]
  have J: "valid_job j" "numbers_of (job_attempts_table ?db) jid = {1 .. attempt_count j}"
    using db_inv_job[OF inv R[THEN conjunct1]] R row(2) by (auto simp: job_row_inv_def)
  let ?as = "attempts_of ?db jid"
  have mem: "a \<in> set ?as \<longleftrightarrow> a \<in> set (job_attempts_table ?db) \<and> row_attempt_job a = jid" for a
    by (simp add: attempts_of_def)
  have "attempt_record_of a = Inr (row_attempt a)" if "a \<in> set ?as" for a
    using db_inv_attempt[OF inv] that mem by (auto simp: attempt_row_inv_def is_ok_iff attempt_record_of_Inr)
  then have recs: "rmap attempt_record_of ?as = Inr (map row_attempt ?as)" by (rule rmap_total)
  have "map row_attempt_number ?as = [1 .. attempt_count j]"
  proof (rule sorted_distinct_numbers)
    show "sorted (map row_attempt_number ?as)" by (simp add: attempts_of_def)
    have "distinct (map attempt_key (job_attempts_table ?db))"
      using inv by (simp add: db_inv_def attempts_constraints_def)
    then have "inj_on row_attempt_number (set ?as)" "distinct (job_attempts_table ?db)"
      by (auto simp: distinct_map inj_on_def attempt_key_def mem)
    then show "distinct (map row_attempt_number ?as)" by (simp add: distinct_map attempts_of_def)
    show "set (map row_attempt_number ?as) = {1 .. attempt_count j}"
      using J(2) mem by (auto simp: numbers_of_def)
  qed
  then have nums: "map attempt_number (map row_attempt ?as) = [1 .. attempt_count j]" by (simp add: comp_def)
  then have "length (map row_attempt ?as) = nat (attempt_count j)" by (metis length_map length_upto diff_add_cancel)
  moreover have "attempt_count j \<le> max_attempts j" "max_attempts j \<le> 10" "0 \<le> attempt_count j"
    using J(1) by (simp_all add: valid_job_def job_fields_ok_def validate_state_ok_iff)
  moreover have "job_record_of row = Inr j" using J(1) row(2) by (simp add: job_record_of_Inr)
  ultimately show ?thesis
    using row(1) recs nums
    by (intro exI[of _ "map row_attempt ?as"]) (auto simp: list_job_attempts_def)
qed

theorem attempt_history_complete_witness:
  "\<forall>env. \<exists>records. list_job_attempts (history env [] sample_db) ''b'' = Inr records \<and>
    map attempt_number records = [1 .. 1] \<and> int (length records) \<le> 3"
proof
  fix env
  show "\<exists>records. list_job_attempts (history env [] sample_db) ''b'' = Inr records \<and>
    map attempt_number records = [1 .. 1] \<and> int (length records) \<le> 3"
    using attempt_history_complete[OF sample_db_inv, of env "[]" "''b''" "sample_job ''b'' RUNNING 1"]
    by (simp add: history_def sample_jobs_of)
qed

section \<open>Fencing\<close>

text \<open>
  Mutual exclusion of workers: at any time at most one attempt number and one lease token
  hold the lease of a job.
\<close>

theorem single_lease_holder:
  assumes "db_inv db" "holds_lease (history env commands db) jid n token t"
    "holds_lease (history env commands db) jid n' token' t'"
  shows "n = n' \<and> token = token'"
proof -
  let ?db = "history env commands db"
  have inv: "db_inv ?db" using history_inv[OF assms(1)] .
  from assms(2) obtain r a where ra: "r \<in> set (jobs_table ?db)" "a \<in> set (job_attempts_table ?db)"
    "row_job_id r = jid" "attempt_count (row_job r) = n" "attempt_key a = (jid, n)" "lease_token a = token"
    unfolding holds_lease_def by blast
  from assms(3) obtain r' a' where ra': "r' \<in> set (jobs_table ?db)" "a' \<in> set (job_attempts_table ?db)"
    "row_job_id r' = jid" "attempt_count (row_job r') = n'" "attempt_key a' = (jid, n')"
    "lease_token a' = token'"
    unfolding holds_lease_def by blast
  have "r = r'" using same_job_row[OF inv ra(1) ra'(1)] ra(3) ra'(3) by simp
  then have n: "n = n'" using ra(4) ra'(4) by simp
  then have "a = a'" using same_attempt_row[OF inv ra(2) ra'(2)] ra(5) ra'(5) by simp
  with n ra(6) ra'(6) show ?thesis by simp
qed

theorem single_lease_holder_witness:
  "\<forall>env. {(n, token). \<exists>t. holds_lease (history env [] sample_db) ''b'' n token t} = {(1, sample_token)}"
proof
  fix env
  have h: "holds_lease (history env [] sample_db) ''b'' 1 sample_token 5"
    by (simp add: history_def sample_holds)
  show "{(n, token). \<exists>t. holds_lease (history env [] sample_db) ''b'' n token t} = {(1, sample_token)}"
    using single_lease_holder[OF sample_db_inv _ h] h by blast
qed

lemma after_Inl: "m db = Inl e \<Longrightarrow> after m db = db"
  by (simp add: after_def)

lemma after_unchanged: "(\<And>x db'. m db = Inr (x, db') \<Longrightarrow> db' = db) \<Longrightarrow> after m db = db"
  by (auto simp: after_def split: sum.split)

text \<open>
  C5. Fencing: a worker whose attempt number or token is stale, or whose lease expired at the
  time the database locks the job, changes nothing through any worker operation.
\<close>

theorem stale_worker_changes_nothing:
  assumes "db_inv db" "\<not> holds_lease db jid n token (clock 0)"
  shows "after (heartbeat_job clock jid n token secs) db = db \<and>
    after (retry_job clock jid n token delay code) db = db \<and>
    after (fail_job clock jid n token code) db = db \<and>
    after (acknowledge_cancellation clock jid n token) db = db \<and>
    after (complete_run env clock jid r n token) db = db \<and>
    after (complete_release_decision env clock jid d n token) db = db"
proof (intro conjI)
  show "after (heartbeat_job clock jid n token secs) db = db"
    "after (retry_job clock jid n token delay code) db = db"
    "after (fail_job clock jid n token code) db = db"
    by (rule heartbeat_op.stale_unchanged retry_op.stale_unchanged fail_op.stale_unchanged; fact)+
  show "after (acknowledge_cancellation clock jid n token) db = db"
    by (rule after_unchanged) (use acknowledge_cancellation_Inr(3)[OF assms(1)] assms(2) in blast)
  show "after (complete_run env clock jid r n token) db = db"
    by (rule after_unchanged, erule complete_run_Inr[OF assms(1)]) (use assms(2) in blast)
  show "after (complete_release_decision env clock jid d n token) db = db"
    by (rule after_unchanged, erule complete_release_decision_Inr[OF assms(1)]) (use assms(2) in blast)
qed

theorem stale_worker_changes_nothing_witness:
  "\<forall>env r. after (complete_run env (\<lambda>_. 5) ''b'' r 2 sample_token) sample_db = sample_db"
  using stale_worker_changes_nothing[OF sample_db_inv, of "''b''" 2 sample_token "\<lambda>_. 5"] sample_stale
  by simp

lemma cancellation_pending:
  "job_moves\<^sup>*\<^sup>* o1 o2 \<Longrightarrow> o1 = Some j \<Longrightarrow> job_status j = CANCEL_REQUESTED \<Longrightarrow>
   o2 = Some j \<or> (\<exists>j'. o2 = Some j' \<and> job_status j' = CANCELED)"
  by (induction rule: rtranclp_induct) (auto simp: job_moves_def lifecycle_def)

text \<open>
  C6. Cancellation wins over publication: once a job's cancellation was requested, completing
  it with run evidence either fails or cancels the job, and in both cases no evidence is stored.
\<close>

theorem cancellation_beats_publication:
  assumes "db_inv db" "job_of db jid = Some j" "job_status j = CANCEL_REQUESTED"
  shows "runs_table (after (complete_run env clock jid r n token) db) = runs_table db \<and>
    release_decisions_table (after (complete_release_decision env clock jid d n token) db) =
      release_decisions_table db \<and>
    (job_of (after (complete_run env clock jid r n token) db) jid = Some j \<or>
     (\<exists>j'. job_of (after (complete_run env clock jid r n token) db) jid = Some j' \<and>
        job_status j' = CANCELED))"
proof (intro conjI)
  from assms(2) obtain row where row: "find_job_row db jid = Some row" "j = row_job row"
    by (auto simp: job_of_def)
  have "runs_table db' = runs_table db" if "complete_run env clock jid r n token db = Inr (x, db')" for x db'
    by (rule complete_run_Inr[OF assms(1) that]) (use row assms(3) in auto)
  then show "runs_table (after (complete_run env clock jid r n token) db) = runs_table db"
    by (auto simp: after_def split: sum.split)
  have "release_decisions_table db' = release_decisions_table db"
    if "complete_release_decision env clock jid d n token db = Inr (x, db')" for x db'
    by (rule complete_release_decision_Inr[OF assms(1) that]) (use row assms(3) in auto)
  then show "release_decisions_table (after (complete_release_decision env clock jid d n token) db) =
      release_decisions_table db"
    by (auto simp: after_def split: sum.split)
  show "job_of (after (complete_run env clock jid r n token) db) jid = Some j \<or>
     (\<exists>j'. job_of (after (complete_run env clock jid r n token) db) jid = Some j' \<and>
        job_status j' = CANCELED)"
    by (rule cancellation_pending[OF complete_run_op.moves_jobs[OF assms(1)] assms(2,3)])
qed

theorem cancellation_beats_publication_witness:
  "\<forall>env r. runs_table (after (complete_run env (\<lambda>_. 5) ''c'' r 1 sample_token) sample_db) =
     runs_table sample_db"
  using cancellation_beats_publication[OF sample_db_inv sample_jobs_of(3), where clock = "\<lambda>_. 5"] by simp

section \<open>Claiming\<close>

text \<open>
  C7. A claim takes the first claimable job in the order (available time, creation time,
  identifier), starts its next attempt within the attempt bound, and hands out a lease that the
  worker then holds until its expiry.
\<close>

theorem claim_takes_first:
  assumes "db_inv db" "claim_next_job env clock locked worker token secs db = Inr (Some c, db')"
  shows "\<exists>row \<in> set (jobs_table db). claimable (clock 0) locked row \<and>
    (\<forall>r \<in> set (jobs_table db). claimable (clock 0) locked r \<longrightarrow> claim_order row \<le> claim_order r) \<and>
    job_id (claimed c) = row_job_id row \<and> job_status (claimed c) = RUNNING \<and>
    attempt_count (claimed c) = attempt_count (row_job row) + 1 \<and>
    attempt_count (claimed c) \<le> max_attempts (row_job row) \<and>
    job_of db' (row_job_id row) = Some (claimed c) \<and>
    holds_lease db' (row_job_id row) (attempt_count (claimed c)) token
      (clock 1 + seconds secs - 1)"
proof (rule claim_next_job_Some[OF assms])
  fix row
  assume row: "row \<in> set (jobs_table db)" and cl: "claimable (clock 0) locked row"
    and first: "\<And>r. r \<in> set (jobs_table db) \<Longrightarrow> claimable (clock 0) locked r \<Longrightarrow> claim_order row \<le> claim_order r"
    and c: "claimed c = (row_job row)\<lparr>job_status := RUNNING, attempt_count := attempt_count (row_job row) + 1,
       job_error_code := None, job_updated_at := max (clock 1) (job_updated_at (row_job row))\<rparr>"
    and bound: "attempt_count (row_job row) < max_attempts (row_job row)"
    and att: "claimed_attempt c = \<lparr>attempt_job_id = row_job_id row,
       attempt_number = attempt_count (row_job row) + 1, attempt_status = ATTEMPT_RUNNING,
       attempt_error_code = None, started_at = clock 1, heartbeat_at = clock 1,
       lease_expires_at = clock 1 + seconds secs, finished_at = None\<rparr>"
    and db': "db' = db\<lparr>jobs_table := replace_job row (claimed c) (jobs_table db), job_attempts_table :=
       job_attempts_table db @ [\<lparr>row_attempt = claimed_attempt c, worker_id = worker, lease_token = token\<rparr>]\<rparr>"
  have "frozen (row_job row) (claimed c)" using c by (simp add: frozen_def)
  from job_of_replaced[OF assms(1) row this, of db'] have job: "job_of db' (row_job_id row) = Some (claimed c)"
    by (simp add: db')
  then obtain r where r: "find_job_row db' (row_job_id row) = Some r" "row_job r = claimed c"
    by (auto simp: job_of_def)
  have "holds_lease db' (row_job_id row) (attempt_count (claimed c)) token (clock 1 + seconds secs - 1)"
    unfolding holds_lease_def
    using find_job_row_Some[OF r(1)] r(2) c att
    by (intro bexI[of _ r] bexI[of _ "\<lparr>row_attempt = claimed_attempt c, worker_id = worker, lease_token = token\<rparr>"])
      (simp_all add: db' attempt_key_def)
  then show ?thesis using row cl first c bound job by (intro bexI[of _ row]) auto
qed

theorem claim_takes_first_witness:
  "\<exists>c db'. sample_claim sample_db = Inr (Some c, db') \<and> job_status (claimed c) = RUNNING \<and>
     (\<exists>jid. holds_lease db' jid (attempt_count (claimed c)) sample_token (5 + seconds 30 - 1))"
proof -
  obtain c db' where run: "sample_claim sample_db = Inr (Some c, db')"
    using sample_claim_takes_a by blast
  show ?thesis
    using claim_takes_first[OF sample_db_inv run[unfolded sample_claim_def]] run by blast
qed



section \<open>Recovery\<close>

lemma retry_delay_bounds:
  assumes "1 \<le> base" "base \<le> maximum"
  shows "1 \<le> retry_delay base maximum n \<and> retry_delay base maximum n \<le> maximum"
proof -
  have "1 * 1 \<le> base * 2 ^ nat (n - 1)" by (rule mult_mono) (use assms in simp_all)
  then show ?thesis using assms by (simp add: retry_delay_def)
qed



section \<open>Submission\<close>

text \<open>
  What the store relies on in the third-party serialiser, parser and payload reader: reading the
  canonical document of a payload gives the payload back.
\<close>

definition payload_roundtrip :: "store_config \<Rightarrow> job_payload \<Rightarrow> bool" where
  "payload_roundtrip env p \<longleftrightarrow> (case env_jcs env (serialize_payload (payload_handler env) p) of
     None \<Rightarrow> True
   | Some document \<Rightarrow> (case env_parse env document of
       None \<Rightarrow> False
     | Some v \<Rightarrow> env_jcs env v = Some document \<and> payload_reader env v = Some p \<and>
         validate_payload p = Inr p))"

lemma job_moves_identity:
  "job_moves\<^sup>*\<^sup>* o1 o2 \<Longrightarrow> o1 = Some j \<Longrightarrow> \<exists>j'. o2 = Some j' \<and> job_id j' = job_id j \<and>
     job_kind j' = job_kind j \<and> idempotency_key j' = idempotency_key j \<and>
     request_digest j' = request_digest j \<and> resource_id j' = resource_id j \<and>
     job_created_at j' = job_created_at j"
proof (induction rule: rtranclp_induct)
  case (step y z)
  then obtain j' where j': "y = Some j'" "job_id j' = job_id j" "job_kind j' = job_kind j"
    "idempotency_key j' = idempotency_key j" "request_digest j' = request_digest j"
    "resource_id j' = resource_id j" "job_created_at j' = job_created_at j" by blast
  from step.hyps(2) j'(1) have "z = Some j' \<or> (\<exists>j''. z = Some j'' \<and> frozen j' j'')"
    by (auto simp: job_moves_def lifecycle_def)
  then show ?case
  proof
    assume "\<exists>j''. z = Some j'' \<and> frozen j' j''"
    then obtain j'' where "z = Some j''" "frozen j' j''" by blast
    with frozen_fields[of j' j''] j' show ?thesis by simp
  qed (use j' in simp)
qed simp

lemma begin_job_created:
  assumes "begin_job env j payload db = Inr ((j', True), db')"
  obtains document digest where
    "env_jcs env (serialize_payload (payload_handler env) payload) = Some document"
    "payload_digest (env_jcs env) (payload_handler env) payload = Inr digest"
    "require_payload_size document = Inr ()" "payload_kind payload = job_kind j"
    "jobs_table db' = jobs_table db @ [\<lparr>row_job = j, row_version = 0\<rparr>]"
    "\<lparr>pr_job_id = job_id j, pr_digest = digest, pr_document = document,
        pr_created_at = job_created_at j\<rparr> \<in> set (job_payloads_table db')"
  using assms unfolding begin_job_def canonical_json_bytes_def
  by (auto simp: result_simps insert_job_def insert_payload_def Let_def intro!: that split: if_splits)

lemma stored_payload_loads:
  assumes inv: "db_inv db" and rt: "payload_roundtrip env payload"
    and doc: "env_jcs env (serialize_payload (payload_handler env) payload) = Some document"
      "payload_digest (env_jcs env) (payload_handler env) payload = Inr digest"
      "require_payload_size document = Inr ()"
    and row: "\<lparr>pr_job_id = job_id j, pr_digest = digest, pr_document = document,
        pr_created_at = job_created_at j\<rparr> \<in> set (job_payloads_table db)" (is "?row \<in> _")
    and kind: "payload_kind payload = job_kind j"
  shows "load_job_payload env db j required = Inr (Some payload)"
proof -
  have "distinct (map pr_job_id (job_payloads_table db))" using inv by (simp add: db_inv_def)
  then have "List.find (\<lambda>r. pr_job_id r = job_id j) (job_payloads_table db) = Some ?row"
    by (intro find_unique[OF row]) (auto dest!: distinct_map_eq[OF _ _ row])
  moreover from rt doc(1) obtain v where "env_parse env document = Some v" "env_jcs env v = Some document"
    "payload_reader env v = Some payload" "validate_payload payload = Inr payload"
    by (auto simp: payload_roundtrip_def split: option.splits)
  ultimately show ?thesis
    using doc(2,3) kind by (simp add: load_job_payload_def canonical_json_bytes_def)
qed

text \<open>
  Submission is idempotent: once a job was created, any later submission of the same kind
  under the same idempotency key, however the store moved on meanwhile, creates nothing. A
  submission that an empty store would accept returns the existing job when the request digest
  is the same, and the idempotency conflict when it differs.
\<close>

theorem submission_idempotent:
  assumes "db_inv db" "valid_job j" "begin_job env j payload db = Inr ((j0, True), db')"
    "payload_roundtrip env payload"
    "job_kind j2 = job_kind j" "idempotency_key j2 = idempotency_key j"
    "begin_job env j2 payload2 empty_db = Inr accepted"
  shows "\<exists>existing. job_of (history env commands db') (job_id j) = Some existing \<and>
      begin_job env j2 payload2 (history env commands db') =
        (if request_digest j2 = request_digest j
         then Inr ((existing, False), history env commands db')
         else Inl (StoreIdempotencyConflictError
           ''Idempotency key was already used for a different request''))"
proof -
  let ?db = "history env commands db'"
  from begin_job_created[OF assms(3)] obtain document digest where
    doc: "env_jcs env (serialize_payload (payload_handler env) payload) = Some document"
    "payload_digest (env_jcs env) (payload_handler env) payload = Inr digest"
    "require_payload_size document = Inr ()" and kind: "payload_kind payload = job_kind j"
    and jobs: "jobs_table db' = jobs_table db @ [\<lparr>row_job = j, row_version = 0\<rparr>]"
    and pay: "\<lparr>pr_job_id = job_id j, pr_digest = digest, pr_document = document,
        pr_created_at = job_created_at j\<rparr> \<in> set (job_payloads_table db')" by metis
  have inv': "db_inv db'" using begin_job_Inr(1)[OF assms(3,2)] store_step_inv assms(1) by blast
  have inv: "db_inv ?db" using history_inv[OF inv'] .
  note steps = history_steps[OF inv', of env commands]
  have "job_of db' (job_id j) = Some j"
    using job_of_row[OF inv', of "\<lparr>row_job = j, row_version = 0\<rparr>"] jobs by simp
  from job_moves_identity[OF store_steps_job[OF steps inv'] this] obtain ex where
    ex: "job_of ?db (job_id j) = Some ex" "job_id ex = job_id j" "job_kind ex = job_kind j"
      "idempotency_key ex = idempotency_key j" "request_digest ex = request_digest j"
      "job_created_at ex = job_created_at j" by blast
  then obtain row where row: "row \<in> set (jobs_table ?db)" "row_job row = ex"
    by (auto simp: job_of_def dest: find_job_row_Some)
  have valid: "valid_job ex" using db_inv_job[OF inv row(1)] row(2) by (simp add: job_row_inv_def)
  have pay': "\<lparr>pr_job_id = job_id ex, pr_digest = digest, pr_document = document,
        pr_created_at = job_created_at ex\<rparr> \<in> set (job_payloads_table ?db)"
    using pay store_steps_evidence[OF steps] ex
    by (auto simp: evidence_extends_def prefix_def)
  have load: "load_job_payload env ?db ex required = Inr (Some payload)" for required
    using stored_payload_loads[OF inv assms(4) doc pay'] kind ex(3) by simp
  have uniq: "r = row" if "r \<in> set (jobs_table ?db)" "idempotency_index r = idempotency_index row" for r
    using inv that row(1) unfolding db_inv_def jobs_constraints_def by (blast intro: distinct_map_eq)
  have find: "List.find (\<lambda>r. job_kind (row_job r) = job_kind j2 \<and>
      idempotency_key (row_job r) = idempotency_key j2) (jobs_table ?db) = Some row"
    by (rule find_unique[OF row(1)])
      (use uniq row(2) ex assms(5,6) in \<open>auto simp: idempotency_index_def\<close>)
  have get: "get_job_by_idempotency env ?db (job_kind j2) (idempotency_key j2) = Inr ex"
    using load row(2) valid unfolding get_job_by_idempotency_def get_job_where_def find
    by (simp add: job_record_of_Inr[THEN iffD2])
  have clash: "\<not> jobs_constraints (jobs_table ?db @ [\<lparr>row_job = j2, row_version = v\<rparr>])" for v
    using row ex assms(5,6)
    by (force simp: jobs_constraints_def idempotency_index_def)
  from assms(7) obtain document2 digest2 where own: "job_status j2 = QUEUED" "attempt_count j2 = 0"
    "payload_kind payload2 = job_kind j2"
    "canonical_json_bytes (env_jcs env) (serialize_payload (payload_handler env) payload2) = Inr document2"
    "require_payload_size document2 = Inr ()"
    "payload_digest (env_jcs env) (payload_handler env) payload2 = Inr digest2"
    unfolding begin_job_def by (auto simp: result_simps)
  have "begin_job env j2 payload2 ?db =
        (if request_digest j2 = request_digest j then Inr ((ex, False), ?db)
         else Inl (StoreIdempotencyConflictError
           ''Idempotency key was already used for a different request''))"
    unfolding begin_job_def using own get ex(5)
    by (simp add: insert_job_def Let_def clash tbind_def)
  then show ?thesis using ex(1) by blast
qed

theorem submission_idempotent_witness:
  "\<exists>db. \<forall>commands. \<exists>existing. begin_job sample_env (sample_job ''a'' QUEUED 0) sample_payload
     (history sample_env commands db) = Inr ((existing, False), history sample_env commands db)"
proof -
  obtain db where run: "begin_job sample_env (sample_job ''a'' QUEUED 0) sample_payload empty_db =
     Inr ((sample_job ''a'' QUEUED 0, True), db)" using sample_submission by blast
  have valid: "valid_job (sample_job ''a'' QUEUED 0)" by (rule sample_job_valid) simp_all
  have "payload_roundtrip sample_env sample_payload"
    using sample_payload_valid by (simp add: payload_roundtrip_def)
  from submission_idempotent[OF db_inv_empty valid run this refl refl run]
  show ?thesis by (intro exI[of _ db] allI) auto
qed

end
