(* ===== verification/Contracts.thy ===== *)
theory Contracts
  imports Release Jobs Store
begin

text \<open>
  The pinned contracts of \<open>application/control_plane.py\<close>: the service limits on a dataset, and the
  checks of executor contracts, suites, run results and comparison inputs that both the service
  (before it enqueues) and the worker (before it publishes) make.
\<close>

section \<open>Limits\<close>

abbreviation max_dataset_cases :: nat where "max_dataset_cases \<equiv> 1000"
abbreviation max_slices_per_case :: nat where "max_slices_per_case \<equiv> 32"
abbreviation max_dataset_slices :: nat where "max_dataset_slices \<equiv> 128"
abbreviation max_comparison_gates :: nat where "max_comparison_gates \<equiv> 64"
abbreviation max_comparison_metrics :: nat where "max_comparison_metrics \<equiv> 32"
abbreviation max_comparison_case_records :: nat where "max_comparison_case_records \<equiv> 50000"
abbreviation max_comparison_aggregate_work :: nat where "max_comparison_aggregate_work \<equiv> 2000000"

definition validate_dataset_bounds :: "dataset_version \<Rightarrow> unit res" where
  "validate_dataset_bounds d = checks
     [(length (dataset_cases d) > max_dataset_cases, ValueError ''dataset contains too many cases''),
      (\<exists>c \<in> set (dataset_cases d). length (case_slices c) > max_slices_per_case,
       ValueError ''dataset case contains too many slices''),
      (card (dataset_slices d) > max_dataset_slices,
       ValueError ''dataset contains too many unique slices'')]"

section \<open>Executor contracts\<close>

text \<open>
  The executor port (\<open>EvaluationExecutor\<close>): what an adapter answers is a parameter. A contract or
  a run result is an instance of its class, so its validator has accepted it.
\<close>

type_synonym overrides = "(string \<times> string) list"

record executor =
  executor_validate ::
    "string \<Rightarrow> int \<Rightarrow> string \<Rightarrow> string list \<Rightarrow> overrides \<Rightarrow> execution_contract res"
  executor_validate_suite :: "string \<Rightarrow> string list \<Rightarrow> suite_execution_contract res"
  executor_execute ::
    "string \<Rightarrow> dataset_version \<Rightarrow> string \<Rightarrow> int \<Rightarrow> string \<Rightarrow> string list \<Rightarrow> overrides \<Rightarrow> run_result res"
  executor_execute_suite ::
    "string \<Rightarrow> dataset_version \<Rightarrow> string \<Rightarrow> int \<Rightarrow> overrides \<Rightarrow> evaluation_suite \<Rightarrow> run_result res"

definition resolve_contract ::
    "executor \<Rightarrow> string \<Rightarrow> int \<Rightarrow> string \<Rightarrow> string list \<Rightarrow> overrides \<Rightarrow> execution_contract res" where
  "resolve_contract x name revision adapter evaluator_names scenario =
     rbind (executor_validate x name revision adapter evaluator_names scenario) validate_contract"

definition resolve_suite_contract ::
    "executor \<Rightarrow> string \<Rightarrow> string list \<Rightarrow> suite_execution_contract res" where
  "resolve_suite_contract x adapter evaluator_names =
     rbind (executor_validate_suite x adapter evaluator_names) validate_suite_contract"

definition validate_execution_contract ::
    "execution_contract \<Rightarrow> string \<Rightarrow> int \<Rightarrow> string \<Rightarrow> string list \<Rightarrow> unit res" where
  "validate_execution_contract contract name revision adapter evaluator_names = checks
     [(contract_adapter contract \<noteq> adapter, ValueError ''executor resolved a different adapter''),
      (contract_evaluator_names contract \<noteq> evaluator_names,
       ValueError ''executor resolved different evaluators''),
      (ref_name (contract_target contract) \<noteq> name \<or> ref_revision (contract_target contract) \<noteq> revision,
       ValueError ''executor resolved a different target'')]"

definition validate_suite_registration ::
    "evaluation_suite \<Rightarrow> dataset_record \<Rightarrow> suite_execution_contract \<Rightarrow> unit res" where
  "validate_suite_registration s d contract =
     rbind (validate_dataset_bounds (dataset d)) (\<lambda>_. checks
     [(suite_dataset s \<noteq> dataset_ref (dataset d),
       ValueError ''suite references different dataset content''),
      (\<not> set (suite_slices s) \<subseteq> dataset_slices (dataset d),
       ValueError ''suite declares a slice absent from its dataset''),
      (promised_execution contract \<noteq> suite_execution s,
       ValueError ''executor resolved different suite execution settings''),
      (promised_evaluators contract \<noteq> suite_evaluators s,
       ValueError ''executor resolved different suite evaluators'')])"

section \<open>Run results\<close>

definition suite_metric_pairs :: "evaluation_suite \<Rightarrow> (artifact_ref \<times> string) set" where
  "suite_metric_pairs s =
     set (concat (map (\<lambda>e. map (Pair (evaluator_artifact e)) (evaluator_metrics e)) (suite_evaluators s)))"

definition validate_suite_result ::
    "run_result \<Rightarrow> dataset_record \<Rightarrow> execution_contract \<Rightarrow> evaluation_suite \<Rightarrow> unit res" where
  "validate_suite_result r d contract s =
     rbind (validate_suite_contract \<lparr>promised_execution = suite_execution s,
         promised_evaluators = suite_evaluators s\<rparr>) (\<lambda>promise.
     rbind (validate_suite_registration s d promise) (\<lambda>_.
     rbind (checks [(run_evaluators r \<noteq> suite_evaluator_refs s \<or>
         run_mode r \<noteq> exec_mode (suite_execution s) \<or>
         contract_adapter contract \<noteq> exec_adapter (suite_execution s) \<or>
         contract_evaluator_names contract \<noteq> suite_evaluator_names s,
       ValueError ''run behavior does not match pinned suite'')]) (\<lambda>_.
     let expected_metrics = suite_metric_pairs s;
         actual_metrics = map (\<lambda>m. (summary_evaluator m, summary_metric m)) (run_metrics r) in checks
       [(length actual_metrics \<noteq> card expected_metrics \<or> set actual_metrics \<noteq> expected_metrics,
         ValueError ''run metric inventory does not match pinned suite''),
        (\<exists>c \<in> set (run_cases r). \<exists>ob \<in> set (observations c).
            (obs_evaluator ob, obs_metric ob) \<notin> expected_metrics,
         ValueError ''run observation is outside pinned suite'')])))"

definition validate_run_result ::
    "run_result \<Rightarrow> string \<Rightarrow> dataset_record \<Rightarrow> execution_contract \<Rightarrow> evaluation_suite option
     \<Rightarrow> unit res" where
  "validate_run_result r rid d contract s =
     (let allowed_evaluators = set (contract_evaluators contract) in
      rbind (checks
     [(run_id r \<noteq> rid, ValueError ''executor returned an unexpected run identity''),
      (run_suite r \<noteq> map_option suite_ref s,
       ValueError ''executor returned an unexpected suite identity''),
      (run_dataset r \<noteq> dataset_ref (dataset d),
       ValueError ''executor returned an unexpected dataset identity''),
      (run_target r \<noteq> contract_target contract,
       ValueError ''executor returned an unexpected target identity''),
      (run_evaluators r \<noteq> contract_evaluators contract,
       ValueError ''executor returned unexpected evaluator identities''),
      (\<exists>m \<in> set (run_metrics r). summary_evaluator m \<notin> allowed_evaluators,
       ValueError ''executor returned an unexpected metric evaluator''),
      (\<exists>c \<in> set (run_cases r). \<exists>ob \<in> set (observations c). obs_evaluator ob \<notin> allowed_evaluators,
       ValueError ''executor returned an unexpected observation evaluator''),
      (\<exists>c \<in> set (run_cases r). \<exists>f \<in> set (evaluator_failures c).
          (case failure_evaluator f of None \<Rightarrow> False | Some e \<Rightarrow> e \<notin> allowed_evaluators),
       ValueError ''executor returned an unexpected failure evaluator''),
      (run_mode r \<noteq> contract_mode contract,
       ValueError ''executor returned an unexpected execution mode''),
      (map result_case_id (run_cases r) \<noteq> map case_id (dataset_cases (dataset d)),
       ValueError ''executor returned an unexpected case set'')]) (\<lambda>_.
      case s of None \<Rightarrow> Inr () | Some x \<Rightarrow> validate_suite_result r d contract x))"

section \<open>Comparison inputs\<close>

definition aggregate_work :: "dataset_version \<Rightarrow> run_result \<Rightarrow> nat" where
  "aggregate_work d baseline =
     length (run_metrics baseline) * (card (dataset_slices d) + 1) * length (dataset_cases d)"

definition case_records :: "dataset_version \<Rightarrow> metric_gate list \<Rightarrow> nat" where
  "case_records d gates = sum_list (map (\<lambda>g. case gate_slice g of
       None \<Rightarrow> length (dataset_cases d)
     | Some x \<Rightarrow> sum_list (map (\<lambda>c. of_bool (x \<in> set (case_slices c))) (dataset_cases d))) gates)"

definition suite_contract_for :: "evaluation_suite \<Rightarrow> run_result \<Rightarrow> execution_contract" where
  "suite_contract_for s r = \<lparr>contract_adapter = exec_adapter (suite_execution s),
     contract_evaluator_names = suite_evaluator_names s, contract_target = run_target r,
     contract_evaluators = suite_evaluator_refs s, contract_mode = exec_mode (suite_execution s)\<rparr>"

definition validate_suite_comparison ::
    "evaluation_suite \<Rightarrow> evaluation_spec \<Rightarrow> dataset_record \<Rightarrow> run_record \<Rightarrow> run_record \<Rightarrow> unit res" where
  "validate_suite_comparison s spec d baseline candidate =
     rbind (to_evaluation_spec s (run_target (run_evidence baseline)) (run_target (run_evidence candidate)))
       (\<lambda>policy.
     rbind (checks [(spec \<noteq> policy, ValueError ''comparison policy does not match the pinned suite'')])
       (\<lambda>_.
     rbind (rmap (\<lambda>run.
         rbind (validate_contract (suite_contract_for s (run_evidence run))) (\<lambda>contract.
         validate_run_result (run_evidence run) (run_id (run_evidence run)) d contract (Some s)))
       [baseline, candidate]) (\<lambda>_. Inr ())))"

definition validate_comparison_inputs ::
    "string \<Rightarrow> int \<Rightarrow> string \<Rightarrow> string \<Rightarrow> evaluation_spec \<Rightarrow> dataset_record \<Rightarrow> run_record \<Rightarrow> run_record
     \<Rightarrow> evaluation_suite option \<Rightarrow> unit res" where
  "validate_comparison_inputs name revision baseline_id candidate_id spec d baseline candidate s =
     (let expected_suite = map_option suite_ref s;
          b = run_evidence baseline; c = run_evidence candidate in
      rbind (validate_dataset_bounds (dataset d)) (\<lambda>_.
      rbind (checks
     [(length (spec_gates spec) > max_comparison_gates,
       ValueError ''comparison contains too many gates''),
      (length (run_metrics b) > max_comparison_metrics,
       ValueError ''comparison contains too many metrics''),
      (aggregate_work (dataset d) b > max_comparison_aggregate_work,
       ValueError ''comparison aggregate work exceeds service limits''),
      (case_records (dataset d) (spec_gates spec) > max_comparison_case_records,
       ValueError ''comparison evidence exceeds service limits''),
      (dataset_name (dataset d) \<noteq> name \<or> dataset_revision (dataset d) \<noteq> revision,
       ValueError ''comparison dataset identity does not match''),
      (spec_dataset spec \<noteq> dataset_ref (dataset d),
       ValueError ''spec references a different dataset revision''),
      (run_id b \<noteq> baseline_id, ValueError ''baseline run identity does not match''),
      (run_id c \<noteq> candidate_id, ValueError ''candidate run identity does not match''),
      (spec_baseline spec \<noteq> Some (run_target b),
       ValueError ''spec baseline does not match baseline run''),
      (spec_candidate spec \<noteq> run_target c,
       ValueError ''spec candidate does not match candidate run''),
      (run_suite b \<noteq> expected_suite \<or> run_suite c \<noteq> expected_suite,
       ValueError ''comparison runs do not match the pinned suite'')]) (\<lambda>_.
      case s of None \<Rightarrow> Inr () | Some x \<Rightarrow> validate_suite_comparison x spec d baseline candidate)))"

end
