(* ===== verification/Sessions.thy ===== *)
theory Sessions
  imports JobContract
begin

text \<open>
  Clients of the store: the application service, the worker and the runtime loop. A client is a
  sequence of repository calls; between any two of them other clients commit whatever they like
  (\<open>others\<close>, a list of commands before the n-th call), and a call may be lost before it reaches
  the database or after its commit, which the adapter reports as \<open>ControlPlaneRepositoryError\<close>
  either way. What a call committed persists whatever the client raises later. The interface of
  a client is that it moves the store by abstract steps only.
\<close>

section \<open>Actions\<close>

record world =
  store :: db
  calls :: nat

type_synonym 'a act = "world \<Rightarrow> 'a res \<times> world"

definition areturn :: "'a \<Rightarrow> 'a act" where
  "areturn x w = (Inr x, w)"

definition araise :: "exn \<Rightarrow> 'a act" where
  "araise e w = (Inl e, w)"

definition alift :: "'a res \<Rightarrow> 'a act" where
  "alift m w = (m, w)"

definition abind :: "'a act \<Rightarrow> ('a \<Rightarrow> 'b act) \<Rightarrow> 'b act" where
  "abind m f w = (case m w of (Inl e, w') \<Rightarrow> (Inl e, w') | (Inr x, w') \<Rightarrow> f x w')"

text \<open>\<open>try m except e: handler\<close>, where \<open>handler e\<close> is \<open>None\<close> for an exception no clause catches.\<close>

definition acatch :: "(exn \<Rightarrow> 'a act option) \<Rightarrow> 'a act \<Rightarrow> 'a act" where
  "acatch handler m w = (case m w of
     (Inl e, w') \<Rightarrow> (case handler e of None \<Rightarrow> (Inl e, w') | Some h \<Rightarrow> h w')
   | (Inr x, w') \<Rightarrow> (Inr x, w'))"

text \<open>\<open>except caught as error: raise translated from error\<close>.\<close>

definition translate :: "(exn \<Rightarrow> bool) \<Rightarrow> exn \<Rightarrow> exn \<Rightarrow> 'a act option" where
  "translate caught translated e = (if caught e then Some (araise translated) else None)"

lemma act_simps [simp]:
  "areturn x w = (Inr x, w)" "araise e w = (Inl e, w)" "alift m w = (m, w)"
  by (simp_all add: areturn_def araise_def alift_def)

lemma abind_simps [simp]:
  "m w = (Inl e, w') \<Longrightarrow> abind m f w = (Inl e, w')"
  "m w = (Inr x, w') \<Longrightarrow> abind m f w = f x w'"
  by (simp_all add: abind_def)

lemma abind_Inr_iff:
  "abind m f w = (Inr y, w'') \<longleftrightarrow> (\<exists>x w'. m w = (Inr x, w') \<and> f x w' = (Inr y, w''))"
  by (auto simp: abind_def split: prod.splits sum.splits)

lemma abind_Inl_iff:
  "abind m f w = (Inl e, w'') \<longleftrightarrow>
     m w = (Inl e, w'') \<or> (\<exists>x w'. m w = (Inr x, w') \<and> f x w' = (Inl e, w''))"
  by (auto simp: abind_def split: prod.splits sum.splits)

lemma acatch_simps [simp]:
  "m w = (Inr x, w') \<Longrightarrow> acatch h m w = (Inr x, w')"
  "m w = (Inl e, w') \<Longrightarrow> acatch h m w = (case h e of None \<Rightarrow> (Inl e, w') | Some k \<Rightarrow> k w')"
  by (simp_all add: acatch_def)

lemma acatch_Inr_iff:
  "acatch h m w = (Inr x, w'') \<longleftrightarrow> m w = (Inr x, w'') \<or>
     (\<exists>e w' k. m w = (Inl e, w') \<and> h e = Some k \<and> k w' = (Inr x, w''))"
  by (auto simp: acatch_def split: prod.splits sum.splits option.splits)

lemma acatch_Inl_iff:
  "acatch h m w = (Inl x, w'') \<longleftrightarrow> (\<exists>e w'. m w = (Inl e, w') \<and>
     (case h e of None \<Rightarrow> x = e \<and> w'' = w' | Some k \<Rightarrow> k w' = (Inl x, w'')))"
  by (auto simp: acatch_def split: prod.splits sum.splits option.splits)

lemma translate_Some [simp]: "translate p e' e = Some k \<longleftrightarrow> p e \<and> k = araise e'"
  by (auto simp: translate_def)

lemma translate_None [simp]: "translate p e' e = None \<longleftrightarrow> \<not> p e"
  by (simp add: translate_def)

lemma alift_Inr_iff: "alift m w = (Inr x, w') \<longleftrightarrow> m = Inr x \<and> w' = w"
  by auto

lemma acatch_translate_Inr [simp]:
  "acatch (translate p e') m w = (Inr x, w') \<longleftrightarrow> m w = (Inr x, w')"
  by (auto simp: acatch_Inr_iff)

lemmas act_iffs = abind_Inr_iff alift_Inr_iff

section \<open>Repository calls\<close>

datatype delivery = Delivered | LostBefore string | LostAfter string

record session =
  config :: store_config
  others :: "nat \<Rightarrow> command list"
  statement_clock :: "nat \<Rightarrow> clock"
  locked_rows :: "nat \<Rightarrow> string \<Rightarrow> bool"
  delivery :: "nat \<Rightarrow> delivery"

text \<open>The database the n-th call finds.\<close>

definition met :: "session \<Rightarrow> world \<Rightarrow> db" where
  "met s w = history (config s) (others s (calls w)) (store w)"

definition call :: "session \<Rightarrow> (nat \<Rightarrow> 'a tx) \<Rightarrow> 'a act" where
  "call s operation w =
     (let n = calls w; db = met s w; committed = after (operation n) db in
      case delivery s n of
        LostBefore m \<Rightarrow> (Inl (ControlPlaneRepositoryError m), \<lparr>store = db, calls = Suc n\<rparr>)
      | LostAfter m \<Rightarrow> (Inl (ControlPlaneRepositoryError m), \<lparr>store = committed, calls = Suc n\<rparr>)
      | Delivered \<Rightarrow> (rbind (operation n db) (\<lambda>(x, _). Inr x), \<lparr>store = committed, calls = Suc n\<rparr>))"

text \<open>A call that only reads.\<close>

definition query :: "session \<Rightarrow> (db \<Rightarrow> 'a res) \<Rightarrow> 'a act" where
  "query s f = call s (\<lambda>_ db. lift_res (f db) db)"

lemma call_Inr:
  "call s operation w = (Inr x, w') \<longleftrightarrow> delivery s (calls w) = Delivered \<and>
     operation (calls w) (met s w) = Inr (x, store w') \<and> calls w' = Suc (calls w)"
  by (cases w') (auto simp: call_def Let_def after_def result_simps split: delivery.splits sum.splits)

lemma call_calls [simp]: "calls (snd (call s operation w)) = Suc (calls w)"
  by (simp add: call_def Let_def split: delivery.split)

lemma query_Inr:
  "query s f w = (Inr x, w') \<longleftrightarrow> delivery s (calls w) = Delivered \<and> f (met s w) = Inr x \<and>
     w' = \<lparr>store = met s w, calls = Suc (calls w)\<rparr>"
  unfolding query_def call_Inr by (cases w') (auto simp: result_simps)

lemma query_world: "snd (query s f w) = \<lparr>store = met s w, calls = Suc (calls w)\<rparr>"
  by (cases "f (met s w)") (simp_all add: query_def call_def Let_def after_def split: delivery.split)

lemma query_Inl:
  "query s f w = (Inl e, w') \<longleftrightarrow> w' = \<lparr>store = met s w, calls = Suc (calls w)\<rparr> \<and>
     (delivery s (calls w) = Delivered \<and> f (met s w) = Inl e \<or>
      (\<exists>m. delivery s (calls w) \<in> {LostBefore m, LostAfter m} \<and> e = ControlPlaneRepositoryError m))"
  by (cases "f (met s w)")
    (auto simp: query_def call_def Let_def after_def split: delivery.splits)

section \<open>The interface of a client\<close>

named_theorems advances_intros \<open>actions that move the store by abstract steps\<close>

definition advances :: "'a act \<Rightarrow> bool" where
  "advances m \<longleftrightarrow> (\<forall>w. db_inv (store w) \<longrightarrow> store_step\<^sup>*\<^sup>* (store w) (store (snd (m w))))"

lemma advancesD: "advances m \<Longrightarrow> db_inv (store w) \<Longrightarrow> store_step\<^sup>*\<^sup>* (store w) (store (snd (m w)))"
  by (simp add: advances_def)

lemma advances_inv: "advances m \<Longrightarrow> db_inv (store w) \<Longrightarrow> db_inv (store (snd (m w)))"
  using advancesD store_steps_inv by blast

lemma advances_pure [advances_intros]:
  "advances (areturn x)" "advances (araise e)" "advances (alift r)"
  by (simp_all add: advances_def)

lemma advances_abind [advances_intros]:
  assumes "advances m" "\<And>x. advances (f x)"
  shows "advances (abind m f)"
  unfolding advances_def
proof (intro allI impI)
  fix w :: world assume inv: "db_inv (store w)"
  obtain r w' where m: "m w = (r, w')" by (cases "m w")
  have s: "store_step\<^sup>*\<^sup>* (store w) (store w')" "db_inv (store w')"
    using advancesD[OF assms(1) inv] advances_inv[OF assms(1) inv] m by simp_all
  show "store_step\<^sup>*\<^sup>* (store w) (store (snd (abind m f w)))"
  proof (cases r)
    case (Inl e)
    with m s show ?thesis by simp
  next
    case (Inr x)
    with m have "abind m f w = f x w'" by simp
    then show ?thesis using rtranclp_trans[OF s(1) advancesD[OF assms(2) s(2)]] by simp
  qed
qed

lemma advances_acatch [advances_intros]:
  assumes "advances m" "\<And>e k. h e = Some k \<Longrightarrow> advances k"
  shows "advances (acatch h m)"
  unfolding advances_def
proof (intro allI impI)
  fix w :: world assume inv: "db_inv (store w)"
  obtain r w' where m: "m w = (r, w')" by (cases "m w")
  have s: "store_step\<^sup>*\<^sup>* (store w) (store w')" "db_inv (store w')"
    using advancesD[OF assms(1) inv] advances_inv[OF assms(1) inv] m by simp_all
  show "store_step\<^sup>*\<^sup>* (store w) (store (snd (acatch h m w)))"
    using m s rtranclp_trans[OF s(1) advancesD[OF assms(2) s(2)]]
    by (auto simp: acatch_def split: sum.splits option.splits)
qed

lemma advances_translate [advances_intros]: "advances m \<Longrightarrow> advances (acatch (translate p e) m)"
  by (rule advances_acatch) (auto intro: advances_intros)

lemma advances_if [advances_intros]: "advances a \<Longrightarrow> advances b \<Longrightarrow> advances (if c then a else b)"
  by simp

lemma advances_option [advances_intros]:
  "advances a \<Longrightarrow> (\<And>y. advances (f y)) \<Longrightarrow> advances (case x of None \<Rightarrow> a | Some y \<Rightarrow> f y)"
  by (cases x) simp_all

lemma met_steps: "db_inv (store w) \<Longrightarrow> store_step\<^sup>*\<^sup>* (store w) (met s w)"
  unfolding met_def by (rule history_steps)

lemma met_inv: "db_inv (store w) \<Longrightarrow> db_inv (met s w)"
  unfolding met_def by (rule history_inv)

lemma advances_call:
  assumes "\<And>n. store_operation (operation n)"
  shows "advances (call s operation)"
  unfolding advances_def
proof (intro allI impI)
  fix w :: world assume inv: "db_inv (store w)"
  have "store_step\<^sup>*\<^sup>* (met s w) (after (operation (calls w)) (met s w))"
    by (rule store_operation.after_steps[OF assms met_inv[OF inv]])
  then show "store_step\<^sup>*\<^sup>* (store w) (store (snd (call s operation w)))"
    using met_steps[OF inv, of s] by (auto simp: call_def Let_def split: delivery.split)
qed

lemma advances_query [advances_intros]: "advances (query s f)"
  unfolding query_def by (rule advances_call) (unfold_locales, auto simp: result_simps)

text \<open>Store operations, as the premise of \<open>advances_call\<close>.\<close>

lemmas advances_calls [advances_intros] =
  advances_call[OF submit_op.store_operation_axioms] advances_call[OF claim_op.store_operation_axioms]
  advances_call[OF heartbeat_op.store_operation_axioms] advances_call[OF retry_op.store_operation_axioms]
  advances_call[OF fail_op.store_operation_axioms] advances_call[OF cancel_op.store_operation_axioms]
  advances_call[OF acknowledge_op.store_operation_axioms]
  advances_call[OF complete_run_op.store_operation_axioms]
  advances_call[OF complete_decision_op.store_operation_axioms]
  advances_call[OF reap_op.store_operation_axioms] advances_call[OF put_dataset_op.store_operation_axioms]
  advances_call[OF put_suite_op.store_operation_axioms]

locale client_action =
  fixes action :: "'a act"
  assumes advances: "advances action"
begin

lemma steps: "db_inv (store w) \<Longrightarrow> store_step\<^sup>*\<^sup>* (store w) (store (snd (action w)))"
  by (rule advancesD[OF advances])

lemma keeps_invariant: "db_inv (store w) \<Longrightarrow> db_inv (store (snd (action w)))"
  by (rule advances_inv[OF advances])

lemma extends_evidence: "db_inv (store w) \<Longrightarrow> evidence_extends (store w) (store (snd (action w)))"
  using steps store_steps_evidence by blast

lemma moves_jobs:
  "db_inv (store w) \<Longrightarrow> job_moves\<^sup>*\<^sup>* (job_of (store w) jid) (job_of (store (snd (action w))) jid)"
  using steps store_steps_job by blast

end

section \<open>Reads of immutable evidence\<close>

lemma find_prefix: "List.find p xs = Some x \<Longrightarrow> prefix xs ys \<Longrightarrow> List.find p ys = Some x"
  by (auto simp: prefix_def find_app)

text \<open>A record that was read once is read again, unchanged, in every extension of the store.\<close>

lemma read_stable:
  assumes "rbind (of_option e (List.find p xs)) f = Inr x" "prefix xs ys"
  shows "rbind (of_option e (List.find p ys)) f = Inr x"
proof -
  from assms(1) obtain r where "List.find p xs = Some r" "f r = Inr x"
    by (cases "List.find p xs") simp_all
  with find_prefix[OF this(1) assms(2)] show ?thesis by simp
qed

lemma get_dataset_stable:
  "get_dataset env db name revision = Inr d \<Longrightarrow> evidence_extends db db' \<Longrightarrow>
   get_dataset env db' name revision = Inr d"
  unfolding get_dataset_def evidence_extends_def by (blast intro: read_stable)

lemma get_suite_stable:
  "get_suite env db name revision = Inr d \<Longrightarrow> evidence_extends db db' \<Longrightarrow>
   get_suite env db' name revision = Inr d"
  unfolding get_suite_def evidence_extends_def by (blast intro: read_stable)

lemma get_run_stable:
  "get_run env db rid = Inr d \<Longrightarrow> evidence_extends db db' \<Longrightarrow> get_run env db' rid = Inr d"
  unfolding get_run_def evidence_extends_def by (blast intro: read_stable)

lemma get_release_decision_stable:
  "get_release_decision env db i = Inr d \<Longrightarrow> evidence_extends db db' \<Longrightarrow>
   get_release_decision env db' i = Inr d"
  unfolding get_release_decision_def evidence_extends_def by (blast intro: read_stable)

end
