(* ===== verification/Service.thy ===== *)
theory Service
  imports Contracts Sessions
begin

text \<open>
  The application service (\<open>application/control_plane.py\<close>): registration of datasets and suites,
  the four idempotent submissions, cancellation and the reads, each a sequence of repository
  calls with the service's translation of store exceptions. The executor, the clock and the
  identifier factory are fields of \<open>service\<close>, and so is pydantic's dump of a specification.
\<close>

section \<open>Submissions\<close>

record run_submission =
  rs_key :: string
  rs_dataset_name :: string
  rs_dataset_revision :: int
  rs_target_name :: string
  rs_target_revision :: int
  rs_adapter :: string
  rs_evaluator_names :: "string list"
  rs_overrides :: overrides
  rs_traceparent :: "string option"

record comparison_submission =
  cs_key :: string
  cs_dataset_name :: string
  cs_dataset_revision :: int
  cs_baseline_run_id :: string
  cs_candidate_run_id :: string
  cs_spec :: evaluation_spec
  cs_traceparent :: "string option"

record suite_run_submission =
  srs_key :: string
  srs_suite_name :: string
  srs_suite_revision :: int
  srs_target_name :: string
  srs_target_revision :: int
  srs_overrides :: overrides
  srs_traceparent :: "string option"

record suite_comparison_submission =
  scs_key :: string
  scs_suite_name :: string
  scs_suite_revision :: int
  scs_baseline_run_id :: string
  scs_candidate_run_id :: string
  scs_traceparent :: "string option"

definition named_revision :: "string \<Rightarrow> int \<Rightarrow> json" where
  "named_revision name revision = JObj [(''name'', JStr name), (''revision'', JInt revision)]"

definition overrides_record :: "overrides \<Rightarrow> json" where
  "overrides_record os = JObj (map (\<lambda>(k, v). (k, JStr v)) (sort_key fst os))"

definition run_digest_record :: "run_submission \<Rightarrow> json" where
  "run_digest_record x = JObj
     [(''adapter'', JStr (rs_adapter x)),
      (''dataset'', named_revision (rs_dataset_name x) (rs_dataset_revision x)),
      (''evaluators'', JList (map JStr (rs_evaluator_names x))),
      (''scenario_overrides'', overrides_record (rs_overrides x)),
      (''target'', named_revision (rs_target_name x) (rs_target_revision x))]"

definition comparison_digest_record ::
    "(evaluation_spec \<Rightarrow> json) \<Rightarrow> comparison_submission \<Rightarrow> json" where
  "comparison_digest_record dump x = JObj
     [(''baseline_run_id'', JStr (cs_baseline_run_id x)),
      (''candidate_run_id'', JStr (cs_candidate_run_id x)),
      (''dataset'', named_revision (cs_dataset_name x) (cs_dataset_revision x)),
      (''spec'', dump (cs_spec x))]"

definition suite_run_digest_record :: "suite_run_submission \<Rightarrow> json" where
  "suite_run_digest_record x = JObj
     [(''submission_schema'', JStr ''suite-run/v1''),
      (''suite'', named_revision (srs_suite_name x) (srs_suite_revision x)),
      (''target'', named_revision (srs_target_name x) (srs_target_revision x)),
      (''scenario_overrides'', overrides_record (srs_overrides x))]"

definition suite_comparison_digest_record :: "suite_comparison_submission \<Rightarrow> json" where
  "suite_comparison_digest_record x = JObj
     [(''submission_schema'', JStr ''suite-comparison/v1''),
      (''suite'', named_revision (scs_suite_name x) (scs_suite_revision x)),
      (''baseline_run_id'', JStr (scs_baseline_run_id x)),
      (''candidate_run_id'', JStr (scs_candidate_run_id x))]"

record submission_result =
  result_job :: job_record
  result_created :: bool

section \<open>The service\<close>

record service =
  repository :: session
  service_executor :: executor
  service_clock :: datetime
  new_identifier :: "string \<Rightarrow> string"
  service_max_attempts :: int
  dump_spec :: "evaluation_spec \<Rightarrow> json"

definition new_service :: "service \<Rightarrow> service res" where
  "new_service s = rbind (checks
     [(\<not> (1 \<le> service_max_attempts s \<and> service_max_attempts s \<le> 10),
       ValueError ''maximum attempts must be between 1 and 10'')]) (\<lambda>_. Inr s)"

abbreviation config_of :: "service \<Rightarrow> store_config" where
  "config_of s \<equiv> config (repository s)"

text \<open>A timestamp field of a model: the validator's \<open>ValueError\<close> surfaces as \<open>ValidationError\<close>.\<close>

definition timestamp_field :: "datetime \<Rightarrow> instant res" where
  "timestamp_field v =
     rcatch is_value_error (\<lambda>_. Inl (ValidationError aware_message)) (utc aware_message v)"

abbreviation invalid :: "string \<Rightarrow> 'a res \<Rightarrow> 'a res" where
  "invalid message \<equiv> rcatch is_value_error (\<lambda>_. Inl (InvalidSubmissionError message))"

abbreviation not_found :: "string \<Rightarrow> 'a act \<Rightarrow> 'a act" where
  "not_found message \<equiv> acatch (translate is_store_not_found_error (ResourceNotFoundError message))"

abbreviation conflict :: "string \<Rightarrow> 'a act \<Rightarrow> 'a act" where
  "conflict message \<equiv> acatch (translate is_store_conflict_error (ResourceConflictError message))"

text \<open>The reads of the repository.\<close>

definition read_dataset :: "service \<Rightarrow> string \<Rightarrow> int \<Rightarrow> dataset_record act" where
  "read_dataset s name revision = query (repository s) (\<lambda>db. Store.get_dataset (config_of s) db name revision)"

definition read_suite :: "service \<Rightarrow> string \<Rightarrow> int \<Rightarrow> suite_record act" where
  "read_suite s name revision = query (repository s) (\<lambda>db. Store.get_suite (config_of s) db name revision)"

definition read_run :: "service \<Rightarrow> string \<Rightarrow> run_record act" where
  "read_run s rid = query (repository s) (\<lambda>db. Store.get_run (config_of s) db rid)"

section \<open>Registration and reads\<close>

definition register_dataset :: "service \<Rightarrow> dataset_version \<Rightarrow> dataset_record act" where
  "register_dataset s d =
     abind (alift (invalid ''Dataset revision exceeds service limits'' (validate_dataset_bounds d))) (\<lambda>_.
     abind (alift (timestamp_field (service_clock s))) (\<lambda>now.
     conflict ''Dataset revision already contains different content''
       (call (repository s) (\<lambda>_. put_dataset (config_of s) \<lparr>dataset = d, dataset_created_at = now\<rparr>))))"

definition service_get_dataset :: "service \<Rightarrow> string \<Rightarrow> int \<Rightarrow> dataset_record act" where
  "service_get_dataset s name revision =
     not_found ''Dataset revision was not found'' (read_dataset s name revision)"

text \<open>An existing record of the revision decides before anything else is consulted.\<close>

definition register_suite :: "service \<Rightarrow> evaluation_suite \<Rightarrow> suite_record act" where
  "register_suite s x =
     abind (acatch (\<lambda>e. if is_store_not_found_error e then Some (areturn None) else None)
         (abind (read_suite s (suite_name x) (suite_revision x)) (\<lambda>r. areturn (Some r)))) (\<lambda>existing.
     case existing of
       Some r \<Rightarrow>
         if suite r \<noteq> x then araise (ResourceConflictError
           ''Evaluation suite revision already contains different content'')
         else areturn r
     | None \<Rightarrow>
         abind (not_found ''Suite dataset revision was not found''
             (read_dataset s (ref_name (suite_dataset x)) (ref_revision (suite_dataset x)))) (\<lambda>d.
         abind (alift (invalid ''Evaluation suite revision is invalid''
             (rbind (resolve_suite_contract (service_executor s) (exec_adapter (suite_execution x))
                 (suite_evaluator_names x))
               (validate_suite_registration x d)))) (\<lambda>_.
         abind (alift (timestamp_field (service_clock s))) (\<lambda>now.
         conflict ''Evaluation suite revision already contains different content''
           (call (repository s) (\<lambda>_. put_suite (config_of s) \<lparr>suite = x, suite_created_at = now\<rparr>))))))"

definition service_get_suite :: "service \<Rightarrow> string \<Rightarrow> int \<Rightarrow> suite_record act" where
  "service_get_suite s name revision =
     not_found ''Evaluation suite revision was not found'' (read_suite s name revision)"

definition service_get_job :: "service \<Rightarrow> string \<Rightarrow> job_record act" where
  "service_get_job s jid =
     not_found ''Job was not found'' (query (repository s) (\<lambda>db. JobStore.get_job db jid))"

definition service_get_run :: "service \<Rightarrow> string \<Rightarrow> run_record act" where
  "service_get_run s rid = not_found ''Run was not found'' (read_run s rid)"

definition service_get_release_decision :: "service \<Rightarrow> string \<Rightarrow> release_decision_record act" where
  "service_get_release_decision s did = not_found ''Release decision was not found''
     (query (repository s) (\<lambda>db. Store.get_release_decision (config_of s) db did))"

definition service_list_job_attempts :: "service \<Rightarrow> string \<Rightarrow> job_attempt_record list act" where
  "service_list_job_attempts s jid =
     abind (service_get_job s jid) (\<lambda>_. query (repository s) (\<lambda>db. JobStore.list_job_attempts db jid))"

definition service_cancel_job :: "service \<Rightarrow> string \<Rightarrow> job_record act" where
  "service_cancel_job s jid =
     acatch (\<lambda>e. if is_store_not_found_error e then Some (araise (ResourceNotFoundError ''Job was not found''))
                else translate is_store_transition_error (ResourceConflictError ''Job cannot be canceled'') e)
       (call (repository s) (\<lambda>n. JobStore.cancel_job (statement_clock (repository s) n) jid))"

text \<open>\<open>ready\<close>: two reads that touch no table; \<open>current\<close> is whether the schema revision is the expected one.\<close>

definition ready :: "service \<Rightarrow> bool \<Rightarrow> bool act" where
  "ready s current = acatch (\<lambda>_. Some (areturn False))
     (abind (query (repository s) (\<lambda>_. Inr ())) (\<lambda>_. query (repository s) (\<lambda>_. Inr current)))"

section \<open>Enqueueing\<close>

definition idempotent_replay ::
    "service \<Rightarrow> job_kind \<Rightarrow> string \<Rightarrow> string \<Rightarrow> submission_result option act" where
  "idempotent_replay s kind key digest =
     abind (acatch (\<lambda>e. if is_store_not_found_error e then Some (areturn None) else None)
         (abind (query (repository s) (\<lambda>db. get_job_by_idempotency (config_of s) db kind key))
           (\<lambda>j. areturn (Some j)))) (\<lambda>existing.
     case existing of
       None \<Rightarrow> areturn None
     | Some j \<Rightarrow>
         if request_digest j \<noteq> digest then
           araise (IdempotencyConflictError ''Idempotency key was used for a different request'')
         else areturn (Some \<lparr>result_job = j, result_created = False\<rparr>))"

fun resource_prefix :: "job_kind \<Rightarrow> string" where
  "resource_prefix RUN_JOB = ''run''"
| "resource_prefix COMPARISON_JOB = ''decision''"

definition propose_job ::
    "service \<Rightarrow> job_kind \<Rightarrow> string \<Rightarrow> string \<Rightarrow> string option \<Rightarrow> job_record res" where
  "propose_job s kind key digest trace =
     rbind (timestamp_field (service_clock s)) (\<lambda>now. validate_job_record
       \<lparr>job_id = new_identifier s ''job'', job_kind = kind, job_status = QUEUED,
        idempotency_key = key, request_digest = digest,
        resource_id = new_identifier s (resource_prefix kind), attempt_count = 0,
        max_attempts = service_max_attempts s, available_at = now, job_error_code = None,
        job_created_at = now, job_updated_at = now, traceparent = trace\<rparr>)"

fun is_idempotency_conflict_error :: "exn \<Rightarrow> bool" where
  "is_idempotency_conflict_error (StoreIdempotencyConflictError _) = True"
| "is_idempotency_conflict_error _ = False"

definition begin_errors :: "exn \<Rightarrow> 'a act option" where
  "begin_errors e =
     (if is_idempotency_conflict_error e then Some (araise (IdempotencyConflictError
        ''Idempotency key was used for a different request''))
      else translate is_store_conflict_error (ResourceConflictError ''Job identity already exists'') e)"

definition enqueue_job ::
    "service \<Rightarrow> job_payload \<Rightarrow> string \<Rightarrow> string \<Rightarrow> string option \<Rightarrow> submission_result act" where
  "enqueue_job s payload key digest trace =
     abind (alift (propose_job s (payload_kind payload) key digest trace)) (\<lambda>proposed.
     abind (acatch begin_errors (call (repository s) (\<lambda>_. begin_job (config_of s) proposed payload)))
       (\<lambda>(job, created). areturn \<lparr>result_job = job, result_created = created\<rparr>))"

text \<open>
  The course all four submissions share: digest, replay, and only then the dependencies, which
  \<open>pin\<close> resolves into the durable payload.
\<close>

definition submit ::
    "service \<Rightarrow> job_kind \<Rightarrow> string \<Rightarrow> json \<Rightarrow> string option \<Rightarrow> job_payload act \<Rightarrow> submission_result act" where
  "submit s kind key digest_record trace pin =
     abind (alift (sha256_digest (env_jcs (config_of s)) digest_record)) (\<lambda>digest.
     abind (idempotent_replay s kind key digest) (\<lambda>replay.
     case replay of
       Some r \<Rightarrow> areturn r
     | None \<Rightarrow> abind pin (\<lambda>payload. enqueue_job s payload key digest trace)))"

definition sorted_overrides :: "overrides \<Rightarrow> scenario_override list" where
  "sorted_overrides os =
     map (\<lambda>(c, x). \<lparr>override_case_id = c, override_scenario = x\<rparr>) (sort_key fst os)"

section \<open>Runs\<close>

definition pin_run :: "service \<Rightarrow> run_submission \<Rightarrow> job_payload act" where
  "pin_run s x =
     abind (not_found ''Dataset revision was not found''
         (read_dataset s (rs_dataset_name x) (rs_dataset_revision x))) (\<lambda>d.
     alift (invalid ''Run submission is invalid''
       (rbind (resolve_contract (service_executor s) (rs_target_name x) (rs_target_revision x)
           (rs_adapter x) (rs_evaluator_names x) (rs_overrides x)) (\<lambda>contract.
        rbind (validate_execution_contract contract (rs_target_name x) (rs_target_revision x)
           (rs_adapter x) (rs_evaluator_names x)) (\<lambda>_.
        validate_payload (RunPayload \<lparr>rp_v2 = False, rp_suite = None,
          rp_dataset = dataset_ref (dataset d), rp_target_name = rs_target_name x,
          rp_target_revision = rs_target_revision x, rp_adapter = rs_adapter x,
          rp_evaluator_names = rs_evaluator_names x, rp_overrides = sorted_overrides (rs_overrides x),
          rp_contract = contract\<rparr>))))))"

definition submit_run :: "service \<Rightarrow> run_submission \<Rightarrow> submission_result act" where
  "submit_run s x =
     submit s RUN_JOB (rs_key x) (run_digest_record x) (rs_traceparent x) (pin_run s x)"

definition pin_suite_run :: "service \<Rightarrow> suite_run_submission \<Rightarrow> job_payload act" where
  "pin_suite_run s x =
     abind (not_found ''Suite run input was not found''
         (abind (read_suite s (srs_suite_name x) (srs_suite_revision x)) (\<lambda>r.
          abind (read_dataset s (ref_name (suite_dataset (suite r))) (ref_revision (suite_dataset (suite r))))
            (\<lambda>d. areturn (suite r, d))))) (\<lambda>(p, d).
     alift (invalid ''Suite run submission is invalid''
       (rbind (resolve_suite_contract (service_executor s) (exec_adapter (suite_execution p))
           (suite_evaluator_names p)) (\<lambda>suite_contract.
        rbind (validate_suite_registration p d suite_contract) (\<lambda>_.
        rbind (resolve_contract (service_executor s) (srs_target_name x) (srs_target_revision x)
           (exec_adapter (suite_execution p)) (suite_evaluator_names p) (srs_overrides x)) (\<lambda>contract.
        validate_payload (RunPayload \<lparr>rp_v2 = True, rp_suite = Some p,
          rp_dataset = suite_dataset p, rp_target_name = srs_target_name x,
          rp_target_revision = srs_target_revision x, rp_adapter = exec_adapter (suite_execution p),
          rp_evaluator_names = suite_evaluator_names p,
          rp_overrides = sorted_overrides (srs_overrides x), rp_contract = contract\<rparr>)))))))"

definition submit_suite_run :: "service \<Rightarrow> suite_run_submission \<Rightarrow> submission_result act" where
  "submit_suite_run s x =
     submit s RUN_JOB (srs_key x) (suite_run_digest_record x) (srs_traceparent x) (pin_suite_run s x)"

section \<open>Comparisons\<close>

definition comparison_errors :: "string \<Rightarrow> string \<Rightarrow> exn \<Rightarrow> 'a act option" where
  "comparison_errors missing wrong e =
     (if is_store_not_found_error e then Some (araise (ResourceNotFoundError missing))
      else translate is_value_error (InvalidSubmissionError wrong) e)"

definition comparison_payload_for ::
    "evaluation_suite option \<Rightarrow> artifact_ref \<Rightarrow> run_record \<Rightarrow> run_record \<Rightarrow> evaluation_spec
     \<Rightarrow> comparison_job_payload" where
  "comparison_payload_for p ref baseline candidate spec =
     \<lparr>cp_v2 = p \<noteq> None, cp_suite = p, cp_dataset = ref,
      cp_baseline_run_id = run_id (run_evidence baseline),
      cp_baseline_digest = result_digest (run_evidence baseline),
      cp_candidate_run_id = run_id (run_evidence candidate),
      cp_candidate_digest = result_digest (run_evidence candidate), cp_spec = spec\<rparr>"

definition pin_comparison :: "service \<Rightarrow> comparison_submission \<Rightarrow> job_payload act" where
  "pin_comparison s x =
     acatch (comparison_errors ''Comparison evidence was not found'' ''Comparison submission is invalid'')
     (abind (read_dataset s (cs_dataset_name x) (cs_dataset_revision x)) (\<lambda>d.
      abind (read_run s (cs_baseline_run_id x)) (\<lambda>baseline.
      abind (read_run s (cs_candidate_run_id x)) (\<lambda>candidate.
      alift (rbind (validate_comparison_inputs (cs_dataset_name x) (cs_dataset_revision x)
          (cs_baseline_run_id x) (cs_candidate_run_id x) (cs_spec x) d baseline candidate None) (\<lambda>_.
        validate_payload (ComparisonPayload
          (comparison_payload_for None (dataset_ref (dataset d)) baseline candidate (cs_spec x)))))))))"

definition submit_comparison :: "service \<Rightarrow> comparison_submission \<Rightarrow> submission_result act" where
  "submit_comparison s x =
     submit s COMPARISON_JOB (cs_key x) (comparison_digest_record (dump_spec s) x) (cs_traceparent x)
       (pin_comparison s x)"

definition pin_suite_comparison :: "service \<Rightarrow> suite_comparison_submission \<Rightarrow> job_payload act" where
  "pin_suite_comparison s x =
     abind (not_found ''Suite comparison input was not found''
         (abind (read_suite s (scs_suite_name x) (scs_suite_revision x)) (\<lambda>r.
          abind (read_dataset s (ref_name (suite_dataset (suite r))) (ref_revision (suite_dataset (suite r))))
            (\<lambda>d.
          abind (read_run s (scs_baseline_run_id x)) (\<lambda>baseline.
          abind (read_run s (scs_candidate_run_id x)) (\<lambda>candidate.
          areturn (suite r, d, baseline, candidate)))))))
       (\<lambda>(p, d, baseline, candidate).
     alift (invalid ''Suite comparison submission is invalid''
       (rbind (to_evaluation_spec p (run_target (run_evidence baseline)) (run_target (run_evidence candidate)))
         (\<lambda>spec.
        rbind (validate_comparison_inputs (ref_name (suite_dataset p)) (ref_revision (suite_dataset p))
          (scs_baseline_run_id x) (scs_candidate_run_id x) spec d baseline candidate (Some p)) (\<lambda>_.
        validate_payload (ComparisonPayload
          (comparison_payload_for (Some p) (suite_dataset p) baseline candidate spec)))))))"

definition submit_suite_comparison :: "service \<Rightarrow> suite_comparison_submission \<Rightarrow> submission_result act" where
  "submit_suite_comparison s x =
     submit s COMPARISON_JOB (scs_key x) (suite_comparison_digest_record x) (scs_traceparent x)
       (pin_suite_comparison s x)"

section \<open>The service as a client of the store\<close>

lemma begin_job_operation:
  assumes "valid_job j"
  shows "store_operation (begin_job e j payload)"
proof
  fix db :: db and x db'
  assume op: "begin_job e j payload db = Inr (x, db')"
  obtain job fresh where "x = (job, fresh)" by (cases x)
  with begin_job_Inr[of e j payload db job fresh db'] op assms show "store_step\<^sup>*\<^sup>* db db'"
    by (cases fresh) auto
qed

lemma propose_job_Inr:
  "propose_job s kind key digest trace = Inr j \<Longrightarrow> submitted j \<and> job_kind j = kind \<and>
     idempotency_key j = key \<and> request_digest j = digest"
  by (auto simp: propose_job_def result_simps validate_job_record_Inr valid_job_def submitted_def)

lemma advances_enqueue [advances_intros]: "advances (enqueue_job s payload key digest trace)"
proof (cases "propose_job s (payload_kind payload) key digest trace")
  case (Inl e)
  then show ?thesis by (simp add: enqueue_job_def advances_def)
next
  case (Inr j)
  have "advances (call (repository s) (\<lambda>_. begin_job (config_of s) j payload))"
    by (rule advances_call) (use propose_job_Inr[OF Inr] in \<open>simp add: begin_job_operation submitted_def\<close>)
  then have "advances (abind (acatch begin_errors (call (repository s) (\<lambda>_. begin_job (config_of s) j payload)))
      (\<lambda>(job, created). areturn \<lparr>result_job = job, result_created = created\<rparr>))"
    by (intro advances_abind advances_acatch)
      (auto simp: begin_errors_def intro: advances_intros split: prod.splits if_splits)
  with Inr show ?thesis by (simp add: enqueue_job_def advances_def)
qed

lemma advances_reads [advances_intros]:
  "advances (read_dataset s name revision)" "advances (read_suite s name revision)"
  "advances (read_run s rid)"
  by (simp_all add: read_dataset_def read_suite_def read_run_def advances_query)

lemma advances_submit: "advances pin \<Longrightarrow> advances (submit s kind key record trace pin)"
  unfolding submit_def idempotent_replay_def
  by (intro advances_intros) (auto intro!: advances_intros split: if_splits option.split)

end
