(* ===== verification/Readback.thy ===== *)
theory Readback
  imports Sessions
begin

text \<open>
  What is stored can be read: every row a transaction inserts decodes to the record it was made
  of, so the integrity checks of the readers (canonical bytes, digests, index columns) never
  reject evidence of a store that only its own operations have written. The hypotheses are that
  a record offered to the store is an instance of its model, and that pydantic and the JSON parser
  read the canonical bytes of its dump back.
\<close>

section \<open>Records that read back\<close>

definition reads_back :: "store_config \<Rightarrow> 'm codec \<Rightarrow> 'm \<Rightarrow> bool" where
  "reads_back env c m \<longleftrightarrow> (\<forall>b. model_text env c m = Inr b \<longrightarrow>
     (\<exists>v. env_parse env b = Some v \<and> canonical_json_bytes (env_jcs env) v = Inr b \<and>
          read_model c v = Some m))"

definition payload_reads_back :: "store_config \<Rightarrow> job_payload \<Rightarrow> bool" where
  "payload_reads_back env p \<longleftrightarrow>
     (\<forall>b. canonical_json_bytes (env_jcs env) (serialize_payload (payload_handler env) p) = Inr b \<longrightarrow>
       (\<exists>v. env_parse env b = Some v \<and> canonical_json_bytes (env_jcs env) v = Inr b \<and>
            payload_reader env v = Some p))"

fun instance_ok :: "store_config \<Rightarrow> command \<Rightarrow> bool" where
  "instance_ok env (Submit j p) \<longleftrightarrow> validate_payload p = Inr p \<and> payload_reads_back env p"
| "instance_ok env (CompleteRun clock j r n t) \<longleftrightarrow>
     validate_run (env_jcs env) (run_evidence r) = Inr (run_evidence r) \<and>
     reads_back env (run_codec env) (run_evidence r)"
| "instance_ok env (CompleteDecision clock j r n t) \<longleftrightarrow>
     validate_decision (env_jcs env) (decision r) = Inr (decision r) \<and> is_stable_id (decision_id r) \<and>
     reads_back env (decision_codec env) (decision r)"
| "instance_ok env (PutDataset r) \<longleftrightarrow>
     validate_dataset (env_jcs env) (dataset r) = Inr (dataset r) \<and>
     reads_back env (dataset_codec env) (dataset r)"
| "instance_ok env (PutSuite r) \<longleftrightarrow>
     validate_evaluation_suite (env_jcs env) (suite r) = Inr (suite r) \<and>
     reads_back env (suite_codec env) (suite r)"
| "instance_ok env (PutRun r) \<longleftrightarrow>
     validate_run (env_jcs env) (run_evidence r) = Inr (run_evidence r) \<and>
     reads_back env (run_codec env) (run_evidence r)"
| "instance_ok env (PutDecision r) \<longleftrightarrow>
     validate_decision (env_jcs env) (decision r) = Inr (decision r) \<and> is_stable_id (decision_id r) \<and>
     reads_back env (decision_codec env) (decision r)"
| "instance_ok env _ \<longleftrightarrow> True"

definition job_loads :: "store_config \<Rightarrow> db \<Rightarrow> job_record \<Rightarrow> bool" where
  "job_loads env db j \<longleftrightarrow> (\<exists>p. load_job_payload env db j True = Inr (Some p))"

definition readable :: "store_config \<Rightarrow> db \<Rightarrow> bool" where
  "readable env db \<longleftrightarrow>
     (\<forall>r \<in> set (datasets_table db). is_ok (dataset_record_of env r)) \<and>
     (\<forall>r \<in> set (suites_table db). is_ok (suite_record_of env r)) \<and>
     (\<forall>r \<in> set (runs_table db). is_ok (run_record_of env r)) \<and>
     (\<forall>r \<in> set (release_decisions_table db). is_ok (release_decision_record_of env r)) \<and>
     (\<forall>r \<in> set (jobs_table db). job_loads env db (row_job r))"

section \<open>The rows of written records\<close>

lemma validated_model_reads_back:
  assumes "model_text env c m = Inr b" "require_document_size env b = Inr ()" "reads_back env c m"
    "validate m = Inr m"
  shows "validated_model env c validate b = Inr m"
proof -
  from assms(1,3) obtain v where "env_parse env b = Some v" "canonical_json_bytes (env_jcs env) v = Inr b"
    "read_model c v = Some m" unfolding reads_back_def by blast
  with assms(2,4) show ?thesis by (simp add: validated_model_def require_document_size_def result_simps)
qed

lemma dataset_row_reads:
  assumes "model_text env (dataset_codec env) (dataset r) = Inr b" "require_document_size env b = Inr ()"
    "instance_ok env (PutDataset r)"
  shows "dataset_record_of env (dataset_row_of r b) = Inr r"
  using validated_model_reads_back[OF assms(1,2)] assms(3)
  by (simp add: dataset_record_of_def dataset_row_of_def)

lemma suite_row_reads:
  assumes "model_text env (suite_codec env) (suite r) = Inr b" "require_document_size env b = Inr ()"
    "instance_ok env (PutSuite r)"
  shows "suite_record_of env (suite_row_of r b) = Inr r"
  using validated_model_reads_back[OF assms(1,2)] assms(3)
  by (simp add: suite_record_of_def suite_row_of_def Let_def)

lemma run_row_reads:
  assumes "prepare_run env r = Inr (b, units)" "instance_ok env (PutRun r)"
  shows "run_record_of env (run_row_of r b units) = Inr r"
proof -
  from assms(1) have "model_text env (run_codec env) (run_evidence r) = Inr b"
    "require_document_size env b = Inr ()" "run_usage (run_evidence r) = Inr units"
    unfolding prepare_run_def by (auto simp: result_simps)
  with validated_model_reads_back[OF this(1,2)] assms(2) show ?thesis
    by (simp add: run_record_of_def run_row_of_def Let_def)
qed

lemma decision_row_reads:
  assumes "model_text env (decision_codec env) (decision r) = Inr b" "require_document_size env b = Inr ()"
    "instance_ok env (PutDecision r)"
  shows "release_decision_record_of env (decision_row_of r b) = Inr r"
  using validated_model_reads_back[OF assms(1,2)] assms(3)
  by (simp add: release_decision_record_of_def decision_row_of_def Let_def)

section \<open>Growth\<close>

text \<open>The evidence tables gain readable rows only, and no job appears.\<close>

definition grown :: "store_config \<Rightarrow> db \<Rightarrow> db \<Rightarrow> bool" where
  "grown env db db' \<longleftrightarrow>
     set (datasets_table db') \<subseteq> set (datasets_table db) \<union> {r. is_ok (dataset_record_of env r)} \<and>
     set (suites_table db') \<subseteq> set (suites_table db) \<union> {r. is_ok (suite_record_of env r)} \<and>
     set (runs_table db') \<subseteq> set (runs_table db) \<union> {r. is_ok (run_record_of env r)} \<and>
     set (release_decisions_table db') \<subseteq>
       set (release_decisions_table db) \<union> {r. is_ok (release_decision_record_of env r)} \<and>
     row_job_id ` set (jobs_table db') \<subseteq> row_job_id ` set (jobs_table db)"

lemma grown_refl [simp]: "grown env db db"
  by (simp add: grown_def)

lemma grown_trans: "grown env db db1 \<Longrightarrow> grown env db1 db2 \<Longrightarrow> grown env db db2"
  by (auto simp: grown_def subset_iff)

named_theorems grows_intros \<open>transactions that grow the store\<close>

definition grows :: "store_config \<Rightarrow> db \<Rightarrow> ('a \<times> db) res \<Rightarrow> bool" where
  "grows env db r \<longleftrightarrow> (\<forall>x db'. r = Inr (x, db') \<longrightarrow> grown env db db')"

lemma growsD: "grows env db r \<Longrightarrow> r = Inr (x, db') \<Longrightarrow> grown env db db'"
  by (simp add: grows_def)

lemma grows_Inl [grows_intros]: "grows env db (Inl e)"
  by (simp add: grows_def)

lemma grows_Inr [grows_intros]: "grows env db (Inr (x, db))"
  by (simp add: grows_def)

lemma grows_treturn [grows_intros]: "grows env db (treturn x db)"
  by (simp add: grows_def)

lemma grows_lift [grows_intros]: "grows env db (lift_res m db)"
  by (auto simp: grows_def result_simps)

lemma grows_rbind [grows_intros]:
  "(\<And>x. m = Inr x \<Longrightarrow> grows env db (f x)) \<Longrightarrow> grows env db (rbind m f)"
  by (cases m) (simp_all add: grows_def)

lemma grows_tbind [grows_intros]:
  assumes "grows env db (m db)" "\<And>x db1. m db = Inr (x, db1) \<Longrightarrow> grows env db1 (f x db1)"
  shows "grows env db (tbind m f db)"
proof (cases "m db")
  case (Inr p)
  obtain x db1 where p: "p = (x, db1)" by (cases p)
  have "grown env db db1" using assms(1) Inr p by (simp add: grows_def)
  with assms(2)[of x db1] Inr p show ?thesis by (auto simp: grows_def tbind_def intro: grown_trans)
qed (simp add: grows_def tbind_def)

lemma grows_sql [grows_intros]: "grows env db (m db) \<Longrightarrow> grows env db (sql_errors e1 e2 m db)"
  by (auto simp: grows_def result_simps)

lemma grows_if [grows_intros]:
  "(c \<Longrightarrow> grows env db a) \<Longrightarrow> (\<not> c \<Longrightarrow> grows env db b) \<Longrightarrow> grows env db (if c then a else b)"
  by simp

lemma grows_Let [grows_intros]: "(\<And>x. x = a \<Longrightarrow> grows env db (f x)) \<Longrightarrow> grows env db (let x = a in f x)"
  by (simp add: Let_def)

lemma grows_Let_tx [grows_intros]:
  "(\<And>x. x = a \<Longrightarrow> grows env db (f x db)) \<Longrightarrow> grows env db ((let x = a in f x) db)"
  by (simp add: Let_def)

lemma grows_if_tx [grows_intros]:
  "(c \<Longrightarrow> grows env db (f db)) \<Longrightarrow> (\<not> c \<Longrightarrow> grows env db (g db)) \<Longrightarrow>
   grows env db ((if c then f else g) db)"
  by simp

lemma grows_prod [grows_intros]:
  "(\<And>a b. p = (a, b) \<Longrightarrow> grows env db (f a b)) \<Longrightarrow> grows env db (case p of (a, b) \<Rightarrow> f a b)"
  by (cases p) simp

lemma grows_option [grows_intros]:
  "(x = None \<Longrightarrow> grows env db a) \<Longrightarrow> (\<And>y. x = Some y \<Longrightarrow> grows env db (f y)) \<Longrightarrow>
   grows env db (case x of None \<Rightarrow> a | Some y \<Rightarrow> f y)"
  by (cases x) simp_all

lemma grows_list [grows_intros]:
  "(x = [] \<Longrightarrow> grows env db a) \<Longrightarrow> (\<And>y ys. x = y # ys \<Longrightarrow> grows env db (f y ys)) \<Longrightarrow>
   grows env db (case x of [] \<Rightarrow> a | y # ys \<Rightarrow> f y ys)"
  by (cases x) simp_all

lemma grows_update_attempts [grows_intros]: "grows env db (update_attempts p f db)"
  by (auto simp: grows_def update_attempts_def Let_def grown_def split: if_splits)

lemma grows_insert_attempt [grows_intros]: "grows env db (insert_attempt row db)"
  by (auto simp: grows_def insert_attempt_def Let_def grown_def split: if_splits)

lemma grows_update_jobs:
  "(\<And>r. row_job_id (f r) = row_job_id r) \<Longrightarrow> grows env db (update_jobs p f db)"
  by (fastforce simp: grows_def update_jobs_def update_where_def Let_def grown_def split: if_splits)

lemma grows_update_job [grows_intros]: "grows env db (update_job row j db)"
  unfolding update_job_def by (intro grows_intros grows_update_jobs) simp

lemma grows_finish [grows_intros]: "grows env db (finish_attempt jid n token s ec f lt db)"
  unfolding finish_attempt_def by (intro grows_intros)

lemma grows_cancel_attempt [grows_intros]: "grows env db (cancel_active_attempt row j n token now lt db)"
  unfolding cancel_active_attempt_def by (intro grows_intros)

lemma grows_reap_one [grows_intros]: "grows env db (reap_one base maximum now c db)"
  unfolding reap_one_def
  by (cases "find_job_row db (fst c)"; cases "find_attempt_row db (fst c) (snd c)")
    (auto intro!: grows_intros)

lemma grows_reap_all [grows_intros]: "grows env db (reap_all base maximum clock n cs db)"
  by (induction cs arbitrary: n db) (auto intro!: grows_intros)

lemma grows_insert_dataset: "is_ok (dataset_record_of env row) \<Longrightarrow> grows env db (insert_dataset row db)"
  by (auto simp: grows_def insert_dataset_def grown_def split: if_splits)

lemma grows_insert_suite: "is_ok (suite_record_of env row) \<Longrightarrow> grows env db (insert_suite row db)"
  by (auto simp: grows_def insert_suite_def grown_def split: if_splits)

lemma grows_insert_run: "is_ok (run_record_of env row) \<Longrightarrow> grows env db (insert_run row db)"
  by (auto simp: grows_def insert_run_def grown_def split: if_splits)

lemma grows_insert_decision:
  "is_ok (release_decision_record_of env row) \<Longrightarrow> grows env db (insert_decision row db)"
  by (auto simp: grows_def insert_decision_def grown_def split: if_splits)

lemma grows_complete [grows_intros]:
  "(\<And>db. grows env db (publish db)) \<Longrightarrow>
   grows env db (complete_transaction clock jid n token kind rid identical find_stored publish db)"
  unfolding complete_transaction_def by (intro grows_intros)

lemma grows_insert_or:
  assumes "grows env db m" "\<And>e. m = Inl e \<Longrightarrow> grows env db (k e)"
  shows "grows env db (case m of Inl e \<Rightarrow> k e | Inr (u, d) \<Rightarrow> Inr (r, d))"
  using assms by (auto simp: grows_def split: sum.splits)

section \<open>Every operation grows the store\<close>

lemma grows_put_dataset: "instance_ok env (PutDataset r) \<Longrightarrow> grows env db (put_dataset env r db)"
  unfolding put_dataset_def
  by (intro grows_intros grows_insert_or grows_insert_dataset)
    (simp_all add: dataset_row_reads)

lemma grows_put_suite: "instance_ok env (PutSuite r) \<Longrightarrow> grows env db (put_suite env r db)"
  unfolding put_suite_def
  by (intro grows_intros grows_insert_or grows_insert_suite)
    (simp_all add: suite_row_reads)

lemma grows_put_run: "instance_ok env (PutRun r) \<Longrightarrow> grows env db (put_run env r db)"
  unfolding put_run_def
  by (intro grows_intros grows_insert_or grows_insert_run)
    (simp_all add: run_row_reads)

lemma grows_put_decision: "instance_ok env (PutDecision r) \<Longrightarrow> grows env db (put_release_decision env r db)"
  unfolding put_release_decision_def
  by (intro grows_intros grows_insert_or grows_insert_decision)
    (simp_all add: decision_row_reads)

lemma grows_complete_run:
  "instance_ok env (PutRun r) \<Longrightarrow> grows env db (complete_run env clock jid r n token db)"
  unfolding complete_run_def
  by (intro grows_intros grows_insert_run) (simp add: run_row_reads)

lemma grows_complete_decision:
  "instance_ok env (PutDecision r) \<Longrightarrow>
   grows env db (complete_release_decision env clock jid r n token db)"
  unfolding complete_release_decision_def
  by (intro grows_intros grows_insert_decision) (simp add: decision_row_reads)

lemma grows_queue:
  "grows env db (claim_next_job env clock locked worker token secs db)"
  "grows env db (heartbeat_job clock jid n token secs db)"
  "grows env db (retry_job clock jid n token delay code db)"
  "grows env db (fail_job clock jid n token code db)"
  "grows env db (cancel_job clock jid db)"
  "grows env db (acknowledge_cancellation clock jid n token db)"
  "grows env db (reap_expired_jobs env clock locked limit base maximum db)"
  unfolding claim_next_job_def heartbeat_job_def retry_job_def fail_job_def cancel_job_def
    acknowledge_cancellation_def reap_expired_jobs_def
  by (intro grows_intros)+

lemma grown_after: "grows env db (m db) \<Longrightarrow> grown env db (after m db)"
  by (auto simp: after_def grows_def split: sum.splits)

lemma execute_grown:
  "instance_ok env c \<Longrightarrow> (\<forall>j p. c \<noteq> Submit j p) \<Longrightarrow> grown env db (execute env c db)"
  by (cases c) (simp_all add: grown_after grows_queue grows_put_dataset grows_put_suite grows_put_run
    grows_put_decision grows_complete_run grows_complete_decision)

section \<open>Jobs keep their payloads\<close>

lemma frozen_refl [simp]: "frozen j j"
  by (simp add: frozen_def)

lemma frozen_trans: "frozen j j1 \<Longrightarrow> frozen j1 j2 \<Longrightarrow> frozen j j2"
  by (cases j; cases j1; cases j2) (simp add: frozen_def)

lemma moved_frozen:
  "job_moves\<^sup>*\<^sup>* o1 o2 \<Longrightarrow> o1 = Some j \<Longrightarrow> \<exists>j'. o2 = Some j' \<and> frozen j j'"
proof (induction rule: rtranclp_induct)
  case (step o2 o3)
  then obtain j2 where "o2 = Some j2" "frozen j j2" by blast
  with step.hyps(2) show ?case
    by (auto simp: job_moves_def lifecycle_def intro: frozen_trans)
qed simp

lemma load_job_payload_stable:
  assumes "job_loads env db j" "frozen j j'" "prefix (job_payloads_table db) (job_payloads_table db')"
  shows "job_loads env db' j'"
proof -
  note F = frozen_fields[OF assms(2)]
  from assms(1) obtain p where p: "load_job_payload env db j True = Inr (Some p)"
    by (auto simp: job_loads_def)
  then obtain row where row: "List.find (\<lambda>r. pr_job_id r = job_id j) (job_payloads_table db) = Some row"
    by (auto simp: load_job_payload_def split: option.splits)
  have "load_job_payload env db' j' True = load_job_payload env db j True"
    using F row find_prefix[OF row assms(3)] by (simp add: load_job_payload_def cong del: rbind_weak_cong)
  with p show ?thesis by (auto simp: job_loads_def)
qed

lemma readable_grown:
  assumes "readable env db" "db_inv db" "store_step\<^sup>*\<^sup>* db db'" "grown env db db'"
  shows "readable env db'"
proof -
  have inv: "db_inv db'" by (rule store_steps_inv[OF assms(3,2)])
  have "job_loads env db' (row_job r')" if r': "r' \<in> set (jobs_table db')" for r'
  proof -
    have "row_job_id ` set (jobs_table db') \<subseteq> row_job_id ` set (jobs_table db)"
      using assms(4) by (simp add: grown_def)
    with r' obtain r where r: "r \<in> set (jobs_table db)" "row_job_id r = row_job_id r'" by force
    have "job_moves\<^sup>*\<^sup>* (job_of db (row_job_id r)) (job_of db' (row_job_id r))"
      by (rule store_steps_job[OF assms(3,2)])
    from moved_frozen[OF this job_of_row[OF assms(2) r(1)]] job_of_row[OF inv r'] r(2)
    have "frozen (row_job r) (row_job r')" by auto
    moreover have "job_loads env db (row_job r)" using assms(1) r(1) by (simp add: readable_def)
    moreover have "prefix (job_payloads_table db) (job_payloads_table db')"
      using store_steps_evidence[OF assms(3)] by (simp add: evidence_extends_def)
    ultimately show ?thesis using load_job_payload_stable by blast
  qed
  moreover have "\<forall>r \<in> set (datasets_table db'). is_ok (dataset_record_of env r)"
    "\<forall>r \<in> set (suites_table db'). is_ok (suite_record_of env r)"
    "\<forall>r \<in> set (runs_table db'). is_ok (run_record_of env r)"
    "\<forall>r \<in> set (release_decisions_table db'). is_ok (release_decision_record_of env r)"
    using assms(1,4) by (auto simp: readable_def grown_def)
  ultimately show ?thesis by (simp add: readable_def)
qed

lemma fresh_payload_loads:
  assumes ok: "validate_payload p = Inr p" "payload_reads_back env p"
    and doc: "canonical_json_bytes (env_jcs env) (serialize_payload (payload_handler env) p) = Inr document"
    and size: "require_payload_size document = Inr ()"
    and digest: "payload_digest (env_jcs env) (payload_handler env) p = Inr digest"
    and kind: "payload_kind p = job_kind j"
    and find: "List.find (\<lambda>r. pr_job_id r = job_id j) (job_payloads_table db) = Some
      \<lparr>pr_job_id = job_id j, pr_digest = digest, pr_document = document, pr_created_at = job_created_at j\<rparr>"
  shows "job_loads env db j"
proof -
  from ok(2) doc obtain v where "env_parse env document = Some v"
    "canonical_json_bytes (env_jcs env) v = Inr document" "payload_reader env v = Some p"
    unfolding payload_reads_back_def by blast
  with ok(1) size digest kind find show ?thesis
    by (simp add: job_loads_def load_job_payload_def)
qed

lemma begin_job_rows:
  assumes "begin_job env record payload db = Inr ((j, True), db')"
  obtains document digest where
    "canonical_json_bytes (env_jcs env) (serialize_payload (payload_handler env) payload) = Inr document"
    "require_payload_size document = Inr ()"
    "payload_digest (env_jcs env) (payload_handler env) payload = Inr digest"
    "payload_kind payload = job_kind record" "j = record"
    "job_id record \<notin> pr_job_id ` set (job_payloads_table db)"
    "db' = db\<lparr>jobs_table := jobs_table db @ [\<lparr>row_job = record, row_version = 0\<rparr>],
       job_payloads_table := job_payloads_table db @ [\<lparr>pr_job_id = job_id record, pr_digest = digest,
         pr_document = document, pr_created_at = job_created_at record\<rparr>]\<rparr>"
  using assms unfolding begin_job_def
  by (auto simp: result_simps insert_job_def insert_payload_def Let_def split: if_splits sum.splits)

lemma readable_submit:
  assumes read: "readable env db" and inv: "db_inv db" and ok: "instance_ok env (Submit j p)"
    and op: "begin_job env j p db = Inr ((j', fresh), db')"
  shows "readable env db'"
proof (cases fresh)
  case True
  with op have "begin_job env j p db = Inr ((j', True), db')" by simp
  then show ?thesis
  proof (rule begin_job_rows)
    fix document digest
    assume doc: "canonical_json_bytes (env_jcs env) (serialize_payload (payload_handler env) p) = Inr document"
      "require_payload_size document = Inr ()"
      "payload_digest (env_jcs env) (payload_handler env) p = Inr digest" "payload_kind p = job_kind j"
      and new: "job_id j \<notin> pr_job_id ` set (job_payloads_table db)"
      and db': "db' = db\<lparr>jobs_table := jobs_table db @ [\<lparr>row_job = j, row_version = 0\<rparr>],
        job_payloads_table := job_payloads_table db @ [\<lparr>pr_job_id = job_id j, pr_digest = digest,
          pr_document = document, pr_created_at = job_created_at j\<rparr>]\<rparr>"
    have "List.find (\<lambda>r. pr_job_id r = job_id j) (job_payloads_table db) = None"
      using new by (force simp: find_None_all)
    then have "job_loads env db' j"
      using ok db' by (intro fresh_payload_loads[OF _ _ doc(1-4)]) (auto simp: find_app)
    moreover have "job_loads env db' (row_job r)" if "r \<in> set (jobs_table db)" for r
      using read that db' load_job_payload_stable[OF _ frozen_refl, of env db "row_job r" db']
      by (simp add: readable_def)
    ultimately show ?thesis using read db' by (auto simp: readable_def)
  qed
next
  case False
  have "db' = db"
    using op False unfolding begin_job_def
    by (auto simp: result_simps split: sum.splits if_splits prod.splits)
  with read show ?thesis by simp
qed

lemma execute_readable:
  assumes "readable env db" "db_inv db" "instance_ok env c"
  shows "readable env (execute env c db)"
proof (cases "\<exists>j p. c = Submit j p")
  case True
  then obtain j p where c: "c = Submit j p" by blast
  show ?thesis
  proof (cases "submit_record env j p db")
    case (Inl e)
    with assms(1) c show ?thesis by (simp add: after_def)
  next
    case (Inr x)
    obtain j' fresh db' where x: "x = ((j', fresh), db')" by (metis prod.exhaust)
    with Inr have "begin_job env j p db = Inr ((j', fresh), db')"
      by (auto simp: submit_record_def result_simps validate_job_record_Inr)
    from readable_submit[OF assms(1,2) _ this] assms(3) c Inr x show ?thesis by (simp add: after_def)
  qed
next
  case False
  with execute_grown[OF assms(3)] readable_grown[OF assms(1,2) execute_steps[OF assms(2)]]
  show ?thesis by blast
qed

lemma readable_empty: "readable env empty_db"
  by (simp add: readable_def empty_db_def)

lemma history_readable_from:
  "readable env db \<Longrightarrow> db_inv db \<Longrightarrow> \<forall>c \<in> set cs. instance_ok env c \<Longrightarrow> readable env (history env cs db)"
proof (induction cs arbitrary: db)
  case (Cons c cs)
  have "db_inv (execute env c db)" using execute_steps[OF Cons.prems(2)] store_steps_inv Cons.prems(2) by blast
  with Cons.IH[of "execute env c db"] execute_readable[of env db c] Cons.prems show ?case
    by (simp add: history_def)
qed (simp add: history_def)

end
