(* ===== verification/ServiceFacts.thy ===== *)
theory ServiceFacts
  imports Service Readback
begin

text \<open>
  What a submission does: the four submissions as one type, the replay branch, the fresh branch
  with its pinned payload, and the exceptions that may escape. The operations of the service
  are clients of the store.
\<close>

section \<open>The four submissions\<close>

datatype submission =
    RunSubmission run_submission
  | ComparisonSubmission comparison_submission
  | SuiteRunSubmission suite_run_submission
  | SuiteComparisonSubmission suite_comparison_submission

fun submission_kind :: "submission \<Rightarrow> job_kind" where
  "submission_kind (RunSubmission x) = RUN_JOB"
| "submission_kind (ComparisonSubmission x) = COMPARISON_JOB"
| "submission_kind (SuiteRunSubmission x) = RUN_JOB"
| "submission_kind (SuiteComparisonSubmission x) = COMPARISON_JOB"

fun submission_key :: "submission \<Rightarrow> string" where
  "submission_key (RunSubmission x) = rs_key x"
| "submission_key (ComparisonSubmission x) = cs_key x"
| "submission_key (SuiteRunSubmission x) = srs_key x"
| "submission_key (SuiteComparisonSubmission x) = scs_key x"

fun submission_trace :: "submission \<Rightarrow> string option" where
  "submission_trace (RunSubmission x) = rs_traceparent x"
| "submission_trace (ComparisonSubmission x) = cs_traceparent x"
| "submission_trace (SuiteRunSubmission x) = srs_traceparent x"
| "submission_trace (SuiteComparisonSubmission x) = scs_traceparent x"

fun submission_record :: "service \<Rightarrow> submission \<Rightarrow> json" where
  "submission_record s (RunSubmission x) = run_digest_record x"
| "submission_record s (ComparisonSubmission x) = comparison_digest_record (dump_spec s) x"
| "submission_record s (SuiteRunSubmission x) = suite_run_digest_record x"
| "submission_record s (SuiteComparisonSubmission x) = suite_comparison_digest_record x"

fun pin :: "service \<Rightarrow> submission \<Rightarrow> job_payload act" where
  "pin s (RunSubmission x) = pin_run s x"
| "pin s (ComparisonSubmission x) = pin_comparison s x"
| "pin s (SuiteRunSubmission x) = pin_suite_run s x"
| "pin s (SuiteComparisonSubmission x) = pin_suite_comparison s x"

fun submit_any :: "service \<Rightarrow> submission \<Rightarrow> submission_result act" where
  "submit_any s (RunSubmission x) = submit_run s x"
| "submit_any s (ComparisonSubmission x) = submit_comparison s x"
| "submit_any s (SuiteRunSubmission x) = submit_suite_run s x"
| "submit_any s (SuiteComparisonSubmission x) = submit_suite_comparison s x"

lemma submit_any_eq: "submit_any s x = submit s (submission_kind x) (submission_key x)
    (submission_record s x) (submission_trace x) (pin s x)"
  by (cases x) (simp_all add: submit_run_def submit_comparison_def submit_suite_run_def
    submit_suite_comparison_def)

section \<open>Clients of the store\<close>

lemma advances_prod [advances_intros]:
  "(\<And>a b. advances (f a b)) \<Longrightarrow> advances (case p of (a, b) \<Rightarrow> f a b)"
  by (cases p) simp

lemma advances_pin [advances_intros]: "advances (pin s x)"
proof (cases x)
  case (RunSubmission r)
  show ?thesis unfolding RunSubmission pin.simps pin_run_def by (intro advances_intros)
next
  case (ComparisonSubmission c)
  show ?thesis unfolding ComparisonSubmission pin.simps pin_comparison_def
    by (intro advances_acatch advances_intros)
      (auto simp: comparison_errors_def intro: advances_intros split: if_splits)
next
  case (SuiteRunSubmission r)
  show ?thesis unfolding SuiteRunSubmission pin.simps pin_suite_run_def by (intro advances_intros)
next
  case (SuiteComparisonSubmission c)
  show ?thesis unfolding SuiteComparisonSubmission pin.simps pin_suite_comparison_def
    by (intro advances_intros)
qed

interpretation submit_client: client_action "submit_any s x" for s x
  by unfold_locales (simp add: submit_any_eq advances_submit advances_pin)

interpretation register_dataset_client: client_action "register_dataset s d" for s d
  by unfold_locales (unfold register_dataset_def, intro advances_intros)

interpretation register_suite_client: client_action "register_suite s x" for s x
proof unfold_locales
  show "advances (register_suite s x)"
    unfolding register_suite_def
    by (intro advances_abind advances_acatch)
      (auto intro!: advances_intros split: if_splits option.split)
qed

interpretation cancel_client: client_action "service_cancel_job s jid" for s jid
  by unfold_locales
    (unfold service_cancel_job_def, intro advances_acatch advances_intros,
      auto intro: advances_intros split: if_splits)

section \<open>Replay\<close>

lemma find_idempotent:
  assumes "db_inv db" "row \<in> set (jobs_table db)" "idempotency_index row = (kind, key)"
  shows "List.find (\<lambda>r. job_kind (row_job r) = kind \<and> idempotency_key (row_job r) = key) (jobs_table db)
    = Some row"
proof (rule find_unique)
  show "row \<in> set (jobs_table db)" by (rule assms(2))
  show "job_kind (row_job row) = kind \<and> idempotency_key (row_job row) = key"
    using assms(3) by (simp add: idempotency_index_def)
  fix y assume y: "y \<in> set (jobs_table db)" "job_kind (row_job y) = kind \<and> idempotency_key (row_job y) = key"
  have "distinct (map idempotency_index (jobs_table db))"
    using assms(1) by (simp add: db_inv_def jobs_constraints_def)
  from distinct_map_eq[OF this y(1) assms(2)] y(2) assms(3) show "y = row"
    by (simp add: idempotency_index_def)
qed

lemma load_not_required:
  "load_job_payload e db j True = Inr (Some p) \<Longrightarrow> load_job_payload e db j b = Inr (Some p)"
  by (cases "List.find (\<lambda>r. pr_job_id r = job_id j) (job_payloads_table db)")
    (simp_all add: load_job_payload_def)

lemma get_job_by_idempotency_found:
  assumes "db_inv db" "readable e db" "row \<in> set (jobs_table db)" "idempotency_index row = (kind, key)"
  shows "get_job_by_idempotency e db kind key = Inr (row_job row)"
proof -
  have "valid_job (row_job row)" using db_inv_job[OF assms(1,3)] by (simp add: job_row_inv_def)
  then have "job_record_of row = Inr (row_job row)" by (simp add: job_record_of_Inr)
  moreover from assms(2,3) have "job_loads e db (row_job row)" by (simp add: readable_def)
  then obtain p where "load_job_payload e db (row_job row) True = Inr (Some p)"
    unfolding job_loads_def by blast
  from load_not_required[OF this]
  have "load_job_payload e db (row_job row) b = Inr (Some p)" for b .
  ultimately show ?thesis
    by (simp add: get_job_by_idempotency_def get_job_where_def find_idempotent[OF assms(1,3,4)])
qed

lemma get_job_by_idempotency_missing:
  assumes "\<And>r. r \<in> set (jobs_table db) \<Longrightarrow> idempotency_index r \<noteq> (kind, key)"
  shows "get_job_by_idempotency e db kind key = Inl job_not_found"
proof -
  have "List.find (\<lambda>r. job_kind (row_job r) = kind \<and> idempotency_key (row_job r) = key) (jobs_table db) = None"
    using assms unfolding find_None_all idempotency_index_def by blast
  then show ?thesis by (simp add: get_job_by_idempotency_def get_job_where_def)
qed

lemma get_job_by_idempotency_Inr:
  assumes "get_job_by_idempotency e db kind key = Inr j"
  obtains row where "row \<in> set (jobs_table db)" "j = row_job row" "idempotency_index row = (kind, key)"
proof -
  from assms obtain row where
    f: "List.find (\<lambda>r. job_kind (row_job r) = kind \<and> idempotency_key (row_job r) = key) (jobs_table db) = Some row"
    and j: "job_record_of row = Inr j"
    by (auto simp: get_job_by_idempotency_def get_job_where_def result_simps)
  from find_Some_mem[OF f] j that show thesis by (auto simp: job_record_of_Inr idempotency_index_def)
qed

section \<open>The fresh branch\<close>

lemma idempotent_replay_Inr:
  assumes "idempotent_replay s kind key digest w = (Inr r, w')"
  shows "w' = \<lparr>store = met (repository s) w, calls = Suc (calls w)\<rparr>"
    "r = Some x \<Longrightarrow> \<exists>row \<in> set (jobs_table (met (repository s) w)).
       idempotency_index row = (kind, key) \<and> request_digest (row_job row) = digest \<and>
       x = \<lparr>result_job = row_job row, result_created = False\<rparr>"
proof -
  let ?q = "query (repository s) (\<lambda>db. get_job_by_idempotency (config_of s) db kind key)"
  obtain m w1 where q: "?q w = (m, w1)" by (cases "?q w")
  have w1: "w1 = \<lparr>store = met (repository s) w, calls = Suc (calls w)\<rparr>" using q query_world[of "repository s" _ w] by (metis snd_conv)
  show "w' = \<lparr>store = met (repository s) w, calls = Suc (calls w)\<rparr>"
    using assms q w1 by (cases m) (auto simp: idempotent_replay_def abind_def acatch_def split: if_splits)
  assume r: "r = Some x"
  show "\<exists>row \<in> set (jobs_table (met (repository s) w)).
       idempotency_index row = (kind, key) \<and> request_digest (row_job row) = digest \<and>
       x = \<lparr>result_job = row_job row, result_created = False\<rparr>"
  proof (cases m)
    case (Inl e)
    with assms q r show ?thesis
      by (auto simp: idempotent_replay_def abind_def acatch_def split: if_splits)
  next
    case (Inr j)
    with assms q r have j: "request_digest j = digest" "x = \<lparr>result_job = j, result_created = False\<rparr>"
      by (auto simp: idempotent_replay_def abind_def acatch_def split: if_splits)
    from q Inr have "get_job_by_idempotency (config_of s) (met (repository s) w) kind key = Inr j"
      by (simp add: query_Inr)
    then show ?thesis by (rule get_job_by_idempotency_Inr) (use j in auto)
  qed
qed

lemma invalid_Inr [simp]: "invalid m r = Inr x \<longleftrightarrow> r = Inr x"
  by (cases r) auto

lemma submit_replayed:
  assumes "delivery (repository s) (calls w) = Delivered"
    "get_job_by_idempotency (config_of s) (met (repository s) w) (submission_kind x) (submission_key x) = Inr j"
    "sha256_digest (env_jcs (config_of s)) (submission_record s x) = Inr digest"
  shows "submit_any s x w =
    (if request_digest j = digest then Inr \<lparr>result_job = j, result_created = False\<rparr>
     else Inl (IdempotencyConflictError ''Idempotency key was used for a different request''),
     \<lparr>store = met (repository s) w, calls = Suc (calls w)\<rparr>)"
proof -
  have "query (repository s) (\<lambda>db. get_job_by_idempotency (config_of s) db (submission_kind x) (submission_key x)) w
      = (Inr j, \<lparr>store = met (repository s) w, calls = Suc (calls w)\<rparr>)"
    using assms(1,2) by (simp add: query_Inr)
  then show ?thesis
    using assms(3) by (simp add: submit_any_eq submit_def idempotent_replay_def abind_def acatch_def)
qed

lemma enqueue_job_Inr:
  assumes "enqueue_job s payload key digest trace w = (Inr r, w')"
  obtains proposed where "propose_job s (payload_kind payload) key digest trace = Inr proposed"
    "begin_job (config_of s) proposed payload (met (repository s) w) =
       Inr ((result_job r, result_created r), store w')"
proof -
  from assms obtain proposed j created where
    p: "propose_job s (payload_kind payload) key digest trace = Inr proposed"
    and c: "acatch begin_errors (call (repository s) (\<lambda>_. begin_job (config_of s) proposed payload)) w =
      (Inr (j, created), w')" and r: "r = \<lparr>result_job = j, result_created = created\<rparr>"
    by (auto simp: enqueue_job_def act_iffs)
  from c have "call (repository s) (\<lambda>_. begin_job (config_of s) proposed payload) w = (Inr (j, created), w')"
    by (auto simp: acatch_Inr_iff begin_errors_def split: if_splits)
  with p r that show thesis by (simp add: call_Inr)
qed

lemma submit_fresh:
  assumes "submit_any s x w = (Inr r, w')" "result_created r"
  obtains digest payload proposed w1 where
    "sha256_digest (env_jcs (config_of s)) (submission_record s x) = Inr digest"
    "pin s x \<lparr>store = met (repository s) w, calls = Suc (calls w)\<rparr> = (Inr payload, w1)"
    "propose_job s (payload_kind payload) (submission_key x) digest (submission_trace x) = Inr proposed"
    "begin_job (config_of s) proposed payload (met (repository s) w1) = Inr ((result_job r, True), store w')"
proof -
  from assms(1) obtain digest replay w0 where
    d: "sha256_digest (env_jcs (config_of s)) (submission_record s x) = Inr digest"
    and rp: "idempotent_replay s (submission_kind x) (submission_key x) digest w = (Inr replay, w0)"
    and rest: "(case replay of Some r \<Rightarrow> areturn r | None \<Rightarrow> abind (pin s x)
      (\<lambda>payload. enqueue_job s payload (submission_key x) digest (submission_trace x))) w0 = (Inr r, w')"
    by (auto simp: submit_any_eq submit_def act_iffs)
  have w0: "w0 = \<lparr>store = met (repository s) w, calls = Suc (calls w)\<rparr>"
    by (rule idempotent_replay_Inr(1)[OF rp])
  have "replay = None"
  proof (cases replay)
    case (Some y)
    with rest have "y = r" by simp
    with idempotent_replay_Inr(2)[OF rp Some] assms(2) show ?thesis by auto
  qed
  with rest obtain payload w1 where
    p: "pin s x w0 = (Inr payload, w1)"
    and e: "enqueue_job s payload (submission_key x) digest (submission_trace x) w1 = (Inr r, w')"
    by (auto simp: act_iffs)
  from e show thesis
    by (rule enqueue_job_Inr) (use that d p w0 assms(2) in auto)
qed

end
