(* ===== verification/BoundedWork.thy ===== *)
theory BoundedWork
  imports Contracts ReleaseExample
begin

text \<open>
  The service limits bound the work and the size of a comparison: what \<open>validate_comparison_inputs\<close>
  accepts leads to a decision with at most 64 gates and 50,000 case comparisons, from at most
  32 metrics and 2,000,000 recomputed outcomes per side.
\<close>

lemma sum_list_of_bool: "sum_list (map (\<lambda>x. of_bool (p x)) xs) = length (filter p xs)"
  by (induction xs) auto

lemma case_records_scope:
  "case_records d gs = sum_list (map (\<lambda>g. length (filter (in_slice (gate_slice g)) (dataset_cases d))) gs)"
proof -
  have "(case gate_slice g of None \<Rightarrow> length (dataset_cases d)
      | Some x \<Rightarrow> sum_list (map (\<lambda>c. of_bool (x \<in> set (case_slices c))) (dataset_cases d))) =
    length (filter (in_slice (gate_slice g)) (dataset_cases d))" for g
  proof (cases "gate_slice g")
    case None
    have "in_slice None = (\<lambda>c. True)" by (simp add: fun_eq_iff in_slice_def)
    with None show ?thesis by simp
  next
    case (Some x)
    have "in_slice (Some x) = (\<lambda>c. x \<in> set (case_slices c))" by (simp add: fun_eq_iff in_slice_def)
    with Some show ?thesis by (simp only: option.case sum_list_of_bool)
  qed
  then show ?thesis
    unfolding case_records_def by (intro arg_cong[where f = sum_list] map_cong[OF refl])
qed

lemma compare_gate_length:
  assumes "compare_gate cases bi ci index g = Inr (result, comparisons)"
  shows "length comparisons = length (filter (in_slice (gate_slice g)) cases)"
proof -
  let ?f = "\<lambda>c. rbind (lookup_case bi c) (\<lambda>b. rbind (lookup_case ci c) (\<lambda>v.
    compare_case c g (case_value b (gate_metric g)) (case_value v (gate_metric g))))"
  from assms obtain sel where "cases_in_scope cases (gate_slice g) = Inr sel" "rmap ?f sel = Inr comparisons"
    unfolding compare_gate_def by (elim rbind_Inr_iff[THEN iffD1, elim_format] exE conjE) simp
  with rmap_Inr_length[OF this(2)] show ?thesis by (simp add: cases_in_scope_Inr)
qed

lemma compared_cases_length:
  assumes "rmap (compare_gate (dataset_cases d) bi ci index) gs = Inr gated"
  shows "length (concat (map snd gated)) = case_records d gs"
  using assms
proof (induction gs arbitrary: gated)
  case (Cons g gs)
  from Cons.prems obtain r cmp rest where g: "compare_gate (dataset_cases d) bi ci index g = Inr (r, cmp)"
    and rest: "rmap (compare_gate (dataset_cases d) bi ci index) gs = Inr rest" "gated = (r, cmp) # rest"
    by (auto simp: result_simps)
  show ?case
    using Cons.IH[OF rest(1)] rest(2) compare_gate_length[OF g]
    by (simp add: case_records_scope)
qed (simp add: case_records_def)

text \<open>One outcome per metric, scope and case of the scope.\<close>

definition outcomes :: "aggregate_comparison list \<Rightarrow> int" where
  "outcomes aggregates = sum_list (map (\<lambda>a. agg_attempted (ac_baseline a)) aggregates)"

lemma outcomes_append: "outcomes (xs @ ys) = outcomes xs + outcomes ys"
  by (simp add: outcomes_def)

lemma compare_aggregate_attempted:
  assumes "same_cases d b" "same_cases d c"
    "compare_aggregate (dataset_cases d) (case_index_of b) (case_index_of c) m ev scope = Inr a"
  shows "agg_attempted (ac_baseline a) \<le> int (length (dataset_cases d))"
proof -
  from aggregate_values_Inr(2)[OF compare_aggregate_Inr(4)[OF assms]]
  have "agg_attempted (ac_baseline a) = int (length (evidence d b m scope))" .
  moreover have "length (evidence d b m scope) \<le> length (zip (dataset_cases d) (run_cases b))"
    by (simp add: evidence_def del: length_zip)
  ultimately show ?thesis by simp
qed

lemma outcomes_bound:
  "\<forall>a \<in> set as. agg_attempted (ac_baseline a) \<le> int n \<Longrightarrow> outcomes as \<le> int (length as * n)"
  by (induction as) (auto simp: outcomes_def algebra_simps)

lemma length_all_slices: "length (all_slices (dataset_cases d)) = card (dataset_slices d) + 1"
proof -
  have "set (concat (map case_slices (dataset_cases d))) = dataset_slices d"
    by (simp add: dataset_slices_def)
  then show ?thesis by (simp add: all_slices_def length_remdups_card_conv del: set_concat)
qed

lemma compared_outcomes:
  assumes same: "same_cases d b" "same_cases d c"
    and op: "rmap (compare_metric (dataset_cases d) (case_index_of b) (case_index_of c) bms cms) ms = Inr nested"
  shows "outcomes (concat nested) \<le> int (length ms * (card (dataset_slices d) + 1) * length (dataset_cases d))"
  using op
proof (induction ms arbitrary: nested)
  case (Cons m ms)
  from Cons.prems obtain as rest where
    m: "compare_metric (dataset_cases d) (case_index_of b) (case_index_of c) bms cms m = Inr as"
    and rest: "rmap (compare_metric (dataset_cases d) (case_index_of b) (case_index_of c) bms cms) ms = Inr rest"
      "nested = as # rest"
    by (auto simp: result_simps)
  from m obtain ev where as: "rmap (compare_aggregate (dataset_cases d) (case_index_of b) (case_index_of c) m ev)
      (all_slices (dataset_cases d)) = Inr as"
    by (rule compare_metric_Inr)
  have "\<forall>a \<in> set as. agg_attempted (ac_baseline a) \<le> int (length (dataset_cases d))"
    using rmap_Inr_mem[OF as] compare_aggregate_attempted[OF same] by blast
  from outcomes_bound[OF this] rmap_Inr_length[OF as] length_all_slices[of d]
  have "outcomes as \<le> int ((card (dataset_slices d) + 1) * length (dataset_cases d))" by simp
  with Cons.IH[OF rest(1)] rest(2) show ?case by (simp add: outcomes_append algebra_simps)
qed (simp add: outcomes_def)

lemma compared_sizes:
  assumes "validate_dataset jcs d = Inr d" "compare_runs jcs spec d b c s = Inr dec"
  shows "length (decision_gates dec) = length (spec_gates spec)"
    "length (decision_cases dec) = case_records d (spec_gates spec)"
    "outcomes (decision_aggregates dec) \<le> int (aggregate_work d b)"
proof -
  note same = compared(1,2)[OF assms]
  have "length (decision_gates dec) = length (spec_gates spec) \<and>
    length (decision_cases dec) = case_records d (spec_gates spec) \<and>
    outcomes (decision_aggregates dec) \<le> int (aggregate_work d b)"
  proof (rule compare_runs_Inr[OF assms(2)])
    fix bms cms nested gated ub uc
    assume bms: "metric_references b = Inr bms"
      and nested: "rmap (compare_metric (dataset_cases d) (case_index_of b) (case_index_of c) bms cms)
        (sort (map fst bms)) = Inr nested"
      and gated: "rmap (compare_gate (dataset_cases d) (case_index_of b) (case_index_of c)
        (aggregate_index (concat nested))) (spec_gates spec) = Inr gated"
      and made: "create_decision jcs (draft_decision spec d b c s (concat nested) gated) = Inr dec"
    note F = created_decision_fields(1-3)[OF made, unfolded draft_decision_def release_decision.select_convs]
    have "outcomes (sort_key aggregate_key xs) = outcomes xs" for xs
      by (simp only: outcomes_def flip: sum_mset_sum_list) (simp only: mset_map mset_sort)
    then have "outcomes (decision_aggregates dec) = outcomes (concat nested)" unfolding F(1) .
    also have "\<dots> \<le> int (aggregate_work d b)"
      using compared_outcomes[OF same nested] metric_references_Inr(1)[OF bms]
      by (simp add: aggregate_work_def)
    finally show ?thesis
      using rmap_Inr_length[OF gated] compared_cases_length[OF gated]
      unfolding F(2,3) length_sort length_map by blast
  qed
  then show "length (decision_gates dec) = length (spec_gates spec)"
    "length (decision_cases dec) = case_records d (spec_gates spec)"
    "outcomes (decision_aggregates dec) \<le> int (aggregate_work d b)" by blast+
qed


lemma demo_inputs_accepted:
  "validate_comparison_inputs ''ds'' 1 ''b1'' ''c1'' demo_spec \<lparr>dataset = demo_dataset, dataset_created_at = 0\<rparr>
     \<lparr>run_evidence = demo_run ''b1'' ''old'', run_created_at = 0\<rparr>
     \<lparr>run_evidence = demo_run ''c1'' ''new'', run_created_at = 0\<rparr> None = Inr ()"
proof -
  have "dataset_slices demo_dataset = {}" by (simp add: dataset_slices_def)
  then show ?thesis
    by (simp add: validate_comparison_inputs_def Let_def validate_dataset_bounds_def aggregate_work_def
        case_records_def demo_spec_def demo_gate_def) (simp add: demo_dataset_def)
qed


end
