(* ===== verification/ServiceExample.thy ===== *)
theory ServiceExample
  imports ServiceFacts BoundedWork QueueExample
begin

text \<open>
  A concrete deployment: the dataset and the two runs of the demonstration comparison, put into an
  empty store through the repository, and a service that accepts their comparison. The serialiser
  writes a string as itself and every other value as the empty document; the codecs name a record
  by its identifier.
\<close>

definition named_jcs :: jcs where
  "named_jcs v = (case v of JStr s \<Rightarrow> Some s | _ \<Rightarrow> Some [])"

definition named_codec :: "('m \<Rightarrow> string) \<Rightarrow> (string \<Rightarrow> 'm) \<Rightarrow> 'm codec" where
  "named_codec name model =
     \<lparr>dump_model = \<lambda>m. JStr (name m),
      read_model = \<lambda>v. case v of JStr s \<Rightarrow> Some (model s) | _ \<Rightarrow> None\<rparr>"

definition demo_run_named :: "string \<Rightarrow> run_result" where
  "demo_run_named i = (if i = ''b1'' then demo_run i ''old'' else demo_run i ''new'')"

definition demo_submission :: comparison_submission where
  "demo_submission = \<lparr>cs_key = ''key'', cs_dataset_name = ''ds'', cs_dataset_revision = 1,
     cs_baseline_run_id = ''b1'', cs_candidate_run_id = ''c1'', cs_spec = demo_spec, cs_traceparent = None\<rparr>"

definition demo_record :: "string \<Rightarrow> run_record" where
  "demo_record i = \<lparr>run_evidence = demo_run_named i, run_created_at = 0\<rparr>"

definition demo_dataset_record :: dataset_record where
  "demo_dataset_record = \<lparr>dataset = demo_dataset, dataset_created_at = 0\<rparr>"

definition demo_payload :: job_payload where
  "demo_payload = ComparisonPayload
     (comparison_payload_for None (dataset_ref demo_dataset) (demo_record ''b1'') (demo_record ''c1'') demo_spec)"

definition demo_config :: store_config where
  "demo_config = \<lparr>env_jcs = named_jcs, env_parse = \<lambda>b. Some (JStr b),
     dataset_codec = named_codec dataset_name (\<lambda>_. demo_dataset),
     suite_codec = blank_codec, run_codec = named_codec run_id demo_run_named,
     decision_codec = blank_codec, payload_handler = \<lambda>_. [],
     payload_reader = \<lambda>_. Some demo_payload, max_document_bytes = 1000, postgresql = True\<rparr>"

definition demo_history :: "command list" where
  "demo_history = [PutDataset demo_dataset_record, PutRun (demo_record ''b1''), PutRun (demo_record ''c1'')]"

definition demo_db :: db where
  "demo_db = empty_db\<lparr>datasets_table := [dataset_row_of demo_dataset_record ''ds''],
     runs_table := [run_row_of (demo_record ''b1'') ''b1'' (0, 0), run_row_of (demo_record ''c1'') ''c1'' (0, 0)]\<rparr>"

section \<open>The records of the demonstration are valid\<close>

lemma demo_config_simps [simp]:
  "env_jcs demo_config = named_jcs" "env_parse demo_config = (\<lambda>b. Some (JStr b))"
  "payload_handler demo_config = (\<lambda>_. [])" "payload_reader demo_config = (\<lambda>_. Some demo_payload)"
  "postgresql demo_config" "max_document_bytes demo_config = 1000"
  "run_codec demo_config = named_codec run_id demo_run_named"
  "dataset_codec demo_config = named_codec dataset_name (\<lambda>_. demo_dataset)"
  "named_jcs (JStr s) = Some s" "named_jcs (JObj o') = Some []"
  "dump_model (named_codec n f) m = JStr (n m)" "read_model (named_codec n f) (JStr s) = Some (f s)"
  by (simp_all add: demo_config_def named_jcs_def named_codec_def)

lemma named_sha256: "sha256_digest named_jcs (JObj o') = Inr demo_digest"
  by (simp add: sha256_digest_def canonical_json_bytes_def demo_digest_def)

lemma named_dataset_valid: "validate_dataset named_jcs demo_dataset = Inr demo_dataset"
proof -
  have "calculate_dataset_digest named_jcs cs = calculate_dataset_digest demo_jcs cs" for cs
    by (simp add: calculate_dataset_digest_def demo_sha256 dataset_content_def named_sha256 Let_def)
  with demo_dataset_valid show ?thesis by (simp add: validate_dataset_def cong del: rbind_weak_cong)
qed

lemma demo_run_named_fields [simp]:
  "run_id (demo_run_named i) = i" "result_digest (demo_run_named i) = demo_digest"
  "run_cases (demo_run_named i) = [demo_result]" "run_suite (demo_run_named i) = None"
  "run_dataset (demo_run_named i) = dataset_ref demo_dataset"
  by (simp_all add: demo_run_named_def demo_run_def demo_result_def)

lemma demo_run_valid:
  "i \<in> {''b1'', ''c1''} \<Longrightarrow> validate_run named_jcs (demo_run_named i) = Inr (demo_run_named i)"
proof -
  assume i: "i \<in> {''b1'', ''c1''}"
  have "check_run_result (demo_run_named i) = Inr (demo_run_named i)"
    using i
    by (auto simp: check_run_result_def demo_run_named_def result_simps demo_names unresolved_def)
       (simp_all add: demo_run_def demo_evaluator_def demo_ref_def dataset_ref_def unresolved_def
         expected_run_status_def run_has_failures_def demo_result_def result_simps demo_dataset_def
         has_duplicates_def out_of_order_def)
  moreover have "calculate_run_digest named_jcs r = Inr demo_digest" for r
    by (simp add: calculate_run_digest_def run_content_def named_sha256 Let_def split: option.split)
  ultimately show ?thesis by (simp add: validate_run_def)
qed


lemma demo_usage: "run_usage (demo_run_named i) = Inr (0, 0)"
  by (simp add: run_usage_def demo_result_def demo_target_def map_filter_simps result_simps Let_def)

lemma demo_texts:
  "model_text demo_config (named_codec run_id demo_run_named) (demo_run_named i) = Inr i"
  "model_text demo_config (named_codec dataset_name (\<lambda>_. demo_dataset)) demo_dataset = Inr ''ds''"
  by (simp_all add: model_text_def canonical_json_bytes_def demo_dataset_def)

lemma demo_instances: "\<forall>c \<in> set demo_history. instance_ok demo_config c"
proof -
  have "canonical_json_bytes named_jcs (JStr s) = Inr s" for s
    by (simp add: canonical_json_bytes_def)
  then show ?thesis
    using named_dataset_valid demo_run_valid
    by (simp add: demo_history_def demo_dataset_record_def demo_record_def reads_back_def demo_texts)
qed

lemma demo_digest_length: "length demo_digest = 71"
  using demo_digest_shape by (simp add: is_sha256_digest_def)

lemma demo_dataset_fields [simp]:
  "dataset_name demo_dataset = ''ds''" "dataset_revision demo_dataset = 1"
  "dataset_digest demo_dataset = demo_digest"
  by (simp_all add: demo_dataset_def)

lemma demo_put_run:
  assumes "datasets_table db = [dataset_row_of demo_dataset_record ''ds'']" "i \<notin> rr_run_id ` set (runs_table db)"
    "length i \<le> 1000"
  shows "put_run demo_config (demo_record i) db = Inr (demo_record i,
    db\<lparr>runs_table := runs_table db @ [run_row_of (demo_record i) i (0, 0)]\<rparr>)"
  using assms
  by (simp add: put_run_def prepare_run_def demo_record_def demo_texts require_document_size_def demo_usage
      insert_run_def run_row_of_def run_row_ok_def history_constraint_def run_history_values_def
      history_values_def history_absent_def has_dataset_def demo_digest_length Let_def dataset_row_of_def
      demo_dataset_record_def dataset_ref_def)

lemma demo_db_history: "history demo_config demo_history empty_db = demo_db"
proof -
  let ?db = "empty_db\<lparr>datasets_table := [dataset_row_of demo_dataset_record ''ds'']\<rparr>"
  have "put_dataset demo_config demo_dataset_record empty_db = Inr (demo_dataset_record, ?db)"
    by (simp add: put_dataset_def demo_dataset_record_def demo_texts require_document_size_def
        insert_dataset_def dataset_row_of_def dataset_row_ok_def demo_digest_length empty_db_def)
  then show ?thesis
    using demo_put_run[of ?db "''b1''"]
      demo_put_run[of "?db\<lparr>runs_table := [run_row_of (demo_record ''b1'') ''b1'' (0, 0)]\<rparr>" "''c1''"]
    by (simp add: history_def demo_history_def after_def demo_db_def empty_db_def run_row_of_def
        demo_record_def Let_def)
qed

lemma demo_readable: "readable demo_config demo_db" "db_inv demo_db"
  using history_readable_from[OF readable_empty db_inv_empty demo_instances]
    history_inv[OF db_inv_empty, of demo_config demo_history]
  unfolding demo_db_history by blast+


section \<open>The submission\<close>

definition demo_session :: session where
  "demo_session = \<lparr>config = demo_config, others = \<lambda>_. [], statement_clock = \<lambda>_ _. 5,
     locked_rows = \<lambda>_ _. False, delivery = \<lambda>_. Delivered\<rparr>"

definition refusing_executor :: executor where
  "refusing_executor = \<lparr>executor_validate = \<lambda>_ _ _ _ _. Inl TransientExecutionError,
     executor_validate_suite = \<lambda>_ _. Inl TransientExecutionError,
     executor_execute = \<lambda>_ _ _ _ _ _ _. Inl TransientExecutionError,
     executor_execute_suite = \<lambda>_ _ _ _ _ _. Inl TransientExecutionError\<rparr>"

definition demo_service :: service where
  "demo_service = \<lparr>repository = demo_session, service_executor = refusing_executor,
     service_clock = Aware 0 0, new_identifier = (\<lambda>prefix. prefix @ ''-1''), service_max_attempts = 3,
     dump_spec = \<lambda>_. JNull\<rparr>"

definition demo_job :: job_record where
  "demo_job = \<lparr>job_id = ''job-1'', job_kind = COMPARISON_JOB, job_status = QUEUED,
     idempotency_key = ''key'', request_digest = demo_digest, resource_id = ''decision-1'', attempt_count = 0,
     max_attempts = 3, available_at = 0, job_error_code = None, job_created_at = 0, job_updated_at = 0,
     traceparent = None\<rparr>"

definition demo_job_db :: db where
  "demo_job_db = demo_db\<lparr>jobs_table := [\<lparr>row_job = demo_job, row_version = 0\<rparr>],
     job_payloads_table := [\<lparr>pr_job_id = ''job-1'', pr_digest = demo_digest, pr_document = [], pr_created_at = 0\<rparr>]\<rparr>"

lemma demo_simps [simp]:
  "repository demo_service = demo_session" "config demo_session = demo_config"
  "others demo_session = (\<lambda>_. [])" "delivery demo_session = (\<lambda>_. Delivered)"
  "dump_spec demo_service = (\<lambda>_. JNull)"
  by (simp_all add: demo_service_def demo_session_def)

lemma demo_query: "f (store w) = Inr x \<Longrightarrow>
   query demo_session f w = (Inr x, \<lparr>store = store w, calls = Suc (calls w)\<rparr>)"
  by (simp add: query_Inr met_def history_def)

lemma demo_call: "operation (calls w) (store w) = Inr (x, db') \<Longrightarrow>
   call demo_session operation w = (Inr x, \<lparr>store = db', calls = Suc (calls w)\<rparr>)"
  by (simp add: call_Inr met_def history_def)

lemma demo_stable [simp]: "is_stable_id ''job-1''" "is_stable_id ''decision-1''" "is_stable_id ''key''"
  by (simp_all add: is_stable_id_def matches_def is_alnum_def is_alpha_def is_lower_def is_digit_def
      less_eq_char_def)

lemma demo_proposed: "propose_job demo_service COMPARISON_JOB ''key'' demo_digest None = Inr demo_job"
proof -
  have "valid_job demo_job"
    by (simp add: valid_job_def job_fields_ok_def validate_state_ok_iff demo_job_def)
  then have "validate_job_record demo_job = Inr demo_job" by (simp add: validate_job_record_Inr)
  then show ?thesis
    by (simp add: propose_job_def timestamp_field_def utc_def demo_service_def demo_job_def)
qed

lemma demo_reads:
  "get_dataset demo_config demo_db ''ds'' 1 = Inr demo_dataset_record"
  "get_run demo_config demo_db ''b1'' = Inr (demo_record ''b1'')"
  "get_run demo_config demo_db ''c1'' = Inr (demo_record ''c1'')"
proof -
  have i: "canonical_json_bytes named_jcs (JStr s) = Inr s" for s by (simp add: canonical_json_bytes_def)
  have d: "instance_ok demo_config (PutDataset demo_dataset_record)"
    and r: "instance_ok demo_config (PutRun (demo_record ''b1''))" "instance_ok demo_config (PutRun (demo_record ''c1''))"
    using demo_instances by (simp_all add: demo_history_def)
  have prep: "prepare_run demo_config (demo_record i) = Inr (i, 0, 0)" if "length i \<le> 1000" for i
    using that by (simp add: prepare_run_def demo_record_def demo_texts require_document_size_def demo_usage)
  have "dataset_record_of demo_config (dataset_row_of demo_dataset_record ''ds'') = Inr demo_dataset_record"
    by (rule dataset_row_reads[OF _ _ d]) (simp_all add: demo_dataset_record_def demo_texts require_document_size_def)
  then show "get_dataset demo_config demo_db ''ds'' 1 = Inr demo_dataset_record"
    by (simp add: get_dataset_def demo_db_def) (simp add: dataset_row_of_def demo_dataset_record_def)
  have rows: "rr_run_id (run_row_of (demo_record j) x u) = j" for j x u
    by (simp add: run_row_of_def demo_record_def Let_def)
  show "get_run demo_config demo_db ''b1'' = Inr (demo_record ''b1'')"
    "get_run demo_config demo_db ''c1'' = Inr (demo_record ''c1'')"
    using run_row_reads[OF prep r(1)] run_row_reads[OF prep r(2)]
    by (simp_all add: get_run_def demo_db_def rows)
qed


lemma demo_payload_valid: "validate_payload demo_payload = Inr demo_payload"
  by (simp add: validate_payload_def demo_payload_def validate_comparison_payload_def
      comparison_payload_for_def demo_record_def result_simps demo_names unresolved_def dataset_ref_def
      demo_spec_def)

lemma demo_pinned:
  "pin_comparison demo_service demo_submission \<lparr>store = demo_db, calls = 1\<rparr>
     = (Inr demo_payload, \<lparr>store = demo_db, calls = 4\<rparr>)"
proof -
  have reads:
    "read_dataset demo_service ''ds'' 1 \<lparr>store = demo_db, calls = 1\<rparr>
       = (Inr demo_dataset_record, \<lparr>store = demo_db, calls = 2\<rparr>)"
    "read_run demo_service ''b1'' \<lparr>store = demo_db, calls = 2\<rparr>
       = (Inr (demo_record ''b1''), \<lparr>store = demo_db, calls = 3\<rparr>)"
    "read_run demo_service ''c1'' \<lparr>store = demo_db, calls = 3\<rparr>
       = (Inr (demo_record ''c1''), \<lparr>store = demo_db, calls = 4\<rparr>)"
    by (simp_all add: read_dataset_def read_run_def demo_query demo_reads)
  have inputs: "validate_comparison_inputs ''ds'' 1 ''b1'' ''c1'' demo_spec demo_dataset_record
      (demo_record ''b1'') (demo_record ''c1'') None = Inr ()"
    using demo_inputs_accepted by (simp add: demo_dataset_record_def demo_record_def demo_run_named_def)
  have pay: "ComparisonPayload (comparison_payload_for None (dataset_ref (dataset demo_dataset_record))
      (demo_record ''b1'') (demo_record ''c1'') demo_spec) = demo_payload"
    by (simp add: demo_payload_def demo_dataset_record_def)
  show ?thesis
    using reads
    by (simp add: pin_comparison_def demo_submission_def inputs pay demo_payload_valid)
qed

lemma demo_digest_record:
  "sha256_digest named_jcs (comparison_digest_record (\<lambda>_. JNull) demo_submission) = Inr demo_digest"
  by (simp add: comparison_digest_record_def named_sha256)

lemma demo_begun:
  "begin_job demo_config demo_job demo_payload demo_db = Inr ((demo_job, True), demo_job_db)"
proof -
  have "payload_digest named_jcs h demo_payload = Inr demo_digest" for h
    by (simp add: payload_digest_def serialize_payload_def named_sha256)
  moreover have "canonical_json_bytes named_jcs (serialize_payload h demo_payload) = Inr []" for h
    by (simp add: serialize_payload_def canonical_json_bytes_def)
  moreover have "jobs_constraints [\<lparr>row_job = demo_job, row_version = 0\<rparr>]"
    by (simp add: jobs_constraints_def job_row_ok_def demo_job_def demo_digest_length)
  ultimately show ?thesis
    by (simp add: begin_job_def require_payload_size_def insert_job_def insert_payload_def demo_db_def
        empty_db_def demo_digest_length demo_job_db_def tbind_def Let_def demo_job_def demo_payload_def)
qed

abbreviation demo_world :: "nat \<Rightarrow> world" where
  "demo_world n \<equiv> \<lparr>store = demo_db, calls = n\<rparr>"

abbreviation demo_accepted :: submission_result where
  "demo_accepted \<equiv> \<lparr>result_job = demo_job, result_created = True\<rparr>"

lemma demo_submitted:
  "submit_comparison demo_service demo_submission (demo_world 0)
     = (Inr demo_accepted, \<lparr>store = demo_job_db, calls = 5\<rparr>)"
proof -
  have "get_job_by_idempotency demo_config demo_db COMPARISON_JOB ''key''
      = Inl (RecordNotFoundError ''Job was not found'')"
    by (simp add: get_job_by_idempotency_def get_job_where_def demo_db_def empty_db_def)
  then have "query demo_session (\<lambda>db. get_job_by_idempotency demo_config db COMPARISON_JOB ''key'') (demo_world 0)
      = (Inl (RecordNotFoundError ''Job was not found''), demo_world 1)"
    by (simp add: query_Inl met_def history_def)
  then have replay: "idempotent_replay demo_service COMPARISON_JOB ''key'' demo_digest (demo_world 0)
      = (Inr None, demo_world 1)"
    by (simp add: idempotent_replay_def)
  have begun: "call demo_session (\<lambda>_. begin_job demo_config demo_job demo_payload) (demo_world 4)
      = (Inr (demo_job, True), \<lparr>store = demo_job_db, calls = 5\<rparr>)"
    by (subst demo_call) (simp_all add: demo_begun)
  have kind: "payload_kind demo_payload = COMPARISON_JOB" by (simp add: demo_payload_def)
  have sub: "cs_key demo_submission = ''key''" "cs_traceparent demo_submission = None"
    by (simp_all add: demo_submission_def)
  show ?thesis
    using replay demo_pinned begun
    by (simp add: submit_comparison_def submit_def enqueue_job_def demo_digest_record kind sub demo_proposed)
qed


lemma demo_job_stored: "db_inv demo_job_db" "readable demo_config demo_job_db"
proof -
  have steps: "store_step demo_db demo_job_db"
    using begin_job_Inr(1)[OF demo_begun] demo_proposed propose_job_Inr by (auto simp: submitted_def)
  then show "db_inv demo_job_db" using store_step_inv demo_readable(2) by blast
  have "payload_digest named_jcs h demo_payload = Inr demo_digest" for h
    by (simp add: payload_digest_def serialize_payload_def named_sha256)
  moreover have "payload_kind demo_payload = COMPARISON_JOB" by (simp add: demo_payload_def)
  ultimately have "job_loads demo_config demo_job_db demo_job"
    by (simp add: job_loads_def load_job_payload_def demo_job_db_def demo_job_def require_payload_size_def
        canonical_json_bytes_def demo_payload_valid)
  with demo_readable(1) show "readable demo_config demo_job_db"
    by (simp add: readable_def demo_job_db_def)
qed

end
