(* ===== verification/ServiceProperties.thy ===== *)
theory ServiceProperties
  imports ServiceExample
begin

text \<open>
  The properties of the application service: idempotent submission, the pinned payload of an
  accepted submission, and that what the store holds can always be read.
\<close>

section \<open>Stored evidence is readable\<close>

text \<open>
  C20. Whatever clients commit, in whatever order, every dataset, suite, run, decision and job
  payload of the store decodes again: no reader ever reports a corrupt record in a store that
  its own operations have written.
\<close>

theorem stored_evidence_readable:
  assumes "\<forall>c \<in> set cs. instance_ok env c"
  shows "readable env (history env cs empty_db)"
  by (rule history_readable_from[OF readable_empty db_inv_empty assms])

theorem stored_evidence_readable_witness: "readable demo_config (history demo_config demo_history empty_db)"
  by (rule stored_evidence_readable[OF demo_instances])

section \<open>Idempotent submission\<close>

text \<open>
  C18. Exactly once: when a job with the idempotency key of a submission is stored, the submission
  (of any of the four kinds, at any later time, after a lost response as after a received one)
  returns that job without creating another, or is refused if its content differs. It makes one
  read and consults neither the executor nor the clock.
\<close>

theorem submission_exactly_once:
  assumes "db_inv (store w)" "readable (config_of s) (met (repository s) w)"
    "delivery (repository s) (calls w) = Delivered"
    "row \<in> set (jobs_table (met (repository s) w))"
    "idempotency_index row = (submission_kind x, submission_key x)"
    "sha256_digest (env_jcs (config_of s)) (submission_record s x) = Inr digest"
  shows "submit_any s x w =
    (if request_digest (row_job row) = digest
     then Inr \<lparr>result_job = row_job row, result_created = False\<rparr>
     else Inl (IdempotencyConflictError ''Idempotency key was used for a different request''),
     \<lparr>store = met (repository s) w, calls = Suc (calls w)\<rparr>)"
  by (rule submit_replayed[OF assms(3)
        get_job_by_idempotency_found[OF met_inv[OF assms(1)] assms(2,4,5)] assms(6)])

theorem submission_exactly_once_witness:
  "submit_any demo_service (ComparisonSubmission demo_submission) \<lparr>store = demo_job_db, calls = 9\<rparr>
     = (Inr \<lparr>result_job = demo_job, result_created = False\<rparr>, \<lparr>store = demo_job_db, calls = 10\<rparr>)"
proof -
  have met: "met demo_session \<lparr>store = demo_job_db, calls = 9\<rparr> = demo_job_db" by (simp add: met_def history_def)
  have row: "\<lparr>row_job = demo_job, row_version = 0\<rparr> \<in> set (jobs_table demo_job_db)" by (simp add: demo_job_db_def)
  from submission_exactly_once[of "\<lparr>store = demo_job_db, calls = 9\<rparr>" demo_service
      "\<lparr>row_job = demo_job, row_version = 0\<rparr>" "ComparisonSubmission demo_submission" demo_digest]
  show ?thesis
    using demo_job_stored row demo_digest_record
    by (simp add: met idempotency_index_def) (simp add: demo_job_def demo_submission_def)
qed

section \<open>Pinned payloads\<close>

lemma validate_payload_Inr: "validate_payload p = Inr p' \<Longrightarrow> p' = p"
  by (auto simp: validate_payload_def validate_run_payload_def validate_comparison_payload_def Let_def
      result_simps split: job_payload.splits option.splits)

lemma validated_kind:
  "validate_payload (RunPayload a) = Inr p \<Longrightarrow> validate_payload p = Inr p \<and> payload_kind p = RUN_JOB"
  "validate_payload (ComparisonPayload b) = Inr p \<Longrightarrow>
     validate_payload p = Inr p \<and> payload_kind p = COMPARISON_JOB"
  by (auto dest: validate_payload_Inr)

lemma pin_valid:
  assumes "pin s x w = (Inr p, w')"
  shows "validate_payload p = Inr p" "payload_kind p = submission_kind x"
proof -
  have "validate_payload p = Inr p \<and> payload_kind p = submission_kind x"
  proof (cases x)
    case (RunSubmission r)
    with assms show ?thesis
      by (auto simp: pin_run_def act_iffs rbind_Inr_iff dest!: validated_kind)
  next
    case (ComparisonSubmission c)
    with assms show ?thesis
      by (auto simp: pin_comparison_def act_iffs rbind_Inr_iff acatch_Inr_iff comparison_errors_def
          dest!: validated_kind split: if_splits)
  next
    case (SuiteRunSubmission r)
    with assms show ?thesis
      by (auto simp: pin_suite_run_def act_iffs rbind_Inr_iff dest!: validated_kind split: prod.splits)
  next
    case (SuiteComparisonSubmission c)
    with assms show ?thesis
      by (auto simp: pin_suite_comparison_def act_iffs rbind_Inr_iff dest!: validated_kind
          split: prod.splits)
  qed
  then show "validate_payload p = Inr p" "payload_kind p = submission_kind x" by blast+
qed

text \<open>The payload of a job that a submission stored, in every later store.\<close>

lemma pinned_forever:
  assumes inv: "db_inv db" and j: "submitted j" and p: "validate_payload p = Inr p" "payload_reads_back e p"
    and op: "begin_job e j p db = Inr ((j', True), db')"
  shows "\<exists>k. job_of (history e cs db') (job_id j) = Some k \<and>
    load_job_payload e (history e cs db') k True = Inr (Some p)"
proof -
  have steps: "store_step db db'" "j' = j"
    using begin_job_Inr(1)[OF op] j by (simp_all add: submitted_def)
  have inv': "db_inv db'" by (rule store_step_inv[OF steps(1) inv])
  obtain document digest where
    doc: "canonical_json_bytes (env_jcs e) (serialize_payload (payload_handler e) p) = Inr document"
    "require_payload_size document = Inr ()"
    "payload_digest (env_jcs e) (payload_handler e) p = Inr digest" "payload_kind p = job_kind j"
    "j' = j"
    and new: "job_id j \<notin> pr_job_id ` set (job_payloads_table db)"
    and db': "db' = db\<lparr>jobs_table := jobs_table db @ [\<lparr>row_job = j, row_version = 0\<rparr>],
      job_payloads_table := job_payloads_table db @ [\<lparr>pr_job_id = job_id j, pr_digest = digest,
        pr_document = document, pr_created_at = job_created_at j\<rparr>]\<rparr>"
    by (rule begin_job_rows[OF op])
  let ?row = "\<lparr>pr_job_id = job_id j, pr_digest = digest, pr_document = document,
    pr_created_at = job_created_at j\<rparr>"
  have none: "List.find (\<lambda>r. pr_job_id r = job_id j) (job_payloads_table db) = None"
    using new by (force simp: find_None_all)
  have found: "List.find (\<lambda>r. pr_job_id r = job_id j) (job_payloads_table db') = Some ?row"
    using none db' by (simp add: find_app)
  have row: "\<lparr>row_job = j, row_version = 0\<rparr> \<in> set (jobs_table db')" using db' by simp
  note later = history_steps[OF inv', of e cs]
  have "prefix (job_payloads_table db') (job_payloads_table (history e cs db'))"
    using store_steps_evidence[OF later] by (simp add: evidence_extends_def)
  from find_prefix[OF found this] have found':
    "List.find (\<lambda>r. pr_job_id r = job_id j) (job_payloads_table (history e cs db')) = Some ?row" .
  have "job_of db' (job_id j) = Some j" using job_of_row[OF inv' row] by simp
  from moved_frozen[OF store_steps_job[OF later inv'] this] obtain k where
    k: "job_of (history e cs db') (job_id j) = Some k" "frozen j k" by blast
  from p(2) doc(1) obtain v where "env_parse e document = Some v"
    "canonical_json_bytes (env_jcs e) v = Inr document" "payload_reader e v = Some p"
    unfolding payload_reads_back_def by blast
  then have "load_job_payload e (history e cs db') k True = Inr (Some p)"
    using frozen_fields[OF k(2)] found' p(1) doc by (simp add: load_job_payload_def)
  with k(1) show ?thesis by blast
qed

text \<open>
  C19. An accepted submission is durable and pinned: it stores one queued, unattempted job under its
  key, and whatever any client commits later, the payload a worker loads for that job is the one
  that was resolved and validated at submission.
\<close>

theorem accepted_submission_pinned:
  assumes "db_inv (store w)" "submit_any s x w = (Inr r, w')" "result_created r"
  shows "\<exists>payload w1. pin s x \<lparr>store = met (repository s) w, calls = Suc (calls w)\<rparr> = (Inr payload, w1) \<and>
    validate_payload payload = Inr payload \<and> submitted (result_job r) \<and>
    job_kind (result_job r) = submission_kind x \<and> idempotency_key (result_job r) = submission_key x \<and>
    job_of (store w') (job_id (result_job r)) = Some (result_job r) \<and>
    (payload_reads_back (config_of s) payload \<longrightarrow>
      (\<forall>cs. \<exists>j. job_of (history (config_of s) cs (store w')) (job_id (result_job r)) = Some j \<and>
        load_job_payload (config_of s) (history (config_of s) cs (store w')) j True = Inr (Some payload)))"
proof -
  obtain digest payload proposed w1 where
    "sha256_digest (env_jcs (config_of s)) (submission_record s x) = Inr digest"
    and pin: "pin s x \<lparr>store = met (repository s) w, calls = Suc (calls w)\<rparr> = (Inr payload, w1)"
    and proposal: "propose_job s (payload_kind payload) (submission_key x) digest (submission_trace x) = Inr proposed"
    and op: "begin_job (config_of s) proposed payload (met (repository s) w1) = Inr ((result_job r, True), store w')"
    by (rule submit_fresh[OF assms(2,3)])
  let ?w = "\<lparr>store = met (repository s) w, calls = Suc (calls w)\<rparr>"
  have "db_inv (store w1)"
    using advances_inv[OF advances_pin, of ?w s x] met_inv[OF assms(1)] pin by simp
  then have inv: "db_inv (met (repository s) w1)" by (rule met_inv)
  note P = propose_job_Inr[OF proposal] and V = pin_valid[OF pin]
  have sub: "submitted proposed" using P by blast
  have j: "result_job r = proposed" and inv': "db_inv (store w')"
    using begin_job_Inr(1)[OF op] sub store_step_inv[OF _ inv] by (simp_all add: submitted_def)
  have "\<lparr>row_job = proposed, row_version = 0\<rparr> \<in> set (jobs_table (store w'))"
    by (rule begin_job_rows[OF op]) simp
  from job_of_row[OF inv' this] have "job_of (store w') (job_id proposed) = Some proposed" by simp
  with pin V P j pinned_forever[OF inv sub V(1) _ op] show ?thesis by auto
qed


theorem accepted_submission_pinned_witness:
  "\<exists>j. job_of (history demo_config [Cancel (\<lambda>_. 9) ''job-1''] demo_job_db) ''job-1'' = Some j \<and>
     load_job_payload demo_config (history demo_config [Cancel (\<lambda>_. 9) ''job-1''] demo_job_db) j True
       = Inr (Some demo_payload)"
proof -
  let ?x = "ComparisonSubmission demo_submission"
  have met: "met demo_session (demo_world 0) = demo_db" by (simp add: met_def history_def)
  have run: "submit_any demo_service ?x (demo_world 0) = (Inr demo_accepted, \<lparr>store = demo_job_db, calls = 5\<rparr>)"
    using demo_submitted by simp
  have id: "job_id demo_job = ''job-1''" by (simp add: demo_job_def)
  have "payload_reads_back demo_config demo_payload"
    by (simp add: payload_reads_back_def serialize_payload_def canonical_json_bytes_def)
  then show ?thesis
    using accepted_submission_pinned[OF _ run] demo_readable(2) demo_pinned
    by (simp add: met id)
qed

end
