(* ===== verification/Worker.thy ===== *)
theory Worker
  imports Contracts Sessions
begin

text \<open>
  The leased worker (\<open>application/worker.py\<close>): one call of \<open>run_once\<close> claims at most one job,
  builds its evidence and publishes, retries, fails or cancels it under the lease token. The
  evidence task and the heartbeat task run concurrently; a schedule of \<open>tick\<close>s says how their
  steps interleave, a step of the evidence task being one repository read (the reads are
  transactions of their own, in a thread). A finite schedule ends with the evidence task running
  to its end. The executor, the clock and the token factory are fields of \<open>worker\<close>, and \<open>None\<close> a
  call of them that raised.
\<close>

section \<open>Configuration\<close>

record worker =
  leased_store :: session
  worker_executor :: executor
  worker_name :: string
  lease_secs :: int
  heartbeat_secs :: int
  backoff_base :: int
  backoff_max :: int
  worker_clock :: "datetime option"
  token_factory :: "string option"

definition new_worker :: "worker \<Rightarrow> worker res" where
  "new_worker k =
     (let integers = [(lease_secs k, 5, 3600), (heartbeat_secs k, 1, 1800), (backoff_base k, 1, 300),
        (backoff_max k, 1, 3600)] in
      rbind (checks
     [(\<not> is_stable_id (worker_name k) \<or>
         \<not> list_all (\<lambda>(v, lower, upper). lower \<le> v \<and> v \<le> upper) integers \<or>
         heartbeat_secs k * 2 > lease_secs k \<or> backoff_max k < backoff_base k,
       WorkerConfigurationError)]) (\<lambda>_. Inr k))"

abbreviation leased_config :: "worker \<Rightarrow> store_config" where
  "leased_config k \<equiv> config (leased_store k)"

section \<open>Outcomes\<close>

datatype worker_status =
  IDLE | WORK_SUCCEEDED | WORK_RETRY_SCHEDULED | WORK_FAILED | WORK_CANCELED | WORK_LEASE_LOST

record worker_result =
  result_status :: worker_status
  result_job_id :: "string option"
  result_attempt :: "int option"

datatype heartbeat_signal = SIGNAL_CONTINUE | SIGNAL_CANCEL | SIGNAL_LEASE_LOST | SIGNAL_UNAVAILABLE

datatype job_evidence = RunEvidence run_record | DecisionEvidence release_decision_record

definition outcome :: "claimed_job \<Rightarrow> worker_status \<Rightarrow> worker_result" where
  "outcome c status = \<lparr>result_status = status, result_job_id = Some (job_id (claimed c)),
     result_attempt = Some (attempt_number (claimed_attempt c))\<rparr>"

definition validate_claim :: "claimed_job \<Rightarrow> string \<Rightarrow> unit res" where
  "validate_claim c token = checks
     [(claimed_token c \<noteq> token \<or> job_status (claimed c) \<noteq> RUNNING \<or>
         attempt_status (claimed_attempt c) \<noteq> ATTEMPT_RUNNING \<or>
         attempt_job_id (claimed_attempt c) \<noteq> job_id (claimed c) \<or>
         attempt_number (claimed_attempt c) \<noteq> attempt_count (claimed c),
       WorkerInvariantError)]"

definition worker_now :: "worker \<Rightarrow> instant res" where
  "worker_now k = (case worker_clock k of
     None \<Rightarrow> Inl WorkerConfigurationError
   | Some (Naive _) \<Rightarrow> Inl WorkerConfigurationError
   | Some (Aware t z) \<Rightarrow> Inr (t - z))"

section \<open>Building the evidence\<close>

text \<open>A task that reads the store a number of times and then has its result.\<close>

datatype task = Finished "job_evidence res" | Reads "db \<Rightarrow> task"

definition reads_then :: "(db \<Rightarrow> 'a res) \<Rightarrow> ('a \<Rightarrow> task) \<Rightarrow> task" where
  "reads_then f next = Reads (\<lambda>db. case f db of Inl e \<Rightarrow> Finished (Inl e) | Inr x \<Rightarrow> next x)"

definition load_run_dataset :: "store_config \<Rightarrow> run_job_payload \<Rightarrow> db \<Rightarrow> dataset_record res" where
  "load_run_dataset env p db =
     rbind (get_dataset env db (ref_name (rp_dataset p)) (ref_revision (rp_dataset p))) (\<lambda>d.
     rbind (checks [(dataset_ref (dataset d) \<noteq> rp_dataset p,
       ValueError ''stored dataset does not match the worker payload'')]) (\<lambda>_. Inr d))"

definition payload_overrides :: "run_job_payload \<Rightarrow> overrides" where
  "payload_overrides p = dict_of (map (\<lambda>o'. (override_case_id o', override_scenario o')) (rp_overrides p))"

definition resolve_run_contract :: "executor \<Rightarrow> run_job_payload \<Rightarrow> overrides \<Rightarrow> execution_contract res" where
  "resolve_run_contract x p scenario =
     rbind (resolve_contract x (rp_target_name p) (rp_target_revision p) (rp_adapter p)
       (rp_evaluator_names p) scenario) (\<lambda>contract.
     rbind (validate_execution_contract contract (rp_target_name p) (rp_target_revision p)
       (rp_adapter p) (rp_evaluator_names p)) (\<lambda>_.
     rbind (checks [(contract \<noteq> rp_contract p,
       ValueError ''executor contract changed after submission'')]) (\<lambda>_.
     case rp_suite p of
       None \<Rightarrow> Inr contract
     | Some s \<Rightarrow> rbind (resolve_suite_contract x (rp_adapter p) (rp_evaluator_names p)) (\<lambda>promise.
         rbind (checks [(promised_execution promise \<noteq> suite_execution s \<or>
             promised_evaluators promise \<noteq> suite_evaluators s,
           ValueError ''executor suite contract changed after submission'')]) (\<lambda>_. Inr contract)))))"

text \<open>A run result is an instance of its class: its validator has accepted it.\<close>

definition execute_payload ::
    "jcs \<Rightarrow> executor \<Rightarrow> string \<Rightarrow> dataset_version \<Rightarrow> run_job_payload \<Rightarrow> overrides \<Rightarrow> run_result res" where
  "execute_payload jcs x rid d p scenario = rbind (case rp_suite p of
       None \<Rightarrow> executor_execute x rid d (rp_target_name p) (rp_target_revision p) (rp_adapter p)
         (rp_evaluator_names p) scenario
     | Some s \<Rightarrow> executor_execute_suite x rid d (rp_target_name p) (rp_target_revision p) scenario s)
     (validate_run jcs)"

definition build_run :: "worker \<Rightarrow> string \<Rightarrow> run_job_payload \<Rightarrow> dataset_record \<Rightarrow> job_evidence res" where
  "build_run k rid p d =
     (let scenario = payload_overrides p in
      rbind (resolve_run_contract (worker_executor k) p scenario) (\<lambda>contract.
      rbind (execute_payload (env_jcs (leased_config k)) (worker_executor k) rid (dataset d) p scenario)
        (\<lambda>r.
      rbind (validate_run_result r rid d contract (rp_suite p)) (\<lambda>_.
      rbind (worker_now k) (\<lambda>now.
      Inr (RunEvidence \<lparr>run_evidence = r, run_created_at = now\<rparr>))))))"

definition compare_job ::
    "jcs \<Rightarrow> comparison_job_payload \<Rightarrow> dataset_record \<Rightarrow> run_record \<Rightarrow> run_record \<Rightarrow> release_decision res" where
  "compare_job jcs p d baseline candidate =
     rbind (checks
       [(result_digest (run_evidence baseline) \<noteq> cp_baseline_digest p \<or>
           result_digest (run_evidence candidate) \<noteq> cp_candidate_digest p,
         ValueError ''comparison inputs changed after submission'')]) (\<lambda>_.
     rbind (validate_comparison_inputs (ref_name (cp_dataset p)) (ref_revision (cp_dataset p))
       (cp_baseline_run_id p) (cp_candidate_run_id p) (cp_spec p) d baseline candidate (cp_suite p)) (\<lambda>_.
     compare_runs jcs (cp_spec p) (dataset d) (run_evidence baseline) (run_evidence candidate) (cp_suite p)))"

definition build_decision ::
    "worker \<Rightarrow> string \<Rightarrow> comparison_job_payload \<Rightarrow> dataset_record \<Rightarrow> run_record \<Rightarrow> run_record
     \<Rightarrow> job_evidence res" where
  "build_decision k rid p d baseline candidate =
     rbind (compare_job (env_jcs (leased_config k)) p d baseline candidate) (\<lambda>x.
     rbind (worker_now k) (\<lambda>now.
     Inr (DecisionEvidence \<lparr>decision_id = rid, decision = x, decision_created_at = now\<rparr>)))"

definition build_evidence :: "worker \<Rightarrow> claimed_job \<Rightarrow> task" where
  "build_evidence k c = (let rid = resource_id (claimed c); env = leased_config k in
     case claimed_payload c of
       RunPayload p \<Rightarrow>
         reads_then (load_run_dataset env p) (\<lambda>d. Finished (build_run k rid p d))
     | ComparisonPayload p \<Rightarrow>
         reads_then (\<lambda>db. get_dataset env db (ref_name (cp_dataset p)) (ref_revision (cp_dataset p))) (\<lambda>d.
         reads_then (\<lambda>db. get_run env db (cp_baseline_run_id p)) (\<lambda>baseline.
         reads_then (\<lambda>db. get_run env db (cp_candidate_run_id p)) (\<lambda>candidate.
         Finished (build_decision k rid p d baseline candidate)))))"

section \<open>Heartbeats\<close>

definition heartbeat :: "worker \<Rightarrow> claimed_job \<Rightarrow> heartbeat_signal act" where
  "heartbeat k c =
     acatch (\<lambda>e. if is_lease_lost_error e then Some (areturn SIGNAL_LEASE_LOST)
         else if is_store_error e then Some (areturn SIGNAL_UNAVAILABLE) else None)
       (abind (call (leased_store k) (\<lambda>n. heartbeat_job (statement_clock (leased_store k) n)
           (job_id (claimed c)) (attempt_number (claimed_attempt c)) (claimed_token c) (lease_secs k)))
         (\<lambda>j. areturn (if job_status j = CANCEL_REQUESTED then SIGNAL_CANCEL
            else if job_status j \<noteq> RUNNING then SIGNAL_LEASE_LOST else SIGNAL_CONTINUE)))"

datatype tick = Advance | Beat | SleeperFails

primrec drain :: "session \<Rightarrow> task \<Rightarrow> job_evidence res act" where
  "drain s (Finished r) = areturn r"
| "drain s (Reads f) = (\<lambda>w. case query s Inr w of
     (Inl e, w') \<Rightarrow> (Inr (Inl e), w') | (Inr db, w') \<Rightarrow> drain s (f db) w')"

definition advance :: "session \<Rightarrow> task \<Rightarrow> task act" where
  "advance s t w = (case t of
     Finished r \<Rightarrow> (Inr t, w)
   | Reads f \<Rightarrow> (case query s Inr w of
       (Inl e, w') \<Rightarrow> (Inr (Finished (Inl e)), w') | (Inr db, w') \<Rightarrow> (Inr (f db), w')))"

text \<open>
  \<open>asyncio.wait(FIRST_COMPLETED)\<close>: \<open>Inl\<close> a signal that ended the monitor, or \<open>Inr\<close> the result of
  the evidence task. When both are finished the monitor is looked at first.
\<close>

fun race :: "worker \<Rightarrow> claimed_job \<Rightarrow> tick list \<Rightarrow> task \<Rightarrow> (heartbeat_signal + job_evidence res) act" where
  "race k c [] t = abind (drain (leased_store k) t) (\<lambda>r. areturn (Inr r))"
| "race k c (Beat # ticks) t = abind (heartbeat k c) (\<lambda>signal.
     if signal = SIGNAL_CONTINUE then race k c ticks t else areturn (Inl signal))"
| "race k c (SleeperFails # ticks) t = areturn (Inl SIGNAL_UNAVAILABLE)"
| "race k c (Advance # ticks) t =
     abind (advance (leased_store k) t) (\<lambda>t'. race k c ticks t')"

section \<open>Settling the attempt\<close>

text \<open>The exceptions \<open>_publish\<close>, \<open>_retry_or_exhaust\<close> and \<open>_fail\<close> translate, and their check of the returned job.\<close>

definition settle_errors :: "claimed_job \<Rightarrow> exn \<Rightarrow> worker_result act option" where
  "settle_errors c e =
     (if is_lease_lost_error e then Some (areturn (outcome c WORK_LEASE_LOST))
      else if is_store_error e then Some (araise WorkerUnavailableError) else None)"

definition settled_as ::
    "claimed_job \<Rightarrow> job_status \<Rightarrow> worker_status \<Rightarrow> job_record \<Rightarrow> worker_result act" where
  "settled_as c expected_status status j =
     (if job_status j = CANCELED then areturn (outcome c WORK_CANCELED)
      else if job_status j \<noteq> expected_status then araise WorkerInvariantError
      else areturn (outcome c status))"

definition work_fail :: "worker \<Rightarrow> claimed_job \<Rightarrow> string \<Rightarrow> worker_result act" where
  "work_fail k c code =
     acatch (settle_errors c)
       (abind (call (leased_store k) (\<lambda>n. fail_job (statement_clock (leased_store k) n)
           (job_id (claimed c)) (attempt_number (claimed_attempt c)) (claimed_token c) code))
         (settled_as c FAILED WORK_FAILED))"

definition backoff :: "worker \<Rightarrow> claimed_job \<Rightarrow> int" where
  "backoff k c = min (backoff_base k * 2 ^ nat (attempt_count (claimed c) - 1)) (backoff_max k)"

definition retry_or_exhaust :: "worker \<Rightarrow> claimed_job \<Rightarrow> worker_result act" where
  "retry_or_exhaust k c =
     (if attempt_count (claimed c) \<ge> max_attempts (claimed c) then work_fail k c ''retry_exhausted''
      else acatch (settle_errors c)
        (abind (call (leased_store k) (\<lambda>n. retry_job (statement_clock (leased_store k) n)
            (job_id (claimed c)) (attempt_number (claimed_attempt c)) (claimed_token c)
            (backoff k c) ''transient_execution_failure''))
          (settled_as c QUEUED WORK_RETRY_SCHEDULED)))"

definition publication :: "worker \<Rightarrow> claimed_job \<Rightarrow> job_evidence \<Rightarrow> nat \<Rightarrow> job_record tx" where
  "publication k c ev n = (case ev of
     RunEvidence r \<Rightarrow> complete_run (leased_config k) (statement_clock (leased_store k) n)
       (job_id (claimed c)) r (attempt_number (claimed_attempt c)) (claimed_token c)
   | DecisionEvidence d \<Rightarrow> complete_release_decision (leased_config k)
       (statement_clock (leased_store k) n) (job_id (claimed c)) d
       (attempt_number (claimed_attempt c)) (claimed_token c))"

definition publish :: "worker \<Rightarrow> claimed_job \<Rightarrow> job_evidence \<Rightarrow> worker_result act" where
  "publish k c ev =
     acatch (\<lambda>e. if \<not> is_lease_lost_error e \<and> is_store_conflict_error e
         then Some (work_fail k c ''evidence_conflict'') else settle_errors c e)
       (abind (call (leased_store k) (publication k c ev)) (settled_as c SUCCEEDED WORK_SUCCEEDED))"

definition handle_heartbeat_signal :: "worker \<Rightarrow> claimed_job \<Rightarrow> heartbeat_signal \<Rightarrow> worker_result act" where
  "handle_heartbeat_signal k c signal = (case signal of
     SIGNAL_CANCEL \<Rightarrow> acatch (settle_errors c)
       (abind (call (leased_store k) (\<lambda>n. acknowledge_cancellation (statement_clock (leased_store k) n)
           (job_id (claimed c)) (attempt_number (claimed_attempt c)) (claimed_token c)))
         (\<lambda>j. if job_status j \<noteq> CANCELED then araise WorkerInvariantError
              else areturn (outcome c WORK_CANCELED)))
   | SIGNAL_LEASE_LOST \<Rightarrow> areturn (outcome c WORK_LEASE_LOST)
   | SIGNAL_UNAVAILABLE \<Rightarrow> araise WorkerUnavailableError
   | SIGNAL_CONTINUE \<Rightarrow> araise WorkerInvariantError)"

section \<open>One bounded service call\<close>

fun is_transient :: "exn \<Rightarrow> bool" where
  "is_transient TransientExecutionError = True"
| "is_transient _ = False"

definition conclude :: "worker \<Rightarrow> claimed_job \<Rightarrow> job_evidence res \<Rightarrow> worker_result act" where
  "conclude k c r = (case r of
     Inr ev \<Rightarrow> publish k c ev
   | Inl e \<Rightarrow>
       if is_transient e then retry_or_exhaust k c
       else if is_store_not_found_error e then work_fail k c ''dependency_not_found''
       else if is_store_error e then araise WorkerUnavailableError
       else if is_value_error e then work_fail k c ''invalid_job_payload''
       else work_fail k c (case claimed_payload c of ComparisonPayload _ \<Rightarrow> ''comparison_failed''
         | RunPayload _ \<Rightarrow> ''execution_failed''))"

definition process :: "worker \<Rightarrow> tick list \<Rightarrow> claimed_job \<Rightarrow> worker_result act" where
  "process k ticks c = abind (race k c ticks (build_evidence k c)) (\<lambda>first.
     case first of
       Inl signal \<Rightarrow> handle_heartbeat_signal k c signal
     | Inr r \<Rightarrow> abind (heartbeat k c) (\<lambda>signal.
         if signal \<noteq> SIGNAL_CONTINUE then handle_heartbeat_signal k c signal else conclude k c r))"

definition run_once :: "worker \<Rightarrow> tick list \<Rightarrow> worker_result act" where
  "run_once k ticks =
     abind (alift (of_option WorkerConfigurationError (token_factory k))) (\<lambda>token.
     abind (alift (checks [(\<not> is_lease_token token, WorkerConfigurationError)])) (\<lambda>_.
     abind (acatch (translate is_store_error WorkerUnavailableError)
       (call (leased_store k) (\<lambda>n. claim_next_job (leased_config k) (statement_clock (leased_store k) n)
          (locked_rows (leased_store k) n) (worker_name k) token (lease_secs k)))) (\<lambda>claim.
     case claim of
       None \<Rightarrow> areturn \<lparr>result_status = IDLE, result_job_id = None, result_attempt = None\<rparr>
     | Some c \<Rightarrow> abind (alift (validate_claim c token)) (\<lambda>_.
         if job_kind (claimed c) \<noteq> payload_kind (claimed_payload c)
         then work_fail k c ''invalid_job_payload'' else process k ticks c))))"

end
