(* ===== verification/StoreErrors.thy ===== *)
theory StoreErrors
  imports Sessions
begin

text \<open>
  The exceptions of the fenced store operations: with arguments in range and in a store that
  satisfies the invariant, they raise subclasses of \<open>ControlPlaneStoreError\<close> only. In particular
  the lifecycle transitions they make without a handler are always legal.
\<close>

abbreviation store_or_sql :: "exn \<Rightarrow> bool" where
  "store_or_sql e \<equiv> is_store_error e \<or> is_sqlalchemy_error e"

lemma raises_rcatch:
  "(\<And>e. m = Inl e \<Longrightarrow> c e \<Longrightarrow> raises P (h e)) \<Longrightarrow> (\<And>e. m = Inl e \<Longrightarrow> \<not> c e \<Longrightarrow> P e) \<Longrightarrow>
   raises P (rcatch c h m)"
  by (cases m) auto

lemma raises_caught:
  "raises c m \<Longrightarrow> (\<And>e. c e \<Longrightarrow> raises P (h e)) \<Longrightarrow> raises P (rcatch c h m)"
  by (rule raises_rcatch) (auto dest: raisesD)

lemma raises_handled:
  "raises is_value_error m \<Longrightarrow> P e' \<Longrightarrow> raises P (rcatch is_value_error (\<lambda>_. Inl e') m)"
  by (rule raises_rcatch) (auto dest: raisesD)

lemma raises_sql:
  "raises (\<lambda>e. P e \<or> is_sqlalchemy_error e) (m db) \<Longrightarrow> P e1 \<Longrightarrow> P e2 \<Longrightarrow> raises P (sql_errors e1 e2 m db)"
  unfolding sql_errors_def by (rule raises_rcatch) (auto dest: raisesD)

lemma raises_tbind [raises_intros]:
  "raises P (m db) \<Longrightarrow> (\<And>x db'. m db = Inr (x, db') \<Longrightarrow> raises P (f x db')) \<Longrightarrow> raises P (tbind m f db)"
  unfolding tbind_def by (cases "m db") auto

lemma raises_lift [raises_intros]: "raises P m \<Longrightarrow> raises P (lift_res m db)"
  by (cases m) simp_all

lemma raises_treturn [raises_intros]: "raises P (treturn x db)"
  by simp

lemma raises_prod [raises_intros]:
  "(\<And>a b. p = (a, b) \<Longrightarrow> raises P (f a b)) \<Longrightarrow> raises P (case p of (a, b) \<Rightarrow> f a b)"
  by (cases p) simp

lemma raises_prod_tx [raises_intros]:
  "(\<And>a b. p = (a, b) \<Longrightarrow> raises P (f a b db)) \<Longrightarrow> raises P ((case p of (a, b) \<Rightarrow> f a b) db)"
  by (cases p) simp

lemma raises_list [raises_intros]:
  "(x = [] \<Longrightarrow> raises P a) \<Longrightarrow> (\<And>y ys. x = y # ys \<Longrightarrow> raises P (f y ys)) \<Longrightarrow>
   raises P (case x of [] \<Rightarrow> a | y # ys \<Rightarrow> f y ys)"
  by (cases x) simp_all

lemma raises_Let [raises_intros]: "(\<And>x. x = a \<Longrightarrow> raises P (f x)) \<Longrightarrow> raises P (let x = a in f x)"
  by (simp add: Let_def)

lemma raises_Let_tx [raises_intros]:
  "(\<And>x. x = a \<Longrightarrow> raises P (f x db)) \<Longrightarrow> raises P ((let x = a in f x) db)"
  by (simp add: Let_def)

lemma raises_if_tx [raises_intros]:
  "(c \<Longrightarrow> raises P (f db)) \<Longrightarrow> (\<not> c \<Longrightarrow> raises P (g db)) \<Longrightarrow> raises P ((if c then f else g) db)"
  by simp

section \<open>Validators raise value errors\<close>

lemma utc_raises: "raises is_value_error (utc m d)"
  by (cases d) simp_all

lemma validate_job_record_raises: "raises is_value_error (validate_job_record j)"
  unfolding validate_job_record_def validate_state_def by (intro raises_intros) simp_all

lemma next_schedule_raises: "raises is_value_error (next_schedule j s t av)"
  unfolding next_schedule_def by (intro raises_intros utc_raises) simp_all

lemma transition_to_raises: "raises is_value_error (transition_to j s time ec av)"
  unfolding transition_to_def optional_utc_def
  by (intro raises_intros utc_raises next_schedule_raises validate_job_record_raises) simp_all

lemma validate_attempt_raises: "raises is_value_error (validate_attempt a)"
  unfolding validate_attempt_def by (intro raises_intros) simp_all

lemma canonical_raises: "raises is_value_error (canonical_json_bytes jcs v)"
  unfolding canonical_json_bytes_def by (intro raises_intros) simp_all

lemma sha256_raises: "raises is_value_error (sha256_digest jcs v)"
  unfolding sha256_digest_def by (intro raises_intros canonical_raises)

lemma validate_payload_raises: "raises is_value_error (validate_payload p)"
proof (cases p)
  case (RunPayload r)
  show ?thesis
    unfolding RunPayload validate_payload_def validate_run_payload_def job_payload.case
    by (intro raises_intros) simp_all
next
  case (ComparisonPayload c)
  show ?thesis
    unfolding ComparisonPayload validate_payload_def validate_comparison_payload_def job_payload.case
      to_evaluation_spec_def validate_evaluation_spec_def
    by (intro raises_intros) simp_all
qed

section \<open>Steps of the operations\<close>

lemma job_record_of_raises: "raises store_or_sql (job_record_of row)"
  unfolding job_record_of_def by (rule raises_handled[OF validate_job_record_raises]) simp

lemma attempt_record_of_raises: "raises store_or_sql (attempt_record_of row)"
  unfolding attempt_record_of_def
  by (rule raises_handled) (intro raises_intros validate_attempt_raises, simp_all)

lemma lock_raises: "raises store_or_sql (lock_active_lease clock db row jid n token)"
  unfolding lock_active_lease_def
  by (intro raises_intros job_record_of_raises attempt_record_of_raises) simp_all

lemma updates_raise:
  "raises store_or_sql (update_jobs p f db)" "raises store_or_sql (update_attempts p' f' db)"
  "raises store_or_sql (insert_attempt row db)" "raises store_or_sql (insert_run rrow db)"
  "raises store_or_sql (insert_decision drow db)"
  by (simp_all add: update_jobs_def update_attempts_def insert_attempt_def insert_run_def
      insert_decision_def Let_def)

lemma update_job_raises: "raises store_or_sql (update_job row j db)"
  unfolding update_job_def by (intro raises_intros updates_raise) simp_all

lemma finish_raises: "raises store_or_sql (finish_attempt jid n token s ec f lt db)"
  unfolding finish_attempt_def by (intro raises_intros updates_raise) simp_all

lemma handled_transition_raises:
  "is_store_error e \<Longrightarrow> raises store_or_sql (rcatch is_value_error (\<lambda>_. Inl e) (transition_to j s time ec av))"
  by (rule raises_handled[OF transition_to_raises]) simp

lemma cancel_attempt_raises: "raises store_or_sql (cancel_active_attempt row j n token now lt db)"
  unfolding cancel_active_attempt_def
  by (intro raises_intros handled_transition_raises finish_raises update_job_raises) simp_all

lemmas step_raises = lock_raises finish_raises update_job_raises cancel_attempt_raises updates_raise
  handled_transition_raises job_record_of_raises attempt_record_of_raises

section \<open>The operations\<close>

lemma bounded_int_raises: "l \<le> v \<Longrightarrow> v \<le> u \<Longrightarrow> raises P (bounded_int v l u name)"
  by (simp add: bounded_int_def)

lemma lease_token_raises: "is_lease_token t \<Longrightarrow> raises P (lease_token_value t)"
  by (simp add: lease_token_value_def)

lemma safe_code_raises: "is_safe_code c \<Longrightarrow> raises P (safe_code c)"
  by (simp add: safe_code_def)

lemma heartbeat_job_raises:
  assumes "1 \<le> n" "n \<le> 10" "is_lease_token token" "5 \<le> secs" "secs \<le> 3600"
  shows "raises is_store_error (heartbeat_job clock jid n token secs db)"
  unfolding heartbeat_job_def
  by (intro raises_intros raises_sql step_raises bounded_int_raises lease_token_raises assms) simp_all

lemma retry_job_raises:
  assumes "1 \<le> n" "n \<le> 10" "is_lease_token token" "1 \<le> delay" "delay \<le> 3600" "is_safe_code code"
  shows "raises is_store_error (retry_job clock jid n token delay code db)"
  unfolding retry_job_def
  by (intro raises_intros raises_sql step_raises bounded_int_raises lease_token_raises safe_code_raises assms)
    simp_all

lemma fail_job_raises:
  assumes "1 \<le> n" "n \<le> 10" "is_lease_token token" "is_safe_code code"
  shows "raises is_store_error (fail_job clock jid n token code db)"
  unfolding fail_job_def
  by (intro raises_intros raises_sql step_raises bounded_int_raises lease_token_raises safe_code_raises assms)
    simp_all

lemma acknowledge_raises:
  assumes "1 \<le> n" "n \<le> 10" "is_lease_token token"
  shows "raises is_store_error (acknowledge_cancellation clock jid n token db)"
  unfolding acknowledge_cancellation_def require_terminal_attempt_def
  by (intro raises_intros raises_sql step_raises bounded_int_raises lease_token_raises assms) simp_all

section \<open>Publishing and claiming\<close>

text \<open>Pydantic's dump of a result is a JSON value that RFC 8785 serialises.\<close>

definition serialises :: "store_config \<Rightarrow> bool" where
  "serialises env \<longleftrightarrow> (\<forall>r. is_ok (model_text env (run_codec env) r)) \<and>
     (\<forall>d. is_ok (model_text env (decision_codec env) d))"

lemma serialises_raises:
  "serialises env \<Longrightarrow> raises P (model_text env (run_codec env) r)"
  "serialises env \<Longrightarrow> raises P (model_text env (decision_codec env) d)"
  by (metis is_ok_iff raises_Inr serialises_def)+

lemma content_validators_raise:
  "raises is_value_error (validate_run jcs r)" "raises is_value_error (validate_decision jcs d)"
  "raises is_value_error (run_usage r)"
  unfolding validate_run_def check_run_result_def calculate_run_digest_def validate_decision_def
    check_decision_def calculate_decision_digest_def run_usage_def
  by (intro raises_intros sha256_raises; simp)+

lemma validated_model_raises:
  "(\<And>m. raises is_value_error (validate m)) \<Longrightarrow> raises store_or_sql (validated_model env c validate b)"
  unfolding validated_model_def
  by (rule raises_handled) (intro raises_intros canonical_raises, simp_all)

lemma identical_raises:
  assumes "serialises env"
  shows "raises store_or_sql (require_identical_run env row b)"
    "raises store_or_sql (require_identical_decision env drow b)"
  unfolding require_identical_run_def require_identical_decision_def run_record_of_def
    release_decision_record_of_def
  by (intro raises_intros validated_model_raises raises_handled content_validators_raise
      serialises_raises[OF assms]; simp)+

lemma succeed_transition:
  assumes "valid_job j" "job_status j = RUNNING" "job_updated_at j \<le> t"
  shows "\<exists>j'. transition_to j SUCCEEDED (at_utc t) None None = Inr j'"
proof -
  have "valid_job (j\<lparr>job_status := SUCCEEDED, attempt_count := attempt_count j, available_at := available_at j,
      job_error_code := None, job_updated_at := t\<rparr>)"
    using assms by (auto simp: valid_job_def validate_state_ok_iff job_fields_ok_def)
  then have "validate_job_record (j\<lparr>job_status := SUCCEEDED, attempt_count := attempt_count j,
      available_at := available_at j, job_error_code := None, job_updated_at := t\<rparr>) = Inr (j\<lparr>job_status := SUCCEEDED,
      attempt_count := attempt_count j, available_at := available_at j, job_error_code := None, job_updated_at := t\<rparr>)"
    by (simp only: validate_job_record_valid)
  then show ?thesis using assms(2,3)
    by (auto simp: transition_to_def next_schedule_def intro!: exI validate_job_record_valid[THEN iffD2])
qed

lemma complete_transaction_raises:
  assumes "\<And>x. raises store_or_sql (identical x)" "\<And>d. raises store_or_sql (put d)"
  shows "raises store_or_sql
    (complete_transaction clock jid n token kind rid identical find_stored put db)"
proof -
  have move: "raises store_or_sql (transition_to current SUCCEEDED (at_utc (max t (job_updated_at current))) None None)"
    if "lock_active_lease clock db (Some row) jid n token = Inr (row', current, arow, t)"
      "job_status current \<noteq> CANCEL_REQUESTED" for row row' current arow t
  proof -
    have "valid_job current" "job_status current = RUNNING"
      using that unfolding lock_active_lease_def Let_def by (auto simp: result_simps job_record_of_Inr)
    from succeed_transition[OF this, of "max t (job_updated_at current)"] show ?thesis by auto
  qed
  show ?thesis
    unfolding complete_transaction_def require_completion_identity_def require_terminal_attempt_def
    by (intro raises_intros step_raises assms; simp add: move)
qed

lemma complete_run_raises:
  assumes "1 \<le> n" "n \<le> 10" "is_lease_token token" "serialises env"
  shows "raises is_store_error (complete_run env clock jid r n token db)"
  unfolding complete_run_def prepare_run_def require_document_size_def
  by (intro raises_intros raises_sql complete_transaction_raises identical_raises updates_raise
      raises_handled content_validators_raise bounded_int_raises lease_token_raises
      serialises_raises assms) simp_all

lemma complete_release_decision_raises:
  assumes "1 \<le> n" "n \<le> 10" "is_lease_token token" "serialises env"
  shows "raises is_store_error (complete_release_decision env clock jid r n token db)"
  unfolding complete_release_decision_def require_document_size_def
  by (intro raises_intros raises_sql complete_transaction_raises identical_raises updates_raise
      bounded_int_raises lease_token_raises serialises_raises assms) simp_all

lemma load_job_payload_raises: "raises store_or_sql (load_job_payload env db j True)"
proof -
  let ?P = "\<lambda>e. is_value_error e \<or> (\<exists>m. e = PayloadTooLargeError m)"
  have lift: "raises is_value_error m \<Longrightarrow> raises ?P m" for m :: "'x res"
    by (simp add: raises_def)
  have "raises ?P (canonical_json_bytes jcs v)" "raises ?P (validate_payload p)"
    "raises ?P (payload_digest jcs h p)" for jcs v p h
    unfolding payload_digest_def by (rule lift, rule canonical_raises validate_payload_raises sha256_raises)+
  note values_ = this
  show ?thesis
    unfolding load_job_payload_def require_payload_size_def
    by (intro raises_intros raises_caught values_) simp_all
qed

lemma claim_next_job_raises:
  assumes "is_stable_id worker" "is_lease_token token" "5 \<le> secs" "secs \<le> 3600"
  shows "raises is_store_error (claim_next_job env clock locked worker token secs db)"
proof -
  have attempt: "raises store_or_sql (validate_attempt \<lparr>attempt_job_id = job_id running,
      attempt_number = attempt_count running, attempt_status = ATTEMPT_RUNNING, attempt_error_code = None,
      started_at = t, heartbeat_at = t, lease_expires_at = t + seconds secs, finished_at = None\<rparr>)"
    if "sort_key claim_order (filter (claimable (clock 0) locked) (jobs_table db)) = row # rest"
      "job_record_of row = Inr j"
      "rcatch is_value_error (\<lambda>_. Inl e) (transition_to j RUNNING (at_utc t') None None) = Inr running"
    for running t j t' row rest db e
  proof -
    have "row \<in> set (filter (claimable (clock 0) locked) (jobs_table db))"
      using sort_key_head(1)[OF that(1)] .
    then have q: "job_status j = QUEUED" "valid_job j"
      using that(2) by (auto simp: claimable_def job_record_of_Inr)
    have "transition_to j RUNNING (at_utc t') None None = Inr running"
      using that(3) by (auto simp: result_simps)
    from transition_claim[OF this q(1)] q(2)
    have "is_stable_id (job_id running)" "0 < attempt_count running"
      by (auto simp: valid_job_def job_fields_ok_def)
    then show ?thesis using assms(3) by (simp add: validate_attempt_def seconds_def failed_statuses_def)
  qed
  show ?thesis
    unfolding claim_next_job_def worker_id_value_def require_postgresql_coordination_def
    by (intro raises_intros raises_sql step_raises load_job_payload_raises bounded_int_raises
        lease_token_raises assms; (simp add: assms; fail)?) (auto simp: bounded_int_Inr intro: attempt)
qed

end
