(* ===== verification/WorkerFacts.thy ===== *)
theory WorkerFacts
  imports Worker StoreErrors
begin

text \<open>
  What the worker relies on: the record a store operation returns is the record the store then
  holds; the exceptions its calls can raise; and the course of \<open>run_once\<close> from a claim to the
  reported outcome.
\<close>

section \<open>The returned record is the stored one\<close>

lemma update_job_stored:
  assumes "update_job row j' db = Inr (u, db')" "jobs_constraints (jobs_table db)"
    "find_job_row db jid = Some row" "frozen (row_job row) j'"
  shows "job_of db' jid = Some j'"
proof -
  note R = find_job_row_Some[OF assms(3)]
  have "jobs_table db' = replace_job row j' (jobs_table db)"
    using update_job_Inr[OF assms(1,2) _ assms(4)] R by simp
  then show ?thesis
    using R assms(3,4) by (simp add: job_of_def find_job_row_def find_replace_job)
qed

lemma finish_attempt_jobs: "finish_attempt a b c d e f g db = Inr (u, db') \<Longrightarrow> jobs_table db' = jobs_table db"
  by (auto simp: finish_attempt_def update_attempts_def Let_def result_simps split: if_splits)

lemma finished_stored:
  assumes "tbind (finish_attempt a b c d e f g) (\<lambda>_. tbind (update_job row j') (\<lambda>_. treturn j')) db = Inr (j, db')"
    "jobs_constraints (jobs_table db)" "find_job_row db jid = Some row" "frozen (row_job row) j'"
  shows "job_of db' jid = Some j"
proof -
  from assms(1) obtain u u' db1 where fin: "finish_attempt a b c d e f g db = Inr (u, db1)"
    and up: "update_job row j' db1 = Inr (u', db')" and j: "j = j'"
    by (auto simp: result_simps)
  note same = finish_attempt_jobs[OF fin]
  have "find_job_row db1 jid = Some row" using assms(3) same by (simp add: find_job_row_def)
  from update_job_stored[OF up _ this assms(4)] assms(2) same j show ?thesis by simp
qed

lemma cancel_active_stored:
  assumes "cancel_active_attempt row (row_job row) n token now lt db = Inr (j, db')"
    "jobs_constraints (jobs_table db)" "find_job_row db jid = Some row"
  shows "job_of db' jid = Some j"
proof -
  from assms(1) obtain canceled where
    move: "transition_to (row_job row) CANCELED (at_utc (max now (job_updated_at (row_job row)))) None None
      = Inr canceled"
    and rest: "tbind (finish_attempt (job_id (row_job row)) n token ATTEMPT_CANCELED None
        (max now (job_updated_at (row_job row))) lt)
      (\<lambda>_. tbind (update_job row canceled) (\<lambda>_. treturn canceled)) db = Inr (j, db')"
    unfolding cancel_active_attempt_def Let_def by (auto simp: result_simps split: if_splits)
  show ?thesis by (rule finished_stored[OF rest assms(2,3) transition_to_frozen[OF move]])
qed

lemma jobs_constraints_inv: "db_inv db \<Longrightarrow> jobs_constraints (jobs_table db)"
  by (simp add: db_inv_def)

lemma retry_job_stored:
  assumes inv: "db_inv db" and op: "retry_job clock jid n token delay code db = Inr (j, db')"
  shows "job_of db' jid = Some j"
proof -
  from op obtain row' current arow t where
    lock: "lock_active_lease clock db (find_job_row db jid) jid n token = Inr (row', current, arow, t)"
    and rest: "(if job_status current = CANCEL_REQUESTED
      then cancel_active_attempt row' current n token t (Some (clock 1)) db
      else let transition_at = max t (job_updated_at current) in
        rbind (rcatch is_value_error
           (\<lambda>_. Inl (IllegalJobTransitionError ''Job cannot be scheduled for another attempt''))
           (transition_to current QUEUED (at_utc transition_at) None
             (Some (at_utc (transition_at + seconds delay))))) (\<lambda>queued.
        tbind (finish_attempt jid n token RETRY_SCHEDULED (Some code) transition_at (Some (clock 1)))
          (\<lambda>_. tbind (update_job row' queued) (\<lambda>_. treturn queued)) db)) = Inr (j, db')"
    unfolding retry_job_def by (auto simp: result_simps)
  obtain row where f: "find_job_row db jid = Some row" using lock_found[OF lock] .
  note L = lock_active_lease_Inr(1,2)[OF lock[unfolded f] f]
  show ?thesis
  proof (cases "job_status current = CANCEL_REQUESTED")
    case True
    with rest L show ?thesis using cancel_active_stored[OF _ jobs_constraints_inv[OF inv] f] by simp
  next
    case False
    with rest obtain queued where
      move: "transition_to current QUEUED (at_utc (max t (job_updated_at current))) None
        (Some (at_utc (max t (job_updated_at current) + seconds delay))) = Inr queued"
      and tail: "tbind (finish_attempt jid n token RETRY_SCHEDULED (Some code)
          (max t (job_updated_at current)) (Some (clock 1)))
          (\<lambda>_. tbind (update_job row' queued) (\<lambda>_. treturn queued)) db = Inr (j, db')"
      by (auto simp: Let_def result_simps split: if_splits)
    from finished_stored[OF tail[unfolded L(1)] jobs_constraints_inv[OF inv] f] transition_to_frozen[OF move] L
    show ?thesis by simp
  qed
qed

lemma fail_job_stored:
  assumes inv: "db_inv db" and op: "fail_job clock jid n token code db = Inr (j, db')"
  shows "job_of db' jid = Some j"
proof -
  from op obtain row' current arow t where
    lock: "lock_active_lease clock db (find_job_row db jid) jid n token = Inr (row', current, arow, t)"
    and rest: "(if job_status current = CANCEL_REQUESTED
      then cancel_active_attempt row' current n token t (Some (clock 1)) db
      else let transition_at = max t (job_updated_at current) in
        rbind (rcatch is_value_error (\<lambda>_. Inl (IllegalJobTransitionError ''Job cannot fail''))
           (transition_to current FAILED (at_utc transition_at) (Some code) None)) (\<lambda>failed.
        tbind (finish_attempt jid n token ATTEMPT_FAILED (Some code) transition_at (Some (clock 1)))
          (\<lambda>_. tbind (update_job row' failed) (\<lambda>_. treturn failed)) db)) = Inr (j, db')"
    unfolding fail_job_def by (auto simp: result_simps)
  obtain row where f: "find_job_row db jid = Some row" using lock_found[OF lock] .
  note L = lock_active_lease_Inr(1,2)[OF lock[unfolded f] f]
  show ?thesis
  proof (cases "job_status current = CANCEL_REQUESTED")
    case True
    with rest L show ?thesis using cancel_active_stored[OF _ jobs_constraints_inv[OF inv] f] by simp
  next
    case False
    with rest obtain failed where
      move: "transition_to current FAILED (at_utc (max t (job_updated_at current))) (Some code) None = Inr failed"
      and tail: "tbind (finish_attempt jid n token ATTEMPT_FAILED (Some code)
          (max t (job_updated_at current)) (Some (clock 1)))
          (\<lambda>_. tbind (update_job row' failed) (\<lambda>_. treturn failed)) db = Inr (j, db')"
      by (auto simp: Let_def result_simps split: if_splits)
    from finished_stored[OF tail[unfolded L(1)] jobs_constraints_inv[OF inv] f] transition_to_frozen[OF move] L
    show ?thesis by simp
  qed
qed

lemma acknowledge_stored:
  assumes inv: "db_inv db" and op: "acknowledge_cancellation clock jid n token db = Inr (j, db')"
  shows "job_of db' jid = Some j"
proof -
  from op obtain row where f: "find_job_row db jid = Some row" and rec: "job_record_of row = Inr (row_job row)"
    unfolding acknowledge_cancellation_def by (auto simp: result_simps job_record_of_Inr)
  show ?thesis
  proof (cases "job_status (row_job row) = CANCELED")
    case True
    with op f rec have "j = row_job row" "db' = db"
      unfolding acknowledge_cancellation_def by (auto simp: result_simps)
    with f show ?thesis by (simp add: job_of_def)
  next
    case False
    with op f rec obtain row' current arow t where
      lock: "lock_active_lease clock db (Some row) jid n token = Inr (row', current, arow, t)"
      and rest: "cancel_active_attempt row' current n token t (Some (clock 1)) db = Inr (j, db')"
      unfolding acknowledge_cancellation_def by (auto simp: result_simps split: if_splits)
    from cancel_active_stored[OF _ jobs_constraints_inv[OF inv] f] rest
      lock_active_lease_Inr(1,2)[OF lock f] show ?thesis by simp
  qed
qed

lemma complete_transaction_stored:
  assumes inv: "db_inv db"
    and op: "complete_transaction clock jid n token kind rid identical find_stored put db = Inr (j, db')"
    and pub: "\<And>d u d'. put d = Inr (u, d') \<Longrightarrow> jobs_table d' = jobs_table d"
  shows "job_of db' jid = Some j"
proof -
  from op obtain row where f: "find_job_row db jid = Some row" and rec: "job_record_of row = Inr (row_job row)"
    unfolding complete_transaction_def by (auto simp: result_simps job_record_of_Inr)
  show ?thesis
  proof (cases "job_status (row_job row) = SUCCEEDED")
    case True
    with op f rec have "j = row_job row" "db' = db"
      unfolding complete_transaction_def by (auto simp: result_simps)
    with f show ?thesis by (simp add: job_of_def)
  next
    case False
    let ?pub = "if find_stored db = None then put else lift_res (identical (find_stored db))"
    from op f rec False obtain row' current arow t where
      lock: "lock_active_lease clock db (Some row) jid n token = Inr (row', current, arow, t)"
      and rest: "(if job_status current = CANCEL_REQUESTED
        then cancel_active_attempt row' current n token t (Some (clock 1)) db
        else tbind ?pub (\<lambda>_. let transition_at = max t (job_updated_at current) in
          tbind (lift_res (transition_to current SUCCEEDED (at_utc transition_at) None None)) (\<lambda>succeeded.
          tbind (finish_attempt jid n token ATTEMPT_SUCCEEDED None transition_at (Some (clock 1)))
            (\<lambda>_. tbind (update_job row' succeeded) (\<lambda>_. treturn succeeded)))) db) = Inr (j, db')"
      unfolding complete_transaction_def Let_def by (auto simp: result_simps split: prod.splits)
    note L = lock_active_lease_Inr(1,2)[OF lock f]
    show ?thesis
    proof (cases "job_status current = CANCEL_REQUESTED")
      case True
      with rest L show ?thesis using cancel_active_stored[OF _ jobs_constraints_inv[OF inv] f] by simp
    next
      case False
      with rest obtain u db1 succeeded where p: "?pub db = Inr (u, db1)"
        and move: "transition_to current SUCCEEDED (at_utc (max t (job_updated_at current))) None None
          = Inr succeeded"
        and tail: "tbind (finish_attempt jid n token ATTEMPT_SUCCEEDED None
            (max t (job_updated_at current)) (Some (clock 1)))
            (\<lambda>_. tbind (update_job row' succeeded) (\<lambda>_. treturn succeeded)) db1 = Inr (j, db')"
        by (auto simp: Let_def result_simps)
      have jobs: "jobs_table db1 = jobs_table db" using p pub by (auto simp: result_simps split: if_splits)
      then have f': "find_job_row db1 jid = Some row" using f by (simp add: find_job_row_def)
      from finished_stored[OF tail[unfolded L(1)] _ f'] transition_to_frozen[OF move] L jobs
        jobs_constraints_inv[OF inv] show ?thesis by simp
    qed
  qed
qed

section \<open>Clients of the store\<close>

lemma advances_drain [advances_intros]: "advances (drain s t)"
proof (induction t)
  case (Finished r)
  show ?case by (simp add: advances_def)
next
  case (Reads f)
  show ?case
    unfolding advances_def
  proof (intro allI impI)
    fix w :: world assume inv: "db_inv (store w)"
    let ?w = "\<lparr>store = met s w, calls = Suc (calls w)\<rparr>"
    have steps: "store_step\<^sup>*\<^sup>* (store w) (store ?w)" "db_inv (store ?w)"
      using met_steps[OF inv] met_inv[OF inv] by simp_all
    obtain r w' where q: "query s Inr w = (r, w')" by (cases "query s Inr w")
    then have w': "w' = ?w" using query_world[of s Inr w] by simp
    show "store_step\<^sup>*\<^sup>* (store w) (store (snd (drain s (Reads f) w)))"
    proof (cases r)
      case (Inl e)
      with q w' steps show ?thesis by simp
    next
      case (Inr db)
      from advancesD[OF Reads.IH[OF rangeI[of f db]] steps(2)] q w' Inr steps(1)
      show ?thesis by simp
    qed
  qed
qed

lemma drain_Inr: "\<exists>r w'. drain s t w = (Inr r, w')"
  by (induction t arbitrary: w) (auto split: prod.splits sum.splits)

lemma advances_advance [advances_intros]: "advances (advance s t)"
proof (cases t)
  case (Finished r)
  then show ?thesis by (simp add: advances_def advance_def)
next
  case (Reads f)
  have "store (snd (advance s t w)) = store (snd (query s Inr w))" for w
    by (cases "query s Inr w") (auto simp: Reads advance_def split: sum.splits)
  then show ?thesis using advances_query[of s Inr] by (simp add: advances_def)
qed

lemma advance_Inr: "\<exists>t' w'. advance s t w = (Inr t', w')"
  by (cases t) (auto simp: advance_def split: prod.splits sum.splits)

lemma advances_settled [advances_intros]: "advances (settled_as c e st j)"
  unfolding settled_as_def by (intro advances_intros)

lemma advances_handler [advances_intros]:
  "advances m \<Longrightarrow> advances (acatch (settle_errors c) m)"
  by (rule advances_acatch) (auto simp: settle_errors_def intro: advances_intros split: if_splits)

lemma advances_settling [advances_intros]:
  "advances (heartbeat k c)" "advances (work_fail k c code)" "advances (retry_or_exhaust k c)"
  "advances (handle_heartbeat_signal k c signal)"
proof -
  show f: "advances (work_fail k c code)" for code unfolding work_fail_def by (intro advances_intros)
  show "advances (heartbeat k c)"
    unfolding heartbeat_def
    by (rule advances_acatch) (auto intro!: advances_intros split: if_splits)
  show "advances (retry_or_exhaust k c)" unfolding retry_or_exhaust_def by (intro advances_intros f)
  show "advances (handle_heartbeat_signal k c signal)"
    unfolding handle_heartbeat_signal_def by (cases signal) (auto intro!: advances_intros)
qed

lemma advances_publish [advances_intros]: "advances (publish k c ev)"
proof -
  have "store_operation (publication k c ev n)" for n
    by (cases ev) (simp_all add: publication_def complete_run_op.store_operation_axioms
      complete_decision_op.store_operation_axioms)
  then have "advances (call (leased_store k) (publication k c ev))" by (rule advances_call)
  then show ?thesis
    unfolding publish_def
    by (intro advances_acatch advances_intros)
      (auto simp: settle_errors_def intro: advances_intros split: if_splits)
qed

lemma advances_race [advances_intros]: "advances (race k c ticks t)"
  by (induction k c ticks t rule: race.induct)
    (auto simp del: act_simps intro!: advances_intros)

lemma advances_process [advances_intros]: "advances (process k ticks c)"
proof -
  have "advances (conclude k c r)" for r
    unfolding conclude_def by (cases r) (auto intro!: advances_intros)
  then show ?thesis
    unfolding process_def by (intro advances_intros) (auto intro!: advances_intros split: sum.split)
qed

interpretation worker_client: client_action "run_once k ticks" for k ticks
  by unfold_locales (unfold run_once_def, intro advances_intros)

section \<open>Outcomes are true\<close>

definition reported :: "db \<Rightarrow> worker_result \<Rightarrow> bool" where
  "reported db r \<longleftrightarrow> (let holds = \<lambda>p. \<exists>j. map_option (job_of db) (result_job_id r) = Some (Some j) \<and> p j in
     case result_status r of
       IDLE \<Rightarrow> result_job_id r = None
     | WORK_SUCCEEDED \<Rightarrow> holds (\<lambda>j. job_status j = SUCCEEDED \<and> has_evidence db j)
     | WORK_RETRY_SCHEDULED \<Rightarrow> holds (\<lambda>j. job_status j = QUEUED \<and> attempt_count j < max_attempts j)
     | WORK_FAILED \<Rightarrow> holds (\<lambda>j. job_status j = FAILED \<and> job_error_code j \<noteq> None)
     | WORK_CANCELED \<Rightarrow> holds (\<lambda>j. job_status j = CANCELED)
     | WORK_LEASE_LOST \<Rightarrow> True)"

lemma reported_outcome:
  "reported db (outcome c st) \<longleftrightarrow> (let j = job_of db (job_id (claimed c)) in
     case st of
       IDLE \<Rightarrow> False
     | WORK_SUCCEEDED \<Rightarrow> \<exists>x. j = Some x \<and> job_status x = SUCCEEDED \<and> has_evidence db x
     | WORK_RETRY_SCHEDULED \<Rightarrow> \<exists>x. j = Some x \<and> job_status x = QUEUED \<and> attempt_count x < max_attempts x
     | WORK_FAILED \<Rightarrow> \<exists>x. j = Some x \<and> job_status x = FAILED \<and> job_error_code x \<noteq> None
     | WORK_CANCELED \<Rightarrow> \<exists>x. j = Some x \<and> job_status x = CANCELED
     | WORK_LEASE_LOST \<Rightarrow> True)"
  by (auto simp: reported_def outcome_def Let_def split: worker_status.split)

lemma stored_evidence: "db_inv db \<Longrightarrow> job_of db jid = Some j \<Longrightarrow> job_status j = SUCCEEDED \<Longrightarrow> has_evidence db j"
proof -
  assume inv: "db_inv db" and j: "job_of db jid = Some j" "job_status j = SUCCEEDED"
  from j(1) obtain row where row: "find_job_row db jid = Some row" "j = row_job row"
    by (auto simp: job_of_def)
  from db_inv_job[OF inv find_job_row_Some[OF row(1), THEN conjunct1]] row j show "has_evidence db j"
    by (simp add: job_row_inv_def)
qed

text \<open>The end of a settling call: an outcome that the handler or the returned job decides.\<close>

lemma settling_reported:
  assumes "acatch (settle_errors c) (abind (call s operation) (settled_as c expected_status st)) w = (Inr r, w')"
    and ok: "\<And>j. operation (calls w) (met s w) = Inr (j, store w') \<Longrightarrow>
      job_of (store w') (job_id (claimed c)) = Some j \<and>
      (job_status j = expected_status \<longrightarrow> reported (store w') (outcome c st))"
  shows "reported (store w') r"
proof -
  from assms(1) consider j w1 where "call s operation w = (Inr j, w1)" "settled_as c expected_status st j w1 = (Inr r, w')"
    | "r = outcome c WORK_LEASE_LOST"
    by (auto simp: acatch_Inr_iff abind_Inr_iff settle_errors_def split: if_splits)
  then show ?thesis
  proof cases
    case (1 j w1)
    then have "w' = w1" "job_status j = CANCELED \<and> r = outcome c WORK_CANCELED \<or>
        job_status j = expected_status \<and> r = outcome c st"
      by (auto simp: settled_as_def split: if_splits)
    with 1(1) ok[of j] show ?thesis by (auto simp: call_Inr reported_outcome)
  next
    case 2
    then show ?thesis by (simp add: reported_outcome)
  qed
qed

lemma work_fail_reported:
  assumes "db_inv (store w)" "work_fail k c code w = (Inr r, w')"
  shows "reported (store w') r"
proof (rule settling_reported[OF assms(2)[unfolded work_fail_def]])
  let ?db = "met (leased_store k) w"
  fix j assume op: "fail_job (statement_clock (leased_store k) (calls w)) (job_id (claimed c))
      (attempt_number (claimed_attempt c)) (claimed_token c) code ?db = Inr (j, store w')"
  note inv = met_inv[OF assms(1), of "leased_store k"]
  note stored = fail_job_stored[OF inv op]
  show "job_of (store w') (job_id (claimed c)) = Some j \<and>
      (job_status j = FAILED \<longrightarrow> reported (store w') (outcome c WORK_FAILED))"
    using stored fail_job_Inr(3)[OF inv op] by (auto simp: reported_outcome)
qed

lemma retry_reported:
  assumes "db_inv (store w)" "retry_or_exhaust k c w = (Inr r, w')"
  shows "reported (store w') r"
proof (cases "attempt_count (claimed c) \<ge> max_attempts (claimed c)")
  case True
  with assms work_fail_reported show ?thesis by (simp add: retry_or_exhaust_def)
next
  case False
  with assms(2) have "acatch (settle_errors c)
        (abind (call (leased_store k) (\<lambda>n. retry_job (statement_clock (leased_store k) n)
            (job_id (claimed c)) (attempt_number (claimed_attempt c)) (claimed_token c)
            (backoff k c) ''transient_execution_failure''))
          (settled_as c QUEUED WORK_RETRY_SCHEDULED)) w = (Inr r, w')"
    by (simp add: retry_or_exhaust_def)
  then show ?thesis
  proof (rule settling_reported)
    fix j assume op: "retry_job (statement_clock (leased_store k) (calls w)) (job_id (claimed c))
      (attempt_number (claimed_attempt c)) (claimed_token c) (backoff k c) ''transient_execution_failure''
      (met (leased_store k) w) = Inr (j, store w')"
    note inv = met_inv[OF assms(1), of "leased_store k"]
    show "job_of (store w') (job_id (claimed c)) = Some j \<and>
        (job_status j = QUEUED \<longrightarrow> reported (store w') (outcome c WORK_RETRY_SCHEDULED))"
      using retry_job_stored[OF inv op] retry_job_Inr(3)[OF inv op] by (auto simp: reported_outcome)
  qed
qed

lemma publication_stored:
  assumes inv: "db_inv db" and op: "publication k c ev n db = Inr (j, db')"
  shows "job_of db' (job_id (claimed c)) = Some j" "db_inv db'" "job_status j \<in> {SUCCEEDED, CANCELED}"
proof -
  let ?clock = "statement_clock (leased_store k) n"
  have "job_of db' (job_id (claimed c)) = Some j \<and> store_step\<^sup>*\<^sup>* db db' \<and> job_status j \<in> {SUCCEEDED, CANCELED}"
  proof (cases ev)
    case (RunEvidence r)
    with op have run: "complete_run (leased_config k) ?clock (job_id (claimed c)) r
        (attempt_number (claimed_attempt c)) (claimed_token c) db = Inr (j, db')"
      by (simp add: publication_def)
    have "job_of db' (job_id (claimed c)) = Some j"
      using run unfolding complete_run_def
      by (auto simp: result_simps intro!: complete_transaction_stored[OF inv] dest: insert_run_Inr)
    moreover have "store_step\<^sup>*\<^sup>* db db' \<and> job_status j \<in> {SUCCEEDED, CANCELED}"
      by (rule complete_run_Inr[OF inv run]) auto
    ultimately show ?thesis by blast
  next
    case (DecisionEvidence d)
    with op have dec: "complete_release_decision (leased_config k) ?clock (job_id (claimed c)) d
        (attempt_number (claimed_attempt c)) (claimed_token c) db = Inr (j, db')"
      by (simp add: publication_def)
    have "job_of db' (job_id (claimed c)) = Some j"
      using dec unfolding complete_release_decision_def
      by (auto simp: result_simps intro!: complete_transaction_stored[OF inv] dest: insert_decision_Inr)
    moreover have "store_step\<^sup>*\<^sup>* db db' \<and> job_status j \<in> {SUCCEEDED, CANCELED}"
      by (rule complete_release_decision_Inr[OF inv dec]) auto
    ultimately show ?thesis by blast
  qed
  then show "job_of db' (job_id (claimed c)) = Some j" "db_inv db'" "job_status j \<in> {SUCCEEDED, CANCELED}"
    using store_steps_inv inv by blast+
qed

lemma publish_reported:
  assumes inv: "db_inv (store w)" and run: "publish k c ev w = (Inr r, w')"
  shows "reported (store w') r"
proof -
  let ?m = "abind (call (leased_store k) (publication k c ev)) (settled_as c SUCCEEDED WORK_SUCCEEDED)"
  obtain x w1 where m: "?m w = (x, w1)" by (cases "?m w")
  show ?thesis
  proof (cases "\<exists>e. x = Inl e \<and> \<not> is_lease_lost_error e \<and> is_store_conflict_error e")
    case True
    then obtain e where e: "x = Inl e" "\<not> is_lease_lost_error e" "is_store_conflict_error e" by blast
    with run m have f: "work_fail k c ''evidence_conflict'' w1 = (Inr r, w')"
      by (simp add: publish_def acatch_def)
    have "store_operation (publication k c ev n)" for n
      by (cases ev) (simp_all add: publication_def complete_run_op.store_operation_axioms
        complete_decision_op.store_operation_axioms)
    then have "advances ?m" by (intro advances_abind advances_call advances_settled)
    from advances_inv[OF this inv] m have "db_inv (store w1)" by simp
    from work_fail_reported[OF this f] show ?thesis .
  next
    case False
    then have "acatch (settle_errors c) ?m w = (Inr r, w')"
      using run m by (cases x) (auto simp: publish_def acatch_def split: if_splits)
    then show ?thesis
    proof (rule settling_reported)
      fix j assume op: "publication k c ev (calls w) (met (leased_store k) w) = Inr (j, store w')"
      note P = publication_stored[OF met_inv[OF inv] op]
      show "job_of (store w') (job_id (claimed c)) = Some j \<and>
          (job_status j = SUCCEEDED \<longrightarrow> reported (store w') (outcome c WORK_SUCCEEDED))"
        using P stored_evidence[OF P(2,1)] by (auto simp: reported_outcome)
    qed
  qed
qed

lemma signal_reported:
  assumes inv: "db_inv (store w)" and run: "handle_heartbeat_signal k c signal w = (Inr r, w')"
  shows "reported (store w') r"
proof (cases signal)
  case SIGNAL_CANCEL
  let ?op = "\<lambda>n. acknowledge_cancellation (statement_clock (leased_store k) n) (job_id (claimed c))
      (attempt_number (claimed_attempt c)) (claimed_token c)"
  from run SIGNAL_CANCEL consider j where "call (leased_store k) ?op w = (Inr j, w')" "r = outcome c WORK_CANCELED"
      "job_status j = CANCELED"
    | "r = outcome c WORK_LEASE_LOST"
    by (auto simp: handle_heartbeat_signal_def acatch_Inr_iff abind_Inr_iff settle_errors_def split: if_splits)
  then show ?thesis
  proof cases
    case (1 j)
    from 1(1) have "?op (calls w) (met (leased_store k) w) = Inr (j, store w')" by (simp add: call_Inr)
    from acknowledge_stored[OF met_inv[OF inv] this] 1(2,3) show ?thesis by (simp add: reported_outcome)
  next
    case 2
    then show ?thesis by (simp add: reported_outcome)
  qed
qed (use run in \<open>auto simp: handle_heartbeat_signal_def reported_outcome\<close>)

lemma conclude_reported:
  assumes "db_inv (store w)" "conclude k c x w = (Inr r, w')"
  shows "reported (store w') r"
  using assms
  by (cases x) (auto simp: conclude_def split: if_splits
    intro: retry_reported work_fail_reported publish_reported)

lemma process_reported:
  assumes inv: "db_inv (store w)" and run: "process k ticks c w = (Inr r, w')"
  shows "reported (store w') r"
proof -
  from run obtain first w1 where race: "race k c ticks (build_evidence k c) w = (Inr first, w1)"
    and rest: "(case first of Inl signal \<Rightarrow> handle_heartbeat_signal k c signal
      | Inr x \<Rightarrow> abind (heartbeat k c) (\<lambda>signal. if signal \<noteq> SIGNAL_CONTINUE
          then handle_heartbeat_signal k c signal else conclude k c x)) w1 = (Inr r, w')"
    by (auto simp: process_def abind_Inr_iff)
  have inv1: "db_inv (store w1)" using advances_inv[OF advances_race inv] race by (metis snd_conv)
  show ?thesis
  proof (cases first)
    case (Inl signal)
    with rest signal_reported[OF inv1] show ?thesis by simp
  next
    case (Inr x)
    with rest obtain signal w2 where hb: "heartbeat k c w1 = (Inr signal, w2)"
      and fin: "(if signal \<noteq> SIGNAL_CONTINUE then handle_heartbeat_signal k c signal else conclude k c x) w2
        = (Inr r, w')"
      by (auto simp: abind_Inr_iff)
    have inv2: "db_inv (store w2)"
      using advances_inv[OF advances_settling(1) inv1] hb by (metis snd_conv)
    from fin show ?thesis
      using signal_reported[OF inv2] conclude_reported[OF inv2] by (auto split: if_splits)
  qed
qed

lemma run_once_cases:
  assumes "run_once k ticks w = (Inr r, w')"
  obtains (idle) token where "r = \<lparr>result_status = IDLE, result_job_id = None, result_attempt = None\<rparr>"
      "claim_next_job (leased_config k) (statement_clock (leased_store k) (calls w))
      (locked_rows (leased_store k) (calls w)) (worker_name k) token (lease_secs k)
      (met (leased_store k) w) = Inr (None, store w')"
  | (mismatch) c w1 where "claim_next_job (leased_config k) (statement_clock (leased_store k) (calls w))
      (locked_rows (leased_store k) (calls w)) (worker_name k) (claimed_token c) (lease_secs k)
      (met (leased_store k) w) = Inr (Some c, store w1)" "work_fail k c ''invalid_job_payload'' w1 = (Inr r, w')"
  | (work) c w1 where "claim_next_job (leased_config k) (statement_clock (leased_store k) (calls w))
      (locked_rows (leased_store k) (calls w)) (worker_name k) (claimed_token c) (lease_secs k)
      (met (leased_store k) w) = Inr (Some c, store w1)" "process k ticks c w1 = (Inr r, w')"
proof -
  from assms obtain token claim w1 where
    call: "call (leased_store k) (\<lambda>n. claim_next_job (leased_config k) (statement_clock (leased_store k) n)
        (locked_rows (leased_store k) n) (worker_name k) token (lease_secs k)) w = (Inr claim, w1)"
    and rest: "(case claim of None \<Rightarrow> areturn \<lparr>result_status = IDLE, result_job_id = None, result_attempt = None\<rparr>
      | Some c \<Rightarrow> abind (alift (validate_claim c token)) (\<lambda>_.
         if job_kind (claimed c) \<noteq> payload_kind (claimed_payload c)
         then work_fail k c ''invalid_job_payload'' else process k ticks c)) w1 = (Inr r, w')"
    unfolding run_once_def by (auto simp: act_iffs)
  show thesis
  proof (cases claim)
    case None
    with rest call idle show thesis by (auto simp: call_Inr)
  next
    case (Some c)
    with rest have token: "claimed_token c = token"
      and go: "(if job_kind (claimed c) \<noteq> payload_kind (claimed_payload c)
         then work_fail k c ''invalid_job_payload'' else process k ticks c) w1 = (Inr r, w')"
      by (auto simp: act_iffs validate_claim_def result_simps)
    from call Some token go mismatch work show thesis by (auto simp: call_Inr split: if_splits)
  qed
qed

text \<open>A worker that claimed a job never reports itself idle.\<close>

lemma settling_status:
  "acatch (settle_errors c) (abind m (settled_as c e st)) w = (Inr r, w') \<Longrightarrow> st \<noteq> IDLE \<Longrightarrow> result_status r \<noteq> IDLE"
  by (auto simp: acatch_Inr_iff abind_Inr_iff settle_errors_def settled_as_def outcome_def split: if_splits)

lemma work_fail_status: "work_fail k c code w = (Inr r, w') \<Longrightarrow> result_status r \<noteq> IDLE"
  unfolding work_fail_def by (erule settling_status) simp

lemma work_fail_not_retry:
  "work_fail k c code w = (Inr r, w') \<Longrightarrow> result_status r \<noteq> WORK_RETRY_SCHEDULED"
  by (auto simp: work_fail_def acatch_Inr_iff abind_Inr_iff settle_errors_def settled_as_def outcome_def
      split: if_splits)

lemma retry_status:
  assumes "retry_or_exhaust k c w = (Inr r, w')"
  shows "result_status r \<noteq> IDLE"
proof (cases "max_attempts (claimed c) \<le> attempt_count (claimed c)")
  case True
  with assms show ?thesis using work_fail_status[of k c _ w r w'] by (simp add: retry_or_exhaust_def)
next
  case False
  with assms have "acatch (settle_errors c) (abind (call (leased_store k)
      (\<lambda>n. retry_job (statement_clock (leased_store k) n) (job_id (claimed c))
        (attempt_number (claimed_attempt c)) (claimed_token c) (backoff k c) ''transient_execution_failure''))
      (settled_as c QUEUED WORK_RETRY_SCHEDULED)) w = (Inr r, w')"
    by (simp add: retry_or_exhaust_def)
  then show ?thesis by (rule settling_status) simp
qed

lemma publish_status: "publish k c ev w = (Inr r, w') \<Longrightarrow> result_status r \<noteq> IDLE"
  using work_fail_status[of k c "''evidence_conflict''" _ r w']
  by (auto simp: publish_def acatch_Inr_iff abind_Inr_iff settle_errors_def settled_as_def outcome_def
      split: if_splits)

lemma signal_status: "handle_heartbeat_signal k c signal w = (Inr r, w') \<Longrightarrow> result_status r \<noteq> IDLE"
  by (auto simp: handle_heartbeat_signal_def acatch_Inr_iff abind_Inr_iff settle_errors_def outcome_def
      split: if_splits heartbeat_signal.splits)

lemma conclude_status: "conclude k c x w = (Inr r, w') \<Longrightarrow> result_status r \<noteq> IDLE"
  using work_fail_status[of k c _ w r w'] publish_status[of k c _ w r w'] retry_status[of k c w r w']
  by (cases x) (auto simp: conclude_def split: if_splits)

lemma process_status:
  assumes "process k ticks c w = (Inr r, w')"
  shows "result_status r \<noteq> IDLE"
proof -
  from assms obtain first w1 where
    "(case first of Inl signal \<Rightarrow> handle_heartbeat_signal k c signal
      | Inr x \<Rightarrow> abind (heartbeat k c) (\<lambda>signal. if signal \<noteq> SIGNAL_CONTINUE
          then handle_heartbeat_signal k c signal else conclude k c x)) w1 = (Inr r, w')"
    by (auto simp: process_def abind_Inr_iff)
  then show ?thesis
    using signal_status[of k c _ _ r w'] conclude_status[of k c _ _ r w']
    by (cases first) (auto simp: abind_Inr_iff split: if_splits)
qed

section \<open>Exceptions of the worker\<close>

definition fails_with :: "(exn \<Rightarrow> bool) \<Rightarrow> 'a act \<Rightarrow> bool" where
  "fails_with P m \<longleftrightarrow> (\<forall>w e w'. db_inv (store w) \<longrightarrow> m w = (Inl e, w') \<longrightarrow> P e)"

named_theorems fails_intros \<open>exception classes of actions\<close>

lemma fails_areturn [fails_intros]: "fails_with P (areturn x)"
  by (simp add: fails_with_def)

lemma fails_araise [fails_intros]: "P e \<Longrightarrow> fails_with P (araise e)"
  by (simp add: fails_with_def)

lemma fails_abind:
  assumes "fails_with P m" "advances m" "\<And>x. fails_with P (f x)"
  shows "fails_with P (abind m f)"
  unfolding fails_with_def
proof (intro allI impI)
  fix w e w' assume inv: "db_inv (store w)" and "abind m f w = (Inl e, w')"
  then consider "m w = (Inl e, w')" | x w1 where "m w = (Inr x, w1)" "f x w1 = (Inl e, w')"
    by (auto simp: abind_Inl_iff)
  then show "P e"
  proof cases
    case 1
    with assms(1) inv show ?thesis by (auto simp: fails_with_def)
  next
    case (2 x w1)
    from advances_inv[OF assms(2) inv] 2(1) have "db_inv (store w1)" by simp
    with assms(3)[of x] 2(2) show ?thesis by (auto simp: fails_with_def)
  qed
qed

lemma fails_if [fails_intros]:
  "(c \<Longrightarrow> fails_with P a) \<Longrightarrow> (\<not> c \<Longrightarrow> fails_with P b) \<Longrightarrow> fails_with P (if c then a else b)"
  by simp

lemma fails_acatch:
  assumes "fails_with Q m" "advances m"
    "\<And>e. Q e \<Longrightarrow> case h e of None \<Rightarrow> P e | Some k \<Rightarrow> fails_with P k"
  shows "fails_with P (acatch h m)"
  unfolding fails_with_def
proof (intro allI impI)
  fix w e w' assume inv: "db_inv (store w)" and "acatch h m w = (Inl e, w')"
  then obtain x w1 where x: "m w = (Inl x, w1)"
    "case h x of None \<Rightarrow> e = x \<and> w' = w1 | Some k \<Rightarrow> k w1 = (Inl e, w')"
    by (auto simp: acatch_Inl_iff)
  from assms(1) inv x(1) have "Q x" by (auto simp: fails_with_def)
  moreover have "db_inv (store w1)" using advances_inv[OF assms(2) inv] x(1) by simp
  ultimately show "P e" using assms(3)[of x] x(2) by (auto simp: fails_with_def split: option.splits)
qed

lemma call_Inl:
  assumes "call s operation w = (Inl e, w')" "\<And>n db. raises is_store_error (operation n db)"
  shows "is_store_error e"
proof -
  from assms(1) consider "operation (calls w) (met s w) = Inl e" | m where "e = ControlPlaneRepositoryError m"
    by (auto simp: call_def Let_def result_simps split: delivery.splits prod.splits)
  then show ?thesis by cases (auto dest: raisesD[OF assms(2)])
qed

text \<open>A claim the store handed out, as far as the store's argument checks depend on it.\<close>

definition well_claimed :: "claimed_job \<Rightarrow> bool" where
  "well_claimed c \<longleftrightarrow> 1 \<le> attempt_number (claimed_attempt c) \<and> attempt_number (claimed_attempt c) \<le> 10 \<and>
     is_lease_token (claimed_token c)"

abbreviation unavailable :: "exn \<Rightarrow> bool" where
  "unavailable e \<equiv> e = WorkerUnavailableError"

lemma new_worker_Inr:
  assumes "new_worker k = Inr k'"
  shows "is_stable_id (worker_name k)" "5 \<le> lease_secs k" "lease_secs k \<le> 3600"
    "1 \<le> backoff_base k" "backoff_base k \<le> backoff_max k" "backoff_max k \<le> 3600"
  using assms by (auto simp: new_worker_def Let_def result_simps)

lemma backoff_bounds:
  assumes "new_worker k = Inr k'"
  shows "1 \<le> backoff k c" "backoff k c \<le> backoff_max k"
proof -
  note K = new_worker_Inr[OF assms]
  have "1 * 1 \<le> backoff_base k * 2 ^ nat (attempt_count (claimed c) - 1)"
    by (rule mult_mono) (use K in auto)
  with K show "1 \<le> backoff k c" "backoff k c \<le> backoff_max k" by (auto simp: backoff_def)
qed

lemma safe_codes [simp]:
  "is_safe_code ''retry_exhausted''" "is_safe_code ''invalid_job_payload''"
  "is_safe_code ''dependency_not_found''" "is_safe_code ''comparison_failed''"
  "is_safe_code ''execution_failed''" "is_safe_code ''evidence_conflict''"
  "is_safe_code ''transient_execution_failure''"
  by (simp_all add: is_safe_code_def matches_def is_lower_def is_digit_def less_eq_char_def)

text \<open>The record a settling call returns is canceled or what was asked for, so no branch is unexpected.\<close>

lemma fails_settling:
  assumes "\<And>n db. raises is_store_error (operation n db)"
    "\<And>n db j db'. db_inv db \<Longrightarrow> operation n db = Inr (j, db') \<Longrightarrow> job_status j \<in> {CANCELED, expected_status}"
  shows "fails_with (\<lambda>e. is_store_error e \<or> unavailable e)
    (abind (call s operation) (settled_as c expected_status st))"
  unfolding fails_with_def
proof (intro allI impI)
  fix w e w' assume inv: "db_inv (store w)"
    and "abind (call s operation) (settled_as c expected_status st) w = (Inl e, w')"
  then consider "call s operation w = (Inl e, w')"
    | j w1 where "call s operation w = (Inr j, w1)" "settled_as c expected_status st j w1 = (Inl e, w')"
    by (auto simp: abind_Inl_iff)
  then show "is_store_error e \<or> unavailable e"
  proof cases
    case 1
    with call_Inl assms(1) show ?thesis by blast
  next
    case (2 j w1)
    then have "operation (calls w) (met s w) = Inr (j, store w1)" by (simp add: call_Inr)
    from assms(2)[OF met_inv[OF inv] this] 2(2) show ?thesis
      by (auto simp: settled_as_def split: if_splits)
  qed
qed

lemma fails_handled:
  "fails_with (\<lambda>e. is_store_error e \<or> unavailable e) m \<Longrightarrow> advances m \<Longrightarrow>
   fails_with unavailable (acatch (settle_errors c) m)"
  by (rule fails_acatch[where Q = "\<lambda>e. is_store_error e \<or> unavailable e"])
    (auto simp: settle_errors_def intro: fails_intros)

lemma work_fail_fails:
  assumes "well_claimed c" "is_safe_code code"
  shows "fails_with unavailable (work_fail k c code)"
  unfolding work_fail_def
proof (intro fails_handled fails_settling advances_intros)
  show "raises is_store_error (fail_job (statement_clock (leased_store k) n) (job_id (claimed c))
      (attempt_number (claimed_attempt c)) (claimed_token c) code db)" for n db
    using assms by (simp add: well_claimed_def fail_job_raises)
  show "job_status j \<in> {CANCELED, FAILED}"
    if "db_inv db" "fail_job (statement_clock (leased_store k) n) (job_id (claimed c))
      (attempt_number (claimed_attempt c)) (claimed_token c) code db = Inr (j, db')" for n db j db'
    using fail_job_Inr(3)[OF that] by auto
qed

lemma retry_fails:
  assumes "well_claimed c" "new_worker k = Inr k'"
  shows "fails_with unavailable (retry_or_exhaust k c)"
  unfolding retry_or_exhaust_def
proof (intro fails_if fails_handled fails_settling advances_intros work_fail_fails assms(1))
  show "raises is_store_error (retry_job (statement_clock (leased_store k) n) (job_id (claimed c))
      (attempt_number (claimed_attempt c)) (claimed_token c) (backoff k c) ''transient_execution_failure'' db)" for n db
    using assms(1) backoff_bounds[OF assms(2), of c] new_worker_Inr(6)[OF assms(2)]
    by (intro retry_job_raises) (auto simp: well_claimed_def)
  show "job_status j \<in> {CANCELED, QUEUED}"
    if "db_inv db" "retry_job (statement_clock (leased_store k) n) (job_id (claimed c))
      (attempt_number (claimed_attempt c)) (claimed_token c) (backoff k c) ''transient_execution_failure'' db
      = Inr (j, db')" for n db j db'
    using retry_job_Inr(3)[OF that] by auto
qed simp

lemma publish_fails:
  assumes "well_claimed c" "serialises (leased_config k)"
  shows "fails_with unavailable (publish k c ev)"
  unfolding publish_def
proof (rule fails_acatch[where Q = "\<lambda>e. is_store_error e \<or> unavailable e"])
  have raise: "raises is_store_error (publication k c ev n db)" for n db
    using assms by (cases ev)
      (simp_all add: publication_def complete_run_raises complete_release_decision_raises well_claimed_def)
  show "fails_with (\<lambda>e. is_store_error e \<or> unavailable e)
      (abind (call (leased_store k) (publication k c ev)) (settled_as c SUCCEEDED WORK_SUCCEEDED))"
    by (rule fails_settling[OF raise]) (use publication_stored(3) in blast)
  have "store_operation (publication k c ev n)" for n
    by (cases ev) (simp_all add: publication_def complete_run_op.store_operation_axioms
      complete_decision_op.store_operation_axioms)
  then show "advances (abind (call (leased_store k) (publication k c ev)) (settled_as c SUCCEEDED WORK_SUCCEEDED))"
    by (intro advances_abind advances_call advances_settled)
qed (auto simp: settle_errors_def work_fail_fails[OF assms(1)] intro: fails_intros)

lemma fails_call_bind:
  assumes "\<And>n db. raises is_store_error (operation n db)"
  shows "fails_with is_store_error (abind (call s operation) (\<lambda>j. areturn (f j)))"
  unfolding fails_with_def using call_Inl[OF _ assms] by (auto simp: abind_Inl_iff)

lemma heartbeat_fails:
  assumes "well_claimed c" "new_worker k = Inr k'"
  shows "fails_with unavailable (heartbeat k c)"
  unfolding heartbeat_def
proof (rule fails_acatch[OF fails_call_bind])
  show "raises is_store_error (heartbeat_job (statement_clock (leased_store k) n) (job_id (claimed c))
      (attempt_number (claimed_attempt c)) (claimed_token c) (lease_secs k) db)" for n db
    using assms new_worker_Inr[OF assms(2)] by (simp add: heartbeat_job_raises well_claimed_def)
qed (auto intro!: advances_intros fails_intros)

lemma signal_fails:
  assumes "well_claimed c" "signal \<noteq> SIGNAL_CONTINUE"
  shows "fails_with unavailable (handle_heartbeat_signal k c signal)"
proof (cases signal)
  case SIGNAL_CANCEL
  let ?op = "\<lambda>n. acknowledge_cancellation (statement_clock (leased_store k) n) (job_id (claimed c))
      (attempt_number (claimed_attempt c)) (claimed_token c)"
  let ?m = "abind (call (leased_store k) ?op) (\<lambda>j. if job_status j \<noteq> CANCELED then araise WorkerInvariantError
      else areturn (outcome c WORK_CANCELED))"
  have raise: "raises is_store_error (?op n db)" for n db
    using assms by (simp add: acknowledge_raises well_claimed_def)
  have "fails_with (\<lambda>e. is_store_error e \<or> unavailable e) ?m"
    unfolding fails_with_def
  proof (intro allI impI)
    fix w e w' assume inv: "db_inv (store w)" and "?m w = (Inl e, w')"
    then consider "call (leased_store k) ?op w = (Inl e, w')"
      | j w1 where "call (leased_store k) ?op w = (Inr j, w1)" "job_status j \<noteq> CANCELED"
      by (auto simp: abind_Inl_iff split: if_splits)
    then show "is_store_error e \<or> unavailable e"
    proof cases
      case 1
      with call_Inl[where operation = ?op, OF 1 raise] show ?thesis by simp
    next
      case (2 j w1)
      from 2(1) have "?op (calls w) (met (leased_store k) w) = Inr (j, store w1)" by (simp add: call_Inr)
      from acknowledge_cancellation_Inr(2)[OF met_inv[OF inv] this] 2(2) show ?thesis by simp
    qed
  qed
  moreover have "advances ?m" by (intro advances_intros)
  ultimately show ?thesis
    unfolding handle_heartbeat_signal_def SIGNAL_CANCEL heartbeat_signal.case by (rule fails_handled)
qed (use assms(2) in \<open>auto simp: handle_heartbeat_signal_def fails_with_def\<close>)

lemma race_fails:
  assumes "well_claimed c" "new_worker k = Inr k'"
  shows "fails_with unavailable (race k c ticks t)"
proof (induction ticks arbitrary: t)
  case Nil
  have "fails_with unavailable (drain s x)" for s x
    unfolding fails_with_def by (metis drain_Inr Pair_inject sum.distinct(1))
  then show ?case by (simp del: act_simps, intro fails_abind fails_areturn advances_drain)
next
  case (Cons tick ticks)
  have "fails_with unavailable (advance s x)" for s x
    unfolding fails_with_def by (metis advance_Inr Pair_inject sum.distinct(1))
  then show ?case
    using Cons.IH heartbeat_fails[OF assms] advances_settling(1)[of k c]
    by (cases tick) (auto simp del: act_simps intro!: fails_abind fails_intros advances_advance)
qed

lemma race_signal: "race k c ticks t w = (Inr (Inl signal), w') \<Longrightarrow> signal \<noteq> SIGNAL_CONTINUE"
  by (induction k c ticks t arbitrary: w rule: race.induct) (auto simp: abind_Inr_iff split: if_splits)

lemma conclude_fails:
  assumes "well_claimed c" "new_worker k = Inr k'" "serialises (leased_config k)"
  shows "fails_with unavailable (conclude k c r)"
  using assms unfolding conclude_def
  by (cases r) (auto intro!: fails_intros work_fail_fails retry_fails publish_fails split: job_payload.split)

lemma process_fails:
  assumes "well_claimed c" "new_worker k = Inr k'" "serialises (leased_config k)"
    "db_inv (store w)" "process k ticks c w = (Inl e, w')"
  shows "e = WorkerUnavailableError"
proof -
  note race = race_fails[OF assms(1,2), of ticks "build_evidence k c"]
  from assms(5) consider "race k c ticks (build_evidence k c) w = (Inl e, w')"
    | first w1 where "race k c ticks (build_evidence k c) w = (Inr first, w1)"
      "(case first of Inl signal \<Rightarrow> handle_heartbeat_signal k c signal
        | Inr x \<Rightarrow> abind (heartbeat k c) (\<lambda>signal. if signal \<noteq> SIGNAL_CONTINUE
            then handle_heartbeat_signal k c signal else conclude k c x)) w1 = (Inl e, w')"
    by (auto simp: process_def abind_Inl_iff)
  then show ?thesis
  proof cases
    case 1
    with race assms(4) show ?thesis by (auto simp: fails_with_def)
  next
    case (2 first w1)
    have inv: "db_inv (store w1)" using advances_inv[OF advances_race assms(4)] 2(1) by (metis snd_conv)
    show ?thesis
    proof (cases first)
      case (Inl signal)
      with 2 race_signal signal_fails[OF assms(1), of signal k] inv show ?thesis
        by (auto simp: fails_with_def)
    next
      case (Inr x)
      have "fails_with unavailable (abind (heartbeat k c) (\<lambda>signal. if signal \<noteq> SIGNAL_CONTINUE
          then handle_heartbeat_signal k c signal else conclude k c x))"
        by (intro fails_abind fails_if heartbeat_fails[OF assms(1,2)] advances_intros
            signal_fails[OF assms(1)] conclude_fails[OF assms(1-3)])
      with 2(2) Inr inv show ?thesis by (auto simp: fails_with_def)
    qed
  qed
qed


lemma claim_well_claimed:
  assumes "db_inv db" "claim_next_job env clock locked worker token secs db = Inr (Some c, db')"
  shows "well_claimed c" "validate_claim c token = Inr ()" "job_kind (claimed c) = payload_kind (claimed_payload c)"
proof -
  have "well_claimed c \<and> validate_claim c token = Inr () \<and> job_kind (claimed c) = payload_kind (claimed_payload c)"
  proof (rule claim_next_job_Some[OF assms])
    fix row
    assume c: "claimed c = (row_job row)\<lparr>job_status := RUNNING, attempt_count := attempt_count (row_job row) + 1,
        job_error_code := None, job_updated_at := max (clock 1) (job_updated_at (row_job row))\<rparr>"
      and v: "valid_job (claimed c)" "attempt_count (row_job row) < max_attempts (row_job row)"
      and pay: "load_job_payload env db (row_job row) True = Inr (Some (claimed_payload c))"
      and t: "claimed_token c = token" "is_lease_token token"
      and att: "claimed_attempt c = \<lparr>attempt_job_id = row_job_id row,
        attempt_number = attempt_count (row_job row) + 1, attempt_status = ATTEMPT_RUNNING,
        attempt_error_code = None, started_at = clock 1, heartbeat_at = clock 1,
        lease_expires_at = clock 1 + seconds secs, finished_at = None\<rparr>"
    have "1 \<le> attempt_count (claimed c)" "attempt_count (claimed c) \<le> 10"
      using v c by (auto simp: valid_job_def job_fields_ok_def validate_state_ok_iff)
    with t att c have "well_claimed c" by (simp add: well_claimed_def)
    moreover have "validate_claim c token = Inr ()"
      using c t att by (simp add: validate_claim_def result_simps)
    moreover have "payload_kind (claimed_payload c) = job_kind (row_job row)"
      using pay by (auto simp: load_job_payload_def result_simps split: option.splits if_splits)
    ultimately show ?thesis using c by simp
  qed
  then show "well_claimed c" "validate_claim c token = Inr ()" "job_kind (claimed c) = payload_kind (claimed_payload c)"
    by blast+
qed

text \<open>A claimed job always reaches the processing step: the two checks in between hold of every claim.\<close>

lemma run_once_fails:
  assumes inv: "db_inv (store w)" and k: "new_worker k = Inr k'" "serialises (leased_config k)"
    and run: "run_once k ticks w = (Inl e, w')"
  shows "e = WorkerUnavailableError \<or>
    e = WorkerConfigurationError \<and> (\<forall>t. token_factory k = Some t \<longrightarrow> \<not> is_lease_token t)"
proof (cases "\<exists>t. token_factory k = Some t \<and> is_lease_token t")
  case False
  then show ?thesis using run by (cases "token_factory k") (auto simp: run_once_def abind_Inl_iff result_simps)
next
  case True
  then obtain t where t: "token_factory k = Some t" "is_lease_token t" by blast
  let ?claim = "\<lambda>n. claim_next_job (leased_config k) (statement_clock (leased_store k) n)
      (locked_rows (leased_store k) n) (worker_name k) t (lease_secs k)"
  let ?call = "acatch (translate is_store_error WorkerUnavailableError) (call (leased_store k) ?claim)"
  from run t consider "?call w = (Inl e, w')"
    | c w1 where "call (leased_store k) ?claim w = (Inr (Some c), w1)"
      "abind (alift (validate_claim c t)) (\<lambda>_. if job_kind (claimed c) \<noteq> payload_kind (claimed_payload c)
         then work_fail k c ''invalid_job_payload'' else process k ticks c) w1 = (Inl e, w')"
    by (auto simp: run_once_def abind_Inl_iff result_simps split: option.splits)
  then show ?thesis
  proof cases
    case 1
    note K = new_worker_Inr[OF k(1)]
    have "raises is_store_error (?claim n db)" for n db
      by (rule claim_next_job_raises[OF K(1) t(2) K(2,3)])
    with 1 call_Inl[where operation = ?claim] show ?thesis
      by (auto simp: acatch_Inl_iff split: option.splits)
  next
    case (2 c w1)
    from 2(1) have op: "?claim (calls w) (met (leased_store k) w) = Inr (Some c, store w1)" by (simp add: call_Inr)
    note C = claim_well_claimed[OF met_inv[OF inv] op]
    have "db_inv (store w1)"
      using advances_inv[OF _ inv, of "call (leased_store k) ?claim"] 2(1) by (simp add: advances_intros)
    moreover have "process k ticks c w1 = (Inl e, w')" using 2(2) C by (simp add: abind_Inl_iff)
    ultimately show ?thesis using process_fails[OF C(1) k] by blast
  qed
qed

end
