(* ===== verification/WorkerProperties.thy ===== *)
theory WorkerProperties
  imports WorkerFacts ServiceExample
begin

text \<open>
  The properties of the worker: the outcome it reports is the state of the store, the exceptions
  that leave it are the two it declares, and the delay of a retry is bounded.
\<close>

section \<open>A concrete worker\<close>

definition sample_session :: session where
  "sample_session = \<lparr>config = sample_env, others = \<lambda>_. [], statement_clock = \<lambda>_ _. 5,
     locked_rows = \<lambda>_ _. False, delivery = \<lambda>_. Delivered\<rparr>"

definition sample_worker :: worker where
  "sample_worker = \<lparr>leased_store = sample_session, worker_executor = refusing_executor,
     worker_name = ''worker-1'', lease_secs = 30, heartbeat_secs = 10, backoff_base = 1, backoff_max = 60,
     worker_clock = Some (Aware 5 0), token_factory = Some sample_token\<rparr>"

abbreviation sample_world :: world where
  "sample_world \<equiv> \<lparr>store = sample_db, calls = 0\<rparr>"

text \<open>Its claim takes job \<open>a\<close>, whose dataset is not stored.\<close>

definition claimed_a :: job_record where
  "claimed_a = (sample_job ''a'' QUEUED 0)\<lparr>job_status := RUNNING, attempt_count := 1, job_updated_at := 5\<rparr>"

definition claimed_attempt_row :: attempt_row where
  "claimed_attempt_row = \<lparr>row_attempt = \<lparr>attempt_job_id = ''a'', attempt_number = 1,
       attempt_status = ATTEMPT_RUNNING, attempt_error_code = None, started_at = 5, heartbeat_at = 5,
       lease_expires_at = 5 + seconds 30, finished_at = None\<rparr>,
     worker_id = ''worker-1'', lease_token = sample_token\<rparr>"

definition claimed_db :: db where
  "claimed_db = sample_db\<lparr>jobs_table :=
       \<lparr>row_job = claimed_a, row_version = 1\<rparr> # tl (jobs_table sample_db),
     job_attempts_table := job_attempts_table sample_db @ [claimed_attempt_row]\<rparr>"

definition the_claim :: claimed_job where
  "the_claim = \<lparr>claimed = claimed_a, claimed_payload = sample_payload,
     claimed_attempt = row_attempt claimed_attempt_row, claimed_token = sample_token\<rparr>"

lemma sample_claimable: "row \<in> set (jobs_table sample_db) \<Longrightarrow> claimable 5 l row \<Longrightarrow>
    row = \<lparr>row_job = sample_job ''a'' QUEUED 0, row_version = 0\<rparr>"
  by (auto simp: sample_db_def claimable_def)

lemma sample_payload_of_a:
  "load_job_payload sample_env sample_db (sample_job ''a'' QUEUED 0) True = Inr (Some sample_payload)"
  by (rule sample_payload_loads[where jid = "''a''"]) (simp_all add: sample_db_def)

lemma sample_claimed: "sample_claim sample_db = Inr (Some the_claim, claimed_db)"
proof -
  obtain c db' where run: "sample_claim sample_db = Inr (Some c, db')"
    using sample_claim_takes_a by blast
  show ?thesis
  proof (rule claim_next_job_Some[OF sample_db_inv run[unfolded sample_claim_def]])
    fix row
    assume r: "row \<in> set (jobs_table sample_db)" "claimable 5 (\<lambda>_. False) row"
      and c: "claimed c = (row_job row)\<lparr>job_status := RUNNING, attempt_count := attempt_count (row_job row) + 1,
         job_error_code := None, job_updated_at := max 5 (job_updated_at (row_job row))\<rparr>"
      and pay: "load_job_payload sample_env sample_db (row_job row) True = Inr (Some (claimed_payload c))"
      and tok: "claimed_token c = sample_token"
      and att: "claimed_attempt c = \<lparr>attempt_job_id = row_job_id row,
         attempt_number = attempt_count (row_job row) + 1, attempt_status = ATTEMPT_RUNNING,
         attempt_error_code = None, started_at = 5, heartbeat_at = 5,
         lease_expires_at = 5 + seconds 30, finished_at = None\<rparr>"
      and db': "db' = sample_db\<lparr>jobs_table := replace_job row (claimed c) (jobs_table sample_db),
         job_attempts_table := job_attempts_table sample_db @
           [\<lparr>row_attempt = claimed_attempt c, worker_id = ''worker-1'', lease_token = sample_token\<rparr>]\<rparr>"
    have row: "row = \<lparr>row_job = sample_job ''a'' QUEUED 0, row_version = 0\<rparr>"
      by (rule sample_claimable[OF r])
    have job: "claimed c = claimed_a" using c row by (simp add: claimed_a_def sample_job_def)
    have cc: "c = the_claim"
      using job pay tok att row sample_payload_of_a
      by (intro claimed_job.equality) (simp_all add: the_claim_def claimed_attempt_row_def)
    have "db' = claimed_db"
      using job att row
      by (simp add: db' claimed_db_def claimed_attempt_row_def replace_job_def sample_db_def)
    with run cc show ?thesis by simp
  qed
qed


lemma claimed_rows:
  "find_job_row claimed_db ''a'' = Some \<lparr>row_job = claimed_a, row_version = 1\<rparr>"
  "find_attempt_row claimed_db ''a'' 1 = Some claimed_attempt_row"
  by (simp_all add: find_job_row_def find_attempt_row_def claimed_db_def claimed_a_def claimed_attempt_row_def
      sample_db_def attempt_key_def)

lemma claimed_valid: "valid_job claimed_a"
  using sample_job_valid[of "''a''" 0 QUEUED]
  by (simp add: claimed_a_def valid_job_def job_fields_ok_def validate_state_ok_iff)

lemma claimed_lock:
  "lock_active_lease (\<lambda>_. 5) claimed_db (Some \<lparr>row_job = claimed_a, row_version = 1\<rparr>) ''a'' 1 sample_token
     = Inr (\<lparr>row_job = claimed_a, row_version = 1\<rparr>, claimed_a, claimed_attempt_row, 5)"
proof -
  have "job_record_of \<lparr>row_job = claimed_a, row_version = 1\<rparr> = Inr claimed_a"
    using claimed_valid by (simp add: job_record_of_Inr)
  moreover have "is_ok (attempt_record_of claimed_attempt_row)"
    by (simp add: attempt_record_of_ok attempt_valid_def claimed_attempt_row_def sample_token_ok
        failed_statuses_def seconds_def)
  then obtain a where "attempt_record_of claimed_attempt_row = Inr a" by (auto simp: is_ok_iff)
  ultimately show ?thesis
    by (simp add: lock_active_lease_def claimed_rows) (simp add: claimed_a_def claimed_attempt_row_def seconds_def)
qed

lemma claimed_heartbeat:
  "heartbeat_job (\<lambda>_. 5) ''a'' 1 sample_token 30 claimed_db = Inr (claimed_a, claimed_db)"
  using claimed_lock
  by (simp add: heartbeat_job_def bounded_int_def lease_token_value_def sample_token_ok claimed_rows
      sql_errors_def tbind_def)
     (simp add: update_attempts_def update_where_def row_count_def claimed_db_def sample_db_def
      claimed_attempt_row_def sample_attempt_def attempts_constraints_def attempt_row_ok_def attempt_key_def
      running_attempts_def failed_statuses_def seconds_def sample_token_def Let_def tbind_def)

definition failed_a :: job_record where
  "failed_a = claimed_a\<lparr>job_status := FAILED, job_error_code := Some ''dependency_not_found''\<rparr>"

lemma claimed_fail:
  "\<exists>db'. fail_job (\<lambda>_. 5) ''a'' 1 sample_token ''dependency_not_found'' claimed_db = Inr (failed_a, db')"
proof -
  have move: "transition_to claimed_a FAILED (at_utc 5) (Some ''dependency_not_found'') None = Inr failed_a"
  proof -
    have "valid_job failed_a"
      using sample_job_valid[of "''a''" 1 SUCCEEDED]
      by (simp add: failed_a_def claimed_a_def valid_job_def job_fields_ok_def validate_state_ok_iff)
        (simp add: sample_job_def)
    then show ?thesis
      by (simp add: transition_to_def next_schedule_def failed_a_def claimed_a_def sample_job_def)
  qed
  have "\<exists>db1. finish_attempt ''a'' 1 sample_token ATTEMPT_FAILED (Some ''dependency_not_found'') 5 (Some 5)
      claimed_db = Inr ((), db1) \<and> jobs_table db1 = jobs_table claimed_db"
    by (simp add: finish_attempt_def update_attempts_def update_where_def row_count_def tbind_def
        attempts_constraints_def claimed_db_def sample_db_def attempt_row_ok_def sample_attempt_def
        sample_token_def claimed_attempt_row_def attempt_key_def running_attempts_def failed_statuses_def
        seconds_def Let_def)
  then obtain db1 where fin: "finish_attempt ''a'' 1 sample_token ATTEMPT_FAILED
      (Some ''dependency_not_found'') 5 (Some 5) claimed_db = Inr ((), db1)"
    and jobs: "jobs_table db1 = jobs_table claimed_db" by blast
  have upd: "\<exists>db2. update_job \<lparr>row_job = claimed_a, row_version = 1\<rparr> failed_a db1 = Inr ((), db2)"
    by (simp add: update_job_def update_jobs_def update_where_def row_count_def jobs claimed_db_def
        jobs_constraints_def sample_db_def job_row_ok_def idempotency_index_def resource_index_def
        failed_a_def claimed_a_def Let_def tbind_def) (simp add: sample_job_def)
  have "job_status claimed_a = RUNNING" "job_updated_at claimed_a = 5" by (simp_all add: claimed_a_def)
  then show ?thesis
    using claimed_lock move fin upd
    by (auto simp: fail_job_def bounded_int_def lease_token_value_def sample_token_ok claimed_rows
        safe_code_def safe_codes sql_errors_def tbind_def Let_def)
qed


abbreviation sample_outcome :: worker_result where
  "sample_outcome \<equiv> \<lparr>result_status = WORK_FAILED, result_job_id = Some ''a'', result_attempt = Some 1\<rparr>"

lemma sample_simps [simp]:
  "leased_store sample_worker = sample_session" "config sample_session = sample_env"
  "worker_name sample_worker = ''worker-1''" "lease_secs sample_worker = 30"
  "token_factory sample_worker = Some sample_token" "statement_clock sample_session = (\<lambda>_ _. 5)"
  "locked_rows sample_session = (\<lambda>_ _. False)" "delivery sample_session = (\<lambda>_. Delivered)"
  "others sample_session = (\<lambda>_. [])"
  by (simp_all add: sample_worker_def sample_session_def)

lemma sample_call:
  "operation (calls w) (store w) = Inr (x, db') \<Longrightarrow>
   call sample_session operation w = (Inr x, \<lparr>store = db', calls = Suc (calls w)\<rparr>)"
  by (simp add: call_Inr met_def history_def)

lemma sample_run_once:
  "\<exists>w'. run_once sample_worker [] sample_world = (Inr sample_outcome, w')"
proof -
  let ?w = "\<lambda>n. \<lparr>store = claimed_db, calls = n\<rparr>"
  let ?missing = "Inl (RecordNotFoundError ''Dataset revision was not found'')"
  have claim: "call sample_session (\<lambda>n. claim_next_job sample_env (\<lambda>_. 5) (\<lambda>_. False) ''worker-1''
        sample_token 30) sample_world = (Inr (Some the_claim), ?w 1)"
    by (subst sample_call) (simp_all add: sample_claimed[unfolded sample_claim_def])
  have valid: "validate_claim the_claim sample_token = Inr ()"
    by (simp add: validate_claim_def the_claim_def claimed_a_def claimed_attempt_row_def result_simps)
  have fields: "job_id (claimed the_claim) = ''a''" "attempt_number (claimed_attempt the_claim) = 1"
    "claimed_token the_claim = sample_token" "job_kind (claimed the_claim) = payload_kind (claimed_payload the_claim)"
    by (simp_all add: the_claim_def claimed_a_def claimed_attempt_row_def sample_payload_def)
  have missing: "query sample_session Inr (?w 1) = (Inr claimed_db, ?w 2)"
    by (simp add: query_Inr met_def history_def)
  have evidence: "drain sample_session (build_evidence sample_worker the_claim) (?w 1) = (Inr ?missing, ?w 2)"
    using missing
    by (simp add: build_evidence_def the_claim_def sample_payload_def reads_then_def load_run_dataset_def
        get_dataset_def claimed_db_def sample_db_def del: query_Inr)
  have beat: "heartbeat sample_worker the_claim (?w 2) = (Inr SIGNAL_CONTINUE, ?w 3)"
    using sample_call[of "\<lambda>_. heartbeat_job (\<lambda>_. 5) ''a'' 1 sample_token 30" "?w 2"]
    by (simp add: heartbeat_def fields claimed_heartbeat) (simp add: claimed_a_def)
  obtain db' where fail: "fail_job (\<lambda>_. 5) ''a'' 1 sample_token ''dependency_not_found'' claimed_db
      = Inr (failed_a, db')"
    using claimed_fail by blast
  have failed_status: "job_status failed_a = FAILED" by (simp add: failed_a_def)
  have settle: "work_fail sample_worker the_claim ''dependency_not_found'' (?w 3)
      = (Inr sample_outcome, \<lparr>store = db', calls = 4\<rparr>)"
    using sample_call[of "\<lambda>_. fail_job (\<lambda>_. 5) ''a'' 1 sample_token ''dependency_not_found''" "?w 3"] fail
    by (simp add: work_fail_def fields settled_as_def outcome_def failed_status)
  have "process sample_worker [] the_claim (?w 1) = (Inr sample_outcome, \<lparr>store = db', calls = 4\<rparr>)"
    using evidence beat settle by (simp add: process_def conclude_def)
  then show ?thesis
    using claim valid fields by (simp add: run_once_def sample_token_ok result_simps)
qed


section \<open>Outcomes\<close>

text \<open>
  C22. The worker tells the truth: whatever clients commit between its calls, however the heartbeat
  and evidence tasks interleave and wherever calls are lost, an outcome it returns holds of the
  store it leaves: succeeded with its evidence stored, failed with an error code, canceled, or
  queued with attempts left. An idle worker left every job it could have claimed to others.
\<close>

theorem worker_outcome_true:
  assumes "db_inv (store w)" "run_once k ticks w = (Inr r, w')"
  shows "reported (store w') r \<and>
    (result_status r = IDLE \<longrightarrow> store w' = met (leased_store k) w \<and>
      (\<forall>row \<in> set (jobs_table (store w')). \<not> claimable (statement_clock (leased_store k) (calls w) 0)
        (locked_rows (leased_store k) (calls w)) row))"
proof (rule run_once_cases[OF assms(2)])
  show ?thesis if "r = \<lparr>result_status = IDLE, result_job_id = None, result_attempt = None\<rparr>"
    "claim_next_job (leased_config k) (statement_clock (leased_store k) (calls w))
      (locked_rows (leased_store k) (calls w)) (worker_name k) token (lease_secs k)
      (met (leased_store k) w) = Inr (None, store w')" for token
    using that claim_next_job_None[OF that(2)] by (simp add: reported_def)
next
  fix c and w1 :: world
  assume op: "claim_next_job (leased_config k) (statement_clock (leased_store k) (calls w))
      (locked_rows (leased_store k) (calls w)) (worker_name k) (claimed_token c) (lease_secs k)
      (met (leased_store k) w) = Inr (Some c, store w1)"
  have inv: "db_inv (store w1)"
    using store_steps_inv[OF claim_op.refines[OF met_inv[OF assms(1)] op] met_inv[OF assms(1)]] .
  show ?thesis if "work_fail k c ''invalid_job_payload'' w1 = (Inr r, w')"
    using work_fail_reported[OF inv that] work_fail_status[OF that] by simp
  show ?thesis if "process k ticks c w1 = (Inr r, w')"
    using process_reported[OF inv that] process_status[OF that] by simp
qed

theorem worker_outcome_true_witness:
  "\<exists>w'. run_once sample_worker [] sample_world = (Inr sample_outcome, w') \<and>
     reported (store w') sample_outcome"
proof -
  from sample_run_once obtain w' where run: "run_once sample_worker [] sample_world = (Inr sample_outcome, w')"
    by blast
  from worker_outcome_true[OF _ run] sample_db_inv run show ?thesis by auto
qed

section \<open>Exceptions\<close>


lemma sample_worker_valid: "new_worker sample_worker = Inr sample_worker"
  by (simp add: new_worker_def sample_worker_def result_simps)

lemma sample_serialises: "serialises sample_env"
  by (simp add: serialises_def model_text_def canonical_json_bytes_def)



section \<open>Retries\<close>

text \<open>
  Exponential backoff within its cap: a retry that was scheduled left the job queued, with
  attempts left, and not available before the doubled delay, which is at least one second and at
  most the configured maximum, has passed since the clock reading of the transition.
\<close>

theorem retry_backs_off:
  assumes "db_inv (store w)" "new_worker k = Inr k'" "retry_or_exhaust k c w = (Inr r, w')"
    "result_status r = WORK_RETRY_SCHEDULED"
  shows "attempt_count (claimed c) < max_attempts (claimed c) \<and>
    (\<exists>j delay. job_of (store w') (job_id (claimed c)) = Some j \<and> job_status j = QUEUED \<and>
      attempt_count j < max_attempts j \<and>
      delay = min (backoff_base k * 2 ^ nat (attempt_count (claimed c) - 1)) (backoff_max k) \<and>
      1 \<le> delay \<and> delay \<le> backoff_max k \<and>
      statement_clock (leased_store k) (calls w) 0 + seconds delay \<le> available_at j)"
proof (cases "max_attempts (claimed c) \<le> attempt_count (claimed c)")
  case True
  with assms(3,4) work_fail_not_retry show ?thesis by (simp add: retry_or_exhaust_def)
next
  case False
  with assms(3,4) obtain j where op: "retry_job (statement_clock (leased_store k) (calls w)) (job_id (claimed c))
      (attempt_number (claimed_attempt c)) (claimed_token c) (backoff k c) ''transient_execution_failure''
      (met (leased_store k) w) = Inr (j, store w')" and q: "job_status j = QUEUED"
    by (auto simp: retry_or_exhaust_def acatch_Inr_iff abind_Inr_iff settle_errors_def settled_as_def
        outcome_def call_Inr split: if_splits)
  note inv = met_inv[OF assms(1), of "leased_store k"]
  note R = retry_job_stored[OF inv op] retry_job_Inr(3,4)[OF inv op] backoff_bounds[OF assms(2), of c]
  from False q R show ?thesis by (auto simp: backoff_def)
qed


definition queued_a :: job_record where
  "queued_a = claimed_a\<lparr>job_status := QUEUED, available_at := 5 + seconds 1\<rparr>"

lemma claimed_retry:
  "\<exists>db'. retry_job (\<lambda>_. 5) ''a'' 1 sample_token 1 ''transient_execution_failure'' claimed_db = Inr (queued_a, db')"
proof -
  have move: "transition_to claimed_a QUEUED (at_utc 5) None (Some (at_utc (5 + seconds 1))) = Inr queued_a"
  proof -
    have "valid_job queued_a"
      using sample_job_valid[of "''a''" 1 QUEUED]
      by (simp add: queued_a_def claimed_a_def valid_job_def job_fields_ok_def validate_state_ok_iff seconds_def)
        (simp add: sample_job_def)
    then show ?thesis
      by (simp add: transition_to_def next_schedule_def queued_a_def claimed_a_def sample_job_def seconds_def)
  qed
  have "\<exists>db1. finish_attempt ''a'' 1 sample_token RETRY_SCHEDULED (Some ''transient_execution_failure'') 5
      (Some 5) claimed_db = Inr ((), db1) \<and> jobs_table db1 = jobs_table claimed_db"
    by (simp add: finish_attempt_def update_attempts_def update_where_def row_count_def tbind_def
        attempts_constraints_def claimed_db_def sample_db_def attempt_row_ok_def sample_attempt_def
        sample_token_def claimed_attempt_row_def attempt_key_def running_attempts_def failed_statuses_def
        seconds_def Let_def)
  then obtain db1 where fin: "finish_attempt ''a'' 1 sample_token RETRY_SCHEDULED
      (Some ''transient_execution_failure'') 5 (Some 5) claimed_db = Inr ((), db1)"
    and jobs: "jobs_table db1 = jobs_table claimed_db" by blast
  have upd: "\<exists>db2. update_job \<lparr>row_job = claimed_a, row_version = 1\<rparr> queued_a db1 = Inr ((), db2)"
    by (simp add: update_job_def update_jobs_def update_where_def row_count_def jobs claimed_db_def
        jobs_constraints_def sample_db_def job_row_ok_def idempotency_index_def resource_index_def
        queued_a_def claimed_a_def Let_def tbind_def seconds_def) (simp add: sample_job_def)
  have "job_status claimed_a = RUNNING" "job_updated_at claimed_a = 5" by (simp_all add: claimed_a_def)
  then show ?thesis
    using claimed_lock move fin upd
    by (auto simp: retry_job_def bounded_int_def lease_token_value_def sample_token_ok claimed_rows
        safe_code_def safe_codes sql_errors_def tbind_def Let_def)
qed

theorem retry_backs_off_witness:
  "\<exists>w' j. retry_or_exhaust sample_worker the_claim \<lparr>store = claimed_db, calls = 1\<rparr>
       = (Inr (outcome the_claim WORK_RETRY_SCHEDULED), w') \<and>
     job_of (store w') ''a'' = Some j \<and> 5 + seconds 1 \<le> available_at j"
proof -
  let ?w = "\<lparr>store = claimed_db, calls = 1\<rparr>"
  obtain db' where retry: "retry_job (\<lambda>_. 5) ''a'' 1 sample_token 1 ''transient_execution_failure'' claimed_db
      = Inr (queued_a, db')"
    using claimed_retry by blast
  have fields: "job_id (claimed the_claim) = ''a''" "attempt_number (claimed_attempt the_claim) = 1"
    "claimed_token the_claim = sample_token" "attempt_count (claimed the_claim) = 1"
    "max_attempts (claimed the_claim) = 3"
    by (simp_all add: the_claim_def claimed_a_def claimed_attempt_row_def)
  have b: "backoff_base sample_worker = 1" "backoff_max sample_worker = 60" by (simp_all add: sample_worker_def)
  have q: "job_status queued_a = QUEUED" by (simp add: queued_a_def)
  have run: "retry_or_exhaust sample_worker the_claim ?w
      = (Inr (outcome the_claim WORK_RETRY_SCHEDULED), \<lparr>store = db', calls = 2\<rparr>)"
    using sample_call[of "\<lambda>_. retry_job (\<lambda>_. 5) ''a'' 1 sample_token 1 ''transient_execution_failure''" ?w] retry q
    by (simp add: retry_or_exhaust_def fields backoff_def b settled_as_def)
  have "db_inv claimed_db"
    using store_steps_inv[OF claim_op.refines[OF sample_db_inv sample_claimed[unfolded sample_claim_def]]
        sample_db_inv] .
  then have "\<exists>j. job_of db' ''a'' = Some j \<and> 5 + seconds 1 \<le> available_at j"
    using retry_backs_off[OF _ sample_worker_valid run] by (auto simp: fields b outcome_def)
  then obtain j where "job_of (store \<lparr>store = db', calls = 2\<rparr>) ''a'' = Some j" "5 + seconds 1 \<le> available_at j"
    by auto
  then show ?thesis
    by (intro exI[of _ "\<lparr>store = db', calls = 2\<rparr>"] exI[of _ j] conjI) (simp_all only: run)
qed

end
