(* ===== verification/Security.thy ===== *)
theory Security
  imports Canonical Jobs "HOL-Library.Sublist"
begin

text \<open>
  Bearer authentication and project authorization (\<open>api/security.py\<close>): the strict registry of
  principals, the scope a request needs, and \<open>authorize\<close>, which runs before every protected
  route. Bytes are \<open>char\<close>s (0 to 255); a request is the part of an ASGI scope the code reads.
  Reading the registry file is I/O and not modelled; its validation is.
\<close>

section \<open>The registry\<close>

datatype control_plane_scope = SCOPE_READ | SCOPE_WRITE | SCOPE_CANCEL | SCOPE_OBSERVABILITY

fun scope_value :: "control_plane_scope \<Rightarrow> string" where
  "scope_value SCOPE_READ = ''control-plane:read''"
| "scope_value SCOPE_WRITE = ''control-plane:write''"
| "scope_value SCOPE_CANCEL = ''control-plane:cancel''"
| "scope_value SCOPE_OBSERVABILITY = ''observability:read''"

record principal =
  principal_id :: string
  token_digest :: string
  principal_scopes :: "control_plane_scope list"

record auth_configuration =
  auth_schema :: string
  project_id :: string
  principals :: "principal list"

definition validate_principal :: "principal \<Rightarrow> principal res" where
  "validate_principal p =
     (let labels = map scope_value (principal_scopes p) in
      rbind (checks
     [(\<not> is_stable_id (principal_id p), ValidationError ''principal_id''),
      (\<not> is_sha256_digest (token_digest p), ValidationError ''token_digest''),
      (principal_scopes p = [] \<or> length (principal_scopes p) > 4, ValidationError ''scopes''),
      (has_duplicates labels \<or> out_of_order labels,
       ValidationError ''principal scopes must be unique and ordered'')]) (\<lambda>_. Inr p))"

definition validate_registry :: "auth_configuration \<Rightarrow> auth_configuration res" where
  "validate_registry c =
     rbind (rmap validate_principal (principals c)) (\<lambda>_.
     rbind (checks
     [(auth_schema c \<noteq> ''control-plane-auth/v1'', ValidationError ''schema_version''),
      (\<not> is_stable_id (project_id c), ValidationError ''project_id''),
      (principals c = [] \<or> length (principals c) > 512, ValidationError ''principals''),
      (has_duplicates (map principal_id (principals c)),
       ValidationError ''principal identities must be unique''),
      (has_duplicates (map token_digest (principals c)),
       ValidationError ''principal credential digests must be unique''),
      (out_of_order (map principal_id (principals c)),
       ValidationError ''principals must be ordered'')]) (\<lambda>_. Inr c))"

section \<open>Requests\<close>

record authorized_principal =
  ap_project_id :: string
  ap_principal_id :: string
  ap_scopes :: "control_plane_scope set"

text \<open>
  The ASGI state: absent, something that is not a dictionary, or a dictionary with the entries
  this code uses. A path, root path or method is \<open>None\<close> when it is not a string (an absent root
  path is the empty one), the headers when they are not a list of pairs of bytes.
\<close>

record request_state =
  state_principal :: "authorized_principal option"
  state_request_id :: "string option"
  state_auth_outcome :: "string option"
  state_error_code :: "string option"

datatype asgi_state = NoState | OpaqueState | DictState request_state

record http_scope =
  scope_path :: "string option"
  scope_root_path :: "string option"
  scope_method :: "string option"
  scope_headers :: "(string \<times> string) list option"
  scope_state :: asgi_state

definition empty_state :: request_state where
  "empty_state = \<lparr>state_principal = None, state_request_id = None, state_auth_outcome = None,
     state_error_code = None\<rparr>"

text \<open>\<open>setdefault("state", {})\<close> followed by an update when the value is a dictionary.\<close>

fun update_state :: "(request_state \<Rightarrow> request_state) \<Rightarrow> asgi_state \<Rightarrow> asgi_state" where
  "update_state f NoState = DictState (f empty_state)"
| "update_state f OpaqueState = OpaqueState"
| "update_state f (DictState d) = DictState (f d)"

fun clear_principal_state :: "asgi_state \<Rightarrow> asgi_state" where
  "clear_principal_state (DictState d) = DictState (d\<lparr>state_principal := None\<rparr>)"
| "clear_principal_state s = s"

definition clear_principal :: "http_scope \<Rightarrow> http_scope" where
  "clear_principal s = s\<lparr>scope_state := clear_principal_state (scope_state s)\<rparr>"

definition principal_from_scope :: "http_scope \<Rightarrow> authorized_principal option" where
  "principal_from_scope s = (case scope_state s of DictState d \<Rightarrow> state_principal d | _ \<Rightarrow> None)"

section \<open>The scope a route needs\<close>

definition route_path :: "http_scope \<Rightarrow> string option" where
  "route_path s = (case scope_path s of
     None \<Rightarrow> None
   | Some path \<Rightarrow> (case scope_root_path s of
       None \<Rightarrow> Some path
     | Some base \<Rightarrow>
         if base = [] then Some path
         else if \<not> prefix base path then Some path
         else if path = base then Some []
         else if path ! length base = CHR ''/'' then Some (drop (length base) path) else Some path))"

text \<open>\<open>fullmatch(r"/v1/jobs/ID/cancellation")\<close>, where \<open>ID\<close> is the identifier pattern.\<close>

definition is_cancellation_path :: "string \<Rightarrow> bool" where
  "is_cancellation_path path \<longleftrightarrow>
     (let before = ''/v1/jobs/''; after = ''/cancellation'';
          n = length path - length before - length after in
      prefix before path \<and> length path > length before + length after \<and>
      drop (length before + n) path = after \<and> is_stable_id (take n (drop (length before) path)))"

definition required_scope :: "http_scope \<Rightarrow> control_plane_scope option" where
  "required_scope s = (case route_path s of
     None \<Rightarrow> None
   | Some path \<Rightarrow>
       if path = ''/metrics'' \<or> prefix ''/metrics/'' path then Some SCOPE_OBSERVABILITY
       else if path \<noteq> ''/v1'' \<and> \<not> prefix ''/v1/'' path then None
       else if scope_method s \<in> {Some ''GET'', Some ''HEAD'', Some ''OPTIONS''} then Some SCOPE_READ
       else if scope_method s = Some ''POST'' \<and> is_cancellation_path path then Some SCOPE_CANCEL
       else Some SCOPE_WRITE)"

section \<open>Credentials\<close>

definition is_ascii :: "string \<Rightarrow> bool" where
  "is_ascii s \<longleftrightarrow> list_all (\<lambda>c. c < CHR 0x80) s"

definition lower_char :: "char \<Rightarrow> char" where
  "lower_char c = (if CHR ''A'' \<le> c \<and> c \<le> CHR ''Z'' then char_of (of_char c + 32 :: nat) else c)"

definition header_values :: "(string \<times> string) list \<Rightarrow> string \<Rightarrow> string list" where
  "header_values hs name = map snd (filter (\<lambda>h. map lower_char (fst h) = name) hs)"

text \<open>\<open>fullmatch("cpk_[A-Za-z0-9_-]{43}")\<close>.\<close>

definition canonical_token :: "string \<Rightarrow> bool" where
  "canonical_token t \<longleftrightarrow> take 4 t = ''cpk_'' \<and> length t = 47 \<and>
     list_all (\<lambda>c. is_alnum c \<or> c = CHR ''_'' \<or> c = CHR ''-'') (drop 4 t)"

definition dummy_token :: string where
  "dummy_token = ''cpk_'' @ replicate 43 CHR ''A''"

definition presented_token :: "string list \<Rightarrow> string \<times> bool" where
  "presented_token vs = (case vs of
     [v] \<Rightarrow> if length v > 128 \<or> \<not> is_ascii v then (dummy_token, False)
            else if \<not> prefix ''Bearer '' v then (dummy_token, False)
            else let token = drop 7 v in
              if canonical_token token then (token, True) else (dummy_token, False)
   | _ \<Rightarrow> (dummy_token, False))"

definition presented_project :: "string list \<Rightarrow> string option" where
  "presented_project vs = (case vs of
     [v] \<Rightarrow> if length v > 128 \<or> \<not> is_ascii v then None
            else if \<not> is_stable_id v then None else Some v
   | _ \<Rightarrow> None)"

definition token_digest_unchecked :: "string \<Rightarrow> string" where
  "token_digest_unchecked t = ''sha256:'' @ sha256_hex t"

definition digest_token :: "string \<Rightarrow> string res" where
  "digest_token t = rbind (checks [(\<not> canonical_token t, ValueError ''API credential is invalid'')])
     (\<lambda>_. Inr (token_digest_unchecked t))"

section \<open>Authorization\<close>

record authorization_failure =
  failure_status :: int
  failure_code :: string
  failure_message :: string
  failure_headers :: "(string \<times> string) list"

definition unauthorized :: authorization_failure where
  "unauthorized = \<lparr>failure_status = 401, failure_code = ''authentication_required'',
     failure_message = ''Authentication credentials are invalid'',
     failure_headers = [(''WWW-Authenticate'', ''Bearer'')]\<rparr>"

definition forbidden :: authorization_failure where
  "forbidden = \<lparr>failure_status = 403, failure_code = ''permission_denied'',
     failure_message = ''Permission is not granted'', failure_headers = []\<rparr>"

text \<open>The loop over all principals keeps the last match.\<close>

definition matching_principal :: "principal list \<Rightarrow> string \<Rightarrow> principal option" where
  "matching_principal ps digest =
     fold (\<lambda>p matched. if token_digest p = digest then Some p else matched) ps None"

definition authorize ::
    "auth_configuration \<Rightarrow> http_scope \<Rightarrow> authorization_failure option \<times> http_scope" where
  "authorize cfg scope =
     (let s = clear_principal scope in
      case required_scope s of
        None \<Rightarrow> (None, s)
      | Some required \<Rightarrow> (case scope_headers s of
          None \<Rightarrow> (Some unauthorized, s)
        | Some hs \<Rightarrow>
            let (token, valid) = presented_token (header_values hs ''authorization'');
                digest = token_digest_unchecked (if valid then token else dummy_token);
                matched = matching_principal (principals cfg) digest
            in if \<not> valid \<or> matched = None then (Some unauthorized, s)
               else if presented_project (header_values hs ''x-project-id'') \<noteq> Some (project_id cfg) \<or>
                       required \<notin> set (principal_scopes (the matched))
               then (Some forbidden, s)
               else if scope_state s = OpaqueState then (Some unauthorized, s)
               else (None, s\<lparr>scope_state := update_state (\<lambda>d. d\<lparr>state_principal := Some
                  \<lparr>ap_project_id = project_id cfg, ap_principal_id = principal_id (the matched),
                   ap_scopes = set (principal_scopes (the matched))\<rparr>\<rparr>) (scope_state s)\<rparr>)))"

section \<open>Facts\<close>

text \<open>The specification: the principal a request is granted to.\<close>

definition granted :: "auth_configuration \<Rightarrow> http_scope \<Rightarrow> control_plane_scope \<Rightarrow> principal \<Rightarrow> bool" where
  "granted cfg s required p \<longleftrightarrow> p \<in> set (principals cfg) \<and> required \<in> set (principal_scopes p) \<and>
     (\<exists>hs token. scope_headers s = Some hs \<and>
        header_values hs ''authorization'' = [''Bearer '' @ token] \<and> canonical_token token \<and>
        token_digest p = token_digest_unchecked token \<and>
        header_values hs ''x-project-id'' = [project_id cfg])"


lemma matching_principal_unique:
  assumes "distinct (map token_digest ps)" "p \<in> set ps"
  shows "matching_principal ps (token_digest p) = Some p"
proof -
  have "fold (\<lambda>q matched. if token_digest q = d then Some q else matched) qs m = m"
    if "\<forall>q \<in> set qs. token_digest q \<noteq> d" for qs m d
    using that by (induction qs arbitrary: m) auto
  note skip = this
  from assms(2) obtain ys zs where ps: "ps = ys @ p # zs" by (auto simp: in_set_conv_decomp)
  with assms(1) have "token_digest p \<notin> token_digest ` set zs" by simp
  then have "\<forall>q \<in> set zs. token_digest q \<noteq> token_digest p" by (metis imageI)
  from skip[OF this] show ?thesis by (simp add: matching_principal_def ps)
qed

lemma matching_principal_Some:
  "matching_principal ps d = Some p \<Longrightarrow> p \<in> set ps \<and> token_digest p = d"
proof -
  have "fold (\<lambda>q matched. if token_digest q = d then Some q else matched) qs m = Some p \<Longrightarrow>
      m = Some p \<or> p \<in> set qs \<and> token_digest p = d" for qs m
    by (induction qs arbitrary: m) (auto split: if_splits)
  from this[of ps None] show "matching_principal ps d = Some p \<Longrightarrow> p \<in> set ps \<and> token_digest p = d"
    by (simp add: matching_principal_def)
qed

lemma ascii_classes:
  "is_alnum c \<Longrightarrow> c < CHR 0x80" "is_alnum c \<or> c \<in> set ''._:-'' \<Longrightarrow> c < CHR 0x80"
  "is_alnum c \<or> c = CHR ''_'' \<or> c = CHR ''-'' \<Longrightarrow> c < CHR 0x80"
proof -
  show alnum: "c < CHR 0x80" if "is_alnum c"
    using that unfolding is_alnum_def is_alpha_def is_lower_def is_digit_def less_eq_char_def less_char_def
    by auto
  show "is_alnum c \<or> c \<in> set ''._:-'' \<Longrightarrow> c < CHR 0x80"
    "is_alnum c \<or> c = CHR ''_'' \<or> c = CHR ''-'' \<Longrightarrow> c < CHR 0x80"
    using alnum by (auto simp: less_char_def)
qed

lemma canonical_token_ascii:
  assumes "canonical_token t"
  shows "is_ascii t" "length t = 47"
proof -
  have t: "t = ''cpk_'' @ drop 4 t" using assms by (metis append_take_drop_id canonical_token_def)
  have "is_ascii (drop 4 t)"
    using assms ascii_classes(3) unfolding canonical_token_def is_ascii_def list_all_iff by blast
  then show "is_ascii t" by (subst t) (simp add: is_ascii_def less_char_def)
  show "length t = 47" using assms by (simp add: canonical_token_def)
qed

lemma presented_token_valid:
  "presented_token vs = (t, True) \<longleftrightarrow> vs = [''Bearer '' @ t] \<and> canonical_token t"
proof
  assume "presented_token vs = (t, True)"
  then obtain v where v: "vs = [v]" "prefix ''Bearer '' v" "t = drop 7 v" "canonical_token t"
    by (auto simp: presented_token_def Let_def split: list.splits if_splits)
  then show "vs = [''Bearer '' @ t] \<and> canonical_token t" by (auto simp: prefix_def)
next
  assume v: "vs = [''Bearer '' @ t] \<and> canonical_token t"
  with canonical_token_ascii[of t] show "presented_token vs = (t, True)"
    by (simp add: presented_token_def is_ascii_def less_char_def)
qed

lemma stable_id_ascii:
  assumes "is_stable_id v"
  shows "is_ascii v" "length v \<le> 128"
proof -
  from assms have "\<forall>c \<in> set v. is_alnum c \<or> c \<in> set ''._:-''"
    unfolding is_stable_id_def matches_def by (auto split: list.splits simp: list_all_iff)
  with ascii_classes(2) show "is_ascii v" unfolding is_ascii_def list_all_iff by blast
  show "length v \<le> 128" using assms matches_length unfolding is_stable_id_def by blast
qed

lemma presented_project_Some:
  "presented_project vs = Some v \<longleftrightarrow> vs = [v] \<and> is_stable_id v"
  using stable_id_ascii[of v] by (auto simp: presented_project_def split: list.splits)

lemma clear_principal_simps [simp]:
  "required_scope (clear_principal s) = required_scope s" "scope_headers (clear_principal s) = scope_headers s"
proof -
  have "scope_path (clear_principal s) = scope_path s" "scope_root_path (clear_principal s) = scope_root_path s"
    "scope_method (clear_principal s) = scope_method s"
    by (simp_all add: clear_principal_def)
  then show "required_scope (clear_principal s) = required_scope s"
    unfolding required_scope_def route_path_def by (simp only:)
qed (simp add: clear_principal_def)

lemma clear_principal_state [simp]:
  "principal_from_scope (clear_principal s) = None"
  "scope_state (clear_principal s) = OpaqueState \<longleftrightarrow> scope_state s = OpaqueState"
  by (cases "scope_state s"; simp add: clear_principal_def principal_from_scope_def)+

lemma granted_unique:
  assumes "validate_registry cfg = Inr cfg'" "granted cfg s r p" "granted cfg s r' q"
  shows "p = q"
proof -
  have "distinct (map token_digest (principals cfg))"
    using assms(1) by (auto simp: validate_registry_def result_simps)
  with assms(2,3) show ?thesis
    by (auto simp: granted_def distinct_map inj_on_def)
qed


lemma authorize_cases:
  assumes "validate_registry cfg = Inr cfg'"
  shows "fst (authorize cfg s) = None \<longleftrightarrow> (case required_scope s of None \<Rightarrow> True
     | Some r \<Rightarrow> scope_state s \<noteq> OpaqueState \<and> (\<exists>p. granted cfg s r p))" (is "?A \<longleftrightarrow> ?B")
    "granted cfg s r p \<Longrightarrow> required_scope s = Some r \<Longrightarrow> scope_state s \<noteq> OpaqueState \<Longrightarrow>
     principal_from_scope (snd (authorize cfg s)) = Some \<lparr>ap_project_id = project_id cfg,
       ap_principal_id = principal_id p, ap_scopes = set (principal_scopes p)\<rparr>"
    "fst (authorize cfg s) \<noteq> None \<or> required_scope s = None \<Longrightarrow>
     principal_from_scope (snd (authorize cfg s)) = None"
proof -
  have dist: "distinct (map token_digest (principals cfg))" and pid: "is_stable_id (project_id cfg)"
    using assms by (auto simp: validate_registry_def result_simps)
  let ?s = "clear_principal s"
  have grant: "granted cfg s r p \<longleftrightarrow> (\<exists>hs token. scope_headers s = Some hs \<and>
      presented_token (header_values hs ''authorization'') = (token, True) \<and>
      matching_principal (principals cfg) (token_digest_unchecked token) = Some p \<and>
      presented_project (header_values hs ''x-project-id'') = Some (project_id cfg) \<and>
      r \<in> set (principal_scopes p))" for r p
    using matching_principal_unique[OF dist, of p] matching_principal_Some[of "principals cfg" _ p] pid
    unfolding granted_def presented_token_valid presented_project_Some by metis
  show "?A \<longleftrightarrow> ?B"
  proof (cases "required_scope s")
    case None
    then show ?thesis by (simp add: authorize_def)
  next
    case (Some r)
    show ?thesis
    proof (cases "scope_headers s")
      case None
      with Some show ?thesis by (simp add: authorize_def grant)
    next
      case hs: (Some hs)
      obtain token valid where t: "presented_token (header_values hs ''authorization'') = (token, valid)"
        by (cases "presented_token (header_values hs ''authorization'')")
      show ?thesis
      proof (cases "valid \<and> matching_principal (principals cfg) (token_digest_unchecked token) \<noteq> None")
        case True
        then obtain p where "valid" "matching_principal (principals cfg) (token_digest_unchecked token) = Some p"
          by blast
        with Some hs t show ?thesis by (auto simp: authorize_def grant Let_def)
      next
        case False
        with Some hs t show ?thesis by (auto simp: authorize_def grant Let_def)
      qed
    qed
  qed
  show "principal_from_scope (snd (authorize cfg s)) = Some \<lparr>ap_project_id = project_id cfg,
       ap_principal_id = principal_id p, ap_scopes = set (principal_scopes p)\<rparr>"
    if "granted cfg s r p" "required_scope s = Some r" "scope_state s \<noteq> OpaqueState"
  proof -
    from that(1)[unfolded grant] obtain hs token where "scope_headers s = Some hs"
      "presented_token (header_values hs ''authorization'') = (token, True)"
      "matching_principal (principals cfg) (token_digest_unchecked token) = Some p"
      "presented_project (header_values hs ''x-project-id'') = Some (project_id cfg)"
      "r \<in> set (principal_scopes p)" by blast
    then show ?thesis
      using that(2,3) by (cases "scope_state ?s") (simp_all add: authorize_def principal_from_scope_def)
  qed
  show "principal_from_scope (snd (authorize cfg s)) = None"
    if "fst (authorize cfg s) \<noteq> None \<or> required_scope s = None"
    using that by (auto simp: authorize_def Let_def split: option.splits prod.splits if_splits)
qed

end
