(* ===== verification/Telemetry.thy ===== *)
theory Telemetry
  imports Security
begin

text \<open>
  Request telemetry (\<open>observability.py\<close>, \<open>api/observability.py\<close>): the closed vocabularies, the
  functions that map any value into them, the strict trace context of a request, and the calls
  made for one request to the metric registry, the span and the log. The registry, the span and
  the log are third-party or I/O: a call to one of them is a value of \<open>telemetry_call\<close>, and a
  failing call is swallowed by the code. An argument of type \<open>object\<close> is \<open>None\<close> when it is
  not a string (or not an \<open>int\<close>).
\<close>

section \<open>Vocabularies\<close>

definition http_methods :: "string list" where
  "http_methods = [''DELETE'', ''GET'', ''HEAD'', ''OPTIONS'', ''PATCH'', ''POST'', ''PUT'']"

definition http_routes :: "string list" where
  "http_routes =
     [''/docs'', ''/docs/oauth2-redirect'', ''/health/live'', ''/health/ready'', ''/metrics'',
      ''/openapi.json'', ''/v1/comparisons'', ''/v1/dataset-revisions/{revision}/{name:path}'',
      ''/v1/datasets'', ''/v1/jobs'', ''/v1/jobs/{job_id}'', ''/v1/jobs/{job_id}/attempts'',
      ''/v1/jobs/{job_id}/cancellation'', ''/v1/release-decisions'',
      ''/v1/release-decisions/{decision_id}'', ''/v1/release-decisions/{decision_id}/cases'',
      ''/v1/release-decisions/{decision_id}/distributions'', ''/v1/runs'', ''/v1/runs/{run_id}'',
      ''/v1/suite-comparisons'', ''/v1/suite-revisions/{revision}/{name:path}'', ''/v1/suite-runs'',
      ''/v1/suite-targets'', ''/v1/suite-target-pairs'', ''/v1/suites'']"

definition error_codes :: "string list" where
  "error_codes =
     [''control_plane_error'', ''authentication_required'', ''idempotency_conflict'', ''internal_error'',
      ''invalid_cursor'', ''invalid_json'', ''invalid_request'', ''invalid_submission'',
      ''method_not_allowed'', ''persistence_unavailable'', ''permission_denied'',
      ''readiness_unavailable'', ''request_body_too_large'', ''resource_conflict'',
      ''resource_not_found'', ''route_not_found'', ''unsupported_content_encoding'',
      ''unsupported_media_type'']"

definition auth_outcomes :: "string list" where
  "auth_outcomes = [''allowed'', ''denied'', ''invalid'', ''missing'', ''unavailable'']"

definition is_request_id :: "string \<Rightarrow> bool" where
  "is_request_id s = matches is_alnum (\<lambda>c. is_alnum c \<or> c \<in> set ''._-'') 64 s"

definition in_vocabulary :: "string list \<Rightarrow> string \<Rightarrow> string option \<Rightarrow> string" where
  "in_vocabulary vocabulary fallback v =
     (case v of Some s \<Rightarrow> if s \<in> set vocabulary then s else fallback | None \<Rightarrow> fallback)"

definition safe_http_method :: "string option \<Rightarrow> string" where
  "safe_http_method v = in_vocabulary http_methods ''OTHER'' v"

definition safe_http_route :: "string option \<Rightarrow> string" where
  "safe_http_route v = in_vocabulary http_routes ''unmatched'' v"

definition safe_http_status :: "int option \<Rightarrow> int" where
  "safe_http_status v = (case v of Some n \<Rightarrow> if 100 \<le> n \<and> n \<le> 599 then n else 500 | None \<Rightarrow> 500)"

definition safe_error_code :: "string option \<Rightarrow> string" where
  "safe_error_code v = in_vocabulary error_codes ''unknown'' v"

definition safe_request_id :: "string option \<Rightarrow> string" where
  "safe_request_id v =
     (case v of Some s \<Rightarrow> if is_request_id s then s else ''request_unknown'' | None \<Rightarrow> ''request_unknown'')"

text \<open>\<open>safe_trace_id\<close> has 32 digits, \<open>safe_span_id\<close> 16.\<close>

definition is_hex_text :: "nat \<Rightarrow> string \<Rightarrow> bool" where
  "is_hex_text n s \<longleftrightarrow> length s = n \<and> list_all is_hex s"

definition safe_hex :: "nat \<Rightarrow> string option \<Rightarrow> string" where
  "safe_hex n v =
     (case v of
        Some s \<Rightarrow> if is_hex_text n s \<and> s \<noteq> replicate n CHR ''0'' then s else replicate n CHR ''0''
      | None \<Rightarrow> replicate n CHR ''0'')"

definition safe_trace_id :: "string option \<Rightarrow> string" where
  "safe_trace_id v = safe_hex 32 v"

definition safe_span_id :: "string option \<Rightarrow> string" where
  "safe_span_id v = safe_hex 16 v"

definition bounded_duration_ns :: "int option \<Rightarrow> int" where
  "bounded_duration_ns v =
     (case v of Some n \<Rightarrow> if n < 0 then 0 else min n (86400 * 1000000000) | None \<Rightarrow> 0)"

section \<open>Trace context\<close>

record trace_context =
  tc_trace_id :: nat
  tc_span_id :: nat
  tc_flags :: nat

definition hex_value :: "string \<Rightarrow> nat" where
  "hex_value s = fold (\<lambda>c n. 16 * n + (if is_digit c then of_char c - 48 else of_char c - 87)) s 0"

text \<open>\<open>fullmatch("00-([0-9a-f]{32})-([0-9a-f]{16})-FLAGS")\<close> and the rejected zero identifiers.\<close>

definition traceparent :: "(string \<Rightarrow> bool) \<Rightarrow> string \<Rightarrow> trace_context option" where
  "traceparent flags_ok t =
     (let trace = take 32 (drop 3 t); span = take 16 (drop 36 t); flags = drop 53 t in
      if length t = 55 \<and> take 3 t = ''00-'' \<and> list_all is_hex trace \<and> t ! 35 = CHR ''-'' \<and>
         list_all is_hex span \<and> t ! 52 = CHR ''-'' \<and> flags_ok flags \<and>
         trace \<noteq> replicate 32 CHR ''0'' \<and> span \<noteq> replicate 16 CHR ''0''
      then Some \<lparr>tc_trace_id = hex_value trace, tc_span_id = hex_value span, tc_flags = hex_value flags\<rparr>
      else None)"

definition trace_context_from_scope :: "http_scope \<Rightarrow> trace_context option" where
  "trace_context_from_scope s =
     (case header_values (case scope_headers s of None \<Rightarrow> [] | Some hs \<Rightarrow> hs) ''traceparent'' of
        [v] \<Rightarrow> if is_ascii v then traceparent (\<lambda>f. f \<in> {''00'', ''01''}) v else None
      | _ \<Rightarrow> None)"

definition worker_link :: "string option \<Rightarrow> trace_context option" where
  "worker_link v = Option.bind v (traceparent (\<lambda>f. length f = 2 \<and> list_all is_hex f))"

section \<open>State of a request\<close>

fun state_field :: "(request_state \<Rightarrow> 'a option) \<Rightarrow> asgi_state \<Rightarrow> 'a option" where
  "state_field f (DictState d) = f d"
| "state_field f _ = None"

definition request_id_from_scope :: "http_scope \<Rightarrow> string" where
  "request_id_from_scope s = safe_request_id (state_field state_request_id (scope_state s))"

definition error_code_from_scope :: "http_scope \<Rightarrow> int \<Rightarrow> string option" where
  "error_code_from_scope s status =
     (if status < 400 then None else Some (safe_error_code (state_field state_error_code (scope_state s))))"

definition auth_outcome_from_scope :: "http_scope \<Rightarrow> string option" where
  "auth_outcome_from_scope s =
     (case state_field state_auth_outcome (scope_state s) of
        Some v \<Rightarrow> if v \<in> {''allowed'', ''denied'', ''invalid''} then Some v else None
      | None \<Rightarrow> None)"

definition set_state :: "(request_state \<Rightarrow> request_state) \<Rightarrow> http_scope \<Rightarrow> http_scope" where
  "set_state f s = s\<lparr>scope_state := update_state f (scope_state s)\<rparr>"

definition set_error_code_unchecked :: "http_scope \<Rightarrow> string \<Rightarrow> http_scope" where
  "set_error_code_unchecked s x = set_state (\<lambda>d. d\<lparr>state_error_code := Some x\<rparr>) s"

definition set_error_code :: "http_scope \<Rightarrow> string \<Rightarrow> http_scope" where
  "set_error_code s x = set_error_code_unchecked s (safe_error_code (Some x))"

section \<open>Calls\<close>

datatype telemetry_call =
    RequestsInProgress int
  | CountRequest string string string
  | ObserveDuration string string rat
  | CountError string string
  | CountAuth string
  | SpanName string
  | SpanAttribute string json
  | SpanFailed
  | LogEvent json

definition status_class :: "int \<Rightarrow> string" where
  "status_class status = (''0123456789'' ! nat (status div 100)) # ''xx''"

definition request_finished ::
    "string option \<Rightarrow> string option \<Rightarrow> int option \<Rightarrow> string option \<Rightarrow> int option \<Rightarrow> telemetry_call list" where
  "request_finished request_method route status code duration =
     (let m = safe_http_method request_method; r = safe_http_route route; n = safe_http_status status in
      [RequestsInProgress (-1), CountRequest m r (status_class n),
       ObserveDuration m r (rnd64 (of_int (bounded_duration_ns duration) / 1000000000))]
      @ (if n \<ge> 400 then [CountError r (safe_error_code code)] else []))"

definition record_auth_decision :: "string \<Rightarrow> telemetry_call list" where
  "record_auth_decision x = [CountAuth (in_vocabulary auth_outcomes ''other'' (Some x))]"

definition emit_http_event ::
    "string \<Rightarrow> string \<Rightarrow> string \<Rightarrow> string \<Rightarrow> string \<Rightarrow> string option \<Rightarrow> string option \<Rightarrow> int option
     \<Rightarrow> string option \<Rightarrow> int option \<Rightarrow> telemetry_call list" where
  "emit_http_event service timestamp request_id trace_id span_id request_method route status code duration =
     (let n = safe_http_status status;
          (severity, result) = (if n \<ge> 500 then (''ERROR'', ''server_error'')
             else if n \<ge> 400 then (''WARNING'', ''client_error'') else (''INFO'', ''success''))
      in [LogEvent (JObj (
       [(''duration_ms'', JInt (bounded_duration_ns duration div 1000000)),
        (''event'', JStr ''http.request.completed''),
        (''http_method'', JStr (safe_http_method request_method)),
        (''http_route'', JStr (safe_http_route route)),
        (''http_status'', JInt n),
        (''outcome'', JStr result),
        (''request_id'', JStr (safe_request_id (Some request_id))),
        (''schema_version'', JStr ''control-plane-log/v1''),
        (''service'', JStr service),
        (''severity'', JStr severity),
        (''span_id'', JStr (safe_span_id (Some span_id))),
        (''timestamp'', JStr timestamp),
        (''trace_id'', JStr (safe_trace_id (Some trace_id)))]
       @ (if n \<ge> 400 then [(''error_code'', JStr (safe_error_code code))] else [])))])"

text \<open>
  What the application left behind: the scope, the status of every response it started, and
  whether it raised. The clocks, the route template Starlette matched and the identifiers of the
  span the tracer opened are inputs.
\<close>

record finished_request =
  fr_scope :: http_scope
  fr_statuses :: "int option list"
  fr_raised :: bool
  fr_route :: "string option"
  fr_started :: int
  fr_ended :: int
  fr_trace_id :: nat
  fr_span_id :: nat

definition finish_scope :: "finished_request \<Rightarrow> http_scope" where
  "finish_scope q = (if fr_raised q then set_error_code_unchecked (fr_scope q) ''internal_error'' else fr_scope q)"

definition finish_status :: "finished_request \<Rightarrow> int" where
  "finish_status q =
     (if fr_raised q then 500
      else case fr_statuses q of [] \<Rightarrow> safe_http_status None | n # _ \<Rightarrow> safe_http_status (Some (safe_http_status n)))"

definition observe_request ::
    "string \<Rightarrow> string \<Rightarrow> string option \<Rightarrow> finished_request \<Rightarrow> telemetry_call list" where
  "observe_request service timestamp request_method q =
     (let m = safe_http_method request_method;
          s = finish_scope q;
          status = finish_status q;
          duration = max 0 (fr_ended q - fr_started q);
          route = safe_http_route (fr_route q);
          code = error_code_from_scope s status;
          request_id = request_id_from_scope s
      in [RequestsInProgress 1, SpanName (m @ '' '' @ route),
          SpanAttribute ''http.request.method'' (JStr m), SpanAttribute ''http.route'' (JStr route),
          SpanAttribute ''http.response.status_code'' (JInt status),
          SpanAttribute ''control_plane.request_id'' (JStr request_id)]
         @ (case code of None \<Rightarrow> [] | Some c \<Rightarrow> [SpanAttribute ''control_plane.error_code'' (JStr c)])
         @ (if status \<ge> 500 then [SpanFailed] else [])
         @ request_finished (Some m) (Some route) (Some status) code (Some duration)
         @ (case auth_outcome_from_scope s of None \<Rightarrow> [] | Some x \<Rightarrow> record_auth_decision x)
         @ emit_http_event service timestamp request_id (hex_digits 32 (fr_trace_id q))
             (hex_digits 16 (fr_span_id q)) (Some m) (Some route) (Some status) code (Some duration))"

end
