(* ===== verification/Boundary.thy ===== *)
theory Boundary
  imports Telemetry
begin

text \<open>
  The request boundary (\<open>api/middleware.py\<close>): authorization, then the strict limits on a request
  body, and only then the application, whose response headers are hardened. The messages of a
  client are a list; when it is used up the server is still waiting. Strict JSON of the body
  (\<open>parse_json\<close> of its UTF-8 text) is a parameter, as is the identifier drawn for the request.
\<close>

section \<open>Python text primitives\<close>

text \<open>\<open>str.strip\<close> removes the separators 1C to 1F as well, \<open>int\<close> only the blanks of C.\<close>

definition is_blank :: "char \<Rightarrow> bool" where
  "is_blank c \<longleftrightarrow> c = CHR '' '' \<or> (CHR 0x09 \<le> c \<and> c \<le> CHR 0x0D)"

definition is_space :: "char \<Rightarrow> bool" where
  "is_space c \<longleftrightarrow> is_blank c \<or> (CHR 0x1C \<le> c \<and> c \<le> CHR 0x1F)"

definition strip_of :: "(char \<Rightarrow> bool) \<Rightarrow> string \<Rightarrow> string" where
  "strip_of p s = rev (dropWhile p (rev (dropWhile p s)))"

text \<open>\<open>int(text)\<close> on ASCII text: a sign, digits with single underscores between them, at most 4300.\<close>

fun digit_groups :: "string \<Rightarrow> string option" where
  "digit_groups [] = None"
| "digit_groups [c] = (if is_digit c then Some [c] else None)"
| "digit_groups (c # d # cs) =
     (if \<not> is_digit c then None
      else map_option (Cons c) (digit_groups (if d = CHR ''_'' then cs else d # cs)))"

definition digits_value :: "string \<Rightarrow> int" where
  "digits_value ds = fold (\<lambda>c n. 10 * n + (of_char c - 48)) ds 0"

definition python_int :: "string \<Rightarrow> int option" where
  "python_int text =
     (let s = strip_of is_blank text;
          negative = prefix ''-'' s;
          body = (if negative \<or> prefix ''+'' s then tl s else s)
      in case digit_groups body of
           None \<Rightarrow> None
         | Some ds \<Rightarrow> if length ds > 4300 then None
             else Some (if negative then - digits_value ds else digits_value ds))"

fun split_on :: "char \<Rightarrow> string \<Rightarrow> string list" where
  "split_on sep [] = [[]]"
| "split_on sep (c # cs) =
     (case split_on sep cs of
        [] \<Rightarrow> [[c]]
      | p # ps \<Rightarrow> if c = sep then [] # p # ps else (c # p) # ps)"

section \<open>Responses\<close>

record response_start =
  response_status :: int
  response_headers :: "(string \<times> string) list"

record http_error =
  error_status :: int
  error_code :: string
  error_message :: string
  error_headers :: "(string \<times> string) list"

text \<open>\<open>send_with_request_id\<close> on \<open>http.response.start\<close>.\<close>

definition hardened_headers :: "string \<Rightarrow> (string \<times> string) list \<Rightarrow> (string \<times> string) list" where
  "hardened_headers request_id hs =
     filter (\<lambda>h. map lower_char (fst h) \<notin> {''cache-control'', ''x-request-id''}) hs @
     [(''cache-control'', ''no-store''), (''x-request-id'', request_id)]"

definition error_document :: "string \<Rightarrow> string \<Rightarrow> string \<Rightarrow> json" where
  "error_document code message request_id = JObj
     [(''schema_version'', JStr ''api-error/v1''),
      (''error'', JObj [(''code'', JStr code), (''details'', JList []), (''message'', JStr message),
         (''request_id'', JStr request_id)])]"

section \<open>The body of a request\<close>

datatype message = BodyChunk string bool | OtherMessage

definition is_json_content_type :: "string \<Rightarrow> bool" where
  "is_json_content_type v \<longleftrightarrow> is_ascii v \<and>
     (let parts = map (map lower_char \<circ> strip_of is_space) (split_on CHR '';'' v) in
      parts \<noteq> [] \<and> hd parts = ''application/json'' \<and>
      list_all (\<lambda>p. p \<in> {[], ''charset=utf-8''}) (tl parts))"

abbreviation http_failure :: "int \<Rightarrow> string \<Rightarrow> string \<Rightarrow> http_error" where
  "http_failure status code message \<equiv>
     \<lparr>error_status = status, error_code = code, error_message = message, error_headers = []\<rparr>"

definition body_too_large :: http_error where
  "body_too_large = http_failure 413 ''request_body_too_large'' ''Request body exceeds the configured limit''"

text \<open>The checks of the headers, before any message is awaited.\<close>

definition header_failure :: "int \<Rightarrow> (string \<times> string) list \<Rightarrow> http_error option" where
  "header_failure max_body hs =
     (let lengths = header_values hs ''content-length'';
          invalid_headers = http_failure 400 ''invalid_request'' ''Request headers are invalid'';
          declared = (case lengths of
              [] \<Rightarrow> 0
            | v # _ \<Rightarrow> (case (if is_ascii v then python_int v else None) of None \<Rightarrow> -1 | Some n \<Rightarrow> n));
          types = header_values hs ''content-type''
      in if length lengths > 1 then Some invalid_headers
         else if declared < 0 then Some invalid_headers
         else if declared > max_body then Some body_too_large
         else if header_values hs ''content-encoding'' \<noteq> [] then Some (http_failure 415
           ''unsupported_content_encoding'' ''Encoded request bodies are not supported'')
         else if length types \<noteq> 1 \<or> \<not> is_json_content_type (hd types) then Some (http_failure 415
           ''unsupported_media_type'' ''Content-Type must be application/json'')
         else None)"

text \<open>The loop over the messages; \<open>None\<close> while the client has not sent the rest.\<close>

fun receive_body :: "int \<Rightarrow> string \<Rightarrow> message list \<Rightarrow> (http_error + string) option" where
  "receive_body max_body received [] = None"
| "receive_body max_body received (OtherMessage # ms) =
     Some (Inl (http_failure 400 ''invalid_request'' ''Request body could not be read''))"
| "receive_body max_body received (BodyChunk chunk more_body # ms) =
     (let received' = received @ chunk in
      if int (length received') > max_body then Some (Inl body_too_large)
      else if more_body then receive_body max_body received' ms
      else Some (Inr received'))"

definition validated_body ::
    "(string \<Rightarrow> bool) \<Rightarrow> int \<Rightarrow> (string \<times> string) list \<Rightarrow> message list \<Rightarrow> (http_error + string) option" where
  "validated_body strict_json max_body hs ms =
     (case header_failure max_body hs of
        Some e \<Rightarrow> Some (Inl e)
      | None \<Rightarrow> map_option (\<lambda>r. case r of
            Inl e \<Rightarrow> Inl e
          | Inr body \<Rightarrow> if strict_json body then Inr body
              else Inl (http_failure 400 ''invalid_json'' ''Request body is not valid strict JSON''))
          (receive_body max_body [] ms))"

section \<open>The middleware\<close>

text \<open>
  What a request comes to: still waiting for the client, refused with an error, or handed to the
  application with a scope and, for a method with a body, the whole body as the only message.
\<close>

datatype boundary_outcome =
    Waiting
  | Refused http_error http_scope
  | Forwarded http_scope "string option"

definition set_auth_outcome :: "http_scope \<Rightarrow> string \<Rightarrow> http_scope" where
  "set_auth_outcome s x = set_state (\<lambda>d. d\<lparr>state_auth_outcome := Some x\<rparr>) s"

definition boundary ::
    "auth_configuration \<Rightarrow> (string \<Rightarrow> bool) \<Rightarrow> int \<Rightarrow> string \<Rightarrow> http_scope \<Rightarrow> message list
     \<Rightarrow> boundary_outcome" where
  "boundary cfg strict_json max_body request_id scope ms =
     (let hs = (case scope_headers scope of None \<Rightarrow> [] | Some h \<Rightarrow> h);
          s0 = set_state (\<lambda>d. d\<lparr>state_request_id := Some request_id\<rparr>) scope
      in case authorize cfg s0 of
           (Some f, s) \<Rightarrow> Refused \<lparr>error_status = failure_status f, error_code = failure_code f,
               error_message = failure_message f, error_headers = failure_headers f\<rparr>
             (set_error_code (set_auth_outcome s (if failure_status f = 401 then ''invalid'' else ''denied''))
               (failure_code f))
         | (None, s) \<Rightarrow>
             let s1 = (if principal_from_scope s = None then s else set_auth_outcome s ''allowed'') in
             if scope_method s1 \<in> {Some ''PATCH'', Some ''POST'', Some ''PUT''} then
               (case validated_body strict_json max_body hs ms of
                  None \<Rightarrow> Waiting
                | Some (Inl e) \<Rightarrow> Refused e (set_error_code s1 (error_code e))
                | Some (Inr body) \<Rightarrow> Forwarded s1 (Some body))
             else Forwarded s1 None)"


section \<open>Facts\<close>

lemma receive_body_Inr:
  "receive_body m acc ms = Some (Inr body) \<Longrightarrow> int (length body) \<le> m \<and>
     (\<exists>chunks final rest. ms = map (\<lambda>c. BodyChunk c True) chunks @ BodyChunk final False # rest \<and>
        body = acc @ concat chunks @ final)"
proof (induction m acc ms rule: receive_body.induct)
  case (3 m acc chunk more_body ms)
  show ?case
  proof (cases more_body)
    case True
    with 3 have fits: "\<not> int (length (acc @ chunk)) > m" "receive_body m (acc @ chunk) ms = Some (Inr body)"
      by (auto simp: Let_def split: if_splits)
    from 3(1)[OF refl fits(1) True fits(2)] obtain chunks final rest where
      "int (length body) \<le> m" "ms = map (\<lambda>c. BodyChunk c True) chunks @ BodyChunk final False # rest"
      "body = (acc @ chunk) @ concat chunks @ final" by blast
    with True show ?thesis by (intro conjI exI[of _ "chunk # chunks"]) auto
  next
    case False
    with 3(2) have "body = acc @ chunk" "int (length body) \<le> m" by (auto simp: Let_def split: if_splits)
    with False show ?thesis by (intro conjI exI[of _ "[]"] exI[of _ chunk] exI[of _ ms]) auto
  qed
qed auto

lemma set_state_frame [simp]:
  "required_scope (set_state f s) = required_scope s" "scope_headers (set_state f s) = scope_headers s"
  "scope_method (set_state f s) = scope_method s" "granted cfg (set_state f s) = granted cfg s"
  "scope_state (set_state f s) = OpaqueState \<longleftrightarrow> scope_state s = OpaqueState"
proof -
  have "scope_path (set_state f s) = scope_path s" "scope_root_path (set_state f s) = scope_root_path s"
    and m: "scope_method (set_state f s) = scope_method s" and h: "scope_headers (set_state f s) = scope_headers s"
    by (simp_all add: set_state_def)
  then show "required_scope (set_state f s) = required_scope s"
    unfolding required_scope_def route_path_def by (simp only:)
  show "granted cfg (set_state f s) = granted cfg s" by (intro ext) (simp add: granted_def h)
  show "scope_state (set_state f s) = OpaqueState \<longleftrightarrow> scope_state s = OpaqueState"
    by (cases "scope_state s") (simp_all add: set_state_def)
qed (simp_all add: set_state_def)

lemma auth_outcome_principal [simp]:
  "principal_from_scope (set_auth_outcome s x) = principal_from_scope s"
  by (cases "scope_state s") (simp_all add: set_auth_outcome_def set_state_def principal_from_scope_def empty_state_def)

lemma authorize_frame:
  "scope_method (snd (authorize cfg s)) = scope_method s"
  by (simp add: authorize_def clear_principal_def Let_def split: option.split prod.split)

lemma validated_body_Inr:
  "validated_body sj m hs ms = Some (Inr body) \<longleftrightarrow> header_failure m hs = None \<and>
     receive_body m [] ms = Some (Inr body) \<and> sj body"
  by (cases "header_failure m hs"; cases "receive_body m [] ms")
    (auto simp: validated_body_def split: sum.splits if_splits)

lemma header_failure_None:
  "header_failure m hs = None \<Longrightarrow> header_values hs ''content-encoding'' = [] \<and>
     (\<exists>v. header_values hs ''content-type'' = [v] \<and> is_json_content_type v)"
  by (cases "header_values hs ''content-type''" rule: list.exhaust)
    (auto simp: header_failure_def Let_def split: if_splits)

lemma boundary_Forwarded:
  assumes "boundary cfg sj m rid s ms = Forwarded s' body"
  obtains "fst (authorize cfg (set_state (\<lambda>d. d\<lparr>state_request_id := Some rid\<rparr>) s)) = None"
    "principal_from_scope s' = principal_from_scope (snd (authorize cfg
       (set_state (\<lambda>d. d\<lparr>state_request_id := Some rid\<rparr>) s)))"
    "case body of None \<Rightarrow> scope_method s \<notin> {Some ''PATCH'', Some ''POST'', Some ''PUT''}
     | Some b \<Rightarrow> scope_method s \<in> {Some ''PATCH'', Some ''POST'', Some ''PUT''} \<and>
         validated_body sj m (case scope_headers s of None \<Rightarrow> [] | Some h \<Rightarrow> h) ms = Some (Inr b)"
proof -
  let ?s = "set_state (\<lambda>d. d\<lparr>state_request_id := Some rid\<rparr>) s"
  obtain f t where a: "authorize cfg ?s = (f, t)" by (cases "authorize cfg ?s")
  have "scope_method t = scope_method s" using authorize_frame[of cfg ?s] a by simp
  moreover have "scope_method (set_auth_outcome t ''allowed'') = scope_method t"
    by (simp add: set_auth_outcome_def)
  ultimately show thesis
    using assms a that
    by (auto simp: boundary_def Let_def split: option.splits sum.splits if_splits)
qed

end
