(* ===== verification/BoundaryProperties.thy ===== *)
theory BoundaryProperties
  imports Boundary
begin

text \<open>
  The properties of the request boundary: authorization is exact, and the application sees
  authorized requests with whole, bounded, strict JSON bodies only.
\<close>

section \<open>Authorization\<close>

text \<open>
  C24. Authorization is exact: a request is let through precisely when its route is public or it
  carries one bearer token in the strict format whose digest is registered, one project header
  with the identifier of the deployment, and its method needs a scope the principal of the token
  holds. That principal is unique and is the only identity the request keeps: one that was in the
  state before never survives, and a refused or public request has none.
\<close>

theorem authorization_exact:
  assumes "validate_registry cfg = Inr cfg'"
  shows "let (failure, s') = authorize cfg s in case required_scope s of
     None \<Rightarrow> failure = None \<and> principal_from_scope s' = None
   | Some r \<Rightarrow> (failure = None \<longleftrightarrow> scope_state s \<noteq> OpaqueState \<and> (\<exists>!p. granted cfg s r p)) \<and>
       (failure \<noteq> None \<longrightarrow> principal_from_scope s' = None) \<and>
       (\<forall>p. failure = None \<and> granted cfg s r p \<longrightarrow> principal_from_scope s' = Some
          \<lparr>ap_project_id = project_id cfg, ap_principal_id = principal_id p,
           ap_scopes = set (principal_scopes p)\<rparr>)"
proof -
  note A = authorize_cases[OF assms, of s]
  have unique: "(\<exists>!p. granted cfg s r p) \<longleftrightarrow> (\<exists>p. granted cfg s r p)" for r
    using granted_unique[OF assms] by blast
  show ?thesis
    using A unique by (cases "required_scope s"; cases "authorize cfg s") auto
qed

text \<open>A deployment with one reader.\<close>

definition reader :: principal where
  "reader = \<lparr>principal_id = ''reader'', token_digest = token_digest_unchecked dummy_token,
     principal_scopes = [SCOPE_READ]\<rparr>"

definition reader_registry :: auth_configuration where
  "reader_registry = \<lparr>auth_schema = ''control-plane-auth/v1'', project_id = ''p'', principals = [reader]\<rparr>"

definition reader_request :: "string \<Rightarrow> http_scope" where
  "reader_request m = \<lparr>scope_path = Some ''/v1/jobs'', scope_root_path = Some [], scope_method = Some m,
     scope_headers = Some [(''Authorization'', ''Bearer '' @ dummy_token), (''x-project-id'', ''p''),
       (''content-type'', ''application/json'')],
     scope_state = NoState\<rparr>"

lemma reader_valid: "validate_registry reader_registry = Inr reader_registry"
  using sha256_hex_shape[of dummy_token]
  by (simp add: validate_registry_def validate_principal_def reader_registry_def reader_def
      is_sha256_digest_def token_digest_unchecked_def is_stable_id_def matches_def is_alnum_def is_alpha_def
      is_lower_def less_eq_char_def Let_def result_simps)

lemma reader_needs:
  "required_scope (reader_request ''GET'') = Some SCOPE_READ"
  "required_scope (reader_request ''POST'') = Some SCOPE_WRITE"
  by (simp_all add: required_scope_def route_path_def reader_request_def is_cancellation_path_def)

lemma reader_headers:
  "map lower_char ''Authorization'' = ''authorization''" "map lower_char ''x-project-id'' = ''x-project-id''"
  "map lower_char ''content-type'' = ''content-type''"
  by code_simp+

lemma reader_granted: "granted reader_registry (reader_request m) r = (\<lambda>p. r = SCOPE_READ \<and> p = reader)"
proof (rule ext)
  fix p
  let ?hs = "[(''Authorization'', ''Bearer '' @ dummy_token), (''x-project-id'', ''p''),
       (''content-type'', ''application/json'')]"
  have v: "header_values ?hs ''authorization'' = [''Bearer '' @ dummy_token]"
    "header_values ?hs ''x-project-id'' = [''p'']"
    by (simp_all add: header_values_def reader_headers del: list.map) simp_all
  have t: "canonical_token dummy_token"
    by (simp add: canonical_token_def dummy_token_def is_alnum_def is_alpha_def is_lower_def list_all_length
        less_eq_char_def)
  have h: "scope_headers (reader_request m) = Some ?hs" by (simp add: reader_request_def)
  have c: "principals reader_registry = [reader]" "project_id reader_registry = ''p''"
    "principal_scopes reader = [SCOPE_READ]" "token_digest reader = token_digest_unchecked dummy_token"
    by (simp_all add: reader_registry_def reader_def)
  show "granted reader_registry (reader_request m) r p = (r = SCOPE_READ \<and> p = reader)"
    unfolding granted_def h option.inject using v t c by auto
qed

theorem authorization_exact_witness:
  "fst (authorize reader_registry (reader_request ''GET'')) = None \<and>
   fst (authorize reader_registry (reader_request ''POST'')) \<noteq> None"
proof -
  have state: "scope_state (reader_request m) \<noteq> OpaqueState" for m by (simp add: reader_request_def)
  have "fst (authorize reader_registry (reader_request ''GET'')) = None"
    using authorization_exact[OF reader_valid, of "reader_request ''GET''"] state[of "''GET''"]
    by (cases "authorize reader_registry (reader_request ''GET'')") (simp add: reader_needs reader_granted)
  moreover have "fst (authorize reader_registry (reader_request ''POST'')) \<noteq> None"
    using authorization_exact[OF reader_valid, of "reader_request ''POST''"]
    by (cases "authorize reader_registry (reader_request ''POST'')") (auto simp: reader_needs reader_granted)
  ultimately show ?thesis by blast
qed

section \<open>The boundary\<close>

text \<open>
  C25. Only vetted requests reach the application: a request that is forwarded was authorized for
  the scope its route needs, keeps the identity of that principal only, and, when its method has a
  body, brings the whole body the client sent, at most the configured number of bytes and strict
  JSON, declared as plain JSON by one content type.
\<close>

theorem only_vetted_requests_forwarded:
  assumes "validate_registry cfg = Inr cfg'"
    "boundary cfg strict_json max_body rid s ms = Forwarded s' body"
  shows "(case required_scope s of
       None \<Rightarrow> principal_from_scope s' = None
     | Some r \<Rightarrow> \<exists>!p. granted cfg s r p \<and> principal_from_scope s' = Some
         \<lparr>ap_project_id = project_id cfg, ap_principal_id = principal_id p,
          ap_scopes = set (principal_scopes p)\<rparr>) \<and>
   (case body of
       None \<Rightarrow> scope_method s \<notin> {Some ''PATCH'', Some ''POST'', Some ''PUT''}
     | Some b \<Rightarrow> int (length b) \<le> max_body \<and> strict_json b \<and>
         (\<exists>chunks final rest. ms = map (\<lambda>c. BodyChunk c True) chunks @ BodyChunk final False # rest \<and>
            b = concat chunks @ final) \<and>
         (\<forall>hs. scope_headers s = Some hs \<longrightarrow> header_values hs ''content-encoding'' = [] \<and>
            (\<exists>v. header_values hs ''content-type'' = [v] \<and> is_json_content_type v)))"
proof (rule boundary_Forwarded[OF assms(2)])
  let ?s = "set_state (\<lambda>d. d\<lparr>state_request_id := Some rid\<rparr>) s"
  assume auth: "fst (authorize cfg ?s) = None"
    and same: "principal_from_scope s' = principal_from_scope (snd (authorize cfg ?s))"
    and content: "case body of None \<Rightarrow> scope_method s \<notin> {Some ''PATCH'', Some ''POST'', Some ''PUT''}
      | Some b \<Rightarrow> scope_method s \<in> {Some ''PATCH'', Some ''POST'', Some ''PUT''} \<and>
          validated_body strict_json max_body (case scope_headers s of None \<Rightarrow> [] | Some h \<Rightarrow> h) ms = Some (Inr b)"
  note A = authorize_cases[OF assms(1), of ?s]
  have who: "case required_scope s of None \<Rightarrow> principal_from_scope s' = None
     | Some r \<Rightarrow> \<exists>!p. granted cfg s r p \<and> principal_from_scope s' = Some
         \<lparr>ap_project_id = project_id cfg, ap_principal_id = principal_id p, ap_scopes = set (principal_scopes p)\<rparr>"
  proof (cases "required_scope s")
    case None
    with A(3) same show ?thesis by simp
  next
    case (Some r)
    with A(1) auth obtain p where p: "scope_state s \<noteq> OpaqueState" "granted cfg s r p" by auto
    with A(2)[of r p] Some same have "principal_from_scope s' = Some \<lparr>ap_project_id = project_id cfg,
        ap_principal_id = principal_id p, ap_scopes = set (principal_scopes p)\<rparr>" by simp
    with p(2) Some granted_unique[OF assms(1)] show ?thesis by auto
  qed
  have "case body of None \<Rightarrow> scope_method s \<notin> {Some ''PATCH'', Some ''POST'', Some ''PUT''}
     | Some b \<Rightarrow> int (length b) \<le> max_body \<and> strict_json b \<and>
         (\<exists>chunks final rest. ms = map (\<lambda>c. BodyChunk c True) chunks @ BodyChunk final False # rest \<and>
            b = concat chunks @ final) \<and>
         (\<forall>hs. scope_headers s = Some hs \<longrightarrow> header_values hs ''content-encoding'' = [] \<and>
            (\<exists>v. header_values hs ''content-type'' = [v] \<and> is_json_content_type v))"
  proof (cases body)
    case None
    with content show ?thesis by simp
  next
    case (Some b)
    with content have "header_failure max_body (case scope_headers s of None \<Rightarrow> [] | Some h \<Rightarrow> h) = None"
      and b: "receive_body max_body [] ms = Some (Inr b)" "strict_json b"
      by (simp_all add: validated_body_Inr)
    from header_failure_None[OF this(1)] receive_body_Inr[OF b(1)] b(2) Some show ?thesis by auto
  qed
  with who show ?thesis by blast
qed

theorem only_vetted_requests_forwarded_witness:
  "\<exists>s'. boundary reader_registry (\<lambda>_. True) 100 ''req'' (reader_request ''GET'') [] = Forwarded s' None \<and>
     principal_from_scope s' \<noteq> None"
proof -
  let ?s = "set_state (\<lambda>d. d\<lparr>state_request_id := Some ''req''\<rparr>) (reader_request ''GET'')"
  have state: "scope_state (reader_request ''GET'') \<noteq> OpaqueState" by (simp add: reader_request_def)
  have "fst (authorize reader_registry ?s) = None"
    using authorize_cases(1)[OF reader_valid, of ?s] state by (simp add: reader_needs reader_granted)
  then obtain b where b: "authorize reader_registry ?s = (None, b)" by (cases "authorize reader_registry ?s") simp
  have "scope_method b = Some ''GET''"
    using authorize_frame[of reader_registry ?s] b by (simp add: reader_request_def)
  then have "\<exists>s'. boundary reader_registry (\<lambda>_. True) 100 ''req'' (reader_request ''GET'') [] = Forwarded s' None"
    using b by (cases "principal_from_scope b = None") (simp_all add: boundary_def Let_def set_auth_outcome_def)
  then obtain s' where f: "boundary reader_registry (\<lambda>_. True) 100 ''req'' (reader_request ''GET'') []
      = Forwarded s' None" by blast
  from only_vetted_requests_forwarded[OF reader_valid f] f show ?thesis by (auto simp: reader_needs)
qed

end
