(* ===== verification/TelemetryProperties.thy ===== *)
theory TelemetryProperties
  imports Boundary
begin

text \<open>
  The property of the request telemetry: whatever a request holds, the metrics, the span and the
  log line made of it hold values of closed sets only. Paths, queries, headers, bodies,
  principals and messages of exceptions cannot reach them.
\<close>

definition closed_value :: "string \<Rightarrow> string \<Rightarrow> string \<Rightarrow> json set" where
  "closed_value service timestamp k =
     (if k = ''duration_ms'' then JInt ` {0..86400000}
      else if k = ''event'' then {JStr ''http.request.completed''}
      else if k \<in> {''http_method'', ''http.request.method''} then JStr ` insert ''OTHER'' (set http_methods)
      else if k \<in> {''http_route'', ''http.route''} then JStr ` insert ''unmatched'' (set http_routes)
      else if k \<in> {''http_status'', ''http.response.status_code''} then JInt ` {100..599}
      else if k = ''outcome'' then JStr ` {''success'', ''client_error'', ''server_error''}
      else if k \<in> {''request_id'', ''control_plane.request_id''} then JStr ` Collect is_request_id
      else if k = ''schema_version'' then {JStr ''control-plane-log/v1''}
      else if k = ''service'' then {JStr service}
      else if k = ''severity'' then JStr ` {''INFO'', ''WARNING'', ''ERROR''}
      else if k = ''span_id'' then JStr ` {s. is_hex_text 16 s}
      else if k = ''timestamp'' then {JStr timestamp}
      else if k = ''trace_id'' then JStr ` {s. is_hex_text 32 s}
      else if k \<in> {''error_code'', ''control_plane.error_code''} then JStr ` insert ''unknown'' (set error_codes)
      else {})"

fun closed_call :: "string \<Rightarrow> string \<Rightarrow> telemetry_call \<Rightarrow> bool" where
  "closed_call service timestamp (RequestsInProgress n) \<longleftrightarrow> n = 1 \<or> n = -1"
| "closed_call service timestamp (CountRequest m r c) \<longleftrightarrow> m \<in> insert ''OTHER'' (set http_methods) \<and>
     r \<in> insert ''unmatched'' (set http_routes) \<and> c \<in> {''1xx'', ''2xx'', ''3xx'', ''4xx'', ''5xx''}"
| "closed_call service timestamp (ObserveDuration m r d) \<longleftrightarrow> m \<in> insert ''OTHER'' (set http_methods) \<and>
     r \<in> insert ''unmatched'' (set http_routes) \<and>
     d \<in> (\<lambda>n. rnd64 (of_int n / 1000000000)) ` {0..86400 * 1000000000}"
| "closed_call service timestamp (CountError r c) \<longleftrightarrow> r \<in> insert ''unmatched'' (set http_routes) \<and>
     c \<in> insert ''unknown'' (set error_codes)"
| "closed_call service timestamp (CountAuth x) \<longleftrightarrow> x \<in> {''allowed'', ''denied'', ''invalid''}"
| "closed_call service timestamp (SpanName n) \<longleftrightarrow> n \<in> (\<lambda>(m, r). m @ '' '' @ r) `
     (insert ''OTHER'' (set http_methods) \<times> insert ''unmatched'' (set http_routes))"
| "closed_call service timestamp (SpanAttribute k v) \<longleftrightarrow> v \<in> closed_value service timestamp k"
| "closed_call service timestamp SpanFailed \<longleftrightarrow> True"
| "closed_call service timestamp (LogEvent (JObj es)) \<longleftrightarrow> distinct (map fst es) \<and>
     list_all (\<lambda>(k, v). v \<in> closed_value service timestamp k) es"
| "closed_call service timestamp (LogEvent _) \<longleftrightarrow> False"

lemma in_vocabulary_closed: "in_vocabulary vs d v \<in> insert d (set vs)"
  by (auto simp: in_vocabulary_def split: option.split)

lemmas safe_label_closed =
  in_vocabulary_closed[of http_methods "''OTHER''", folded safe_http_method_def]
  in_vocabulary_closed[of http_routes "''unmatched''", folded safe_http_route_def]
  in_vocabulary_closed[of error_codes "''unknown''", folded safe_error_code_def]

lemma safe_http_status_bounds: "100 \<le> safe_http_status v" "safe_http_status v \<le> 599"
  by (auto simp: safe_http_status_def split: option.split)

lemma bounded_duration_bounds: "bounded_duration_ns v \<in> {0..86400 * 1000000000}"
  by (auto simp: bounded_duration_ns_def split: option.split)

lemma duration_ms_bounds: "bounded_duration_ns v div 1000000 \<in> {0..86400000}"
proof -
  have "bounded_duration_ns v div 1000000 \<le> 86400 * 1000000000 div 1000000"
    using bounded_duration_bounds[of v] by (intro zdiv_mono1) simp_all
  with bounded_duration_bounds[of v] show ?thesis by (simp add: pos_imp_zdiv_nonneg_iff)
qed

lemma safe_hex_closed: "is_hex_text n (safe_hex n v)"
  by (auto simp: safe_hex_def is_hex_text_def is_hex_def is_digit_def less_eq_char_def list_all_length
      split: option.split)

lemma safe_request_id_closed: "is_request_id (safe_request_id v)"
proof -
  have "is_request_id ''request_unknown''"
    by (simp add: is_request_id_def matches_def is_alnum_def is_alpha_def is_lower_def less_eq_char_def)
  then show ?thesis by (auto simp: safe_request_id_def split: option.split)
qed

lemma status_class_closed:
  assumes "100 \<le> n" "n \<le> 599"
  shows "status_class n \<in> {''1xx'', ''2xx'', ''3xx'', ''4xx'', ''5xx''}"
proof -
  have "n div 100 \<in> {1, 2, 3, 4, 5}" using assms by auto
  then show ?thesis unfolding status_class_def by auto
qed

lemma safe_http_status_idem: "100 \<le> n \<Longrightarrow> n \<le> 599 \<Longrightarrow> safe_http_status (Some n) = n"
  by (simp add: safe_http_status_def)

lemma finish_status_bounds: "100 \<le> finish_status q" "finish_status q \<le> 599"
  using safe_http_status_bounds by (auto simp: finish_status_def split: list.split)

lemma request_finished_closed:
  "list_all (closed_call service timestamp) (request_finished m r status code duration)"
  using safe_label_closed bounded_duration_bounds[of duration] safe_http_status_bounds[of status]
  by (simp add: request_finished_def Let_def status_class_closed del: insert_iff)

lemma closed_value_keys:
  "closed_value service timestamp ''duration_ms'' = JInt ` {0..86400000}"
  "closed_value service timestamp ''event'' = {JStr ''http.request.completed''}"
  "closed_value service timestamp ''http_method'' = JStr ` insert ''OTHER'' (set http_methods)"
  "closed_value service timestamp ''http.request.method'' = JStr ` insert ''OTHER'' (set http_methods)"
  "closed_value service timestamp ''http_route'' = JStr ` insert ''unmatched'' (set http_routes)"
  "closed_value service timestamp ''http.route'' = JStr ` insert ''unmatched'' (set http_routes)"
  "closed_value service timestamp ''http_status'' = JInt ` {100..599}"
  "closed_value service timestamp ''http.response.status_code'' = JInt ` {100..599}"
  "closed_value service timestamp ''outcome'' = JStr ` {''success'', ''client_error'', ''server_error''}"
  "closed_value service timestamp ''request_id'' = JStr ` Collect is_request_id"
  "closed_value service timestamp ''control_plane.request_id'' = JStr ` Collect is_request_id"
  "closed_value service timestamp ''schema_version'' = {JStr ''control-plane-log/v1''}"
  "closed_value service timestamp ''service'' = {JStr service}"
  "closed_value service timestamp ''severity'' = JStr ` {''INFO'', ''WARNING'', ''ERROR''}"
  "closed_value service timestamp ''span_id'' = JStr ` {s. is_hex_text 16 s}"
  "closed_value service timestamp ''timestamp'' = {JStr timestamp}"
  "closed_value service timestamp ''trace_id'' = JStr ` {s. is_hex_text 32 s}"
  "closed_value service timestamp ''error_code'' = JStr ` insert ''unknown'' (set error_codes)"
  "closed_value service timestamp ''control_plane.error_code'' = JStr ` insert ''unknown'' (set error_codes)"
  by (simp_all add: closed_value_def)

lemmas closed_values =
  imageI[OF safe_label_closed(1), of JStr] imageI[OF safe_label_closed(2), of JStr]
  imageI[OF safe_label_closed(3), of JStr] imageI[OF duration_ms_bounds, of JInt]
  imageI[OF CollectI[of is_request_id, OF safe_request_id_closed], of JStr]
  imageI[OF CollectI[of "is_hex_text 32", OF safe_hex_closed], of JStr]
  imageI[OF CollectI[of "is_hex_text 16", OF safe_hex_closed], of JStr]

lemma emit_http_event_closed:
  "list_all (closed_call service timestamp)
     (emit_http_event service timestamp request_id trace_id span_id m r status code duration)"
proof -
  have status: "JInt (safe_http_status status) \<in> JInt ` {100..599}"
    using safe_http_status_bounds[of status] by simp
  consider "safe_http_status status \<ge> 500" | "safe_http_status status \<ge> 400" "safe_http_status status < 500"
    | "safe_http_status status < 400" by linarith
  then show ?thesis
    by cases (simp add: emit_http_event_def Let_def closed_value_keys closed_values status
      safe_trace_id_def safe_span_id_def del: image_insert insert_iff, simp)+
qed

text \<open>
  C30. Telemetry is closed: every call made for a request, whatever its method, path, headers,
  state and identifiers, the statuses the application sent and the exception it may have raised,
  takes its labels, attributes and log fields from the fixed vocabularies, a status from 100 to
  599, a duration of at most a day, an identifier of the fixed format and hexadecimal trace
  identifiers, and the log line has each field once.
\<close>

theorem telemetry_closed:
  "list_all (closed_call service timestamp) (observe_request service timestamp request_method q)"
proof -
  have status: "JInt (finish_status q) \<in> JInt ` {100..599}" using finish_status_bounds[of q] by simp
  have auth: "list_all (closed_call service timestamp) (case auth_outcome_from_scope (finish_scope q) of
      None \<Rightarrow> [] | Some x \<Rightarrow> record_auth_decision x)"
    by (auto simp: auth_outcome_from_scope_def record_auth_decision_def in_vocabulary_def auth_outcomes_def
        split: option.split)
  have code: "list_all (closed_call service timestamp) (case error_code_from_scope (finish_scope q) n of
      None \<Rightarrow> [] | Some c \<Rightarrow> [SpanAttribute ''control_plane.error_code'' (JStr c)])" for n
    by (simp add: error_code_from_scope_def closed_value_keys closed_values del: image_insert)
  have name: "closed_call service timestamp (SpanName (safe_http_method m @ '' '' @ safe_http_route r))" for m r
    using safe_label_closed(1)[of m] safe_label_closed(2)[of r] by (auto simp del: insert_iff)
  show ?thesis
    using safe_label_closed name
    by (simp add: observe_request_def Let_def request_finished_closed emit_http_event_closed auth code status
        closed_value_keys closed_values request_id_from_scope_def del: image_insert insert_iff closed_call.simps(6))
qed

end
