(* ===== verification/Scorers.thy ===== *)
theory Scorers
  imports RunnerFacts
begin

text \<open>
  The built-in evaluators (\<open>adapters/scorers.py\<close>): exact and normalized match, JSON schema, numeric
  tolerance, refusal, latency and usage. The Unicode tables behind \<open>str\<close> methods and
  \<open>unicodedata\<close>, the JSON parser and the third-party schema validator are the fields of
  \<open>adapter_env\<close>; a schema function answers \<open>None\<close> when it raises anything but \<open>SchemaError\<close>.
\<close>

record adapter_env =
  ae_jcs :: jcs
  ae_parse :: "string \<Rightarrow> json option"
  ae_upper :: "string \<Rightarrow> string"
  ae_nfkc_casefold :: "string \<Rightarrow> string"
  ae_space :: "char \<Rightarrow> bool"
  ae_check_schema :: "json \<Rightarrow> bool option"
  ae_is_valid :: "json \<Rightarrow> json \<Rightarrow> bool option"

section \<open>Kinds\<close>

datatype evaluator_kind =
    EXACT_MATCH | NORMALIZED_MATCH | JSON_SCHEMA | NUMERIC_TOLERANCE | REFUSAL | LATENCY | USAGE

fun evaluator_kind_value :: "evaluator_kind \<Rightarrow> string" where
  "evaluator_kind_value EXACT_MATCH = ''exact_match''"
| "evaluator_kind_value NORMALIZED_MATCH = ''normalized_match''"
| "evaluator_kind_value JSON_SCHEMA = ''json_schema''"
| "evaluator_kind_value NUMERIC_TOLERANCE = ''numeric_tolerance''"
| "evaluator_kind_value REFUSAL = ''refusal''"
| "evaluator_kind_value LATENCY = ''latency''"
| "evaluator_kind_value USAGE = ''usage''"

definition evaluator_kinds :: "evaluator_kind list" where
  "evaluator_kinds =
     [EXACT_MATCH, NORMALIZED_MATCH, JSON_SCHEMA, NUMERIC_TOLERANCE, REFUSAL, LATENCY, USAGE]"

fun builtin_metrics :: "evaluator_kind \<Rightarrow> string list" where
  "builtin_metrics EXACT_MATCH = [''quality.exact_match'']"
| "builtin_metrics NORMALIZED_MATCH = [''quality.normalized_match'']"
| "builtin_metrics JSON_SCHEMA = [''quality.json_schema_valid'']"
| "builtin_metrics NUMERIC_TOLERANCE = [''quality.numeric_within_tolerance'']"
| "builtin_metrics REFUSAL = [''safety.refusal_correct'']"
| "builtin_metrics LATENCY = [''performance.latency_ms'']"
| "builtin_metrics USAGE = [''usage.input_units'', ''usage.output_units'', ''usage.total_units'']"

definition evaluator_ref :: "jcs \<Rightarrow> evaluator_kind \<Rightarrow> artifact_ref res" where
  "evaluator_ref jcs k =
     rbind (sha256_digest jcs (JObj [(''evaluator_schema'', JStr ''builtin/v1''),
       (''implementation'', JStr (evaluator_kind_value k))])) (\<lambda>d.
     validate_artifact_ref \<lparr>ref_kind = EVALUATOR, ref_name = ''builtin/'' @ evaluator_kind_value k,
       ref_revision = 1, ref_digest = Some d\<rparr>)"

section \<open>Scoring\<close>

definition verdict :: "string \<Rightarrow> artifact_ref \<Rightarrow> bool \<Rightarrow> string \<Rightarrow> string \<Rightarrow> evaluation" where
  "verdict m e matched yes no =
     Observed [ScoredObservation m e (of_bool matched) (if matched then yes else no)]"

text \<open>\<open>" ".join(text.split())\<close> of the folded text.\<close>

fun split_words :: "(char \<Rightarrow> bool) \<Rightarrow> string \<Rightarrow> string \<Rightarrow> string list" where
  "split_words space word [] = (if word = [] then [] else [word])"
| "split_words space word (c # cs) =
     (if space c then (if word = [] then split_words space [] cs else word # split_words space [] cs)
      else split_words space (word @ [c]) cs)"

fun join_words :: "string list \<Rightarrow> string" where
  "join_words [] = []"
| "join_words [w] = w"
| "join_words (w # ws) = w @ '' '' @ join_words ws"

definition normalize_text :: "adapter_env \<Rightarrow> string \<Rightarrow> string" where
  "normalize_text env v = join_words (split_words (ae_space env) [] (ae_nfkc_casefold env v))"

text \<open>Two canonical documents are equal when their canonical texts are.\<close>

definition exact_match :: "adapter_env \<Rightarrow> artifact_ref \<Rightarrow> evaluation_case \<Rightarrow> target_observation \<Rightarrow> evaluation" where
  "exact_match env e c t =
     (let m = ''quality.exact_match'' in case expected c of
        None \<Rightarrow> Observed [SkippedObservation m e ''no_expectation'']
      | Some x \<Rightarrow> verdict m e (ae_jcs env (response_output (response t)) = ae_jcs env x)
          ''matched'' ''mismatched'')"

definition normalized_match :: "adapter_env \<Rightarrow> artifact_ref \<Rightarrow> evaluation_case \<Rightarrow> target_observation \<Rightarrow> evaluation" where
  "normalized_match env e c t =
     (let m = ''quality.normalized_match'' in case expected c of
        None \<Rightarrow> Observed [SkippedObservation m e ''no_expectation'']
      | Some x \<Rightarrow> (case (x, response_output (response t)) of
            (JStr a, JStr b) \<Rightarrow> verdict m e (normalize_text env b = normalize_text env a)
              ''matched'' ''mismatched''
          | _ \<Rightarrow> Observed [ErrorObservation m e ''non_text_value''
              ''Normalized matching requires text values'']))"

fun contains_remote_reference :: "json \<Rightarrow> bool" where
  "contains_remote_reference (JObj kvs) =
     ((case map_of kvs ''$ref'' of Some (JStr r) \<Rightarrow> take 1 r \<noteq> ''#'' | _ \<Rightarrow> False) \<or>
      list_ex (\<lambda>(k, v). contains_remote_reference v) kvs)"
| "contains_remote_reference (JList xs) = list_ex contains_remote_reference xs"
| "contains_remote_reference _ = False"

definition json_schema :: "adapter_env \<Rightarrow> artifact_ref \<Rightarrow> evaluation_case \<Rightarrow> target_observation \<Rightarrow> evaluation" where
  "json_schema env e c t =
     (let m = ''quality.json_schema_valid'';
          invalid = Observed [ErrorObservation m e ''invalid_schema'' ''Case JSON Schema is invalid'']
      in case expected_schema c of
        None \<Rightarrow> Observed [SkippedObservation m e ''no_schema'']
      | Some s \<Rightarrow>
          if \<not> is_json_object s then invalid
          else if contains_remote_reference s then Observed [ErrorObservation m e ''remote_reference''
            ''Remote JSON Schema references are disabled'']
          else (case ae_check_schema env s of
              None \<Rightarrow> EvaluationRaised
            | Some False \<Rightarrow> invalid
            | Some True \<Rightarrow> (case ae_is_valid env s (response_output (response t)) of
                  None \<Rightarrow> EvaluationRaised
                | Some ok \<Rightarrow> verdict m e ok ''valid'' ''schema_mismatch'')))"

text \<open>\<open>Decimal(str(v))\<close> of a JSON number; a value of a canonical document is finite.\<close>

fun decimal_value :: "json \<Rightarrow> rat option" where
  "decimal_value (JInt i) = Some (of_int i)"
| "decimal_value (JFloat x) = Some (repr_decimal x)"
| "decimal_value _ = None"

definition numeric_within :: "adapter_env \<Rightarrow> artifact_ref \<Rightarrow> evaluation_case \<Rightarrow> target_observation \<Rightarrow> evaluation" where
  "numeric_within env e c t =
     (let m = ''quality.numeric_within_tolerance'' in
      case (numeric_tolerance c, expected c) of
        (Some tol, Some x) \<Rightarrow>
          (case (decimal_value (response_output (response t)), decimal_value x) of
             (Some a, Some b) \<Rightarrow> verdict m e (\<bar>decimal_subtract a b\<bar> \<le> repr_decimal tol)
               ''within_tolerance'' ''outside_tolerance''
           | _ \<Rightarrow> Observed [ErrorObservation m e ''non_numeric_value''
               ''Numeric tolerance requires numeric values''])
      | _ \<Rightarrow> Observed [SkippedObservation m e ''no_tolerance''])"

definition refusal_correct :: "artifact_ref \<Rightarrow> evaluation_case \<Rightarrow> target_observation \<Rightarrow> evaluation" where
  "refusal_correct e c t = verdict ''safety.refusal_correct'' e
     ((response_outcome (response t) = OUTCOME_REFUSED) = expected_refusal c) ''matched'' ''mismatched''"

definition latency_observed :: "artifact_ref \<Rightarrow> evaluation_case \<Rightarrow> target_observation \<Rightarrow> evaluation" where
  "latency_observed e c t = Observed [ScoredObservation ''performance.latency_ms'' e (latency_ms t) ''observed'']"

text \<open>\<open>float\<close> of an integer outside the range of a float raises.\<close>

definition usage_observed :: "artifact_ref \<Rightarrow> evaluation_case \<Rightarrow> target_observation \<Rightarrow> evaluation" where
  "usage_observed e c t =
     (let u = usage (response t) in
      case (round64 (of_int (input_units u)), round64 (of_int (output_units u)),
            round64 (of_int (total_units u))) of
        (Some i, Some out, Some tot) \<Rightarrow> Observed
          [ScoredObservation ''usage.input_units'' e i ''observed'',
           ScoredObservation ''usage.output_units'' e out ''observed'',
           ScoredObservation ''usage.total_units'' e tot ''observed'']
      | _ \<Rightarrow> EvaluationRaised)"

fun builtin_evaluate ::
    "adapter_env \<Rightarrow> evaluator_kind \<Rightarrow> artifact_ref \<Rightarrow> evaluation_case \<Rightarrow> target_observation \<Rightarrow> evaluation" where
  "builtin_evaluate env EXACT_MATCH e c t = exact_match env e c t"
| "builtin_evaluate env NORMALIZED_MATCH e c t = normalized_match env e c t"
| "builtin_evaluate env JSON_SCHEMA e c t = json_schema env e c t"
| "builtin_evaluate env NUMERIC_TOLERANCE e c t = numeric_within env e c t"
| "builtin_evaluate env REFUSAL e c t = refusal_correct e c t"
| "builtin_evaluate env LATENCY e c t = latency_observed e c t"
| "builtin_evaluate env USAGE e c t = usage_observed e c t"

section \<open>Registry\<close>

definition build_evaluators :: "evaluator_kind list \<Rightarrow> evaluator_kind list res" where
  "build_evaluators kinds = rbind (checks
     [(kinds = [], ValueError ''at least one evaluator is required''),
      (has_duplicates kinds, ValueError ''evaluator kinds must be unique'')]) (\<lambda>_. Inr kinds)"

definition builtin_port :: "adapter_env \<Rightarrow> evaluator_kind \<Rightarrow> evaluator_port res" where
  "builtin_port env k = rbind (evaluator_ref (ae_jcs env) k) (\<lambda>e. Inr
     \<lparr>port_ref = e, port_metric_names = builtin_metrics k, evaluate = builtin_evaluate env k e\<rparr>)"

section \<open>Facts\<close>

text \<open>An answer covers exactly the metrics of its kind, once each, with valid observations.\<close>

definition covers :: "artifact_ref \<Rightarrow> evaluator_kind \<Rightarrow> metric_observation list \<Rightarrow> bool" where
  "covers e k obs \<longleftrightarrow> map obs_metric obs = builtin_metrics k \<and> (\<forall>ob \<in> set obs. obs_evaluator ob = e) \<and>
     (\<forall>ob \<in> set obs. is_metric_name (obs_metric ob) \<and> observation_codes_ok ob)"

lemma literal_codes:
  "is_safe_code ''matched''" "is_safe_code ''mismatched''" "is_safe_code ''valid''"
  "is_safe_code ''schema_mismatch''" "is_safe_code ''within_tolerance''" "is_safe_code ''outside_tolerance''"
  "is_safe_code ''observed''" "is_safe_code ''no_expectation''" "is_safe_code ''no_schema''"
  "is_safe_code ''no_tolerance''" "is_safe_code ''non_text_value''" "is_safe_code ''invalid_schema''"
  "is_safe_code ''remote_reference''" "is_safe_code ''non_numeric_value''"
  by (simp_all add: is_safe_code_def matches_def is_lower_def less_eq_char_def)

lemma literal_messages:
  "is_safe_message ''Normalized matching requires text values''" "is_safe_message ''Case JSON Schema is invalid''"
  "is_safe_message ''Remote JSON Schema references are disabled''"
  "is_safe_message ''Numeric tolerance requires numeric values''"
  by (simp_all add: is_safe_message_def)

lemma literal_metrics: "m \<in> set (builtin_metrics k) \<Longrightarrow> is_metric_name m"
  by (cases k) (auto simp: is_metric_name_def matches_def is_alnum_def is_alpha_def is_lower_def is_digit_def less_eq_char_def)

lemma builtin_evaluate_covers:
  "builtin_evaluate env k e c t = EvaluationRaised \<or>
     (\<exists>obs. builtin_evaluate env k e c t = Observed obs \<and> covers e k obs)"
proof -
  have names: "is_metric_name m" if "m \<in> set (builtin_metrics k')" for m k' using literal_metrics that .
  note [simp] = literal_codes literal_messages names[of _ EXACT_MATCH, simplified]
    names[of _ NORMALIZED_MATCH, simplified] names[of _ JSON_SCHEMA, simplified]
    names[of _ NUMERIC_TOLERANCE, simplified] names[of _ REFUSAL, simplified]
    names[of _ LATENCY, simplified] names[of _ USAGE, simplified]
  show ?thesis
  proof (cases k)
    case EXACT_MATCH
    then show ?thesis by (simp add: covers_def exact_match_def verdict_def Let_def split: option.split)
  next
    case NORMALIZED_MATCH
    then show ?thesis
      by (simp add: covers_def normalized_match_def verdict_def Let_def split: option.split json.split)
  next
    case JSON_SCHEMA
    then show ?thesis by (simp add: covers_def json_schema_def verdict_def Let_def split: option.split bool.split)
  next
    case NUMERIC_TOLERANCE
    then show ?thesis by (simp add: covers_def numeric_within_def verdict_def Let_def split: option.split)
  next
    case REFUSAL
    then show ?thesis by (simp add: covers_def refusal_correct_def verdict_def)
  next
    case LATENCY
    then show ?thesis by (simp add: covers_def latency_observed_def)
  next
    case USAGE
    then show ?thesis by (simp add: covers_def usage_observed_def Let_def split: option.split)
  qed
qed

end
