(* ===== verification/FakeTarget.thy ===== *)
theory FakeTarget
  imports Scorers
begin

text \<open>
  The offline target and its clock (\<open>adapters/fake_target.py\<close>): named scenarios without network
  or randomness. \<open>FakeTargetError\<close>, and every other exception inside \<open>invoke\<close>, is
  \<open>InvocationRaised\<close> to the runner; the two envelopes that lack a valid usage are
  \<open>MalformedResponse\<close>. The list of past invocations is only read by tests and left out.
\<close>

section \<open>Clock\<close>

text \<open>Reading \<open>k\<close> is 0 with the step added \<open>k\<close> times; a step of 5 ms is \<open>5.0 / 1000\<close> seconds.\<close>

definition step_seconds :: rat where
  "step_seconds = rnd64 (5 / 1000)"

fun step_clock :: "nat \<Rightarrow> rat option" where
  "step_clock 0 = Some 0"
| "step_clock (Suc k) = Option.bind (step_clock k) (\<lambda>t. round64 (t + step_seconds))"

section \<open>Scenarios\<close>

definition scenario_names :: "string list" where
  "scenario_names = [''echo'', ''uppercase'', ''offset'', ''refuse'', ''mismatch'', ''malformed'',
     ''missing_usage'', ''raise'']"

text \<open>Keys of a mapping are unique, so sorting its items sorts it by key.\<close>

definition validated_overrides :: "(string \<times> string) list \<Rightarrow> (string \<times> string) list res" where
  "validated_overrides scenario = rbind (checks
     [(\<exists>(c, s) \<in> set scenario. \<not> is_case_id c \<or> s \<notin> set scenario_names,
       ValueError ''Scenario overrides failed contract validation'')])
     (\<lambda>_. Inr (sort_key fst (dict_of scenario)))"

definition fake_target_ref :: "adapter_env \<Rightarrow> string \<Rightarrow> int \<Rightarrow> (string \<times> string) list \<Rightarrow> artifact_ref res" where
  "fake_target_ref env name revision scenario =
     rbind (sha256_digest (ae_jcs env) (JObj
       ([(''behavior'', JStr ''fake-target/v1''), (''scenarios'', JList (map JStr scenario_names))]
        @ (if scenario = [] then []
           else [(''scenario_overrides'', JObj (map (\<lambda>(c, s). (c, JStr s)) scenario))])))) (\<lambda>d.
     validate_artifact_ref
       \<lparr>ref_kind = TARGET, ref_name = name, ref_revision = revision, ref_digest = Some d\<rparr>)"

text \<open>\<open>value + offset\<close>: integers are exact, any float operand makes it a float addition.\<close>

fun as_float :: "json \<Rightarrow> rat option" where
  "as_float (JInt i) = round64 (of_int i)"
| "as_float (JFloat x) = Some x"
| "as_float _ = None"

fun add_numbers :: "json \<Rightarrow> json \<Rightarrow> json option" where
  "add_numbers (JInt i) (JInt j) = Some (JInt (i + j))"
| "add_numbers a b = Option.bind (as_float a) (\<lambda>x. Option.bind (as_float b) (\<lambda>y.
     map_option JFloat (round64 (x + y))))"

definition entry :: "(string \<times> json) list \<Rightarrow> string \<Rightarrow> json" where
  "entry payload k = (case map_of payload k of None \<Rightarrow> JNull | Some v \<Rightarrow> v)"

text \<open>
  \<open>_execute_scenario\<close>; \<open>None\<close> when it raises, or when an infinite sum later fails to serialize.
\<close>

definition execute_scenario ::
    "adapter_env \<Rightarrow> string \<Rightarrow> (string \<times> json) list \<Rightarrow> (json \<times> target_outcome \<times> string option) option" where
  "execute_scenario env scenario payload =
     (if scenario = ''echo'' then Some (entry payload ''value'', OUTCOME_COMPLETED, None)
      else if scenario = ''mismatch'' then Some (entry payload ''actual'', OUTCOME_COMPLETED, None)
      else if scenario = ''uppercase'' then
        (case entry payload ''value'' of
           JStr s \<Rightarrow> Some (JStr (ae_upper env s), OUTCOME_COMPLETED, None) | _ \<Rightarrow> None)
      else if scenario = ''offset'' then
        map_option (\<lambda>v. (v, OUTCOME_COMPLETED, None))
          (add_numbers (entry payload ''value'') (entry payload ''offset''))
      else if scenario = ''refuse'' then
        Some ((case map_of payload ''value'' of None \<Rightarrow> JStr ''refused'' | Some v \<Rightarrow> v), OUTCOME_REFUSED,
          Some ''policy_block'')
      else None)"

text \<open>\<open>CanonicalJson.from_value\<close>: serialized, and read back to the same text.\<close>

definition canonical_document :: "adapter_env \<Rightarrow> json \<Rightarrow> json option" where
  "canonical_document env v = Option.bind (ae_jcs env v) (\<lambda>t. Option.bind (ae_parse env t) (\<lambda>w.
     if ae_jcs env w = Some t then Some w else None))"

definition estimated_units :: "string \<Rightarrow> int" where
  "estimated_units bytes = max 1 ((int (length bytes) + 3) div 4)"

definition document_units :: "adapter_env \<Rightarrow> json \<Rightarrow> int" where
  "document_units env v = (case ae_jcs env v of None \<Rightarrow> 1 | Some t \<Rightarrow> estimated_units t)"

definition fake_invoke :: "adapter_env \<Rightarrow> (string \<times> string) list \<Rightarrow> target_request \<Rightarrow> invocation" where
  "fake_invoke env scenario_overrides q = (case request_input q of
     JObj payload \<Rightarrow> (case entry payload ''scenario'' of
         JStr own \<Rightarrow>
           let scenario = (case map_of scenario_overrides (request_case_id q) of Some s \<Rightarrow> s | None \<Rightarrow> own) in
           if scenario = ''malformed'' \<or> scenario = ''missing_usage'' then MalformedResponse
           else if scenario = ''raise'' then InvocationRaised
           else (case execute_scenario env scenario payload of
               None \<Rightarrow> InvocationRaised
             | Some (output, outcome, code) \<Rightarrow> (case canonical_document env output of
                   None \<Rightarrow> InvocationRaised
                 | Some document \<Rightarrow> Response
                     \<lparr>response_output = document, response_outcome = outcome, refusal_code = code,
                      usage = \<lparr>input_units = document_units env (request_input q),
                        output_units = document_units env document\<rparr>\<rparr>))
       | _ \<Rightarrow> InvocationRaised)
   | _ \<Rightarrow> InvocationRaised)"

definition fake_target ::
    "adapter_env \<Rightarrow> string \<Rightarrow> int \<Rightarrow> (string \<times> string) list \<Rightarrow> target_port res" where
  "fake_target env name revision scenario_overrides =
     rbind (validated_overrides scenario_overrides) (\<lambda>scenario.
     rbind (fake_target_ref env name revision scenario) (\<lambda>r.
     Inr \<lparr>target_port_ref = r, invoke = fake_invoke env scenario\<rparr>))"

section \<open>Facts\<close>

lemma round64_mono_Some:
  assumes "round64 x = Some a" "round64 y = Some b" "x \<le> y"
  shows "a \<le> b"
  using assms rnd64_mono[of x y] by (auto simp: round64_def Let_def split: if_splits)

end
