(* ===== verification/ExecutionAdapter.thy ===== *)
theory ExecutionAdapter
  imports FakeTarget Contracts
begin

text \<open>
  The offline execution adapter (\<open>api/execution.py\<close>), the executor the workers run with: it
  resolves evaluator names, builds the fake target and the built-in evaluators, and runs the
  in-process runner. Tracing and the thread it runs in have no influence on its result and are
  left out.
\<close>

definition adapter_name :: string where
  "adapter_name = ''deterministic_fake''"

definition evaluator_kinds_of :: "string list \<Rightarrow> evaluator_kind list res" where
  "evaluator_kinds_of names = rmap (\<lambda>n. of_option (ValueError ''unsupported evaluator'')
     (List.find (\<lambda>k. evaluator_kind_value k = n) evaluator_kinds)) names"

definition adapter_validate ::
    "adapter_env \<Rightarrow> string \<Rightarrow> int \<Rightarrow> string \<Rightarrow> string list \<Rightarrow> overrides \<Rightarrow> execution_contract res" where
  "adapter_validate env name revision adapter evaluator_names scenario_overrides =
     rbind (checks [(adapter \<noteq> adapter_name, ValueError ''unsupported target adapter'')]) (\<lambda>_.
     rbind (evaluator_kinds_of evaluator_names) (\<lambda>names.
     rbind (build_evaluators names) (\<lambda>kinds.
     rbind (fake_target env name revision scenario_overrides) (\<lambda>target.
     rbind (rmap (builtin_port env) kinds) (\<lambda>evaluators.
     validate_contract
       \<lparr>contract_adapter = adapter_name, contract_evaluator_names = evaluator_names,
        contract_target = target_port_ref target, contract_evaluators = map port_ref evaluators,
        contract_mode = OFFLINE_MOCK\<rparr>)))))"

definition promised_evaluator :: "adapter_env \<Rightarrow> string \<Rightarrow> evaluator_kind \<Rightarrow> suite_evaluator res" where
  "promised_evaluator env name k = rbind (builtin_port env k) (\<lambda>e. validate_suite_evaluator
     \<lparr>executor_name = name, evaluator_artifact = port_ref e, evaluator_metrics = port_metric_names e\<rparr>)"

definition adapter_validate_suite ::
    "adapter_env \<Rightarrow> string \<Rightarrow> string list \<Rightarrow> suite_execution_contract res" where
  "adapter_validate_suite env adapter evaluator_names =
     rbind (checks [(adapter \<noteq> adapter_name, ValueError ''unsupported target adapter'')]) (\<lambda>_.
     rbind (evaluator_kinds_of evaluator_names) (\<lambda>names.
     rbind (build_evaluators names) (\<lambda>kinds.
     rbind (rmap (\<lambda>(n, k). promised_evaluator env n k) (zip evaluator_names kinds)) (\<lambda>evaluators.
     validate_suite_contract
       \<lparr>promised_execution = \<lparr>exec_adapter = adapter_name, exec_mode = OFFLINE_MOCK\<rparr>,
        promised_evaluators = evaluators\<rparr>))))"

definition run_evaluation ::
    "adapter_env \<Rightarrow> string \<Rightarrow> dataset_version \<Rightarrow> string \<Rightarrow> int \<Rightarrow> evaluator_kind list \<Rightarrow> overrides
     \<Rightarrow> evaluation_suite option \<Rightarrow> run_result res" where
  "run_evaluation env rid ds name revision kinds scenario_overrides su =
     rbind (fake_target env name revision scenario_overrides) (\<lambda>target.
     rbind (build_evaluators kinds) (\<lambda>ks.
     rbind (rmap (builtin_port env) ks) (\<lambda>evaluators.
     runner_run (ae_jcs env) step_clock rid ds target evaluators OFFLINE_MOCK su)))"

definition adapter_execute ::
    "adapter_env \<Rightarrow> string \<Rightarrow> dataset_version \<Rightarrow> string \<Rightarrow> int \<Rightarrow> string \<Rightarrow> string list \<Rightarrow> overrides
     \<Rightarrow> run_result res" where
  "adapter_execute env rid ds name revision adapter evaluator_names scenario_overrides =
     rbind (adapter_validate env name revision adapter evaluator_names scenario_overrides) (\<lambda>_.
     rbind (evaluator_kinds_of evaluator_names) (\<lambda>kinds.
     run_evaluation env rid ds name revision kinds scenario_overrides None))"

definition adapter_execute_suite ::
    "adapter_env \<Rightarrow> string \<Rightarrow> dataset_version \<Rightarrow> string \<Rightarrow> int \<Rightarrow> overrides \<Rightarrow> evaluation_suite
     \<Rightarrow> run_result res" where
  "adapter_execute_suite env rid ds name revision scenario_overrides su =
     (let adapter = exec_adapter (suite_execution su); names = suite_evaluator_names su in
      rbind (adapter_validate_suite env adapter names) (\<lambda>contract.
      rbind (checks
     [(promised_execution contract \<noteq> suite_execution su \<or>
         promised_evaluators contract \<noteq> suite_evaluators su \<or> dataset_ref ds \<noteq> suite_dataset su,
       ValueError ''suite execution dependencies do not match'')]) (\<lambda>_.
      rbind (adapter_validate env name revision adapter names scenario_overrides) (\<lambda>_.
      rbind (evaluator_kinds_of names) (\<lambda>kinds.
      run_evaluation env rid ds name revision kinds scenario_overrides (Some su))))))"

definition deterministic_executor :: "adapter_env \<Rightarrow> executor" where
  "deterministic_executor env =
     \<lparr>executor_validate = adapter_validate env, executor_validate_suite = adapter_validate_suite env,
      executor_execute = adapter_execute env, executor_execute_suite = adapter_execute_suite env\<rparr>"

section \<open>The clock\<close>

text \<open>The step clock never runs backwards and never overflows for any dataset that fits a machine.\<close>

lemma step_clock_reads:
  assumes "k < 2 ^ 52"
  shows "\<exists>t. step_clock k = Some t \<and> 0 \<le> t \<and> t \<le> of_nat k"
  using assms
proof (induction k)
  case (Suc k)
  then obtain t where t: "step_clock k = Some t" "0 \<le> t" "t \<le> of_nat k" by auto
  have s: "0 \<le> step_seconds" "step_seconds \<le> 1"
    using rnd64_nonneg[of "5 / 1000"] rnd64_mono[of "5 / 1000" 1] rnd64_of_int[of 1]
    by (simp_all add: step_seconds_def)
  have n: "rnd64 (of_nat (Suc k)) = of_nat (Suc k)" using rnd64_of_int[of "int (Suc k)"] Suc.prems by simp
  have "rnd64 (t + step_seconds) \<le> rnd64 (of_nat (Suc k))"
    using t(3) s(2) by (intro rnd64_mono) simp
  then have le: "rnd64 (t + step_seconds) \<le> of_nat (Suc k)" by (simp only: n)
  have nn: "0 \<le> rnd64 (t + step_seconds)" using t(2) s(1) by (intro rnd64_nonneg) simp
  have "(of_nat (Suc k) :: rat) < 2 ^ 52"
    using Suc.prems by (metis of_nat_less_iff of_nat_numeral of_nat_power)
  also have "(2 :: rat) ^ 52 \<le> 2 ^ 1024" by (rule power_increasing) simp_all
  finally have "round64 (t + step_seconds) = Some (rnd64 (t + step_seconds))"
    using le nn by (simp add: round64_def Let_def)
  then show ?case using t(1) le nn by simp
qed simp

end
