(* ===== verification/ExecutionFacts.thy ===== *)
theory ExecutionFacts
  imports ExecutionAdapter
begin

text \<open>
  Facts on the runner and the offline adapter: which exceptions a run with a valid plan can raise,
  the metrics it summarizes, the step clock, and the plan the built-in evaluators make.
\<close>

section \<open>The step clock\<close>

lemma round64_bounded:
  assumes "0 \<le> x" "x \<le> of_nat n" "n < 2 ^ 53"
  shows "\<exists>r. round64 x = Some r \<and> 0 \<le> r \<and> r \<le> of_nat n"
proof -
  have "rnd64 (of_nat n) = of_nat n" using rnd64_of_int[of "int n"] assms(3) by simp
  with rnd64_mono[OF assms(2)] have le: "rnd64 x \<le> of_nat n" by simp
  have "(of_nat n :: rat) < 2 ^ 53" using assms(3) by (metis of_nat_less_iff of_nat_numeral of_nat_power)
  also have "(2 :: rat) ^ 53 \<le> 2 ^ 1024" by (rule power_increasing) simp_all
  finally show ?thesis using le rnd64_nonneg[OF assms(1)] by (simp add: round64_def Let_def)
qed

lemma step_clock_mono:
  assumes "Suc k < 2 ^ 52" "step_clock k = Some s" "step_clock (Suc k) = Some t"
  shows "s \<le> t"
  using assms
proof (induction k arbitrary: s t)
  case 0
  then show ?case using rnd64_nonneg[of step_seconds] rnd64_nonneg[of "5 / 1000"]
    by (simp add: step_seconds_def round64_def Let_def split: if_splits)
next
  case (Suc k)
  from step_clock_reads[of k] Suc.prems(1) obtain r where r: "step_clock k = Some r" by auto
  with Suc.IH[of r s] Suc.prems have "r \<le> s" by simp
  then show ?case using r Suc.prems(2,3) round64_mono_Some[of "r + step_seconds" s "s + step_seconds" t] by simp
qed

lemma step_clock_elapsed:
  assumes "k < 2 ^ 40"
  shows "is_ok (elapsed_ms (step_clock k) (step_clock (Suc k)))"
proof -
  from step_clock_reads[of k] step_clock_reads[of "Suc k"] assms obtain s t where
    st: "step_clock k = Some s" "step_clock (Suc k) = Some t" "0 \<le> s" "t \<le> of_nat (Suc k)" by auto
  have "s \<le> t" by (rule step_clock_mono[OF _ st(1,2)]) (use assms in simp)
  with st round64_bounded[of "t - s" "2 ^ 40"] assms obtain d where
    d: "round64 (t - s) = Some d" "0 \<le> d" "d \<le> 2 ^ 40" by auto
  with round64_bounded[of "d * 1000" "1000 * 2 ^ 40"] obtain e where "round64 (d * 1000) = Some e" "0 \<le> e" by auto
  with st d show ?thesis by (simp add: elapsed_ms_def)
qed

section \<open>What a run can raise\<close>

fun is_arithmetic_limit :: "exn \<Rightarrow> bool" where
  "is_arithmetic_limit (OverflowError _) = True"
| "is_arithmetic_limit (CanonicalJsonError _) = True"
| "is_arithmetic_limit _ = False"

lemma fsum_limit: "raises is_arithmetic_limit (fsum_from acc xs)"
  by (induction xs arbitrary: acc) (auto intro!: raises_intros)

lemma fmean_limit: "raises is_arithmetic_limit (fmean xs)"
  unfolding fmean_def fsum_def by (intro raises_intros fsum_limit) simp_all

lemma fmean_None: "fmean xs = Inr None \<longleftrightarrow> xs = []" and fmean_Some: "fmean xs = Inr (Some m) \<Longrightarrow> xs \<noteq> []"
  by (auto simp: fmean_def result_simps)

lemma summarize_metric_limit:
  assumes "plan ordered" "\<forall>r \<in> set rs. recorded ordered r" "e \<in> set ordered" "m \<in> set (port_metric_names e)"
    "is_metric_name m" "rs \<noteq> []"
  shows "raises is_arithmetic_limit (summarize_metric rs e m)"
proof -
  let ?vs = "map (\<lambda>r. case_value r m) rs"
  have sc: "v \<in> set ?vs \<Longrightarrow> cv_status v = CV_SCORED \<Longrightarrow> cv_value v \<noteq> None" for v
    by (auto dest: case_value_scored)
  have "foldl (summary_step e m) acc rs = foldl tally acc ?vs" for acc
    using assms(2) by (induction rs arbitrary: acc) (simp_all add: summary_step_tally[OF assms(1) _ assms(3,4)])
  then have fold: "foldl (summary_step e m) ([], 0, 0) rs =
      (scores ?vs, int (outcome_count CV_SKIPPED ?vs), int (outcome_count CV_ERROR ?vs))"
    using fold_tally[of ?vs "[]" 0 0] sc by simp
  have "length (scores vs) = outcome_count CV_SCORED vs"
    if "\<forall>v \<in> set vs. cv_status v = CV_SCORED \<longrightarrow> cv_value v \<noteq> None" for vs
    using that by (induction vs) (auto simp: scores_def outcome_count_def map_filter_simps)
  then have count: "length (scores ?vs) = outcome_count CV_SCORED ?vs" using sc by blast
  have total: "int (length rs) = int (length (scores ?vs)) + int (outcome_count CV_SKIPPED ?vs) +
      int (outcome_count CV_ERROR ?vs)"
    using outcome_counts_total[of ?vs] count by (simp only: length_map flip: of_nat_add)
  have pos: "0 < int (length (scores ?vs)) + int (outcome_count CV_SKIPPED ?vs) +
      int (outcome_count CV_ERROR ?vs)"
    using assms(6) by (simp flip: total)
  obtain dg where ev: "ref_kind (port_ref e) = EVALUATOR" "ref_digest (port_ref e) = Some dg"
    using assms(1,3) by (auto simp: plan_def unresolved_def)
  show ?thesis
  proof (cases "fmean (scores ?vs)")
    case (Inl err)
    with fmean_limit[of "scores ?vs"] show ?thesis by (simp add: summarize_metric_def fold)
  next
    case (Inr mean)
    then have "(int (length (scores ?vs)) = 0) = (mean = None)"
      using fmean_None[of "scores ?vs"] by auto
    then show ?thesis
      using assms(5) ev pos total Inr
      by (simp add: summarize_metric_def fold validate_metric_summary_def)
  qed
qed

lemma summarize_limit:
  assumes "plan ordered" "\<forall>r \<in> set rs. recorded ordered r" "rs \<noteq> []"
    "\<forall>e \<in> set ordered. \<forall>m \<in> set (port_metric_names e). is_metric_name m"
  shows "raises is_arithmetic_limit (summarize rs ordered)"
  unfolding summarize_def
  using summarize_metric_limit[OF assms(1,2)] assms(3,4) by (intro raises_rmap) auto

lemma sha256_limit: "raises is_arithmetic_limit (sha256_digest jcs v)"
  by (auto simp: sha256_digest_def canonical_json_bytes_def raises_def result_simps of_option_def split: option.splits)

lemma summarize_Inr:
  assumes "plan ordered" "\<forall>r \<in> set rs. recorded ordered r" "summarize rs ordered = Inr ms"
  shows "map (\<lambda>m. (summary_evaluator m, summary_metric m)) ms =
    concat (map (\<lambda>e. map (Pair (port_ref e)) (port_metric_names e)) ordered)"
proof -
  let ?ps = "concat (map (\<lambda>e. map (Pair e) (port_metric_names e)) ordered)"
  have "list_all2 (\<lambda>p m. (summary_evaluator m, summary_metric m) = (port_ref (fst p), snd p)) ?ps ms"
    by (rule list.rel_mono_strong[OF assms(3)[unfolded summarize_def rmap_Inr_list_all2]])
      (use summarize_metric_aggregate(1,2)[OF assms(1,2)] in auto)
  then have "map (\<lambda>m. (summary_evaluator m, summary_metric m)) ms = map (\<lambda>p. (port_ref (fst p), snd p)) ?ps"
    by (auto simp: list_eq_iff_nth_eq list_all2_conv_all_nth)
  also have "\<dots> = concat (map (\<lambda>e. map (Pair (port_ref e)) (port_metric_names e)) ordered)"
    by (simp add: map_concat comp_def)
  finally show ?thesis .
qed

text \<open>
  A run with a valid plan, sane clock readings and evaluators that do not repeat metrics returns
  its result, unless a mean overflows or the content has no canonical form.
\<close>

lemma runner_run_limit:
  assumes plan: "validate_plan target evaluators = Inr ordered" and
    evs: "\<forall>e \<in> set ordered. no_repeats e" "\<forall>e \<in> set ordered. \<forall>m \<in> set (port_metric_names e). is_metric_name m" and
    ds: "validate_dataset jcs ds = Inr ds" "\<forall>c \<in> set (dataset_cases ds). is_case_id (case_id c)" and
    clk: "\<forall>i < length (dataset_cases ds). is_ok (elapsed_ms (clock (2 * i)) (clock (2 * i + 1)))" and
    rid: "is_run_id rid" and
    su: "case su of None \<Rightarrow> True | Some s \<Rightarrow> validate_runner_suite s ds ordered mode = Inr ()"
  shows "raises is_arithmetic_limit (runner_run jcs clock rid ds target evaluators mode su)"
proof -
  note P = validate_plan_Inr[OF plan]
  have suite: "(case su of None \<Rightarrow> Inr () | Some s \<Rightarrow> validate_runner_suite s ds ordered mode) = Inr ()"
    using su by (simp split: option.splits)
  obtain cases where cases: "run_all_cases clock target ordered 0 (dataset_cases ds) = Inr cases"
    using run_all_cases_total[OF P(1) evs(1) ds(2), of 0 clock target] clk by auto
  note rec = run_all_cases_recorded[OF P(1) cases ds(2)]
  have ids: "sorted (map result_case_id cases)" "distinct (map result_case_id cases)"
    using valid_dataset_sorted[OF ds(1)] valid_dataset_ids[OF ds(1)] rec(1) by simp_all
  have "dataset_cases ds \<noteq> []"
    using ds(1) by (auto simp: dataset_model.validate_Inr_iff normalize_dataset_def normalize_cases_Inr_iff result_simps)
  then have ne: "cases \<noteq> []" using rec(1) by auto
  have created: "raises is_arithmetic_limit (create_run jcs
      \<lparr>run_id = rid, run_status = RUN_COMPLETED, run_mode = mode, run_suite = map_option suite_ref su,
        run_dataset = dataset_ref ds, run_target = target_port_ref target,
        run_evaluators = map port_ref ordered, run_cases = cases, run_metrics = ms, result_digest = []\<rparr>)"
    (is "raises _ (create_run jcs ?x)") if ms: "summarize cases ordered = Inr ms" for ms
  proof (cases "calculate_run_digest jcs (arrange_run ?x)")
    case (Inl err)
    with sha256_limit[of jcs "run_content (arrange_run ?x)"] show ?thesis
      by (simp add: create_run_def calculate_run_digest_def)
  next
    case (Inr d)
    let ?r = "(arrange_run ?x)\<lparr>result_digest := d\<rparr>"
    have d: "is_sha256_digest d" using Inr by (auto simp: calculate_run_digest_def intro: sha256_digest_shape)
    have evr: "sort_key logical_key (map port_ref ordered) = map port_ref ordered"
      using P(1) by (intro sort_key_sorted_id) (simp add: plan_def port_key_def[abs_def] comp_def)
    have cs: "sort_key result_case_id cases = cases" by (rule sort_key_sorted_id[OF ids(1)])
    have "map (\<lambda>m. (summary_evaluator m, summary_metric m)) ms =
        concat (map (\<lambda>e. map (Pair (port_ref e)) (port_metric_names e)) ordered)"
      by (rule summarize_Inr[OF P(1) rec(2) ms])
    then have "ms \<noteq> []" using P(1) by (cases ordered) (auto simp: plan_def)
    then have "check_run_result ?r = Inr ?r"
      using rid d ne ids P(1,3) evr cs sorted_sort_key[of metric_key ms]
      by (simp add: check_run_result_def arrange_run_def Let_def plan_def dataset_ref_def unresolved_def
          suite_ref_def port_key_def[abs_def] comp_def not_less split: option.split)
    then have "validate_run jcs ?r = Inr ?r"
      using Inr by (simp add: validate_run_def calculate_run_digest_def)
    then show ?thesis using Inr by (simp add: create_run_def)
  qed
  show ?thesis
    unfolding runner_run_def plan rbind_simps suite cases
    by (intro raises_rbind summarize_limit[OF P(1) rec(2) ne evs(2)] created)
qed

end
