(* ===== verification/ExecutorContract.thy ===== *)
theory ExecutorContract
  imports Worker ExecutionFacts
begin

text \<open>
  The contract between the workers and their executor (\<open>EvaluationExecutor\<close>): a result it returns
  for a request whose contract it resolved passes every check the worker makes before it
  publishes. The worker's side is proved from the contract alone; the offline adapter is shown
  to keep it.
\<close>

section \<open>The contract\<close>

text \<open>The suite of a run job was registered against this dataset.\<close>

definition registered :: "evaluation_suite option \<Rightarrow> dataset_record \<Rightarrow> bool" where
  "registered su d \<longleftrightarrow> (case su of None \<Rightarrow> True | Some s \<Rightarrow> validate_suite_registration s d
     \<lparr>promised_execution = suite_execution s, promised_evaluators = suite_evaluators s\<rparr> = Inr ())"

locale honest_executor =
  fixes jcs :: jcs and x :: executor
  assumes valid_result: "executor_execute x rid ds name revision adapter names sc = Inr r \<Longrightarrow>
      validate_run jcs r = Inr r"
    and valid_suite_result: "executor_execute_suite x rid ds name revision sc s = Inr r \<Longrightarrow>
      validate_run jcs r = Inr r"
    and honours: "resolve_contract x name revision adapter names sc = Inr contract \<Longrightarrow>
      validate_dataset jcs (dataset d) = Inr (dataset d) \<Longrightarrow>
      \<forall>c \<in> set (dataset_cases (dataset d)). is_case_id (case_id c) \<Longrightarrow>
      executor_execute x rid (dataset d) name revision adapter names sc = Inr r \<Longrightarrow>
      validate_run_result r rid d contract None = Inr ()"
    and honours_suite: "resolve_contract x name revision adapter names sc = Inr contract \<Longrightarrow>
      resolve_suite_contract x adapter names = Inr promise \<Longrightarrow>
      promised_execution promise = suite_execution s \<Longrightarrow> promised_evaluators promise = suite_evaluators s \<Longrightarrow>
      validate_suite_registration s d promise = Inr () \<Longrightarrow>
      validate_dataset jcs (dataset d) = Inr (dataset d) \<Longrightarrow>
      \<forall>c \<in> set (dataset_cases (dataset d)). is_case_id (case_id c) \<Longrightarrow>
      executor_execute_suite x rid (dataset d) name revision sc s = Inr r \<Longrightarrow>
      validate_run_result r rid d contract (Some s) = Inr ()"
begin

lemma payload_honoured:
  assumes "resolve_run_contract x p sc = Inr contract" "registered (rp_suite p) d"
    "validate_dataset jcs (dataset d) = Inr (dataset d)"
    "\<forall>c \<in> set (dataset_cases (dataset d)). is_case_id (case_id c)"
    "execute_payload jcs x rid (dataset d) p sc = Inr r"
  shows "validate_run_result r rid d contract (rp_suite p) = Inr ()"
proof -
  from assms(1) have c: "resolve_contract x (rp_target_name p) (rp_target_revision p) (rp_adapter p)
      (rp_evaluator_names p) sc = Inr contract"
    unfolding resolve_run_contract_def by (auto simp: result_simps split: option.splits)
  show ?thesis
  proof (cases "rp_suite p")
    case None
    with assms(5) honours[OF c assms(3,4)] valid_result show ?thesis
      by (fastforce simp: execute_payload_def result_simps)
  next
    case (Some s)
    with assms(1) obtain promise where p: "resolve_suite_contract x (rp_adapter p) (rp_evaluator_names p) = Inr promise"
      "promised_execution promise = suite_execution s" "promised_evaluators promise = suite_evaluators s"
      by (auto simp: resolve_run_contract_def result_simps)
    then have "promise = \<lparr>promised_execution = suite_execution s, promised_evaluators = suite_evaluators s\<rparr>"
      by (cases promise) simp
    with assms(2) Some have "validate_suite_registration s d promise = Inr ()" by (simp add: registered_def)
    from honours_suite[OF c p this assms(3,4)] valid_suite_result assms(5) Some show ?thesis
      by (fastforce simp: execute_payload_def result_simps)
  qed
qed

end

section \<open>The built-in evaluators\<close>

definition builtin :: "adapter_env \<Rightarrow> evaluator_kind \<Rightarrow> evaluator_port \<Rightarrow> bool" where
  "builtin env k e \<longleftrightarrow> port_metric_names e = builtin_metrics k \<and> evaluate e = builtin_evaluate env k (port_ref e) \<and>
     ref_kind (port_ref e) = EVALUATOR \<and> ref_digest (port_ref e) \<noteq> None \<and>
     port_key e = (''evaluator'', ''builtin/'' @ evaluator_kind_value k, 1)"

lemma builtin_port_Inr: "builtin_port env k = Inr e \<Longrightarrow> builtin env k e"
  by (auto simp: builtin_port_def evaluator_ref_def validate_artifact_ref_def result_simps builtin_def
      port_key_def logical_key_def)

lemma builtin_ports: "rmap (builtin_port env) kinds = Inr ports \<longleftrightarrow> list_all2 (\<lambda>k e. builtin_port env k = Inr e) kinds ports"
  by (rule rmap_Inr_list_all2)

lemma kind_value_inj: "evaluator_kind_value k = evaluator_kind_value k' \<longleftrightarrow> k = k'"
  by (cases k; cases k') simp_all

lemma builtin_metrics_disjoint:
  "m \<in> set (builtin_metrics k) \<Longrightarrow> m \<in> set (builtin_metrics k') \<Longrightarrow> k = k'"
  "distinct (builtin_metrics k)" "builtin_metrics k \<noteq> []" "sorted (builtin_metrics k)"
proof -
  show "m \<in> set (builtin_metrics k) \<Longrightarrow> m \<in> set (builtin_metrics k') \<Longrightarrow> k = k'"
    by (cases k; cases k') auto
  show "distinct (builtin_metrics k)" "builtin_metrics k \<noteq> []" by (cases k; simp)+
  show "sorted (builtin_metrics k)" by (cases k) (simp_all add: less_eq_char_def less_char_def)
qed

lemma builtin_no_repeats: "builtin env k e \<Longrightarrow> no_repeats e"
  using builtin_evaluate_covers[of env k "port_ref e"] builtin_metrics_disjoint(2)[of k]
  unfolding no_repeats_def builtin_def by (metis covers_def evaluation.distinct(3) evaluation.inject)

lemma builtin_mem:
  assumes "list_all2 (builtin env) kinds ports" "e \<in> set ports"
  shows "\<exists>k \<in> set kinds. builtin env k e"
  using assms by (induction kinds ports rule: list_all2_induct) auto

lemma mset_concat_map: "mset (concat (map f xs)) = sum_mset (image_mset (mset \<circ> f) (mset xs))"
  by (induction xs) simp_all

lemma builtin_plan:
  assumes "list_all2 (builtin env) kinds ports" "distinct kinds" "kinds \<noteq> []"
    "\<not> unresolved TARGET (target_port_ref target)"
  shows "validate_plan target ports = Inr (sort_key port_key ports)"
proof -
  have keys: "map port_key ports = map (\<lambda>k. (''evaluator'', ''builtin/'' @ evaluator_kind_value k, 1)) kinds"
    using assms(1) by (auto simp: list_eq_iff_nth_eq list_all2_conv_all_nth builtin_def)
  have "distinct (map port_key ports)" unfolding keys
    using assms(2) by (auto simp: distinct_map inj_on_def kind_value_inj)
  then have d: "distinct (map port_key (sort_key port_key ports))" by (metis distinct_map_sort_key)
  have metrics: "map port_metric_names ports = map builtin_metrics kinds"
    using assms(1) by (auto simp: list_eq_iff_nth_eq list_all2_conv_all_nth builtin_def)
  have "distinct (concat (map builtin_metrics kinds))"
  proof (rule distinct_concat)
    have "inj_on builtin_metrics (set kinds)"
      using builtin_metrics_disjoint(1,3) by (metis inj_onI list.set_intros(1) neq_Nil_conv)
    then show "distinct (map builtin_metrics kinds)" using assms(2) by (simp add: distinct_map)
    show "distinct ys" if "ys \<in> set (map builtin_metrics kinds)" for ys
      using that builtin_metrics_disjoint(2) by auto
    show "set ys \<inter> set zs = {}" if "ys \<in> set (map builtin_metrics kinds)"
      "zs \<in> set (map builtin_metrics kinds)" "ys \<noteq> zs" for ys zs
    proof -
      from that obtain k k' where k: "ys = builtin_metrics k" "zs = builtin_metrics k'" "k \<noteq> k'" by auto
      then have "m \<notin> set ys \<or> m \<notin> set zs" for m using builtin_metrics_disjoint(1)[of m k k'] by blast
      then show ?thesis by blast
    qed
  qed
  then have "distinct (concat (map port_metric_names ports))" by (simp only: metrics)
  moreover have "mset (concat (map port_metric_names (sort_key port_key ports))) =
      mset (concat (map port_metric_names ports))"
    using mset_concat_map[of port_metric_names] by (metis mset_sort)
  ultimately have m: "distinct (concat (map port_metric_names (sort_key port_key ports)))"
    using mset_eq_imp_distinct_iff by blast
  have "validate_evaluator_port e = Inr ()" if "e \<in> set ports" for e
    using builtin_mem[OF assms(1) that] builtin_metrics_disjoint(2,3)
    by (auto simp: validate_evaluator_port_def builtin_def unresolved_def)
  then have "\<exists>us. rmap validate_evaluator_port (sort_key port_key ports) = Inr us"
    by (intro rmap_total_ex) auto
  moreover have "ports \<noteq> []" using assms(1,3) by auto
  ultimately show ?thesis using assms(4) d m by (auto simp: validate_plan_def Let_def)
qed

section \<open>The offline adapter\<close>

lemma fake_target_Inr:
  "fake_target env name revision sc = Inr t \<Longrightarrow> \<not> unresolved TARGET (target_port_ref t)"
  by (auto simp: fake_target_def fake_target_ref_def validate_artifact_ref_def unresolved_def result_simps)

text \<open>What a resolved contract fixes: the kinds, the target and the evaluators of the later run.\<close>

lemma adapter_contract:
  assumes "adapter_validate env name revision adapter names sc = Inr contract"
  obtains kinds target ports where "evaluator_kinds_of names = Inr kinds" "build_evaluators kinds = Inr kinds"
    "fake_target env name revision sc = Inr target" "rmap (builtin_port env) kinds = Inr ports"
    "list_all2 (builtin env) kinds ports" "distinct kinds" "kinds \<noteq> []"
    "validate_plan target ports = Inr ports" "contract_target contract = target_port_ref target"
    "contract_evaluators contract = map port_ref ports" "contract_mode contract = OFFLINE_MOCK"
    "contract_adapter contract = adapter_name" "contract_evaluator_names contract = names"
proof -
  from assms obtain ks kinds target ports where k: "evaluator_kinds_of names = Inr ks"
    "build_evaluators ks = Inr kinds" "fake_target env name revision sc = Inr target"
    "rmap (builtin_port env) kinds = Inr ports"
    and c: "validate_contract \<lparr>contract_adapter = adapter_name, contract_evaluator_names = names,
        contract_target = target_port_ref target, contract_evaluators = map port_ref ports,
        contract_mode = OFFLINE_MOCK\<rparr> = Inr contract"
    unfolding adapter_validate_def rbind_Inr_iff by blast
  from k(2) have kinds: "ks = kinds" "kinds \<noteq> []" "distinct kinds"
    by (auto simp: build_evaluators_def result_simps)
  have b: "list_all2 (builtin env) kinds ports"
    using k(4) unfolding rmap_Inr_list_all2 by (rule list.rel_mono_strong) (rule builtin_port_Inr)
  from c have contract: "contract = \<lparr>contract_adapter = adapter_name, contract_evaluator_names = names,
        contract_target = target_port_ref target, contract_evaluators = map port_ref ports,
        contract_mode = OFFLINE_MOCK\<rparr>" and "sorted (map logical_key (map port_ref ports))"
    by (auto simp: validate_contract_def Let_def result_simps)
  then have "sort_key port_key ports = ports"
    by (intro sort_key_sorted_id) (simp add: port_key_def[abs_def] comp_def)
  with builtin_plan[OF b kinds(3,2) fake_target_Inr[OF k(3)]] have "validate_plan target ports = Inr ports" by simp
  with k kinds b contract show thesis by (intro that) simp_all
qed

lemma builtin_names_valid:
  assumes "list_all2 (builtin env) kinds ports"
  shows "\<forall>e \<in> set ports. no_repeats e" "\<forall>e \<in> set ports. \<forall>m \<in> set (port_metric_names e). is_metric_name m"
  using builtin_mem[OF assms] builtin_no_repeats literal_metrics by (fastforce simp: builtin_def)+

text \<open>A run of the adapter's own evaluators uses no other evaluator anywhere.\<close>

lemma recorded_evaluators:
  assumes "recorded ordered c" "validate_case_result c = Inr c"
  shows "ob \<in> set (observations c) \<Longrightarrow> \<exists>e \<in> set ordered. obs_evaluator ob = port_ref e \<and>
      obs_metric ob \<in> set (port_metric_names e)"
    and "f \<in> set (evaluator_failures c) \<Longrightarrow> \<exists>e \<in> set ordered. failure_evaluator f = Some (port_ref e)"
proof -
  have empty: "observations c = [] \<and> evaluator_failures c = []" if "result_case_status c = TARGET_FAILED"
    using assms(2) that by (auto simp: validate_case_result_def check_case_status_def result_simps split: if_splits)
  show "ob \<in> set (observations c) \<Longrightarrow> \<exists>e \<in> set ordered. obs_evaluator ob = port_ref e \<and>
      obs_metric ob \<in> set (port_metric_names e)"
    using assms(1) empty contribution_props(1) by (fastforce simp: recorded_def)
  show "f \<in> set (evaluator_failures c) \<Longrightarrow> \<exists>e \<in> set ordered. failure_evaluator f = Some (port_ref e)"
    using assms(1) empty by (fastforce simp: recorded_def failure_of_def)
qed

lemma validate_case_result_Inr: "validate_case_result c = Inr c' \<Longrightarrow> c' = c"
  by (auto simp: validate_case_result_def result_simps)

lemma run_case_valid:
  assumes "run_case target ordered started finished c = Inr r"
  shows "validate_case_result r = Inr r"
proof -
  have "target_failed_case c code message retry latency = Inr r \<Longrightarrow> validate_case_result r = Inr r"
    for code message retry latency
    unfolding target_failed_case_def rbind_Inr_iff by (elim exE conjE) (metis validate_case_result_Inr)
  moreover have "evaluated_case ordered c resp latency = Inr r \<Longrightarrow> validate_case_result r = Inr r"
    for resp latency
    unfolding evaluated_case_def rbind_Inr_iff Let_def
    by (elim exE conjE) (metis (no_types, lifting) case_prod_beta validate_case_result_Inr)
  moreover obtain latency where "elapsed_ms started finished = Inr latency"
    using assms by (auto simp: run_case_def Let_def result_simps)
  ultimately show ?thesis
    using assms
    by (cases "invoke target \<lparr>request_case_id = case_id c, request_input = case_input c\<rparr>")
      (auto simp: run_case_def Let_def split: sum.splits)
qed

lemma run_all_cases_valid:
  "run_all_cases clock target ordered k cs = Inr rs \<Longrightarrow> r \<in> set rs \<Longrightarrow> validate_case_result r = Inr r"
  by (induction cs arbitrary: k rs) (auto simp: result_simps dest: run_case_valid)

text \<open>A run of a plan satisfies every check the worker makes of it.\<close>

lemma planned_run_accepted:
  assumes "validate_plan target ports = Inr ports" "validate_dataset jcs ds = Inr ds"
    "\<forall>c \<in> set (dataset_cases ds). is_case_id (case_id c)"
    "runner_run jcs clock rid ds target ports mode su = Inr r"
  shows "run_evaluators r = map port_ref ports"
    "m \<in> set (run_metrics r) \<Longrightarrow> \<exists>e \<in> set ports. summary_evaluator m = port_ref e \<and> summary_metric m \<in> set (port_metric_names e)"
    "c \<in> set (run_cases r) \<Longrightarrow> ob \<in> set (observations c) \<Longrightarrow>
       \<exists>e \<in> set ports. obs_evaluator ob = port_ref e \<and> obs_metric ob \<in> set (port_metric_names e)"
    "c \<in> set (run_cases r) \<Longrightarrow> f \<in> set (evaluator_failures c) \<Longrightarrow>
       \<exists>e \<in> set ports. failure_evaluator f = Some (port_ref e)"
proof -
  obtain ordered where o: "validate_plan target ports = Inr ordered"
    "plan ordered" and cases: "run_all_cases clock target ordered 0 (dataset_cases ds) = Inr (run_cases r)"
    and rec: "\<forall>c \<in> set (run_cases r). recorded ordered c" and evs: "run_evaluators r = map port_ref ordered"
    and sums: "\<And>m. m \<in> set (run_metrics r) \<Longrightarrow> \<exists>e \<in> set ordered. summary_metric m \<in> set (port_metric_names e) \<and>
       summarize_metric (run_cases r) e (summary_metric m) = Inr m"
    by (rule runner_run_Inr[OF assms(4,2,3)]) (rule that; blast)
  from o(1) assms(1) have same: "ordered = ports" by simp
  show "run_evaluators r = map port_ref ports" using evs same by simp
  show "\<exists>e \<in> set ports. summary_evaluator m = port_ref e \<and> summary_metric m \<in> set (port_metric_names e)"
    if "m \<in> set (run_metrics r)"
    using sums[OF that] summarize_metric_aggregate(2)[OF o(2) rec] same by blast
  show "\<exists>e \<in> set ports. obs_evaluator ob = port_ref e \<and> obs_metric ob \<in> set (port_metric_names e)"
    if "c \<in> set (run_cases r)" "ob \<in> set (observations c)"
    using recorded_evaluators(1)[of ordered c ob] rec run_all_cases_valid[OF cases that(1)] that same by blast
  show "\<exists>e \<in> set ports. failure_evaluator f = Some (port_ref e)"
    if "c \<in> set (run_cases r)" "f \<in> set (evaluator_failures c)"
    using recorded_evaluators(2)[of ordered c f] rec run_all_cases_valid[OF cases that(1)] that same by blast
qed

abbreviation metric_pairs :: "evaluator_port list \<Rightarrow> (artifact_ref \<times> string) list" where
  "metric_pairs ports \<equiv> concat (map (\<lambda>e. map (Pair (port_ref e)) (port_metric_names e)) ports)"

lemma planned_run_metrics:
  assumes "validate_plan target ports = Inr ports" "validate_dataset jcs ds = Inr ds"
    "\<forall>c \<in> set (dataset_cases ds). is_case_id (case_id c)"
    "runner_run jcs clock rid ds target ports mode su = Inr r"
  shows "length (run_metrics r) = card (set (metric_pairs ports))"
    "set (map (\<lambda>m. (summary_evaluator m, summary_metric m)) (run_metrics r)) = set (metric_pairs ports)"
proof -
  note P = validate_plan_Inr(1)[OF assms(1)]
  from assms(1,4) obtain cases ms where cases: "run_all_cases clock target ports 0 (dataset_cases ds) = Inr cases"
    and ms: "summarize cases ports = Inr ms"
    and created: "create_run jcs \<lparr>run_id = rid, run_status = RUN_COMPLETED, run_mode = mode,
      run_suite = map_option suite_ref su, run_dataset = dataset_ref ds, run_target = target_port_ref target,
      run_evaluators = map port_ref ports, run_cases = cases, run_metrics = ms, result_digest = []\<rparr> = Inr r"
    unfolding runner_run_def rbind_Inr_iff by auto
  have sorted: "run_metrics r = sort_key metric_key ms" using created_run(2)[OF created] by simp
  note pairs = summarize_Inr[OF P run_all_cases_recorded(2)[OF P cases assms(3)] ms]
  show "set (map (\<lambda>m. (summary_evaluator m, summary_metric m)) (run_metrics r)) = set (metric_pairs ports)"
    using pairs[THEN arg_cong[of _ _ set]] by (simp add: sorted del: set_concat)
  have "distinct (map snd (metric_pairs ports))"
    using P by (simp add: plan_def map_concat comp_def)
  then have "distinct (metric_pairs ports)" unfolding distinct_map by (rule conjunct1)
  then have "card (set (metric_pairs ports)) = length (metric_pairs ports)" by (rule distinct_card)
  also have "\<dots> = length ms" using arg_cong[OF pairs, of length] by (simp only: length_map)
  finally show "length (run_metrics r) = card (set (metric_pairs ports))" by (simp add: sorted)
qed

lemma planned_run_result:
  assumes "validate_plan target ports = Inr ports" "validate_dataset jcs (dataset d) = Inr (dataset d)"
    "\<forall>c \<in> set (dataset_cases (dataset d)). is_case_id (case_id c)"
    "runner_run jcs clock rid (dataset d) target ports mode su = Inr r"
    "contract_target contract = target_port_ref target" "contract_evaluators contract = map port_ref ports"
    "contract_mode contract = mode"
    "\<And>s. su = Some s \<Longrightarrow> validate_suite_result r d contract s = Inr ()"
  shows "validate_run_result r rid d contract su = Inr ()"
proof -
  note A = planned_run_accepted[OF assms(1-4)]
  have r: "run_id r = rid" "run_suite r = map_option suite_ref su" "run_dataset r = dataset_ref (dataset d)"
    "run_target r = target_port_ref target" "run_mode r = mode"
    "map result_case_id (run_cases r) = map case_id (dataset_cases (dataset d))"
    by (rule runner_run_Inr[OF assms(4,2,3)]; assumption)+
  have e1: "\<forall>m \<in> set (run_metrics r). summary_evaluator m \<in> set (map port_ref ports)"
    using A(2) by auto
  have e2: "\<forall>c \<in> set (run_cases r). \<forall>ob \<in> set (observations c). obs_evaluator ob \<in> set (map port_ref ports)"
    using A(3) by auto
  have e3: "\<forall>c \<in> set (run_cases r). \<forall>f \<in> set (evaluator_failures c).
      \<exists>e \<in> set (map port_ref ports). failure_evaluator f = Some e"
  proof (intro ballI)
    fix c f assume "c \<in> set (run_cases r)" "f \<in> set (evaluator_failures c)"
    from A(4)[OF this] show "\<exists>e \<in> set (map port_ref ports). failure_evaluator f = Some e" by auto
  qed
  have "checks [(run_id r \<noteq> rid, err1), (run_suite r \<noteq> map_option suite_ref su, err2),
      (run_dataset r \<noteq> dataset_ref (dataset d), err3), (run_target r \<noteq> contract_target contract, err4),
      (run_evaluators r \<noteq> contract_evaluators contract, err5),
      (\<exists>m \<in> set (run_metrics r). summary_evaluator m \<notin> set (contract_evaluators contract), err6),
      (\<exists>c \<in> set (run_cases r). \<exists>ob \<in> set (observations c). obs_evaluator ob \<notin> set (contract_evaluators contract), err7),
      (\<exists>c \<in> set (run_cases r). \<exists>f \<in> set (evaluator_failures c).
          (case failure_evaluator f of None \<Rightarrow> False | Some e \<Rightarrow> e \<notin> set (contract_evaluators contract)), err8),
      (run_mode r \<noteq> contract_mode contract, err9),
      (map result_case_id (run_cases r) \<noteq> map case_id (dataset_cases (dataset d)), err10)] = Inr ()"
    for err1 err2 err3 err4 err5 err6 err7 err8 err9 err10
    unfolding checks_Cons_Inr assms(5-7) r A(1)
    using e1 e2 e3 by (fastforce split: option.splits)
  then show ?thesis
    unfolding validate_run_result_def Let_def using assms(8) by (simp split: option.split)
qed

section \<open>The adapter keeps the contract\<close>

lemma adapter_runs:
  assumes "adapter_validate env name revision adapter names sc = Inr contract"
  obtains target ports kinds where "validate_plan target ports = Inr ports"
    "rmap (builtin_port env) kinds = Inr ports" "list_all2 (builtin env) kinds ports"
    "evaluator_kinds_of names = Inr kinds" "build_evaluators kinds = Inr kinds"
    "contract_target contract = target_port_ref target" "contract_evaluators contract = map port_ref ports"
    "contract_mode contract = OFFLINE_MOCK" "contract_adapter contract = adapter_name"
    "contract_evaluator_names contract = names" "adapter = adapter_name"
    "\<And>rid ds. adapter_execute env rid ds name revision adapter names sc =
       runner_run (ae_jcs env) step_clock rid ds target ports OFFLINE_MOCK None"
    "\<And>rid ds s. suite_evaluator_names s = names \<Longrightarrow> exec_adapter (suite_execution s) = adapter \<Longrightarrow>
       adapter_validate_suite env adapter names = Inr promise \<Longrightarrow>
       promised_execution promise = suite_execution s \<Longrightarrow> promised_evaluators promise = suite_evaluators s \<Longrightarrow>
       suite_dataset s = dataset_ref ds \<Longrightarrow> adapter_execute_suite env rid ds name revision sc s =
       runner_run (ae_jcs env) step_clock rid ds target ports OFFLINE_MOCK (Some s)"
proof (rule adapter_contract[OF assms])
  fix kinds target ports
  assume k: "evaluator_kinds_of names = Inr kinds" "build_evaluators kinds = Inr kinds"
    "fake_target env name revision sc = Inr target" "rmap (builtin_port env) kinds = Inr ports"
    and rest: "list_all2 (builtin env) kinds ports" "validate_plan target ports = Inr ports"
    "contract_target contract = target_port_ref target"
    "contract_evaluators contract = map port_ref ports" "contract_mode contract = OFFLINE_MOCK"
    "contract_adapter contract = adapter_name" "contract_evaluator_names contract = names"
  have ad: "adapter = adapter_name" using assms by (simp add: adapter_validate_def result_simps)
  show thesis
    by (rule that[of target ports kinds])
      (use assms k rest ad in \<open>simp_all add: adapter_execute_def adapter_execute_suite_def run_evaluation_def Let_def\<close>)
qed

lemma adapter_promise:
  assumes "adapter_validate_suite env adapter names = Inr promise" "evaluator_kinds_of names = Inr kinds"
    "rmap (builtin_port env) kinds = Inr ports" "list_all2 (builtin env) kinds ports"
  shows "map executor_name (promised_evaluators promise) = names"
    "map evaluator_artifact (promised_evaluators promise) = map port_ref ports"
    "map evaluator_metrics (promised_evaluators promise) = map port_metric_names ports"
    "promised_execution promise = \<lparr>exec_adapter = adapter_name, exec_mode = OFFLINE_MOCK\<rparr>"
    "validate_suite_contract promise = Inr promise"
proof -
  from assms(1,2) obtain ks evaluators where ks: "build_evaluators kinds = Inr ks"
    "rmap (\<lambda>(n, k). promised_evaluator env n k) (zip names ks) = Inr evaluators"
    "validate_suite_contract \<lparr>promised_execution = \<lparr>exec_adapter = adapter_name, exec_mode = OFFLINE_MOCK\<rparr>,
        promised_evaluators = evaluators\<rparr> = Inr promise"
    unfolding adapter_validate_suite_def rbind_Inr_iff by auto
  have promise: "promise = \<lparr>promised_execution = \<lparr>exec_adapter = adapter_name, exec_mode = OFFLINE_MOCK\<rparr>,
        promised_evaluators = evaluators\<rparr>"
    using ks(3) by (auto simp: validate_suite_contract_def Let_def result_simps)
  have same: "ks = kinds" using ks(1) by (auto simp: build_evaluators_def result_simps)
  have len: "length names = length kinds" using rmap_Inr_length[OF assms(2)[unfolded evaluator_kinds_of_def]] by simp
  have lenp: "length ports = length kinds" using assms(3) by (rule rmap_Inr_length)
  have bound: "executor_name e = fst (zip names kinds ! i) \<and> evaluator_artifact e = port_ref (ports ! i) \<and>
      evaluator_metrics e = port_metric_names (ports ! i)"
    if "i < length kinds" "promised_evaluator env (names ! i) (kinds ! i) = Inr e" for i e
  proof -
    have port: "builtin_port env (kinds ! i) = Inr (ports ! i)"
      using assms(3) that(1) by (simp add: rmap_Inr_list_all2 list_all2_conv_all_nth)
    have "port_metric_names (ports ! i) = builtin_metrics (kinds ! i)"
      using assms(4) that(1) by (simp add: builtin_def list_all2_conv_all_nth)
    then have "sort (port_metric_names (ports ! i)) = port_metric_names (ports ! i)"
      using builtin_metrics_disjoint(4) by (simp add: sort_key_sorted_id)
    then show ?thesis
      using that port len
      by (auto simp: promised_evaluator_def validate_suite_evaluator_def normalize_metrics_def result_simps)
  qed
  have all: "list_all2 (\<lambda>p e. promised_evaluator env (fst p) (snd p) = Inr e) (zip names kinds) evaluators"
    using ks(2) unfolding same rmap_Inr_list_all2 by (simp add: case_prod_beta)
  have "length evaluators = length kinds" using list_all2_lengthD[OF all] len by simp
  moreover have "promised_evaluator env (names ! i) (kinds ! i) = Inr (evaluators ! i)" if "i < length kinds" for i
    using list_all2_nthD[OF all, of i] that len by simp
  ultimately show "map executor_name (promised_evaluators promise) = names"
    "map evaluator_artifact (promised_evaluators promise) = map port_ref ports"
    "map evaluator_metrics (promised_evaluators promise) = map port_metric_names ports"
    using bound len lenp by (simp_all add: promise list_eq_iff_nth_eq)
  show "promised_execution promise = \<lparr>exec_adapter = adapter_name, exec_mode = OFFLINE_MOCK\<rparr>"
    "validate_suite_contract promise = Inr promise"
    using ks(3) promise by simp_all
qed

lemma suite_result_accepted:
  assumes plan: "validate_plan target ports = Inr ports" and
    ds: "validate_dataset jcs (dataset d) = Inr (dataset d)"
      "\<forall>c \<in> set (dataset_cases (dataset d)). is_case_id (case_id c)" and
    run: "runner_run jcs clock rid (dataset d) target ports (contract_mode contract) su = Inr r" and
    promise: "validate_suite_contract promise = Inr promise" "promised_execution promise = suite_execution s"
      "promised_evaluators promise = suite_evaluators s" "validate_suite_registration s d promise = Inr ()" and
    match: "map evaluator_artifact (suite_evaluators s) = map port_ref ports"
      "map evaluator_metrics (suite_evaluators s) = map port_metric_names ports"
      "contract_mode contract = exec_mode (suite_execution s)"
      "contract_adapter contract = exec_adapter (suite_execution s)"
      "contract_evaluator_names contract = suite_evaluator_names s"
  shows "validate_suite_result r d contract s = Inr ()"
proof -
  note A = planned_run_accepted[OF plan ds run] and M = planned_run_metrics[OF plan ds run]
  have rec: "\<lparr>promised_execution = suite_execution s, promised_evaluators = suite_evaluators s\<rparr> = promise"
    using promise(2,3) by (cases promise) simp
  have mode: "run_mode r = contract_mode contract" by (rule runner_run_Inr[OF run ds]; assumption)
  have pairs: "suite_metric_pairs s = set (metric_pairs ports)"
  proof -
    have "map (\<lambda>e. map (Pair (evaluator_artifact e)) (evaluator_metrics e)) (suite_evaluators s) =
        map (\<lambda>(a, ms). map (Pair a) ms)
          (zip (map evaluator_artifact (suite_evaluators s)) (map evaluator_metrics (suite_evaluators s)))"
      by (simp add: zip_map_map zip_same_conv_map)
    also have "\<dots> = map (\<lambda>e. map (Pair (port_ref e)) (port_metric_names e)) ports"
      unfolding match(1,2) by (simp add: zip_map_map zip_same_conv_map)
    finally show ?thesis unfolding suite_metric_pairs_def by simp
  qed
  have inventory: "set (map (\<lambda>m. (summary_evaluator m, summary_metric m)) (run_metrics r)) = suite_metric_pairs s"
    "length (map (\<lambda>m. (summary_evaluator m, summary_metric m)) (run_metrics r)) = card (suite_metric_pairs s)"
    using M unfolding pairs by (simp_all del: set_concat set_map)
  have obs: "\<not> (\<exists>c \<in> set (run_cases r). \<exists>ob \<in> set (observations c).
      (obs_evaluator ob, obs_metric ob) \<notin> suite_metric_pairs s)"
    unfolding pairs using A(3) by fastforce
  show ?thesis
    unfolding validate_suite_result_def rec promise(1,4) rbind_simps Let_def
    using A(1) match mode inventory obs by (simp add: suite_evaluator_refs_def del: set_map length_map)
qed

lemma resolve_adapter_contract:
  assumes "resolve_contract (deterministic_executor env) name revision adapter names sc = Inr contract"
  shows "adapter_validate env name revision adapter names sc = Inr contract"
  using assms by (auto simp: resolve_contract_def deterministic_executor_def validate_contract_def Let_def result_simps)

lemma resolve_adapter_promise:
  assumes "resolve_suite_contract (deterministic_executor env) adapter names = Inr promise"
  shows "adapter_validate_suite env adapter names = Inr promise"
  using assms
  by (auto simp: resolve_suite_contract_def deterministic_executor_def validate_suite_contract_def Let_def result_simps)

text \<open>The suite run the adapter makes once the worker has resolved the contract and the promise.\<close>

lemma adapter_suite_run:
  assumes c: "adapter_validate env name revision adapter names sc = Inr contract" and
    p: "adapter_validate_suite env adapter names = Inr promise"
      "promised_execution promise = suite_execution s" "promised_evaluators promise = suite_evaluators s" and
    reg: "validate_suite_registration s d promise = Inr ()"
  obtains target ports kinds where "validate_plan target ports = Inr ports"
    "list_all2 (builtin env) kinds ports"
    "contract_target contract = target_port_ref target" "contract_evaluators contract = map port_ref ports"
    "contract_mode contract = OFFLINE_MOCK"
    "\<And>rid. adapter_execute_suite env rid (dataset d) name revision sc s =
       runner_run (ae_jcs env) step_clock rid (dataset d) target ports OFFLINE_MOCK (Some s)"
    "\<And>r. runner_run (ae_jcs env) step_clock rid (dataset d) target ports OFFLINE_MOCK (Some s) = Inr r \<Longrightarrow>
       validate_dataset (ae_jcs env) (dataset d) = Inr (dataset d) \<Longrightarrow>
       \<forall>c \<in> set (dataset_cases (dataset d)). is_case_id (case_id c) \<Longrightarrow>
       validate_suite_result r d contract s = Inr ()"
    "validate_runner_suite s (dataset d) ports OFFLINE_MOCK = Inr ()"
proof (rule adapter_runs[OF c])
  fix target ports kinds
  assume plan: "validate_plan target ports = Inr ports" and k: "rmap (builtin_port env) kinds = Inr ports"
    "list_all2 (builtin env) kinds ports" "evaluator_kinds_of names = Inr kinds"
    and ct: "contract_target contract = target_port_ref target" "contract_evaluators contract = map port_ref ports"
    "contract_mode contract = OFFLINE_MOCK" "contract_adapter contract = adapter_name"
    "contract_evaluator_names contract = names" "adapter = adapter_name"
    and ex: "\<And>rid ds s. suite_evaluator_names s = names \<Longrightarrow> exec_adapter (suite_execution s) = adapter \<Longrightarrow>
       adapter_validate_suite env adapter names = Inr promise \<Longrightarrow>
       promised_execution promise = suite_execution s \<Longrightarrow> promised_evaluators promise = suite_evaluators s \<Longrightarrow>
       suite_dataset s = dataset_ref ds \<Longrightarrow> adapter_execute_suite env rid ds name revision sc s =
       runner_run (ae_jcs env) step_clock rid ds target ports OFFLINE_MOCK (Some s)"
  note Q = adapter_promise[OF p(1) k(3,1,2)]
  have names: "suite_evaluator_names s = names" using Q(1) p(3) by (simp add: suite_evaluator_names_def)
  have exec: "suite_execution s = \<lparr>exec_adapter = adapter_name, exec_mode = OFFLINE_MOCK\<rparr>" using Q(4) p(2) by simp
  have reg': "suite_dataset s = dataset_ref (dataset d)" "set (suite_slices s) \<subseteq> dataset_slices (dataset d)"
    using reg by (auto simp: validate_suite_registration_def result_simps)
  have match: "map evaluator_artifact (suite_evaluators s) = map port_ref ports"
    "map evaluator_metrics (suite_evaluators s) = map port_metric_names ports" using Q(2,3) p(3) by simp_all
  have same: "sort (port_metric_names e) = evaluator_metrics b" if "(e, b) \<in> set (zip ports (suite_evaluators s))" for e b
  proof -
    from that obtain i where i: "i < length ports" "i < length (suite_evaluators s)" "e = ports ! i"
      "b = suite_evaluators s ! i" by (auto simp: in_set_zip)
    have "evaluator_metrics b = port_metric_names e"
      using arg_cong[OF match(2), of "\<lambda>xs. xs ! i"] i by simp
    moreover have "sorted (port_metric_names e)"
      using k(2) i(1,3) builtin_metrics_disjoint(4) by (simp add: list_all2_conv_all_nth builtin_def)
    ultimately show ?thesis by (simp add: sort_key_sorted_id)
  qed
  have metrics: "(\<exists>(e, b) \<in> set (zip ports (suite_evaluators s)). sort (port_metric_names e) \<noteq> evaluator_metrics b) = False"
    using same by blast
  have vs: "validate_runner_suite s (dataset d) ports OFFLINE_MOCK = Inr ()"
    using reg' exec match(1) by (simp add: validate_runner_suite_def suite_evaluator_refs_def metrics)
  show thesis
  proof (rule that[OF plan k(2) ct(1-3) _ _ vs])
    show "adapter_execute_suite env rid (dataset d) name revision sc s =
        runner_run (ae_jcs env) step_clock rid (dataset d) target ports OFFLINE_MOCK (Some s)" for rid
      using ex[OF names _ p reg'(1)] exec ct(6) by simp
    show "validate_suite_result r d contract s = Inr ()"
      if "runner_run (ae_jcs env) step_clock rid (dataset d) target ports OFFLINE_MOCK (Some s) = Inr r"
        "validate_dataset (ae_jcs env) (dataset d) = Inr (dataset d)"
        "\<forall>c \<in> set (dataset_cases (dataset d)). is_case_id (case_id c)" for r
      by (rule suite_result_accepted[OF plan that(2,3) _ Q(5) p(2,3) reg match])
        (use that(1) ct exec names in simp_all)
  qed
qed

lemma runner_run_valid:
  "runner_run jcs clock rid ds target ports mode su = Inr r \<Longrightarrow> validate_run jcs r = Inr r"
  unfolding runner_run_def rbind_Inr_iff by (elim exE conjE) (rule created_run(9))

interpretation offline: honest_executor "ae_jcs env" "deterministic_executor env" for env
proof unfold_locales
  fix rid ds name revision adapter names sc r
  assume "executor_execute (deterministic_executor env) rid ds name revision adapter names sc = Inr r"
  then obtain t ports su where "runner_run (ae_jcs env) step_clock rid ds t ports OFFLINE_MOCK su = Inr r"
    by (auto simp: deterministic_executor_def adapter_execute_def run_evaluation_def result_simps)
  then show "validate_run (ae_jcs env) r = Inr r"
    by (rule runner_run_valid)
next
  fix rid ds name revision sc s r
  assume "executor_execute_suite (deterministic_executor env) rid ds name revision sc s = Inr r"
  then obtain t ports su where "runner_run (ae_jcs env) step_clock rid ds t ports OFFLINE_MOCK su = Inr r"
    by (auto simp: deterministic_executor_def adapter_execute_suite_def run_evaluation_def Let_def result_simps)
  then show "validate_run (ae_jcs env) r = Inr r"
    by (rule runner_run_valid)
next
  fix name revision adapter names sc contract rid r and d :: dataset_record
  assume c: "resolve_contract (deterministic_executor env) name revision adapter names sc = Inr contract"
    and ds: "validate_dataset (ae_jcs env) (dataset d) = Inr (dataset d)"
      "\<forall>c \<in> set (dataset_cases (dataset d)). is_case_id (case_id c)"
    and r: "executor_execute (deterministic_executor env) rid (dataset d) name revision adapter names sc = Inr r"
  show "validate_run_result r rid d contract None = Inr ()"
  proof (rule adapter_runs[OF resolve_adapter_contract[OF c]])
    fix target ports kinds
    assume plan: "validate_plan target ports = Inr ports" and
      ct: "contract_target contract = target_port_ref target" "contract_evaluators contract = map port_ref ports"
        "contract_mode contract = OFFLINE_MOCK" and
      ex: "\<And>rid ds. adapter_execute env rid ds name revision adapter names sc =
         runner_run (ae_jcs env) step_clock rid ds target ports OFFLINE_MOCK None"
    show ?thesis
      by (rule planned_run_result[OF plan ds _ ct]) (use r ex in \<open>simp_all add: deterministic_executor_def\<close>)
  qed
next
  fix name revision adapter names sc contract promise s rid r and d :: dataset_record
  assume c: "resolve_contract (deterministic_executor env) name revision adapter names sc = Inr contract"
    and p: "resolve_suite_contract (deterministic_executor env) adapter names = Inr promise"
      "promised_execution promise = suite_execution s" "promised_evaluators promise = suite_evaluators s"
    and reg: "validate_suite_registration s d promise = Inr ()"
    and ds: "validate_dataset (ae_jcs env) (dataset d) = Inr (dataset d)"
      "\<forall>c \<in> set (dataset_cases (dataset d)). is_case_id (case_id c)"
    and r: "executor_execute_suite (deterministic_executor env) rid (dataset d) name revision sc s = Inr r"
  show "validate_run_result r rid d contract (Some s) = Inr ()"
  proof (rule adapter_suite_run[OF resolve_adapter_contract[OF c] resolve_adapter_promise[OF p(1)] p(2,3) reg])
    fix target ports kinds
    assume plan: "validate_plan target ports = Inr ports" and
      ct: "contract_target contract = target_port_ref target" "contract_evaluators contract = map port_ref ports"
        "contract_mode contract = OFFLINE_MOCK" and
      ex: "\<And>rid. adapter_execute_suite env rid (dataset d) name revision sc s =
         runner_run (ae_jcs env) step_clock rid (dataset d) target ports OFFLINE_MOCK (Some s)" and
      ok: "\<And>r. runner_run (ae_jcs env) step_clock rid (dataset d) target ports OFFLINE_MOCK (Some s) = Inr r \<Longrightarrow>
         validate_dataset (ae_jcs env) (dataset d) = Inr (dataset d) \<Longrightarrow>
         \<forall>c \<in> set (dataset_cases (dataset d)). is_case_id (case_id c) \<Longrightarrow>
         validate_suite_result r d contract s = Inr ()"
    have run: "runner_run (ae_jcs env) step_clock rid (dataset d) target ports OFFLINE_MOCK (Some s) = Inr r"
      using r ex by (simp add: deterministic_executor_def)
    show ?thesis
      by (rule planned_run_result[OF plan ds run ct]) (use ok[OF run ds] in simp)
  qed
qed

end
