(* ===== verification/ExecutionProperties.thy ===== *)
theory ExecutionProperties
  imports ExecutorContract ReleaseExample
begin

text \<open>
  The property of the offline executor with its evaluators: it keeps its contract with the
  workers.
\<close>

section \<open>The executor\<close>

text \<open>
  C31. The offline executor keeps its contract: once it has resolved the contract of a run job,
  with or without a pinned suite, executing that job on the pinned dataset fails only when a mean
  overflows or the evidence has no canonical JSON form, whatever the scenarios do; otherwise it
  returns a result that passes every check the worker makes before it publishes, with one result
  per case. No run of it is ever lost to a contract error.
\<close>

theorem executor_honours_contract:
  assumes "resolve_run_contract (deterministic_executor env) p sc = Inr contract"
    "registered (rp_suite p) d" "validate_dataset (ae_jcs env) (dataset d) = Inr (dataset d)"
    "\<forall>c \<in> set (dataset_cases (dataset d)). is_case_id (case_id c)"
    "is_run_id rid" "length (dataset_cases (dataset d)) < 2 ^ 39"
  shows "case execute_payload (ae_jcs env) (deterministic_executor env) rid (dataset d) p sc of
      Inl e \<Rightarrow> is_arithmetic_limit e
    | Inr r \<Rightarrow> validate_run_result r rid d contract (rp_suite p) = Inr () \<and>
        map result_case_id (run_cases r) = map case_id (dataset_cases (dataset d))"
proof -
  let ?run = "execute_payload (ae_jcs env) (deterministic_executor env) rid (dataset d) p sc"
  have clk: "\<forall>i < length (dataset_cases (dataset d)). is_ok (elapsed_ms (step_clock (2 * i)) (step_clock (2 * i + 1)))"
    using step_clock_elapsed assms(6) by simp
  from assms(1) have c: "resolve_contract (deterministic_executor env) (rp_target_name p) (rp_target_revision p)
      (rp_adapter p) (rp_evaluator_names p) sc = Inr contract"
    unfolding resolve_run_contract_def by (auto simp: result_simps split: option.splits)
  note cc = resolve_adapter_contract[OF c]
  have valid: "raises is_arithmetic_limit (rbind m (validate_run (ae_jcs env)))"
    if "raises is_arithmetic_limit m" "\<And>r. m = Inr r \<Longrightarrow> validate_run (ae_jcs env) r = Inr r" for m
    using that by (cases m) simp_all
  have "raises is_arithmetic_limit ?run"
  proof (cases "rp_suite p")
    case None
    show ?thesis
    proof (rule adapter_runs[OF cc])
      fix target ports kinds
      assume plan: "validate_plan target ports = Inr ports" and b: "list_all2 (builtin env) kinds ports" and
        ex: "\<And>rid ds. adapter_execute env rid ds (rp_target_name p) (rp_target_revision p) (rp_adapter p)
             (rp_evaluator_names p) sc =
           runner_run (ae_jcs env) step_clock rid ds target ports OFFLINE_MOCK None"
      have "raises is_arithmetic_limit (runner_run (ae_jcs env) step_clock rid (dataset d) target ports OFFLINE_MOCK None)"
        by (rule runner_run_limit[OF plan builtin_names_valid[OF b] assms(3,4) clk assms(5)]) simp
      then show ?thesis
        using None ex by (auto simp: execute_payload_def deterministic_executor_def intro!: valid runner_run_valid)
    qed
  next
    case (Some s)
    with assms(1) obtain promise where
      p: "resolve_suite_contract (deterministic_executor env) (rp_adapter p) (rp_evaluator_names p) = Inr promise"
        "promised_execution promise = suite_execution s" "promised_evaluators promise = suite_evaluators s"
      by (auto simp: resolve_run_contract_def result_simps)
    then have "promise = \<lparr>promised_execution = suite_execution s, promised_evaluators = suite_evaluators s\<rparr>"
      by (cases promise) simp
    then have reg: "validate_suite_registration s d promise = Inr ()" using assms(2) Some by (simp add: registered_def)
    show ?thesis
    proof (rule adapter_suite_run[OF cc resolve_adapter_promise[OF p(1)] p(2,3) reg])
      fix target ports kinds
      assume plan: "validate_plan target ports = Inr ports" and b: "list_all2 (builtin env) kinds ports" and
        ex: "\<And>rid. adapter_execute_suite env rid (dataset d) (rp_target_name p) (rp_target_revision p) sc s =
           runner_run (ae_jcs env) step_clock rid (dataset d) target ports OFFLINE_MOCK (Some s)" and
        vs: "validate_runner_suite s (dataset d) ports OFFLINE_MOCK = Inr ()"
      have "raises is_arithmetic_limit (runner_run (ae_jcs env) step_clock rid (dataset d) target ports OFFLINE_MOCK (Some s))"
        by (rule runner_run_limit[OF plan builtin_names_valid[OF b] assms(3,4) clk assms(5)]) (simp add: vs)
      then show ?thesis
        using Some ex by (auto simp: execute_payload_def deterministic_executor_def intro!: valid runner_run_valid)
    qed
  qed
  then show ?thesis
  proof (cases ?run)
    case (Inr r)
    have "validate_run_result r rid d contract (rp_suite p) = Inr ()"
      by (rule offline.payload_honoured[OF assms(1-4) Inr])
    then show ?thesis
      using Inr by (auto simp: validate_run_result_def Let_def result_simps)
  qed simp
qed

text \<open>One case that the target echoes and the refusal evaluator scores.\<close>

definition echo_env :: adapter_env where
  "echo_env = \<lparr>ae_jcs = demo_jcs, ae_parse = (\<lambda>_. Some JNull), ae_upper = id, ae_nfkc_casefold = id,
     ae_space = (\<lambda>c. c = CHR '' ''), ae_check_schema = (\<lambda>_. Some True), ae_is_valid = (\<lambda>_ _. Some True)\<rparr>"

definition echo_dataset :: dataset_record where
  "echo_dataset = \<lparr>dataset = demo_dataset\<lparr>dataset_cases := [demo_case
     \<lparr>case_input := JObj [(''scenario'', JStr ''echo''), (''value'', JInt 1)]\<rparr>]\<rparr>, dataset_created_at = 0\<rparr>"

definition echo_contract :: execution_contract where
  "echo_contract = \<lparr>contract_adapter = ''deterministic_fake'', contract_evaluator_names = [''refusal''],
     contract_target = demo_ref TARGET ''new'', contract_evaluators = [demo_ref EVALUATOR ''builtin/refusal''],
     contract_mode = OFFLINE_MOCK\<rparr>"

definition echo_job :: run_job_payload where
  "echo_job = \<lparr>rp_v2 = False, rp_suite = None, rp_dataset = dataset_ref (dataset echo_dataset),
     rp_target_name = ''new'', rp_target_revision = 1, rp_adapter = ''deterministic_fake'',
     rp_evaluator_names = [''refusal''], rp_overrides = [], rp_contract = echo_contract\<rparr>"

lemma echo_resolved: "resolve_run_contract (deterministic_executor echo_env) echo_job [] = Inr echo_contract"
proof -
  have names: "is_stable_id ''deterministic_fake''" "is_stable_id ''refusal''" "is_artifact_name ''new''"
    "is_artifact_name ''builtin/refusal''"
    by (simp_all add: is_stable_id_def is_artifact_name_def matches_def is_alnum_def is_alpha_def is_lower_def
        less_eq_char_def)
  have kinds: "evaluator_kinds_of [''refusal''] = Inr [REFUSAL]"
    by (simp add: evaluator_kinds_of_def evaluator_kinds_def)
  have valid: "validate_contract echo_contract = Inr echo_contract"
    by (simp add: validate_contract_def echo_contract_def names unresolved_def demo_ref_def)
  have "adapter_validate echo_env ''new'' 1 ''deterministic_fake'' [''refusal''] [] = validate_contract echo_contract"
    by (simp add: adapter_validate_def adapter_name_def kinds build_evaluators_def fake_target_def
        validated_overrides_def dict_of_def fake_target_ref_def echo_env_def demo_sha256 validate_artifact_ref_def
        names builtin_port_def evaluator_ref_def echo_contract_def demo_ref_def)
  with valid show ?thesis
    by (simp add: resolve_run_contract_def resolve_contract_def deterministic_executor_def echo_job_def
        validate_execution_contract_def)
      (simp add: echo_contract_def demo_ref_def)
qed

theorem executor_honours_contract_witness:
  "case execute_payload demo_jcs (deterministic_executor echo_env) ''c1'' (dataset echo_dataset) echo_job [] of
      Inl e \<Rightarrow> is_arithmetic_limit e
    | Inr r \<Rightarrow> validate_run_result r ''c1'' echo_dataset echo_contract None = Inr () \<and>
        map result_case_id (run_cases r) = [''c1'']"
proof -
  have env: "ae_jcs echo_env = demo_jcs" by (simp add: echo_env_def)
  have ds: "validate_dataset demo_jcs (dataset echo_dataset) = Inr (dataset echo_dataset)"
    by (simp add: echo_dataset_def validate_dataset_def normalize_dataset_def normalize_cases_def
        calculate_dataset_digest_def demo_sha256 demo_dataset_def is_artifact_name_def matches_def is_alnum_def
        is_alpha_def is_lower_def less_eq_char_def)
  have "rp_suite echo_job = None" "registered None echo_dataset"
    "\<forall>c \<in> set (dataset_cases (dataset echo_dataset)). is_case_id (case_id c)"
    "length (dataset_cases (dataset echo_dataset)) < 2 ^ 39"
    "map case_id (dataset_cases (dataset echo_dataset)) = [''c1'']"
    by (simp_all add: echo_job_def registered_def echo_dataset_def demo_names)
  then show ?thesis
    using executor_honours_contract[OF echo_resolved, of echo_dataset "''c1''"] ds demo_names(5)
    by (auto simp: env split: sum.splits)
qed

end
