(* ===== verification/Analytics.thy ===== *)
theory Analytics
  imports Service
begin

text \<open>
  The distributions of a release decision (\<open>domain/analytics.py\<close>, \<open>application/dashboard.py\<close>): fixed
  quantiles of the scores, deltas and operational measurements behind one gate, computed from the
  decision and its two pinned runs and checked by the validators of the read models. Small
  operational samples are suppressed.
\<close>

section \<open>Read models\<close>

abbreviation min_operational_aggregate_size :: int where
  "min_operational_aggregate_size \<equiv> 20"

record quantile_summary =
  sample_count :: int
  suppressed :: bool
  q_minimum :: "rat option"
  q_p50 :: "rat option"
  q_p95 :: "rat option"
  q_maximum :: "rat option"
  q_mean :: "rat option"

definition statistics_of :: "quantile_summary \<Rightarrow> rat option list" where
  "statistics_of q = [q_minimum q, q_p50 q, q_p95 q, q_maximum q, q_mean q]"

definition validate_quantile_summary :: "quantile_summary \<Rightarrow> quantile_summary res" where
  "validate_quantile_summary q =
     (let vs = statistics_of q; absent = list_all (\<lambda>v. v = None) vs in
      rbind (checks [(\<not> 0 \<le> sample_count q, ValidationError ''sample_count'')]) (\<lambda>_.
      rbind (if sample_count q = 0 then checks
          [(suppressed q \<or> \<not> absent, ValidationError ''empty distributions must omit every statistic'')]
        else if suppressed q then checks
          [(\<not> absent, ValidationError ''suppressed distributions must omit every statistic'')]
        else checks
          [(list_ex (\<lambda>v. v = None) vs, ValidationError ''observed distributions require every statistic''),
           (\<not> (the (q_minimum q) \<le> the (q_p50 q) \<and> the (q_p50 q) \<le> the (q_p95 q) \<and>
               the (q_p95 q) \<le> the (q_maximum q)),
            ValidationError ''distribution quantiles must be ordered''),
           (\<not> (the (q_minimum q) \<le> the (q_mean q) \<and> the (q_mean q) \<le> the (q_maximum q)),
            ValidationError ''distribution mean must lie within its range'')]) (\<lambda>_. Inr q)))"

record score_value_distribution =
  sv_attempted :: int
  sv_scored :: int
  sv_skipped :: int
  sv_errors :: int
  sv_statistics :: quantile_summary

definition validate_score_values :: "score_value_distribution \<Rightarrow> score_value_distribution res" where
  "validate_score_values v = rbind (checks
     [(\<not> 0 \<le> sv_attempted v \<or> \<not> 0 \<le> sv_scored v \<or> \<not> 0 \<le> sv_skipped v \<or> \<not> 0 \<le> sv_errors v,
       ValidationError ''counts''),
      (sv_attempted v \<noteq> sv_scored v + sv_skipped v + sv_errors v,
       ValidationError ''score distribution counts must equal attempted cases''),
      (sample_count (sv_statistics v) \<noteq> sv_scored v,
       ValidationError ''score sample count must equal scored cases'')]) (\<lambda>_. Inr v)"

record delta_distribution =
  dd_attempted :: int
  dd_compared :: int
  dd_incomparable :: int
  dd_statistics :: quantile_summary

definition validate_delta :: "delta_distribution \<Rightarrow> delta_distribution res" where
  "validate_delta v = rbind (checks
     [(\<not> 0 \<le> dd_attempted v \<or> \<not> 0 \<le> dd_compared v \<or> \<not> 0 \<le> dd_incomparable v, ValidationError ''counts''),
      (dd_attempted v \<noteq> dd_compared v + dd_incomparable v,
       ValidationError ''delta distribution counts must equal attempted cases''),
      (sample_count (dd_statistics v) \<noteq> dd_compared v,
       ValidationError ''delta sample count must equal comparable cases'')]) (\<lambda>_. Inr v)"

record score_distribution =
  sd_metric :: string
  sd_slice :: "string option"
  sd_baseline :: score_value_distribution
  sd_candidate :: score_value_distribution
  sd_delta :: delta_distribution

record measurement_distribution =
  md_attempted :: int
  md_measured :: int
  md_unavailable :: int
  md_target_failures :: int
  md_statistics :: quantile_summary

definition validate_measurement :: "measurement_distribution \<Rightarrow> measurement_distribution res" where
  "validate_measurement v = rbind (checks
     [(\<not> 0 \<le> md_attempted v \<or> \<not> 0 \<le> md_measured v \<or> \<not> 0 \<le> md_unavailable v \<or> \<not> 0 \<le> md_target_failures v,
       ValidationError ''counts''),
      (md_attempted v \<noteq> md_measured v + md_unavailable v,
       ValidationError ''measurement counts must equal attempted cases''),
      (md_target_failures v > md_attempted v, ValidationError ''target failures cannot exceed attempted cases''),
      (sample_count (md_statistics v) \<noteq> md_measured v,
       ValidationError ''measurement sample count must equal measured cases'')]) (\<lambda>_. Inr v)"

datatype run_role = BASELINE_ROLE | CANDIDATE_ROLE

record operational_distribution =
  od_role :: run_role
  od_run_id :: string
  od_mode :: execution_mode
  od_latency_ms :: measurement_distribution
  od_input_units :: measurement_distribution
  od_output_units :: measurement_distribution
  od_total_units :: measurement_distribution

record decision_distributions =
  ds_decision_id :: string
  ds_score :: score_distribution
  ds_baseline :: operational_distribution
  ds_candidate :: operational_distribution

section \<open>Quantiles\<close>

text \<open>\<open>percentile * len(ordered)\<close> is a float product.\<close>

definition nearest_rank :: "rat \<Rightarrow> rat list \<Rightarrow> rat" where
  "nearest_rank percentile ordered =
     ordered ! nat (max 0 (\<lceil>rnd64 (percentile * of_nat (length ordered))\<rceil> - 1))"

definition percentile_95 :: rat where
  "percentile_95 = rnd64 (95 / 100)"

definition float_mean :: "rat list \<Rightarrow> rat res" where
  "float_mean xs = rbind (fsum xs) (\<lambda>s.
     of_option (OverflowError ''division'') (round64 (s / of_nat (length xs))))"

definition bare_summary :: "rat list \<Rightarrow> bool \<Rightarrow> quantile_summary" where
  "bare_summary xs hidden = \<lparr>sample_count = int (length xs), suppressed = hidden, q_minimum = None,
     q_p50 = None, q_p95 = None, q_maximum = None, q_mean = None\<rparr>"

definition quantiles :: "rat list \<Rightarrow> int option \<Rightarrow> quantile_summary res" where
  "quantiles xs suppress_below =
     (let ordered = sort xs in
      if ordered = [] then validate_quantile_summary (bare_summary [] False)
      else if (case suppress_below of None \<Rightarrow> False | Some n \<Rightarrow> int (length ordered) < n)
      then validate_quantile_summary (bare_summary ordered True)
      else rbind (float_mean ordered) (\<lambda>m. validate_quantile_summary
        \<lparr>sample_count = int (length ordered), suppressed = False, q_minimum = Some (hd ordered),
         q_p50 = Some (nearest_rank (1 / 2) ordered),
         q_p95 = Some (nearest_rank percentile_95 ordered),
         q_maximum = Some (last ordered), q_mean = Some m\<rparr>))"

section \<open>Scores\<close>

text \<open>One step of the loop of \<open>_score_values\<close>: the scored values, the skips and the errors.\<close>

definition score_step :: "rat list \<times> int \<times> int \<Rightarrow> comparison_value \<Rightarrow> (rat list \<times> int \<times> int) res" where
  "score_step acc v =
     (let (scored, skips, errs) = acc in
      case cv_status v of
        CV_SCORED \<Rightarrow> rbind (of_option (ValueError ''scored comparison evidence is invalid'') (cv_value v))
          (\<lambda>x. Inr (scored @ [x], skips, errs))
      | CV_SKIPPED \<Rightarrow> Inr (scored, skips + 1, errs)
      | CV_ERROR \<Rightarrow> Inr (scored, skips, errs + 1))"

fun score_loop :: "rat list \<times> int \<times> int \<Rightarrow> comparison_value list \<Rightarrow> (rat list \<times> int \<times> int) res" where
  "score_loop acc [] = Inr acc"
| "score_loop acc (v # vs) = rbind (score_step acc v) (\<lambda>acc'. score_loop acc' vs)"

definition score_values :: "comparison_value list \<Rightarrow> score_value_distribution res" where
  "score_values vs = rbind (score_loop ([], 0, 0) vs) (\<lambda>(scored, skips, errs).
     rbind (quantiles scored None) (\<lambda>q. validate_score_values
       \<lparr>sv_attempted = int (length vs), sv_scored = int (length scored), sv_skipped = skips,
        sv_errors = errs, sv_statistics = q\<rparr>))"

definition score_distribution_of ::
    "gate_case_comparison list \<Rightarrow> string \<Rightarrow> string option \<Rightarrow> score_distribution res" where
  "score_distribution_of cases metric slice_label =
     (let deltas = List.map_filter gcc_delta cases in
      rbind (score_values (map gcc_baseline cases)) (\<lambda>b.
      rbind (score_values (map gcc_candidate cases)) (\<lambda>c.
      rbind (quantiles deltas None) (\<lambda>q.
      rbind (validate_delta
        \<lparr>dd_attempted = int (length cases), dd_compared = int (length deltas),
         dd_incomparable = int (length cases) - int (length deltas), dd_statistics = q\<rparr>) (\<lambda>d.
      Inr \<lparr>sd_metric = metric, sd_slice = slice_label, sd_baseline = b, sd_candidate = c, sd_delta = d\<rparr>)))))"

section \<open>Operational measurements\<close>

record operational_tally =
  t_latency :: "rat list"
  t_input :: "rat list"
  t_output :: "rat list"
  t_total :: "rat list"
  t_failures :: int
  t_latency_missing :: int
  t_usage_missing :: int

definition float_of_int :: "int \<Rightarrow> rat res" where
  "float_of_int n = of_option (OverflowError ''int too large to convert to float'') (round64 (of_int n))"

definition operational_step :: "operational_tally \<Rightarrow> case_result \<Rightarrow> operational_tally res" where
  "operational_step t c =
     (if result_case_status c = TARGET_FAILED then
        let t' = t\<lparr>t_failures := t_failures t + 1, t_usage_missing := t_usage_missing t + 1\<rparr> in
        Inr (case Option.bind (target_failure c) failure_latency_ms of
               None \<Rightarrow> t'\<lparr>t_latency_missing := t_latency_missing t' + 1\<rparr>
             | Some l \<Rightarrow> t'\<lparr>t_latency := t_latency t' @ [l]\<rparr>)
      else (case result_target c of
          None \<Rightarrow> Inr (t\<lparr>t_latency_missing := t_latency_missing t + 1,
            t_usage_missing := t_usage_missing t + 1\<rparr>)
        | Some x \<Rightarrow> let u = usage (response x) in
            rbind (float_of_int (input_units u)) (\<lambda>i.
            rbind (float_of_int (output_units u)) (\<lambda>out.
            rbind (float_of_int (total_units u)) (\<lambda>tot.
            Inr (t\<lparr>t_latency := t_latency t @ [latency_ms x], t_input := t_input t @ [i],
              t_output := t_output t @ [out], t_total := t_total t @ [tot]\<rparr>))))))"

fun operational_loop :: "operational_tally \<Rightarrow> case_result list \<Rightarrow> operational_tally res" where
  "operational_loop t [] = Inr t"
| "operational_loop t (c # cs) = rbind (operational_step t c) (\<lambda>t'. operational_loop t' cs)"

definition empty_tally :: operational_tally where
  "empty_tally = \<lparr>t_latency = [], t_input = [], t_output = [], t_total = [], t_failures = 0,
     t_latency_missing = 0, t_usage_missing = 0\<rparr>"

definition measurement :: "int \<Rightarrow> int \<Rightarrow> rat list \<Rightarrow> int \<Rightarrow> measurement_distribution res" where
  "measurement total_cases target_failures xs missing =
     rbind (quantiles xs (Some min_operational_aggregate_size)) (\<lambda>q. validate_measurement
       \<lparr>md_attempted = total_cases, md_measured = int (length xs), md_unavailable = missing,
        md_target_failures = target_failures, md_statistics = q\<rparr>)"

definition operational_distribution_of ::
    "run_record \<Rightarrow> run_role \<Rightarrow> string set \<Rightarrow> operational_distribution res" where
  "operational_distribution_of r role case_ids =
     (let cases = filter (\<lambda>c. result_case_id c \<in> case_ids) (run_cases (run_evidence r));
          total_cases = int (length cases) in
      rbind (checks [(length cases \<noteq> card case_ids,
        ValueError ''release gate cases do not match pinned run evidence'')]) (\<lambda>_.
      rbind (operational_loop empty_tally cases) (\<lambda>t.
      rbind (measurement total_cases (t_failures t) (t_latency t) (t_latency_missing t)) (\<lambda>latency.
      rbind (measurement total_cases (t_failures t) (t_input t) (t_usage_missing t)) (\<lambda>inputs.
      rbind (measurement total_cases (t_failures t) (t_output t) (t_usage_missing t)) (\<lambda>outputs.
      rbind (measurement total_cases (t_failures t) (t_total t) (t_usage_missing t)) (\<lambda>totals.
      Inr \<lparr>od_role = role, od_run_id = run_id (run_evidence r), od_mode = run_mode (run_evidence r),
        od_latency_ms = latency, od_input_units = inputs, od_output_units = outputs,
        od_total_units = totals\<rparr>)))))))"

section \<open>The distributions of a decision\<close>

definition gate_cases :: "release_decision \<Rightarrow> string \<Rightarrow> string option \<Rightarrow> gate_case_comparison list" where
  "gate_cases x metric slice_label =
     filter (\<lambda>c. gcc_metric c = metric \<and> gcc_slice c = slice_label) (decision_cases x)"

definition pinned_runs :: "release_decision \<Rightarrow> run_result \<Rightarrow> run_result \<Rightarrow> bool" where
  "pinned_runs x b c \<longleftrightarrow> run_id b = baseline_run_id x \<and> run_id c = candidate_run_id x \<and>
     result_digest b = baseline_result_digest x \<and> result_digest c = candidate_result_digest x \<and>
     run_dataset b = decision_dataset x \<and> run_dataset c = decision_dataset x \<and>
     run_target b = decision_baseline x \<and> run_target c = decision_candidate x \<and>
     run_mode b = decision_mode x \<and> run_mode c = decision_mode x"

definition build_distributions ::
    "release_decision_record \<Rightarrow> run_record \<Rightarrow> run_record \<Rightarrow> string \<Rightarrow> string option
     \<Rightarrow> decision_distributions res" where
  "build_distributions d b c metric slice_label =
     (let x = decision d; cases = gate_cases x metric slice_label; case_ids = set (map gcc_case_id cases) in
      rbind (checks
     [(\<not> pinned_runs x (run_evidence b) (run_evidence c),
       ValueError ''release decision evidence does not match its pinned runs''),
      (\<not> (\<exists>g \<in> set (decision_gates x). gr_metric g = metric \<and> gr_slice g = slice_label) \<or> cases = [],
       LookupError ''release decision gate evidence was not found'')]) (\<lambda>_.
      rbind (score_distribution_of cases metric slice_label) (\<lambda>score.
      rbind (operational_distribution_of b BASELINE_ROLE case_ids) (\<lambda>baseline.
      rbind (operational_distribution_of c CANDIDATE_ROLE case_ids) (\<lambda>candidate.
      Inr \<lparr>ds_decision_id = decision_id d, ds_score = score, ds_baseline = baseline,
        ds_candidate = candidate\<rparr>)))))"

fun is_lookup_error :: "exn \<Rightarrow> bool" where
  "is_lookup_error (LookupError _) = True"
| "is_lookup_error _ = False"

text \<open>\<open>get_release_decision_distributions\<close> of the service.\<close>

definition service_decision_distributions ::
    "service \<Rightarrow> string \<Rightarrow> string \<Rightarrow> string option \<Rightarrow> decision_distributions act" where
  "service_decision_distributions s did metric slice_label =
     abind (service_get_release_decision s did) (\<lambda>d.
     abind (acatch (translate is_store_not_found_error
           (ControlPlaneStoreError ''Pinned release evidence is unavailable''))
         (abind (read_run s (baseline_run_id (decision d))) (\<lambda>b.
          abind (read_run s (candidate_run_id (decision d))) (\<lambda>c. areturn (b, c))))) (\<lambda>(b, c).
     alift (rcatch is_lookup_error (\<lambda>_. Inl (ResourceNotFoundError ''Release decision gate was not found''))
       (rcatch is_value_error (\<lambda>_. Inl (ControlPlaneStoreError ''Pinned release evidence is inconsistent''))
         (build_distributions d b c metric slice_label)))))"

end
