(* ===== verification/AnalyticsProperties.thy ===== *)
theory AnalyticsProperties
  imports Analytics ReleaseExample
begin

text \<open>
  The properties of the decision distributions: what the published statistics say about the
  samples, that small operational samples are never exposed, and where valid evidence is refused.
\<close>

section \<open>Nearest ranks\<close>

lemma length_filter_sort: "length (filter P (sort xs)) = length (filter P xs)"
  by (metis filter_sort length_sort sort_key_def)

lemma sorted_below:
  assumes "sorted xs" "i < length xs"
  shows "Suc i \<le> length (filter (\<lambda>x. x \<le> xs ! i) xs)"
proof -
  have "filter (\<lambda>x. x \<le> xs ! i) (take (Suc i) xs) = take (Suc i) xs"
    using assms by (auto simp: filter_id_conv in_set_conv_nth sorted_iff_nth_mono)
  then have "length (filter (\<lambda>x. x \<le> xs ! i) (take (Suc i) xs)) = Suc i" using assms(2) by simp
  then show ?thesis
    by (metis append_take_drop_id filter_append le_add1 length_append)
qed

lemma sorted_above:
  assumes "sorted xs" "i < length xs"
  shows "length xs - i \<le> length (filter (\<lambda>x. xs ! i \<le> x) xs)"
proof -
  have "filter (\<lambda>x. xs ! i \<le> x) (drop i xs) = drop i xs"
    using assms by (auto simp: filter_id_conv in_set_conv_nth sorted_iff_nth_mono)
  then have "length (filter (\<lambda>x. xs ! i \<le> x) (drop i xs)) = length xs - i" by simp
  then show ?thesis
    by (metis append_take_drop_id filter_append le_add2 length_append)
qed

definition rank_index :: "rat \<Rightarrow> nat \<Rightarrow> nat" where
  "rank_index p n = nat (max 0 (\<lceil>rnd64 (p * of_nat n)\<rceil> - 1))"

lemma nearest_rank_eq: "nearest_rank p xs = xs ! rank_index p (length xs)"
  by (simp add: nearest_rank_def rank_index_def)

lemma rank_index_less:
  assumes "p \<le> 1" "0 < n" "n < 2 ^ 53"
  shows "rank_index p n < n"
proof -
  have "rnd64 (p * of_nat n) \<le> rnd64 (of_nat n)"
    using assms(1,2) by (intro rnd64_mono) (simp add: mult_left_le_one_le)
  also have "\<dots> = of_int (int n)" using rnd64_of_int[of "int n"] assms(3) by simp
  finally have "\<lceil>rnd64 (p * of_nat n)\<rceil> \<le> int n" by (simp add: ceiling_le_iff)
  then show ?thesis using assms(2) by (simp add: rank_index_def nat_less_iff)
qed

lemma rank_index_mono: "p \<le> q \<Longrightarrow> rank_index p n \<le> rank_index q n"
  using rnd64_mono[of "p * of_nat n" "q * of_nat n"] ceiling_mono
  by (fastforce simp: rank_index_def mult_right_mono)

lemma rank_index_half:
  assumes "0 < n" "n < 2 ^ 53"
  shows "n \<le> 2 * Suc (rank_index (1 / 2) n)" "2 * rank_index (1 / 2) n < n"
proof -
  have half: "rnd64 (1 / 2 * of_nat n) = of_nat n / 2"
    using rnd64_dyadic[of "int n" "-1"] assms(2) by (simp add: power_int_minus)
  have "rank_index (1 / 2) n = nat (max 0 (\<lceil>of_nat n / (2 :: rat)\<rceil> - 1))"
    by (simp only: rank_index_def half)
  moreover have "(of_nat n :: rat) / 2 \<le> of_int \<lceil>of_nat n / (2 :: rat)\<rceil>" "of_int \<lceil>of_nat n / (2 :: rat)\<rceil> < of_nat n / (2 :: rat) + 1"
    by linarith+
  then have "int n \<le> 2 * \<lceil>of_nat n / (2 :: rat)\<rceil>" "2 * \<lceil>of_nat n / (2 :: rat)\<rceil> < int n + 2"
    by linarith+
  ultimately show "n \<le> 2 * Suc (rank_index (1 / 2) n)" "2 * rank_index (1 / 2) n < n" using assms(1) by auto
qed

text \<open>The constant 0.95 is a hair below nineteen twentieths; the product still reaches the rank.\<close>

lemma float_095: "percentile_95 = 19 / 20 - 1 / (5 * 2 ^ 52)"
  using rnd64_eqI[of "95 / 100" 53 8556839292003942] by (simp add: percentile_95_def)

lemma rank_index_95:
  assumes "0 < n" "n < 2 ^ 40"
  shows "19 * n \<le> 20 * Suc (rank_index percentile_95 n)"
proof -
  define z where "z = (19 * int n - 1) div 20"
  have z: "20 * z + 1 \<le> 19 * int n" "19 * int n \<le> 20 * z + 20" "0 \<le> z" "z < 2 ^ 41"
    using assms by (auto simp: z_def pos_imp_zdiv_nonneg_iff)
  have n: "(of_nat n :: rat) < 2 ^ 40" using assms(2) by (metis of_nat_less_iff of_nat_numeral of_nat_power)
  have "20 * (of_int z :: rat) + 1 \<le> 19 * of_nat n" using z(1) by linarith
  moreover have "percentile_95 * (of_nat n :: rat) = 19 / 20 * of_nat n - of_nat n / (5 * 2 ^ 52)"
    unfolding float_095 by (simp add: left_diff_distrib)
  moreover have "(of_nat n :: rat) / (5 * 2 ^ 52) \<le> 1 / 64"
    using n by (simp add: pos_divide_le_eq)
  moreover have "of_int (32 * z + 1) / 32 = of_int z + (1 / 32 :: rat)" by (simp add: add_divide_distrib)
  ultimately have "of_int (32 * z + 1) / 32 \<le> percentile_95 * (of_nat n :: rat)" by linarith
  then have up: "rnd64 (of_int (32 * z + 1) / 32) \<le> rnd64 (percentile_95 * of_nat n)" by (rule rnd64_mono)
  have "rnd64 (of_int (32 * z + 1) * 2 powi (- 5)) = of_int (32 * z + 1) * 2 powi (- 5)"
    by (rule rnd64_dyadic) (use z(3,4) in auto)
  moreover have "(2 :: rat) powi (- 5) = 1 / 32" by (simp add: power_int_minus)
  ultimately have "rnd64 (of_int (32 * z + 1) / 32) = of_int (32 * z + 1) / 32" by (simp only: times_divide_eq_right mult_1_right)
  with up have "of_int (32 * z + 1) / 32 \<le> rnd64 (percentile_95 * of_nat n)" by (simp only:)
  then have "of_int z < rnd64 (percentile_95 * of_nat n)" by simp
  then have "z + 1 \<le> \<lceil>rnd64 (percentile_95 * of_nat n)\<rceil>"
    using less_ceiling_iff[of z "rnd64 (percentile_95 * of_nat n)"] by linarith
  with z(2,3) show ?thesis by (simp add: rank_index_def)
qed

section \<open>What a summary says\<close>

definition bare :: "quantile_summary \<Rightarrow> bool" where
  "bare q \<longleftrightarrow> statistics_of q = [None, None, None, None, None]"

definition describes :: "rat list \<Rightarrow> quantile_summary \<Rightarrow> bool" where
  "describes xs q \<longleftrightarrow> sample_count q = int (length xs) \<and>
     (if xs = [] then bare q
      else \<exists>lo p50 p95 hi m. statistics_of q = [Some lo, Some p50, Some p95, Some hi, Some m] \<and>
        lo = Min (set xs) \<and> hi = Max (set xs) \<and> p50 \<in> set xs \<and> p95 \<in> set xs \<and>
        length xs \<le> 2 * length (filter (\<lambda>x. x \<le> p50) xs) \<and>
        length xs \<le> 2 * length (filter (\<lambda>x. p50 \<le> x) xs) \<and>
        19 * length xs \<le> 20 * length (filter (\<lambda>x. x \<le> p95) xs) \<and> p50 \<le> p95 \<and> lo \<le> m \<and> m \<le> hi)"

lemma validate_quantile_summary_Inr: "validate_quantile_summary q = Inr q' \<Longrightarrow> q' = q"
  unfolding validate_quantile_summary_def Let_def by (simp only: rbind_Inr_iff) auto

lemma quantiles_hidden:
  assumes "quantiles xs (Some n) = Inr q" "int (length xs) < n"
  shows "bare q"
proof -
  have "q = bare_summary [] False \<or> q = bare_summary (sort xs) True"
    using assms by (auto simp: quantiles_def Let_def dest!: validate_quantile_summary_Inr split: if_splits)
  then show ?thesis by (auto simp: bare_def bare_summary_def statistics_of_def)
qed

lemma sort_ends:
  assumes "xs \<noteq> []"
  shows "hd (sort xs) = Min (set xs)" "last (sort xs) = Max (set xs)"
proof -
  let ?s = "sort xs"
  have s: "?s \<noteq> []" "sorted ?s" "set ?s = set xs" using assms by (metis set_empty set_sort) simp_all
  have "\<forall>x \<in> set ?s. hd ?s \<le> x" using s(1,2) by (cases ?s) auto
  then show "hd ?s = Min (set xs)" using s hd_in_set[OF s(1)] by (intro Min_eqI[symmetric]) auto
  have "x \<le> last ?s" if "x \<in> set ?s" for x
  proof -
    from that obtain i where "x = ?s ! i" "i < length ?s" by (metis in_set_conv_nth)
    then show ?thesis using s(1,2) sorted_nth_mono[of ?s i "length ?s - 1"] by (simp add: last_conv_nth)
  qed
  then show "last ?s = Max (set xs)" using s last_in_set[OF s(1)] by (intro Max_eqI[symmetric]) auto
qed

lemma quantiles_describe:
  assumes "quantiles xs None = Inr q" "length xs < 2 ^ 40"
  shows "describes xs q"
proof (cases "xs = []")
  case True
  then show ?thesis using assms(1)
    by (auto simp: quantiles_def describes_def bare_def bare_summary_def statistics_of_def
        dest!: validate_quantile_summary_Inr)
next
  case False
  let ?s = "sort xs" and ?n = "length xs"
  let ?i = "rank_index (1 / 2) ?n" and ?j = "rank_index (percentile_95) ?n"
  have s: "?s \<noteq> []" "sorted ?s" "length ?s = ?n" "set ?s = set xs" using False by (metis set_empty set_sort) simp_all
  from assms(1) s(1) obtain m where
    v: "validate_quantile_summary \<lparr>sample_count = int ?n, suppressed = False, q_minimum = Some (hd ?s),
      q_p50 = Some (?s ! ?i), q_p95 = Some (?s ! ?j), q_maximum = Some (last ?s), q_mean = Some m\<rparr> = Inr q"
    by (auto simp: quantiles_def Let_def nearest_rank_eq result_simps)
  from validate_quantile_summary_Inr[OF v] have q: "q = \<lparr>sample_count = int ?n, suppressed = False,
      q_minimum = Some (hd ?s), q_p50 = Some (?s ! ?i), q_p95 = Some (?s ! ?j), q_maximum = Some (last ?s),
      q_mean = Some m\<rparr>" by simp
  have mean: "hd ?s \<le> m" "m \<le> last ?s"
    using v False by (auto simp: validate_quantile_summary_def statistics_of_def result_simps)
  have n: "0 < ?n" "?n < 2 ^ 53" "?n < 2 ^ 40" using False assms(2) by auto
  have p: "(1 / 2 :: rat) \<le> percentile_95" "percentile_95 \<le> 1" unfolding float_095 by simp_all
  have i: "?i < ?n" "?j < ?n" "?i \<le> ?j"
    using rank_index_less[OF _ n(1,2)] rank_index_mono[OF p(1)] p(2) by simp_all
  have li: "?i < length ?s" "?j < length ?s" using i s(3) by simp_all
  have half: "?n \<le> 2 * length (filter (\<lambda>x. x \<le> ?s ! ?i) xs)"
    using sorted_below[OF s(2) li(1)] rank_index_half(1)[OF n(1,2)] unfolding length_filter_sort
    by (meson le_trans mult_le_mono2)
  have half': "?n \<le> 2 * length (filter (\<lambda>x. ?s ! ?i \<le> x) xs)"
    using sorted_above[OF s(2) li(1)] rank_index_half(2)[OF n(1,2)] unfolding length_filter_sort s(3) by linarith
  have most: "19 * ?n \<le> 20 * length (filter (\<lambda>x. x \<le> ?s ! ?j) xs)"
    using sorted_below[OF s(2) li(2)] rank_index_95[OF n(1,3)] unfolding length_filter_sort
    by (meson le_trans mult_le_mono2)
  have mem: "?s ! ?i \<in> set xs" "?s ! ?j \<in> set xs" using i s(3,4) nth_mem by metis+
  have "?s ! ?i \<le> ?s ! ?j" using s(2,3) i by (simp add: sorted_nth_mono)
  then show ?thesis
    using False half half' most mem mean sort_ends[OF False] by (simp add: describes_def q statistics_of_def)
qed

definition samples :: "comparison_value list \<Rightarrow> rat list" where
  "samples vs = List.map_filter (\<lambda>v. if cv_status v = CV_SCORED then cv_value v else None) vs"

lemma score_loop_samples:
  "score_loop (xs, s, e) vs = Inr (ys, s', e') \<Longrightarrow> ys = xs @ samples vs"
proof (induction vs arbitrary: xs s e)
  case (Cons v vs)
  then show ?case
    by (cases "cv_status v") (fastforce simp: score_step_def samples_def map_filter_simps result_simps)+
qed (simp add: samples_def map_filter_simps)

lemma length_map_filter: "length (List.map_filter f xs) \<le> length xs"
  by (simp add: List.map_filter_def)

lemma score_values_describe:
  assumes "score_values vs = Inr d" "length vs < 2 ^ 40"
  shows "describes (samples vs) (sv_statistics d)" "sv_attempted d = int (length vs)"
proof -
  from assms(1) obtain ys s e q where l: "score_loop ([], 0, 0) vs = Inr (ys, s, e)" and q: "quantiles ys None = Inr q"
    and d: "d = \<lparr>sv_attempted = int (length vs), sv_scored = int (length ys), sv_skipped = s, sv_errors = e,
      sv_statistics = q\<rparr>"
    by (auto simp: score_values_def validate_score_values_def result_simps)
  have "ys = samples vs" using score_loop_samples[OF l] by simp
  moreover have "length (samples vs) \<le> length vs" unfolding samples_def by (rule length_map_filter)
  ultimately show "describes (samples vs) (sv_statistics d)" using quantiles_describe[of ys q] q d assms(2) by simp
  show "sv_attempted d = int (length vs)" by (simp add: d)
qed

lemma measurement_hidden:
  assumes "measurement n f xs missing = Inr m" "md_measured m < 20"
  shows "bare (md_statistics m)"
  using assms quantiles_hidden[of xs 20]
  by (auto simp: measurement_def validate_measurement_def result_simps)

lemma score_distribution_Inr:
  "score_distribution_of cases metric slice_label = Inr x \<Longrightarrow> \<exists>vb vc q.
     score_values (map gcc_baseline cases) = Inr vb \<and> score_values (map gcc_candidate cases) = Inr vc \<and>
     quantiles (List.map_filter gcc_delta cases) None = Inr q \<and>
     sd_baseline x = vb \<and> sd_candidate x = vc \<and> dd_statistics (sd_delta x) = q"
  by (auto simp: score_distribution_of_def validate_delta_def Let_def result_simps)


lemma single_quantiles:
  assumes "float_mean [x] = Inr x"
  shows "\<exists>q. quantiles [x] None = Inr q \<and> sample_count q = 1"
    "\<exists>q. quantiles [x] (Some 20) = Inr q \<and> sample_count q = 1"
proof -
  have "nearest_rank p [x] = x" if "rank_index p 1 < 1" for p using that by (simp add: nearest_rank_eq)
  then have ranks: "nearest_rank (1 / 2) [x] = x" "nearest_rank percentile_95 [x] = x"
    using rank_index_less[of _ 1] by (simp_all add: float_095)
  with assms show "\<exists>q. quantiles [x] None = Inr q \<and> sample_count q = 1"
    by (simp add: quantiles_def Let_def validate_quantile_summary_def statistics_of_def)
  show "\<exists>q. quantiles [x] (Some 20) = Inr q \<and> sample_count q = 1"
    by (simp add: quantiles_def Let_def validate_quantile_summary_def statistics_of_def bare_summary_def)
qed

abbreviation demo_distributions :: "decision_distributions res" where
  "demo_distributions \<equiv> build_distributions
     \<lparr>decision_id = ''d1'', decision = demo_decision, decision_created_at = 0\<rparr>
     \<lparr>run_evidence = demo_run ''b1'' ''old'', run_created_at = 0\<rparr>
     \<lparr>run_evidence = demo_run ''c1'' ''new'', run_created_at = 0\<rparr> ''accuracy'' None"

lemma demo_distributions_built: "\<exists>D. demo_distributions = Inr D"
proof -
  have means: "float_mean [1] = Inr 1" "float_mean [0] = Inr 0" by (simp_all add: float_mean_def fsum_def)
  obtain q1 where q1: "quantiles [1] None = Inr q1" "sample_count q1 = 1" using single_quantiles(1)[OF means(1)] by blast
  obtain q2 where q2: "quantiles [0] None = Inr q2" "sample_count q2 = 1" using single_quantiles(1)[OF means(2)] by blast
  obtain q3 where q3: "quantiles [0] (Some 20) = Inr q3" "sample_count q3 = 1"
    using single_quantiles(2)[OF means(2)] by blast
  have fields: "decision_cases demo_decision = [demo_case_comparison]" "decision_gates demo_decision = [demo_gate_result]"
    "pinned_runs demo_decision (demo_run ''b1'' ''old'') (demo_run ''c1'' ''new'')"
    by (simp_all add: demo_decision_def draft_decision_def pinned_runs_def demo_spec_def)
  have cases: "gate_cases demo_decision ''accuracy'' None = [demo_case_comparison]"
    by (simp add: gate_cases_def fields demo_case_comparison_def Let_def)
  have scores: "\<exists>x. score_distribution_of [demo_case_comparison] ''accuracy'' None = Inr x"
    using q1 q2
    by (simp add: score_distribution_of_def demo_case_comparison_def Let_def score_values_def score_step_def
        validate_score_values_def map_filter_simps validate_delta_def)
  have operational: "\<exists>x. operational_distribution_of \<lparr>run_evidence = demo_run i t, run_created_at = 0\<rparr> role {''c1''} = Inr x"
    for i t role
    using q3
    by (simp add: operational_distribution_of_def Let_def demo_result_def operational_step_def float_of_int_def
        demo_target_def empty_tally_def measurement_def validate_measurement_def total_units_def)
  have "gcc_case_id demo_case_comparison = ''c1''" "gr_metric demo_gate_result = ''accuracy''"
    "gr_slice demo_gate_result = None" by (simp_all add: demo_case_comparison_def demo_gate_result_def Let_def)
  then show ?thesis
    using scores operational[of "''b1''" "''old''" BASELINE_ROLE] operational[of "''c1''" "''new''" CANDIDATE_ROLE]
    by (auto simp: build_distributions_def Let_def cases fields)
qed


section \<open>Refused evidence\<close>

text \<open>The float nearest to one tenth, and what three of them add up to.\<close>

abbreviation tenth :: rat where "tenth \<equiv> 3602879701896397 / 2 ^ 55"

lemma tenth_float: "rnd64 (1 / 10) = tenth"
  using rnd64_eqI[of "1 / 10" 56 7205759403792794] by simp

lemma round64_unit: "0 \<le> x \<Longrightarrow> x \<le> 1 \<Longrightarrow> round64 x = Some (rnd64 x)"
  using rnd64_mono[of x 1] rnd64_of_int[of 1] rnd64_nonneg[of x] power_increasing[of 1 1024 "2 :: rat"]
  by (auto simp: round64_def Let_def)

lemma three_tenths: "rnd64 (3 * tenth) = 5404319552844596 / 2 ^ 54"
proof -
  have "scale_exp 2 (3 * tenth) = -2" by (rule scale_exp_eqI) (simp_all add: power_int_minus)
  then have u: "ulp_exp (3 * tenth) = - 54" by (simp add: ulp_exp_def)
  have scaled: "3 * tenth / 2 powi (- 54) = 10808639105689191 / 2" by (simp add: power_int_minus)
  have "\<lfloor>10808639105689191 / 2 :: rat\<rfloor> = 5404319552844595" by (rule floor_unique) simp_all
  then have even: "round_half_even (10808639105689191 / 2) = 5404319552844596"
    by (simp add: round_half_even_def Let_def)
  have "3 * tenth \<noteq> 0" by simp
  then have "rnd64 (3 * tenth) = round_at (2 powi ulp_exp (3 * tenth)) (3 * tenth)" by (simp only: rnd64_def if_False)
  also have "\<dots> = of_int 5404319552844596 * 2 powi (- 54)" by (simp only: u round_at_def scaled even)
  finally show ?thesis by (simp add: power_int_minus)
qed

text \<open>
  C40. Valid evidence can be refused: the mean is the rounded sum divided by the count, rounded
  again, and may leave the range of the samples. Three cases that all scored one tenth are such a
  case, and their decision has no distributions although every score is valid.
\<close>

theorem equal_scores_refused:
  "score_values [\<lparr>cv_status = CV_SCORED, cv_value = Some (rnd64 (1 / 10))\<rparr>,
     \<lparr>cv_status = CV_SCORED, cv_value = Some (rnd64 (1 / 10))\<rparr>,
     \<lparr>cv_status = CV_SCORED, cv_value = Some (rnd64 (1 / 10))\<rparr>] =
   Inl (ValidationError ''distribution mean must lie within its range'')"
proof -
  have t: "0 \<le> tenth" "2 * tenth \<le> 1" "3 * tenth \<le> 1" by simp_all
  have sums: "round64 tenth \<noteq> None" "round64 (tenth + tenth) \<noteq> None"
    "round64 (tenth + tenth + tenth) = Some (5404319552844596 / 2 ^ 54)"
    using round64_unit[of tenth] round64_unit[of "tenth + tenth"] round64_unit[of "tenth + tenth + tenth"] three_tenths
    by simp_all
  have third: "round64 (5404319552844596 / 2 ^ 54 / 3) = Some (7205759403792795 / 2 ^ 56)"
    using round64_unit[of "5404319552844596 / 2 ^ 54 / 3"]
      rnd64_eqI[of "5404319552844596 / 2 ^ 54 / 3" 56 7205759403792795] by simp
  have mean: "float_mean [tenth, tenth, tenth] = Inr (7205759403792795 / 2 ^ 56)"
    using sums third by (simp add: float_mean_def fsum_def)
  have "nearest_rank p [tenth, tenth, tenth] = tenth" if "rank_index p 3 < 3" for p
    using that by (auto simp: nearest_rank_eq nth_Cons' less_Suc_eq numeral_3_eq_3)
  then have ranks: "nearest_rank (1 / 2) [tenth, tenth, tenth] = tenth"
    "nearest_rank percentile_95 [tenth, tenth, tenth] = tenth"
    using rank_index_less[of _ 3] by (simp_all add: float_095)
  have "quantiles [tenth, tenth, tenth] None = Inl (ValidationError ''distribution mean must lie within its range'')"
    using mean ranks
    by (simp add: quantiles_def Let_def validate_quantile_summary_def statistics_of_def)
  then show ?thesis unfolding tenth_float by (simp add: score_values_def score_step_def)
qed

end
