(* ===== verification/Timestamps.thy ===== *)
theory Timestamps
  imports Boundary
begin

text \<open>
  The text form of a UTC timestamp, \<open>datetime.isoformat(timespec="microseconds")\<close>, and its
  reading by \<open>datetime.fromisoformat\<close>: the proleptic Gregorian calendar of the years 1 to 9999,
  computed as the standard library computes it. Of the ISO 8601 forms that \<open>fromisoformat\<close>
  accepts, the reader is given for the complete one, with separators, microseconds and an offset
  in hours and minutes; the others are the parameter \<open>other_forms\<close> of its callers.
\<close>

section \<open>Fixed-width decimals\<close>

fun fixed_digits :: "nat \<Rightarrow> int \<Rightarrow> string" where
  "fixed_digits 0 n = []"
| "fixed_digits (Suc w) n = fixed_digits w (n div 10) @ [char_of (n mod 10 + 48)]"

lemma length_fixed_digits [simp]: "length (fixed_digits w n) = w"
  by (induction w arbitrary: n) auto

lemma fixed_digits_value: "0 \<le> n \<Longrightarrow> n < 10 ^ w \<Longrightarrow> digits_value (fixed_digits w n) = n"
proof (induction w arbitrary: n)
  case (Suc w)
  have "0 \<le> n div 10" "n div 10 < 10 ^ w" using Suc.prems by auto
  moreover have "(of_char (char_of (n mod 10 + 48) :: char) :: int) = n mod 10 + 48"
    by (simp add: of_char_of)
  ultimately show ?case using Suc.IH[of "n div 10"] by (simp add: digits_value_def)
qed (simp add: digits_value_def)

lemma fixed_digits_digit: "list_all is_digit (fixed_digits w n)"
proof (induction w arbitrary: n)
  case (Suc w)
  have "is_digit (char_of (n mod 10 + 48))"
  proof -
    have "n mod 10 \<in> {0, 1, 2, 3, 4, 5, 6, 7, 8, 9}" by auto presburger
    then show ?thesis by (elim insertE emptyE) (simp_all add: is_digit_def char_of_def less_eq_char_def)
  qed
  with Suc show ?case by simp
qed simp

section \<open>The calendar\<close>

definition is_leap :: "int \<Rightarrow> bool" where
  "is_leap y \<longleftrightarrow> y mod 4 = 0 \<and> (y mod 100 \<noteq> 0 \<or> y mod 400 = 0)"

definition days_before_year :: "int \<Rightarrow> int" where
  "days_before_year y = (y - 1) * 365 + (y - 1) div 4 - (y - 1) div 100 + (y - 1) div 400"

definition month_lengths :: "bool \<Rightarrow> int list" where
  "month_lengths leap = [31, if leap then 29 else 28, 31, 30, 31, 30, 31, 31, 30, 31, 30, 31]"

definition days_in_month :: "int \<Rightarrow> int \<Rightarrow> int" where
  "days_in_month y m = month_lengths (is_leap y) ! nat (m - 1)"

definition ymd2ord :: "int \<Rightarrow> int \<Rightarrow> int \<Rightarrow> int" where
  "ymd2ord y m d =
     days_before_year y + sum_list (take (nat (m - 1)) (month_lengths (is_leap y))) + d"

fun month_day :: "int list \<Rightarrow> int \<Rightarrow> int \<Rightarrow> int \<times> int" where
  "month_day (l # ls) m r = (if r < l then (m, r + 1) else month_day ls (m + 1) (r - l))"
| "month_day [] m r = (m, r + 1)"

text \<open>The year of a day, and the day's offset in it, from cycles of 400, 100, 4 and 1 years.\<close>

definition year_day :: "int \<Rightarrow> int \<times> int" where
  "year_day n =
     (let a = (n - 1) div 146097; r = (n - 1) mod 146097;
          b = r div 36524; r1 = r mod 36524;
          c = r1 div 1461; r2 = r1 mod 1461;
          d = r2 div 365; r3 = r2 mod 365;
          y = 400 * a + 100 * b + 4 * c + d + 1
      in if d = 4 \<or> b = 4 then (y - 1, 365) else (y, r3))"

definition ord2ymd :: "int \<Rightarrow> int \<times> int \<times> int" where
  "ord2ymd n =
     (let (y, r) = year_day n; (m, d) = month_day (month_lengths (is_leap y)) 1 r in (y, m, d))"

lemma quotient_remainder:
  "0 \<le> r \<Longrightarrow> r < k \<Longrightarrow> (k * q + r) div k = q \<and> (k * q + r) mod k = r" for k q r :: int
  by simp

text \<open>A year by its position in the cycles.\<close>

lemma cycle_parts:
  fixes a b c d :: int
  assumes "0 \<le> b" "b \<le> 3" "0 \<le> c" "c \<le> 24" "0 \<le> d" "d \<le> 3"
    and y: "y = 400 * a + 100 * b + 4 * c + d"
  shows "y div 4 = 100 * a + 25 * b + c" "y mod 4 = d" "y div 100 = 4 * a + b"
    "y mod 100 = 4 * c + d" "y div 400 = a" "y mod 400 = 100 * b + 4 * c + d"
proof -
  have "y = 4 * (100 * a + 25 * b + c) + d" "y = 100 * (4 * a + b) + (4 * c + d)"
      "y = 400 * a + (100 * b + 4 * c + d)"
    by (simp_all add: y)
  moreover have "0 \<le> 4 * c + d" "4 * c + d < 100" "0 \<le> 100 * b + 4 * c + d" "100 * b + 4 * c + d < 400"
    using assms(1-6) by simp_all
  moreover from this have "0 \<le> d" "d < 4" using assms(5,6) by simp_all
  ultimately show "y div 4 = 100 * a + 25 * b + c" "y mod 4 = d" "y div 100 = 4 * a + b"
      "y mod 100 = 4 * c + d" "y div 400 = a" "y mod 400 = 100 * b + 4 * c + d"
    using quotient_remainder[of d 4 "100 * a + 25 * b + c"]
      quotient_remainder[of "4 * c + d" 100 "4 * a + b"]
      quotient_remainder[of "100 * b + 4 * c + d" 400 a] by metis+
qed

lemma days_before_year_split:
  assumes "0 \<le> b" "b \<le> 3" "0 \<le> c" "c \<le> 24" "0 \<le> d" "d \<le> 3"
  shows "days_before_year (400 * a + 100 * b + 4 * c + d + 1) =
    146097 * a + 36524 * b + 1461 * c + 365 * d"
  using cycle_parts[OF assms refl, of a] by (simp add: days_before_year_def)

lemma mod_next: "(x + 1) mod k = (if x mod k = k - 1 then 0 else x mod k + 1)" if "1 < k" for x k :: int
proof -
  have "(x + 1) mod k = (x mod k + 1) mod k" by (simp add: mod_simps)
  moreover have "0 \<le> x mod k" "x mod k < k" using that by simp_all
  then have "x mod k \<noteq> k - 1 \<Longrightarrow> x mod k + 1 < k" by linarith
  ultimately show ?thesis using that \<open>0 \<le> x mod k\<close> by (auto simp: mod_pos_pos_trivial)
qed

lemma is_leap_split:
  assumes "0 \<le> b" "b \<le> 3" "0 \<le> c" "c \<le> 24" "0 \<le> d" "d \<le> 3"
  shows "is_leap (400 * a + 100 * b + 4 * c + d + 1) \<longleftrightarrow> d = 3 \<and> (c = 24 \<longrightarrow> b = 3)"
proof -
  note parts = cycle_parts[OF assms refl, of a]
  let ?x = "400 * a + 100 * b + 4 * c + d"
  have "(?x + 1) mod 4 = 0 \<longleftrightarrow> d = 3" using assms by (simp only: mod_next parts) auto
  moreover have "(?x + 1) mod 100 = 0 \<longleftrightarrow> d = 3 \<and> c = 24"
    using assms by (simp only: mod_next parts) auto
  moreover have "(?x + 1) mod 400 = 0 \<longleftrightarrow> d = 3 \<and> c = 24 \<and> b = 3"
    using assms by (simp only: mod_next parts) auto
  ultimately show ?thesis by (auto simp: is_leap_def)
qed

lemma sum_month_lengths: "sum_list (month_lengths leap) = (if leap then 366 else 365)"
  by (simp add: month_lengths_def)

lemma month_day_bounds:
  "0 \<le> r \<Longrightarrow> r < sum_list ls \<Longrightarrow> month_day ls m r = (m', d) \<Longrightarrow>
   m \<le> m' \<and> m' < m + int (length ls) \<and> 1 \<le> d \<and> d \<le> ls ! nat (m' - m) \<and>
   sum_list (take (nat (m' - m)) ls) + d = r + 1"
proof (induction ls m r rule: month_day.induct)
  case (1 l ls m r)
  show ?case
  proof (cases "r < l")
    case False
    with 1 have ih: "m + 1 \<le> m'" "m' < m + 1 + int (length ls)" "1 \<le> d" "d \<le> ls ! nat (m' - (m + 1))"
        "sum_list (take (nat (m' - (m + 1))) ls) + d = r - l + 1"
      by simp_all
    then have "nat (m' - m) = Suc (nat (m' - (m + 1)))" by simp
    with ih show ?thesis by simp
  qed (use 1 in auto)
qed simp

text \<open>The days of the calendar round-trip through year, month and day.\<close>

lemma year_day_split:
  assumes "year_day n = (y, r)"
  shows "days_before_year y + r + 1 = n" "0 \<le> r" "r < (if is_leap y then 366 else 365)"
proof -
  define a where "a = (n - 1) div 146097"
  define r0 where "r0 = (n - 1) mod 146097"
  define b where "b = r0 div 36524"
  define r1 where "r1 = r0 mod 36524"
  define c where "c = r1 div 1461"
  define r2 where "r2 = r1 mod 1461"
  define d where "d = r2 div 365"
  define r3 where "r3 = r2 mod 365"
  have n: "n = 146097 * a + r0 + 1" "r0 = 36524 * b + r1" "r1 = 1461 * c + r2" "r2 = 365 * d + r3"
    by (simp_all add: a_def r0_def b_def r1_def c_def r2_def d_def r3_def)
  have rs: "0 \<le> r0" "r0 < 146097" "0 \<le> r1" "r1 < 36524" "0 \<le> r2" "r2 < 1461" "0 \<le> r3" "r3 < 365"
    by (simp_all add: r0_def r1_def r2_def r3_def)
  have bounds: "0 \<le> b" "b \<le> 4" "0 \<le> c" "c \<le> 24" "0 \<le> d" "d \<le> 4"
    using n rs by linarith+
  have yr: "(y, r) = (if d = 4 \<or> b = 4 then (400 * a + 100 * b + 4 * c + d, 365)
      else (400 * a + 100 * b + 4 * c + d + 1, r3))"
    using assms by (auto simp: year_day_def Let_def a_def r0_def b_def r1_def c_def r2_def d_def r3_def
      split: if_splits)
  consider (four) "b = 4" | (leap_end) "b \<le> 3" "d = 4" | (inside) "b \<le> 3" "d \<le> 3" using bounds by linarith
  then have "days_before_year y + r + 1 = n \<and> 0 \<le> r \<and> r < (if is_leap y then 366 else 365)"
  proof cases
    case four
    then have zero: "c = 0" "d = 0" "r3 = 0" using n rs bounds by linarith+
    have y: "y = 400 * a + 100 * 3 + 4 * 24 + 3 + 1" "r = 365" using yr four zero by simp_all
    have "is_leap y" "days_before_year y = 146097 * a + 36524 * 3 + 1461 * 24 + 365 * 3"
      using is_leap_split[of 3 24 3 a] days_before_year_split[of 3 24 3 a] by (simp_all add: y(1))
    then show ?thesis using y n four zero by simp
  next
    case leap_end
    then have zero: "r3 = 0" "c \<le> 23 \<or> b = 3" using n rs bounds by linarith+
    have y: "y = 400 * a + 100 * b + 4 * c + 3 + 1" "r = 365" using yr leap_end by simp_all
    have "is_leap y" using is_leap_split[of b c 3 a] bounds leap_end zero y by auto
    moreover have "days_before_year y = 146097 * a + 36524 * b + 1461 * c + 365 * 3"
      using days_before_year_split[of b c 3 a] bounds leap_end y by simp
    ultimately show ?thesis using y n leap_end zero by simp
  next
    case inside
    then have y: "y = 400 * a + 100 * b + 4 * c + d + 1" "r = r3" using yr by simp_all
    then have "days_before_year y = 146097 * a + 36524 * b + 1461 * c + 365 * d"
      using days_before_year_split[of b c d a] bounds inside by simp
    then show ?thesis using y n rs by simp
  qed
  then show "days_before_year y + r + 1 = n" "0 \<le> r" "r < (if is_leap y then 366 else 365)" by simp_all
qed

lemma ord2ymd_ymd2ord:
  assumes "ord2ymd n = (y, m, d)"
  shows "ymd2ord y m d = n" "1 \<le> m" "m \<le> 12" "1 \<le> d" "d \<le> days_in_month y m"
proof -
  obtain r where r: "year_day n = (y, r)" "month_day (month_lengths (is_leap y)) 1 r = (m, d)"
    using assms by (auto simp: ord2ymd_def split: prod.splits)
  have len: "length (month_lengths (is_leap y)) = 12" by (simp add: month_lengths_def)
  note month = month_day_bounds[OF year_day_split(2)[OF r(1)] _ r(2)]
  have "r < sum_list (month_lengths (is_leap y))"
    using year_day_split(3)[OF r(1)] by (simp add: sum_month_lengths)
  from month[OF this] show "ymd2ord y m d = n" "1 \<le> m" "m \<le> 12" "1 \<le> d" "d \<le> days_in_month y m"
    using year_day_split(1)[OF r(1)] by (simp_all add: ymd2ord_def days_in_month_def len)
qed

section \<open>Instants as text\<close>

definition day_length :: int where
  "day_length = 86400000000"

definition epoch_ordinal :: int where
  "epoch_ordinal = 719163"

definition max_ordinal :: int where
  "max_ordinal = 3652059"

text \<open>The range of \<open>datetime\<close>: 0001-01-01 up to the last microsecond of 9999-12-31.\<close>

definition representable :: "instant \<Rightarrow> bool" where
  "representable t \<longleftrightarrow>
     1 \<le> t div day_length + epoch_ordinal \<and> t div day_length + epoch_ordinal \<le> max_ordinal"

definition isoformat :: "instant \<Rightarrow> string" where
  "isoformat t =
     (let (y, m, d) = ord2ymd (t div day_length + epoch_ordinal); r = t mod day_length
      in fixed_digits 4 y @ ''-'' @ fixed_digits 2 m @ ''-'' @ fixed_digits 2 d @ ''T'' @
         fixed_digits 2 (r div 3600000000) @ '':'' @ fixed_digits 2 (r div 60000000 mod 60) @ '':'' @
         fixed_digits 2 (r div 1000000 mod 60) @ ''.'' @ fixed_digits 6 (r mod 1000000) @ ''+00:00'')"

text \<open>The complete form, field by field; any character may separate the date from the time.\<close>

definition number_at :: "string \<Rightarrow> nat \<Rightarrow> nat \<Rightarrow> int option" where
  "number_at s i n = (let ds = take n (drop i s)
     in if length ds = n \<and> list_all is_digit ds then Some (digits_value ds) else None)"

definition complete_form :: "string \<Rightarrow> bool" where
  "complete_form s \<longleftrightarrow> length s = 32 \<and> s ! 4 = CHR ''-'' \<and> s ! 7 = CHR ''-'' \<and> s ! 13 = CHR '':'' \<and>
     s ! 16 = CHR '':'' \<and> s ! 19 \<in> set ''.,'' \<and> s ! 26 \<in> set ''+-'' \<and> s ! 29 = CHR '':''"

definition read_fields :: "string \<Rightarrow> int list option" where
  "read_fields s =
     (let parts = [number_at s 0 4, number_at s 5 2, number_at s 8 2, number_at s 11 2,
        number_at s 14 2, number_at s 17 2, number_at s 20 6, number_at s 27 2, number_at s 30 2]
      in if complete_form s \<and> None \<notin> set parts then Some (map the parts) else None)"

fun datetime_of_fields :: "bool \<Rightarrow> int list \<Rightarrow> datetime option" where
  "datetime_of_fields negative [y, m, d, h, mi, sec, us, oh, om] =
     (if 1 \<le> y \<and> 1 \<le> m \<and> m \<le> 12 \<and> 1 \<le> d \<and> d \<le> days_in_month y m \<and> h < 24 \<and> mi < 60 \<and>
         sec < 60 \<and> oh < 24 \<and> om < 60
      then let zone = (oh * 60 + om) * 60000000 in
        Some (Aware ((ymd2ord y m d - epoch_ordinal) * day_length +
            ((h * 60 + mi) * 60 + sec) * 1000000 + us) (if negative then - zone else zone))
      else None)"
| "datetime_of_fields negative _ = None"

definition fromisoformat :: "(string \<Rightarrow> datetime option) \<Rightarrow> string \<Rightarrow> datetime option" where
  "fromisoformat other_forms s = (case read_fields s of
     Some parts \<Rightarrow> datetime_of_fields (s ! 26 = CHR ''-'') parts
   | None \<Rightarrow> other_forms s)"

lemma complete_formI:
  "length a = 4 \<Longrightarrow> length b = 2 \<Longrightarrow> length c = 2 \<Longrightarrow> length d = 2 \<Longrightarrow> length e = 2 \<Longrightarrow> length f = 2 \<Longrightarrow>
   length g = 6 \<Longrightarrow> complete_form (a @ ''-'' @ b @ ''-'' @ c @ ''T'' @ d @ '':'' @ e @ '':'' @ f @ ''.'' @ g @ ''+00:00'')"
  by (simp add: complete_form_def nth_append)

lemma read_fields_of_parts:
  assumes "0 \<le> y" "y < 10000" "0 \<le> m" "m < 100" "0 \<le> d" "d < 100" "0 \<le> h" "h < 100"
    "0 \<le> mi" "mi < 100" "0 \<le> sec" "sec < 100" "0 \<le> us" "us < 1000000"
  defines "s \<equiv> fixed_digits 4 y @ ''-'' @ fixed_digits 2 m @ ''-'' @ fixed_digits 2 d @ ''T'' @
     fixed_digits 2 h @ '':'' @ fixed_digits 2 mi @ '':'' @ fixed_digits 2 sec @ ''.'' @
     fixed_digits 6 us @ ''+00:00''"
  shows "read_fields s = Some [y, m, d, h, mi, sec, us, 0, 0]" "s ! 26 = CHR ''+''"
proof -
  have at: "number_at s 0 4 = Some y" "number_at s 5 2 = Some m" "number_at s 8 2 = Some d"
      "number_at s 11 2 = Some h" "number_at s 14 2 = Some mi" "number_at s 17 2 = Some sec"
      "number_at s 20 6 = Some us"
    using assms by (simp_all add: number_at_def fixed_digits_digit fixed_digits_value del: fixed_digits.simps)
  have zero: "number_at s 27 2 = Some 0" "number_at s 30 2 = Some 0"
    by (simp_all add: s_def number_at_def is_digit_def digits_value_def del: fixed_digits.simps)
  have "complete_form s" unfolding s_def by (rule complete_formI) (simp_all del: fixed_digits.simps)
  then show "read_fields s = Some [y, m, d, h, mi, sec, us, 0, 0]"
    by (simp add: read_fields_def at zero)
  show "s ! 26 = CHR ''+''" by (simp add: s_def nth_append del: fixed_digits.simps)
qed

lemma year_bounds:
  assumes "year_day n = (y, r)" "1 \<le> n" "n \<le> max_ordinal"
  shows "1 \<le> y" "y < 10000"
proof -
  note n = year_day_split[OF assms(1)]
  let ?q = "y - 1"
  have q: "4 * (?q div 4) \<le> ?q" "?q - 3 \<le> 4 * (?q div 4)" "100 * (?q div 100) \<le> ?q"
      "?q - 99 \<le> 100 * (?q div 100)" "400 * (?q div 400) \<le> ?q" "?q - 399 \<le> 400 * (?q div 400)"
    by linarith+
  show "y < 10000"
    using n(1,2) assms(3) q(2,3,6) by (simp add: days_before_year_def max_ordinal_def)
  show "1 \<le> y"
  proof (rule ccontr)
    assume "\<not> 1 \<le> y"
    then consider "y = 0" | "y \<le> - 1" by linarith
    then show False
    proof cases
      case 1
      then show False using n assms(2) by (simp add: days_before_year_def is_leap_def)
    next
      case 2
      have "r \<le> 365" using n(3) by (simp split: if_splits)
      with 2 show False using n(1) assms(2) q(1,4,5) by (simp add: days_before_year_def)
    qed
  qed
qed

lemma days_in_month_bound: "1 \<le> m \<Longrightarrow> m \<le> 12 \<Longrightarrow> days_in_month y m \<le> 31"
proof -
  assume "1 \<le> m" "m \<le> 12"
  then have "nat (m - 1) < length (month_lengths (is_leap y))" by (simp add: month_lengths_def)
  then have "days_in_month y m \<in> set (month_lengths (is_leap y))"
    unfolding days_in_month_def by (rule nth_mem)
  then show ?thesis by (auto simp: month_lengths_def split: if_splits)
qed

text \<open>The four clock fields of a day make up its microseconds.\<close>

lemma clock_fields:
  fixes r :: int
  assumes "0 \<le> r" "r < day_length"
  shows "((r div 3600000000 * 60 + r div 60000000 mod 60) * 60 + r div 1000000 mod 60) * 1000000 +
      r mod 1000000 = r" "r div 3600000000 < 24"
proof -
  have "r div 3600000000 = r div 1000000 div 60 div 60" "r div 60000000 = r div 1000000 div 60"
    by (simp_all flip: zdiv_zmult2_eq)
  moreover have "x div 60 div 60 * 60 + x div 60 mod 60 = x div 60" "x div 60 * 60 + x mod 60 = x" for x :: int
    by simp_all
  ultimately show "((r div 3600000000 * 60 + r div 60000000 mod 60) * 60 + r div 1000000 mod 60) * 1000000 +
      r mod 1000000 = r" by simp
  show "r div 3600000000 < 24" using assms by (simp add: day_length_def)
qed

text \<open>The text of an instant reads back as the instant, whatever other forms the reader accepts.\<close>

lemma isoformat_readback:
  assumes "representable t"
  shows "fromisoformat other_forms (isoformat t) = Some (Aware t 0)"
proof -
  define n where "n = t div day_length + epoch_ordinal"
  define r where "r = t mod day_length"
  have r: "0 \<le> r" "r < day_length" by (simp_all add: r_def day_length_def)
  obtain y m d where ymd: "ord2ymd n = (y, m, d)" by (cases "ord2ymd n") auto
  note date = ord2ymd_ymd2ord[OF ymd]
  obtain r' where "year_day n = (y, r')" using ymd by (auto simp: ord2ymd_def split: prod.splits)
  then have y: "1 \<le> y" "y < 10000"
    using year_bounds assms by (auto simp: representable_def n_def)
  have d: "d \<le> 31" using days_in_month_bound[OF date(2,3)] date(5) by (rule order_trans[rotated])
  note clock = clock_fields[OF r]
  have parts: "read_fields (isoformat t) = Some [y, m, d, r div 3600000000, r div 60000000 mod 60,
      r div 1000000 mod 60, r mod 1000000, 0, 0]" "isoformat t ! 26 = CHR ''+''"
    unfolding isoformat_def Let_def n_def[symmetric] r_def[symmetric] ymd prod.case
    by (rule read_fields_of_parts; use y date d clock(2) r in simp)+
  have "(n - epoch_ordinal) * day_length + r = t" by (simp add: n_def r_def)
  then show ?thesis
    using y date clock by (simp add: fromisoformat_def parts Let_def)
qed

end
