(* ===== verification/Cursors.thy ===== *)
theory Cursors
  imports Timestamps
begin

text \<open>
  The opaque continuation cursors of \<open>adapters/control_plane_db.py\<close>: a canonical JSON envelope
  with a checksum, in unpadded URL-safe base64. The serialiser and the JSON parser are the
  parameters of the store (\<open>jcs\<close>, and the parser of the UTF-8 text); base64, the comparison of
  JSON values as Python objects and the timestamp text are the standard library's. A cursor reads
  back as the key it was written for, and only in the listing and under the filters it was
  written for.
\<close>

section \<open>URL-safe base64\<close>

definition b64_alphabet :: string where
  "b64_alphabet = ''ABCDEFGHIJKLMNOPQRSTUVWXYZabcdefghijklmnopqrstuvwxyz0123456789-_''"

definition b64_char :: "nat \<Rightarrow> char" where
  "b64_char n = b64_alphabet ! (n mod 64)"

fun b64_encode :: "nat list \<Rightarrow> string" where
  "b64_encode (a # b # c # rest) =
     [b64_char (a div 4), b64_char (a mod 4 * 16 + b div 16), b64_char (b mod 16 * 4 + c div 64),
      b64_char (c mod 64)] @ b64_encode rest"
| "b64_encode [a, b] =
     [b64_char (a div 4), b64_char (a mod 4 * 16 + b div 16), b64_char (b mod 16 * 4), CHR ''='']"
| "b64_encode [a] = [b64_char (a div 4), b64_char (a mod 4 * 16), CHR ''='', CHR ''='']"
| "b64_encode [] = []"

definition urlsafe_b64encode :: "string \<Rightarrow> string" where
  "urlsafe_b64encode s = b64_encode (map of_char s)"

definition rstrip :: "char \<Rightarrow> string \<Rightarrow> string" where
  "rstrip c s = rev (dropWhile (\<lambda>x. x = c) (rev s))"

definition sextet :: "char \<Rightarrow> nat option" where
  "sextet c =
     (if CHR ''A'' \<le> c \<and> c \<le> CHR ''Z'' then Some (of_char c - 65)
      else if CHR ''a'' \<le> c \<and> c \<le> CHR ''z'' then Some (of_char c - 71)
      else if CHR ''0'' \<le> c \<and> c \<le> CHR ''9'' then Some (of_char c + 4)
      else if c = CHR ''-'' then Some 62 else if c = CHR ''_'' then Some 63 else None)"

text \<open>Strict decoding: padding only closes the text; the unused low bits of the last group are ignored.\<close>

fun b64_decode :: "string \<Rightarrow> nat list option" where
  "b64_decode (a # b # c # d # rest) =
     Option.bind (sextet a) (\<lambda>w. Option.bind (sextet b) (\<lambda>x.
       let first = w * 4 + x div 16 in
       if c = CHR ''='' \<and> d = CHR ''='' \<and> rest = [] then Some [first]
       else Option.bind (sextet c) (\<lambda>y.
         let second = x mod 16 * 16 + y div 4 in
         if d = CHR ''='' \<and> rest = [] then Some [first, second]
         else Option.bind (sextet d) (\<lambda>z.
           map_option (\<lambda>bs. first # second # (y mod 4 * 64 + z) # bs) (b64_decode rest)))))"
| "b64_decode [] = Some []"
| "b64_decode _ = None"

definition urlsafe_b64decode :: "string \<Rightarrow> string option" where
  "urlsafe_b64decode s = map_option (map char_of) (b64_decode s)"

definition pad_cursor :: "string \<Rightarrow> string" where
  "pad_cursor s = s @ replicate (nat ((- int (length s)) mod 4)) CHR ''=''"

lemma sextet_b64_char: "n < 64 \<Longrightarrow> sextet (b64_char n) = Some n"
proof -
  have "list_all (\<lambda>n. sextet (b64_char n) = Some n) [0..<64]" by code_simp
  then show "n < 64 \<Longrightarrow> sextet (b64_char n) = Some n" by (simp add: list_all_iff)
qed

lemma b64_char_alphabet: "b64_char n \<in> set b64_alphabet"
  by (simp add: b64_char_def b64_alphabet_def del: list.set)

lemma b64_char_not_pad [simp]: "b64_char n \<noteq> CHR ''=''"
  using b64_char_alphabet[of n] by (auto simp: b64_alphabet_def)

lemma sextet_arith:
  fixes a b c :: nat
  assumes "a < 256" "b < 256" "c < 256"
  shows "a div 4 < 64" "a mod 4 * 16 + b div 16 < 64" "b mod 16 * 4 + c div 64 < 64" "c mod 64 < 64"
    "a mod 4 * 16 < 64" "b mod 16 * 4 < 64"
    "a div 4 * 4 + (a mod 4 * 16 + b div 16) div 16 = a" "a div 4 * 4 + a mod 4 * 16 div 16 = a"
    "(a mod 4 * 16 + b div 16) mod 16 * 16 + (b mod 16 * 4 + c div 64) div 4 = b"
    "(a mod 4 * 16 + b div 16) mod 16 * 16 + b mod 16 * 4 div 4 = b"
    "(b mod 16 * 4 + c div 64) mod 4 * 64 + c mod 64 = c"
proof -
  have div: "(q * k + r) div k = q" and mod: "(q * k + r) mod k = r" if "r < k" for q k r :: nat
    using that by simp_all
  have small: "b div 16 < 16" "c div 64 < 4" "a mod 4 \<le> 3" "b mod 16 \<le> 15" using assms by simp_all
  then show "a div 4 < 64" "c mod 64 < 64" "a mod 4 * 16 < 64" "b mod 16 * 4 < 64"
      "a mod 4 * 16 + b div 16 < 64" "b mod 16 * 4 + c div 64 < 64"
    using assms by linarith+
  note parts = div[OF small(1)] mod[OF small(1)] div[OF small(2)] mod[OF small(2)]
  show "a div 4 * 4 + (a mod 4 * 16 + b div 16) div 16 = a" "a div 4 * 4 + a mod 4 * 16 div 16 = a"
    "(a mod 4 * 16 + b div 16) mod 16 * 16 + (b mod 16 * 4 + c div 64) div 4 = b"
    "(a mod 4 * 16 + b div 16) mod 16 * 16 + b mod 16 * 4 div 4 = b"
    "(b mod 16 * 4 + c div 64) mod 4 * 64 + c mod 64 = c"
    unfolding parts by simp_all
qed

lemma b64_decode_encode: "list_all (\<lambda>b. b < 256) bs \<Longrightarrow> b64_decode (b64_encode bs) = Some bs"
proof (induction bs rule: b64_encode.induct)
  case (1 a b c rest)
  then show ?case using sextet_arith[of a b c] by (simp add: sextet_b64_char Let_def)
next
  case (2 a b)
  then show ?case using sextet_arith[of a b 0] by (simp add: sextet_b64_char Let_def)
next
  case (3 a)
  then show ?case using sextet_arith[of a 0 0] by (simp add: sextet_b64_char Let_def)
qed simp

lemma rstrip_Cons: "x \<noteq> c \<Longrightarrow> rstrip c (x # s) = x # rstrip c s"
proof -
  have "x \<noteq> c \<Longrightarrow> dropWhile (\<lambda>x. x = c) (ys @ [x]) = dropWhile (\<lambda>x. x = c) ys @ [x]" for ys
    by (induction ys) auto
  then show "x \<noteq> c \<Longrightarrow> rstrip c (x # s) = x # rstrip c s" by (simp add: rstrip_def)
qed

lemma rstrip_pads: "rstrip c [c] = []" "rstrip c [c, c] = []" "rstrip c [] = []"
  by (simp_all add: rstrip_def)

lemma pad_cursor_Cons4: "pad_cursor (a # b # c # d # s) = a # b # c # d # pad_cursor s"
proof -
  have "(- int (length (a # b # c # d # s))) mod 4 = (- int (length s)) mod 4" by simp presburger
  then show ?thesis by (simp only: pad_cursor_def append_Cons)
qed

lemma pad_rstrip_b64: "pad_cursor (rstrip CHR ''='' (b64_encode bs)) = b64_encode bs"
  by (induction bs rule: b64_encode.induct)
    (simp_all add: rstrip_Cons rstrip_pads pad_cursor_Cons4, simp_all add: pad_cursor_def numeral_2_eq_2)

lemma rstrip_b64_alphabet: "set (rstrip CHR ''='' (b64_encode bs)) \<subseteq> set b64_alphabet"
  by (induction bs rule: b64_encode.induct) (simp_all add: rstrip_Cons rstrip_pads b64_char_alphabet)

lemma urlsafe_b64_roundtrip:
  "urlsafe_b64decode (pad_cursor (rstrip CHR ''='' (urlsafe_b64encode s))) = Some s"
proof -
  have "list_all (\<lambda>b :: nat. b < 256) (map of_char s)" by (simp add: list_all_iff)
  then show ?thesis
    by (simp add: urlsafe_b64decode_def urlsafe_b64encode_def pad_rstrip_b64 b64_decode_encode comp_def)
qed

section \<open>JSON values as Python objects\<close>

text \<open>
  The comparison \<open>==\<close> of parsed JSON: numbers and booleans by value, dictionaries as mappings.
  A number that is not finite never occurs in canonical text.
\<close>

fun number_of :: "json \<Rightarrow> rat option" where
  "number_of (JBool b) = Some (if b then 1 else 0)"
| "number_of (JInt i) = Some (of_int i)"
| "number_of (JFloat x) = Some x"
| "number_of _ = None"

fun py_eq :: "json \<Rightarrow> json \<Rightarrow> bool"
and items_eq :: "json list \<Rightarrow> json list \<Rightarrow> bool"
and entries_eq :: "(string \<times> json) list \<Rightarrow> (string \<times> json) list \<Rightarrow> bool" where
  "py_eq JNull y = (y = JNull)"
| "py_eq (JBool b) y = (number_of y = Some (if b then 1 else 0))"
| "py_eq (JInt i) y = (number_of y = Some (of_int i))"
| "py_eq (JFloat x) y = (number_of y = Some x)"
| "py_eq JNonFinite y = False"
| "py_eq (JStr s) y = (y = JStr s)"
| "py_eq (JList xs) y = (case y of JList ys \<Rightarrow> items_eq xs ys | _ \<Rightarrow> False)"
| "py_eq (JObj ps) y = (case y of JObj qs \<Rightarrow> length ps = length qs \<and> entries_eq ps qs | _ \<Rightarrow> False)"
| "items_eq [] ys = (ys = [])"
| "items_eq (x # xs) ys = (case ys of [] \<Rightarrow> False | y # ys' \<Rightarrow> py_eq x y \<and> items_eq xs ys')"
| "entries_eq [] qs = True"
| "entries_eq ((k, v) # ps) qs =
     (case map_of qs k of None \<Rightarrow> False | Some w \<Rightarrow> py_eq v w \<and> entries_eq ps qs)"

text \<open>
  What the store relies on in the serialiser and the parser, for the values of a cursor: the text
  of a value is not empty, orders the members of its objects by key and parses to that value.
\<close>

primrec sort_keys :: "json \<Rightarrow> json" where
  "sort_keys JNull = JNull"
| "sort_keys (JBool b) = JBool b"
| "sort_keys (JInt i) = JInt i"
| "sort_keys (JFloat x) = JFloat x"
| "sort_keys JNonFinite = JNonFinite"
| "sort_keys (JStr s) = JStr s"
| "sort_keys (JList xs) = JList (map sort_keys xs)"
| "sort_keys (JObj kvs) = JObj (sort_key fst (map (map_prod id sort_keys) kvs))"

primrec plain_json :: "json \<Rightarrow> bool" where
  "plain_json JNull = True"
| "plain_json (JBool b) = True"
| "plain_json (JInt i) = True"
| "plain_json (JFloat x) = False"
| "plain_json JNonFinite = False"
| "plain_json (JStr s) = True"
| "plain_json (JList xs) = list_all id (map plain_json xs)"
| "plain_json (JObj kvs) = (distinct (map fst kvs) \<and>
     list_all (\<lambda>k. list_all (\<lambda>c. of_char c < (128 :: nat)) k) (map fst kvs) \<and>
     list_all snd (map (map_prod id plain_json) kvs))"

definition json_text :: "jcs \<Rightarrow> (string \<Rightarrow> json option) \<Rightarrow> bool" where
  "json_text jcs parse \<longleftrightarrow> (\<forall>v b. plain_json v \<longrightarrow> jcs v = Some b \<longrightarrow>
     b \<noteq> [] \<and> parse b = Some (sort_keys v) \<and> jcs (sort_keys v) = Some b)"

lemma json_textD:
  assumes "json_text jcs parse" "plain_json v" "jcs v = Some b"
  shows "b \<noteq> []" "parse b = Some (sort_keys v)" "jcs (sort_keys v) = Some b"
  using assms by (simp_all add: json_text_def)

fun scalar :: "json \<Rightarrow> bool" where
  "scalar JNull = True"
| "scalar (JInt i) = True"
| "scalar (JStr s) = True"
| "scalar _ = False"

definition scalar_dict :: "(string \<times> json) list \<Rightarrow> bool" where
  "scalar_dict d \<longleftrightarrow> plain_json (JObj d) \<and> list_all scalar (map snd d)"

lemma scalar_facts: "scalar v \<Longrightarrow> sort_keys v = v" "scalar v \<Longrightarrow> plain_json v"
  by (cases v; simp)+

lemma py_eq_scalar: "scalar v \<Longrightarrow> scalar w \<Longrightarrow> py_eq v w \<longleftrightarrow> v = w"
  by (cases v; cases w) auto

lemma sort_keys_scalar_dict: "scalar_dict d \<Longrightarrow> sort_keys (JObj d) = JObj (sort_key fst d)"
proof -
  assume "scalar_dict d"
  then have "map (map_prod id sort_keys) d = d"
    by (intro map_idI) (auto simp: scalar_dict_def list_all_iff scalar_facts)
  then show ?thesis by simp
qed

lemma scalar_dict_sort: "scalar_dict d \<Longrightarrow> scalar_dict (sort_key fst d)"
proof -
  assume "scalar_dict d"
  moreover have "mset (map fst (sort_key fst d)) = mset (map fst d)" by simp
  then have "distinct (map fst (sort_key fst d)) \<longleftrightarrow> distinct (map fst d)"
    by (rule mset_eq_imp_distinct_iff)
  ultimately show ?thesis by (auto simp: scalar_dict_def list_all_iff)
qed

lemma entries_eq_iff:
  "list_all scalar (map snd ps) \<Longrightarrow> list_all scalar (map snd qs) \<Longrightarrow>
   entries_eq ps qs \<longleftrightarrow> (\<forall>(k, v) \<in> set ps. map_of qs k = Some v)"
proof (induction ps)
  case (Cons p ps)
  obtain k v where p: "p = (k, v)" by (cases p)
  have "py_eq v w \<longleftrightarrow> v = w" if "map_of qs k = Some w" for w
    using that map_of_SomeD Cons.prems p by (intro py_eq_scalar) (fastforce simp: list_all_iff)+
  with Cons p show ?case by (auto split: option.splits)
qed simp

lemma py_eq_scalar_dict:
  assumes "scalar_dict d" "scalar_dict e"
  shows "py_eq (JObj d) (JObj e) \<longleftrightarrow> set d = set e"
proof -
  have dist: "distinct (map fst d)" "distinct (map fst e)" using assms by (simp_all add: scalar_dict_def)
  then have card: "card (set d) = length d" "card (set e) = length e"
    by (simp_all add: distinct_card distinct_map)
  have "py_eq (JObj d) (JObj e) \<longleftrightarrow> length d = length e \<and> (\<forall>(k, v) \<in> set d. map_of e k = Some v)"
    using assms by (simp add: scalar_dict_def entries_eq_iff)
  also have "\<dots> \<longleftrightarrow> length d = length e \<and> set d \<subseteq> set e"
    using map_of_eq_Some_iff[OF dist(2)] by (auto split: prod.splits)
  also have "\<dots> \<longleftrightarrow> set d = set e"
    using card by (metis List.finite_set card_subset_eq order_refl)
  finally show ?thesis .
qed

section \<open>Cursors\<close>

definition cursor_domain :: string where
  "cursor_domain = ''llm-eval-control-plane/keyset-cursor/v1'' @ [CHR 0x00]"

definition cursor_payload :: "string \<Rightarrow> (string \<times> json) list \<Rightarrow> json list \<Rightarrow> json" where
  "cursor_payload stream filters key = JObj
     [(''filters'', JObj filters), (''key'', JList key), (''stream'', JStr stream), (''version'', JInt 1)]"

definition encode_cursor :: "jcs \<Rightarrow> string \<Rightarrow> (string \<times> json) list \<Rightarrow> json list \<Rightarrow> string res" where
  "encode_cursor jcs stream filters key =
     (let payload = cursor_payload stream filters key
      in rbind (canonical_json_bytes jcs payload) (\<lambda>payload_bytes.
         rbind (canonical_json_bytes jcs (JObj
           [(''checksum'', JStr (sha256_hex (cursor_domain @ payload_bytes))), (''payload'', payload)]))
         (\<lambda>envelope. Inr (rstrip CHR ''='' (urlsafe_b64encode envelope)))))"

abbreviation invalid_cursor :: exn where
  "invalid_cursor \<equiv> StoreInvalidCursorError ''Pagination cursor is invalid''"

text \<open>An object with exactly the given entry names.\<close>

definition members :: "string set \<Rightarrow> json \<Rightarrow> (string \<times> json) list option" where
  "members names v = (case v of JObj d \<Rightarrow> if set (map fst d) = names then Some d else None | _ \<Rightarrow> None)"

definition cursor_entry :: "(string \<times> json) list \<Rightarrow> string \<Rightarrow> json" where
  "cursor_entry d k = the (map_of d k)"

definition cursor_context :: "string \<Rightarrow> (string \<times> json) list \<Rightarrow> (string \<times> json) list \<Rightarrow> json list res" where
  "cursor_context stream filters d =
     (if \<not> py_eq (cursor_entry d ''version'') (JInt 1) \<or> \<not> py_eq (cursor_entry d ''stream'') (JStr stream) \<or>
         \<not> py_eq (cursor_entry d ''filters'') (JObj filters)
      then Inl (ValueError ''cursor context is invalid'')
      else case cursor_entry d ''key'' of JList key \<Rightarrow> Inr key | _ \<Rightarrow> Inl (ValueError ''cursor context is invalid''))"

definition decode_cursor ::
    "jcs \<Rightarrow> (string \<Rightarrow> json option) \<Rightarrow> string \<Rightarrow> string \<Rightarrow> (string \<times> json) list \<Rightarrow> json list res" where
  "decode_cursor jcs parse text stream filters = rcatch is_value_error (\<lambda>_. Inl invalid_cursor)
     (rbind (checks
        [(\<not> (1 \<le> length text \<and> length text \<le> 2048), ValueError ''cursor length is invalid''),
         (\<exists>c \<in> set text. c \<notin> set b64_alphabet, ValueError ''cursor alphabet is invalid'')]) (\<lambda>_.
      rbind (of_option (ValueError ''base64'') (urlsafe_b64decode (pad_cursor text))) (\<lambda>raw.
      rbind (of_option (CanonicalJsonError ''invalid_json'') (parse raw)) (\<lambda>envelope.
      rbind (canonical_json_bytes jcs envelope) (\<lambda>b.
      rbind (checks [(raw \<noteq> b, ValueError ''cursor envelope is not canonical'')]) (\<lambda>_.
      rbind (of_option (ValueError ''cursor envelope is invalid'')
          (members {''checksum'', ''payload''} envelope)) (\<lambda>d.
      rbind (of_option (ValueError ''cursor payload is invalid'')
          (members {''filters'', ''key'', ''stream'', ''version''} (cursor_entry d ''payload''))) (\<lambda>p.
      rbind (canonical_json_bytes jcs (cursor_entry d ''payload'')) (\<lambda>payload_bytes.
      rbind (checks [(\<not> py_eq (cursor_entry d ''checksum'') (JStr (sha256_hex (cursor_domain @ payload_bytes))),
          ValueError ''cursor checksum is invalid'')]) (\<lambda>_.
      cursor_context stream filters p))))))))))"

definition cursor_time :: "instant \<Rightarrow> json" where
  "cursor_time t = JStr (isoformat t)"

definition decoded_cursor_time :: "(string \<Rightarrow> datetime option) \<Rightarrow> json \<Rightarrow> instant res" where
  "decoded_cursor_time other_forms v = (case v of
     JStr s \<Rightarrow> (case fromisoformat other_forms s of
         Some (Aware local_time offset) \<Rightarrow>
           if representable (local_time - offset) then Inr (local_time - offset) else Inl invalid_cursor
       | _ \<Rightarrow> Inl invalid_cursor)
   | _ \<Rightarrow> Inl invalid_cursor)"

section \<open>What a cursor is good for\<close>

lemma cursor_payload_facts:
  assumes "scalar_dict filters" "list_all scalar key"
  shows "plain_json (cursor_payload stream filters key)"
    "sort_keys (cursor_payload stream filters key) = cursor_payload stream (sort_key fst filters) key"
proof -
  have "map sort_keys key = key" "list_all id (map plain_json key)"
    using assms(2) by (auto intro!: map_idI simp: scalar_facts list_all_iff)
  then show "plain_json (cursor_payload stream filters key)"
      "sort_keys (cursor_payload stream filters key) = cursor_payload stream (sort_key fst filters) key"
    using assms(1) sort_keys_scalar_dict[OF assms(1)]
    by (simp_all add: cursor_payload_def scalar_dict_def less_eq_list_code less_list_code)
qed

text \<open>
  Decoding the text of a cursor gives its key in the listing and under the filters it was written
  for, and refuses it in any other.
\<close>

lemma cursor_readback:
  assumes law: "json_text jcs parse" and "encode_cursor jcs stream filters key = Inr c" "length c \<le> 2048"
    and plain: "scalar_dict filters" "list_all scalar key" and other: "scalar_dict filters'"
  shows "decode_cursor jcs parse c stream' filters' =
    (if stream' = stream \<and> set filters' = set filters then Inr key else Inl invalid_cursor)"
proof -
  let ?p = "cursor_payload stream filters key"
  let ?p' = "cursor_payload stream (sort_key fst filters) key"
  from assms(2) obtain b e where b: "jcs ?p = Some b"
    and e: "jcs (JObj [(''checksum'', JStr (sha256_hex (cursor_domain @ b))), (''payload'', ?p)]) = Some e"
    and c: "c = rstrip CHR ''='' (urlsafe_b64encode e)"
    by (auto simp: encode_cursor_def Let_def result_simps canonical_json_bytes_def)
  let ?e' = "JObj [(''checksum'', JStr (sha256_hex (cursor_domain @ b))), (''payload'', ?p')]"
  note facts = cursor_payload_facts[OF plain, of stream]
  have envelope: "plain_json (JObj [(''checksum'', JStr (sha256_hex (cursor_domain @ b))), (''payload'', ?p)])"
      "sort_keys (JObj [(''checksum'', JStr (sha256_hex (cursor_domain @ b))), (''payload'', ?p)]) = ?e'"
    using facts by (simp_all add: less_eq_list_code less_list_code)
  have raw: "e \<noteq> []" "parse e = Some ?e'" "jcs ?e' = Some e"
    using json_textD[OF law envelope(1) e] unfolding envelope(2) by this+
  have sorted: "jcs ?p' = Some b" using json_textD(3)[OF law facts(1) b] unfolding facts(2) by this
  have "set c \<subseteq> set b64_alphabet"
    unfolding c urlsafe_b64encode_def by (rule rstrip_b64_alphabet)
  moreover have "urlsafe_b64decode (pad_cursor c) = Some e" unfolding c by (rule urlsafe_b64_roundtrip)
  moreover from this raw(1) have "c \<noteq> []" by (auto simp: urlsafe_b64decode_def pad_cursor_def)
  then have "1 \<le> length c" by (cases c) simp_all
  moreover have "members {''checksum'', ''payload''} ?e' =
      Some [(''checksum'', JStr (sha256_hex (cursor_domain @ b))), (''payload'', ?p')]"
    by (simp add: members_def)
  moreover have "members {''filters'', ''key'', ''stream'', ''version''} ?p' =
      Some [(''filters'', JObj (sort_key fst filters)), (''key'', JList key), (''stream'', JStr stream),
        (''version'', JInt 1)]"
    by (simp add: members_def cursor_payload_def)
  moreover have "py_eq (JObj (sort_key fst filters)) (JObj filters') \<longleftrightarrow> set filters' = set filters"
    using py_eq_scalar_dict[OF scalar_dict_sort[OF plain(1)] other] by auto
  ultimately show ?thesis
    using raw sorted assms(3)
    by (auto simp: decode_cursor_def rcatch_def canonical_json_bytes_def cursor_context_def cursor_entry_def subset_eq
        split: sum.splits)
qed

lemma cursor_time_readback:
  "representable t \<Longrightarrow> decoded_cursor_time other_forms (cursor_time t) = Inr t"
  by (simp add: decoded_cursor_time_def cursor_time_def isoformat_readback)

lemma decode_cursor_raises [raises_intros]:
  "raises (\<lambda>e. e = invalid_cursor) (decode_cursor jcs parse text stream filters)"
proof -
  have "raises is_value_error m \<Longrightarrow>
      raises (\<lambda>e. e = invalid_cursor) (rcatch is_value_error (\<lambda>_. Inl invalid_cursor) m)" for m :: "json list res"
    by (cases m) (simp_all add: raises_def rcatch_def)
  then show ?thesis
    unfolding decode_cursor_def cursor_context_def canonical_json_bytes_def
    by this (intro raises_intros; simp split: json.split)
qed

lemma decoded_cursor_time_raises [raises_intros]:
  "raises (\<lambda>e. e = invalid_cursor) (decoded_cursor_time other_forms v)"
  by (auto simp: decoded_cursor_time_def raises_def split: json.splits option.splits datetime.splits)

end
