(* ===== verification/Listings.thy ===== *)
theory Listings
  imports Cursors Sessions "HOL-Library.Option_ord"
begin

text \<open>
  The cursor-paginated reads of \<open>adapters/control_plane_db.py\<close> (\<open>list_datasets\<close>, \<open>list_suites\<close>,
  \<open>list_jobs\<close>, \<open>list_runs\<close>, \<open>list_release_decisions\<close>, the suite histories, the target groups and
  the cases of a decision). A SELECT takes the rows of a table that satisfy its WHERE clause, sorts
  them by its ORDER BY columns and keeps at most LIMIT of them. Text is compared by the collation
  of the database, a parameter: \<open>collate\<close> maps a text to its collation key. The ISO 8601 forms of
  a timestamp that \<open>Timestamps\<close> does not read are the parameter \<open>other_forms\<close>.
\<close>

record dialect =
  collate :: "string \<Rightarrow> string"
  other_forms :: "string \<Rightarrow> datetime option"

section \<open>Pages\<close>

record 'a cursor_page =
  page_items :: "'a list"
  next_cursor :: "string option"

definition page_limit :: "int \<Rightarrow> nat res" where
  "page_limit v = rbind (checks
     [(\<not> (1 \<le> v \<and> v \<le> 100), ValueError ''page limit must be between 1 and 100'')]) (\<lambda>_. Inr (nat v))"

text \<open>The model \<open>CursorPage\<close> bounds the cursor it carries.\<close>

definition cursor_page :: "'a list \<Rightarrow> string option \<Rightarrow> 'a cursor_page res" where
  "cursor_page items next = rbind (checks
     [(case next of None \<Rightarrow> False | Some c \<Rightarrow> \<not> (1 \<le> length c \<and> length c \<le> 2048),
       ValidationError ''next_cursor'')]) (\<lambda>_. Inr \<lparr>page_items = items, next_cursor = next\<rparr>)"

definition select_rows ::
    "bool \<Rightarrow> ('r \<Rightarrow> bool) \<Rightarrow> ('r \<Rightarrow> 'k::linorder) \<Rightarrow> nat \<Rightarrow> 'r list \<Rightarrow> 'r list" where
  "select_rows descending condition key n rows =
     (let sorted = sort_key key (filter condition rows)
      in take n (if descending then rev sorted else sorted))"

text \<open>The records of the first \<open>n\<close> rows, and a cursor after the last of them when a row is left.\<close>

definition finish_page ::
    "nat \<Rightarrow> ('r \<Rightarrow> 'a res) \<Rightarrow> ('r \<Rightarrow> 'a \<Rightarrow> string res) \<Rightarrow> 'r list \<Rightarrow> 'a cursor_page res" where
  "finish_page n record_of cursor_after rows =
     rbind (rmap record_of (take n rows)) (\<lambda>records.
     rbind (if length rows > n
            then rbind (cursor_after (rows ! (n - 1)) (last records)) (\<lambda>c. Inr (Some c)) else Inr None)
       (cursor_page records))"

abbreviation read_cursor :: "store_config \<Rightarrow> string \<Rightarrow> string \<Rightarrow> (string \<times> json) list \<Rightarrow> json list res" where
  "read_cursor env \<equiv> decode_cursor (env_jcs env) (env_parse env)"

text \<open>The keyset condition of the rows after a cursor of creation time, name and revision.\<close>

definition after_revision ::
    "store_config \<Rightarrow> dialect \<Rightarrow> string \<Rightarrow> (string \<times> json) list \<Rightarrow> string option \<Rightarrow>
     (instant \<Rightarrow> string \<Rightarrow> int \<Rightarrow> bool) res" where
  "after_revision env st stream filters cursor = (case cursor of
     None \<Rightarrow> Inr (\<lambda>_ _ _. True)
   | Some c \<Rightarrow> rbind (read_cursor env c stream filters) (\<lambda>key. case key of
       [time, JStr k, JInt i] \<Rightarrow> rbind (decoded_cursor_time (other_forms st) time) (\<lambda>t.
         Inr (\<lambda>created name revision. created > t \<or>
           (created = t \<and> collate st name > collate st k) \<or>
           (created = t \<and> name = k \<and> revision > i)))
     | _ \<Rightarrow> Inl invalid_cursor))"

text \<open>The same for a cursor of creation time and identity, in either direction.\<close>

definition after_identity ::
    "store_config \<Rightarrow> dialect \<Rightarrow> bool \<Rightarrow> string \<Rightarrow> (string \<times> json) list \<Rightarrow> string option \<Rightarrow>
     (instant \<Rightarrow> string \<Rightarrow> bool) res" where
  "after_identity env st descending stream filters cursor = (case cursor of
     None \<Rightarrow> Inr (\<lambda>_ _. True)
   | Some c \<Rightarrow> rbind (read_cursor env c stream filters) (\<lambda>key. case key of
       [time, JStr k] \<Rightarrow> rbind (decoded_cursor_time (other_forms st) time) (\<lambda>t.
         Inr (\<lambda>created identity.
           if descending
           then created < t \<or> (created = t \<and> collate st identity < collate st k)
           else created > t \<or> (created = t \<and> collate st identity > collate st k)))
     | _ \<Rightarrow> Inl invalid_cursor))"

definition identity_cursor ::
    "store_config \<Rightarrow> string \<Rightarrow> (string \<times> json) list \<Rightarrow> instant \<Rightarrow> string \<Rightarrow> string res" where
  "identity_cursor env stream filters created identity =
     encode_cursor (env_jcs env) stream filters [cursor_time created, JStr identity]"

definition matches_filter :: "'x option \<Rightarrow> 'x \<Rightarrow> bool" where
  "matches_filter wanted x = (case wanted of None \<Rightarrow> True | Some y \<Rightarrow> x = y)"

section \<open>Datasets and suites\<close>

record dataset_list_record =
  dl_name :: string
  dl_revision :: int
  dl_digest :: string
  dl_case_count :: int
  dl_created_at :: instant

text \<open>A stored row that is not an instance of its list model is corrupt.\<close>

definition projection :: "string \<Rightarrow> (bool \<times> exn) list \<Rightarrow> 'a \<Rightarrow> 'a res" where
  "projection message cs x =
     rcatch is_value_error (\<lambda>_. Inl (CorruptRecordError message)) (rbind (checks cs) (\<lambda>_. Inr x))"

definition dataset_list_record_of :: "dataset_row \<Rightarrow> dataset_list_record res" where
  "dataset_list_record_of r = projection ''Stored control-plane dataset projection is invalid''
     [(\<not> is_artifact_name (dr_name r), ValidationError ''name''),
      (\<not> 0 < dr_revision r, ValidationError ''revision''),
      (\<not> is_sha256_digest (dr_digest r), ValidationError ''digest''),
      (\<not> 0 < dr_case_count r, ValidationError ''case_count'')]
     \<lparr>dl_name = dr_name r, dl_revision = dr_revision r, dl_digest = dr_digest r,
      dl_case_count = dr_case_count r, dl_created_at = dr_created_at r\<rparr>"

definition name_filters :: "string \<Rightarrow> string option \<Rightarrow> (string \<times> json) list" where
  "name_filters field name = [(field, optional_string name)]"

definition list_datasets ::
    "store_config \<Rightarrow> dialect \<Rightarrow> db \<Rightarrow> int \<Rightarrow> string option \<Rightarrow> string option \<Rightarrow>
     dataset_list_record cursor_page res" where
  "list_datasets env st db limit cursor name =
     rbind (page_limit limit) (\<lambda>n.
     rbind (after_revision env st ''datasets'' (name_filters ''name'' name) cursor) (\<lambda>after.
     finish_page n dataset_list_record_of
       (\<lambda>_ r. encode_cursor (env_jcs env) ''datasets'' (name_filters ''name'' name)
          [cursor_time (dl_created_at r), JStr (dl_name r), JInt (dl_revision r)])
       (select_rows False
          (\<lambda>r. matches_filter name (dr_name r) \<and> after (dr_created_at r) (dr_name r) (dr_revision r))
          (\<lambda>r. (dr_created_at r, collate st (dr_name r), dr_revision r)) (n + 1) (datasets_table db))))"

record suite_list_record =
  sl_name :: string
  sl_revision :: int
  sl_digest :: string
  sl_dataset_name :: string
  sl_dataset_revision :: int
  sl_evaluator_count :: int
  sl_metric_count :: int
  sl_slice_count :: int
  sl_gate_count :: int
  sl_mode :: execution_mode
  sl_created_at :: instant

definition suite_list_record_of :: "suite_row \<Rightarrow> suite_list_record res" where
  "suite_list_record_of r = projection ''Stored control-plane evaluation suite projection is invalid''
     [(\<not> is_artifact_name (sr_name r) \<or> \<not> is_artifact_name (sr_dataset_name r), ValidationError ''name''),
      (\<not> 0 < sr_revision r \<or> \<not> 0 < sr_dataset_revision r, ValidationError ''revision''),
      (\<not> is_sha256_digest (sr_digest r), ValidationError ''digest''),
      (\<not> (1 \<le> sr_evaluator_count r \<and> sr_evaluator_count r \<le> 32), ValidationError ''evaluator_count''),
      (\<not> (1 \<le> sr_metric_count r \<and> sr_metric_count r \<le> 32), ValidationError ''metric_count''),
      (\<not> (0 \<le> sr_slice_count r \<and> sr_slice_count r \<le> 128), ValidationError ''slice_count''),
      (\<not> (1 \<le> sr_gate_count r \<and> sr_gate_count r \<le> 64), ValidationError ''gate_count'')]
     \<lparr>sl_name = sr_name r, sl_revision = sr_revision r, sl_digest = sr_digest r,
      sl_dataset_name = sr_dataset_name r, sl_dataset_revision = sr_dataset_revision r,
      sl_evaluator_count = sr_evaluator_count r, sl_metric_count = sr_metric_count r,
      sl_slice_count = sr_slice_count r, sl_gate_count = sr_gate_count r, sl_mode = sr_mode r,
      sl_created_at = sr_created_at r\<rparr>"

definition list_suites ::
    "store_config \<Rightarrow> dialect \<Rightarrow> db \<Rightarrow> int \<Rightarrow> string option \<Rightarrow> string option \<Rightarrow>
     suite_list_record cursor_page res" where
  "list_suites env st db limit cursor name =
     rbind (page_limit limit) (\<lambda>n.
     rbind (after_revision env st ''suites'' (name_filters ''name'' name) cursor) (\<lambda>after.
     finish_page n suite_list_record_of
       (\<lambda>_ r. encode_cursor (env_jcs env) ''suites'' (name_filters ''name'' name)
          [cursor_time (sl_created_at r), JStr (sl_name r), JInt (sl_revision r)])
       (select_rows False
          (\<lambda>r. matches_filter name (sr_name r) \<and> after (sr_created_at r) (sr_name r) (sr_revision r))
          (\<lambda>r. (sr_created_at r, collate st (sr_name r), sr_revision r)) (n + 1) (suites_table db))))"

section \<open>Jobs, runs and decisions\<close>

fun job_kind_value :: "job_kind \<Rightarrow> string" where
  "job_kind_value RUN_JOB = ''run''"
| "job_kind_value COMPARISON_JOB = ''comparison''"

fun job_status_value :: "job_status \<Rightarrow> string" where
  "job_status_value QUEUED = ''queued''"
| "job_status_value RUNNING = ''running''"
| "job_status_value CANCEL_REQUESTED = ''cancel_requested''"
| "job_status_value SUCCEEDED = ''succeeded''"
| "job_status_value FAILED = ''failed''"
| "job_status_value CANCELED = ''canceled''"

definition job_filters :: "job_kind option \<Rightarrow> job_status option \<Rightarrow> (string \<times> json) list" where
  "job_filters kind status =
     [(''kind'', optional_string (map_option job_kind_value kind)),
      (''status'', optional_string (map_option job_status_value status))]"

definition list_jobs ::
    "store_config \<Rightarrow> dialect \<Rightarrow> db \<Rightarrow> int \<Rightarrow> string option \<Rightarrow> job_kind option \<Rightarrow> job_status option \<Rightarrow>
     job_record cursor_page res" where
  "list_jobs env st db limit cursor kind status =
     rbind (page_limit limit) (\<lambda>n.
     rbind (after_identity env st False ''jobs'' (job_filters kind status) cursor) (\<lambda>after.
     finish_page n job_record_of
       (\<lambda>_ j. identity_cursor env ''jobs'' (job_filters kind status) (job_created_at j) (job_id j))
       (select_rows False
          (\<lambda>r. matches_filter kind (job_kind (row_job r)) \<and> matches_filter status (job_status (row_job r)) \<and>
               after (job_created_at (row_job r)) (row_job_id r))
          (\<lambda>r. (job_created_at (row_job r), collate st (row_job_id r))) (n + 1) (jobs_table db))))"

record run_list_record =
  rl_run_id :: string
  rl_status :: run_status
  rl_mode :: execution_mode
  rl_dataset_name :: string
  rl_dataset_revision :: int
  rl_digest :: string
  rl_created_at :: instant

definition run_list_checks :: "run_row \<Rightarrow> (bool \<times> exn) list" where
  "run_list_checks r =
     [(\<not> is_run_id (rr_run_id r), ValidationError ''run_id''),
      (\<not> is_artifact_name (rr_dataset_name r), ValidationError ''dataset_name''),
      (\<not> 0 < rr_dataset_revision r, ValidationError ''dataset_revision''),
      (\<not> is_sha256_digest (rr_digest r), ValidationError ''result_digest'')]"

definition run_projection :: "run_row \<Rightarrow> run_list_record" where
  "run_projection r = \<lparr>rl_run_id = rr_run_id r, rl_status = rr_status r, rl_mode = rr_mode r,
     rl_dataset_name = rr_dataset_name r, rl_dataset_revision = rr_dataset_revision r,
     rl_digest = rr_digest r, rl_created_at = rr_created_at r\<rparr>"

definition run_list_record_of :: "run_row \<Rightarrow> run_list_record res" where
  "run_list_record_of r = projection ''Stored control-plane run projection is invalid''
     (run_list_checks r) (run_projection r)"

definition list_runs ::
    "store_config \<Rightarrow> dialect \<Rightarrow> db \<Rightarrow> int \<Rightarrow> string option \<Rightarrow> string option \<Rightarrow>
     run_list_record cursor_page res" where
  "list_runs env st db limit cursor name =
     rbind (page_limit limit) (\<lambda>n.
     rbind (after_identity env st False ''runs'' (name_filters ''dataset_name'' name) cursor) (\<lambda>after.
     finish_page n run_list_record_of
       (\<lambda>_ r. identity_cursor env ''runs'' (name_filters ''dataset_name'' name)
          (rl_created_at r) (rl_run_id r))
       (select_rows False
          (\<lambda>r. matches_filter name (rr_dataset_name r) \<and> after (rr_created_at r) (rr_run_id r))
          (\<lambda>r. (rr_created_at r, collate st (rr_run_id r))) (n + 1) (runs_table db))))"

record decision_list_record =
  cl_decision_id :: string
  cl_status :: release_status
  cl_baseline :: string
  cl_candidate :: string
  cl_digest :: string
  cl_created_at :: instant

definition decision_list_checks :: "decision_row \<Rightarrow> (bool \<times> exn) list" where
  "decision_list_checks r =
     [(\<not> is_stable_id (dcr_decision_id r), ValidationError ''decision_id''),
      (\<not> is_run_id (dcr_baseline r), ValidationError ''baseline_run_id''),
      (\<not> is_run_id (dcr_candidate r), ValidationError ''candidate_run_id''),
      (\<not> is_sha256_digest (dcr_digest r), ValidationError ''decision_digest'')]"

definition decision_projection :: "decision_row \<Rightarrow> decision_list_record" where
  "decision_projection r = \<lparr>cl_decision_id = dcr_decision_id r, cl_status = dcr_status r,
     cl_baseline = dcr_baseline r, cl_candidate = dcr_candidate r, cl_digest = dcr_digest r,
     cl_created_at = dcr_created_at r\<rparr>"

definition decision_list_record_of :: "decision_row \<Rightarrow> decision_list_record res" where
  "decision_list_record_of r = projection ''Stored control-plane decision projection is invalid''
     (decision_list_checks r) (decision_projection r)"

datatype list_order = ASCENDING | DESCENDING

fun list_order_value :: "list_order \<Rightarrow> string" where
  "list_order_value ASCENDING = ''asc''"
| "list_order_value DESCENDING = ''desc''"

definition decision_filters :: "release_status option \<Rightarrow> list_order \<Rightarrow> (string \<times> json) list" where
  "decision_filters status order =
     [(''status'', optional_string (map_option release_status_value status))] @
     (if order = DESCENDING then [(''order'', JStr (list_order_value order))] else [])"

definition list_release_decisions ::
    "store_config \<Rightarrow> dialect \<Rightarrow> db \<Rightarrow> int \<Rightarrow> string option \<Rightarrow> release_status option \<Rightarrow> list_order \<Rightarrow>
     decision_list_record cursor_page res" where
  "list_release_decisions env st db limit cursor status order =
     rbind (page_limit limit) (\<lambda>n.
     rbind (after_identity env st (order = DESCENDING) ''release-decisions''
         (decision_filters status order) cursor) (\<lambda>after.
     finish_page n decision_list_record_of
       (\<lambda>_ r. identity_cursor env ''release-decisions'' (decision_filters status order)
          (cl_created_at r) (cl_decision_id r))
       (select_rows (order = DESCENDING)
          (\<lambda>r. matches_filter status (dcr_status r) \<and> after (dcr_created_at r) (dcr_decision_id r))
          (\<lambda>r. (dcr_created_at r, collate st (dcr_decision_id r))) (n + 1)
          (release_decisions_table db))))"

section \<open>Histories of a suite\<close>

definition resolved_filters :: "artifact_kind \<Rightarrow> string \<Rightarrow> string \<Rightarrow> artifact_ref \<Rightarrow> (string \<times> json) list res" where
  "resolved_filters kind message role ref = rbind (checks
     [(unresolved kind ref, ValueError message)]) (\<lambda>_. Inr
     [(role @ ''_name'', JStr (ref_name ref)), (role @ ''_revision'', JInt (ref_revision ref)),
      (role @ ''_digest'', optional_string (ref_digest ref))])"

definition suite_filters :: "artifact_ref \<Rightarrow> (string \<times> json) list res" where
  "suite_filters = resolved_filters SUITE ''Suite history requires a resolved suite reference'' ''suite''"

definition target_filters :: "artifact_ref option \<Rightarrow> string \<Rightarrow> (string \<times> json) list res" where
  "target_filters ref role = (case ref of None \<Rightarrow> Inr []
   | Some t \<Rightarrow> resolved_filters TARGET ''Target history requires a resolved target reference'' role t)"

text \<open>A pinned artifact as the three columns it is compared with.\<close>

definition pin_columns :: "artifact_ref \<Rightarrow> history_columns" where
  "pin_columns ref = (Some (ref_name ref), Some (ref_revision ref), ref_digest ref)"

definition pinned_ref :: "artifact_kind \<Rightarrow> history_columns \<Rightarrow> artifact_ref res" where
  "pinned_ref kind columns = (case columns of
     (Some name, Some revision, digest) \<Rightarrow> rbind (validate_artifact_ref
       \<lparr>ref_kind = kind, ref_name = name, ref_revision = revision, ref_digest = digest\<rparr>) (\<lambda>ref.
       rbind (checks [(ref_digest ref = None, ValidationError ''unresolved'')]) (\<lambda>_. Inr ref))
   | _ \<Rightarrow> Inl (ValidationError ''reference''))"

text \<open>The join of rows with the pinned run that one of their columns names.\<close>

definition join_run ::
    "db \<Rightarrow> ('r \<Rightarrow> string) \<Rightarrow> artifact_ref \<Rightarrow> artifact_ref option \<Rightarrow> 'r list \<Rightarrow> 'r list" where
  "join_run db link pinned target rows = (case target of None \<Rightarrow> rows
   | Some t \<Rightarrow> concat (map (\<lambda>r. map (\<lambda>_. r) (filter
       (\<lambda>run. link r = rr_run_id run \<and> rr_suite run = pin_columns pinned \<and> rr_target run = pin_columns t)
       (runs_table db))) rows))"

text \<open>The columns of a table that its history reads.\<close>

record 'r history_table =
  ht_rows :: "db \<Rightarrow> 'r list"
  ht_identity :: "'r \<Rightarrow> string"
  ht_created :: "'r \<Rightarrow> instant"
  ht_suite :: "'r \<Rightarrow> history_columns"
  ht_target :: "'r \<Rightarrow> history_columns"
  ht_baseline :: "'r \<Rightarrow> string"
  ht_candidate :: "'r \<Rightarrow> string"

definition history_filters ::
    "artifact_ref \<Rightarrow> artifact_ref option \<Rightarrow> artifact_ref option \<Rightarrow> artifact_ref option \<Rightarrow>
     (string \<times> json) list res" where
  "history_filters pinned target baseline candidate =
     rbind (suite_filters pinned) (\<lambda>fs.
     rbind (checks [((baseline = None) \<noteq> (candidate = None),
         ValueError ''Target pair filters must be complete'')]) (\<lambda>_.
     rbind (target_filters target ''target'') (\<lambda>ts.
     rbind (target_filters baseline ''baseline_target'') (\<lambda>bs.
     rbind (target_filters candidate ''candidate_target'') (\<lambda>cs.
     Inr (fs @ [(''order'', JStr ''desc'')] @ ts @ bs @ cs))))))"

definition history_rows ::
    "'r history_table \<Rightarrow> db \<Rightarrow> artifact_ref \<Rightarrow> artifact_ref option \<Rightarrow> artifact_ref option \<Rightarrow>
     artifact_ref option \<Rightarrow> 'r list" where
  "history_rows tab db pinned target baseline candidate =
     join_run db (ht_candidate tab) pinned candidate
       (join_run db (ht_baseline tab) pinned baseline
         (filter (\<lambda>r. ht_suite tab r = pin_columns pinned \<and> matches_filter (map_option pin_columns target) (ht_target tab r))
           (ht_rows tab db)))"

definition history_record :: "('r \<Rightarrow> 'a res) \<Rightarrow> 'r \<Rightarrow> 'a res" where
  "history_record record_of r =
     rcatch is_value_error (\<lambda>_. Inl (CorruptRecordError ''Stored suite history is invalid'')) (record_of r)"

definition suite_history_page ::
    "store_config \<Rightarrow> dialect \<Rightarrow> db \<Rightarrow> artifact_ref \<Rightarrow> int \<Rightarrow> string option \<Rightarrow> 'r history_table \<Rightarrow> string \<Rightarrow>
     ('r \<Rightarrow> 'a res) \<Rightarrow> ('a \<Rightarrow> instant) \<Rightarrow> artifact_ref option \<Rightarrow> artifact_ref option \<Rightarrow>
     artifact_ref option \<Rightarrow> 'a cursor_page res" where
  "suite_history_page env st db pinned limit cursor tab stream record_of created_at target baseline candidate =
     rbind (page_limit limit) (\<lambda>n.
     rbind (history_filters pinned target baseline candidate) (\<lambda>filters.
     rbind (after_identity env st True stream filters cursor) (\<lambda>after.
     finish_page n (history_record record_of)
       (\<lambda>r x. identity_cursor env stream filters (created_at x) (ht_identity tab r))
       (select_rows True (\<lambda>r. after (ht_created tab r) (ht_identity tab r))
          (\<lambda>r. (ht_created tab r, collate st (ht_identity tab r))) (n + 1)
          (history_rows tab db pinned target baseline candidate)))))"

record run_history_record = run_list_record +
  rh_suite :: artifact_ref
  rh_target :: artifact_ref

definition run_history_table :: "run_row history_table" where
  "run_history_table = \<lparr>ht_rows = runs_table, ht_identity = rr_run_id, ht_created = rr_created_at,
     ht_suite = rr_suite, ht_target = rr_target, ht_baseline = rr_run_id, ht_candidate = rr_run_id\<rparr>"

definition run_history_record_of :: "run_row \<Rightarrow> run_history_record res" where
  "run_history_record_of r =
     rbind (pinned_ref SUITE (rr_suite r)) (\<lambda>s. rbind (pinned_ref TARGET (rr_target r)) (\<lambda>t.
     rbind (checks (run_list_checks r)) (\<lambda>_.
     Inr (run_list_record.extend (run_projection r) (run_history_record.fields s t)))))"

definition list_suite_runs ::
    "store_config \<Rightarrow> dialect \<Rightarrow> db \<Rightarrow> artifact_ref \<Rightarrow> int \<Rightarrow> string option \<Rightarrow> artifact_ref option \<Rightarrow>
     run_history_record cursor_page res" where
  "list_suite_runs env st db pinned limit cursor target =
     suite_history_page env st db pinned limit cursor run_history_table ''suite-runs''
       run_history_record_of rl_created_at target None None"

record decision_history_record = decision_list_record +
  ch_suite :: artifact_ref

definition decision_history_table :: "decision_row history_table" where
  "decision_history_table = \<lparr>ht_rows = release_decisions_table, ht_identity = dcr_decision_id,
     ht_created = dcr_created_at, ht_suite = dcr_suite, ht_target = (\<lambda>_. (None, None, None)),
     ht_baseline = dcr_baseline, ht_candidate = dcr_candidate\<rparr>"

definition decision_history_record_of :: "decision_row \<Rightarrow> decision_history_record res" where
  "decision_history_record_of r =
     rbind (pinned_ref SUITE (dcr_suite r)) (\<lambda>s.
     rbind (checks (decision_list_checks r)) (\<lambda>_.
     Inr (decision_list_record.extend (decision_projection r) (decision_history_record.fields s))))"

definition list_suite_decisions ::
    "store_config \<Rightarrow> dialect \<Rightarrow> db \<Rightarrow> artifact_ref \<Rightarrow> int \<Rightarrow> string option \<Rightarrow> artifact_ref option \<Rightarrow>
     artifact_ref option \<Rightarrow> decision_history_record cursor_page res" where
  "list_suite_decisions env st db pinned limit cursor baseline candidate =
     suite_history_page env st db pinned limit cursor decision_history_table ''suite-decisions''
       decision_history_record_of cl_created_at None baseline candidate"

section \<open>Targets of a suite\<close>

record suite_target_group =
  stg_suite :: artifact_ref
  stg_target :: artifact_ref

record suite_target_pair_group =
  spg_suite :: artifact_ref
  spg_baseline :: artifact_ref
  spg_candidate :: artifact_ref

definition validate_target_group :: "suite_target_group \<Rightarrow> suite_target_group res" where
  "validate_target_group g = rbind (checks
     [(unresolved SUITE (stg_suite g) \<or> unresolved TARGET (stg_target g),
       ValidationError ''Target grouping requires resolved references'')]) (\<lambda>_. Inr g)"

definition validate_target_pair_group :: "suite_target_pair_group \<Rightarrow> suite_target_pair_group res" where
  "validate_target_pair_group g =
     rbind (validate_target_group \<lparr>stg_suite = spg_suite g, stg_target = spg_baseline g\<rparr>) (\<lambda>_.
     rbind (validate_target_group \<lparr>stg_suite = spg_suite g, stg_target = spg_candidate g\<rparr>) (\<lambda>_. Inr g))"

text \<open>
  The key of a group cursor: one resolved target per prefix. Text is compared bytewise here,
  whatever the collation of the database.
\<close>

fun group_key :: "json list \<Rightarrow> history_columns list res" where
  "group_key (JStr name # JInt revision # JStr digest # rest) =
     rbind (validate_artifact_ref \<lparr>ref_kind = TARGET, ref_name = name, ref_revision = revision,
       ref_digest = Some digest\<rparr>) (\<lambda>_.
     rbind (group_key rest) (\<lambda>ks. Inr ((Some name, Some revision, Some digest) # ks)))"
| "group_key [] = Inr []"
| "group_key _ = Inl (ValueError ''Invalid group cursor'')"

definition target_columns :: "history_columns \<Rightarrow> json list" where
  "target_columns columns = (case columns of (name, revision, digest) \<Rightarrow>
     [optional_string name, case revision of None \<Rightarrow> JNull | Some r \<Rightarrow> JInt r, optional_string digest])"

definition target_of_columns :: "history_columns \<Rightarrow> artifact_ref res" where
  "target_of_columns columns = (case columns of
     (Some name, Some revision, digest) \<Rightarrow> validate_artifact_ref
       \<lparr>ref_kind = TARGET, ref_name = name, ref_revision = revision, ref_digest = digest\<rparr>
   | _ \<Rightarrow> Inl (ValidationError ''reference''))"

definition group_record :: "(artifact_ref list \<Rightarrow> 'a res) \<Rightarrow> history_columns list \<Rightarrow> 'a res" where
  "group_record build columns =
     rcatch is_value_error (\<lambda>_. Inl (CorruptRecordError ''Stored target group is invalid''))
       (rbind (rmap target_of_columns columns) build)"

definition target_group_page ::
    "store_config \<Rightarrow> artifact_ref \<Rightarrow> history_columns list list \<Rightarrow> nat \<Rightarrow> string \<Rightarrow>
     (artifact_ref list \<Rightarrow> 'a res) \<Rightarrow> int \<Rightarrow> string option \<Rightarrow> 'a cursor_page res" where
  "target_group_page env pinned selected width stream build limit cursor =
     rbind (page_limit limit) (\<lambda>n.
     rbind (suite_filters pinned) (\<lambda>fs. let filters = fs @ [(''order'', JStr ''identity-asc'')] in
     rbind (case cursor of None \<Rightarrow> Inr (\<lambda>_. True)
       | Some c \<Rightarrow> rbind (read_cursor env c stream filters) (\<lambda>key.
           rcatch is_value_error (\<lambda>_. Inl invalid_cursor)
             (rbind (checks [(length key \<noteq> 3 * width, ValueError ''Invalid group cursor shape'')]) (\<lambda>_.
              rbind (group_key key) (\<lambda>k. Inr (\<lambda>columns. columns > k)))))) (\<lambda>after.
     finish_page n (group_record build)
       (\<lambda>columns _. encode_cursor (env_jcs env) stream filters (concat (map target_columns columns)))
       (select_rows False after id (n + 1) (remdups selected)))))"

definition list_suite_targets ::
    "store_config \<Rightarrow> db \<Rightarrow> artifact_ref \<Rightarrow> int \<Rightarrow> string option \<Rightarrow> suite_target_group cursor_page res" where
  "list_suite_targets env db pinned limit cursor =
     rbind (suite_filters pinned) (\<lambda>_.
     target_group_page env pinned
       (map (\<lambda>r. [rr_target r]) (filter (\<lambda>r. rr_suite r = pin_columns pinned) (runs_table db))) 1 ''suite-targets''
       (\<lambda>targets. validate_target_group \<lparr>stg_suite = pinned, stg_target = targets ! 0\<rparr>) limit cursor)"

text \<open>The join of the decisions of a suite with their baseline and candidate runs under the same pin.\<close>

definition target_pairs :: "db \<Rightarrow> artifact_ref \<Rightarrow> history_columns list list" where
  "target_pairs db pinned =
     concat (map (\<lambda>d. concat (map (\<lambda>b. map (\<lambda>c. [rr_target b, rr_target c])
         (filter (\<lambda>c. dcr_candidate d = rr_run_id c \<and> rr_suite c = pin_columns pinned) (runs_table db)))
       (filter (\<lambda>b. dcr_baseline d = rr_run_id b \<and> rr_suite b = pin_columns pinned) (runs_table db))))
     (filter (\<lambda>d. dcr_suite d = pin_columns pinned) (release_decisions_table db)))"

definition list_suite_target_pairs ::
    "store_config \<Rightarrow> db \<Rightarrow> artifact_ref \<Rightarrow> int \<Rightarrow> string option \<Rightarrow> suite_target_pair_group cursor_page res" where
  "list_suite_target_pairs env db pinned limit cursor =
     rbind (suite_filters pinned) (\<lambda>_.
     target_group_page env pinned (target_pairs db pinned) 2 ''suite-target-pairs''
       (\<lambda>targets. validate_target_pair_group
          \<lparr>spg_suite = pinned, spg_baseline = targets ! 0, spg_candidate = targets ! 1\<rparr>) limit cursor)"

section \<open>Cases of a decision\<close>

definition item_key :: "gate_case_comparison \<Rightarrow> string \<times> string \<times> string" where
  "item_key item = (gcc_metric item, (case gcc_slice item of None \<Rightarrow> [] | Some s \<Rightarrow> s), gcc_case_id item)"

definition case_filters ::
    "string \<Rightarrow> string option \<Rightarrow> string option \<Rightarrow> string option \<Rightarrow> case_change option \<Rightarrow>
     (string \<times> json) list" where
  "case_filters did metric within_gate case_slice wanted =
     [(''case_slice'', optional_string case_slice),
      (''change'', optional_string (map_option case_change_value wanted)),
      (''decision_id'', JStr did), (''gate_slice'', optional_string within_gate),
      (''metric'', optional_string metric)]"

definition after_case ::
    "store_config \<Rightarrow> (string \<times> json) list \<Rightarrow> string option \<Rightarrow> (string \<times> string \<times> string) option res" where
  "after_case env filters cursor = (case cursor of
     None \<Rightarrow> Inr None
   | Some c \<Rightarrow> rbind (read_cursor env c ''release-decision-cases'' filters) (\<lambda>key. case key of
       [JStr km, JStr ks, JStr kc] \<Rightarrow> Inr (Some (km, ks, kc))
     | _ \<Rightarrow> Inl invalid_cursor))"

definition list_release_decision_cases ::
    "store_config \<Rightarrow> db \<Rightarrow> string \<Rightarrow> int \<Rightarrow> string option \<Rightarrow> string option \<Rightarrow> string option \<Rightarrow> string option \<Rightarrow>
     case_change option \<Rightarrow> gate_case_comparison cursor_page res" where
  "list_release_decision_cases env db did limit cursor metric within_gate case_slice wanted =
     rbind (page_limit limit) (\<lambda>n. let filters = case_filters did metric within_gate case_slice wanted in
     rbind (after_case env filters cursor) (\<lambda>after.
     rbind (get_release_decision env db did) (\<lambda>r.
     let matching = filter (\<lambda>item. matches_filter metric (gcc_metric item) \<and> gcc_slice item = within_gate \<and>
           (case case_slice of None \<Rightarrow> True | Some s \<Rightarrow> s \<in> set (gcc_slices item)) \<and>
           matches_filter wanted (change item) \<and>
           (case after of None \<Rightarrow> True | Some k \<Rightarrow> item_key item > k)) (decision_cases (decision r))
     in finish_page n Inr
          (\<lambda>_ x. case item_key x of (m, s, i) \<Rightarrow>
             encode_cursor (env_jcs env) ''release-decision-cases'' filters [JStr m, JStr s, JStr i])
          matching)))"

end
