(* ===== verification/ServiceListings.thy ===== *)
theory ServiceListings
  imports Listings Service
begin

text \<open>
  The collection reads of the application service (\<open>application/control_plane.py\<close>): one repository
  call each, after the lookup of the suite for the histories, with the service's translation of a
  refused cursor.
\<close>

fun is_store_invalid_cursor_error :: "exn \<Rightarrow> bool" where
  "is_store_invalid_cursor_error (StoreInvalidCursorError _) = True"
| "is_store_invalid_cursor_error _ = False"

abbreviation bad_cursor :: "'a act \<Rightarrow> 'a act" where
  "bad_cursor \<equiv> acatch (translate is_store_invalid_cursor_error (InvalidCursorError ''Pagination cursor is invalid''))"

definition service_list_datasets ::
    "service \<Rightarrow> dialect \<Rightarrow> int \<Rightarrow> string option \<Rightarrow> string option \<Rightarrow> dataset_list_record cursor_page act" where
  "service_list_datasets s st limit cursor name = bad_cursor
     (query (repository s) (\<lambda>db. list_datasets (config_of s) st db limit cursor name))"

definition service_list_suites ::
    "service \<Rightarrow> dialect \<Rightarrow> int \<Rightarrow> string option \<Rightarrow> string option \<Rightarrow> suite_list_record cursor_page act" where
  "service_list_suites s st limit cursor name = bad_cursor
     (query (repository s) (\<lambda>db. list_suites (config_of s) st db limit cursor name))"

definition service_list_jobs ::
    "service \<Rightarrow> dialect \<Rightarrow> int \<Rightarrow> string option \<Rightarrow> job_kind option \<Rightarrow> job_status option \<Rightarrow>
     job_record cursor_page act" where
  "service_list_jobs s st limit cursor kind status = bad_cursor
     (query (repository s) (\<lambda>db. list_jobs (config_of s) st db limit cursor kind status))"

definition service_list_runs ::
    "service \<Rightarrow> dialect \<Rightarrow> int \<Rightarrow> string option \<Rightarrow> string option \<Rightarrow> run_list_record cursor_page act" where
  "service_list_runs s st limit cursor name = bad_cursor
     (query (repository s) (\<lambda>db. list_runs (config_of s) st db limit cursor name))"

definition service_list_release_decisions ::
    "service \<Rightarrow> dialect \<Rightarrow> int \<Rightarrow> string option \<Rightarrow> release_status option \<Rightarrow> list_order \<Rightarrow>
     decision_list_record cursor_page act" where
  "service_list_release_decisions s st limit cursor status order = bad_cursor
     (query (repository s) (\<lambda>db. list_release_decisions (config_of s) st db limit cursor status order))"

text \<open>The suite is looked up first, so an unknown revision is not found whatever the cursor.\<close>

definition within_suite ::
    "service \<Rightarrow> string \<Rightarrow> int \<Rightarrow> (db \<Rightarrow> artifact_ref \<Rightarrow> 'a cursor_page res) \<Rightarrow> 'a cursor_page act" where
  "within_suite s name revision read = abind (service_get_suite s name revision) (\<lambda>r.
     bad_cursor (query (repository s) (\<lambda>db. read db (suite_ref (suite r)))))"

definition service_list_suite_runs ::
    "service \<Rightarrow> dialect \<Rightarrow> string \<Rightarrow> int \<Rightarrow> int \<Rightarrow> string option \<Rightarrow> artifact_ref option \<Rightarrow>
     run_history_record cursor_page act" where
  "service_list_suite_runs s st name revision limit cursor target = within_suite s name revision
     (\<lambda>db ref. list_suite_runs (config_of s) st db ref limit cursor target)"

definition service_list_suite_decisions ::
    "service \<Rightarrow> dialect \<Rightarrow> string \<Rightarrow> int \<Rightarrow> int \<Rightarrow> string option \<Rightarrow> artifact_ref option \<Rightarrow> artifact_ref option \<Rightarrow>
     decision_history_record cursor_page act" where
  "service_list_suite_decisions s st name revision limit cursor baseline candidate =
     within_suite s name revision
       (\<lambda>db ref. list_suite_decisions (config_of s) st db ref limit cursor baseline candidate)"

definition service_list_suite_targets ::
    "service \<Rightarrow> string \<Rightarrow> int \<Rightarrow> int \<Rightarrow> string option \<Rightarrow> suite_target_group cursor_page act" where
  "service_list_suite_targets s name revision limit cursor = within_suite s name revision
     (\<lambda>db ref. list_suite_targets (config_of s) db ref limit cursor)"

definition service_list_suite_target_pairs ::
    "service \<Rightarrow> string \<Rightarrow> int \<Rightarrow> int \<Rightarrow> string option \<Rightarrow> suite_target_pair_group cursor_page act" where
  "service_list_suite_target_pairs s name revision limit cursor = within_suite s name revision
     (\<lambda>db ref. list_suite_target_pairs (config_of s) db ref limit cursor)"

definition service_list_release_decision_cases ::
    "service \<Rightarrow> string \<Rightarrow> int \<Rightarrow> string option \<Rightarrow> string option \<Rightarrow> string option \<Rightarrow> string option \<Rightarrow>
     case_change option \<Rightarrow> gate_case_comparison cursor_page act" where
  "service_list_release_decision_cases s did limit cursor metric within_gate case_slice wanted =
     acatch (\<lambda>e. if is_store_not_found_error e
         then Some (araise (ResourceNotFoundError ''Release decision was not found''))
         else translate is_store_invalid_cursor_error (InvalidCursorError ''Pagination cursor is invalid'') e)
       (query (repository s) (\<lambda>db.
          list_release_decision_cases (config_of s) db did limit cursor metric within_gate case_slice wanted))"

end
