(* ===== verification/ListingFacts.thy ===== *)
theory ListingFacts
  imports ServiceListings
begin

text \<open>
  Keyset pagination. A client that follows the continuation cursors of a listing reads its rows in
  pages, each from the database as it is at that moment; the rows of immutable evidence are only
  ever added to. The locale is the contract of one page; what a walk reads is proved from it once.
\<close>

section \<open>Walks\<close>

text \<open>The requests of a client, one per database it finds, until a page carries no cursor.\<close>

fun follow ::
    "('d \<Rightarrow> string option \<Rightarrow> 'a cursor_page res) \<Rightarrow> 'd list \<Rightarrow> string option \<Rightarrow> ('a list \<times> bool) res" where
  "follow page [] cursor = Inr ([], False)"
| "follow page (d # ds) cursor = rbind (page d cursor) (\<lambda>p. case next_cursor p of
     None \<Rightarrow> Inr (page_items p, True)
   | Some c \<Rightarrow> rbind (follow page ds (Some c)) (\<lambda>(xs, finished). Inr (page_items p @ xs, finished)))"

definition page_of :: "nat \<Rightarrow> ('r \<Rightarrow> 'a) \<Rightarrow> ('r \<Rightarrow> string) \<Rightarrow> 'r list \<Rightarrow> 'a cursor_page" where
  "page_of n item cursor rows = \<lparr>page_items = map item (take n rows),
     next_cursor = (if n < length rows then Some (cursor (rows ! (n - 1))) else None)\<rparr>"

locale keyset_listing =
  fixes page :: "'d \<Rightarrow> string option \<Rightarrow> 'a cursor_page res"
    and listed :: "'d \<Rightarrow> 'r list"
    and before :: "'r \<Rightarrow> 'r \<Rightarrow> bool"
    and item :: "'r \<Rightarrow> 'a"
    and cursor :: "'r \<Rightarrow> string"
    and extra :: nat
    and good :: "'d \<Rightarrow> bool"
  assumes before_trans: "before x y \<Longrightarrow> before y z \<Longrightarrow> before x z"
    and before_irrefl: "\<not> before x x"
    and ordered: "good d \<Longrightarrow> sorted_wrt before (listed d)"
    and first_page: "good d \<Longrightarrow> page d None = Inr (page_of (Suc extra) item cursor (listed d))"
    and next_page: "good d \<Longrightarrow> good d' \<Longrightarrow> r \<in> set (listed d') \<Longrightarrow>
      page d (Some (cursor r)) = Inr (page_of (Suc extra) item cursor (filter (before r) (listed d)))"
begin

lemma sorted_distinct: "sorted_wrt before rs \<Longrightarrow> distinct rs"
  by (induction rs) (auto simp: before_irrefl)

text \<open>The rows after a row in the walk: all of them at first.\<close>

definition past :: "'r option \<Rightarrow> 'r \<Rightarrow> bool" where
  "past r x = (case r of None \<Rightarrow> True | Some y \<Rightarrow> before y x)"

definition remaining :: "'r option \<Rightarrow> 'd \<Rightarrow> 'r list" where
  "remaining r d = filter (past r) (listed d)"

lemma remaining_ordered: "good d \<Longrightarrow> sorted_wrt before (remaining r d)"
  by (simp add: remaining_def sorted_wrt_filter ordered)

text \<open>A page and what is left after it.\<close>

lemma page_remaining:
  assumes "good d" "case r of None \<Rightarrow> True | Some x \<Rightarrow> \<exists>d'. good d' \<and> x \<in> set (listed d')"
  shows "page d (map_option cursor r) = Inr (page_of (Suc extra) item cursor (remaining r d))"
proof (cases r)
  case None
  have "past None = (\<lambda>_. True)" by (simp add: fun_eq_iff past_def)
  then show ?thesis using assms(1) None by (simp add: first_page remaining_def)
next
  case (Some x)
  have "past (Some x) = before x" by (simp add: fun_eq_iff past_def)
  with assms Some show ?thesis by (auto simp: next_page remaining_def)
qed

lemma split_at:
  assumes "good d" "extra < length (remaining r d)"
  defines "x \<equiv> remaining r d ! extra"
  shows "x \<in> set (listed d)" "past r x" "y \<in> set (take (Suc extra) (remaining r d)) \<Longrightarrow> y = x \<or> before y x"
    "drop (Suc extra) (remaining r d) = remaining (Some x) d"
proof -
  let ?rs = "remaining r d"
  have mem: "x \<in> set ?rs" using assms(2) by (simp add: x_def)
  then show "x \<in> set (listed d)" "past r x" by (simp_all add: remaining_def)
  have split: "?rs = take extra ?rs @ x # drop (Suc extra) ?rs"
    using assms(2) by (simp add: x_def id_take_nth_drop)
  have sorted: "sorted_wrt before (take extra ?rs @ x # drop (Suc extra) ?rs)"
    using remaining_ordered[OF assms(1), of r] split by simp
  have head: "\<forall>y \<in> set (take extra ?rs). before y x" and tail: "\<forall>y \<in> set (drop (Suc extra) ?rs). before x y"
    using sorted by (auto simp: sorted_wrt_append)
  show "y = x \<or> before y x" if "y \<in> set (take (Suc extra) ?rs)"
    using that head assms(2) by (auto simp: take_Suc_conv_app_nth x_def)
  have "filter (before x) ?rs = drop (Suc extra) ?rs"
  proof -
    have "filter (before x) (take extra ?rs) = []"
      unfolding filter_empty_conv using head before_trans before_irrefl by blast
    moreover have "filter (before x) (drop (Suc extra) ?rs) = drop (Suc extra) ?rs"
      using tail by (simp add: filter_id_conv)
    ultimately show ?thesis by (subst (1) split) (simp add: before_irrefl)
  qed
  moreover have "filter (before x) ?rs = remaining (Some x) d"
    using \<open>past r x\<close> before_trans
    by (auto simp: remaining_def past_def intro!: filter_cong split: option.splits)
  ultimately show "drop (Suc extra) ?rs = remaining (Some x) d" by simp
qed

text \<open>
  While rows are only added, a walk never fails, reads rows in order and none twice, and once it
  ends it has read every row that was there when it began.
\<close>

lemma walk_from:
  assumes "ds \<noteq> []" "\<forall>d \<in> set ds. good d"
    "successively (\<lambda>d d'. set (listed d) \<subseteq> set (listed d')) ds"
    "case r of None \<Rightarrow> True | Some x \<Rightarrow> \<exists>d'. good d' \<and> x \<in> set (listed d')"
  shows "\<exists>rs finished. follow page ds (map_option cursor r) = Inr (map item rs, finished) \<and>
    sorted_wrt before rs \<and> (\<forall>x \<in> set rs. past r x) \<and> set rs \<subseteq> set (listed (last ds)) \<and>
    (finished \<longrightarrow> set (remaining r (hd ds)) \<subseteq> set rs)"
  using assms
proof (induction ds arbitrary: r)
  case (Cons d ds)
  let ?rs = "remaining r d"
  have good: "good d" and page: "page d (map_option cursor r) = Inr (page_of (Suc extra) item cursor ?rs)"
    using Cons.prems page_remaining by auto
  have mono: "set (listed d) \<subseteq> set (listed (last (d # ds)))"
    using Cons.prems(3)
  proof (induction ds arbitrary: d)
    case (Cons e es)
    then have "set (listed d) \<subseteq> set (listed e)" "set (listed e) \<subseteq> set (listed (last (e # es)))" by simp_all
    then show ?case by simp
  qed simp
  show ?case
  proof (cases "extra < length ?rs \<and> Suc extra < length ?rs")
    case False
    then have len: "length ?rs \<le> Suc extra" by linarith
    have "set ?rs \<subseteq> set (listed d)" by (auto simp: remaining_def)
    moreover have "\<forall>x \<in> set ?rs. past r x" by (simp add: remaining_def)
    moreover have "follow page (d # ds) (map_option cursor r) = Inr (map item ?rs, True)"
      using len page by (simp add: page_of_def)
    ultimately show ?thesis using remaining_ordered[OF good, of r] mono by fastforce
  next
    case True
    let ?x = "?rs ! extra"
    note split = split_at[OF good conjunct1[OF True]]
    have step: "follow page (d # ds) (map_option cursor r) =
        rbind (follow page ds (map_option cursor (Some ?x)))
          (\<lambda>(xs, finished). Inr (map item (take (Suc extra) ?rs) @ xs, finished))"
      using True page by (simp add: page_of_def cong del: rbind_weak_cong)
    have sorted: "sorted_wrt before (take (Suc extra) ?rs)"
      using remaining_ordered[OF good, of r] by (rule sorted_wrt_take)
    have taken: "set (take (Suc extra) ?rs) \<subseteq> set (listed d)" "\<forall>y \<in> set (take (Suc extra) ?rs). past r y"
      using set_take_subset[of "Suc extra" ?rs] by (auto simp: remaining_def)
    show ?thesis
    proof (cases ds)
      case Nil
      then have "follow page (d # ds) (map_option cursor r) = Inr (map item (take (Suc extra) ?rs), False)"
        using step by simp
      then show ?thesis using sorted taken Nil by auto
    next
      case (Cons e es)
      obtain rs finished where ih: "follow page ds (map_option cursor (Some ?x)) = Inr (map item rs, finished)"
          "sorted_wrt before rs" "\<forall>y \<in> set rs. before ?x y" "set rs \<subseteq> set (listed (last ds))"
          "finished \<longrightarrow> set (remaining (Some ?x) e) \<subseteq> set rs"
      proof -
        have "\<exists>d'. good d' \<and> ?x \<in> set (listed d')" using good split(1) by blast
        then have "\<exists>rs finished. follow page ds (map_option cursor (Some ?x)) = Inr (map item rs, finished) \<and>
            sorted_wrt before rs \<and> (\<forall>y \<in> set rs. past (Some ?x) y) \<and> set rs \<subseteq> set (listed (last ds)) \<and>
            (finished \<longrightarrow> set (remaining (Some ?x) (hd ds)) \<subseteq> set rs)"
          using Cons.prems Cons by (intro Cons.IH) simp_all
        moreover have "past (Some ?x) y \<longleftrightarrow> before ?x y" "hd ds = e" for y
          using Cons by (simp_all add: past_def)
        ultimately show thesis using that by metis
      qed
      have grows: "set (listed d) \<subseteq> set (listed e)" using Cons.prems(3) Cons by simp
      have all: "set (remaining (Some ?x) d) \<subseteq> set (remaining (Some ?x) e)"
        using grows by (auto simp: remaining_def)
      let ?all = "take (Suc extra) ?rs @ rs"
      have "follow page (d # ds) (map_option cursor r) = Inr (map item ?all, finished)"
        using step ih(1) by simp
      moreover have "sorted_wrt before ?all"
        using sorted ih(2,3) split(3) before_trans by (fastforce simp: sorted_wrt_append)
      moreover have "\<forall>y \<in> set ?all. past r y"
        using taken(2) ih(3) split(2) before_trans by (auto simp: past_def split: option.splits)
      moreover have "set ?all \<subseteq> set (listed (last (d # ds)))"
        using taken(1) mono ih(4) Cons by auto
      moreover have "set ?rs = set (take (Suc extra) ?rs) \<union> set (remaining (Some ?x) d)"
        using split(4) by (metis append_take_drop_id set_append)
      then have "finished \<longrightarrow> set ?rs \<subseteq> set ?all" using ih(5) all by auto
      ultimately show ?thesis by (intro exI[of _ ?all] exI[of _ finished]) simp
    qed
  qed
qed simp

lemma walk:
  assumes "ds \<noteq> []" "\<forall>d \<in> set ds. good d"
    "successively (\<lambda>d d'. set (listed d) \<subseteq> set (listed d')) ds"
  shows "\<exists>rs finished. follow page ds None = Inr (map item rs, finished) \<and>
    sorted_wrt before rs \<and> distinct rs \<and> set rs \<subseteq> set (listed (last ds)) \<and>
    (finished \<longrightarrow> set (listed (hd ds)) \<subseteq> set rs)"
proof -
  have "remaining None d = listed d" for d by (simp add: remaining_def past_def)
  then show ?thesis using walk_from[OF assms, of None] sorted_distinct by fastforce
qed

text \<open>On one database a walk of enough requests ends with the whole listing.\<close>

lemma walk_frozen_from:
  assumes "good d" "length (remaining r d) \<le> m * Suc extra" "0 < m"
    "case r of None \<Rightarrow> True | Some x \<Rightarrow> x \<in> set (listed d)"
  shows "follow page (replicate m d) (map_option cursor r) = Inr (map item (remaining r d), True)"
  using assms(2-4)
proof (induction m arbitrary: r)
  case (Suc m)
  let ?rs = "remaining r d"
  have page: "page d (map_option cursor r) = Inr (page_of (Suc extra) item cursor ?rs)"
    using assms(1) Suc.prems(3) by (intro page_remaining) (auto split: option.splits)
  show ?case
  proof (cases "Suc extra < length ?rs")
    case False
    then show ?thesis using page by (simp add: page_of_def)
  next
    case True
    let ?x = "?rs ! extra"
    have split: "?x \<in> set (listed d)" "drop (Suc extra) ?rs = remaining (Some ?x) d"
      using split_at[OF assms(1), of r] True by simp_all
    have "length (remaining (Some ?x) d) \<le> m * Suc extra" "0 < m"
      using Suc.prems(1) True by (simp_all flip: split(2)) (cases m, simp_all)
    then have "follow page (replicate m d) (map_option cursor (Some ?x)) =
        Inr (map item (drop (Suc extra) ?rs), True)"
      using Suc.IH[of "Some ?x"] split by simp
    then show ?thesis using True page
      by (simp add: page_of_def flip: map_append)
  qed
qed simp

lemma walk_frozen:
  assumes "good d" "length (listed d) \<le> m * Suc extra" "0 < m"
  shows "follow page (replicate m d) None = Inr (map item (listed d), True)"
proof -
  have "remaining None d = listed d" by (simp add: remaining_def past_def)
  then show ?thesis using walk_frozen_from[of d None m] assms by simp
qed

end

section \<open>Pages of ordered rows\<close>

definition ordered_rows :: "bool \<Rightarrow> ('r \<Rightarrow> 'k::linorder) \<Rightarrow> ('r \<Rightarrow> bool) \<Rightarrow> 'r list \<Rightarrow> 'r list" where
  "ordered_rows descending key sel rows =
     (let sorted = sort_key key (filter sel rows) in if descending then rev sorted else sorted)"

definition ahead :: "bool \<Rightarrow> ('r \<Rightarrow> 'k::linorder) \<Rightarrow> 'r \<Rightarrow> 'r \<Rightarrow> bool" where
  "ahead descending key x y = (if descending then key y < key x else key x < key y)"

definition value_of :: "'a res \<Rightarrow> 'a" where
  "value_of m = (case m of Inr x \<Rightarrow> x | Inl _ \<Rightarrow> undefined)"

definition cursor_fits :: "string res \<Rightarrow> bool" where
  "cursor_fits m \<longleftrightarrow> (case m of Inl _ \<Rightarrow> False | Inr c \<Rightarrow> 1 \<le> length c \<and> length c \<le> 2048)"

lemma value_of_simps [simp]: "value_of (Inr x) = x"
  by (simp add: value_of_def)

lemma is_ok_value_of: "is_ok m \<Longrightarrow> m = Inr (value_of m)"
  by (cases m) simp_all

lemma cursor_fits_iff: "cursor_fits m \<longleftrightarrow> (\<exists>c. m = Inr c \<and> 1 \<le> length c \<and> length c \<le> 2048)"
  by (auto simp: cursor_fits_def split: sum.splits)

lemma cursor_fits_value: "cursor_fits m \<Longrightarrow> m = Inr (value_of m)"
  by (auto simp: cursor_fits_iff)

lemma rmap_value_of: "\<forall>x \<in> set xs. is_ok (f x) \<Longrightarrow> rmap f xs = Inr (map (\<lambda>x. value_of (f x)) xs)"
proof (induction xs)
  case (Cons x xs)
  then have "f x = Inr (value_of (f x))" by (intro is_ok_value_of) simp
  with Cons show ?case by (metis list.set_intros(2) list.simps(9) rbind_simps(2) rmap.simps(2))
qed simp

lemma rmap_all_Inr: "\<forall>x \<in> set xs. f x = Inr (g x) \<Longrightarrow> rmap f xs = Inr (map g xs)"
  by (induction xs) simp_all

lemma set_ordered_rows [simp]: "set (ordered_rows descending key sel rows) = {r \<in> set rows. sel r}"
  by (auto simp: ordered_rows_def Let_def)

lemma length_ordered_rows [simp]: "length (ordered_rows descending key sel rows) = length (filter sel rows)"
  by (simp add: ordered_rows_def Let_def)

lemma ordered_rows_ahead:
  assumes "distinct (map key (filter sel rows))"
  shows "sorted_wrt (ahead descending key) (ordered_rows descending key sel rows)"
proof -
  let ?xs = "sort_key key (filter sel rows)"
  have "mset (map key ?xs) = mset (map key (filter sel rows))" by simp
  then have "distinct (map key ?xs)" using assms mset_eq_imp_distinct_iff by blast
  then have "sorted_wrt (<) (map key ?xs)" by (simp add: strict_sorted_iff)
  then have "sorted_wrt (\<lambda>x y. key x < key y) ?xs" by (simp add: sorted_wrt_map)
  then show ?thesis by (cases descending) (simp_all add: ordered_rows_def ahead_def[abs_def] sorted_wrt_rev)
qed

lemma select_rows_eq:
  "select_rows descending (\<lambda>r. sel r \<and> aft r) key n rows =
   take n (filter aft (ordered_rows descending key sel rows))"
proof -
  have "filter (\<lambda>r. sel r \<and> aft r) rows = filter aft (filter sel rows)"
    by (simp add: conj_commute)
  then show ?thesis
    by (simp add: select_rows_def ordered_rows_def Let_def filter_sort rev_filter[symmetric])
qed

lemma finish_page_eq:
  assumes "0 < n" and "\<forall>r \<in> set xs. record_of r = Inr (item r) \<and> cursor_after r (item r) = m r \<and> cursor_fits (m r)"
  shows "finish_page n record_of cursor_after (take (n + 1) xs) = Inr (page_of n item (\<lambda>r. value_of (m r)) xs)"
proof -
  have "take n (take (n + 1) xs) = take n xs" by simp
  moreover have "\<forall>r \<in> set (take n xs). record_of r = Inr (item r)"
    using assms(2) by (meson in_set_takeD)
  then have "rmap record_of (take n xs) = Inr (map item (take n xs))" by (rule rmap_all_Inr)
  moreover have "cursor_after (take (n + 1) xs ! (n - 1)) (last (map item (take n xs))) = Inr (value_of (m (xs ! (n - 1))))"
      "cursor_fits (m (xs ! (n - 1)))" if "n < length xs"
  proof -
    have "xs ! (n - 1) \<in> set xs" using that by simp
    moreover have "last (map item (take n xs)) = item (xs ! (n - 1))"
      using that assms(1) by (cases xs) (simp_all add: last_map last_conv_nth)
    ultimately show "cursor_after (take (n + 1) xs ! (n - 1)) (last (map item (take n xs))) = Inr (value_of (m (xs ! (n - 1))))"
        "cursor_fits (m (xs ! (n - 1)))"
      using assms cursor_fits_value[of "m (xs ! (n - 1))"] by simp_all
  qed
  moreover have "n < length (take (n + 1) xs) \<longleftrightarrow> n < length xs" by auto
  ultimately show ?thesis
    by (auto simp: finish_page_def page_of_def cursor_page_def cursor_fits_iff)
qed

text \<open>A page whose keyset condition is the order of its rows satisfies the contract.\<close>

lemma keyset_listingI:
  fixes key :: "'r \<Rightarrow> 'k::linorder"
  assumes page: "\<And>d c. good d \<Longrightarrow> page d c = rbind (keyset c) (\<lambda>aft. finish_page (Suc extra) record_of cursor_after
      (select_rows descending (\<lambda>r. sel r \<and> aft r) key (Suc extra + 1) (rows d)))"
    and none: "keyset None = Inr (\<lambda>_. True)"
    and some: "\<And>d r. good d \<Longrightarrow> r \<in> set (rows d) \<Longrightarrow> sel r \<Longrightarrow>
      keyset (Some (value_of (m r))) = Inr (ahead descending key r)"
    and unique: "\<And>d. good d \<Longrightarrow> distinct (map key (filter sel (rows d)))"
    and row: "\<And>d r. good d \<Longrightarrow> r \<in> set (rows d) \<Longrightarrow> sel r \<Longrightarrow>
      record_of r = Inr (item r) \<and> cursor_after r (item r) = m r \<and> cursor_fits (m r)"
  shows "keyset_listing page (\<lambda>d. ordered_rows descending key sel (rows d)) (ahead descending key) item
    (\<lambda>r. value_of (m r)) extra good"
proof
  show "ahead descending key x z" if "ahead descending key x y" "ahead descending key y z" for x y z
    using that by (auto simp: ahead_def split: if_splits)
  show "\<not> ahead descending key x x" for x by (simp add: ahead_def)
  show "sorted_wrt (ahead descending key) (ordered_rows descending key sel (rows d))" if "good d" for d
    by (rule ordered_rows_ahead[OF unique[OF that]])
  have finish: "finish_page (Suc extra) record_of cursor_after
      (take (Suc extra + 1) (filter aft (ordered_rows descending key sel (rows d)))) =
      Inr (page_of (Suc extra) item (\<lambda>r. value_of (m r)) (filter aft (ordered_rows descending key sel (rows d))))"
    if "good d" for d aft
    by (rule finish_page_eq) (use row[OF that] in auto)
  show "page d None = Inr (page_of (Suc extra) item (\<lambda>r. value_of (m r)) (ordered_rows descending key sel (rows d)))"
    if "good d" for d
    using finish[OF that, of "\<lambda>_. True"] by (simp only: page[OF that] none rbind_simps select_rows_eq filter_True) simp
  show "page d (Some (value_of (m r))) = Inr (page_of (Suc extra) item (\<lambda>r. value_of (m r))
      (filter (ahead descending key r) (ordered_rows descending key sel (rows d))))"
    if "good d" "good d'" "r \<in> set (ordered_rows descending key sel (rows d'))" for d d' r
    using finish[OF that(1), of "ahead descending key r"] some[OF that(2), of r] that(3)
    by (simp add: page[OF that(1)] select_rows_eq)
qed

end
