(* ===== verification/ListingContract.thy ===== *)
theory ListingContract
  imports ListingFacts
begin

text \<open>
  The listings of the store satisfy the keyset contract: \<open>listable\<close> says what a table must hold for
  it (a primary key, rows that are instances of their list model, timestamps and cursors in range),
  and each listing is interpreted on the model's own definition.
\<close>

definition listable ::
    "store_config \<Rightarrow> dialect \<Rightarrow> ('r \<Rightarrow> 'k) \<Rightarrow> ('r \<Rightarrow> 'a res) \<Rightarrow> ('r \<Rightarrow> instant) \<Rightarrow> ('r \<Rightarrow> string res) \<Rightarrow>
     'r list \<Rightarrow> bool" where
  "listable env st key record_of created cursor rows \<longleftrightarrow>
     json_text (env_jcs env) (env_parse env) \<and> inj (collate st) \<and> distinct (map key rows) \<and>
     (\<forall>r \<in> set rows. is_ok (record_of r) \<and> representable (created r) \<and> cursor_fits (cursor r))"

lemma listableD:
  assumes "listable env st key record_of created cursor rows"
  shows "json_text (env_jcs env) (env_parse env)" "inj (collate st)" "distinct (map key rows)"
    "r \<in> set rows \<Longrightarrow> is_ok (record_of r)" "r \<in> set rows \<Longrightarrow> representable (created r)"
    "r \<in> set rows \<Longrightarrow> cursor_fits (cursor r)"
  using assms by (simp_all add: listable_def)

lemma distinct_finer:
  "distinct (map key xs) \<Longrightarrow> (\<And>x y. key' x = key' y \<Longrightarrow> key x = key y) \<Longrightarrow> distinct (map key' xs)"
  unfolding distinct_map inj_on_def by blast

section \<open>Cursors of creation time and name or identity\<close>

lemma read_cursor_issued:
  assumes "json_text (env_jcs env) (env_parse env)" "cursor_fits (encode_cursor (env_jcs env) stream filters key)"
    "scalar_dict filters" "list_all scalar key"
  shows "read_cursor env (value_of (encode_cursor (env_jcs env) stream filters key)) stream filters = Inr key"
proof -
  obtain c where "encode_cursor (env_jcs env) stream filters key = Inr c" "length c \<le> 2048"
    using assms(2) by (auto simp: cursor_fits_iff)
  then show ?thesis using cursor_readback[OF assms(1) _ _ assms(3,4,3)] by simp
qed

definition revision_key :: "dialect \<Rightarrow> ('r \<Rightarrow> instant) \<Rightarrow> ('r \<Rightarrow> string) \<Rightarrow> ('r \<Rightarrow> int) \<Rightarrow> 'r \<Rightarrow> instant \<times> string \<times> int" where
  "revision_key st created name revision r = (created r, collate st (name r), revision r)"

definition identity_key :: "dialect \<Rightarrow> ('r \<Rightarrow> instant) \<Rightarrow> ('r \<Rightarrow> string) \<Rightarrow> 'r \<Rightarrow> instant \<times> string" where
  "identity_key st created identity r = (created r, collate st (identity r))"

definition revision_cursor ::
    "store_config \<Rightarrow> string \<Rightarrow> (string \<times> json) list \<Rightarrow> ('r \<Rightarrow> instant) \<Rightarrow> ('r \<Rightarrow> string) \<Rightarrow> ('r \<Rightarrow> int) \<Rightarrow> 'r \<Rightarrow>
     string res" where
  "revision_cursor env stream filters created name revision r = encode_cursor (env_jcs env) stream filters
     [cursor_time (created r), JStr (name r), JInt (revision r)]"

lemma after_revision_issued:
  assumes "json_text (env_jcs env) (env_parse env)" "inj (collate st)" "scalar_dict filters"
    "representable (created r)" "cursor_fits (revision_cursor env stream filters created name revision r)"
  shows "\<exists>aft. after_revision env st stream filters
      (Some (value_of (revision_cursor env stream filters created name revision r))) = Inr aft \<and>
    (\<forall>x. aft (created x) (name x) (revision x) \<longleftrightarrow> ahead False (revision_key st created name revision) r x)"
proof -
  have "read_cursor env (value_of (revision_cursor env stream filters created name revision r)) stream filters =
      Inr [cursor_time (created r), JStr (name r), JInt (revision r)]"
    using assms unfolding revision_cursor_def by (intro read_cursor_issued) (simp_all add: cursor_time_def)
  then have "after_revision env st stream filters
      (Some (value_of (revision_cursor env stream filters created name revision r))) =
    Inr (\<lambda>t n i. t > created r \<or> (t = created r \<and> collate st n > collate st (name r)) \<or>
      (t = created r \<and> n = name r \<and> i > revision r))"
    using assms(4) by (simp add: after_revision_def cursor_time_readback)
  moreover have "collate st (name r) = collate st (name x) \<longleftrightarrow> name x = name r" for x
    using inj_eq[OF assms(2)] by metis
  then have "(created x > created r \<or> (created x = created r \<and> collate st (name x) > collate st (name r)) \<or>
      (created x = created r \<and> name x = name r \<and> revision x > revision r)) \<longleftrightarrow>
    ahead False (revision_key st created name revision) r x" for x
    unfolding ahead_def revision_key_def less_prod_def' by (simp, metis)
  ultimately show ?thesis by blast
qed

lemma after_identity_issued:
  assumes "json_text (env_jcs env) (env_parse env)" "scalar_dict filters"
    "representable (created r)" "cursor_fits (identity_cursor env stream filters (created r) (identity r))"
  shows "\<exists>aft. after_identity env st descending stream filters
      (Some (value_of (identity_cursor env stream filters (created r) (identity r)))) = Inr aft \<and>
    (\<forall>x. aft (created x) (identity x) \<longleftrightarrow> ahead descending (identity_key st created identity) r x)"
proof -
  have "read_cursor env (value_of (identity_cursor env stream filters (created r) (identity r))) stream filters =
      Inr [cursor_time (created r), JStr (identity r)]"
    using assms unfolding identity_cursor_def by (intro read_cursor_issued) (simp_all add: cursor_time_def)
  then show ?thesis
    using assms(3) by (auto simp: after_identity_def cursor_time_readback ahead_def identity_key_def)
qed

lemma revision_listing:
  fixes rows :: "'d \<Rightarrow> 'r list"
  assumes page: "\<And>d c. good d \<Longrightarrow> page d c = rbind (after_revision env st stream filters c) (\<lambda>aft.
      finish_page (Suc extra) record_of cursor_after
        (select_rows False (\<lambda>r. sel r \<and> aft (created r) (name r) (revision r))
          (revision_key st created name revision) (Suc extra + 1) (rows d)))"
    and good: "\<And>d. good d \<Longrightarrow> listable env st (\<lambda>r. (name r, revision r)) record_of created
      (revision_cursor env stream filters created name revision) (filter sel (rows d))"
    and filters: "scalar_dict filters"
    and same: "\<And>r x. record_of r = Inr x \<Longrightarrow>
      cursor_after r x = revision_cursor env stream filters created name revision r"
  shows "keyset_listing page (\<lambda>d. ordered_rows False (revision_key st created name revision) sel (rows d))
    (ahead False (revision_key st created name revision)) (\<lambda>r. value_of (record_of r))
    (\<lambda>r. value_of (revision_cursor env stream filters created name revision r)) extra good"
proof (rule keyset_listingI)
  let ?keyset = "\<lambda>c. rbind (after_revision env st stream filters c)
    (\<lambda>aft. Inr (\<lambda>r. aft (created r) (name r) (revision r)))"
  show "page d c = rbind (?keyset c) (\<lambda>aft. finish_page (Suc extra) record_of cursor_after
      (select_rows False (\<lambda>r. sel r \<and> aft r) (revision_key st created name revision) (Suc extra + 1) (rows d)))"
    if "good d" for d c
    by (simp add: page[OF that] rbind_assoc cong del: rbind_weak_cong)
  show "?keyset None = Inr (\<lambda>_. True)" by (simp add: after_revision_def)
  fix d assume d: "good d"
  note law = listableD[OF good[OF d]]
  show "distinct (map (revision_key st created name revision) (filter sel (rows d)))"
    using law(3) by (rule distinct_finer) (auto simp: revision_key_def dest: injD[OF law(2)])
  fix r assume r: "r \<in> set (rows d)" "sel r"
  then show "?keyset (Some (value_of (revision_cursor env stream filters created name revision r))) =
      Inr (ahead False (revision_key st created name revision) r)"
    using after_revision_issued[OF law(1,2) filters law(5,6), of r] by (auto simp: fun_eq_iff)
  show "record_of r = Inr (value_of (record_of r)) \<and>
      cursor_after r (value_of (record_of r)) = revision_cursor env stream filters created name revision r \<and>
      cursor_fits (revision_cursor env stream filters created name revision r)"
    using law(4,6)[of r] r same is_ok_value_of[of "record_of r"] by simp
qed

lemma identity_listing:
  fixes rows :: "'d \<Rightarrow> 'r list"
  assumes page: "\<And>d c. good d \<Longrightarrow> page d c = rbind (after_identity env st descending stream filters c) (\<lambda>aft.
      finish_page (Suc extra) record_of cursor_after
        (select_rows descending (\<lambda>r. sel r \<and> aft (created r) (identity r))
          (identity_key st created identity) (Suc extra + 1) (rows d)))"
    and good: "\<And>d. good d \<Longrightarrow> listable env st identity record_of created
      (\<lambda>r. identity_cursor env stream filters (created r) (identity r)) (filter sel (rows d))"
    and filters: "\<And>d. good d \<Longrightarrow> scalar_dict filters"
    and same: "\<And>r x. record_of r = Inr x \<Longrightarrow>
      cursor_after r x = identity_cursor env stream filters (created r) (identity r)"
  shows "keyset_listing page (\<lambda>d. ordered_rows descending (identity_key st created identity) sel (rows d))
    (ahead descending (identity_key st created identity)) (\<lambda>r. value_of (record_of r))
    (\<lambda>r. value_of (identity_cursor env stream filters (created r) (identity r))) extra good"
proof (rule keyset_listingI)
  let ?keyset = "\<lambda>c. rbind (after_identity env st descending stream filters c)
    (\<lambda>aft. Inr (\<lambda>r. aft (created r) (identity r)))"
  show "page d c = rbind (?keyset c) (\<lambda>aft. finish_page (Suc extra) record_of cursor_after
      (select_rows descending (\<lambda>r. sel r \<and> aft r) (identity_key st created identity) (Suc extra + 1) (rows d)))"
    if "good d" for d c
    by (simp add: page[OF that] rbind_assoc cong del: rbind_weak_cong)
  show "?keyset None = Inr (\<lambda>_. True)" by (simp add: after_identity_def)
  fix d assume d: "good d"
  note law = listableD[OF good[OF d]]
  show "distinct (map (identity_key st created identity) (filter sel (rows d)))"
    using law(3) by (rule distinct_finer) (auto simp: identity_key_def dest: injD[OF law(2)])
  fix r assume r: "r \<in> set (rows d)" "sel r"
  then show "?keyset (Some (value_of (identity_cursor env stream filters (created r) (identity r)))) =
      Inr (ahead descending (identity_key st created identity) r)"
    using after_identity_issued[where st = st and descending = descending and created = created 
      and identity = identity and r = r, OF law(1) filters[OF d] law(5,6)] by (auto simp: fun_eq_iff)
  show "record_of r = Inr (value_of (record_of r)) \<and>
      cursor_after r (value_of (record_of r)) = identity_cursor env stream filters (created r) (identity r) \<and>
      cursor_fits (identity_cursor env stream filters (created r) (identity r))"
    using law(4,6)[of r] r same is_ok_value_of[of "record_of r"] by simp
qed

section \<open>The tables\<close>

lemma scalar_dict_filters:
  "scalar_dict (name_filters ''name'' name)" "scalar_dict (name_filters ''dataset_name'' name)"
  "scalar_dict (job_filters kind status)" "scalar_dict (decision_filters wanted order)"
  "scalar_dict (case_filters did metric within_gate case_slice changed)"
  by (auto simp: scalar_dict_def name_filters_def job_filters_def decision_filters_def case_filters_def
      optional_string_def split: option.split)

lemma page_limit_Suc: "extra < 100 \<Longrightarrow> page_limit (int (Suc extra)) = Inr (Suc extra)"
  by (simp add: page_limit_def del: of_nat_Suc)

lemma projection_Inr: "projection message cs x = Inr y \<Longrightarrow> y = x"
  by (auto simp: projection_def rcatch_def result_simps split: sum.splits if_splits)

lemma list_record_fields:
  "dataset_list_record_of d = Inr x \<Longrightarrow>
     dl_created_at x = dr_created_at d \<and> dl_name x = dr_name d \<and> dl_revision x = dr_revision d"
  "suite_list_record_of s = Inr y \<Longrightarrow>
     sl_created_at y = sr_created_at s \<and> sl_name y = sr_name s \<and> sl_revision y = sr_revision s"
  "job_record_of j = Inr u \<Longrightarrow> u = row_job j"
  "run_list_record_of r = Inr v \<Longrightarrow> rl_created_at v = rr_created_at r \<and> rl_run_id v = rr_run_id r"
  "decision_list_record_of c = Inr w \<Longrightarrow>
     cl_created_at w = dcr_created_at c \<and> cl_decision_id w = dcr_decision_id c"
  by (auto simp: dataset_list_record_of_def suite_list_record_of_def run_list_record_of_def
      decision_list_record_of_def run_projection_def decision_projection_def result_simps
      dest!: projection_Inr)

text \<open>
  What a walk over the pages of a listing reads: rows of the table under the filter, in the order of
  the listing and none twice; every such row that was there at the first request, once it ends.
\<close>

definition lists_once ::
    "('d \<Rightarrow> string option \<Rightarrow> 'a cursor_page res) \<Rightarrow> ('r \<Rightarrow> 'a res) \<Rightarrow> ('r \<Rightarrow> bool) \<Rightarrow> ('r \<Rightarrow> 'r \<Rightarrow> bool) \<Rightarrow>
     ('d \<Rightarrow> 'r list) \<Rightarrow> 'd list \<Rightarrow> bool" where
  "lists_once page record_of sel before rows ds \<longleftrightarrow> (\<exists>rs items finished.
     follow page ds None = Inr (items, finished) \<and> rmap record_of rs = Inr items \<and>
     sorted_wrt before rs \<and> distinct rs \<and> set rs \<subseteq> {r \<in> set (rows (last ds)). sel r} \<and>
     (finished \<longrightarrow> {r \<in> set (rows (hd ds)). sel r} \<subseteq> set rs))"

lemma lists_onceI:
  assumes "\<exists>rs finished. follow page ds None = Inr (map (\<lambda>r. value_of (record_of r)) rs, finished) \<and>
      sorted_wrt before rs \<and> distinct rs \<and> set rs \<subseteq> set (ordered_rows descending key sel (rows (last ds))) \<and>
      (finished \<longrightarrow> set (ordered_rows descending key sel (rows (hd ds))) \<subseteq> set rs)"
    and "listable env st key' record_of created cursor (filter sel (rows (last ds)))"
  shows "lists_once page record_of sel before rows ds"
proof -
  from assms(1) obtain rs finished where
    rs: "follow page ds None = Inr (map (\<lambda>r. value_of (record_of r)) rs, finished)"
      "sorted_wrt before rs" "distinct rs" "set rs \<subseteq> {r \<in> set (rows (last ds)). sel r}"
      "finished \<longrightarrow> {r \<in> set (rows (hd ds)). sel r} \<subseteq> set rs"
    unfolding set_ordered_rows by blast
  moreover have "\<forall>r \<in> set rs. is_ok (record_of r)"
    using rs(4) listableD(4)[OF assms(2)] by auto
  ultimately show ?thesis unfolding lists_once_def using rmap_value_of by blast
qed

lemma grows_filtered:
  "successively (\<lambda>d d'. set (rows d) \<subseteq> set (rows d')) ds \<Longrightarrow>
   successively (\<lambda>d d'. set (ordered_rows descending key sel (rows d)) \<subseteq>
     set (ordered_rows descending key sel (rows d'))) ds"
  by (erule successively_mono) auto

text \<open>One request of at most a hundred rows.\<close>

lemma limit_cases:
  assumes "1 \<le> limit" "limit \<le> 100"
  obtains extra where "limit = int (Suc extra)" "extra < 100"
proof
  show "limit = int (Suc (nat (limit - 1)))" "nat (limit - 1) < 100" using assms by simp_all
qed

abbreviation dataset_order :: "dialect \<Rightarrow> dataset_row \<Rightarrow> instant \<times> string \<times> int" where
  "dataset_order st \<equiv> revision_key st dr_created_at dr_name dr_revision"

abbreviation dataset_cursor :: "store_config \<Rightarrow> string option \<Rightarrow> dataset_row \<Rightarrow> string res" where
  "dataset_cursor env name \<equiv>
     revision_cursor env ''datasets'' (name_filters ''name'' name) dr_created_at dr_name dr_revision"

definition datasets_listable :: "store_config \<Rightarrow> dialect \<Rightarrow> string option \<Rightarrow> db \<Rightarrow> bool" where
  "datasets_listable env st name db \<longleftrightarrow>
     listable env st (\<lambda>r. (dr_name r, dr_revision r)) dataset_list_record_of dr_created_at
       (dataset_cursor env name) (filter (\<lambda>r. matches_filter name (dr_name r)) (datasets_table db))"

interpretation dataset_pages: keyset_listing
  "\<lambda>db c. list_datasets env st db (int (Suc extra)) c name"
  "\<lambda>db. ordered_rows False (dataset_order st) (\<lambda>r. matches_filter name (dr_name r)) (datasets_table db)"
  "ahead False (dataset_order st)" "\<lambda>r. value_of (dataset_list_record_of r)"
  "\<lambda>r. value_of (dataset_cursor env name r)" extra "\<lambda>db. extra < 100 \<and> datasets_listable env st name db"
  for env st name extra
proof (rule revision_listing)
  show "list_datasets env st db (int (Suc extra)) c name =
      rbind (after_revision env st ''datasets'' (name_filters ''name'' name) c) (\<lambda>aft.
        finish_page (Suc extra) dataset_list_record_of
          (\<lambda>_ r. encode_cursor (env_jcs env) ''datasets'' (name_filters ''name'' name)
             [cursor_time (dl_created_at r), JStr (dl_name r), JInt (dl_revision r)])
          (select_rows False (\<lambda>r. matches_filter name (dr_name r) \<and>
              aft (dr_created_at r) (dr_name r) (dr_revision r)) (dataset_order st) (Suc extra + 1) (datasets_table db)))"
    if "extra < 100 \<and> datasets_listable env st name db" for db c
    using that by (simp add: list_datasets_def page_limit_Suc revision_key_def[abs_def]
        del: of_nat_Suc cong del: rbind_weak_cong)
qed (auto simp: datasets_listable_def scalar_dict_filters revision_cursor_def
    dest!: list_record_fields)

abbreviation suite_order :: "dialect \<Rightarrow> suite_row \<Rightarrow> instant \<times> string \<times> int" where
  "suite_order st \<equiv> revision_key st sr_created_at sr_name sr_revision"

abbreviation suite_cursor :: "store_config \<Rightarrow> string option \<Rightarrow> suite_row \<Rightarrow> string res" where
  "suite_cursor env name \<equiv>
     revision_cursor env ''suites'' (name_filters ''name'' name) sr_created_at sr_name sr_revision"

definition suites_listable :: "store_config \<Rightarrow> dialect \<Rightarrow> string option \<Rightarrow> db \<Rightarrow> bool" where
  "suites_listable env st name db \<longleftrightarrow>
     listable env st (\<lambda>r. (sr_name r, sr_revision r)) suite_list_record_of sr_created_at
       (suite_cursor env name) (filter (\<lambda>r. matches_filter name (sr_name r)) (suites_table db))"

interpretation suite_pages: keyset_listing
  "\<lambda>db c. list_suites env st db (int (Suc extra)) c name"
  "\<lambda>db. ordered_rows False (suite_order st) (\<lambda>r. matches_filter name (sr_name r)) (suites_table db)"
  "ahead False (suite_order st)" "\<lambda>r. value_of (suite_list_record_of r)"
  "\<lambda>r. value_of (suite_cursor env name r)" extra "\<lambda>db. extra < 100 \<and> suites_listable env st name db"
  for env st name extra
proof (rule revision_listing)
  show "list_suites env st db (int (Suc extra)) c name =
      rbind (after_revision env st ''suites'' (name_filters ''name'' name) c) (\<lambda>aft.
        finish_page (Suc extra) suite_list_record_of
          (\<lambda>_ r. encode_cursor (env_jcs env) ''suites'' (name_filters ''name'' name)
             [cursor_time (sl_created_at r), JStr (sl_name r), JInt (sl_revision r)])
          (select_rows False (\<lambda>r. matches_filter name (sr_name r) \<and>
              aft (sr_created_at r) (sr_name r) (sr_revision r)) (suite_order st) (Suc extra + 1) (suites_table db)))"
    if "extra < 100 \<and> suites_listable env st name db" for db c
    using that by (simp add: list_suites_def page_limit_Suc revision_key_def[abs_def]
        del: of_nat_Suc cong del: rbind_weak_cong)
qed (auto simp: suites_listable_def scalar_dict_filters revision_cursor_def
    dest!: list_record_fields)

abbreviation job_order :: "dialect \<Rightarrow> job_row \<Rightarrow> instant \<times> string" where
  "job_order st \<equiv> identity_key st (\<lambda>r. job_created_at (row_job r)) row_job_id"

abbreviation job_cursor :: "store_config \<Rightarrow> job_kind option \<Rightarrow> job_status option \<Rightarrow> job_row \<Rightarrow> string res" where
  "job_cursor env kind status \<equiv> (\<lambda>r. identity_cursor env ''jobs'' (job_filters kind status) ((\<lambda>r. job_created_at (row_job r)) r) (row_job_id r))"

definition jobs_listable :: "store_config \<Rightarrow> dialect \<Rightarrow> job_kind option \<Rightarrow> job_status option \<Rightarrow> db \<Rightarrow> bool" where
  "jobs_listable env st kind status db \<longleftrightarrow>
     listable env st row_job_id job_record_of (\<lambda>r. job_created_at (row_job r)) (job_cursor env kind status) (filter (\<lambda>r. matches_filter kind (job_kind (row_job r)) \<and> matches_filter status (job_status (row_job r))) (jobs_table db))"

interpretation job_pages: keyset_listing
  "\<lambda>db c. list_jobs env st db (int (Suc extra)) c kind status"
  "\<lambda>db. ordered_rows False (job_order st) (\<lambda>r. matches_filter kind (job_kind (row_job r)) \<and> matches_filter status (job_status (row_job r))) (jobs_table db)"
  "ahead False (job_order st)" "\<lambda>r. value_of (job_record_of r)"
  "\<lambda>r. value_of (job_cursor env kind status r)" extra "\<lambda>db. extra < 100 \<and> jobs_listable env st kind status db"
  for env st kind status extra
proof (rule identity_listing)
  show "list_jobs env st db (int (Suc extra)) c kind status =
      rbind (after_identity env st False ''jobs'' (job_filters kind status) c) (\<lambda>aft.
        finish_page (Suc extra) job_record_of
          (\<lambda>_ j. identity_cursor env ''jobs'' (job_filters kind status) (job_created_at j) (job_id j))
          (select_rows False (\<lambda>r. (matches_filter kind (job_kind (row_job r)) \<and> matches_filter status (job_status (row_job r))) \<and> aft ((\<lambda>r. job_created_at (row_job r)) r) (row_job_id r))
            (job_order st) (Suc extra + 1) (jobs_table db)))"
    if "extra < 100 \<and> jobs_listable env st kind status db" for db c
    using that by (simp add: list_jobs_def page_limit_Suc identity_key_def[abs_def]
        del: of_nat_Suc cong del: rbind_weak_cong)
qed (auto simp: jobs_listable_def scalar_dict_filters dest!: list_record_fields)

abbreviation run_order :: "dialect \<Rightarrow> run_row \<Rightarrow> instant \<times> string" where
  "run_order st \<equiv> identity_key st rr_created_at rr_run_id"

abbreviation run_cursor :: "store_config \<Rightarrow> string option \<Rightarrow> run_row \<Rightarrow> string res" where
  "run_cursor env name \<equiv> (\<lambda>r. identity_cursor env ''runs'' (name_filters ''dataset_name'' name) (rr_created_at r) (rr_run_id r))"

definition runs_listable :: "store_config \<Rightarrow> dialect \<Rightarrow> string option \<Rightarrow> db \<Rightarrow> bool" where
  "runs_listable env st name db \<longleftrightarrow>
     listable env st rr_run_id run_list_record_of rr_created_at (run_cursor env name) (filter (\<lambda>r. matches_filter name (rr_dataset_name r)) (runs_table db))"

interpretation run_pages: keyset_listing
  "\<lambda>db c. list_runs env st db (int (Suc extra)) c name"
  "\<lambda>db. ordered_rows False (run_order st) (\<lambda>r. matches_filter name (rr_dataset_name r)) (runs_table db)"
  "ahead False (run_order st)" "\<lambda>r. value_of (run_list_record_of r)"
  "\<lambda>r. value_of (run_cursor env name r)" extra "\<lambda>db. extra < 100 \<and> runs_listable env st name db"
  for env st name extra
proof (rule identity_listing)
  show "list_runs env st db (int (Suc extra)) c name =
      rbind (after_identity env st False ''runs'' (name_filters ''dataset_name'' name) c) (\<lambda>aft.
        finish_page (Suc extra) run_list_record_of
          (\<lambda>_ r. identity_cursor env ''runs'' (name_filters ''dataset_name'' name)
            (rl_created_at r) (rl_run_id r))
          (select_rows False (\<lambda>r. matches_filter name (rr_dataset_name r) \<and> aft (rr_created_at r) (rr_run_id r))
            (run_order st) (Suc extra + 1) (runs_table db)))"
    if "extra < 100 \<and> runs_listable env st name db" for db c
    using that by (simp add: list_runs_def page_limit_Suc identity_key_def[abs_def]
        del: of_nat_Suc cong del: rbind_weak_cong)
qed (auto simp: runs_listable_def scalar_dict_filters dest!: list_record_fields)

text \<open>A page for any cursor that decodes, and nothing but the refusal of one that does not.\<close>

lemma runs_page_total:
  assumes "runs_listable env st name db" "extra < 100"
  shows "(\<exists>p. list_runs env st db (int (Suc extra)) cursor name = Inr p \<and> length (page_items p) \<le> Suc extra) \<or>
    list_runs env st db (int (Suc extra)) cursor name = Inl invalid_cursor"
proof -
  let ?filters = "name_filters ''dataset_name'' name" and ?sel = "\<lambda>r. matches_filter name (rr_dataset_name r)"
  let ?rows = "ordered_rows False (run_order st) ?sel (runs_table db)"
  have "finish_page (Suc extra) run_list_record_of
      (\<lambda>_ r. identity_cursor env ''runs'' ?filters (rl_created_at r) (rl_run_id r))
      (take (Suc extra + 1) (filter aft ?rows)) =
    Inr (page_of (Suc extra) (\<lambda>r. value_of (run_list_record_of r)) (\<lambda>r. value_of (run_cursor env name r)) (filter aft ?rows))"
    for aft
  proof (rule finish_page_eq)
    show "\<forall>r \<in> set (filter aft ?rows). run_list_record_of r = Inr (value_of (run_list_record_of r)) \<and>
        identity_cursor env ''runs'' ?filters (rl_created_at (value_of (run_list_record_of r)))
          (rl_run_id (value_of (run_list_record_of r))) = run_cursor env name r \<and> cursor_fits (run_cursor env name r)"
    proof
      fix r assume "r \<in> set (filter aft ?rows)"
      then have r: "is_ok (run_list_record_of r)" "cursor_fits (run_cursor env name r)"
        using assms(1) by (auto simp: runs_listable_def dest: listableD)
      then have "run_list_record_of r = Inr (value_of (run_list_record_of r))" by (simp add: is_ok_value_of)
      with r list_record_fields(4)[OF this] show "run_list_record_of r = Inr (value_of (run_list_record_of r)) \<and>
          identity_cursor env ''runs'' ?filters (rl_created_at (value_of (run_list_record_of r)))
            (rl_run_id (value_of (run_list_record_of r))) = run_cursor env name r \<and> cursor_fits (run_cursor env name r)"
        by simp
    qed
  qed simp
  then have "list_runs env st db (int (Suc extra)) cursor name = rbind (after_identity env st False ''runs'' ?filters cursor)
      (\<lambda>aft. Inr (page_of (Suc extra) (\<lambda>r. value_of (run_list_record_of r)) (\<lambda>r. value_of (run_cursor env name r))
        (filter (\<lambda>r. aft (rr_created_at r) (rr_run_id r)) ?rows)))"
    using assms(2) by (simp add: list_runs_def page_limit_Suc select_rows_eq identity_key_def[abs_def]
        del: of_nat_Suc cong del: rbind_weak_cong)
  moreover have "raises (\<lambda>e. e = invalid_cursor) (after_identity env st False ''runs'' ?filters cursor)"
    unfolding after_identity_def
    by (cases cursor) (auto intro!: raises_intros decode_cursor_raises decoded_cursor_time_raises
        split: list.split json.split)
  ultimately show ?thesis
    by (cases "after_identity env st False ''runs'' ?filters cursor") (auto simp: page_of_def raises_def)
qed

abbreviation decision_order :: "dialect \<Rightarrow> decision_row \<Rightarrow> instant \<times> string" where
  "decision_order st \<equiv> identity_key st dcr_created_at dcr_decision_id"

abbreviation decision_cursor :: "store_config \<Rightarrow> release_status option \<Rightarrow> list_order \<Rightarrow> decision_row \<Rightarrow> string res" where
  "decision_cursor env status order \<equiv> (\<lambda>r. identity_cursor env ''release-decisions'' (decision_filters status order) (dcr_created_at r) (dcr_decision_id r))"

definition decisions_listable :: "store_config \<Rightarrow> dialect \<Rightarrow> release_status option \<Rightarrow> list_order \<Rightarrow> db \<Rightarrow> bool" where
  "decisions_listable env st status order db \<longleftrightarrow>
     listable env st dcr_decision_id decision_list_record_of dcr_created_at (decision_cursor env status order) (filter (\<lambda>r. matches_filter status (dcr_status r)) (release_decisions_table db))"

interpretation decision_pages: keyset_listing
  "\<lambda>db c. list_release_decisions env st db (int (Suc extra)) c status order"
  "\<lambda>db. ordered_rows (order = DESCENDING) (decision_order st) (\<lambda>r. matches_filter status (dcr_status r)) (release_decisions_table db)"
  "ahead (order = DESCENDING) (decision_order st)" "\<lambda>r. value_of (decision_list_record_of r)"
  "\<lambda>r. value_of (decision_cursor env status order r)" extra "\<lambda>db. extra < 100 \<and> decisions_listable env st status order db"
  for env st status order extra
proof (rule identity_listing)
  show "list_release_decisions env st db (int (Suc extra)) c status order =
      rbind (after_identity env st (order = DESCENDING) ''release-decisions'' (decision_filters status order) c) (\<lambda>aft.
        finish_page (Suc extra) decision_list_record_of
          (\<lambda>_ r. identity_cursor env ''release-decisions'' (decision_filters status order)
            (cl_created_at r) (cl_decision_id r))
          (select_rows (order = DESCENDING) (\<lambda>r. matches_filter status (dcr_status r) \<and> aft (dcr_created_at r) (dcr_decision_id r))
            (decision_order st) (Suc extra + 1) (release_decisions_table db)))"
    if "extra < 100 \<and> decisions_listable env st status order db" for db c
    using that by (simp add: list_release_decisions_def page_limit_Suc identity_key_def[abs_def]
        del: of_nat_Suc cong del: rbind_weak_cong)
qed (auto simp: decisions_listable_def scalar_dict_filters dest!: list_record_fields)

end
