(* ===== verification/ListingHistories.thy ===== *)
theory ListingHistories
  imports ListingContract
begin

text \<open>
  The listings within a suite revision and within a decision satisfy the keyset contract: the run and
  decision histories with their joins, the targets and target pairs observed under a suite, and the
  cases of a decision.
\<close>

section \<open>Histories\<close>

lemma resolved_filters_Inr [result_simps]:
  "resolved_filters kind message role ref = Inr fs \<longleftrightarrow> \<not> unresolved kind ref \<and>
     fs = [(role @ ''_name'', JStr (ref_name ref)), (role @ ''_revision'', JInt (ref_revision ref)),
       (role @ ''_digest'', optional_string (ref_digest ref))]"
  by (auto simp: resolved_filters_def result_simps)

lemma scalar_optional_string [simp]: "scalar (optional_string x)" "plain_json (optional_string x)"
  by (simp_all add: optional_string_def split: option.split)

lemma history_filters_scalar:
  assumes "history_filters pinned target baseline candidate = Inr fs"
  shows "scalar_dict fs"
  using assms
  by (auto simp: history_filters_def suite_filters_def target_filters_def result_simps scalar_dict_def
      split: option.splits)

text \<open>A run identifier names one run, so a join keeps each row at most once.\<close>

definition joined :: "db \<Rightarrow> artifact_ref \<Rightarrow> artifact_ref option \<Rightarrow> string \<Rightarrow> bool" where
  "joined db pinned target rid \<longleftrightarrow> (case target of None \<Rightarrow> True
   | Some t \<Rightarrow> \<exists>run \<in> set (runs_table db). rr_run_id run = rid \<and> rr_suite run = pin_columns pinned \<and> rr_target run = pin_columns t)"

lemma filter_unique:
  assumes "distinct (map f xs)"
  shows "map (\<lambda>_. r) (filter (\<lambda>x. f x = v \<and> p x) xs) = (if \<exists>x \<in> set xs. f x = v \<and> p x then [r] else [])"
  using assms
proof (induction xs)
  case (Cons x xs)
  show ?case
  proof (cases "f x = v")
    case True
    then have "\<forall>y \<in> set xs. f y \<noteq> v" using Cons.prems by (auto simp: image_iff)
    then have "filter (\<lambda>x. f x = v \<and> p x) xs = []" by (simp add: filter_empty_conv)
    with True \<open>\<forall>y \<in> set xs. f y \<noteq> v\<close> show ?thesis by auto
  qed (use Cons in auto)
qed simp

lemma join_run_filter:
  assumes "distinct (map rr_run_id (runs_table db))"
  shows "join_run db link pinned target rows = filter (\<lambda>r. joined db pinned target (link r)) rows"
proof (cases target)
  case (Some t)
  have "map (\<lambda>_. r) (filter (\<lambda>run. link r = rr_run_id run \<and> rr_suite run = pin_columns pinned \<and> rr_target run = pin_columns t)
      (runs_table db)) = (if joined db pinned target (link r) then [r] else [])" for r
    using filter_unique[OF assms, of r "link r" "\<lambda>run. rr_suite run = pin_columns pinned \<and> rr_target run = pin_columns t"]
    by (simp add: joined_def Some eq_commute[of "link r"])
  then have "join_run db link pinned target rows =
      concat (map (\<lambda>r. if joined db pinned target (link r) then [r] else []) rows)"
    by (simp add: join_run_def Some)
  moreover have "concat (map (\<lambda>r. if p r then [r] else []) rows) = filter p rows" for p :: "'a \<Rightarrow> bool"
    by (induction rows) simp_all
  ultimately show ?thesis by simp
qed (simp add: join_run_def joined_def)

definition in_history ::
    "'r history_table \<Rightarrow> artifact_ref \<Rightarrow> artifact_ref option \<Rightarrow> artifact_ref option \<Rightarrow> artifact_ref option \<Rightarrow>
     db \<Rightarrow> 'r \<Rightarrow> bool" where
  "in_history tab pinned target baseline candidate db r \<longleftrightarrow> ht_suite tab r = pin_columns pinned \<and>
     matches_filter (map_option pin_columns target) (ht_target tab r) \<and>
     joined db pinned baseline (ht_baseline tab r) \<and> joined db pinned candidate (ht_candidate tab r)"

lemma history_rows_filter:
  assumes "distinct (map rr_run_id (runs_table db))"
  shows "history_rows tab db pinned target baseline candidate =
    filter (in_history tab pinned target baseline candidate db) (ht_rows tab db)"
  by (simp add: history_rows_def join_run_filter[OF assms] in_history_def[abs_def] conj_ac)

lemma set_history_rows:
  "set (history_rows tab db pinned target baseline candidate) =
    {r \<in> set (ht_rows tab db). in_history tab pinned target baseline candidate db r}"
proof -
  have "set (join_run db link pinned t rows) = {r \<in> set rows. joined db pinned t (link r)}"
    for link :: "'a \<Rightarrow> string" and t rows
    by (cases t) (force simp: join_run_def joined_def)+
  then show ?thesis by (auto simp: history_rows_def in_history_def)
qed

lemma in_history_mono:
  "set (runs_table db) \<subseteq> set (runs_table db') \<Longrightarrow>
   in_history tab pinned target baseline candidate db r \<Longrightarrow>
   in_history tab pinned target baseline candidate db' r"
  by (auto simp: in_history_def joined_def split: option.splits)

abbreviation history_cursor ::
    "store_config \<Rightarrow> string \<Rightarrow> 'r history_table \<Rightarrow> (string \<times> json) list \<Rightarrow> 'r \<Rightarrow> string res" where
  "history_cursor env stream tab filters \<equiv>
     (\<lambda>r. identity_cursor env stream filters (ht_created tab r) (ht_identity tab r))"

definition history_listable ::
    "store_config \<Rightarrow> dialect \<Rightarrow> string \<Rightarrow> 'r history_table \<Rightarrow> ('r \<Rightarrow> 'a res) \<Rightarrow> artifact_ref \<Rightarrow>
     artifact_ref option \<Rightarrow> artifact_ref option \<Rightarrow> artifact_ref option \<Rightarrow> db \<Rightarrow> bool" where
  "history_listable env st stream tab record_of pinned target baseline candidate db \<longleftrightarrow>
     is_ok (history_filters pinned target baseline candidate) \<and>
     distinct (map rr_run_id (runs_table db)) \<and>
     listable env st (ht_identity tab) (history_record record_of) (ht_created tab)
       (history_cursor env stream tab (value_of (history_filters pinned target baseline candidate)))
       (history_rows tab db pinned target baseline candidate)"

lemma history_listing:
  assumes "\<And>r x. history_record record_of r = Inr x \<Longrightarrow> created_at x = ht_created tab r"
  shows "keyset_listing
    (\<lambda>db c. suite_history_page env st db pinned (int (Suc extra)) c tab stream record_of created_at
       target baseline candidate)
    (\<lambda>db. ordered_rows True (identity_key st (ht_created tab) (ht_identity tab)) (\<lambda>_. True)
       (history_rows tab db pinned target baseline candidate))
    (ahead True (identity_key st (ht_created tab) (ht_identity tab)))
    (\<lambda>r. value_of (history_record record_of r))
    (\<lambda>r. value_of (history_cursor env stream tab
       (value_of (history_filters pinned target baseline candidate)) r)) extra
    (\<lambda>db. extra < 100 \<and> history_listable env st stream tab record_of pinned target baseline candidate db)"
proof (rule identity_listing)
  let ?fs = "value_of (history_filters pinned target baseline candidate)"
  let ?good = "\<lambda>db. extra < 100 \<and> history_listable env st stream tab record_of pinned target baseline candidate db"
  fix db assume good: "?good db"
  then have fs: "history_filters pinned target baseline candidate = Inr ?fs"
    by (simp add: history_listable_def is_ok_value_of)
  show "scalar_dict ?fs" using history_filters_scalar[OF fs] .
  show "suite_history_page env st db pinned (int (Suc extra)) c tab stream record_of created_at
        target baseline candidate =
      rbind (after_identity env st True stream ?fs c) (\<lambda>aft.
        finish_page (Suc extra) (history_record record_of)
          (\<lambda>r x. identity_cursor env stream ?fs (created_at x) (ht_identity tab r))
          (select_rows True (\<lambda>r. True \<and> aft (ht_created tab r) (ht_identity tab r))
            (identity_key st (ht_created tab) (ht_identity tab)) (Suc extra + 1)
            (history_rows tab db pinned target baseline candidate)))" for c
    using good by (subst suite_history_page_def, subst fs)
      (simp add: page_limit_Suc identity_key_def[abs_def] del: of_nat_Suc cong del: rbind_weak_cong)
  show "listable env st (ht_identity tab) (history_record record_of) (ht_created tab)
      (history_cursor env stream tab ?fs)
      (filter (\<lambda>_. True) (history_rows tab db pinned target baseline candidate))"
    using good by (simp add: history_listable_def)
qed (simp add: assms)

lemma history_record_Inr: "history_record record_of r = Inr x \<Longrightarrow> record_of r = Inr x"
  by (auto simp: history_record_def rcatch_def split: sum.splits if_splits)

lemma history_record_fields:
  "history_record run_history_record_of r = Inr x \<Longrightarrow> rl_created_at x = rr_created_at r"
  "history_record decision_history_record_of d = Inr y \<Longrightarrow> cl_created_at y = dcr_created_at d"
  by (auto dest!: history_record_Inr simp: run_history_record_of_def decision_history_record_of_def
      result_simps run_projection_def decision_projection_def run_list_record.defs decision_list_record.defs)

interpretation suite_run_pages: keyset_listing
  "\<lambda>db c. list_suite_runs env st db pinned (int (Suc extra)) c target"
  "\<lambda>db. ordered_rows True (identity_key st rr_created_at rr_run_id) (\<lambda>_. True)
     (history_rows run_history_table db pinned target None None)"
  "ahead True (identity_key st rr_created_at rr_run_id)"
  "\<lambda>r. value_of (history_record run_history_record_of r)"
  "\<lambda>r. value_of (history_cursor env ''suite-runs'' run_history_table
     (value_of (history_filters pinned target None None)) r)" extra
  "\<lambda>db. extra < 100 \<and> history_listable env st ''suite-runs'' run_history_table run_history_record_of
     pinned target None None db"
  for env st pinned target extra
  using history_listing[where record_of = run_history_record_of and created_at = rl_created_at
      and tab = run_history_table and stream = "''suite-runs''"]
  by (simp add: list_suite_runs_def run_history_table_def history_record_fields del: of_nat_Suc)

interpretation suite_decision_pages: keyset_listing
  "\<lambda>db c. list_suite_decisions env st db pinned (int (Suc extra)) c baseline candidate"
  "\<lambda>db. ordered_rows True (identity_key st dcr_created_at dcr_decision_id) (\<lambda>_. True)
     (history_rows decision_history_table db pinned None baseline candidate)"
  "ahead True (identity_key st dcr_created_at dcr_decision_id)"
  "\<lambda>r. value_of (history_record decision_history_record_of r)"
  "\<lambda>r. value_of (history_cursor env ''suite-decisions'' decision_history_table
     (value_of (history_filters pinned None baseline candidate)) r)" extra
  "\<lambda>db. extra < 100 \<and> history_listable env st ''suite-decisions'' decision_history_table
     decision_history_record_of pinned None baseline candidate db"
  for env st pinned baseline candidate extra
  using history_listing[where record_of = decision_history_record_of and created_at = cl_created_at
      and tab = decision_history_table and stream = "''suite-decisions''"]
  by (simp add: list_suite_decisions_def decision_history_table_def history_record_fields del: of_nat_Suc)

lemma walked_records:
  assumes "follow page ds None = Inr (map (\<lambda>r. value_of (record_of r)) rs, finished)"
    and "\<forall>r \<in> set rs. is_ok (record_of r)"
  shows "\<exists>items. follow page ds None = Inr (items, finished) \<and> rmap record_of rs = Inr items"
  using assms rmap_value_of by blast

section \<open>Targets of a suite\<close>

definition resolved_columns :: "history_columns \<Rightarrow> bool" where
  "resolved_columns columns \<longleftrightarrow> (case columns of
     (Some name, Some revision, Some digest) \<Rightarrow> is_ok (validate_artifact_ref
       \<lparr>ref_kind = TARGET, ref_name = name, ref_revision = revision, ref_digest = Some digest\<rparr>)
   | _ \<Rightarrow> False)"

definition group_filters :: "artifact_ref \<Rightarrow> (string \<times> json) list" where
  "group_filters pinned = value_of (suite_filters pinned) @ [(''order'', JStr ''identity-asc'')]"

definition group_cursor :: "store_config \<Rightarrow> artifact_ref \<Rightarrow> string \<Rightarrow> history_columns list \<Rightarrow> string res" where
  "group_cursor env pinned stream columns =
     encode_cursor (env_jcs env) stream (group_filters pinned) (concat (map target_columns columns))"

definition groups_listable ::
    "store_config \<Rightarrow> artifact_ref \<Rightarrow> string \<Rightarrow> (artifact_ref list \<Rightarrow> 'a res) \<Rightarrow> nat \<Rightarrow> history_columns list list \<Rightarrow> bool" where
  "groups_listable env pinned stream build width selected \<longleftrightarrow>
     json_text (env_jcs env) (env_parse env) \<and> \<not> unresolved SUITE pinned \<and>
     (\<forall>columns \<in> set selected. length columns = width \<and> list_all resolved_columns columns \<and>
        is_ok (group_record build columns) \<and> cursor_fits (group_cursor env pinned stream columns))"

lemma resolved_columnsE:
  assumes "resolved_columns c"
  obtains name revision digest u where "c = (Some name, Some revision, Some digest)"
    "validate_artifact_ref \<lparr>ref_kind = TARGET, ref_name = name, ref_revision = revision,
       ref_digest = Some digest\<rparr> = Inr u"
proof -
  obtain n r d where "c = (n, r, d)" by (cases c)
  with assms that show thesis
    by (cases n; cases r; cases d) (auto simp: resolved_columns_def is_ok_iff)
qed

lemma group_key_columns:
  "list_all resolved_columns columns \<Longrightarrow> group_key (concat (map target_columns columns)) = Inr columns"
proof (induction columns)
  case (Cons c cs)
  from Cons.prems have "resolved_columns c" by simp
  then show ?case using Cons
    by (elim resolved_columnsE) (simp add: target_columns_def optional_string_def)
qed simp

lemma target_columns_scalar: "list_all scalar (concat (map target_columns columns))"
  by (induction columns) (auto simp: target_columns_def split: prod.splits option.splits)

lemma length_target_columns: "length (concat (map target_columns columns)) = 3 * length columns"
  by (induction columns) (auto simp: target_columns_def split: prod.splits)

lemma suite_filters_resolved:
  "\<not> unresolved SUITE pinned \<Longrightarrow> suite_filters pinned = Inr (value_of (suite_filters pinned))"
  by (simp add: suite_filters_def resolved_filters_def)

lemma group_filters_scalar: "\<not> unresolved SUITE pinned \<Longrightarrow> scalar_dict (group_filters pinned)"
  by (simp add: group_filters_def suite_filters_def resolved_filters_def scalar_dict_def)

lemma group_listing:
  "keyset_listing (\<lambda>d c. target_group_page env pinned (selected d) width stream build (int (Suc extra)) c)
    (\<lambda>d. ordered_rows False id (\<lambda>_. True) (remdups (selected d))) (ahead False id)
    (\<lambda>columns. value_of (group_record build columns)) (\<lambda>columns. value_of (group_cursor env pinned stream columns))
    extra (\<lambda>d. extra < 100 \<and> groups_listable env pinned stream build width (selected d))"
proof (rule keyset_listingI)
  let ?keyset = "\<lambda>cursor. case cursor of None \<Rightarrow> Inr (\<lambda>_. True)
    | Some c \<Rightarrow> rbind (read_cursor env c stream (group_filters pinned)) (\<lambda>key.
        rcatch is_value_error (\<lambda>_. Inl invalid_cursor)
          (rbind (checks [(length key \<noteq> 3 * width, ValueError ''Invalid group cursor shape'')]) (\<lambda>_.
           rbind (group_key key) (\<lambda>k. Inr (\<lambda>columns. columns > k)))))"
  show "?keyset None = Inr (\<lambda>_. True)" by simp
  fix d assume good: "extra < 100 \<and> groups_listable env pinned stream build width (selected d)"
  then have ok: "json_text (env_jcs env) (env_parse env)" "\<not> unresolved SUITE pinned"
    by (simp_all add: groups_listable_def)
  show "target_group_page env pinned (selected d) width stream build (int (Suc extra)) c =
      rbind (?keyset c) (\<lambda>aft. finish_page (Suc extra) (group_record build)
        (\<lambda>columns _. group_cursor env pinned stream columns)
        (select_rows False (\<lambda>columns. True \<and> aft columns) id (Suc extra + 1) (remdups (selected d))))" for c
    using good unfolding target_group_page_def group_cursor_def group_filters_def
    by (subst suite_filters_resolved[OF ok(2)])
      (simp add: page_limit_Suc Let_def del: of_nat_Suc cong del: rbind_weak_cong)
  show "distinct (map id (filter (\<lambda>_. True) (remdups (selected d))))" by simp
  fix columns assume "columns \<in> set (remdups (selected d))"
  then have row: "length columns = width" "list_all resolved_columns columns" "is_ok (group_record build columns)"
      "cursor_fits (group_cursor env pinned stream columns)"
    using good by (simp_all add: groups_listable_def)
  show "?keyset (Some (value_of (group_cursor env pinned stream columns))) = Inr (ahead False id columns)"
    using read_cursor_issued[OF ok(1) _ group_filters_scalar[OF ok(2)] target_columns_scalar] row
    by (simp add: group_cursor_def group_key_columns length_target_columns rcatch_def ahead_def fun_eq_iff)
  show "group_record build columns = Inr (value_of (group_record build columns)) \<and>
      group_cursor env pinned stream columns = group_cursor env pinned stream columns \<and>
      cursor_fits (group_cursor env pinned stream columns)"
    using row by (simp add: is_ok_value_of)
qed

lemma keyset_page_cong:
  assumes "keyset_listing page listed before item cursor extra good"
    and "\<And>d c. good d \<Longrightarrow> page' d c = page d c"
  shows "keyset_listing page' listed before item cursor extra good"
  using assms unfolding keyset_listing_def by simp

abbreviation build_target :: "artifact_ref \<Rightarrow> artifact_ref list \<Rightarrow> suite_target_group res" where
  "build_target pinned \<equiv> (\<lambda>targets. validate_target_group \<lparr>stg_suite = pinned, stg_target = targets ! 0\<rparr>)"

abbreviation build_pair :: "artifact_ref \<Rightarrow> artifact_ref list \<Rightarrow> suite_target_pair_group res" where
  "build_pair pinned \<equiv> (\<lambda>targets. validate_target_pair_group
     \<lparr>spg_suite = pinned, spg_baseline = targets ! 0, spg_candidate = targets ! 1\<rparr>)"

definition suite_targets :: "artifact_ref \<Rightarrow> db \<Rightarrow> history_columns list list" where
  "suite_targets pinned db = map (\<lambda>r. [rr_target r]) (filter (\<lambda>r. rr_suite r = pin_columns pinned) (runs_table db))"

interpretation suite_target_pages: keyset_listing
  "\<lambda>db c. list_suite_targets env db pinned (int (Suc extra)) c"
  "\<lambda>db. ordered_rows False id (\<lambda>_. True) (remdups (suite_targets pinned db))" "ahead False id"
  "\<lambda>columns. value_of (group_record (build_target pinned) columns)"
  "\<lambda>columns. value_of (group_cursor env pinned ''suite-targets'' columns)" extra
  "\<lambda>db. extra < 100 \<and> groups_listable env pinned ''suite-targets'' (build_target pinned) 1 (suite_targets pinned db)"
  for env pinned extra
proof (rule keyset_page_cong[OF group_listing])
  fix db assume "extra < 100 \<and> groups_listable env pinned ''suite-targets'' (build_target pinned) 1 (suite_targets pinned db)"
  then have "\<not> unresolved SUITE pinned" by (simp add: groups_listable_def)
  then show "list_suite_targets env db pinned (int (Suc extra)) c =
      target_group_page env pinned (suite_targets pinned db) 1 ''suite-targets'' (build_target pinned) (int (Suc extra)) c" for c
    by (subst list_suite_targets_def, subst suite_filters_resolved) (simp_all add: suite_targets_def)
qed

interpretation suite_target_pair_pages: keyset_listing
  "\<lambda>db c. list_suite_target_pairs env db pinned (int (Suc extra)) c"
  "\<lambda>db. ordered_rows False id (\<lambda>_. True) (remdups (target_pairs db pinned))" "ahead False id"
  "\<lambda>columns. value_of (group_record (build_pair pinned) columns)"
  "\<lambda>columns. value_of (group_cursor env pinned ''suite-target-pairs'' columns)" extra
  "\<lambda>db. extra < 100 \<and> groups_listable env pinned ''suite-target-pairs'' (build_pair pinned) 2 (target_pairs db pinned)"
  for env pinned extra
proof (rule keyset_page_cong[OF group_listing])
  fix db assume "extra < 100 \<and> groups_listable env pinned ''suite-target-pairs'' (build_pair pinned) 2 (target_pairs db pinned)"
  then have "\<not> unresolved SUITE pinned" by (simp add: groups_listable_def)
  then show "list_suite_target_pairs env db pinned (int (Suc extra)) c =
      target_group_page env pinned (target_pairs db pinned) 2 ''suite-target-pairs'' (build_pair pinned) (int (Suc extra)) c" for c
    by (subst list_suite_target_pairs_def, subst suite_filters_resolved) simp_all
qed

section \<open>Cases of a decision\<close>

lemma item_key_case_key: "item_key = case_key"
  by (simp add: item_key_def[abs_def] case_key_def[abs_def] slice_or_empty_def)

lemma stored_cases_sorted:
  assumes "get_release_decision env db did = Inr r"
  shows "sorted (map item_key (decision_cases (decision r)))"
proof -
  obtain row where "release_decision_record_of env row = Inr r"
    using assms by (auto simp: get_release_decision_def result_simps)
  then have "\<exists>x. validate_decision (env_jcs env) x = Inr (decision r)"
    by (auto simp: release_decision_record_of_def validated_model_def rcatch_def result_simps
        split: sum.splits if_splits)
  then have "check_decision (decision r) = Inr (decision r)"
    by (auto simp: validate_decision_def result_simps split: if_splits dest: check_decision_Inr)
  then show ?thesis by (simp add: check_decision_def result_simps item_key_case_key)
qed

definition case_selected ::
    "string option \<Rightarrow> string option \<Rightarrow> string option \<Rightarrow> case_change option \<Rightarrow> gate_case_comparison \<Rightarrow> bool" where
  "case_selected metric within_gate case_slice wanted item \<longleftrightarrow> matches_filter metric (gcc_metric item) \<and>
     gcc_slice item = within_gate \<and> (case case_slice of None \<Rightarrow> True | Some s \<Rightarrow> s \<in> set (gcc_slices item)) \<and>
     matches_filter wanted (change item)"

definition case_cursor :: "store_config \<Rightarrow> (string \<times> json) list \<Rightarrow> gate_case_comparison \<Rightarrow> string res" where
  "case_cursor env filters x = (case item_key x of (m, s, i) \<Rightarrow>
     encode_cursor (env_jcs env) ''release-decision-cases'' filters [JStr m, JStr s, JStr i])"

definition stored_cases :: "store_config \<Rightarrow> string \<Rightarrow> db \<Rightarrow> gate_case_comparison list" where
  "stored_cases env did db = decision_cases (decision (value_of (get_release_decision env db did)))"

definition cases_listable ::
    "store_config \<Rightarrow> string \<Rightarrow> string option \<Rightarrow> string option \<Rightarrow> string option \<Rightarrow> case_change option \<Rightarrow> db \<Rightarrow> bool" where
  "cases_listable env did metric within_gate case_slice wanted db \<longleftrightarrow>
     json_text (env_jcs env) (env_parse env) \<and> is_ok (get_release_decision env db did) \<and>
     distinct (map item_key (stored_cases env did db)) \<and>
     (\<forall>x \<in> set (stored_cases env did db).
        cursor_fits (case_cursor env (case_filters did metric within_gate case_slice wanted) x))"

lemma finish_page_take: "finish_page n f g (take (n + 1) xs) = finish_page n f g xs" if "0 < n"
proof -
  have "n < length (take (n + 1) xs) \<longleftrightarrow> n < length xs" by auto
  moreover have "take (n + 1) xs ! (n - 1) = xs ! (n - 1)" "take n (take (n + 1) xs) = take n xs"
    using that by simp_all
  ultimately show ?thesis unfolding finish_page_def by presburger
qed

lemma select_rows_sorted:
  "sorted (map key rows) \<Longrightarrow> select_rows False p key n rows = take n (filter p rows)"
  by (simp add: select_rows_def sort_key_sorted_id sorted_filter)

interpretation case_pages: keyset_listing
  "\<lambda>db c. list_release_decision_cases env db did (int (Suc extra)) c metric within_gate case_slice wanted"
  "\<lambda>db. ordered_rows False item_key (case_selected metric within_gate case_slice wanted) (stored_cases env did db)"
  "ahead False item_key" "\<lambda>x. x"
  "\<lambda>x. value_of (case_cursor env (case_filters did metric within_gate case_slice wanted) x)" extra
  "\<lambda>db. extra < 100 \<and> cases_listable env did metric within_gate case_slice wanted db"
  for env did metric within_gate case_slice wanted extra
proof (rule keyset_listingI)
  let ?fs = "case_filters did metric within_gate case_slice wanted"
  let ?keyset = "\<lambda>c. rbind (after_case env ?fs c) (\<lambda>aft. Inr (\<lambda>x.
    case aft of None \<Rightarrow> True | Some k \<Rightarrow> item_key x > k))"
  show "?keyset None = Inr (\<lambda>_. True)" by (simp add: after_case_def)
  fix db assume good: "extra < 100 \<and> cases_listable env did metric within_gate case_slice wanted db"
  then obtain r where r: "get_release_decision env db did = Inr r"
    by (auto simp: cases_listable_def is_ok_iff)
  then have cases: "stored_cases env did db = decision_cases (decision r)" by (simp add: stored_cases_def)
  have "select_rows False p item_key m (decision_cases (decision r)) = take m (filter p (decision_cases (decision r)))"
    for p m by (rule select_rows_sorted[OF stored_cases_sorted[OF r]])
  then show "list_release_decision_cases env db did (int (Suc extra)) c metric within_gate case_slice wanted =
      rbind (?keyset c) (\<lambda>aft. finish_page (Suc extra) Inr (\<lambda>_ x. case_cursor env ?fs x)
        (select_rows False (\<lambda>x. case_selected metric within_gate case_slice wanted x \<and> aft x) item_key
          (Suc extra + 1) (stored_cases env did db)))" for c
    using good r
    by (simp add: list_release_decision_cases_def page_limit_Suc Let_def rbind_assoc cases case_selected_def
        case_cursor_def finish_page_take[of "Suc extra", simplified] del: of_nat_Suc cong del: rbind_weak_cong)
  have "distinct (map item_key (stored_cases env did db))" using good by (simp add: cases_listable_def)
  then show "distinct (map item_key (filter (case_selected metric within_gate case_slice wanted) (stored_cases env did db)))"
    by (rule distinct_map_filter)
  fix x assume "x \<in> set (stored_cases env did db)"
  then have fits: "cursor_fits (case_cursor env ?fs x)" and law: "json_text (env_jcs env) (env_parse env)"
    using good by (simp_all add: cases_listable_def)
  obtain m s i where key: "item_key x = (m, s, i)" by (cases "item_key x")
  have "read_cursor env (value_of (case_cursor env ?fs x)) ''release-decision-cases'' ?fs = Inr [JStr m, JStr s, JStr i]"
    using read_cursor_issued[OF law _ scalar_dict_filters(5), where key = "[JStr m, JStr s, JStr i]"] fits
    by (simp add: case_cursor_def key)
  then show "?keyset (Some (value_of (case_cursor env ?fs x))) = Inr (ahead False item_key x)"
    by (simp add: after_case_def ahead_def key fun_eq_iff)
  show "Inr x = Inr x \<and> case_cursor env ?fs x = case_cursor env ?fs x \<and> cursor_fits (case_cursor env ?fs x)"
    using fits by simp
qed

end
