(* ===== verification/ListingExample.thy ===== *)
theory ListingExample
  imports ListingHistories QueueExample ReleaseExample ServiceExample
begin

text \<open>
  A concrete deployment of the listings. Its serialiser knows the values of finitely many cursors
  and the document of one decision, and its parser reads those texts; the tables are small, with two
  rows where a page boundary is to fall.
\<close>

section \<open>A serialiser for finitely many values\<close>

definition table_jcs :: "(json \<times> string) list \<Rightarrow> jcs" where
  "table_jcs t v = (if plain_json v then map_of t (sort_keys v) else Some [])"

definition table_parse :: "(json \<times> string) list \<Rightarrow> string \<Rightarrow> json option" where
  "table_parse t b = map_of (map (\<lambda>(v, b). (b, v)) t) b"

definition table_ok :: "(json \<times> string) list \<Rightarrow> bool" where
  "table_ok t \<longleftrightarrow> distinct (map snd t) \<and> (\<forall>(v, b) \<in> set t. plain_json v \<and> sort_keys v = v \<and> b \<noteq> [])"

lemma table_json_text: "table_ok t \<Longrightarrow> json_text (table_jcs t) (table_parse t)"
proof -
  assume ok: "table_ok t"
  have swap: "map_of (map (\<lambda>(v, b). (b, v)) t) b = Some v" if "(v, b) \<in> set t" for v b
    using ok that by (intro map_of_is_SomeI) (force simp: table_ok_def comp_def split_def)+
  show ?thesis unfolding json_text_def
  proof (intro allI impI)
    fix v b assume v: "plain_json v" "table_jcs t v = Some b"
    then have mem: "(sort_keys v, b) \<in> set t" by (simp add: table_jcs_def map_of_SomeD)
    with ok have "plain_json (sort_keys v)" "sort_keys (sort_keys v) = sort_keys v" "b \<noteq> []"
      by (auto simp: table_ok_def)
    with v mem show "b \<noteq> [] \<and> table_parse t b = Some (sort_keys v) \<and> table_jcs t (sort_keys v) = Some b"
      by (simp add: table_parse_def swap table_jcs_def)
  qed
qed

type_synonym cursor_site = "string \<times> (string \<times> json) list \<times> json list"

definition cursor_envelope :: "string \<Rightarrow> json \<Rightarrow> json" where
  "cursor_envelope b p = JObj [(''checksum'', JStr (sha256_hex (cursor_domain @ b))), (''payload'', p)]"

fun cursor_table :: "cursor_site list \<Rightarrow> (json \<times> string) list" where
  "cursor_table [] = []"
| "cursor_table ((s, f, k) # cs) = (let b = CHR ''p'' # replicate (length cs) CHR ''x'' in
     [(cursor_payload s f k, b), (cursor_envelope b (cursor_payload s f k), CHR ''e'' # replicate (length cs) CHR ''x'')] @
     cursor_table cs)"

definition site_ok :: "cursor_site \<Rightarrow> bool" where
  "site_ok c \<longleftrightarrow> (case c of (s, f, k) \<Rightarrow> scalar_dict f \<and> sorted (map fst f) \<and> list_all scalar k)"

lemma cursor_table_texts: "(v, b) \<in> set (cursor_table cs) \<Longrightarrow>
    \<exists>n. n < length cs \<and> (b = CHR ''p'' # replicate n CHR ''x'' \<or> b = CHR ''e'' # replicate n CHR ''x'')"
  by (induction cs rule: cursor_table.induct) (auto simp: Let_def less_Suc_eq)

lemma cursor_table_values: "(v, b) \<in> set (cursor_table cs) \<Longrightarrow>
    \<exists>s f k. (s, f, k) \<in> set cs \<and> (v = cursor_payload s f k \<or> (\<exists>b. v = cursor_envelope b (cursor_payload s f k)))"
  by (induction cs rule: cursor_table.induct) (auto simp: Let_def)

lemma site_values:
  assumes "site_ok (s, f, k)"
  shows "plain_json (cursor_payload s f k)" "sort_keys (cursor_payload s f k) = cursor_payload s f k"
    "plain_json (cursor_envelope b (cursor_payload s f k))"
    "sort_keys (cursor_envelope b (cursor_payload s f k)) = cursor_envelope b (cursor_payload s f k)"
proof -
  have "sort_key fst f = f" using assms by (simp add: site_ok_def sort_key_sorted_id)
  then show payload: "plain_json (cursor_payload s f k)" "sort_keys (cursor_payload s f k) = cursor_payload s f k"
    using assms cursor_payload_facts[of f k s] by (simp_all add: site_ok_def)
  then show "plain_json (cursor_envelope b (cursor_payload s f k))"
      "sort_keys (cursor_envelope b (cursor_payload s f k)) = cursor_envelope b (cursor_payload s f k)"
    by (simp_all add: cursor_envelope_def less_eq_list_code less_list_code)
qed

lemma cursor_table_ok: "list_all site_ok cs \<Longrightarrow> table_ok (cursor_table cs)"
proof (induction cs rule: cursor_table.induct)
  case (2 s f k cs)
  have "(CHR ''p'' # replicate (length cs) CHR ''x'') \<notin> snd ` set (cursor_table cs)"
      "(CHR ''e'' # replicate (length cs) CHR ''x'') \<notin> snd ` set (cursor_table cs)"
    using cursor_table_texts by fastforce+
  with 2 site_values[of s f k] show ?case by (auto simp: table_ok_def Let_def)
qed (simp add: table_ok_def)

lemma cursor_payload_inject [simp]:
  "cursor_payload s f k = cursor_payload s' f' k' \<longleftrightarrow> s = s' \<and> f = f' \<and> k = k'"
  "cursor_envelope b p = cursor_envelope b' p' \<Longrightarrow> p = p'"
  "cursor_payload s f k \<noteq> cursor_envelope b p"
  by (auto simp: cursor_payload_def cursor_envelope_def)

text \<open>Every listed cursor is encoded, and short enough.\<close>

lemma b64_length: "length (b64_encode bs) \<le> 2 * length bs + 2"
  by (induction bs rule: b64_encode.induct) simp_all

lemma rstrip_length: "length (rstrip c s) \<le> length s"
  by (simp add: rstrip_def) (metis length_dropWhile_le length_rev)

lemma cursor_table_lookup:
  assumes "(s, f, k) \<in> set cs" "distinct cs"
  shows "\<exists>b e. map_of (cursor_table cs) (cursor_payload s f k) = Some b \<and>
    map_of (cursor_table cs) (cursor_envelope b (cursor_payload s f k)) = Some e \<and>
    e \<noteq> [] \<and> length e \<le> length cs"
  using assms
proof (induction cs rule: cursor_table.induct)
  case (2 s' f' k' cs)
  let ?b = "CHR ''p'' # replicate (length cs) CHR ''x''"
  show ?case
  proof (cases "(s, f, k) = (s', f', k')")
    case True
    then show ?thesis by (auto simp: Let_def cursor_payload_inject(3)[symmetric])
  next
    case False
    with 2 obtain b e where "map_of (cursor_table cs) (cursor_payload s f k) = Some b"
        "map_of (cursor_table cs) (cursor_envelope b (cursor_payload s f k)) = Some e" "e \<noteq> []" "length e \<le> length cs"
      by auto
    moreover have "cursor_payload s f k \<noteq> cursor_payload s' f' k'" using False by simp
    moreover from this have "cursor_envelope b (cursor_payload s f k) \<noteq> cursor_envelope b' (cursor_payload s' f' k')" for b'
      using cursor_payload_inject(2) by blast
    ultimately show ?thesis by (auto simp: Let_def cursor_payload_inject(3)[symmetric])
  qed
qed simp

section \<open>The deployment\<close>

definition listing_table :: "cursor_site list \<Rightarrow> (json \<times> string) list" where
  "listing_table cs = (JStr ''d'', ''d'') # cursor_table cs"

definition listing_env :: "cursor_site list \<Rightarrow> store_config" where
  "listing_env cs = \<lparr>env_jcs = table_jcs (listing_table cs), env_parse = table_parse (listing_table cs),
     dataset_codec = blank_codec, suite_codec = blank_codec, run_codec = blank_codec,
     decision_codec = \<lparr>dump_model = \<lambda>_. JStr ''d'', read_model = \<lambda>_. Some demo_decision\<rparr>,
     payload_handler = \<lambda>_. [], payload_reader = \<lambda>_. None, max_document_bytes = 1000, postgresql = False\<rparr>"

definition listing_dialect :: dialect where
  "listing_dialect = \<lparr>collate = id, other_forms = \<lambda>_. None\<rparr>"

lemma listing_env_simps [simp]:
  "env_jcs (listing_env cs) = table_jcs (listing_table cs)"
  "env_parse (listing_env cs) = table_parse (listing_table cs)"
  "inj (collate listing_dialect)" "collate listing_dialect = id"
  by (simp_all add: listing_env_def listing_dialect_def)

definition sites_ok :: "cursor_site list \<Rightarrow> bool" where
  "sites_ok cs \<longleftrightarrow> list_all site_ok cs \<and> distinct cs \<and> length cs \<le> 100"

lemma listing_json_text:
  "sites_ok cs \<Longrightarrow> json_text (table_jcs (listing_table cs)) (table_parse (listing_table cs))"
proof -
  assume cs: "sites_ok cs"
  have "''d'' \<notin> snd ` set (cursor_table cs)" using cursor_table_texts by fastforce
  moreover have "table_ok (cursor_table cs)" using cs by (intro cursor_table_ok) (simp add: sites_ok_def)
  ultimately have "table_ok (listing_table cs)" by (simp add: table_ok_def listing_table_def)
  then show ?thesis by (rule table_json_text)
qed

lemma listing_cursor_fits:
  assumes "sites_ok cs" "(s, sort_key fst f, k) \<in> set cs" "scalar_dict f" "list_all scalar k"
  shows "cursor_fits (encode_cursor (table_jcs (listing_table cs)) s f k)"
proof -
  let ?f = "sort_key fst f"
  obtain b e where be: "map_of (cursor_table cs) (cursor_payload s ?f k) = Some b"
      "map_of (cursor_table cs) (cursor_envelope b (cursor_payload s ?f k)) = Some e" "e \<noteq> []" "length e \<le> length cs"
    using cursor_table_lookup assms by (force simp: sites_ok_def)
  have "cursor_payload s f k \<noteq> JStr x" "cursor_envelope b p \<noteq> JStr x" for x b s f k p
    by (simp_all add: cursor_payload_def cursor_envelope_def)
  moreover have "plain_json (cursor_envelope b (cursor_payload s f k))"
      "sort_keys (cursor_envelope b (cursor_payload s f k)) = cursor_envelope b (cursor_payload s ?f k)"
    using cursor_payload_facts[OF assms(3,4), of s]
    by (simp_all add: cursor_envelope_def less_eq_list_code less_list_code)
  ultimately have jcs: "table_jcs (listing_table cs) (cursor_payload s f k) = Some b"
      "table_jcs (listing_table cs) (cursor_envelope b (cursor_payload s f k)) = Some e"
    using be(1,2) cursor_payload_facts[OF assms(3,4), of s] by (simp_all add: table_jcs_def listing_table_def)
  let ?c = "rstrip CHR ''='' (urlsafe_b64encode e)"
  have "encode_cursor (table_jcs (listing_table cs)) s f k = Inr ?c"
    using jcs by (simp add: encode_cursor_def canonical_json_bytes_def cursor_envelope_def Let_def)
  moreover have "length ?c \<le> 2048"
  proof -
    have "length ?c \<le> length (urlsafe_b64encode e)" by (rule rstrip_length)
    also have "\<dots> \<le> 2 * length e + 2" using b64_length[of "map of_char e"] by (simp add: urlsafe_b64encode_def)
    finally show ?thesis using be(4) assms(1) by (simp add: sites_ok_def)
  qed
  moreover have "?c \<noteq> []"
    using urlsafe_b64_roundtrip[of e] be(3) by (auto simp: urlsafe_b64decode_def pad_cursor_def)
  then have "1 \<le> length ?c" by (cases ?c) simp_all
  ultimately show ?thesis by (simp add: cursor_fits_def)
qed

lemma representable_zero: "representable 0"
  by (simp add: representable_def day_length_def epoch_ordinal_def max_ordinal_def)

lemma listing_letters [simp]:
  "is_artifact_name ''a''" "is_artifact_name ''b''" "is_run_id ''a''" "is_run_id ''b''"
  "is_sha256_digest sample_digest"
  using sample_digest_ok by (simp_all add: is_artifact_name_def is_run_id_def matches_def is_alnum_def is_alpha_def
      is_lower_def less_eq_char_def)

definition sample_columns :: history_columns where
  "sample_columns = (Some ''r'', Some 1, Some sample_digest)"

definition listing_db :: db where
  "listing_db = \<lparr>
     datasets_table = map (\<lambda>n. \<lparr>dr_name = n, dr_revision = 1, dr_digest = sample_digest, dr_case_count = 1,
       dr_document = [], dr_created_at = 0\<rparr>) [''b'', ''a''],
     suites_table = [\<lparr>sr_name = ''r'', sr_revision = 1, sr_digest = sample_digest, sr_dataset_name = ''a'',
       sr_dataset_revision = 1, sr_evaluator_count = 1, sr_metric_count = 1, sr_slice_count = 0,
       sr_gate_count = 1, sr_mode = LIVE, sr_document = [], sr_created_at = 0\<rparr>],
     jobs_table = [\<lparr>row_job = sample_job ''b'' RUNNING 1, row_version = 1\<rparr>,
       \<lparr>row_job = sample_job ''a'' QUEUED 0, row_version = 0\<rparr>],
     job_payloads_table = [], job_attempts_table = [],
     runs_table = map (\<lambda>i. \<lparr>rr_run_id = i, rr_digest = sample_digest, rr_dataset_name = ''a'',
       rr_dataset_revision = 1, rr_status = RUN_COMPLETED, rr_mode = LIVE, rr_input_units = 0,
       rr_output_units = 0, rr_suite = sample_columns, rr_target = sample_columns, rr_document = [],
       rr_created_at = 0\<rparr>) [''b'', ''a''],
     release_decisions_table = [\<lparr>dcr_decision_id = ''a'', dcr_digest = sample_digest, dcr_baseline = ''a'',
       dcr_candidate = ''b'', dcr_status = RELEASE_PASSED, dcr_suite = sample_columns, dcr_document = [],
       dcr_created_at = 0\<rparr>]\<rparr>"

definition site :: "string \<Rightarrow> (string \<times> json) list \<Rightarrow> json list \<Rightarrow> cursor_site" where
  "site stream filters key = (stream, sort_key fst filters, key)"

lemma site_ok_site: "scalar_dict f \<Longrightarrow> list_all scalar k \<Longrightarrow> site_ok (site s f k)"
  by (simp add: site_ok_def site_def scalar_dict_sort)

lemma site_distinct [simp]: "k \<noteq> k' \<Longrightarrow> site s f k \<noteq> site s' f' k'" "s \<noteq> s' \<Longrightarrow> site s f k \<noteq> site s' f' k'"
  by (simp_all add: site_def)

lemma site_fits:
  assumes "sites_ok cs" "site s f k \<in> set cs" "scalar_dict f" "list_all scalar k"
  shows "cursor_fits (encode_cursor (table_jcs (listing_table cs)) s f k)"
  using listing_cursor_fits assms unfolding site_def by blast

definition identity_site :: "string \<Rightarrow> (string \<times> json) list \<Rightarrow> string \<Rightarrow> cursor_site" where
  "identity_site stream filters n = site stream filters [cursor_time 0, JStr n]"

definition revision_site :: "string \<Rightarrow> (string \<times> json) list \<Rightarrow> string \<Rightarrow> cursor_site" where
  "revision_site stream filters n = site stream filters [cursor_time 0, JStr n, JInt 1]"

definition listing_sites :: "cursor_site list" where
  "listing_sites =
    [revision_site ''datasets'' (name_filters ''name'' None) ''a'',
     revision_site ''datasets'' (name_filters ''name'' None) ''b'',
     revision_site ''suites'' (name_filters ''name'' None) ''r'',
     identity_site ''jobs'' (job_filters None None) ''a'', identity_site ''jobs'' (job_filters None None) ''b'',
     identity_site ''runs'' (name_filters ''dataset_name'' None) ''a'',
     identity_site ''runs'' (name_filters ''dataset_name'' None) ''b'',
     identity_site ''release-decisions'' (decision_filters None DESCENDING) ''a'',
     identity_site ''suite-runs'' (value_of (history_filters (sample_ref SUITE) None None None)) ''a'',
     identity_site ''suite-runs'' (value_of (history_filters (sample_ref SUITE) None None None)) ''b'',
     identity_site ''suite-decisions'' (value_of (history_filters (sample_ref SUITE) None
       (Some (sample_ref TARGET)) (Some (sample_ref TARGET)))) ''a'',
     site ''suite-targets'' (group_filters (sample_ref SUITE)) (target_columns sample_columns),
     site ''suite-target-pairs'' (group_filters (sample_ref SUITE))
       (target_columns sample_columns @ target_columns sample_columns),
     site ''release-decision-cases'' (case_filters ''x'' None None None None) [JStr ''accuracy'', JStr [], JStr ''c1'']]"

lemma sample_resolved [simp]: "\<not> unresolved SUITE (sample_ref SUITE)" "\<not> unresolved TARGET (sample_ref TARGET)"
  by (simp_all add: unresolved_def sample_ref_def)

lemma sample_histories:
  "is_ok (history_filters (sample_ref SUITE) None None None)"
  "is_ok (history_filters (sample_ref SUITE) None (Some (sample_ref TARGET)) (Some (sample_ref TARGET)))"
  by (simp_all add: history_filters_def suite_filters_def target_filters_def resolved_filters_def)

lemma sample_history_scalar:
  "scalar_dict (value_of (history_filters (sample_ref SUITE) None None None))"
  "scalar_dict (value_of (history_filters (sample_ref SUITE) None (Some (sample_ref TARGET)) (Some (sample_ref TARGET))))"
  using sample_histories history_filters_scalar by (auto simp: is_ok_iff)

lemma listing_sites_ok: "sites_ok listing_sites"
proof -
  have "list_all scalar (target_columns sample_columns)"
    by (simp add: sample_columns_def target_columns_def optional_string_def)
  then have "list_all site_ok listing_sites"
    by (simp add: listing_sites_def identity_site_def revision_site_def site_ok_site scalar_dict_filters
        sample_history_scalar group_filters_scalar cursor_time_def)
  moreover have "distinct listing_sites"
    by (simp add: listing_sites_def identity_site_def revision_site_def)
  moreover have "length listing_sites \<le> 100" by (simp add: listing_sites_def)
  ultimately show ?thesis by (simp add: sites_ok_def)
qed

abbreviation demo_listing_env :: store_config where
  "demo_listing_env \<equiv> listing_env listing_sites"

lemma identity_fits:
  "identity_site s f n \<in> set listing_sites \<Longrightarrow> scalar_dict f \<Longrightarrow> cursor_fits (identity_cursor demo_listing_env s f 0 n)"
  unfolding identity_site_def identity_cursor_def listing_env_simps
  by (rule site_fits[OF listing_sites_ok]) (simp_all add: cursor_time_def)

lemma revision_fits:
  "revision_site s f n \<in> set listing_sites \<Longrightarrow> scalar_dict f \<Longrightarrow>
   created r = 0 \<Longrightarrow> name r = n \<Longrightarrow> revision r = 1 \<Longrightarrow>
   cursor_fits (revision_cursor demo_listing_env s f created name revision r)"
  unfolding revision_site_def revision_cursor_def listing_env_simps
  by (rule site_fits[OF listing_sites_ok]) (simp_all add: cursor_time_def)

section \<open>The demonstration tables are listable\<close>

lemma listing_text: "json_text (env_jcs demo_listing_env) (env_parse demo_listing_env)"
  by (simp add: listing_json_text listing_sites_ok)

lemma demo_datasets_listable: "datasets_listable demo_listing_env listing_dialect None listing_db"
proof -
  have "cursor_fits (dataset_cursor demo_listing_env None r)" if "r \<in> set (datasets_table listing_db)" for r
    using that
    by (intro revision_fits) (auto simp: listing_db_def listing_sites_def scalar_dict_filters)
  moreover have "is_ok (dataset_list_record_of r) \<and> representable (dr_created_at r)"
    if "r \<in> set (datasets_table listing_db)" for r
    using that by (auto simp: listing_db_def dataset_list_record_of_def projection_def rcatch_def representable_zero)
  moreover have "distinct (map (\<lambda>r. (dr_name r, dr_revision r)) (datasets_table listing_db))"
    by (simp add: listing_db_def)
  ultimately show ?thesis
    unfolding datasets_listable_def listable_def using listing_text
    by (simp add: matches_filter_def)
qed

lemma demo_suites_listable: "suites_listable demo_listing_env listing_dialect None listing_db"
proof -
  have "cursor_fits (suite_cursor demo_listing_env None r)" if "r \<in> set (suites_table listing_db)" for r
    using that
    by (intro revision_fits) (auto simp: listing_db_def listing_sites_def scalar_dict_filters)
  moreover have "is_ok (suite_list_record_of r) \<and> representable (sr_created_at r)"
    if "r \<in> set (suites_table listing_db)" for r
    using that by (auto simp: listing_db_def suite_list_record_of_def projection_def rcatch_def representable_zero)
  moreover have "distinct (map (\<lambda>r. (sr_name r, sr_revision r)) (suites_table listing_db))"
    by (simp add: listing_db_def)
  ultimately show ?thesis
    unfolding suites_listable_def listable_def using listing_text
    by (simp add: matches_filter_def)
qed

lemma demo_runs_listable: "runs_listable demo_listing_env listing_dialect None listing_db"
proof -
  have "cursor_fits (run_cursor demo_listing_env None r)" "is_ok (run_list_record_of r)" "representable (rr_created_at r)"
    if "r \<in> set (runs_table listing_db)" for r
    using that identity_fits[of "''runs''" "name_filters ''dataset_name'' None"]
    by (auto simp: listing_db_def listing_sites_def scalar_dict_filters run_list_record_of_def run_list_checks_def
        projection_def rcatch_def representable_zero)
  moreover have "distinct (map rr_run_id (runs_table listing_db))" by (simp add: listing_db_def)
  ultimately show ?thesis
    unfolding runs_listable_def listable_def using listing_text
    by (simp add: matches_filter_def)
qed

lemma demo_decisions_listable:
  "decisions_listable demo_listing_env listing_dialect None DESCENDING listing_db"
proof -
  have "cursor_fits (decision_cursor demo_listing_env None DESCENDING r)" "is_ok (decision_list_record_of r)"
      "representable (dcr_created_at r)" if "r \<in> set (release_decisions_table listing_db)" for r
    using that identity_fits[of "''release-decisions''" "decision_filters None DESCENDING"]
    by (auto simp: listing_db_def listing_sites_def scalar_dict_filters decision_list_record_of_def
        decision_list_checks_def projection_def rcatch_def representable_zero)
  moreover have "distinct (map dcr_decision_id (release_decisions_table listing_db))" by (simp add: listing_db_def)
  ultimately show ?thesis
    unfolding decisions_listable_def listable_def using listing_text
    by (simp add: matches_filter_def)
qed

lemma demo_jobs_listable: "jobs_listable demo_listing_env listing_dialect None None listing_db"
proof -
  have "valid_job (sample_job ''a'' QUEUED 0)" "valid_job (sample_job ''b'' RUNNING 1)"
    using sample_digest_ok
    by (simp_all add: sample_job_def valid_job_def job_fields_ok_def validate_state_def terminal_def)
  then have "is_ok (job_record_of r)" if "r \<in> set (jobs_table listing_db)" for r
    using that by (auto simp: listing_db_def is_ok_iff result_simps)
  moreover have "cursor_fits (job_cursor demo_listing_env None None r)" "representable (job_created_at (row_job r))"
    if "r \<in> set (jobs_table listing_db)" for r
    using that identity_fits[of "''jobs''" "job_filters None None" "''a''"]
      identity_fits[of "''jobs''" "job_filters None None" "''b''"]
    by (auto simp: listing_db_def listing_sites_def scalar_dict_filters sample_job_def representable_zero)
  moreover have "distinct (map row_job_id (jobs_table listing_db))" by (simp add: listing_db_def sample_job_def)
  ultimately show ?thesis
    unfolding jobs_listable_def listable_def using listing_text
    by (simp add: matches_filter_def)
qed

lemma sample_pin [simp]: "pin_columns (sample_ref k) = sample_columns"
  by (simp add: pin_columns_def sample_ref_def sample_columns_def)

lemma sample_target_valid:
  "validate_artifact_ref \<lparr>ref_kind = k, ref_name = ''r'', ref_revision = 1, ref_digest = Some sample_digest\<rparr> =
   Inr (sample_ref k)"
  by (simp add: validate_artifact_ref_def sample_ref_def)

lemma sample_pinned: "pinned_ref k sample_columns = Inr (sample_ref k)"
  by (simp add: pinned_ref_def sample_columns_def sample_target_valid) (simp add: sample_ref_def)

lemma demo_run_history:
  "history_listable demo_listing_env listing_dialect ''suite-runs'' run_history_table run_history_record_of
     (sample_ref SUITE) None None None listing_db"
proof -
  have ids: "distinct (map rr_run_id (runs_table listing_db))" by (simp add: listing_db_def)
  have rows: "history_rows run_history_table listing_db (sample_ref SUITE) None None None = runs_table listing_db"
    by (simp add: history_rows_def join_run_def run_history_table_def matches_filter_def listing_db_def)
  have "cursor_fits (history_cursor demo_listing_env ''suite-runs'' run_history_table
        (value_of (history_filters (sample_ref SUITE) None None None)) r)"
      "is_ok (history_record run_history_record_of r)" "representable (rr_created_at r)"
    if "r \<in> set (runs_table listing_db)" for r
    using that identity_fits[OF _ sample_history_scalar(1), of "''suite-runs''" "''a''"]
      identity_fits[OF _ sample_history_scalar(1), of "''suite-runs''" "''b''"]
    by (auto simp: listing_db_def listing_sites_def run_history_table_def history_record_def rcatch_def
        run_history_record_of_def sample_pinned run_list_checks_def representable_zero)
  then show ?thesis
    unfolding history_listable_def listable_def rows using listing_text sample_histories(1) ids
    by (simp add: run_history_table_def)
qed

lemma demo_decision_history:
  "history_listable demo_listing_env listing_dialect ''suite-decisions'' decision_history_table
     decision_history_record_of (sample_ref SUITE) None (Some (sample_ref TARGET)) (Some (sample_ref TARGET)) listing_db"
proof -
  let ?fs = "value_of (history_filters (sample_ref SUITE) None (Some (sample_ref TARGET)) (Some (sample_ref TARGET)))"
  have ids: "distinct (map rr_run_id (runs_table listing_db))" by (simp add: listing_db_def)
  have rows: "history_rows decision_history_table listing_db (sample_ref SUITE) None (Some (sample_ref TARGET))
      (Some (sample_ref TARGET)) = release_decisions_table listing_db"
    by (simp add: history_rows_def join_run_def decision_history_table_def matches_filter_def listing_db_def)
  have "cursor_fits (history_cursor demo_listing_env ''suite-decisions'' decision_history_table ?fs r)"
      "is_ok (history_record decision_history_record_of r)" "representable (dcr_created_at r)"
    if "r \<in> set (release_decisions_table listing_db)" for r
    using that identity_fits[OF _ sample_history_scalar(2), of "''suite-decisions''" "''a''"]
    by (auto simp: listing_db_def listing_sites_def decision_history_table_def history_record_def rcatch_def
        decision_history_record_of_def sample_pinned decision_list_checks_def representable_zero)
  moreover have "distinct (map dcr_decision_id (release_decisions_table listing_db))" by (simp add: listing_db_def)
  ultimately show ?thesis
    unfolding history_listable_def listable_def rows using listing_text sample_histories(2) ids
    by (simp add: decision_history_table_def)
qed

lemma sample_scalar_columns: "list_all scalar (target_columns sample_columns)"
  by (simp add: sample_columns_def target_columns_def optional_string_def)

lemma sample_resolved_columns: "resolved_columns sample_columns"
  by (simp add: resolved_columns_def sample_columns_def sample_target_valid)

lemma sample_target_of_columns: "target_of_columns sample_columns = Inr (sample_ref TARGET)"
  by (simp add: target_of_columns_def sample_columns_def sample_target_valid)

lemma demo_groups:
  "suite_targets (sample_ref SUITE) listing_db = [[sample_columns], [sample_columns]]"
  "target_pairs listing_db (sample_ref SUITE) = [[sample_columns, sample_columns]]"
  by (simp_all add: suite_targets_def target_pairs_def listing_db_def)

lemma demo_targets_listable:
  "groups_listable demo_listing_env (sample_ref SUITE) ''suite-targets'' (build_target (sample_ref SUITE)) 1
     (suite_targets (sample_ref SUITE) listing_db)"
proof -
  have "cursor_fits (group_cursor demo_listing_env (sample_ref SUITE) ''suite-targets'' [sample_columns])"
    unfolding group_cursor_def listing_env_simps
    by (rule site_fits[OF listing_sites_ok])
      (simp_all add: listing_sites_def group_filters_scalar sample_scalar_columns)
  moreover have "is_ok (group_record (build_target (sample_ref SUITE)) [sample_columns])"
    by (simp add: group_record_def rcatch_def sample_target_of_columns validate_target_group_def)
  ultimately show ?thesis
    unfolding groups_listable_def demo_groups using listing_text
    by (simp add: sample_resolved_columns)
qed

lemma demo_pairs_listable:
  "groups_listable demo_listing_env (sample_ref SUITE) ''suite-target-pairs'' (build_pair (sample_ref SUITE)) 2
     (target_pairs listing_db (sample_ref SUITE))"
proof -
  have "cursor_fits (group_cursor demo_listing_env (sample_ref SUITE) ''suite-target-pairs'' [sample_columns, sample_columns])"
    unfolding group_cursor_def listing_env_simps
    by (rule site_fits[OF listing_sites_ok])
      (simp_all add: listing_sites_def group_filters_scalar sample_scalar_columns)
  moreover have "is_ok (group_record (build_pair (sample_ref SUITE)) [sample_columns, sample_columns])"
    by (simp add: group_record_def rcatch_def sample_target_of_columns validate_target_pair_group_def
        validate_target_group_def)
  ultimately show ?thesis
    unfolding groups_listable_def demo_groups using listing_text
    by (simp add: sample_resolved_columns)
qed

section \<open>A stored decision\<close>

definition case_db :: db where
  "case_db = listing_db\<lparr>release_decisions_table := [\<lparr>dcr_decision_id = ''x'', dcr_digest = demo_digest,
     dcr_baseline = ''b1'', dcr_candidate = ''c1'', dcr_status = RELEASE_PASSED, dcr_suite = (None, None, None),
     dcr_document = ''d'', dcr_created_at = 0\<rparr>]\<rparr>"

lemma demo_content_not_plain: "\<not> plain_json (decision_content demo_decision)"
  by (simp add: decision_content_def demo_decision_def draft_decision_def aggregate_comparison_dump_def
      metric_aggregate_dump_def demo_aggregate_def optional_float_def demo_spec_def Let_def split: option.split)

lemma demo_decision_stored: "get_release_decision demo_listing_env case_db ''x'' =
    Inr \<lparr>decision_id = ''x'', decision = demo_decision, decision_created_at = 0\<rparr>"
proof -
  have "calculate_decision_digest (table_jcs (listing_table listing_sites)) demo_decision = Inr demo_digest"
    using demo_content_not_plain
    by (simp add: calculate_decision_digest_def sha256_digest_def canonical_json_bytes_def table_jcs_def demo_digest_def)
  moreover have "check_decision demo_decision = Inr demo_decision" "decision_digest demo_decision = demo_digest"
    by (simp_all add: check_decision_def draft_decision_def demo_decision_def demo_names unresolved_def
        dataset_ref_def demo_ref_def expected_release_status_def demo_gate_result_def demo_spec_def)
  ultimately have "validate_decision (table_jcs (listing_table listing_sites)) demo_decision = Inr demo_decision"
    by (simp add: validate_decision_def)
  moreover have "table_parse (listing_table listing_sites) ''d'' = Some (JStr ''d'')"
      "table_jcs (listing_table listing_sites) (JStr ''d'') = Some ''d''"
    by (simp_all add: table_parse_def table_jcs_def listing_table_def)
  moreover have "is_stable_id ''x''"
    by (simp add: is_stable_id_def matches_def is_alnum_def is_alpha_def is_lower_def less_eq_char_def)
  ultimately show ?thesis
    by (simp add: get_release_decision_def case_db_def release_decision_record_of_def validated_model_def
        listing_env_def canonical_json_bytes_def rcatch_def history_values_def demo_decision_def
        draft_decision_def)
qed

lemma demo_cases_listable: "cases_listable demo_listing_env ''x'' None None None None case_db"
proof -
  have cases: "stored_cases demo_listing_env ''x'' case_db = [demo_case_comparison]"
    by (simp add: stored_cases_def demo_decision_stored demo_decision_def draft_decision_def)
  have "item_key demo_case_comparison = (''accuracy'', [], ''c1'')"
    by (simp add: item_key_def demo_case_comparison_def Let_def)
  moreover have "cursor_fits (encode_cursor (table_jcs (listing_table listing_sites)) ''release-decision-cases''
      (case_filters ''x'' None None None None) [JStr ''accuracy'', JStr [], JStr ''c1''])"
    by (rule site_fits[OF listing_sites_ok]) (simp_all add: listing_sites_def scalar_dict_filters)
  ultimately have "cursor_fits (case_cursor demo_listing_env (case_filters ''x'' None None None None) demo_case_comparison)"
    by (simp add: case_cursor_def)
  then show ?thesis
    using listing_text by (simp add: cases_listable_def cases demo_decision_stored)
qed

section \<open>A service over these tables\<close>

definition listing_service :: service where
  "listing_service = demo_service\<lparr>repository :=
     \<lparr>config = demo_listing_env, others = \<lambda>_. [], statement_clock = statement_clock demo_session,
      locked_rows = \<lambda>_ _. False, delivery = \<lambda>_. Delivered\<rparr>\<rparr>"

end
