(* ===== verification/ListingProperties.thy ===== *)
theory ListingProperties
  imports ListingExample
begin

text \<open>
  The guarantees of the cursor-paginated listings. \<open>lists_once\<close> (theory \<open>ListingContract\<close>) says what a
  client that follows the cursors reads while other clients add rows: rows in the listing's order,
  none twice, and every row that was there at its first request once a page carries no cursor.
\<close>

text \<open>
  C36. A cursor opens the page it was issued for and no other: decoded in its own listing under its
  own filters, in any order, it is the key it was made from, and in another listing or under other
  filters it is refused. The serialiser and parser are only relied on to write the members of an
  object in key order and to read back what was written.
\<close>

theorem cursor_opens_its_listing:
  assumes "json_text jcs parse" "encode_cursor jcs stream filters key = Inr c" "length c \<le> 2048"
    and "scalar_dict filters" "list_all scalar key" "scalar_dict filters'"
  shows "decode_cursor jcs parse c stream' filters' =
    (if stream' = stream \<and> set filters' = set filters then Inr key else Inl invalid_cursor)"
  by (rule cursor_readback[OF assms])

text \<open>
  C33. A walk over the datasets or the suites, whole or of one name, with any page size, while
  revisions are registered, reads each revision once, in order of registration, name and revision.
\<close>

theorem catalogue_listed_once:
  assumes "1 \<le> limit" "limit \<le> 100" "dbs \<noteq> []"
    and "\<forall>db \<in> set dbs. datasets_listable env st name db \<and> suites_listable env st name db"
    and "successively (\<lambda>db db'. set (datasets_table db) \<subseteq> set (datasets_table db')) dbs"
    and "successively (\<lambda>db db'. set (suites_table db) \<subseteq> set (suites_table db')) dbs"
  shows "lists_once (\<lambda>db c. list_datasets env st db limit c name) dataset_list_record_of
      (\<lambda>r. matches_filter name (dr_name r)) (ahead False (dataset_order st)) datasets_table dbs \<and>
    lists_once (\<lambda>db c. list_suites env st db limit c name) suite_list_record_of
      (\<lambda>r. matches_filter name (sr_name r)) (ahead False (suite_order st)) suites_table dbs"
proof -
  obtain extra where limit: "limit = int (Suc extra)" "extra < 100" using limit_cases assms(1,2) .
  have good: "\<forall>db \<in> set dbs. extra < 100 \<and> datasets_listable env st name db"
      "\<forall>db \<in> set dbs. extra < 100 \<and> suites_listable env st name db"
    and final: "datasets_listable env st name (last dbs)" "suites_listable env st name (last dbs)"
    using assms(3,4) limit by simp_all
  show ?thesis unfolding limit(1)
    using lists_onceI[OF dataset_pages.walk[OF assms(3) good(1) grows_filtered[OF assms(5)]]
        final(1)[unfolded datasets_listable_def]]
      lists_onceI[OF suite_pages.walk[OF assms(3) good(2) grows_filtered[OF assms(6)]]
        final(2)[unfolded suites_listable_def]] ..
qed

text \<open>
  C34. A walk over the runs or over the release decisions, in either order, while evidence is
  published, reads each row once, by creation time and identifier.
\<close>

theorem evidence_listed_once:
  assumes "1 \<le> limit" "limit \<le> 100" "dbs \<noteq> []"
    and "\<forall>db \<in> set dbs. runs_listable env st name db \<and> decisions_listable env st status order db"
    and "successively (\<lambda>db db'. set (runs_table db) \<subseteq> set (runs_table db')) dbs"
    and "successively (\<lambda>db db'. set (release_decisions_table db) \<subseteq> set (release_decisions_table db')) dbs"
  shows "lists_once (\<lambda>db c. list_runs env st db limit c name) run_list_record_of
      (\<lambda>r. matches_filter name (rr_dataset_name r)) (ahead False (run_order st)) runs_table dbs \<and>
    lists_once (\<lambda>db c. list_release_decisions env st db limit c status order) decision_list_record_of
      (\<lambda>r. matches_filter status (dcr_status r)) (ahead (order = DESCENDING) (decision_order st))
      release_decisions_table dbs"
proof -
  obtain extra where limit: "limit = int (Suc extra)" "extra < 100" using limit_cases assms(1,2) .
  have good: "\<forall>db \<in> set dbs. extra < 100 \<and> runs_listable env st name db"
      "\<forall>db \<in> set dbs. extra < 100 \<and> decisions_listable env st status order db"
    and final: "runs_listable env st name (last dbs)" "decisions_listable env st status order (last dbs)"
    using assms(3,4) limit by simp_all
  show ?thesis unfolding limit(1)
    using lists_onceI[OF run_pages.walk[OF assms(3) good(1) grows_filtered[OF assms(5)]]
        final(1)[unfolded runs_listable_def]]
      lists_onceI[OF decision_pages.walk[OF assms(3) good(2) grows_filtered[OF assms(6)]]
        final(2)[unfolded decisions_listable_def]] ..
qed

text \<open>
  C35. A walk over the run or decision history of a suite revision, of one target or of one pair of
  targets, reads newest first each row pinned to exactly that revision (and, for decisions, whose
  baseline and candidate runs are of the pair), once, while evidence is published.
\<close>

theorem suite_histories_listed_once:
  assumes "1 \<le> limit" "limit \<le> 100" "dbs \<noteq> []"
    and "\<forall>db \<in> set dbs.
      history_listable env st ''suite-runs'' run_history_table run_history_record_of pinned target None None db \<and>
      history_listable env st ''suite-decisions'' decision_history_table decision_history_record_of
        pinned None baseline candidate db"
    and "successively (\<lambda>db db'. set (runs_table db) \<subseteq> set (runs_table db') \<and>
      set (release_decisions_table db) \<subseteq> set (release_decisions_table db')) dbs"
  shows "lists_once (\<lambda>db c. list_suite_runs env st db pinned limit c target)
      (history_record run_history_record_of) (\<lambda>_. True) (ahead True (identity_key st rr_created_at rr_run_id))
      (\<lambda>db. filter (\<lambda>r. rr_suite r = pin_columns pinned \<and> matches_filter (map_option pin_columns target) (rr_target r))
         (runs_table db)) dbs \<and>
    lists_once (\<lambda>db c. list_suite_decisions env st db pinned limit c baseline candidate)
      (history_record decision_history_record_of) (\<lambda>_. True)
      (ahead True (identity_key st dcr_created_at dcr_decision_id))
      (\<lambda>db. filter (\<lambda>r. dcr_suite r = pin_columns pinned \<and> joined db pinned baseline (dcr_baseline r) \<and>
         joined db pinned candidate (dcr_candidate r)) (release_decisions_table db)) dbs"
proof -
  obtain extra where limit: "limit = int (Suc extra)" "extra < 100" using limit_cases assms(1,2) .
  let ?runs = "\<lambda>db. history_rows run_history_table db pinned target None None"
  let ?decisions = "\<lambda>db. history_rows decision_history_table db pinned None baseline candidate"
  have good: "\<forall>db \<in> set dbs. extra < 100 \<and> history_listable env st ''suite-runs'' run_history_table
        run_history_record_of pinned target None None db"
      "\<forall>db \<in> set dbs. extra < 100 \<and> history_listable env st ''suite-decisions'' decision_history_table
        decision_history_record_of pinned None baseline candidate db"
    using assms(4) limit by simp_all
  have growth: "successively (\<lambda>db db'. set (?runs db) \<subseteq> set (?runs db')) dbs"
      "successively (\<lambda>db db'. set (?decisions db) \<subseteq> set (?decisions db')) dbs"
    using assms(5)
    by (auto elim!: successively_mono intro: in_history_mono
        simp: set_history_rows run_history_table_def decision_history_table_def)
  have final: "last dbs \<in> set dbs" using assms(3) by simp
  have walks: "lists_once (\<lambda>db c. list_suite_runs env st db pinned limit c target)
      (history_record run_history_record_of) (\<lambda>_. True)
      (ahead True (identity_key st rr_created_at rr_run_id)) ?runs dbs"
    "lists_once (\<lambda>db c. list_suite_decisions env st db pinned limit c baseline candidate)
      (history_record decision_history_record_of) (\<lambda>_. True)
      (ahead True (identity_key st dcr_created_at dcr_decision_id)) ?decisions dbs"
    unfolding limit(1)
    using lists_onceI[OF suite_run_pages.walk[OF assms(3) good(1) grows_filtered[OF growth(1)]]]
      lists_onceI[OF suite_decision_pages.walk[OF assms(3) good(2) grows_filtered[OF growth(2)]]]
      good final by (fastforce simp: history_listable_def)+
  have rows: "set (?runs db) = {r \<in> set (runs_table db). rr_suite r = pin_columns pinned \<and>
        matches_filter (map_option pin_columns target) (rr_target r)}"
      "set (?decisions db) = {r \<in> set (release_decisions_table db). dcr_suite r = pin_columns pinned \<and>
        joined db pinned baseline (dcr_baseline r) \<and> joined db pinned candidate (dcr_candidate r)}" for db
    by (auto simp: set_history_rows in_history_def run_history_table_def decision_history_table_def
        joined_def matches_filter_def)
  show ?thesis using walks by (simp add: lists_once_def rows)
qed

text \<open>
  C37. On a store at rest a walk ends: asking often enough for the jobs, of any kind and status,
  returns exactly the matching jobs in order of submission, and then no further cursor. The same
  holds of the targets observed under a suite revision and of the directed pairs its decisions
  compared: each appears once.
\<close>

theorem listings_end:
  assumes "1 \<le> limit" "limit \<le> 100" "0 < requests"
    and jobs: "jobs_listable env st kind status db"
      "length (jobs_table db) \<le> requests * nat limit"
    and groups: "groups_listable env pinned ''suite-targets'' (build_target pinned) 1 (suite_targets pinned db)"
      "groups_listable env pinned ''suite-target-pairs'' (build_pair pinned) 2 (target_pairs db pinned)"
      "length (runs_table db) \<le> requests * nat limit" "length (target_pairs db pinned) \<le> requests * nat limit"
  shows "(\<exists>items. follow (\<lambda>db c. list_jobs env st db limit c kind status) (replicate requests db) None = Inr (items, True) \<and>
      rmap job_record_of (ordered_rows False (job_order st) (\<lambda>r. matches_filter kind (job_kind (row_job r)) \<and>
        matches_filter status (job_status (row_job r))) (jobs_table db)) = Inr items) \<and>
    (\<exists>items. follow (\<lambda>db c. list_suite_targets env db pinned limit c) (replicate requests db) None = Inr (items, True) \<and>
      rmap (group_record (build_target pinned)) (sort (remdups (suite_targets pinned db))) = Inr items) \<and>
    (\<exists>items. follow (\<lambda>db c. list_suite_target_pairs env db pinned limit c) (replicate requests db) None = Inr (items, True) \<and>
      rmap (group_record (build_pair pinned)) (sort (remdups (target_pairs db pinned))) = Inr items)"
proof -
  obtain extra where limit: "limit = int (Suc extra)" "extra < 100" using limit_cases assms(1,2) .
  have size: "nat limit = Suc extra" using limit(1) by simp
  have sorted: "ordered_rows False id (\<lambda>_. True) xs = sort xs" for xs :: "history_columns list list"
    by (simp add: ordered_rows_def id_def)
  let ?sel = "\<lambda>r. matches_filter kind (job_kind (row_job r)) \<and> matches_filter status (job_status (row_job r))"
  let ?jobs = "ordered_rows False (job_order st) ?sel (jobs_table db)"
  have "length ?jobs \<le> requests * Suc extra"
    using order_trans[OF length_filter_le jobs(2)] size by (simp only: length_ordered_rows)
  then have "follow (\<lambda>db c. list_jobs env st db limit c kind status) (replicate requests db) None =
      Inr (map (\<lambda>r. value_of (job_record_of r)) ?jobs, True)"
    unfolding limit(1) by (intro job_pages.walk_frozen) (use jobs(1) limit assms(3) in simp_all)
  moreover have "\<forall>r \<in> set ?jobs. is_ok (job_record_of r)"
    using jobs(1) listableD(4) by (fastforce simp: jobs_listable_def)
  ultimately have first: "\<exists>items. follow (\<lambda>db c. list_jobs env st db limit c kind status) (replicate requests db) None =
      Inr (items, True) \<and> rmap job_record_of ?jobs = Inr items"
    by (rule walked_records)
  have "length (suite_targets pinned db) \<le> requests * Suc extra"
    using order_trans[OF length_filter_le groups(3)] size by (simp only: suite_targets_def length_map)
  then have "follow (\<lambda>db c. list_suite_targets env db pinned limit c) (replicate requests db) None =
      Inr (map (\<lambda>c. value_of (group_record (build_target pinned) c)) (sort (remdups (suite_targets pinned db))), True)"
    unfolding limit(1) sorted[symmetric]
    by (intro suite_target_pages.walk_frozen)
      (use groups(1) limit assms(3) order_trans[OF length_remdups_leq] in simp_all)
  then have second: "\<exists>items. follow (\<lambda>db c. list_suite_targets env db pinned limit c) (replicate requests db) None =
      Inr (items, True) \<and> rmap (group_record (build_target pinned)) (sort (remdups (suite_targets pinned db))) = Inr items"
    by (rule walked_records) (use groups(1) in \<open>simp add: groups_listable_def\<close>)
  have "follow (\<lambda>db c. list_suite_target_pairs env db pinned limit c) (replicate requests db) None =
      Inr (map (\<lambda>c. value_of (group_record (build_pair pinned) c)) (sort (remdups (target_pairs db pinned))), True)"
    unfolding limit(1) sorted[symmetric]
    by (intro suite_target_pair_pages.walk_frozen)
      (use groups(2,4) limit size assms(3) order_trans[OF length_remdups_leq] in simp_all)
  then have "\<exists>items. follow (\<lambda>db c. list_suite_target_pairs env db pinned limit c) (replicate requests db) None =
      Inr (items, True) \<and> rmap (group_record (build_pair pinned)) (sort (remdups (target_pairs db pinned))) = Inr items"
    by (rule walked_records) (use groups(2) in \<open>simp add: groups_listable_def\<close>)
  with first second show ?thesis by blast
qed

text \<open>
  C38. A walk over the cases of a stored decision, under any of the four filters, returns exactly the
  matching cases in the decision's own order, whatever the page size, and ends.
\<close>

theorem decision_cases_listed:
  assumes "1 \<le> limit" "limit \<le> 100" "0 < requests"
    and "cases_listable env did metric within_gate case_slice wanted db"
    and "get_release_decision env db did = Inr r" "length (decision_cases (decision r)) \<le> requests * nat limit"
  shows "follow (\<lambda>db c. list_release_decision_cases env db did limit c metric within_gate case_slice wanted)
      (replicate requests db) None =
    Inr (filter (case_selected metric within_gate case_slice wanted) (decision_cases (decision r)), True)"
proof -
  obtain extra where limit: "limit = int (Suc extra)" "extra < 100" using limit_cases assms(1,2) .
  let ?sel = "case_selected metric within_gate case_slice wanted"
  have cases: "stored_cases env did db = decision_cases (decision r)" using assms(5) by (simp add: stored_cases_def)
  have order: "ordered_rows False item_key ?sel (stored_cases env did db) = filter ?sel (decision_cases (decision r))"
    using stored_cases_sorted[OF assms(5)]
    by (simp add: ordered_rows_def cases sort_key_sorted_id sorted_filter)
  have "length (filter ?sel (decision_cases (decision r))) \<le> requests * Suc extra"
    using order_trans[OF length_filter_le assms(6)] limit(1) by (simp only: nat_int)
  then have "follow (\<lambda>db c. list_release_decision_cases env db did limit c metric within_gate case_slice wanted)
      (replicate requests db) None = Inr (map (\<lambda>x. x) (ordered_rows False item_key ?sel (stored_cases env did db)), True)"
    unfolding limit(1) by (intro case_pages.walk_frozen) (use assms limit cases in simp_all)
  then show ?thesis by (simp add: order)
qed


section \<open>Witnesses\<close>

theorem cursor_opens_its_listing_witness:
  "\<exists>c. encode_cursor (env_jcs demo_listing_env) ''jobs'' (job_filters None None) [cursor_time 0, JStr ''a''] = Inr c \<and>
    decode_cursor (env_jcs demo_listing_env) (env_parse demo_listing_env) c ''jobs'' (job_filters None None) =
      Inr [cursor_time 0, JStr ''a''] \<and>
    decode_cursor (env_jcs demo_listing_env) (env_parse demo_listing_env) c ''runs'' (job_filters None None) =
      Inl invalid_cursor"
proof -
  have "cursor_fits (identity_cursor demo_listing_env ''jobs'' (job_filters None None) 0 ''a'')"
    by (rule identity_fits) (simp_all add: listing_sites_def scalar_dict_filters)
  then obtain c where c: "encode_cursor (env_jcs demo_listing_env) ''jobs'' (job_filters None None)
      [cursor_time 0, JStr ''a''] = Inr c" "length c \<le> 2048"
    by (auto simp: cursor_fits_iff identity_cursor_def)
  have "list_all scalar [cursor_time 0, JStr ''a'']" by (simp add: cursor_time_def)
  from cursor_opens_its_listing[OF listing_text c scalar_dict_filters(3) this scalar_dict_filters(3)] c(1)
  show ?thesis by auto
qed

theorem catalogue_listed_once_witness:
  "lists_once (\<lambda>db c. list_datasets demo_listing_env listing_dialect db 1 c None) dataset_list_record_of
      (\<lambda>r. matches_filter None (dr_name r)) (ahead False (dataset_order listing_dialect)) datasets_table
      [listing_db, listing_db, listing_db] \<and>
    lists_once (\<lambda>db c. list_suites demo_listing_env listing_dialect db 1 c None) suite_list_record_of
      (\<lambda>r. matches_filter None (sr_name r)) (ahead False (suite_order listing_dialect)) suites_table
      [listing_db, listing_db, listing_db]"
  by (rule catalogue_listed_once) (simp_all add: demo_datasets_listable demo_suites_listable)

theorem evidence_listed_once_witness:
  "lists_once (\<lambda>db c. list_runs demo_listing_env listing_dialect db 1 c None) run_list_record_of
      (\<lambda>r. matches_filter None (rr_dataset_name r)) (ahead False (run_order listing_dialect)) runs_table
      [listing_db, listing_db, listing_db] \<and>
    lists_once (\<lambda>db c. list_release_decisions demo_listing_env listing_dialect db 1 c None DESCENDING)
      decision_list_record_of (\<lambda>r. matches_filter None (dcr_status r))
      (ahead (DESCENDING = DESCENDING) (decision_order listing_dialect)) release_decisions_table
      [listing_db, listing_db, listing_db]"
  by (rule evidence_listed_once) (simp_all add: demo_runs_listable demo_decisions_listable)

theorem suite_histories_listed_once_witness:
  "lists_once (\<lambda>db c. list_suite_runs demo_listing_env listing_dialect db (sample_ref SUITE) 1 c None)
      (history_record run_history_record_of) (\<lambda>_. True)
      (ahead True (identity_key listing_dialect rr_created_at rr_run_id))
      (\<lambda>db. filter (\<lambda>r. rr_suite r = pin_columns (sample_ref SUITE) \<and> matches_filter (map_option pin_columns None) (rr_target r))
         (runs_table db)) [listing_db, listing_db] \<and>
    lists_once (\<lambda>db c. list_suite_decisions demo_listing_env listing_dialect db (sample_ref SUITE) 1 c
        (Some (sample_ref TARGET)) (Some (sample_ref TARGET)))
      (history_record decision_history_record_of) (\<lambda>_. True)
      (ahead True (identity_key listing_dialect dcr_created_at dcr_decision_id))
      (\<lambda>db. filter (\<lambda>r. dcr_suite r = pin_columns (sample_ref SUITE) \<and>
         joined db (sample_ref SUITE) (Some (sample_ref TARGET)) (dcr_baseline r) \<and>
         joined db (sample_ref SUITE) (Some (sample_ref TARGET)) (dcr_candidate r)) (release_decisions_table db))
      [listing_db, listing_db]"
  by (rule suite_histories_listed_once) (simp_all add: demo_run_history demo_decision_history)

theorem listings_end_witness:
  "(\<exists>items. follow (\<lambda>db c. list_jobs demo_listing_env listing_dialect db 1 c None None) (replicate 2 listing_db) None =
      Inr (items, True) \<and>
    rmap job_record_of (ordered_rows False (job_order listing_dialect)
      (\<lambda>r. matches_filter None (job_kind (row_job r)) \<and> matches_filter None (job_status (row_job r)))
      (jobs_table listing_db)) = Inr items) \<and>
   (\<exists>items. follow (\<lambda>db c. list_suite_targets demo_listing_env db (sample_ref SUITE) 1 c) (replicate 2 listing_db) None =
      Inr (items, True) \<and>
    rmap (group_record (build_target (sample_ref SUITE))) (sort (remdups (suite_targets (sample_ref SUITE) listing_db))) =
      Inr items) \<and>
   (\<exists>items. follow (\<lambda>db c. list_suite_target_pairs demo_listing_env db (sample_ref SUITE) 1 c)
      (replicate 2 listing_db) None = Inr (items, True) \<and>
    rmap (group_record (build_pair (sample_ref SUITE))) (sort (remdups (target_pairs listing_db (sample_ref SUITE)))) =
      Inr items)"
proof (rule listings_end)
  show "length (target_pairs listing_db (sample_ref SUITE)) \<le> 2 * nat 1" by (simp add: demo_groups)
  show "length (jobs_table listing_db) \<le> 2 * nat 1" "length (runs_table listing_db) \<le> 2 * nat 1"
    by (simp_all add: listing_db_def)
qed (rule demo_jobs_listable demo_targets_listable demo_pairs_listable | simp)+

theorem decision_cases_listed_witness:
  "follow (\<lambda>db c. list_release_decision_cases demo_listing_env db ''x'' 1 c None None None None)
     (replicate 1 case_db) None =
   Inr (filter (case_selected None None None None) (decision_cases demo_decision), True)"
  using decision_cases_listed[OF _ _ _ demo_cases_listable demo_decision_stored, of 1 1]
  by (simp add: demo_decision_def draft_decision_def)


end
