(* ===== verification/Transport.thy ===== *)
theory Transport
  imports ServiceListings Analytics Scorers Telemetry
begin

text \<open>
  The public contracts of the API (\<open>api/contracts.py\<close>): what a request body may hold, its
  conversion to the domain, and the redacted responses. A request record holds values of the
  declared types, into which pydantic has turned the JSON; its function named \<open>accept_\<close> is the declared
  bounds and the validators. A response keeps the code's \<open>schema_version\<close>.
\<close>

section \<open>Datasets\<close>

text \<open>\<open>ci_expected\<close> is \<open>None\<close> when the field was not set; a JSON null was.\<close>

record case_input =
  ci_case_id :: string
  ci_input :: json
  ci_expected :: "json option"
  ci_expected_refusal :: bool
  ci_expected_schema :: json
  ci_numeric_tolerance :: "rat option"
  ci_slices :: "string list"

definition accept_case_input :: "case_input \<Rightarrow> case_input res" where
  "accept_case_input c = rbind (checks
     [(\<not> is_case_id (ci_case_id c), ValidationError ''case_id''),
      (case ci_numeric_tolerance c of None \<Rightarrow> False | Some t \<Rightarrow> \<not> 0 \<le> t, ValidationError ''numeric_tolerance''),
      (length (ci_slices c) > 32 \<or> (\<exists>s \<in> set (ci_slices c). \<not> is_slice_label s), ValidationError ''slices''),
      (has_duplicates (ci_slices c), ValidationError ''slice labels must be unique'')])
     (\<lambda>_. Inr (c\<lparr>ci_slices := sort (ci_slices c)\<rparr>))"

text \<open>\<open>CanonicalJson.from_value\<close>: the value its canonical text stands for.\<close>

definition canonical_value :: "store_config \<Rightarrow> json \<Rightarrow> json res" where
  "canonical_value env v =
     rbind (canonical_json_bytes (env_jcs env) v) (\<lambda>text.
     rbind (checks [(text = [], ValidationError ''canonical'')]) (\<lambda>_.
     rcatch is_value_error (\<lambda>_. Inl (ValidationError ''canonical''))
       (rbind (of_option (CanonicalJsonError ''invalid_json'') (env_parse env text)) (\<lambda>parsed.
        rbind (canonical_json_bytes (env_jcs env) parsed) (\<lambda>canonical.
        rbind (checks [(text \<noteq> canonical, ValueError ''JSON text must use RFC 8785 canonical form'')])
          (\<lambda>_. Inr parsed))))))"

definition optional_value :: "store_config \<Rightarrow> json option \<Rightarrow> json option res" where
  "optional_value env v = (case v of None \<Rightarrow> Inr None | Some x \<Rightarrow> rbind (canonical_value env x) (\<lambda>y. Inr (Some y)))"

definition case_to_domain :: "store_config \<Rightarrow> case_input \<Rightarrow> evaluation_case res" where
  "case_to_domain env c =
     rbind (optional_value env (ci_expected c)) (\<lambda>wanted.
     rbind (canonical_value env (ci_input c)) (\<lambda>given.
     rbind (optional_value env (if ci_expected_schema c = JNull then None else Some (ci_expected_schema c)))
       (\<lambda>schema. validate_evaluation_case
         \<lparr>case_id = ci_case_id c, case_input = given, expected = wanted,
          expected_refusal = ci_expected_refusal c, expected_schema = schema,
          numeric_tolerance = ci_numeric_tolerance c, case_slices = ci_slices c\<rparr>)))"

record dataset_request =
  dq_name :: string
  dq_revision :: int
  dq_cases :: "case_input list"

definition accept_dataset :: "dataset_request \<Rightarrow> dataset_request res" where
  "accept_dataset q = rbind (checks
     [(\<not> is_artifact_name (dq_name q), ValidationError ''name''),
      (\<not> 0 < dq_revision q, ValidationError ''revision''),
      (dq_cases q = [] \<or> length (dq_cases q) > 1000, ValidationError ''cases'')]) (\<lambda>_.
     rbind (rmap accept_case_input (dq_cases q)) (\<lambda>cs. rbind (checks
     [(card (\<Union>c \<in> set cs. set (ci_slices c)) > 128,
       ValidationError ''dataset contains too many unique slices'')]) (\<lambda>_. Inr (q\<lparr>dq_cases := cs\<rparr>))))"

definition dataset_to_domain :: "store_config \<Rightarrow> dataset_request \<Rightarrow> dataset_version res" where
  "dataset_to_domain env q = rbind (rmap (case_to_domain env) (dq_cases q))
     (create_dataset (env_jcs env) (dq_name q) (dq_revision q))"

section \<open>Runs\<close>

definition scenario_literals :: "string list" where
  "scenario_literals = [''echo'', ''malformed'', ''mismatch'', ''missing_usage'', ''offset'', ''raise'',
     ''refuse'', ''uppercase'']"

definition overrides_ok :: "overrides \<Rightarrow> bool" where
  "overrides_ok os \<longleftrightarrow> length os \<le> 1000 \<and>
     list_all (\<lambda>(c, s). is_case_id c \<and> s \<in> set scenario_literals) os"

record run_request =
  rq_dataset_name :: string
  rq_dataset_revision :: int
  rq_target_name :: string
  rq_target_revision :: int
  rq_adapter :: string
  rq_evaluators :: "evaluator_kind list"
  rq_overrides :: overrides

definition accept_run :: "run_request \<Rightarrow> run_request res" where
  "accept_run q = rbind (checks
     [(\<not> is_artifact_name (rq_dataset_name q) \<or> \<not> is_artifact_name (rq_target_name q), ValidationError ''name''),
      (\<not> 0 < rq_dataset_revision q \<or> \<not> 0 < rq_target_revision q, ValidationError ''revision''),
      (rq_adapter q \<noteq> ''deterministic_fake'', ValidationError ''adapter''),
      (rq_evaluators q = [] \<or> length (rq_evaluators q) > length evaluator_kinds, ValidationError ''evaluators''),
      (\<not> overrides_ok (rq_overrides q), ValidationError ''scenario_overrides''),
      (has_duplicates (rq_evaluators q), ValidationError ''evaluator kinds must be unique'')])
     (\<lambda>_. Inr (q\<lparr>rq_evaluators := sort_key evaluator_kind_value (rq_evaluators q)\<rparr>))"

record suite_run_request =
  srq_suite_name :: string
  srq_suite_revision :: int
  srq_target_name :: string
  srq_target_revision :: int
  srq_overrides :: overrides

definition accept_suite_run :: "suite_run_request \<Rightarrow> suite_run_request res" where
  "accept_suite_run q = rbind (checks
     [(\<not> is_artifact_name (srq_suite_name q) \<or> \<not> is_artifact_name (srq_target_name q), ValidationError ''name''),
      (\<not> 0 < srq_suite_revision q \<or> \<not> 0 < srq_target_revision q, ValidationError ''revision''),
      (\<not> overrides_ok (srq_overrides q), ValidationError ''scenario_overrides'')]) (\<lambda>_. Inr q)"

record suite_comparison_request =
  scq_suite_name :: string
  scq_suite_revision :: int
  scq_baseline_run_id :: string
  scq_candidate_run_id :: string

definition accept_suite_comparison :: "suite_comparison_request \<Rightarrow> suite_comparison_request res" where
  "accept_suite_comparison q = rbind (checks
     [(\<not> is_artifact_name (scq_suite_name q), ValidationError ''suite_name''),
      (\<not> 0 < scq_suite_revision q, ValidationError ''suite_revision''),
      (\<not> is_run_id (scq_baseline_run_id q) \<or> \<not> is_run_id (scq_candidate_run_id q), ValidationError ''run_id'')])
     (\<lambda>_. Inr q)"

section \<open>Suites and comparisons\<close>

record ref_input =
  ri_kind :: artifact_kind
  ri_name :: string
  ri_revision :: int
  ri_digest :: string

definition ref_input_ok :: "ref_input \<Rightarrow> bool" where
  "ref_input_ok r \<longleftrightarrow> is_artifact_name (ri_name r) \<and> 0 < ri_revision r \<and> is_sha256_digest (ri_digest r)"

definition ref_to_domain :: "ref_input \<Rightarrow> artifact_ref res" where
  "ref_to_domain r = validate_artifact_ref
     \<lparr>ref_kind = ri_kind r, ref_name = ri_name r, ref_revision = ri_revision r, ref_digest = Some (ri_digest r)\<rparr>"

record suite_evaluator_input =
  ei_kind :: evaluator_kind
  ei_artifact :: ref_input
  ei_metrics :: "string list"

definition evaluator_input_ok :: "suite_evaluator_input \<Rightarrow> bool" where
  "evaluator_input_ok e \<longleftrightarrow> ref_input_ok (ei_artifact e) \<and> ei_metrics e \<noteq> [] \<and> length (ei_metrics e) \<le> 32 \<and>
     list_all is_metric_name (ei_metrics e)"

definition evaluator_to_domain :: "suite_evaluator_input \<Rightarrow> suite_evaluator res" where
  "evaluator_to_domain e = rbind (ref_to_domain (ei_artifact e)) (\<lambda>r. validate_suite_evaluator
     \<lparr>executor_name = evaluator_kind_value (ei_kind e), evaluator_artifact = r, evaluator_metrics = ei_metrics e\<rparr>)"

text \<open>Every field of \<open>SuiteExecutionInput\<close> is a literal with one value.\<close>

definition execution_to_domain :: suite_execution_settings where
  "execution_to_domain = \<lparr>exec_adapter = ''deterministic_fake'', exec_mode = OFFLINE_MOCK\<rparr>"

record gate_input =
  gi_metric :: string
  gi_direction :: metric_direction
  gi_threshold :: rat
  gi_allowed_regression :: rat
  gi_slice :: "string option"

definition gate_input_ok :: "gate_input \<Rightarrow> bool" where
  "gate_input_ok g \<longleftrightarrow> is_metric_name (gi_metric g) \<and> 0 \<le> gi_allowed_regression g \<and>
     (case gi_slice g of None \<Rightarrow> True | Some s \<Rightarrow> is_slice_label s)"

definition gate_to_domain :: "gate_input \<Rightarrow> metric_gate res" where
  "gate_to_domain g = validate_metric_gate
     \<lparr>gate_metric = gi_metric g, gate_slice = gi_slice g, gate_direction = gi_direction g,
      gate_threshold = gi_threshold g, gate_allowed_regression = Finite (gi_allowed_regression g)\<rparr>"

record suite_request =
  sq_name :: string
  sq_revision :: int
  sq_dataset :: ref_input
  sq_evaluators :: "suite_evaluator_input list"
  sq_slices :: "string list"
  sq_gates :: "gate_input list"

definition accept_suite :: "suite_request \<Rightarrow> suite_request res" where
  "accept_suite q = rbind (checks
     [(\<not> is_artifact_name (sq_name q), ValidationError ''name''),
      (\<not> 0 < sq_revision q, ValidationError ''revision''),
      (\<not> ref_input_ok (sq_dataset q), ValidationError ''dataset''),
      (sq_evaluators q = [] \<or> length (sq_evaluators q) > 32 \<or> \<not> list_all evaluator_input_ok (sq_evaluators q),
       ValidationError ''evaluators''),
      (length (sq_slices q) > 128 \<or> \<not> list_all is_slice_label (sq_slices q), ValidationError ''slices''),
      (sq_gates q = [] \<or> length (sq_gates q) > 64 \<or> \<not> list_all gate_input_ok (sq_gates q),
       ValidationError ''gates'')]) (\<lambda>_. Inr q)"

definition suite_to_domain :: "store_config \<Rightarrow> suite_request \<Rightarrow> evaluation_suite res" where
  "suite_to_domain env q =
     rbind (ref_to_domain (sq_dataset q)) (\<lambda>d.
     rbind (rmap evaluator_to_domain (sq_evaluators q)) (\<lambda>es.
     rbind (rmap gate_to_domain (sq_gates q)) (\<lambda>gs.
     create_suite (env_jcs env)
       \<lparr>suite_name = sq_name q, suite_revision = sq_revision q, suite_digest = [], suite_dataset = d,
        suite_evaluators = es, suite_slices = sq_slices q, suite_execution = execution_to_domain,
        suite_gates = gs\<rparr>)))"

record spec_input =
  pi_name :: string
  pi_dataset :: ref_input
  pi_candidate :: ref_input
  pi_baseline :: ref_input
  pi_gates :: "metric_gate list"

definition spec_to_domain :: "spec_input \<Rightarrow> evaluation_spec res" where
  "spec_to_domain q =
     rbind (ref_to_domain (pi_dataset q)) (\<lambda>d. rbind (ref_to_domain (pi_candidate q)) (\<lambda>c.
     rbind (ref_to_domain (pi_baseline q)) (\<lambda>b. validate_evaluation_spec
       \<lparr>spec_name = pi_name q, spec_dataset = d, spec_candidate = c, spec_baseline = Some b,
        spec_gates = pi_gates q\<rparr>)))"

definition accept_spec :: "spec_input \<Rightarrow> spec_input res" where
  "accept_spec q = rbind (checks
     [(\<not> is_artifact_name (pi_name q), ValidationError ''name''),
      (\<not> ref_input_ok (pi_dataset q) \<or> \<not> ref_input_ok (pi_candidate q) \<or> \<not> ref_input_ok (pi_baseline q),
       ValidationError ''reference''),
      (pi_gates q = [] \<or> length (pi_gates q) > 64, ValidationError ''gates'')]) (\<lambda>_.
     rbind (rmap validate_metric_gate (pi_gates q)) (\<lambda>_.
     rbind (spec_to_domain q) (\<lambda>_. Inr q)))"

record comparison_request =
  cq_dataset_name :: string
  cq_dataset_revision :: int
  cq_baseline_run_id :: string
  cq_candidate_run_id :: string
  cq_spec :: spec_input

definition accept_comparison :: "comparison_request \<Rightarrow> comparison_request res" where
  "accept_comparison q = rbind (checks
     [(\<not> is_artifact_name (cq_dataset_name q), ValidationError ''dataset_name''),
      (\<not> 0 < cq_dataset_revision q, ValidationError ''dataset_revision''),
      (\<not> is_run_id (cq_baseline_run_id q) \<or> \<not> is_run_id (cq_candidate_run_id q), ValidationError ''run_id'')])
     (\<lambda>_. rbind (accept_spec (cq_spec q)) (\<lambda>_. Inr q))"

section \<open>Responses\<close>

text \<open>
  A list item is made of all fields of the stored record (\<open>cls(**record.model_dump())\<close>), a page of
  its items and the cursor of the service.
\<close>

record 'r item_response =
  it_schema :: string
  it_fields :: 'r

definition item_of :: "string \<Rightarrow> 'r \<Rightarrow> 'r item_response" where
  "item_of schema r = \<lparr>it_schema = schema, it_fields = r\<rparr>"

record 'a page_response =
  pg_schema :: string
  pg_items :: "'a list"
  pg_next_cursor :: "string option"

definition page_of_records :: "string \<Rightarrow> ('r \<Rightarrow> 'a) \<Rightarrow> 'r cursor_page \<Rightarrow> 'a page_response" where
  "page_of_records schema response_of p =
     \<lparr>pg_schema = schema, pg_items = map response_of (page_items p), pg_next_cursor = next_cursor p\<rparr>"

record dataset_response =
  do_schema :: string
  do_name :: string
  do_revision :: int
  do_digest :: string
  do_case_count :: int
  do_created_at :: instant

definition dataset_response_of :: "dataset_record \<Rightarrow> dataset_response" where
  "dataset_response_of r = \<lparr>do_schema = ''dataset-summary/v1'', do_name = dataset_name (dataset r),
     do_revision = dataset_revision (dataset r), do_digest = dataset_digest (dataset r),
     do_case_count = int (length (dataset_cases (dataset r))), do_created_at = dataset_created_at r\<rparr>"

record job_response =
  jo_schema :: string
  jo_job_id :: string
  jo_kind :: job_kind
  jo_status :: job_status
  jo_resource_id :: string
  jo_attempt_count :: int
  jo_max_attempts :: int
  jo_available_at :: instant
  jo_error_code :: "string option"
  jo_created_at :: instant
  jo_updated_at :: instant

definition job_response_of :: "job_record \<Rightarrow> job_response" where
  "job_response_of j = \<lparr>jo_schema = ''job/v2'', jo_job_id = job_id j, jo_kind = job_kind j,
     jo_status = job_status j, jo_resource_id = resource_id j, jo_attempt_count = attempt_count j,
     jo_max_attempts = max_attempts j, jo_available_at = available_at j, jo_error_code = job_error_code j,
     jo_created_at = job_created_at j, jo_updated_at = job_updated_at j\<rparr>"

record attempt_response =
  ao_schema :: string
  ao_number :: int
  ao_status :: job_attempt_status
  ao_error_code :: "string option"
  ao_started_at :: instant
  ao_heartbeat_at :: instant
  ao_lease_expires_at :: instant
  ao_finished_at :: "instant option"

definition attempt_response_of :: "job_attempt_record \<Rightarrow> attempt_response" where
  "attempt_response_of a = \<lparr>ao_schema = ''job-attempt/v1'', ao_number = attempt_number a,
     ao_status = attempt_status a, ao_error_code = attempt_error_code a, ao_started_at = started_at a,
     ao_heartbeat_at = heartbeat_at a, ao_lease_expires_at = lease_expires_at a,
     ao_finished_at = finished_at a\<rparr>"

record attempt_list_response =
  al_schema :: string
  al_items :: "attempt_response list"

text \<open>The counts of the three case statuses, kept in a dictionary while the cases are read.\<close>

record status_counts =
  completed_count :: int
  completed_with_errors_count :: int
  target_failed_count :: int

definition count_status :: "case_result list \<Rightarrow> case_result_status \<Rightarrow> int" where
  "count_status cases =
     fold (\<lambda>c counts. counts(result_case_status c := counts (result_case_status c) + 1)) cases (\<lambda>_. 0)"

record run_response =
  ro_schema :: string
  ro_run_id :: string
  ro_status :: run_status
  ro_mode :: execution_mode
  ro_suite :: "artifact_ref option"
  ro_dataset :: artifact_ref
  ro_target :: artifact_ref
  ro_evaluators :: "artifact_ref list"
  ro_case_counts :: status_counts
  ro_metrics :: "metric_summary list"
  ro_digest :: string
  ro_created_at :: instant

definition run_response_of :: "run_record \<Rightarrow> run_response" where
  "run_response_of r = (let result = run_evidence r; counts = count_status (run_cases result) in
     \<lparr>ro_schema = ''run-summary/v1'', ro_run_id = run_id result, ro_status = run_status result,
      ro_mode = run_mode result, ro_suite = run_suite result, ro_dataset = run_dataset result,
      ro_target = run_target result, ro_evaluators = run_evaluators result,
      ro_case_counts = \<lparr>completed_count = counts CASE_COMPLETED,
        completed_with_errors_count = counts COMPLETED_WITH_ERRORS,
        target_failed_count = counts TARGET_FAILED\<rparr>,
      ro_metrics = run_metrics result, ro_digest = result_digest result, ro_created_at = run_created_at r\<rparr>)"

record suite_response =
  so_schema :: string
  so_name :: string
  so_revision :: int
  so_digest :: string
  so_dataset :: artifact_ref
  so_evaluators :: "suite_evaluator list"
  so_execution :: suite_execution_settings
  so_slices :: "string list"
  so_gates :: "metric_gate list"
  so_created_at :: instant

definition suite_response_of :: "suite_record \<Rightarrow> suite_response" where
  "suite_response_of r = (let s = suite r in
     \<lparr>so_schema = ''suite-summary/v1'', so_name = suite_name s, so_revision = suite_revision s,
      so_digest = suite_digest s, so_dataset = suite_dataset s, so_evaluators = suite_evaluators s,
      so_execution = suite_execution s, so_slices = suite_slices s, so_gates = suite_gates s,
      so_created_at = suite_created_at r\<rparr>)"

record decision_response =
  eo_schema :: string
  eo_decision_id :: string
  eo_status :: release_status
  eo_spec_name :: string
  eo_mode :: execution_mode
  eo_suite :: "artifact_ref option"
  eo_dataset :: artifact_ref
  eo_baseline :: artifact_ref
  eo_candidate :: artifact_ref
  eo_baseline_run_id :: string
  eo_candidate_run_id :: string
  eo_baseline_digest :: string
  eo_candidate_digest :: string
  eo_aggregates :: "aggregate_comparison list"
  eo_gates :: "gate_result list"
  eo_digest :: string
  eo_created_at :: instant

definition decision_response_of :: "release_decision_record \<Rightarrow> decision_response" where
  "decision_response_of r = (let d = decision r in
     \<lparr>eo_schema = ''release-decision-summary/v1'', eo_decision_id = decision_id r,
      eo_status = decision_status d, eo_spec_name = decision_spec_name d, eo_mode = decision_mode d,
      eo_suite = decision_suite d, eo_dataset = decision_dataset d, eo_baseline = decision_baseline d,
      eo_candidate = decision_candidate d, eo_baseline_run_id = baseline_run_id d,
      eo_candidate_run_id = candidate_run_id d, eo_baseline_digest = baseline_result_digest d,
      eo_candidate_digest = candidate_result_digest d, eo_aggregates = decision_aggregates d,
      eo_gates = decision_gates d, eo_digest = decision_digest d, eo_created_at = decision_created_at r\<rparr>)"

text \<open>
  The documents of runs and decisions leave out the suite when there is none; \<open>dumped\<close> is pydantic's
  document of the response.
\<close>

definition serialize_evidence :: "artifact_ref option \<Rightarrow> (string \<times> json) list \<Rightarrow> (string \<times> json) list" where
  "serialize_evidence suite_of_response dumped =
     (if suite_of_response = None then AList.delete ''suite'' dumped else dumped)"

record case_response =
  co_schema :: string
  co_case_id :: string
  co_metric :: string
  co_gate_slice :: "string option"
  co_slices :: "string list"
  co_baseline :: comparison_value
  co_candidate :: comparison_value
  co_delta :: "rat option"
  co_baseline_passed :: "bool option"
  co_candidate_passed :: "bool option"
  co_change :: case_change

definition case_response_of :: "gate_case_comparison \<Rightarrow> case_response" where
  "case_response_of g = \<lparr>co_schema = ''release-decision-case/v1'', co_case_id = gcc_case_id g,
     co_metric = gcc_metric g, co_gate_slice = gcc_slice g, co_slices = gcc_slices g,
     co_baseline = \<lparr>cv_status = cv_status (gcc_baseline g), cv_value = cv_value (gcc_baseline g)\<rparr>,
     co_candidate = \<lparr>cv_status = cv_status (gcc_candidate g), cv_value = cv_value (gcc_candidate g)\<rparr>,
     co_delta = gcc_delta g, co_baseline_passed = baseline_passed g,
     co_candidate_passed = candidate_passed g, co_change = change g\<rparr>"

record case_page_response = "case_response page_response" +
  cp_decision_id :: string

section \<open>Distributions\<close>

record quantile_response =
  qo_sample_count :: int
  qo_small_sample :: bool
  qo_suppressed :: bool
  qo_minimum :: "rat option"
  qo_p50 :: "rat option"
  qo_p95 :: "rat option"
  qo_maximum :: "rat option"
  qo_mean :: "rat option"

definition quantile_response_of :: "quantile_summary \<Rightarrow> quantile_response" where
  "quantile_response_of q = \<lparr>qo_sample_count = sample_count q,
     qo_small_sample = sample_count q < min_operational_aggregate_size, qo_suppressed = suppressed q,
     qo_minimum = q_minimum q, qo_p50 = q_p50 q, qo_p95 = q_p95 q, qo_maximum = q_maximum q,
     qo_mean = q_mean q\<rparr>"

record score_values_response =
  vo_attempted :: int
  vo_scored :: int
  vo_skipped :: int
  vo_errors :: int
  vo_statistics :: quantile_response

definition score_values_response_of :: "score_value_distribution \<Rightarrow> score_values_response" where
  "score_values_response_of v = \<lparr>vo_attempted = sv_attempted v, vo_scored = sv_scored v,
     vo_skipped = sv_skipped v, vo_errors = sv_errors v,
     vo_statistics = quantile_response_of (sv_statistics v)\<rparr>"

record delta_response =
  lo_attempted :: int
  lo_compared :: int
  lo_incomparable :: int
  lo_statistics :: quantile_response

definition delta_response_of :: "delta_distribution \<Rightarrow> delta_response" where
  "delta_response_of v = \<lparr>lo_attempted = dd_attempted v, lo_compared = dd_compared v,
     lo_incomparable = dd_incomparable v, lo_statistics = quantile_response_of (dd_statistics v)\<rparr>"

record score_response =
  ko_metric :: string
  ko_gate_slice :: "string option"
  ko_baseline :: score_values_response
  ko_candidate :: score_values_response
  ko_delta :: delta_response

definition score_response_of :: "score_distribution \<Rightarrow> score_response" where
  "score_response_of d = \<lparr>ko_metric = sd_metric d, ko_gate_slice = sd_slice d,
     ko_baseline = score_values_response_of (sd_baseline d),
     ko_candidate = score_values_response_of (sd_candidate d), ko_delta = delta_response_of (sd_delta d)\<rparr>"

record measurement_response =
  mo_attempted :: int
  mo_measured :: int
  mo_unavailable :: int
  mo_target_failures :: int
  mo_statistics :: quantile_response

definition measurement_response_of :: "measurement_distribution \<Rightarrow> measurement_response" where
  "measurement_response_of v = \<lparr>mo_attempted = md_attempted v, mo_measured = md_measured v,
     mo_unavailable = md_unavailable v, mo_target_failures = md_target_failures v,
     mo_statistics = quantile_response_of (md_statistics v)\<rparr>"

record operational_response =
  po_role :: run_role
  po_run_id :: string
  po_mode :: execution_mode
  po_simulated :: bool
  po_latency_ms :: measurement_response
  po_input_units :: measurement_response
  po_output_units :: measurement_response
  po_total_units :: measurement_response

definition operational_response_of :: "operational_distribution \<Rightarrow> operational_response" where
  "operational_response_of d = \<lparr>po_role = od_role d, po_run_id = od_run_id d, po_mode = od_mode d,
     po_simulated = (od_mode d \<noteq> LIVE), po_latency_ms = measurement_response_of (od_latency_ms d),
     po_input_units = measurement_response_of (od_input_units d),
     po_output_units = measurement_response_of (od_output_units d),
     po_total_units = measurement_response_of (od_total_units d)\<rparr>"

record distributions_response =
  uo_schema :: string
  uo_decision_id :: string
  uo_score :: score_response
  uo_baseline :: operational_response
  uo_candidate :: operational_response

definition distributions_response_of :: "decision_distributions \<Rightarrow> distributions_response" where
  "distributions_response_of d = \<lparr>uo_schema = ''release-decision-distributions/v1'',
     uo_decision_id = ds_decision_id d, uo_score = score_response_of (ds_score d),
     uo_baseline = operational_response_of (ds_baseline d),
     uo_candidate = operational_response_of (ds_candidate d)\<rparr>"

section \<open>Submissions and errors\<close>

record 'a submission_response =
  su_schema :: string
  su_job :: job_response
  su_evidence :: "'a option"

text \<open>A location of a validation error holds indexes, and texts that may come from the request.\<close>

datatype error_location = LocationIndex int | LocationFlag bool | LocationText string

record error_item =
  item_location :: "error_location list"
  item_type :: "string option"

record error_detail =
  detail_location :: "error_location list"
  detail_type :: string

fun location_json :: "error_location \<Rightarrow> json" where
  "location_json (LocationIndex n) = JInt n"
| "location_json (LocationFlag b) = JBool b"
| "location_json (LocationText t) = JStr t"

definition detail_json :: "error_detail \<Rightarrow> json" where
  "detail_json d = JObj [(''location'', JList (map location_json (detail_location d))),
     (''type'', JStr (detail_type d))]"

end
