(* ===== verification/Application.thy ===== *)
theory Application
  imports Transport Boundary
begin

text \<open>
  The HTTP application (\<open>api/app.py\<close>): one action per route, over the service, and the exception
  handlers. FastAPI is third-party: which endpoint a request names, with which values, is the result
  \<open>routing\<close> of a parameter; the declared bounds of parameters and bodies are \<open>accept_endpoint\<close>, and
  \<open>error_item\<close>s are pydantic's report when they are not met. So are the current trace context, the rendered
  metrics, \<open>str.casefold\<close> and whether the schema revision is current.
\<close>

record application =
  app_service :: service
  app_dialect :: dialect
  app_trace :: "string option"
  app_schema_current :: bool
  app_metrics :: "string \<times> string"
  app_casefold :: "string \<Rightarrow> string"

section \<open>Replies\<close>

type_synonym run_submission_response = "run_response submission_response"
type_synonym decision_submission_response = "decision_response submission_response"

datatype document =
    HealthDocument string
  | MetricsDocument string string
  | DatasetDocument dataset_response
  | DatasetPageDocument "dataset_list_record item_response page_response"
  | SuiteDocument suite_response
  | SuitePageDocument "suite_list_record item_response page_response"
  | SuiteRunPageDocument "run_history_record item_response page_response"
  | SuiteDecisionPageDocument "decision_history_record item_response page_response"
  | SuiteTargetPageDocument "suite_target_group item_response page_response"
  | SuiteTargetPairPageDocument "suite_target_pair_group item_response page_response"
  | RunSubmissionDocument run_submission_response
  | ComparisonSubmissionDocument decision_submission_response
  | JobDocument job_response
  | JobPageDocument "job_response page_response"
  | AttemptsDocument attempt_list_response
  | RunDocument run_response
  | RunPageDocument "run_list_record item_response page_response"
  | DecisionDocument decision_response
  | DecisionPageDocument "decision_list_record item_response page_response"
  | CasePageDocument case_page_response
  | DistributionsDocument distributions_response

text \<open>A reply, and the error code it leaves in the scope of the request.\<close>

record reply =
  reply_status :: int
  reply_headers :: "(string \<times> string) list"
  reply_document :: document
  reply_recorded :: "string option"

definition ok :: "document \<Rightarrow> reply" where
  "ok d = \<lparr>reply_status = 200, reply_headers = [], reply_document = d, reply_recorded = None\<rparr>"

definition created :: "document \<Rightarrow> reply" where
  "created d = (ok d)\<lparr>reply_status := 201\<rparr>"

definition respond :: "('a \<Rightarrow> reply) \<Rightarrow> 'a act \<Rightarrow> reply act" where
  "respond reply_of m = abind m (\<lambda>x. areturn (reply_of x))"

section \<open>Health and metrics\<close>

definition route_liveness :: "reply act" where
  "route_liveness = areturn (ok (HealthDocument ''ok''))"

definition route_readiness :: "application \<Rightarrow> reply act" where
  "route_readiness app = respond (\<lambda>is_ready. if is_ready then ok (HealthDocument ''ok'')
       else \<lparr>reply_status = 503, reply_headers = [], reply_document = HealthDocument ''unavailable'',
             reply_recorded = Some ''readiness_unavailable''\<rparr>)
     (ready (app_service app) (app_schema_current app))"

definition route_metrics :: "application \<Rightarrow> reply act" where
  "route_metrics app = areturn (ok (MetricsDocument (fst (app_metrics app)) (snd (app_metrics app))))"

section \<open>Datasets and suites\<close>

definition route_create_dataset :: "application \<Rightarrow> dataset_request \<Rightarrow> reply act" where
  "route_create_dataset app body =
     abind (alift (invalid ''Dataset revision is invalid''
       (dataset_to_domain (config_of (app_service app)) body))) (\<lambda>d.
     respond (\<lambda>r. created (DatasetDocument (dataset_response_of r))) (register_dataset (app_service app) d))"

definition route_list_datasets ::
    "application \<Rightarrow> int \<Rightarrow> string option \<Rightarrow> string option \<Rightarrow> reply act" where
  "route_list_datasets app limit cursor name =
     respond (ok \<circ> DatasetPageDocument \<circ> page_of_records ''dataset-page/v1'' (item_of ''dataset-list-item/v1''))
       (service_list_datasets (app_service app) (app_dialect app) limit cursor name)"

definition route_get_dataset :: "application \<Rightarrow> int \<Rightarrow> string \<Rightarrow> reply act" where
  "route_get_dataset app revision name =
     respond (\<lambda>r. ok (DatasetDocument (dataset_response_of r))) (service_get_dataset (app_service app) name revision)"

definition route_create_suite :: "application \<Rightarrow> suite_request \<Rightarrow> reply act" where
  "route_create_suite app body =
     abind (alift (invalid ''Evaluation suite revision is invalid''
       (suite_to_domain (config_of (app_service app)) body))) (\<lambda>x.
     respond (\<lambda>r. created (SuiteDocument (suite_response_of r))) (register_suite (app_service app) x))"

definition route_list_suites ::
    "application \<Rightarrow> int \<Rightarrow> string option \<Rightarrow> string option \<Rightarrow> reply act" where
  "route_list_suites app limit cursor name =
     respond (ok \<circ> SuitePageDocument \<circ> page_of_records ''suite-page/v1'' (item_of ''suite-list-item/v1''))
       (service_list_suites (app_service app) (app_dialect app) limit cursor name)"

definition route_get_suite :: "application \<Rightarrow> int \<Rightarrow> string \<Rightarrow> reply act" where
  "route_get_suite app revision name =
     respond (\<lambda>r. ok (SuiteDocument (suite_response_of r))) (service_get_suite (app_service app) name revision)"

section \<open>Histories of a suite\<close>

type_synonym target_query = "string option \<times> int option \<times> string option"

fun target_filter :: "target_query \<Rightarrow> artifact_ref option res" where
  "target_filter (None, None, None) = Inr None"
| "target_filter (Some name, Some revision, Some digest) = rbind (validate_artifact_ref
     \<lparr>ref_kind = TARGET, ref_name = name, ref_revision = revision, ref_digest = Some digest\<rparr>) (\<lambda>r. Inr (Some r))"
| "target_filter _ = Inl (InvalidSubmissionError ''Target filters require name, revision, and digest'')"

definition route_list_suite_runs ::
    "application \<Rightarrow> string \<Rightarrow> int \<Rightarrow> int \<Rightarrow> string option \<Rightarrow> target_query \<Rightarrow> reply act" where
  "route_list_suite_runs app name revision limit cursor target =
     abind (alift (target_filter target)) (\<lambda>t.
     respond (ok \<circ> SuiteRunPageDocument \<circ>
         page_of_records ''suite-run-history-page/v1'' (item_of ''suite-run-history-item/v1''))
       (service_list_suite_runs (app_service app) (app_dialect app) name revision limit cursor t))"

definition route_list_suite_decisions ::
    "application \<Rightarrow> string \<Rightarrow> int \<Rightarrow> int \<Rightarrow> string option \<Rightarrow> target_query \<Rightarrow> target_query \<Rightarrow> reply act" where
  "route_list_suite_decisions app name revision limit cursor baseline candidate =
     abind (alift (target_filter baseline)) (\<lambda>b.
     abind (alift (target_filter candidate)) (\<lambda>c.
     abind (alift (checks [((b = None) \<noteq> (c = None),
       InvalidSubmissionError ''Target pair filters require both complete references'')])) (\<lambda>_.
     respond (ok \<circ> SuiteDecisionPageDocument \<circ>
         page_of_records ''suite-decision-history-page/v1'' (item_of ''suite-decision-history-item/v1''))
       (service_list_suite_decisions (app_service app) (app_dialect app) name revision limit cursor b c))))"

definition route_list_suite_targets ::
    "application \<Rightarrow> string \<Rightarrow> int \<Rightarrow> int \<Rightarrow> string option \<Rightarrow> reply act" where
  "route_list_suite_targets app name revision limit cursor =
     respond (ok \<circ> SuiteTargetPageDocument \<circ>
         page_of_records ''suite-target-group-page/v1'' (item_of ''suite-target-group/v1''))
       (service_list_suite_targets (app_service app) name revision limit cursor)"

definition route_list_suite_target_pairs ::
    "application \<Rightarrow> string \<Rightarrow> int \<Rightarrow> int \<Rightarrow> string option \<Rightarrow> reply act" where
  "route_list_suite_target_pairs app name revision limit cursor =
     respond (ok \<circ> SuiteTargetPairPageDocument \<circ>
         page_of_records ''suite-target-pair-group-page/v1'' (item_of ''suite-target-pair-group/v1''))
       (service_list_suite_target_pairs (app_service app) name revision limit cursor)"

section \<open>Submissions\<close>

definition submission_status :: "submission_result \<Rightarrow> int" where
  "submission_status outcome =
     (if \<not> result_created outcome \<and> job_status (result_job outcome) \<in> {SUCCEEDED, FAILED, CANCELED}
      then 200 else 202)"

text \<open>
  The course of the four submission routes: the status and the location of the job, and the evidence
  of a job that has succeeded, read through the service.
\<close>

definition submission_reply ::
    "string \<Rightarrow> ('e submission_response \<Rightarrow> document) \<Rightarrow> (string \<Rightarrow> 'e act) \<Rightarrow> submission_result act \<Rightarrow>
     reply act" where
  "submission_reply schema document_of fetch submitting =
     abind submitting (\<lambda>outcome. let job = result_job outcome in
     abind (if job_status job = SUCCEEDED
            then abind (fetch (resource_id job)) (\<lambda>e. areturn (Some e)) else areturn None) (\<lambda>e.
     areturn \<lparr>reply_status = submission_status outcome,
       reply_headers = [(''Location'', ''/v1/jobs/'' @ job_id job)],
       reply_document = document_of \<lparr>su_schema = schema, su_job = job_response_of job, su_evidence = e\<rparr>,
       reply_recorded = None\<rparr>))"

definition run_evidence_of :: "application \<Rightarrow> string \<Rightarrow> run_response act" where
  "run_evidence_of app rid = abind (service_get_run (app_service app) rid) (\<lambda>r. areturn (run_response_of r))"

definition decision_evidence_of :: "application \<Rightarrow> string \<Rightarrow> decision_response act" where
  "decision_evidence_of app did =
     abind (service_get_release_decision (app_service app) did) (\<lambda>r. areturn (decision_response_of r))"

text \<open>The submissions the four routes make of their bodies.\<close>

definition run_submission_of :: "application \<Rightarrow> string \<Rightarrow> run_request \<Rightarrow> run_submission" where
  "run_submission_of app key body = \<lparr>rs_key = key, rs_dataset_name = rq_dataset_name body,
     rs_dataset_revision = rq_dataset_revision body, rs_target_name = rq_target_name body,
     rs_target_revision = rq_target_revision body, rs_adapter = rq_adapter body,
     rs_evaluator_names = map evaluator_kind_value (rq_evaluators body),
     rs_overrides = rq_overrides body, rs_traceparent = app_trace app\<rparr>"

definition suite_run_submission_of ::
    "application \<Rightarrow> string \<Rightarrow> suite_run_request \<Rightarrow> suite_run_submission" where
  "suite_run_submission_of app key body = \<lparr>srs_key = key, srs_suite_name = srq_suite_name body,
     srs_suite_revision = srq_suite_revision body, srs_target_name = srq_target_name body,
     srs_target_revision = srq_target_revision body, srs_overrides = srq_overrides body,
     srs_traceparent = app_trace app\<rparr>"

definition comparison_submission_of ::
    "application \<Rightarrow> string \<Rightarrow> comparison_request \<Rightarrow> evaluation_spec \<Rightarrow> comparison_submission" where
  "comparison_submission_of app key body spec = \<lparr>cs_key = key, cs_dataset_name = cq_dataset_name body,
     cs_dataset_revision = cq_dataset_revision body, cs_baseline_run_id = cq_baseline_run_id body,
     cs_candidate_run_id = cq_candidate_run_id body, cs_spec = spec, cs_traceparent = app_trace app\<rparr>"

definition suite_comparison_submission_of ::
    "application \<Rightarrow> string \<Rightarrow> suite_comparison_request \<Rightarrow> suite_comparison_submission" where
  "suite_comparison_submission_of app key body = \<lparr>scs_key = key, scs_suite_name = scq_suite_name body,
     scs_suite_revision = scq_suite_revision body, scs_baseline_run_id = scq_baseline_run_id body,
     scs_candidate_run_id = scq_candidate_run_id body, scs_traceparent = app_trace app\<rparr>"

definition route_submit_run :: "application \<Rightarrow> string \<Rightarrow> run_request \<Rightarrow> reply act" where
  "route_submit_run app key body =
     submission_reply ''run-submission/v2'' RunSubmissionDocument (run_evidence_of app)
       (submit_run (app_service app) (run_submission_of app key body))"

definition route_submit_suite_run :: "application \<Rightarrow> string \<Rightarrow> suite_run_request \<Rightarrow> reply act" where
  "route_submit_suite_run app key body =
     submission_reply ''run-submission/v2'' RunSubmissionDocument (run_evidence_of app)
       (submit_suite_run (app_service app) (suite_run_submission_of app key body))"

definition route_submit_comparison :: "application \<Rightarrow> string \<Rightarrow> comparison_request \<Rightarrow> reply act" where
  "route_submit_comparison app key body =
     abind (alift (spec_to_domain (cq_spec body))) (\<lambda>spec.
     submission_reply ''comparison-submission/v2'' ComparisonSubmissionDocument (decision_evidence_of app)
       (submit_comparison (app_service app) (comparison_submission_of app key body spec)))"

definition route_submit_suite_comparison ::
    "application \<Rightarrow> string \<Rightarrow> suite_comparison_request \<Rightarrow> reply act" where
  "route_submit_suite_comparison app key body =
     submission_reply ''comparison-submission/v2'' ComparisonSubmissionDocument (decision_evidence_of app)
       (submit_suite_comparison (app_service app) (suite_comparison_submission_of app key body))"

section \<open>Jobs, runs and decisions\<close>

definition route_list_jobs ::
    "application \<Rightarrow> int \<Rightarrow> string option \<Rightarrow> job_kind option \<Rightarrow> job_status option \<Rightarrow> reply act" where
  "route_list_jobs app limit cursor kind status =
     respond (ok \<circ> JobPageDocument \<circ> page_of_records ''job-page/v2'' job_response_of)
       (service_list_jobs (app_service app) (app_dialect app) limit cursor kind status)"

definition route_get_job :: "application \<Rightarrow> string \<Rightarrow> reply act" where
  "route_get_job app jid = respond (ok \<circ> JobDocument \<circ> job_response_of) (service_get_job (app_service app) jid)"

definition route_list_job_attempts :: "application \<Rightarrow> string \<Rightarrow> reply act" where
  "route_list_job_attempts app jid =
     respond (\<lambda>records. ok (AttemptsDocument
         \<lparr>al_schema = ''job-attempt-list/v1'', al_items = map attempt_response_of records\<rparr>))
       (service_list_job_attempts (app_service app) jid)"

definition route_request_job_cancellation :: "application \<Rightarrow> string \<Rightarrow> reply act" where
  "route_request_job_cancellation app jid =
     respond (ok \<circ> JobDocument \<circ> job_response_of) (service_cancel_job (app_service app) jid)"

definition route_list_runs ::
    "application \<Rightarrow> int \<Rightarrow> string option \<Rightarrow> string option \<Rightarrow> reply act" where
  "route_list_runs app limit cursor name =
     respond (ok \<circ> RunPageDocument \<circ> page_of_records ''run-page/v1'' (item_of ''run-list-item/v1''))
       (service_list_runs (app_service app) (app_dialect app) limit cursor name)"

definition route_get_run :: "application \<Rightarrow> string \<Rightarrow> reply act" where
  "route_get_run app rid = respond (ok \<circ> RunDocument \<circ> run_response_of) (service_get_run (app_service app) rid)"

definition route_list_release_decisions ::
    "application \<Rightarrow> int \<Rightarrow> string option \<Rightarrow> release_status option \<Rightarrow> list_order \<Rightarrow> reply act" where
  "route_list_release_decisions app limit cursor status order =
     respond (ok \<circ> DecisionPageDocument \<circ>
         page_of_records ''release-decision-page/v1'' (item_of ''release-decision-list-item/v1''))
       (service_list_release_decisions (app_service app) (app_dialect app) limit cursor status order)"

definition route_list_release_decision_cases ::
    "application \<Rightarrow> string \<Rightarrow> string \<Rightarrow> int \<Rightarrow> string option \<Rightarrow> string option \<Rightarrow> string option \<Rightarrow>
     case_change option \<Rightarrow> reply act" where
  "route_list_release_decision_cases app did metric limit cursor within_gate case_slice wanted =
     respond (\<lambda>p. ok (CasePageDocument (page_response.extend
         (page_of_records ''release-decision-case-page/v1'' case_response_of p)
         (case_page_response.fields did))))
       (service_list_release_decision_cases (app_service app) did limit cursor (Some metric) within_gate
          case_slice wanted)"

definition route_get_distributions ::
    "application \<Rightarrow> string \<Rightarrow> string \<Rightarrow> string option \<Rightarrow> reply act" where
  "route_get_distributions app did metric within_gate =
     respond (ok \<circ> DistributionsDocument \<circ> distributions_response_of)
       (service_decision_distributions (app_service app) did metric within_gate)"

definition route_get_release_decision :: "application \<Rightarrow> string \<Rightarrow> reply act" where
  "route_get_release_decision app did =
     respond (ok \<circ> DecisionDocument \<circ> decision_response_of) (service_get_release_decision (app_service app) did)"

end
