(* ===== verification/Serving.thy ===== *)
theory Serving
  imports Application
begin

text \<open>
  From a request to its answer (\<open>api/app.py\<close>): the endpoints with their methods, paths and declared
  bounds, the exception handlers, and the whole course of a request through the boundary, the router
  and the route.
\<close>

section \<open>Endpoints\<close>

datatype endpoint =
    GetLiveness
  | GetReadiness
  | GetMetrics
  | CreateDataset dataset_request
  | ListDatasets int "string option" "string option"
  | GetDataset int string
  | CreateSuite suite_request
  | ListSuites int "string option" "string option"
  | GetSuite int string
  | ListSuiteRuns string int int "string option" target_query
  | ListSuiteDecisions string int int "string option" target_query target_query
  | ListSuiteTargets string int int "string option"
  | ListSuiteTargetPairs string int int "string option"
  | SubmitSuiteRun string suite_run_request
  | SubmitSuiteComparison string suite_comparison_request
  | SubmitRun string run_request
  | ListJobs int "string option" "job_kind option" "job_status option"
  | GetJob string
  | ListJobAttempts string
  | RequestJobCancellation string
  | ListRuns int "string option" "string option"
  | GetRun string
  | SubmitComparison string comparison_request
  | ListReleaseDecisions int "string option" "release_status option" list_order
  | ListReleaseDecisionCases string string int "string option" "string option" "string option" "case_change option"
  | GetDistributions string string "string option"
  | GetReleaseDecision string

text \<open>The decorated method and path; \<open>text\<close> is the text a revision was read from.\<close>

fun endpoint_route :: "string \<Rightarrow> endpoint \<Rightarrow> string \<times> string" where
  "endpoint_route text GetLiveness = (''GET'', ''/health/live'')"
| "endpoint_route text GetReadiness = (''GET'', ''/health/ready'')"
| "endpoint_route text GetMetrics = (''GET'', ''/metrics'')"
| "endpoint_route text (CreateDataset _) = (''POST'', ''/v1/datasets'')"
| "endpoint_route text (ListDatasets _ _ _) = (''GET'', ''/v1/datasets'')"
| "endpoint_route text (GetDataset _ name) = (''GET'', ''/v1/dataset-revisions/'' @ text @ ''/'' @ name)"
| "endpoint_route text (CreateSuite _) = (''POST'', ''/v1/suites'')"
| "endpoint_route text (ListSuites _ _ _) = (''GET'', ''/v1/suites'')"
| "endpoint_route text (GetSuite _ name) = (''GET'', ''/v1/suite-revisions/'' @ text @ ''/'' @ name)"
| "endpoint_route text (ListSuiteRuns _ _ _ _ _) = (''GET'', ''/v1/suite-runs'')"
| "endpoint_route text (ListSuiteDecisions _ _ _ _ _ _) = (''GET'', ''/v1/suite-comparisons'')"
| "endpoint_route text (ListSuiteTargets _ _ _ _) = (''GET'', ''/v1/suite-targets'')"
| "endpoint_route text (ListSuiteTargetPairs _ _ _ _) = (''GET'', ''/v1/suite-target-pairs'')"
| "endpoint_route text (SubmitSuiteRun _ _) = (''POST'', ''/v1/suite-runs'')"
| "endpoint_route text (SubmitSuiteComparison _ _) = (''POST'', ''/v1/suite-comparisons'')"
| "endpoint_route text (SubmitRun _ _) = (''POST'', ''/v1/runs'')"
| "endpoint_route text (ListJobs _ _ _ _) = (''GET'', ''/v1/jobs'')"
| "endpoint_route text (GetJob jid) = (''GET'', ''/v1/jobs/'' @ jid)"
| "endpoint_route text (ListJobAttempts jid) = (''GET'', ''/v1/jobs/'' @ jid @ ''/attempts'')"
| "endpoint_route text (RequestJobCancellation jid) = (''POST'', ''/v1/jobs/'' @ jid @ ''/cancellation'')"
| "endpoint_route text (ListRuns _ _ _) = (''GET'', ''/v1/runs'')"
| "endpoint_route text (GetRun rid) = (''GET'', ''/v1/runs/'' @ rid)"
| "endpoint_route text (SubmitComparison _ _) = (''POST'', ''/v1/comparisons'')"
| "endpoint_route text (ListReleaseDecisions _ _ _ _) = (''GET'', ''/v1/release-decisions'')"
| "endpoint_route text (ListReleaseDecisionCases did _ _ _ _ _ _) =
     (''GET'', ''/v1/release-decisions/'' @ did @ ''/cases'')"
| "endpoint_route text (GetDistributions did _ _) = (''GET'', ''/v1/release-decisions/'' @ did @ ''/distributions'')"
| "endpoint_route text (GetReleaseDecision did) = (''GET'', ''/v1/release-decisions/'' @ did)"

section \<open>Declared bounds\<close>

definition optionally :: "('a \<Rightarrow> bool) \<Rightarrow> 'a option \<Rightarrow> bool" where
  "optionally p v = (case v of None \<Rightarrow> True | Some x \<Rightarrow> p x)"

definition page_query :: "int \<Rightarrow> string option \<Rightarrow> bool" where
  "page_query limit cursor \<longleftrightarrow> 1 \<le> limit \<and> limit \<le> 100 \<and>
     optionally (\<lambda>c. 1 \<le> length c \<and> length c \<le> 2048) cursor"

definition target_query_ok :: "target_query \<Rightarrow> bool" where
  "target_query_ok q = (case q of (name, revision, digest) \<Rightarrow>
     optionally is_artifact_name name \<and> optionally (\<lambda>r. 0 < r) revision \<and> optionally is_sha256_digest digest)"

definition accepted :: "('a \<Rightarrow> endpoint) \<Rightarrow> 'a res \<Rightarrow> endpoint option" where
  "accepted f r = (case r of Inl _ \<Rightarrow> None | Inr x \<Rightarrow> Some (f x))"

text \<open>The endpoint with its normalized body, or \<open>None\<close> for a \<open>RequestValidationError\<close>.\<close>

fun accept_endpoint :: "endpoint \<Rightarrow> endpoint option" where
  "accept_endpoint (CreateDataset q) = accepted CreateDataset (accept_dataset q)"
| "accept_endpoint (ListDatasets limit cursor name) = (if page_query limit cursor \<and> optionally is_artifact_name name
     then Some (ListDatasets limit cursor name) else None)"
| "accept_endpoint (GetDataset revision name) = (if 0 < revision \<and> is_artifact_name name
     then Some (GetDataset revision name) else None)"
| "accept_endpoint (CreateSuite q) = accepted CreateSuite (accept_suite q)"
| "accept_endpoint (ListSuites limit cursor name) = (if page_query limit cursor \<and> optionally is_artifact_name name
     then Some (ListSuites limit cursor name) else None)"
| "accept_endpoint (GetSuite revision name) = (if 0 < revision \<and> is_artifact_name name
     then Some (GetSuite revision name) else None)"
| "accept_endpoint (ListSuiteRuns name revision limit cursor target) =
     (if is_artifact_name name \<and> 0 < revision \<and> page_query limit cursor \<and> target_query_ok target
      then Some (ListSuiteRuns name revision limit cursor target) else None)"
| "accept_endpoint (ListSuiteDecisions name revision limit cursor baseline candidate) =
     (if is_artifact_name name \<and> 0 < revision \<and> page_query limit cursor \<and> target_query_ok baseline \<and>
         target_query_ok candidate
      then Some (ListSuiteDecisions name revision limit cursor baseline candidate) else None)"
| "accept_endpoint (ListSuiteTargets name revision limit cursor) =
     (if is_artifact_name name \<and> 0 < revision \<and> page_query limit cursor
      then Some (ListSuiteTargets name revision limit cursor) else None)"
| "accept_endpoint (ListSuiteTargetPairs name revision limit cursor) =
     (if is_artifact_name name \<and> 0 < revision \<and> page_query limit cursor
      then Some (ListSuiteTargetPairs name revision limit cursor) else None)"
| "accept_endpoint (SubmitSuiteRun key q) =
     (if is_stable_id key then accepted (SubmitSuiteRun key) (accept_suite_run q) else None)"
| "accept_endpoint (SubmitSuiteComparison key q) =
     (if is_stable_id key then accepted (SubmitSuiteComparison key) (accept_suite_comparison q) else None)"
| "accept_endpoint (SubmitRun key q) =
     (if is_stable_id key then accepted (SubmitRun key) (accept_run q) else None)"
| "accept_endpoint (ListJobs limit cursor kind status) =
     (if page_query limit cursor then Some (ListJobs limit cursor kind status) else None)"
| "accept_endpoint (GetJob jid) = (if is_stable_id jid then Some (GetJob jid) else None)"
| "accept_endpoint (ListJobAttempts jid) = (if is_stable_id jid then Some (ListJobAttempts jid) else None)"
| "accept_endpoint (RequestJobCancellation jid) =
     (if is_stable_id jid then Some (RequestJobCancellation jid) else None)"
| "accept_endpoint (ListRuns limit cursor name) = (if page_query limit cursor \<and> optionally is_artifact_name name
     then Some (ListRuns limit cursor name) else None)"
| "accept_endpoint (GetRun rid) = (if is_run_id rid then Some (GetRun rid) else None)"
| "accept_endpoint (SubmitComparison key q) =
     (if is_stable_id key then accepted (SubmitComparison key) (accept_comparison q) else None)"
| "accept_endpoint (ListReleaseDecisions limit cursor status order) =
     (if page_query limit cursor then Some (ListReleaseDecisions limit cursor status order) else None)"
| "accept_endpoint (ListReleaseDecisionCases did metric limit cursor within_gate case_slice wanted) =
     (if is_stable_id did \<and> is_metric_name metric \<and> page_query limit cursor \<and>
         optionally is_slice_label within_gate \<and> optionally is_slice_label case_slice
      then Some (ListReleaseDecisionCases did metric limit cursor within_gate case_slice wanted) else None)"
| "accept_endpoint (GetDistributions did metric within_gate) =
     (if is_stable_id did \<and> is_metric_name metric \<and> optionally is_slice_label within_gate
      then Some (GetDistributions did metric within_gate) else None)"
| "accept_endpoint (GetReleaseDecision did) = (if is_stable_id did then Some (GetReleaseDecision did) else None)"
| "accept_endpoint e = Some e"

section \<open>Dispatch\<close>

fun perform :: "application \<Rightarrow> endpoint \<Rightarrow> reply act" where
  "perform app GetLiveness = route_liveness"
| "perform app GetReadiness = route_readiness app"
| "perform app GetMetrics = route_metrics app"
| "perform app (CreateDataset q) = route_create_dataset app q"
| "perform app (ListDatasets limit cursor name) = route_list_datasets app limit cursor name"
| "perform app (GetDataset revision name) = route_get_dataset app revision name"
| "perform app (CreateSuite q) = route_create_suite app q"
| "perform app (ListSuites limit cursor name) = route_list_suites app limit cursor name"
| "perform app (GetSuite revision name) = route_get_suite app revision name"
| "perform app (ListSuiteRuns name revision limit cursor target) =
     route_list_suite_runs app name revision limit cursor target"
| "perform app (ListSuiteDecisions name revision limit cursor baseline candidate) =
     route_list_suite_decisions app name revision limit cursor baseline candidate"
| "perform app (ListSuiteTargets name revision limit cursor) =
     route_list_suite_targets app name revision limit cursor"
| "perform app (ListSuiteTargetPairs name revision limit cursor) =
     route_list_suite_target_pairs app name revision limit cursor"
| "perform app (SubmitSuiteRun key q) = route_submit_suite_run app key q"
| "perform app (SubmitSuiteComparison key q) = route_submit_suite_comparison app key q"
| "perform app (SubmitRun key q) = route_submit_run app key q"
| "perform app (ListJobs limit cursor kind status) = route_list_jobs app limit cursor kind status"
| "perform app (GetJob jid) = route_get_job app jid"
| "perform app (ListJobAttempts jid) = route_list_job_attempts app jid"
| "perform app (RequestJobCancellation jid) = route_request_job_cancellation app jid"
| "perform app (ListRuns limit cursor name) = route_list_runs app limit cursor name"
| "perform app (GetRun rid) = route_get_run app rid"
| "perform app (SubmitComparison key q) = route_submit_comparison app key q"
| "perform app (ListReleaseDecisions limit cursor status order) =
     route_list_release_decisions app limit cursor status order"
| "perform app (ListReleaseDecisionCases did metric limit cursor within_gate case_slice wanted) =
     route_list_release_decision_cases app did metric limit cursor within_gate case_slice wanted"
| "perform app (GetDistributions did metric within_gate) = route_get_distributions app did metric within_gate"
| "perform app (GetReleaseDecision did) = route_get_release_decision app did"

section \<open>Errors\<close>

record problem =
  problem_status :: int
  problem_code :: string
  problem_message :: string
  problem_details :: "error_detail list"
  problem_headers :: "(string \<times> string) list"

definition plain_problem :: "int \<Rightarrow> string \<Rightarrow> string \<Rightarrow> problem" where
  "plain_problem status code message = \<lparr>problem_status = status, problem_code = code,
     problem_message = message, problem_details = [], problem_headers = []\<rparr>"

definition safe_locations :: "string list" where
  "safe_locations =
     [''adapter'', ''artifact'', ''baseline_run_id'', ''body'', ''candidate_run_id'', ''cases'', ''case_slice'',
      ''change'', ''cursor'', ''dataset_name'', ''dataset'', ''dataset_revision'', ''evaluators'', ''execution'',
      ''execution_mode'', ''executor_name'', ''expected'', ''expected_refusal'', ''expected_schema'',
      ''gate_slice'', ''gates'', ''header'', ''idempotency-key'', ''input'', ''limit'', ''metric'', ''metrics'',
      ''name'', ''numeric_tolerance'', ''path'', ''query'', ''revision'', ''scenario_overrides'',
      ''schema_version'', ''slices'', ''status'', ''suite_name'', ''suite_revision'', ''spec'', ''target_name'',
      ''target_revision'']"

fun safe_location :: "(string \<Rightarrow> string) \<Rightarrow> error_location \<Rightarrow> error_location" where
  "safe_location casefold (LocationIndex n) = LocationIndex n"
| "safe_location casefold (LocationText t) =
     (if casefold t \<in> set safe_locations then LocationText (casefold t) else LocationText ''item'')"
| "safe_location casefold (LocationFlag _) = LocationText ''item''"

definition is_safe_error_type :: "string \<Rightarrow> bool" where
  "is_safe_error_type s \<longleftrightarrow> 1 \<le> length s \<and> length s \<le> 96 \<and> list_all (\<lambda>c. is_alnum c \<or> c \<in> set ''_.-'') s"

definition validation_detail :: "(string \<Rightarrow> string) \<Rightarrow> error_item \<Rightarrow> error_detail" where
  "validation_detail casefold i = \<lparr>detail_location = map (safe_location casefold) (item_location i),
     detail_type = (case item_type i of None \<Rightarrow> ''validation_error''
       | Some t \<Rightarrow> if is_safe_error_type t then t else ''validation_error'')\<rparr>"

definition validation_problem :: "(string \<Rightarrow> string) \<Rightarrow> error_item list \<Rightarrow> problem" where
  "validation_problem casefold report =
     (plain_problem 422 ''invalid_request'' ''Request failed contract validation'')
       \<lparr>problem_details := map (validation_detail casefold) (take 32 report)\<rparr>"

fun service_problem :: "exn \<Rightarrow> problem option" where
  "service_problem (ResourceNotFoundError m) = Some (plain_problem 404 ''resource_not_found'' m)"
| "service_problem (IdempotencyConflictError m) = Some (plain_problem 409 ''idempotency_conflict'' m)"
| "service_problem (ResourceConflictError m) = Some (plain_problem 409 ''resource_conflict'' m)"
| "service_problem (InvalidCursorError m) = Some (plain_problem 400 ''invalid_cursor'' m)"
| "service_problem (InvalidSubmissionError m) = Some (plain_problem 422 ''invalid_submission'' m)"
| "service_problem _ = None"

definition exception_problem :: "exn \<Rightarrow> problem" where
  "exception_problem e = (case service_problem e of Some p \<Rightarrow> p
   | None \<Rightarrow> if is_store_error e
       then plain_problem 503 ''persistence_unavailable'' ''Control-plane persistence is unavailable''
       else plain_problem 500 ''internal_error'' ''Request could not be completed'')"

definition safe_http_headers ::
    "(string \<Rightarrow> string) \<Rightarrow> int \<Rightarrow> (string \<times> string) list option \<Rightarrow> (string \<times> string) list" where
  "safe_http_headers casefold status headers = (case headers of
     None \<Rightarrow> []
   | Some hs \<Rightarrow> if status \<noteq> 405 then [] else
       (case List.find (\<lambda>h. casefold (fst h) = ''allow'') hs of
          None \<Rightarrow> []
        | Some (_, allow) \<Rightarrow>
            if 1 \<le> length allow \<and> length allow \<le> 128 \<and> list_all (\<lambda>c. is_alpha c \<or> c \<in> set '', '') allow
            then [(''Allow'', allow)] else []))"

definition http_problem :: "(string \<Rightarrow> string) \<Rightarrow> int \<Rightarrow> (string \<times> string) list option \<Rightarrow> problem" where
  "http_problem casefold status headers =
     (let (code, message) =
        (if status = 404 then (''route_not_found'', ''Route was not found'')
         else if status = 405 then (''method_not_allowed'', ''HTTP method is not allowed'')
         else (''http_error'', ''HTTP request could not be completed''))
      in (plain_problem status code message)\<lparr>problem_headers := safe_http_headers casefold status headers\<rparr>)"

section \<open>The course of a request\<close>

datatype answer_body = AnswerDocument document | AnswerError json

record answer =
  answer_status :: int
  answer_headers :: "(string \<times> string) list"
  answer_body :: answer_body

definition problem_document :: "problem \<Rightarrow> string \<Rightarrow> json" where
  "problem_document p request_id = JObj
     [(''schema_version'', JStr ''api-error/v1''),
      (''error'', JObj [(''code'', JStr (problem_code p)),
         (''details'', JList (map detail_json (problem_details p))), (''message'', JStr (problem_message p)),
         (''request_id'', JStr request_id)])]"

definition problem_answer :: "http_scope \<Rightarrow> problem \<Rightarrow> http_scope \<times> answer" where
  "problem_answer scope p = (set_error_code scope (problem_code p),
     \<lparr>answer_status = problem_status p, answer_headers = problem_headers p,
      answer_body = AnswerError (problem_document p (request_id_from_scope scope))\<rparr>)"

definition reply_answer :: "http_scope \<Rightarrow> reply \<Rightarrow> http_scope \<times> answer" where
  "reply_answer scope r =
     ((case reply_recorded r of None \<Rightarrow> scope | Some code \<Rightarrow> set_error_code scope code),
      \<lparr>answer_status = reply_status r, answer_headers = reply_headers r,
       answer_body = AnswerDocument (reply_document r)\<rparr>)"

text \<open>What the router makes of a request: no route, parameters of the wrong shape, or an endpoint.\<close>

datatype routing =
    Unrouted int "(string \<times> string) list option"
  | Malformed "error_item list"
  | Routed endpoint "error_item list"

definition run_endpoint ::
    "application \<Rightarrow> http_scope \<Rightarrow> routing \<Rightarrow> world \<Rightarrow> (http_scope \<times> answer) \<times> world" where
  "run_endpoint app scope routed w = (case routed of
     Unrouted status headers \<Rightarrow> (problem_answer scope (http_problem (app_casefold app) status headers), w)
   | Malformed report \<Rightarrow> (problem_answer scope (validation_problem (app_casefold app) report), w)
   | Routed e report \<Rightarrow> (case accept_endpoint e of
       None \<Rightarrow> (problem_answer scope (validation_problem (app_casefold app) report), w)
     | Some e' \<Rightarrow> (case perform app e' w of
         (Inl x, w') \<Rightarrow> (problem_answer scope (exception_problem x), w')
       | (Inr r, w') \<Rightarrow> (reply_answer scope r, w'))))"

text \<open>The request as a whole; nothing is answered while the client has not sent its body.\<close>

definition serve ::
    "application \<Rightarrow> auth_configuration \<Rightarrow> (string \<Rightarrow> bool) \<Rightarrow> int \<Rightarrow> (http_scope \<Rightarrow> string option \<Rightarrow> routing) \<Rightarrow>
     string \<Rightarrow> http_scope \<Rightarrow> message list \<Rightarrow> world \<Rightarrow> (http_scope \<times> answer) option \<times> world" where
  "serve app cfg strict_json max_body route request_id scope ms w =
     (case boundary cfg strict_json max_body request_id scope ms of
        Waiting \<Rightarrow> (None, w)
      | Refused e s \<Rightarrow> (Some (s, \<lparr>answer_status = error_status e, answer_headers = error_headers e,
          answer_body = AnswerError (error_document (error_code e) (error_message e) request_id)\<rparr>), w)
      | Forwarded s body \<Rightarrow>
          (case run_endpoint app s (route s body) w of (a, w') \<Rightarrow> (Some a, w')))"

end
