(* ===== verification/ApplicationFacts.thy ===== *)
theory ApplicationFacts
  imports Serving ServiceFacts StoreErrors
begin

text \<open>
  What the routes rely on: a read moves the store no further than the other clients do, and the
  scope the boundary asks for is the one the effect of an endpoint needs.
\<close>

section \<open>Clients that only read\<close>

text \<open>The store after \<open>n\<close> calls that change nothing: what the other clients have made of it.\<close>

fun drift :: "session \<Rightarrow> nat \<Rightarrow> world \<Rightarrow> world" where
  "drift s 0 w = w"
| "drift s (Suc n) w = drift s n \<lparr>store = met s w, calls = Suc (calls w)\<rparr>"

definition observes :: "session \<Rightarrow> 'a act \<Rightarrow> bool" where
  "observes s m \<longleftrightarrow> (\<forall>w. \<exists>n. snd (m w) = drift s n w)"

named_theorems observes_intros \<open>actions that only read\<close>

lemma drift_add: "drift s (m + n) w = drift s n (drift s m w)"
  by (induction m arbitrary: w) simp_all

lemma observesE:
  assumes "observes s m" "m w = (r, w')"
  obtains n where "w' = drift s n w"
  using assms unfolding observes_def by (metis snd_conv)

lemma observes_pure [observes_intros]:
  "observes s (areturn x)" "observes s (araise e)" "observes s (alift r)"
  by (auto simp: observes_def intro: exI[of _ 0])

lemma observes_query [observes_intros]: "observes s (query s f)"
  unfolding observes_def by (auto simp: query_world intro!: exI[of _ 1])

lemma observes_abind [observes_intros]:
  assumes "observes s m" "\<And>x. observes s (f x)"
  shows "observes s (abind m f)"
  unfolding observes_def
proof
  fix w
  obtain r w' where m: "m w = (r, w')" by (cases "m w")
  obtain i where i: "w' = drift s i w" using observesE[OF assms(1) m] .
  show "\<exists>n. snd (abind m f w) = drift s n w"
  proof (cases r)
    case (Inl e)
    with m i show ?thesis by auto
  next
    case (Inr x)
    obtain j where "snd (f x w') = drift s j w'" using assms(2) unfolding observes_def by blast
    with m i Inr have "snd (abind m f w) = drift s (i + j) w" by (simp add: drift_add)
    then show ?thesis ..
  qed
qed

lemma observes_acatch [observes_intros]:
  assumes "observes s m" "\<And>e k. h e = Some k \<Longrightarrow> observes s k"
  shows "observes s (acatch h m)"
  unfolding observes_def
proof
  fix w
  obtain r w' where m: "m w = (r, w')" by (cases "m w")
  obtain i where i: "w' = drift s i w" using observesE[OF assms(1) m] .
  show "\<exists>n. snd (acatch h m w) = drift s n w"
  proof (cases "\<exists>e k. r = Inl e \<and> h e = Some k")
    case True
    then obtain e k where k: "r = Inl e" "h e = Some k" by blast
    obtain j where "snd (k w') = drift s j w'" using assms(2)[OF k(2)] unfolding observes_def by blast
    with m i k have "snd (acatch h m w) = drift s (i + j) w" by (simp add: drift_add)
    then show ?thesis ..
  next
    case False
    then have "snd (acatch h m w) = w'" using m by (auto simp: acatch_def split: sum.split option.split)
    with i show ?thesis by blast
  qed
qed

lemma observes_translate [observes_intros]: "observes s m \<Longrightarrow> observes s (acatch (translate p e) m)"
  by (rule observes_acatch) (auto intro: observes_intros)

lemma observes_if [observes_intros]: "observes s a \<Longrightarrow> observes s b \<Longrightarrow> observes s (if c then a else b)"
  by simp

lemma observes_option [observes_intros]:
  "observes s a \<Longrightarrow> (\<And>y. observes s (f y)) \<Longrightarrow> observes s (case x of None \<Rightarrow> a | Some y \<Rightarrow> f y)"
  by (cases x) simp_all

lemma observes_prod [observes_intros]:
  "(\<And>a b. observes s (f a b)) \<Longrightarrow> observes s (case p of (a, b) \<Rightarrow> f a b)"
  by (cases p) simp

lemma observes_respond [observes_intros]: "observes s m \<Longrightarrow> observes s (respond f m)"
  unfolding respond_def by (intro observes_intros)

lemma drift_steps: "db_inv (store w) \<Longrightarrow> store_step\<^sup>*\<^sup>* (store w) (store (drift s n w)) \<and> db_inv (store (drift s n w))"
proof (induction n arbitrary: w)
  case (Suc n)
  from Suc.IH[of "\<lparr>store = met s w, calls = Suc (calls w)\<rparr>"] met_inv[OF Suc.prems, of s] met_steps[OF Suc.prems, of s]
  show ?case by (auto intro: rtranclp_trans)
qed simp

lemma drift_alone: "others s = (\<lambda>_. []) \<Longrightarrow> store (drift s n w) = store w"
  by (induction n arbitrary: w) (simp_all add: met_def history_def)

text \<open>
  The contract of a reading client: it refines the contract of every client, and a store no one
  else writes to is the same afterwards.
\<close>

locale reading_action =
  fixes session :: session and action :: "'a act"
  assumes observes: "observes session action"
begin

lemma only_drifts: "\<exists>n. snd (action w) = drift session n w"
  using observes unfolding observes_def by blast

lemma alone: "others session = (\<lambda>_. []) \<Longrightarrow> store (snd (action w)) = store w"
  using only_drifts[of w] drift_alone by metis

end

sublocale reading_action \<subseteq> client_action action
proof unfold_locales
  show "advances action"
    unfolding advances_def using only_drifts drift_steps by metis
qed

section \<open>The reads of the service\<close>

lemma service_reads [observes_intros]:
  "observes (repository s) (read_dataset s name revision)" "observes (repository s) (read_suite s name revision)"
  "observes (repository s) (read_run s rid)"
  unfolding read_dataset_def read_suite_def read_run_def by (intro observes_intros)+

lemma service_gets [observes_intros]:
  "observes (repository s) (service_get_dataset s name revision)"
  "observes (repository s) (service_get_suite s name revision)"
  "observes (repository s) (service_get_job s jid)" "observes (repository s) (service_get_run s rid)"
  "observes (repository s) (service_get_release_decision s did)"
  "observes (repository s) (service_list_job_attempts s jid)"
  "observes (repository s) (service_decision_distributions s did metric slice_label)"
  unfolding service_get_dataset_def service_get_suite_def service_get_job_def service_get_run_def
    service_get_release_decision_def service_list_job_attempts_def service_decision_distributions_def
  by (intro observes_intros)+

lemma ready_reads [observes_intros]: "observes (repository s) (ready s c)"
  unfolding ready_def by (intro observes_intros) (auto intro: observes_intros)

lemma within_suite_reads [observes_intros]: "observes (repository s) (within_suite s name revision f)"
  unfolding within_suite_def by (intro observes_intros)

lemma service_listings [observes_intros]:
  "observes (repository s) (service_list_datasets s st limit cursor name)"
  "observes (repository s) (service_list_suites s st limit cursor name)"
  "observes (repository s) (service_list_jobs s st limit cursor kind status)"
  "observes (repository s) (service_list_runs s st limit cursor name)"
  "observes (repository s) (service_list_release_decisions s st limit cursor rs order)"
  "observes (repository s) (service_list_suite_runs s st name' revision limit cursor target)"
  "observes (repository s) (service_list_suite_decisions s st name' revision limit cursor baseline candidate)"
  "observes (repository s) (service_list_suite_targets s name' revision limit cursor)"
  "observes (repository s) (service_list_suite_target_pairs s name' revision limit cursor)"
  unfolding service_list_datasets_def service_list_suites_def service_list_jobs_def service_list_runs_def
    service_list_release_decisions_def service_list_suite_runs_def service_list_suite_decisions_def
    service_list_suite_targets_def service_list_suite_target_pairs_def
  by (intro observes_intros)+

lemma service_cases_reads [observes_intros]:
  "observes (repository s) (service_list_release_decision_cases s did limit cursor metric g c wanted)"
  unfolding service_list_release_decision_cases_def
  by (intro observes_intros) (auto intro: observes_intros split: if_splits)

interpretation get_dataset_reader: reading_action "repository s" "service_get_dataset s name revision"
  for s name revision
  by unfold_locales (rule observes_intros)

interpretation get_run_reader: reading_action "repository s" "service_get_run s rid" for s rid
  by unfold_locales (rule observes_intros)

interpretation get_decision_reader: reading_action "repository s" "service_get_release_decision s did" for s did
  by unfold_locales (rule observes_intros)

section \<open>Effects and scopes of endpoints\<close>

text \<open>The scope that the effect of an endpoint calls for.\<close>

fun privilege :: "endpoint \<Rightarrow> control_plane_scope option" where
  "privilege GetLiveness = None"
| "privilege GetReadiness = None"
| "privilege GetMetrics = Some SCOPE_OBSERVABILITY"
| "privilege (CreateDataset _) = Some SCOPE_WRITE"
| "privilege (CreateSuite _) = Some SCOPE_WRITE"
| "privilege (SubmitRun _ _) = Some SCOPE_WRITE"
| "privilege (SubmitSuiteRun _ _) = Some SCOPE_WRITE"
| "privilege (SubmitComparison _ _) = Some SCOPE_WRITE"
| "privilege (SubmitSuiteComparison _ _) = Some SCOPE_WRITE"
| "privilege (RequestJobCancellation _) = Some SCOPE_CANCEL"
| "privilege _ = Some SCOPE_READ"

lemma perform_reads:
  assumes "privilege e \<notin> {Some SCOPE_WRITE, Some SCOPE_CANCEL}"
  shows "observes (repository (app_service app)) (perform app e)"
  using assms
  by (cases e)
    (simp_all add: route_liveness_def route_readiness_def route_metrics_def route_list_datasets_def
      route_get_dataset_def route_list_suites_def route_get_suite_def route_list_suite_runs_def
      route_list_suite_decisions_def route_list_suite_targets_def route_list_suite_target_pairs_def
      route_list_jobs_def route_get_job_def route_list_job_attempts_def route_list_runs_def route_get_run_def
      route_list_release_decisions_def route_list_release_decision_cases_def route_get_distributions_def
      route_get_release_decision_def observes_intros)

lemma accepted_privilege: "accept_endpoint e = Some e' \<Longrightarrow> privilege e' = privilege e"
  by (cases e) (auto simp: accepted_def split: if_splits sum.splits)

lemma cancellation_path:
  assumes "is_stable_id jid"
  shows "is_cancellation_path (''/v1/jobs/'' @ jid @ ''/cancellation'')"
proof -
  have "jid \<noteq> []" using assms matches_length[of _ _ _ jid] by (auto simp: is_stable_id_def)
  with assms show ?thesis by (simp add: is_cancellation_path_def Let_def)
qed

lemma fixed_paths:
  "\<not> is_cancellation_path ''/v1/datasets''" "\<not> is_cancellation_path ''/v1/suites''"
  "\<not> is_cancellation_path ''/v1/suite-runs''" "\<not> is_cancellation_path ''/v1/suite-comparisons''"
  "\<not> is_cancellation_path ''/v1/runs''" "\<not> is_cancellation_path ''/v1/comparisons''"
  by (simp_all add: is_cancellation_path_def Let_def)

text \<open>The scope the boundary asks for is the one the endpoint calls for.\<close>

lemma endpoint_scope:
  assumes "accept_endpoint e = Some e'" "scope_method s = Some (fst (endpoint_route text e))"
    and "Security.route_path s = Some (snd (endpoint_route text e))"
  shows "required_scope s = privilege e"
proof (cases "\<exists>jid. e = RequestJobCancellation jid")
  case True
  then obtain jid where e: "e = RequestJobCancellation jid" ..
  with assms(1) have "is_cancellation_path (''/v1/jobs/'' @ jid @ ''/cancellation'')"
    by (intro cancellation_path) (simp split: if_splits)
  with assms(2,3) e show ?thesis by (simp add: required_scope_def)
next
  case False
  with assms(2,3) show ?thesis by (cases e) (simp_all add: required_scope_def fixed_paths)
qed

text \<open>A router names an endpoint only for its own method and path.\<close>

definition routes_declared :: "(http_scope \<Rightarrow> string option \<Rightarrow> routing) \<Rightarrow> bool" where
  "routes_declared route \<longleftrightarrow> (\<forall>s body e report. route s body = Routed e report \<longrightarrow>
     (\<exists>text. scope_method s = Some (fst (endpoint_route text e)) \<and>
        Security.route_path s = Some (snd (endpoint_route text e))))"

lemma forwarded_scope:
  assumes "boundary cfg strict_json max_body rid s ms = Forwarded s' body"
  shows "scope_method s' = scope_method s" "Security.route_path s' = Security.route_path s"
    "fst (authorize cfg (set_state (\<lambda>d. d\<lparr>state_request_id := Some rid\<rparr>) s)) = None"
proof -
  have path: "Security.route_path (t\<lparr>scope_state := x\<rparr>) = Security.route_path t" for t x
  proof -
    have "scope_path (t\<lparr>scope_state := x\<rparr>) = scope_path t" "scope_root_path (t\<lparr>scope_state := x\<rparr>) = scope_root_path t"
      by simp_all
    then show ?thesis unfolding Security.route_path_def by (simp only:)
  qed
  have keep: "scope_method (snd (authorize cfg t)) = scope_method t \<and>
      Security.route_path (snd (authorize cfg t)) = Security.route_path t" for t
    by (simp add: authorize_def clear_principal_def path Let_def split: option.split prod.split)
  have state: "scope_method (set_state f t) = scope_method t"
      "Security.route_path (set_state f t) = Security.route_path t" for f t
    by (simp_all add: set_state_def path)
  let ?s = "set_state (\<lambda>d. d\<lparr>state_request_id := Some rid\<rparr>) s"
  obtain f t where a: "authorize cfg ?s = (f, t)" by (cases "authorize cfg ?s")
  show "scope_method s' = scope_method s" "Security.route_path s' = Security.route_path s"
    using assms a keep[of ?s] state
    by (auto simp: boundary_def Let_def set_auth_outcome_def split: option.splits sum.splits if_splits)
  show "fst (authorize cfg ?s) = None" using boundary_Forwarded[OF assms] by blast
qed

section \<open>What was registered is found\<close>

lemma put_dataset_stored:
  assumes "put_dataset env r db = Inr (r', db')" "validate_dataset (env_jcs env) (dataset r) = Inr (dataset r)"
    and "reads_back env (dataset_codec env) (dataset r)"
  shows "get_dataset env db' (dataset_name (dataset r)) (dataset_revision (dataset r)) = Inr r'"
proof -
  from assms(1) obtain b where b: "model_text env (dataset_codec env) (dataset r) = Inr b"
    "require_document_size env b = Inr ()" by (auto simp: put_dataset_def result_simps)
  let ?row = "dataset_row_of r b"
  show ?thesis
  proof (cases "insert_dataset ?row db")
    case (Inl e)
    with assms(1) b show ?thesis by (auto simp: put_dataset_def result_simps)
  next
    case (Inr x)
    have "List.find (\<lambda>q. dr_name q = dataset_name (dataset r) \<and> dr_revision q = dataset_revision (dataset r))
        (datasets_table db) = None"
      using Inr by (auto simp: find_None_all insert_dataset_def dataset_row_of_def split: if_splits)
    moreover have "datasets_table db' = datasets_table db @ [?row]" "r' = r"
      using Inr assms(1) b by (auto simp: put_dataset_def insert_dataset_def split: if_splits)
    moreover have "dataset_record_of env ?row = Inr r"
      using dataset_row_reads[OF b] assms(2,3) by simp
    ultimately show ?thesis by (simp add: get_dataset_def find_app) (simp add: dataset_row_of_def)
  qed
qed

lemma put_suite_stored:
  assumes "put_suite env r db = Inr (r', db')"
    and "validate_evaluation_suite (env_jcs env) (suite r) = Inr (suite r)"
    and "reads_back env (suite_codec env) (suite r)"
  shows "get_suite env db' (suite_name (suite r)) (suite_revision (suite r)) = Inr r'"
proof -
  from assms(1) obtain b where b: "model_text env (suite_codec env) (suite r) = Inr b"
    "require_document_size env b = Inr ()" by (auto simp: put_suite_def result_simps)
  let ?row = "suite_row_of r b"
  show ?thesis
  proof (cases "insert_suite ?row db")
    case (Inl e)
    with assms(1) b show ?thesis by (auto simp: put_suite_def result_simps)
  next
    case (Inr x)
    have "List.find (\<lambda>q. sr_name q = suite_name (suite r) \<and> sr_revision q = suite_revision (suite r))
        (suites_table db) = None"
      using Inr by (auto simp: find_None_all insert_suite_def suite_row_of_def Let_def split: if_splits)
    moreover have "suites_table db' = suites_table db @ [?row]" "r' = r"
      using Inr assms(1) b by (auto simp: put_suite_def insert_suite_def split: if_splits)
    moreover have "suite_record_of env ?row = Inr r"
      using suite_row_reads[OF b] assms(2,3) by simp
    ultimately show ?thesis by (simp add: get_suite_def find_app) (simp add: suite_row_of_def Let_def)
  qed
qed

section \<open>The evidence of a job that succeeded\<close>

lemma succeeded_evidence:
  assumes "db_inv db" "readable env db" "job_of db jid = Some j" "job_status j = SUCCEEDED"
  shows "job_kind j = RUN_JOB \<Longrightarrow> \<exists>r. get_run env db (resource_id j) = Inr r \<and> run_id (run_evidence r) = resource_id j"
    "job_kind j = COMPARISON_JOB \<Longrightarrow>
     \<exists>r. get_release_decision env db (resource_id j) = Inr r \<and> decision_id r = resource_id j"
proof -
  obtain row where row: "row \<in> set (jobs_table db)" "row_job row = j"
    using assms(3) find_job_row_Some by (force simp: job_of_def)
  have ev: "has_evidence db j"
    using db_inv_job[OF assms(1) row(1)] row(2) assms(4) by (simp add: job_row_inv_def)
  show "\<exists>r. get_run env db (resource_id j) = Inr r \<and> run_id (run_evidence r) = resource_id j"
    if "job_kind j = RUN_JOB"
  proof -
    from ev that obtain q where q: "List.find (\<lambda>r. rr_run_id r = resource_id j) (runs_table db) = Some q"
      by (cases "List.find (\<lambda>r. rr_run_id r = resource_id j) (runs_table db)")
        (auto simp: has_evidence_def find_None_all)
    then have "q \<in> set (runs_table db)" "rr_run_id q = resource_id j" using find_Some_mem[OF q] by simp_all
    moreover from this(1) assms(2) obtain r where "run_record_of env q = Inr r"
      by (auto simp: readable_def is_ok_iff)
    ultimately show ?thesis using q by (auto simp: get_run_def run_record_of_def result_simps)
  qed
  show "\<exists>r. get_release_decision env db (resource_id j) = Inr r \<and> decision_id r = resource_id j"
    if "job_kind j = COMPARISON_JOB"
  proof -
    from ev that obtain q where
      q: "List.find (\<lambda>r. dcr_decision_id r = resource_id j) (release_decisions_table db) = Some q"
      by (cases "List.find (\<lambda>r. dcr_decision_id r = resource_id j) (release_decisions_table db)")
        (auto simp: has_evidence_def find_None_all)
    then have "q \<in> set (release_decisions_table db)" "dcr_decision_id q = resource_id j"
      using find_Some_mem[OF q] by simp_all
    moreover from this(1) assms(2) obtain r where "release_decision_record_of env q = Inr r"
      by (auto simp: readable_def is_ok_iff)
    ultimately show ?thesis using q by (auto simp: get_release_decision_def release_decision_record_of_def result_simps)
  qed
qed

end
