(* ===== verification/ApplicationExample.thy ===== *)
theory ApplicationExample
  imports ApplicationFacts ListingExample BoundaryProperties
begin

text \<open>
  The demonstration deployment behind the HTTP application: a router that knows two routes, the
  repetition of the demonstration comparison, and a dataset posted to an empty store.
\<close>

definition demo_app :: application where
  "demo_app = \<lparr>app_service = demo_service, app_dialect = listing_dialect, app_trace = None,
     app_schema_current = True, app_metrics = (''text/plain'', []), app_casefold = map lower_char\<rparr>"

lemma demo_app_service [simp]: "app_service demo_app = demo_service"
  by (simp add: demo_app_def)

section \<open>A router\<close>

text \<open>It serves the list of jobs and answers every other path with 404.\<close>

definition jobs_router :: "http_scope \<Rightarrow> string option \<Rightarrow> routing" where
  "jobs_router s body = (if scope_method s = Some ''GET'' \<and> Security.route_path s = Some ''/v1/jobs''
     then Routed (ListJobs 10 None None None) [] else Unrouted 404 None)"

lemma jobs_routes_declared: "routes_declared jobs_router"
  by (simp add: routes_declared_def jobs_router_def)

lemma demo_drift: "store (drift demo_session n w) = store w"
  by (rule drift_alone) simp

section \<open>A comparison submitted again\<close>

definition demo_ref_input :: "artifact_kind \<Rightarrow> string \<Rightarrow> ref_input" where
  "demo_ref_input k n = \<lparr>ri_kind = k, ri_name = n, ri_revision = 1, ri_digest = demo_digest\<rparr>"

definition demo_body :: comparison_request where
  "demo_body = \<lparr>cq_dataset_name = ''ds'', cq_dataset_revision = 1, cq_baseline_run_id = ''b1'',
     cq_candidate_run_id = ''c1'', cq_spec = \<lparr>pi_name = ''policy'', pi_dataset = demo_ref_input DATASET ''ds'',
       pi_candidate = demo_ref_input TARGET ''new'', pi_baseline = demo_ref_input TARGET ''old'',
       pi_gates = [demo_gate]\<rparr>\<rparr>"

lemma demo_body_spec: "spec_to_domain (cq_spec demo_body) = Inr demo_spec"
  using demo_digest_shape
  by (simp add: spec_to_domain_def demo_body_def ref_to_domain_def demo_ref_input_def validate_artifact_ref_def
      validate_evaluation_spec_def demo_spec_def demo_ref_def demo_dataset_def dataset_ref_def demo_names
      is_artifact_name_def matches_def is_alnum_def is_alpha_def is_lower_def less_eq_char_def logical_key_def
      demo_gate_def)

lemma demo_body_submission: "comparison_submission_of demo_app ''key'' demo_body demo_spec = demo_submission"
  by (simp add: comparison_submission_of_def demo_body_def demo_submission_def demo_app_def)

section \<open>A posted dataset\<close>

definition posted_case :: case_input where
  "posted_case = \<lparr>ci_case_id = ''c1'', ci_input = JStr ''question'', ci_expected = Some (JStr ''answer''),
     ci_expected_refusal = False, ci_expected_schema = JNull, ci_numeric_tolerance = None, ci_slices = []\<rparr>"

definition posted_request :: dataset_request where
  "posted_request = \<lparr>dq_name = ''ds'', dq_revision = 1, dq_cases = [posted_case]\<rparr>"

lemma posted_request_fields: "dq_name posted_request = ''ds''" "dq_revision posted_request = 1"
  by (simp_all add: posted_request_def)

definition posted_dataset :: dataset_version where
  "posted_dataset = \<lparr>dataset_name = ''ds'', dataset_revision = 1, dataset_digest = demo_digest,
     dataset_cases = [\<lparr>case_id = ''c1'', case_input = JStr ''question'', expected = Some (JStr ''answer''),
       expected_refusal = False, expected_schema = None, numeric_tolerance = None, case_slices = []\<rparr>]\<rparr>"

definition posted_config :: store_config where
  "posted_config = demo_config\<lparr>dataset_codec := named_codec dataset_name (\<lambda>_. posted_dataset)\<rparr>"

definition posted_app :: application where
  "posted_app = demo_app\<lparr>app_service := demo_service\<lparr>repository := demo_session\<lparr>config := posted_config\<rparr>\<rparr>\<rparr>"

lemma posted_simps [simp]:
  "config_of (app_service posted_app) = posted_config" "env_jcs posted_config = named_jcs"
  "env_parse posted_config = (\<lambda>b. Some (JStr b))" "max_document_bytes posted_config = 1000"
  "dataset_codec posted_config = named_codec dataset_name (\<lambda>_. posted_dataset)"
  "others (repository (app_service posted_app)) = (\<lambda>_. [])"
  "delivery (repository (app_service posted_app)) n = Delivered"
  "config (repository (app_service posted_app)) = posted_config"
  "service_clock (app_service posted_app) = Aware 0 0"
  by (simp_all add: posted_app_def posted_config_def) (simp add: demo_service_def)

lemma posted_dataset_fields [simp]:
  "dataset_name posted_dataset = ''ds''" "dataset_revision posted_dataset = 1"
  "dataset_digest posted_dataset = demo_digest" "length (dataset_cases posted_dataset) = 1"
  by (simp_all add: posted_dataset_def)

lemma posted_domain: "dataset_to_domain posted_config posted_request = Inr posted_dataset"
proof -
  have "canonical_value posted_config (JStr s) = Inr (JStr s)" if "s \<noteq> []" for s
    using that by (simp add: canonical_value_def canonical_json_bytes_def)
  then have "case_to_domain posted_config posted_case = Inr (hd (dataset_cases posted_dataset))"
    by (simp add: case_to_domain_def posted_case_def optional_value_def validate_evaluation_case_def
        normalize_slices_def has_duplicates_def validate_expectations_def posted_dataset_def demo_names)
  moreover have "calculate_dataset_digest named_jcs cs = Inr demo_digest" for cs
    by (simp add: calculate_dataset_digest_def dataset_content_def named_sha256 Let_def)
  ultimately show ?thesis
    using demo_digest_shape
    by (simp add: dataset_to_domain_def posted_request_def create_dataset_def validate_dataset_def
        normalize_dataset_def normalize_cases_def posted_dataset_def is_artifact_name_def matches_def
        is_alnum_def is_alpha_def is_lower_def less_eq_char_def)
qed

lemma posted_text:
  "model_text posted_config (named_codec dataset_name (\<lambda>_. posted_dataset)) posted_dataset = Inr ''ds''"
  by (simp add: model_text_def canonical_json_bytes_def posted_dataset_def)

lemma posted_reads: "reads_back posted_config (dataset_codec posted_config) posted_dataset"
  by (simp add: reads_back_def posted_text canonical_json_bytes_def)

definition posted_record :: dataset_record where
  "posted_record = \<lparr>dataset = posted_dataset, dataset_created_at = 0\<rparr>"

definition posted_db :: db where
  "posted_db = empty_db\<lparr>datasets_table := [dataset_row_of posted_record ''ds'']\<rparr>"

lemma posted_put: "put_dataset posted_config posted_record empty_db = Inr (posted_record, posted_db)"
  by (simp add: put_dataset_def posted_record_def posted_text require_document_size_def insert_dataset_def
      dataset_row_of_def dataset_row_ok_def demo_digest_length empty_db_def posted_db_def)

lemma posted_answer:
  "perform posted_app (CreateDataset posted_request) \<lparr>store = empty_db, calls = 0\<rparr> =
     (Inr (created (DatasetDocument (dataset_response_of posted_record))), \<lparr>store = posted_db, calls = 1\<rparr>)"
proof -
  have "validate_dataset_bounds posted_dataset = Inr ()"
    by (simp add: validate_dataset_bounds_def posted_dataset_def dataset_slices_def)
  moreover have "call (repository (app_service posted_app)) (\<lambda>_. put_dataset posted_config posted_record)
      \<lparr>store = empty_db, calls = 0\<rparr> = (Inr posted_record, \<lparr>store = posted_db, calls = 1\<rparr>)"
    by (simp add: call_Inr met_def history_def posted_put)
  ultimately show ?thesis
    by (simp add: route_create_dataset_def posted_domain register_dataset_def respond_def timestamp_field_def
        utc_def abind_def acatch_def posted_record_def)
qed

end
