(* ===== verification/ApplicationProperties.thy ===== *)
theory ApplicationProperties
  imports ApplicationExample
begin

text \<open>
  The guarantees of the HTTP application, from the bytes of a request to its answer: who may change
  the store, what a submission and its repetitions are answered, that what was registered is served,
  and what an error discloses.
\<close>

section \<open>Privileges\<close>

lemma granted_state:
  "granted cfg (set_state f s) r p = granted cfg s r p"
  by simp

lemma required_scope_cong:
  "scope_method s' = scope_method s \<Longrightarrow> Security.route_path s' = Security.route_path s \<Longrightarrow>
   required_scope s' = required_scope s"
  unfolding required_scope_def by (simp only:)

lemma run_endpoint_reads:
  assumes "run_endpoint app s routed w = (a, w')"
  shows "(\<exists>n. w' = drift (repository (app_service app)) n w) \<or>
    (\<exists>e e' report. routed = Routed e report \<and> accept_endpoint e = Some e' \<and> w' = snd (perform app e' w) \<and>
       privilege e \<in> {Some SCOPE_WRITE, Some SCOPE_CANCEL})"
proof (cases "\<exists>e e' report. routed = Routed e report \<and> accept_endpoint e = Some e'")
  case False
  with assms have "w' = w" by (cases routed) (auto simp: run_endpoint_def split: option.splits)
  then show ?thesis by (metis drift.simps(1))
next
  case True
  then obtain e e' report where e: "routed = Routed e report" "accept_endpoint e = Some e'" by blast
  obtain r v where p: "perform app e' w = (r, v)" by (cases "perform app e' w")
  have w': "w' = snd (perform app e' w)" using assms e p by (cases r) (simp_all add: run_endpoint_def)
  show ?thesis
  proof (cases "privilege e \<in> {Some SCOPE_WRITE, Some SCOPE_CANCEL}")
    case True
    with e w' show ?thesis by blast
  next
    case False
    then have "observes (repository (app_service app)) (perform app e')"
      using perform_reads accepted_privilege[OF e(2)] by simp
    with w' show ?thesis unfolding observes_def by blast
  qed
qed

text \<open>
  C26. Least privilege, from the bytes of a request to the tables: whatever a request holds, the store
  changes no further than other clients change it meanwhile, unless its bearer token is that of a
  registered principal with the write scope; or one with the cancel scope, and then the request does
  what cancelling one job does. The router is only relied on to name an endpoint for its own method
  and path.
\<close>

theorem requests_least_privilege:
  assumes "validate_registry cfg = Inr cfg'" "routes_declared route"
    and "serve app cfg strict_json max_body route rid s ms w = (a, w')"
  shows "(\<exists>n. w' = drift (repository (app_service app)) n w) \<or>
    (\<exists>p. granted cfg s SCOPE_WRITE p) \<or>
    (\<exists>p jid. granted cfg s SCOPE_CANCEL p \<and> w' = snd (service_cancel_job (app_service app) jid w))"
proof (cases "\<exists>s' body. boundary cfg strict_json max_body rid s ms = Forwarded s' body")
  case False
  with assms(3) have "w' = w" by (auto simp: serve_def split: boundary_outcome.splits)
  then show ?thesis by (metis drift.simps(1))
next
  case True
  then obtain s' body where fwd: "boundary cfg strict_json max_body rid s ms = Forwarded s' body" by blast
  note F = forwarded_scope[OF fwd]
  obtain b where "run_endpoint app s' (route s' body) w = (b, w')"
    using assms(3) fwd by (auto simp: serve_def split: prod.splits)
  from run_endpoint_reads[OF this] consider
      n where "w' = drift (repository (app_service app)) n w"
    | e e' report where "route s' body = Routed e report" "accept_endpoint e = Some e'"
        "w' = snd (perform app e' w)" "privilege e \<in> {Some SCOPE_WRITE, Some SCOPE_CANCEL}" by blast
  then show ?thesis
  proof cases
    case 1
    then show ?thesis by blast
  next
    case 2
    obtain shown where at: "scope_method s' = Some (fst (endpoint_route shown e))"
      "Security.route_path s' = Some (snd (endpoint_route shown e))"
      using assms(2) 2(1) unfolding routes_declared_def by blast
    have "required_scope s = privilege e"
      using endpoint_scope[OF 2(2) at] required_scope_cong[OF F(1,2)] by simp
    then obtain p where p: "granted cfg s (the (privilege e)) p"
      using authorize_cases(1)[OF assms(1)] F(3) 2(4) by fastforce
    show ?thesis
    proof (cases "privilege e = Some SCOPE_WRITE")
      case True
      with p show ?thesis by auto
    next
      case False
      with 2(4) have c: "privilege e = Some SCOPE_CANCEL" by simp
      then obtain jid where "e' = RequestJobCancellation jid"
        using accepted_privilege[OF 2(2)] by (cases e') simp_all
      then have "w' = snd (service_cancel_job (app_service app) jid w)"
        using 2(3) by (simp add: route_request_job_cancellation_def respond_def abind_def split: prod.split sum.split)
      with p c show ?thesis by auto
    qed
  qed
qed

text \<open>A reader that posts is refused, and a reader that lists the jobs reads: neither changes the store.\<close>

theorem requests_least_privilege_witness:
  "\<forall>m ms. store (snd (serve demo_app reader_registry (\<lambda>_. True) 100 jobs_router ''r'' (reader_request m) ms
     (demo_world 0))) = demo_db"
proof (intro allI)
  fix m ms
  obtain a w' where run: "serve demo_app reader_registry (\<lambda>_. True) 100 jobs_router ''r'' (reader_request m) ms
      (demo_world 0) = (a, w')" by fastforce
  from requests_least_privilege[OF reader_valid jobs_routes_declared run] obtain n
    where "w' = drift demo_session n (demo_world 0)" by (auto simp: reader_granted)
  then show "store (snd (serve demo_app reader_registry (\<lambda>_. True) 100 jobs_router ''r'' (reader_request m) ms
      (demo_world 0))) = demo_db"
    using run demo_drift[of n "demo_world 0"] by simp
qed

section \<open>Submissions\<close>

text \<open>The submission an endpoint makes.\<close>

fun submission_of :: "application \<Rightarrow> endpoint \<Rightarrow> submission option" where
  "submission_of app (SubmitRun key q) = Some (RunSubmission (run_submission_of app key q))"
| "submission_of app (SubmitSuiteRun key q) = Some (SuiteRunSubmission (suite_run_submission_of app key q))"
| "submission_of app (SubmitSuiteComparison key q) =
     Some (SuiteComparisonSubmission (suite_comparison_submission_of app key q))"
| "submission_of app (SubmitComparison key q) = (case spec_to_domain (cq_spec q) of
     Inl _ \<Rightarrow> None | Inr spec \<Rightarrow> Some (ComparisonSubmission (comparison_submission_of app key q spec)))"
| "submission_of app _ = None"

text \<open>The job a submission document reports, and the identifier of the evidence it carries.\<close>

fun reported_job :: "document \<Rightarrow> job_response option" where
  "reported_job (RunSubmissionDocument d) = Some (su_job d)"
| "reported_job (ComparisonSubmissionDocument d) = Some (su_job d)"
| "reported_job _ = None"

fun reported_evidence :: "document \<Rightarrow> string option" where
  "reported_evidence (RunSubmissionDocument d) = map_option ro_run_id (su_evidence d)"
| "reported_evidence (ComparisonSubmissionDocument d) = map_option eo_decision_id (su_evidence d)"
| "reported_evidence _ = None"

lemma perform_submission:
  assumes "submission_of app e = Some x"
  shows "perform app e = (if submission_kind x = RUN_JOB
      then submission_reply ''run-submission/v2'' RunSubmissionDocument (run_evidence_of app)
        (submit_any (app_service app) x)
      else submission_reply ''comparison-submission/v2'' ComparisonSubmissionDocument (decision_evidence_of app)
        (submit_any (app_service app) x))"
  using assms
  by (cases e)
    (auto simp: route_submit_run_def route_submit_suite_run_def route_submit_comparison_def
      route_submit_suite_comparison_def abind_def alift_def fun_eq_iff split: sum.splits)

lemma evidence_read:
  assumes "delivery (repository (app_service app)) (calls w) = Delivered"
  shows "get_run (config_of (app_service app)) (met (repository (app_service app)) w) rid = Inr r \<Longrightarrow>
      run_evidence_of app rid w = (Inr (run_response_of r), drift (repository (app_service app)) 1 w)"
    "get_release_decision (config_of (app_service app)) (met (repository (app_service app)) w) rid = Inr d \<Longrightarrow>
      decision_evidence_of app rid w = (Inr (decision_response_of d), drift (repository (app_service app)) 1 w)"
proof -
  let ?s = "app_service app"
  show "run_evidence_of app rid w = (Inr (run_response_of r), drift (repository ?s) 1 w)"
    if "get_run (config_of ?s) (met (repository ?s) w) rid = Inr r"
  proof -
    have "query (repository ?s) (\<lambda>db. get_run (config_of ?s) db rid) w = (Inr r, drift (repository ?s) 1 w)"
      using assms that by (simp add: query_Inr)
    then show ?thesis by (simp add: run_evidence_of_def service_get_run_def read_run_def abind_def acatch_def)
  qed
  show "decision_evidence_of app rid w = (Inr (decision_response_of d), drift (repository ?s) 1 w)"
    if "get_release_decision (config_of ?s) (met (repository ?s) w) rid = Inr d"
  proof -
    have "query (repository ?s) (\<lambda>db. get_release_decision (config_of ?s) db rid) w =
        (Inr d, drift (repository ?s) 1 w)"
      using assms that by (simp add: query_Inr)
    then show ?thesis
      by (simp add: decision_evidence_of_def service_get_release_decision_def abind_def acatch_def)
  qed
qed

text \<open>
  C27. A repeated submission is answered from the store: when a job under its idempotency key is stored,
  a submission of the same content (any of the four routes) is answered with that job and its path, with status
  200 once the job has ended and 202 before, and with the stored evidence of the job exactly when it has
  succeeded; other content under the key is a conflict. The evidence is never missing.
\<close>

theorem resubmission_answered:
  fixes app :: application and w :: world
  defines "s \<equiv> app_service app"
  defines "db \<equiv> met (repository s) w" and "w1 \<equiv> drift (repository s) 1 w"
  assumes "db_inv (store w)" "readable (config_of s) db" "readable (config_of s) (met (repository s) w1)"
    and "delivery (repository s) (calls w) = Delivered" "delivery (repository s) (Suc (calls w)) = Delivered"
    and "submission_of app e = Some x" "row \<in> set (jobs_table db)"
    and "idempotency_index row = (submission_kind x, submission_key x)"
    and "sha256_digest (env_jcs (config_of s)) (submission_record s x) = Inr digest"
  shows "if request_digest (row_job row) = digest
    then \<exists>r n. perform app e w = (Inr r, drift (repository s) n w) \<and>
      reply_status r = (if job_status (row_job row) \<in> {SUCCEEDED, FAILED, CANCELED} then 200 else 202) \<and>
      reply_headers r = [(''Location'', ''/v1/jobs/'' @ job_id (row_job row))] \<and>
      reported_job (reply_document r) = Some (job_response_of (row_job row)) \<and>
      reported_evidence (reply_document r) =
        (if job_status (row_job row) = SUCCEEDED then Some (resource_id (row_job row)) else None)
    else fst (perform app e w) =
      Inl (IdempotencyConflictError ''Idempotency key was used for a different request'')"
proof -
  let ?j = "row_job row" and ?kind = "submission_kind x"
  have inv: "db_inv db" unfolding db_def by (rule met_inv[OF assms(4)])
  have found: "get_job_by_idempotency (config_of s) db ?kind (submission_key x) = Inr ?j"
    by (rule get_job_by_idempotency_found[OF inv assms(5) assms(10,11)])
  have replay: "submit_any s x w = (if request_digest ?j = digest
      then Inr \<lparr>result_job = ?j, result_created = False\<rparr>
      else Inl (IdempotencyConflictError ''Idempotency key was used for a different request''), w1)"
    using submit_replayed[OF assms(7) found[unfolded db_def] assms(12)] by (simp add: w1_def)
  note route = perform_submission[OF assms(9), folded s_def]
  show ?thesis
  proof (cases "request_digest ?j = digest")
    case False
    with route replay show ?thesis by (simp add: submission_reply_def)
  next
    case True
    with replay have sub: "submit_any s x w = (Inr \<lparr>result_job = ?j, result_created = False\<rparr>, w1)" by simp
    have kind: "job_kind ?j = ?kind" using assms(11) by (simp add: idempotency_index_def)
    show ?thesis
    proof (cases "job_status ?j = SUCCEEDED")
      case ended: True
      have inv1: "db_inv (store w1)" "db_inv (met (repository s) w1)"
        using inv met_inv by (simp_all add: w1_def db_def)
      have stored: "job_of db (job_id ?j) = Some ?j" using job_of_row[OF inv assms(10)] by simp
      note found = succeeded_evidence[OF inv assms(5) stored ended]
      have ext: "evidence_extends db (met (repository s) w1)"
        using store_steps_evidence[OF met_steps[OF inv1(1)]] by (simp add: w1_def db_def)
      have del: "delivery (repository s) (calls w1) = Delivered" using assms(8) by (simp add: w1_def)
      note read = evidence_read[of app w1, folded s_def, OF del]
      have two: "drift (repository s) 1 w1 = drift (repository s) 2 w" by (simp add: w1_def numeral_2_eq_2)
      show ?thesis
      proof (cases "?kind = RUN_JOB")
        case True
        with found(1) kind obtain r where r: "get_run (config_of s) db (resource_id ?j) = Inr r"
          "run_id (run_evidence r) = resource_id ?j" by auto
        note ev = read(1)[OF get_run_stable[OF r(1) ext]]
        show ?thesis
          using route True sub ended \<open>request_digest ?j = digest\<close> ev r(2) two
          by (auto simp: submission_reply_def submission_status_def Let_def run_response_of_def abind_def)
      next
        case False
        then have "?kind = COMPARISON_JOB" by (cases ?kind) simp_all
        with found(2) kind obtain r where r: "get_release_decision (config_of s) db (resource_id ?j) = Inr r"
          "decision_id r = resource_id ?j" by auto
        note ev = read(2)[OF get_release_decision_stable[OF r(1) ext]]
        show ?thesis
          using route False sub ended \<open>request_digest ?j = digest\<close> ev r(2) two
          by (auto simp: submission_reply_def submission_status_def Let_def decision_response_of_def abind_def)
      qed
    next
      case False
      with route sub \<open>request_digest ?j = digest\<close> show ?thesis
        by (auto simp: submission_reply_def submission_status_def Let_def abind_def w1_def
            intro!: exI[of _ "Suc 0"])
    qed
  qed
qed

text \<open>The demonstration comparison, submitted again while it is queued.\<close>

theorem resubmission_answered_witness:
  "\<exists>r n. perform demo_app (SubmitComparison ''key'' demo_body) \<lparr>store = demo_job_db, calls = 0\<rparr> =
      (Inr r, drift demo_session n \<lparr>store = demo_job_db, calls = 0\<rparr>) \<and>
    reply_status r = 202 \<and> reported_job (reply_document r) = Some (job_response_of demo_job)"
proof -
  let ?w = "\<lparr>store = demo_job_db, calls = 0\<rparr> :: world"
  have met: "met demo_session v = store v" for v by (simp add: met_def history_def)
  have row: "\<lparr>row_job = demo_job, row_version = 0\<rparr> \<in> set (jobs_table demo_job_db)"
    by (simp add: demo_job_db_def)
  have sub: "submission_of demo_app (SubmitComparison ''key'' demo_body) =
      Some (ComparisonSubmission demo_submission)"
    by (simp add: demo_body_spec demo_body_submission)
  have job: "request_digest demo_job = demo_digest" "job_status demo_job = QUEUED" by (simp_all add: demo_job_def)
  show ?thesis
    using resubmission_answered[of ?w demo_app "SubmitComparison ''key'' demo_body" _
        "\<lparr>row_job = demo_job, row_version = 0\<rparr>" demo_digest, OF _ _ _ _ _ sub]
      demo_job_stored row job demo_digest_record
    by (auto simp: met demo_drift idempotency_index_def demo_job_def demo_submission_def)
qed

section \<open>Registration\<close>

text \<open>The request that reads back what an endpoint registers.\<close>

fun registered_at :: "endpoint \<Rightarrow> endpoint option" where
  "registered_at (CreateDataset q) = Some (GetDataset (dq_revision q) (dq_name q))"
| "registered_at (CreateSuite q) = Some (GetSuite (sq_revision q) (sq_name q))"
| "registered_at _ = None"

text \<open>Pydantic reads its own dump of the posted revision back.\<close>

fun posted_reads_back :: "store_config \<Rightarrow> endpoint \<Rightarrow> bool" where
  "posted_reads_back env (CreateDataset q) =
     (case dataset_to_domain env q of Inl _ \<Rightarrow> True | Inr d \<Rightarrow> reads_back env (dataset_codec env) d)"
| "posted_reads_back env (CreateSuite q) =
     (case suite_to_domain env q of Inl _ \<Rightarrow> True | Inr x \<Rightarrow> reads_back env (suite_codec env) x)"
| "posted_reads_back env _ = True"

lemma dataset_to_domain_Inr:
  assumes "dataset_to_domain env q = Inr d"
  shows "validate_dataset (env_jcs env) d = Inr d" "dataset_name d = dq_name q" "dataset_revision d = dq_revision q"
proof -
  from assms obtain cs where c: "create_dataset (env_jcs env) (dq_name q) (dq_revision q) cs = Inr d"
    by (auto simp: dataset_to_domain_def result_simps)
  then show "validate_dataset (env_jcs env) d = Inr d"
    by (auto simp: create_dataset_def result_simps intro: dataset_model.validate_stable)
  from c show "dataset_name d = dq_name q" "dataset_revision d = dq_revision q"
    by (auto simp: create_dataset_def validate_dataset_def normalize_dataset_def result_simps split: if_splits)
qed

lemma suite_to_domain_Inr:
  assumes "suite_to_domain env q = Inr x"
  shows "validate_evaluation_suite (env_jcs env) x = Inr x" "suite_name x = sq_name q" "suite_revision x = sq_revision q"
proof -
  from assms obtain y where c: "create_suite (env_jcs env) y = Inr x" "suite_name y = sq_name q"
    "suite_revision y = sq_revision q"
    by (auto simp: suite_to_domain_def result_simps)
  then show "validate_evaluation_suite (env_jcs env) x = Inr x" by (blast intro: suite_model.create_stable)
  from c show "suite_name x = sq_name q" "suite_revision x = sq_revision q"
    by (auto simp: create_suite_def validate_evaluation_suite_def normalize_suite_def normalize_suite_fields_def
        result_simps split: if_splits)
qed

lemma registered_dataset:
  assumes "register_dataset s d w = (Inr r, w')" "validate_dataset (env_jcs (config_of s)) d = Inr d"
    and "reads_back (config_of s) (dataset_codec (config_of s)) d"
  shows "get_dataset (config_of s) (store w') (dataset_name d) (dataset_revision d) = Inr r"
proof -
  from assms(1) obtain now where "put_dataset (config_of s) \<lparr>dataset = d, dataset_created_at = now\<rparr>
      (met (repository s) w) = Inr (r, store w')"
    by (auto simp: register_dataset_def act_iffs call_Inr)
  from put_dataset_stored[OF this] assms(2,3) show ?thesis by simp
qed

lemma registered_suite:
  assumes "register_suite s x w = (Inr r, w')" "validate_evaluation_suite (env_jcs (config_of s)) x = Inr x"
    and "reads_back (config_of s) (suite_codec (config_of s)) x"
  shows "get_suite (config_of s) (store w') (suite_name x) (suite_revision x) = Inr r"
proof -
  from assms(1) consider
      "get_suite (config_of s) (store w') (suite_name x) (suite_revision x) = Inr r"
    | now v where "put_suite (config_of s) \<lparr>suite = x, suite_created_at = now\<rparr> (met (repository s) v) =
        Inr (r, store w')"
    by (auto simp: register_suite_def act_iffs call_Inr acatch_Inr_iff read_suite_def query_Inr
        split: option.splits if_splits)
  then show ?thesis using put_suite_stored assms(2,3) by cases fastforce+
qed

lemma later_evidence:
  assumes "db_inv (store w')" "store w2 = history env cs (store w')"
  shows "evidence_extends (store w') (met s w2)"
proof -
  have "store_step\<^sup>*\<^sup>* (store w') (store w2)" using history_steps[OF assms(1)] assms(2) by simp
  moreover have "db_inv (store w2)" using history_inv[OF assms(1)] assms(2) by simp
  then have "store_step\<^sup>*\<^sup>* (store w2) (met s w2)" by (rule met_steps)
  ultimately show ?thesis by (blast intro: store_steps_evidence rtranclp_trans)
qed

lemma revision_read:
  assumes "delivery (repository s) (calls w) = Delivered"
  shows "get_dataset (config_of s) (met (repository s) w) name revision = Inr d \<Longrightarrow>
      service_get_dataset s name revision w = (Inr d, drift (repository s) 1 w)"
    "get_suite (config_of s) (met (repository s) w) name revision = Inr x \<Longrightarrow>
      service_get_suite s name revision w = (Inr x, drift (repository s) 1 w)"
  using assms by (simp_all add: service_get_dataset_def service_get_suite_def read_dataset_def read_suite_def query_Inr)

text \<open>
  C28. What was registered is served: after a revision of a dataset or a suite was posted and answered,
  every later request for it is answered, with status 200, by the document the posting was answered
  with, whatever clients commit in between. Pydantic is relied on to read its own dump back.
\<close>

theorem registered_revisions_served:
  fixes app :: application
  defines "s \<equiv> app_service app"
  assumes "db_inv (store w)" "perform app e w = (Inr r, w')" "registered_at e = Some g"
    and "posted_reads_back (config_of s) e"
    and "store w2 = history (config_of s) cs (store w')" "delivery (repository s) (calls w2) = Delivered"
  shows "reply_status r = 201 \<and>
    perform app g w2 = (Inr (ok (reply_document r)), drift (repository s) 1 w2)"
proof (cases e)
  case (CreateDataset q)
  with assms(3) obtain d k where d: "dataset_to_domain (config_of s) q = Inr d"
    "register_dataset s d w = (Inr k, w')" "r = created (DatasetDocument (dataset_response_of k))"
    by (auto simp: route_create_dataset_def respond_def act_iffs s_def)
  note D = dataset_to_domain_Inr[OF d(1)]
  have inv: "db_inv (store w')" using register_dataset_client.keeps_invariant[OF assms(2), of s d] d(2) by simp
  have "get_dataset (config_of s) (store w') (dq_name q) (dq_revision q) = Inr k"
    using registered_dataset[OF d(2) D(1)] D(2,3) assms(5) CreateDataset d(1) by simp
  note revision_read(1)[OF assms(7) get_dataset_stable[OF this later_evidence[OF inv assms(6)]]]
  with d(3) assms(4) CreateDataset show ?thesis
    by (auto simp: route_get_dataset_def respond_def abind_def created_def ok_def s_def)
next
  case (CreateSuite q)
  with assms(3) obtain x k where x: "suite_to_domain (config_of s) q = Inr x"
    "register_suite s x w = (Inr k, w')" "r = created (SuiteDocument (suite_response_of k))"
    by (auto simp: route_create_suite_def respond_def act_iffs s_def)
  note X = suite_to_domain_Inr[OF x(1)]
  have inv: "db_inv (store w')" using register_suite_client.keeps_invariant[OF assms(2), of s x] x(2) by simp
  have "get_suite (config_of s) (store w') (sq_name q) (sq_revision q) = Inr k"
    using registered_suite[OF x(2) X(1)] X(2,3) assms(5) CreateSuite x(1) by simp
  note revision_read(2)[OF assms(7) get_suite_stable[OF this later_evidence[OF inv assms(6)]]]
  with x(3) assms(4) CreateSuite show ?thesis
    by (auto simp: route_get_suite_def respond_def abind_def created_def ok_def s_def)
qed (use assms(4) in auto)

text \<open>A dataset posted to an empty store, and read back.\<close>

theorem registered_revisions_served_witness:
  "fst (perform posted_app (GetDataset 1 ''ds'') \<lparr>store = posted_db, calls = 1\<rparr>) =
     Inr (ok (DatasetDocument (dataset_response_of posted_record)))"
  using registered_revisions_served[OF _ posted_answer, of _ "\<lparr>store = posted_db, calls = 1\<rparr>" "[]"]
    posted_reads db_inv_empty
  by (simp add: posted_request_fields history_def posted_domain created_def ok_def)

section \<open>Errors\<close>

text \<open>The messages that are not those of the service.\<close>

definition fixed_messages :: "string list" where
  "fixed_messages =
     [''Request failed contract validation'', ''Control-plane persistence is unavailable'',
      ''Request could not be completed'', ''Route was not found'', ''HTTP method is not allowed'',
      ''HTTP request could not be completed'']"

text \<open>A detail names fields of the contract, positions and a pydantic error type only.\<close>

definition detail_safe :: "error_detail \<Rightarrow> bool" where
  "detail_safe d \<longleftrightarrow> is_safe_error_type (detail_type d) \<and> (\<forall>l \<in> set (detail_location d).
     (\<exists>n. l = LocationIndex n) \<or> l \<in> LocationText ` insert ''item'' (set safe_locations))"

lemma validation_detail_safe: "detail_safe (validation_detail casefold i)"
proof -
  have "(\<exists>n. l = LocationIndex n) \<or> l \<in> LocationText ` insert ''item'' (set safe_locations)"
    if "l \<in> set (map (safe_location casefold) (item_location i))" for l
  proof -
    from that obtain x where x: "l = safe_location casefold x" by auto
    show ?thesis unfolding x by (cases x) auto
  qed
  moreover have "is_safe_error_type ''validation_error''" by code_simp
  ultimately show ?thesis
    by (auto simp: detail_safe_def validation_detail_def split: option.split)
qed

text \<open>
  C29. Error answers disclose nothing but their kind: whatever goes wrong, the answer is an error document
  with the request's own identifier, one of a closed set of codes and at most 32 details, each of which names
  fields of the contract, positions and a type of error. Its message is a constant of the application,
  or that of an error the service raised deliberately; every other exception is reported by its class alone.
  The code is recorded for telemetry with the answer.
\<close>

theorem error_answers_closed:
  assumes "run_endpoint app s routed w = ((s', a), w')" "answer_body a = AnswerError report"
  shows "\<exists>p. report = problem_document p (request_id_from_scope s) \<and>
    answer_status a = problem_status p \<and> answer_headers a = problem_headers p \<and>
    s' = set_error_code s (problem_code p) \<and> problem_code p \<in> insert ''http_error'' (set error_codes) \<and>
    length (problem_details p) \<le> 32 \<and> list_all detail_safe (problem_details p) \<and>
    (problem_message p \<in> set fixed_messages \<or> (\<exists>e e' shown x. routed = Routed e shown \<and>
       accept_endpoint e = Some e' \<and> fst (perform app e' w) = Inl x \<and> service_problem x = Some p))"
proof -
  have service: "problem_code p \<in> set error_codes \<and> problem_details p = []" if "service_problem x = Some p" for x p
    using that by (cases x) (auto simp: plain_problem_def error_codes_def)
  have raised: "problem_code (exception_problem x) \<in> set error_codes \<and> problem_details (exception_problem x) = [] \<and>
      (problem_message (exception_problem x) \<in> set fixed_messages \<or> service_problem x = Some (exception_problem x))"
    for x
    using service[of x]
    by (cases "service_problem x") (simp_all add: exception_problem_def plain_problem_def error_codes_def fixed_messages_def)
  have rejected: "problem_code (validation_problem c items) \<in> set error_codes \<and>
      length (problem_details (validation_problem c items)) \<le> 32 \<and>
      list_all detail_safe (problem_details (validation_problem c items)) \<and>
      problem_message (validation_problem c items) \<in> set fixed_messages" for c items
    by (auto simp: validation_problem_def plain_problem_def error_codes_def fixed_messages_def list_all_iff
        validation_detail_safe)
  have http: "problem_code (http_problem c n hs) \<in> insert ''http_error'' (set error_codes) \<and>
      problem_details (http_problem c n hs) = [] \<and> problem_message (http_problem c n hs) \<in> set fixed_messages" for c n hs
    by (simp add: http_problem_def plain_problem_def error_codes_def fixed_messages_def)
  have answered: "report = problem_document p (request_id_from_scope s) \<and>
      answer_status a = problem_status p \<and> answer_headers a = problem_headers p \<and> s' = set_error_code s (problem_code p)"
    if "problem_answer s p = (s', a)" for p
    using that assms(2) by (auto simp: problem_answer_def)
  show ?thesis
  proof (cases routed)
    case (Unrouted n hs)
    with assms(1) have "problem_answer s (http_problem (app_casefold app) n hs) = (s', a)"
      by (simp add: run_endpoint_def)
    from answered[OF this] http[of "app_casefold app" n hs] show ?thesis by (intro exI) auto
  next
    case (Malformed items)
    with assms(1) have "problem_answer s (validation_problem (app_casefold app) items) = (s', a)"
      by (simp add: run_endpoint_def)
    from answered[OF this] rejected[of "app_casefold app" items] show ?thesis by (intro exI) auto
  next
    case (Routed e items)
    show ?thesis
    proof (cases "accept_endpoint e")
      case None
      with assms(1) Routed have "problem_answer s (validation_problem (app_casefold app) items) = (s', a)"
        by (simp add: run_endpoint_def)
      from answered[OF this] rejected[of "app_casefold app" items] show ?thesis by (intro exI) auto
    next
      case (Some e')
      show ?thesis
      proof (cases "perform app e' w")
        case (Pair r v)
        with assms Routed Some obtain x where x: "r = Inl x" "problem_answer s (exception_problem x) = (s', a)"
          by (cases r) (auto simp: run_endpoint_def reply_answer_def)
        from answered[OF x(2)] raised[of x] Routed Some Pair x(1) show ?thesis by (intro exI) auto
      qed
    qed
  qed
qed

text \<open>A path without a route.\<close>

theorem error_answers_closed_witness:
  "\<exists>p. snd (fst (run_endpoint demo_app (reader_request ''GET'') (Unrouted 404 None) (demo_world 0))) =
      \<lparr>answer_status = 404, answer_headers = [],
       answer_body = AnswerError (problem_document p (request_id_from_scope (reader_request ''GET'')))\<rparr> \<and>
    problem_code p \<in> insert ''http_error'' (set error_codes)"
  using error_answers_closed[of demo_app "reader_request ''GET''" "Unrouted 404 None" "demo_world 0"]
  by (auto simp: run_endpoint_def problem_answer_def http_problem_def safe_http_headers_def plain_problem_def)

end
